(* ===== verification/Prelude.thy ===== *)
theory Prelude
  imports Main "HOL-Library.AList" "HOL-Library.Monad_Syntax"
begin

text \<open>
  What every component shares: Go maps as association lists with distinct keys, the
  reading of a Go run-time crash as \<^const>\<open>None\<close>, time stamps, and the generic facts on
  folding over the values of a map.

  A Go map is a list of key/value pairs whose keys are distinct (\<open>mwf\<close>). The list order
  stands for the order in which \<^verbatim>\<open>range\<close> happens to visit the entries, which Go leaves
  unspecified; every statement quantifies over the list, so over all visiting orders.
  Reading a key is \<^const>\<open>map_of\<close>, writing is \<^const>\<open>AList.update\<close>, \<^verbatim>\<open>delete\<close>
  is \<^const>\<open>AList.delete\<close>.
\<close>

named_theorems gomap_simps \<open>reading a map after a write, a delete or a fold\<close>
named_theorems wf_intros \<open>well-formedness is kept by the operations\<close>

section \<open>Go maps\<close>

type_synonym ('k, 'v) gomap = "('k \<times> 'v) list"

abbreviation mget :: "('k, 'v) gomap \<Rightarrow> 'k \<Rightarrow> 'v option" where
  "mget m k \<equiv> map_of m k"

abbreviation mput :: "'k \<Rightarrow> 'v \<Rightarrow> ('k, 'v) gomap \<Rightarrow> ('k, 'v) gomap" where
  "mput k v m \<equiv> AList.update k v m"

abbreviation mdel :: "'k \<Rightarrow> ('k, 'v) gomap \<Rightarrow> ('k, 'v) gomap" where
  "mdel k m \<equiv> AList.delete k m"

abbreviation mvals :: "('k, 'v) gomap \<Rightarrow> 'v list" where
  "mvals m \<equiv> map snd m"

abbreviation mkeys :: "('k, 'v) gomap \<Rightarrow> 'k list" where
  "mkeys m \<equiv> map fst m"

text \<open>The comma-ok read \<^verbatim>\<open>_, ok := m[k]\<close>, and the plain read that gives the zero value
  of the element type for a missing key.\<close>

definition mhas :: "('k, 'v) gomap \<Rightarrow> 'k \<Rightarrow> bool" where
  "mhas m k \<longleftrightarrow> mget m k \<noteq> None"

definition mget_or :: "'v \<Rightarrow> ('k, 'v) gomap \<Rightarrow> 'k \<Rightarrow> 'v" where
  "mget_or z m k = (case mget m k of None \<Rightarrow> z | Some v \<Rightarrow> v)"

definition mwf :: "('k, 'v) gomap \<Rightarrow> bool" where
  "mwf m \<longleftrightarrow> distinct (mkeys m)"

lemma mwf_Nil [simp, wf_intros]: "mwf []"
  by (simp add: mwf_def)

lemma mwf_mput [simp, wf_intros]: "mwf m \<Longrightarrow> mwf (mput k v m)"
  by (simp add: mwf_def distinct_update)

lemma mwf_mdel [simp, wf_intros]: "mwf m \<Longrightarrow> mwf (mdel k m)"
  by (simp add: mwf_def distinct_delete)

lemma mget_mput [gomap_simps]: "mget (mput k v m) j = (if j = k then Some v else mget m j)"
  by (simp add: update_conv')

lemma mget_mdel [gomap_simps]: "mget (mdel k m) j = (if j = k then None else mget m j)"
  by (simp add: delete_conv')

lemma mhas_iff [gomap_simps]: "mhas m k \<longleftrightarrow> k \<in> set (mkeys m)"
  by (auto simp: mhas_def map_of_eq_None_iff)

lemma mget_in_set: "mget m k = Some v \<Longrightarrow> (k, v) \<in> set m"
  by (rule map_of_SomeD)

lemma mwf_in_set: "mwf m \<Longrightarrow> (k, v) \<in> set m \<longleftrightarrow> mget m k = Some v"
  by (auto simp: mwf_def)

lemma mvals_iff: "mwf m \<Longrightarrow> v \<in> set (mvals m) \<longleftrightarrow> (\<exists>k. mget m k = Some v)"
  by (force simp: mwf_def)

lemma snd_image_iff: "mwf m \<Longrightarrow> v \<in> snd ` set m \<longleftrightarrow> (\<exists>k. mget m k = Some v)"
  by (simp only: set_map [symmetric] mvals_iff)

lemma mget_some_vals: "mget m k = Some v \<Longrightarrow> v \<in> set (mvals m)"
  by (force dest: map_of_SomeD)

lemma mget_Cons [gomap_simps]:
  "mget (p # m) k = (if fst p = k then Some (snd p) else mget m k)"
  by (cases p) auto

lemma mwf_Cons: "mwf (p # m) \<longleftrightarrow> mget m (fst p) = None \<and> mwf m"
  by (auto simp: mwf_def map_of_eq_None_iff)

lemma mget_rangeE:
  assumes "v \<in> set (mvals m)" and "mwf m"
  obtains k where "mget m k = Some v"
proof -
  from assms have "\<exists>k. mget m k = Some v" by (simp only: mvals_iff)
  with that show thesis by blast
qed

section \<open>Maps whose values know their key\<close>

text \<open>
  The managers store every object under its own identifier: the key is a function of the
  value. For such a map, folding a write over its values overlays it on another map.
\<close>

definition keyed :: "('v \<Rightarrow> 'k) \<Rightarrow> ('k, 'v) gomap \<Rightarrow> bool" where
  "keyed f m \<longleftrightarrow> (\<forall>(k, v) \<in> set m. f v = k)"

lemma keyed_Nil [simp, wf_intros]: "keyed f []"
  by (simp add: keyed_def)

lemma keyed_Cons [simp]: "keyed f (p # m) \<longleftrightarrow> f (snd p) = fst p \<and> keyed f m"
  by (auto simp: keyed_def)

lemma keyed_mget: "keyed f m \<Longrightarrow> mget m k = Some v \<Longrightarrow> f v = k"
  by (force simp: keyed_def dest: map_of_SomeD)

lemma keyed_mput [simp, wf_intros]: "keyed f m \<Longrightarrow> f v = k \<Longrightarrow> keyed f (mput k v m)"
  by (induction m) (simp_all add: keyed_def)

lemma keyed_mdel [simp, wf_intros]: "keyed f m \<Longrightarrow> keyed f (mdel k m)"
  by (induction m) auto

lemma keyed_vals_key: "keyed f m \<Longrightarrow> mwf m \<Longrightarrow> v \<in> set (mvals m) \<Longrightarrow> mget m (f v) = Some v"
  by (metis keyed_mget mvals_iff)

lemma keyed_vals_iff: "keyed f m \<Longrightarrow> mwf m \<Longrightarrow> v \<in> set (mvals m) \<longleftrightarrow> mget m (f v) = Some v"
  by (blast dest: keyed_vals_key mget_some_vals)

lemma keyed_map: "keyed f m \<Longrightarrow> map f (mvals m) = mkeys m"
  by (induction m) simp_all

lemma keyed_image: "keyed f m \<Longrightarrow> f ` set (mvals m) = set (mkeys m)"
  by (simp only: set_map [symmetric] keyed_map)

text \<open>A property of all values of a map.\<close>

definition vals_ok :: "('v \<Rightarrow> bool) \<Rightarrow> ('k, 'v) gomap \<Rightarrow> bool" where
  "vals_ok P m \<longleftrightarrow> list_all (\<lambda>p. P (snd p)) m"

lemma vals_ok_Nil [simp, wf_intros]: "vals_ok P []"
  by (simp add: vals_ok_def)

lemma vals_ok_Cons [simp]: "vals_ok P (p # m) \<longleftrightarrow> P (snd p) \<and> vals_ok P m"
  by (simp add: vals_ok_def)

lemma vals_ok_mput [simp, wf_intros]: "vals_ok P m \<Longrightarrow> P v \<Longrightarrow> vals_ok P (mput k v m)"
  by (induction m) auto

lemma vals_ok_mdel [simp, wf_intros]: "vals_ok P m \<Longrightarrow> vals_ok P (mdel k m)"
  by (induction m) auto

lemma vals_ok_mget: "vals_ok P m \<Longrightarrow> mget m k = Some v \<Longrightarrow> P v"
  by (force simp: vals_ok_def list_all_iff dest: map_of_SomeD)

lemma vals_ok_vals: "vals_ok P m \<longleftrightarrow> (\<forall>v \<in> set (mvals m). P v)"
  by (simp add: vals_ok_def list_all_iff)

lemma mget_fold_mput [gomap_simps]:
  assumes "mwf s" and "keyed f s"
  shows "mget (fold (\<lambda>v. mput (f v) (h v)) (mvals s) m) k =
    (case mget s k of Some v \<Rightarrow> Some (h v) | None \<Rightarrow> mget m k)"
  using assms
proof (induction s arbitrary: m)
  case Nil
  then show ?case by simp
next
  case (Cons p s)
  then show ?case
    by (auto simp: mwf_Cons gomap_simps split: option.splits)
qed

lemma mwf_fold_mput [wf_intros]: "mwf m \<Longrightarrow> mwf (fold (\<lambda>v. mput (f v) (h v)) vs m)"
  by (induction vs arbitrary: m) auto

lemma mget_fold_mdel [gomap_simps]:
  "mget (fold mdel ks m) k = (if k \<in> set ks then None else mget m k)"
  by (induction ks arbitrary: m) (auto simp: gomap_simps)

lemma mwf_fold_mdel [wf_intros]: "mwf m \<Longrightarrow> mwf (fold mdel ks m)"
  by (induction ks arbitrary: m) auto

section \<open>Optional results\<close>

text \<open>
  A step that may crash the Go program (nil dereference, stack exhaustion, unlocking an
  unlocked mutex) has type \<open>'a option\<close>, and \<^const>\<open>None\<close> is the crash. A Go result
  \<^verbatim>\<open>(x, ok)\<close> that never crashes is an \<open>'a option\<close> as well, with \<^const>\<open>None\<close> for
  \<^verbatim>\<open>ok = false\<close>; where both happen the type is \<open>'a option option\<close>.
\<close>

fun first_some :: "('a \<Rightarrow> bool) \<Rightarrow> 'a list \<Rightarrow> 'a option" where
  "first_some p [] = None"
| "first_some p (x # xs) = (if p x then Some x else first_some p xs)"

lemma first_some_Some: "first_some p xs = Some x \<Longrightarrow> x \<in> set xs \<and> p x"
  by (induction xs) (auto split: if_splits)

lemma first_some_None [simp]: "first_some p xs = None \<longleftrightarrow> (\<forall>x \<in> set xs. \<not> p x)"
  by (induction xs) auto

lemma first_some_cong: "(\<And>x. x \<in> set xs \<Longrightarrow> p x = q x) \<Longrightarrow> first_some p xs = first_some q xs"
  by (induction xs) auto

lemma first_some_unique:
  "x \<in> set xs \<Longrightarrow> p x \<Longrightarrow> (\<And>y. y \<in> set xs \<Longrightarrow> p y \<Longrightarrow> y = x) \<Longrightarrow> first_some p xs = Some x"
proof (induction xs)
  case Nil
  then show ?case by simp
next
  case (Cons a xs)
  show ?case
  proof (cases "p a")
    case True
    with Cons.prems(3) [of a] show ?thesis by simp
  next
    case False
    with Cons show ?thesis by (metis first_some.simps(2) list.set_intros(2) set_ConsD)
  qed
qed

lemma bind_Some_iff: "Option.bind x f = Some y \<longleftrightarrow> (\<exists>z. x = Some z \<and> f z = Some y)"
  by (cases x) auto

lemma those_Some: "those xs = Some ys \<longleftrightarrow> xs = map Some ys"
  by (induction xs arbitrary: ys) (auto split: option.splits)

lemma those_None: "those xs = None \<longleftrightarrow> None \<in> set xs"
  by (induction xs) (auto split: option.splits)

lemma those_map_Some: "those (map f xs) = Some ys \<Longrightarrow> x \<in> set xs \<Longrightarrow> \<exists>y \<in> set ys. f x = Some y"
  unfolding those_Some by (metis (no_types, lifting) image_eqI image_iff list.set_map)

section \<open>Time\<close>

text \<open>
  \<^verbatim>\<open>time.Time\<close> is a number of nanoseconds since Go's zero time, without location and
  monotonic reading; \<^verbatim>\<open>IsZero\<close> is equality with 0, \<^verbatim>\<open>Before\<close> and \<^verbatim>\<open>After\<close> are
  the order on integers, \<^verbatim>\<open>Equal\<close> is equality. The operators \<^verbatim>\<open>==\<close> and \<^verbatim>\<open>!=\<close> compare more: the pointer to
  the location. The two times of the program that are compared so are stamps: instants with a location, whose
  equality is that of the operators. A zone with an offset of its own, which \<^verbatim>\<open>time.Parse\<close> allocates each time it
  reads one, is told from others by its address.
\<close>

type_synonym gotime = int

abbreviation IsZero :: "gotime \<Rightarrow> bool" where
  "IsZero t \<equiv> t = 0"

abbreviation seconds :: "int \<Rightarrow> int" where
  "seconds n \<equiv> n * 1000000000"

abbreviation minutes :: "int \<Rightarrow> int" where
  "minutes n \<equiv> seconds (60 * n)"

datatype location = UTC | Local | FixedZone nat int

record stamp =
  stamp_instant :: gotime
  stamp_location :: location

abbreviation zero_stamp :: stamp where
  "zero_stamp \<equiv> \<lparr>stamp_instant = 0, stamp_location = UTC\<rparr>"

text \<open>A time zone gives for an instant its offset in seconds and the instants from and up to which it has it.\<close>

type_synonym zone = "gotime \<Rightarrow> int \<times> gotime \<times> gotime"

end
