(* ===== verification/ObjectIds.thy ===== *)
theory ObjectIds
  imports Prelude
begin

text \<open>
  External identifiers (\<^verbatim>\<open>model/objectid.go\<close>) and the index from an external identifier
  to the model object that carries it (\<^verbatim>\<open>model/objectid_index.go\<close>).

  The index has two tables, and its reverse table can go stale. The locale
  \<open>objectid_lookup\<close> states what the managers may rely on: a hit always names an object that
  was indexed with that identifier and is not deleted since. Completeness needs more
  (\<open>oix_exact\<close>): no two live objects share an identifier and no object loses a kind.
\<close>

section \<open>ObjectID\<close>

record ObjectID =
  oid_kind :: string
  oid_value :: string

type_synonym ObjectIDs = "(string, ObjectID) gomap"
type_synonym ModelId = string

definition NewObjectID :: "string \<Rightarrow> string \<Rightarrow> ObjectID" where
  "NewObjectID kind value = \<lparr>oid_kind = kind, oid_value = value\<rparr>"

definition NewObjectIDsFromMap :: "(string, string) gomap \<Rightarrow> ObjectIDs" where
  "NewObjectIDsFromMap objectIdMap =
     fold (\<lambda>(key, value). mput key (NewObjectID key value)) objectIdMap []"

definition ObjectIDs_Empty :: "ObjectIDs \<Rightarrow> bool" where
  "ObjectIDs_Empty identifiers \<longleftrightarrow> length identifiers = 0"

text \<open>The JSON forms are Go maps from string to string, which \<^verbatim>\<open>encoding/json\<close> writes
  and reads; a decoding failure of the library never reaches these functions' own code.\<close>

definition ObjectIDs_UnmarshalJSON :: "(string, string) gomap \<Rightarrow> ObjectIDs \<Rightarrow> ObjectIDs" where
  "ObjectIDs_UnmarshalJSON definitions identifiers =
     fold (\<lambda>(key, value). mput key (NewObjectID key value)) definitions identifiers"

definition ObjectIDs_MarshalJSON :: "ObjectIDs \<Rightarrow> (string, string) gomap" where
  "ObjectIDs_MarshalJSON identifiers =
     fold (\<lambda>(kind, objectid). mput kind (oid_value objectid)) identifiers []"

definition ObjectID_String :: "ObjectID \<Rightarrow> string" where
  "ObjectID_String objectid = oid_kind objectid @ '':'' @ oid_value objectid"

definition ObjectIDs_ToSlice :: "ObjectIDs \<Rightarrow> string list" where
  "ObjectIDs_ToSlice identifiers = map ObjectID_String (mvals identifiers)"

text \<open>\<open>sha1_hex\<close> is \<^verbatim>\<open>crypto/sha1\<close> followed by the \<^verbatim>\<open>%x\<close> format.\<close>

definition HashValue :: "(string \<Rightarrow> string) \<Rightarrow> ObjectID \<Rightarrow> string" where
  "HashValue sha1_hex objectid = sha1_hex (oid_value objectid)"

definition ObjectID_SetValue :: "string \<Rightarrow> ObjectID \<Rightarrow> ObjectID" where
  "ObjectID_SetValue toset objectid = objectid\<lparr>oid_value := toset\<rparr>"

definition ObjectID_MarshalJSON :: "ObjectID \<Rightarrow> (string, string) gomap" where
  "ObjectID_MarshalJSON objectid = [(oid_kind objectid, oid_value objectid)]"

text \<open>\<open>None\<close> is the JSON \<^verbatim>\<open>null\<close>, which leaves the receiver alone.\<close>

definition ObjectID_UnmarshalJSON ::
  "(string, string) gomap option \<Rightarrow> ObjectID \<Rightarrow> string + ObjectID" where
  "ObjectID_UnmarshalJSON data objectid =
     (case data of
        None \<Rightarrow> Inr objectid
      | Some aux \<Rightarrow>
          if 1 < length aux then Inl ''ObjectID should look like KIND:VALUE''
          else Inr (fold (\<lambda>(kind, value) _. \<lparr>oid_kind = kind, oid_value = value\<rparr>) aux objectid))"

section \<open>ObjectIDConsumer\<close>

text \<open>The table of an object's identifiers; every key is the kind of its value.\<close>

definition oids_wf :: "ObjectIDs \<Rightarrow> bool" where
  "oids_wf os \<longleftrightarrow> mwf os \<and> keyed oid_kind os"

definition Consumer_ObjectID :: "ObjectIDs \<Rightarrow> string \<Rightarrow> ObjectID option" where
  "Consumer_ObjectID objectids kind = mget objectids kind"

text \<open>Callers that drop the \<^verbatim>\<open>ok\<close> result compare against the zero \<^verbatim>\<open>ObjectID{}\<close>.\<close>

definition zero_ObjectID :: ObjectID where
  "zero_ObjectID = \<lparr>oid_kind = '''', oid_value = ''''\<rparr>"

definition Consumer_ObjectID_or_zero :: "ObjectIDs \<Rightarrow> string \<Rightarrow> ObjectID" where
  "Consumer_ObjectID_or_zero objectids kind =
     (case Consumer_ObjectID objectids kind of Some o1 \<Rightarrow> o1 | None \<Rightarrow> zero_ObjectID)"

definition Consumer_SetObjectID :: "ObjectID \<Rightarrow> ObjectIDs \<Rightarrow> ObjectIDs" where
  "Consumer_SetObjectID objectid objectids = mput (oid_kind objectid) objectid objectids"

definition Consumer_ObjectIDsResponse :: "ObjectIDs \<Rightarrow> (string, string) gomap" where
  "Consumer_ObjectIDsResponse objectids =
     fold (\<lambda>object. mput (oid_kind object) (oid_value object)) (mvals objectids) []"

lemma oids_wf_Nil [simp, wf_intros]: "oids_wf []"
  by (simp add: oids_wf_def)

lemma oids_wf_Set [simp, wf_intros]: "oids_wf os \<Longrightarrow> oids_wf (Consumer_SetObjectID x os)"
  by (simp add: oids_wf_def Consumer_SetObjectID_def)

lemma mget_Set [gomap_simps]:
  "mget (Consumer_SetObjectID x os) k = (if k = oid_kind x then Some x else mget os k)"
  by (simp add: Consumer_SetObjectID_def gomap_simps)

lemma oids_wf_kind: "oids_wf os \<Longrightarrow> mget os k = Some x \<Longrightarrow> oid_kind x = k"
  unfolding oids_wf_def by (blast dest: keyed_mget)

lemma oids_wf_mput [simp, wf_intros]: "oids_wf os \<Longrightarrow> oid_kind x = k \<Longrightarrow> oids_wf (mput k x os)"
  by (simp add: oids_wf_def)

lemma oids_wf_vals: "oids_wf os \<Longrightarrow> x \<in> set (mvals os) \<longleftrightarrow> mget os (oid_kind x) = Some x"
  unfolding oids_wf_def by (blast dest: keyed_vals_key mget_some_vals)

lemma oid_eqI: "oid_kind x = oid_kind y \<Longrightarrow> oid_value x = oid_value y \<Longrightarrow> x = (y :: ObjectID)"
  by simp

lemma mwf_fold_pairs [wf_intros]: "mwf m \<Longrightarrow> mwf (fold (\<lambda>(k, v). mput k (g k v)) ps m)"
  by (induction ps arbitrary: m) auto

lemma mget_fold_pairs [gomap_simps]:
  "mwf s \<Longrightarrow> mget (fold (\<lambda>(k, v). mput k (g k v)) s m) k =
     (case mget s k of Some v \<Rightarrow> Some (g k v) | None \<Rightarrow> mget m k)"
  by (induction s arbitrary: m) (auto simp: mwf_Cons gomap_simps split: option.splits)

lemma oids_wf_fold_new:
  "oids_wf os \<Longrightarrow> oids_wf (fold (\<lambda>(k, v). mput k (NewObjectID k v)) ps os)"
  by (induction ps arbitrary: os) (simp_all add: NewObjectID_def case_prod_beta)

lemma NewObjectIDsFromMap_wf [simp, wf_intros]: "oids_wf (NewObjectIDsFromMap m)"
  by (simp add: NewObjectIDsFromMap_def oids_wf_fold_new)

lemma mget_NewObjectIDsFromMap:
  "mwf m \<Longrightarrow> mget (NewObjectIDsFromMap m) k = map_option (NewObjectID k) (mget m k)"
  by (simp add: NewObjectIDsFromMap_def gomap_simps split: option.splits)

lemma mget_MarshalJSON:
  "mwf os \<Longrightarrow> mget (ObjectIDs_MarshalJSON os) k = map_option oid_value (mget os k)"
  by (simp add: ObjectIDs_MarshalJSON_def gomap_simps split: option.splits)

section \<open>ObjectIdIndex\<close>

record ObjectIdIndex =
  oix_byObjectid :: "(ObjectID, ModelId) gomap"
  oix_byIdentifier :: "(ModelId, ObjectIDs) gomap"

definition NewObjectIdIndex :: ObjectIdIndex where
  "NewObjectIdIndex = \<lparr>oix_byObjectid = [], oix_byIdentifier = []\<rparr>"

text \<open>The model passed to \<^verbatim>\<open>Index\<close> is used through \<open>modelId\<close> and its identifiers only.\<close>

definition ObjectIdIndex_Index :: "ModelId \<Rightarrow> ObjectIDs \<Rightarrow> ObjectIdIndex \<Rightarrow> ObjectIdIndex" where
  "ObjectIdIndex_Index modelId objectids index =
     (let byObjectid1 =
            (case mget (oix_byIdentifier index) modelId of
               None \<Rightarrow> oix_byObjectid index
             | Some currentIndexable \<Rightarrow>
                 fold (\<lambda>(indexedKind, indexedObjectid) m.
                         (case Consumer_ObjectID objectids indexedKind of
                            None \<Rightarrow> mdel indexedObjectid m
                          | Some modelObjectid \<Rightarrow>
                              if oid_value modelObjectid \<noteq> oid_value indexedObjectid
                              then mdel indexedObjectid m else m))
                      currentIndexable (oix_byObjectid index));
          byIdentifier1 = mget_or [] (oix_byIdentifier index) modelId
      in \<lparr>oix_byObjectid = fold (\<lambda>objectid. mput objectid modelId) (mvals objectids) byObjectid1,
          oix_byIdentifier =
            mput modelId
              (fold (\<lambda>objectid. mput (oid_kind objectid) objectid) (mvals objectids) byIdentifier1)
              (oix_byIdentifier index)\<rparr>)"

definition ObjectIdIndex_Find :: "ObjectIdIndex \<Rightarrow> ObjectID \<Rightarrow> ModelId option" where
  "ObjectIdIndex_Find index objectid = mget (oix_byObjectid index) objectid"

definition ObjectIdIndex_Delete :: "ModelId \<Rightarrow> ObjectIdIndex \<Rightarrow> ObjectIdIndex" where
  "ObjectIdIndex_Delete modelId index =
     (case mget (oix_byIdentifier index) modelId of
        None \<Rightarrow> index
      | Some currentIndexable \<Rightarrow>
          \<lparr>oix_byObjectid = fold mdel (mvals currentIndexable) (oix_byObjectid index),
           oix_byIdentifier = mdel modelId (oix_byIdentifier index)\<rparr>)"

text \<open>The index invariant: the reverse table covers the forward one.\<close>

definition oix_inv :: "ObjectIdIndex \<Rightarrow> bool" where
  "oix_inv ix \<longleftrightarrow> mwf (oix_byObjectid ix) \<and> mwf (oix_byIdentifier ix) \<and>
     (\<forall>m os. mget (oix_byIdentifier ix) m = Some os \<longrightarrow> oids_wf os) \<and>
     (\<forall>x m. ObjectIdIndex_Find ix x = Some m \<longrightarrow>
        (\<exists>os. mget (oix_byIdentifier ix) m = Some os \<and> mget os (oid_kind x) = Some x))"

lemma oix_invE:
  assumes "oix_inv ix" and "ObjectIdIndex_Find ix x = Some m"
  obtains os where "mget (oix_byIdentifier ix) m = Some os" and "mget os (oid_kind x) = Some x"
  using assms unfolding oix_inv_def by blast

lemma oix_inv_new [simp, wf_intros]: "oix_inv NewObjectIdIndex"
  by (simp add: oix_inv_def NewObjectIdIndex_def ObjectIdIndex_Find_def)

section \<open>What the index promises\<close>

text \<open>
  \<open>f\<close> is the abstract view of the indexed objects: the identifiers each live object was
  last indexed with. A hit is fine if it names a live object that carries the identifier.
\<close>

definition hits_ok ::
  "('ix \<Rightarrow> ObjectID \<Rightarrow> 'id option) \<Rightarrow> 'ix \<Rightarrow> ('id \<Rightarrow> ObjectIDs option) \<Rightarrow> bool" where
  "hits_ok look ix f \<longleftrightarrow>
     (\<forall>x m. look ix x = Some m \<longrightarrow> (\<exists>os. f m = Some os \<and> x \<in> set (mvals os)))"

locale objectid_lookup =
  fixes empty :: 'ix
    and index :: "'id \<Rightarrow> ObjectIDs \<Rightarrow> 'ix \<Rightarrow> 'ix"
    and find :: "'ix \<Rightarrow> ObjectID \<Rightarrow> 'id option"
    and delete :: "'id \<Rightarrow> 'ix \<Rightarrow> 'ix"
    and inv :: "'ix \<Rightarrow> bool"
  assumes inv_empty: "inv empty"
    and inv_index: "inv ix \<Longrightarrow> oids_wf os \<Longrightarrow> inv (index m os ix)"
    and inv_delete: "inv ix \<Longrightarrow> inv (delete m ix)"
    and find_empty: "find empty x = None"
    and find_index: "inv ix \<Longrightarrow> oids_wf os \<Longrightarrow> x \<in> set (mvals os) \<Longrightarrow>
      find (index m os ix) x = Some m"
    and find_index_other: "inv ix \<Longrightarrow> oids_wf os \<Longrightarrow> x \<notin> set (mvals os) \<Longrightarrow>
      find (index m os ix) x = Some j \<Longrightarrow> j \<noteq> m \<and> find ix x = Some j"
    and find_delete: "inv ix \<Longrightarrow> find (delete m ix) x = Some j \<Longrightarrow> j \<noteq> m \<and> find ix x = Some j"
begin

lemma hits_empty: "hits_ok find empty f"
  by (simp add: hits_ok_def find_empty)

lemma hits_index:
  assumes "inv ix" and "hits_ok find ix f" and "oids_wf os"
  shows "hits_ok find (index m os ix) (f(m \<mapsto> os))"
  unfolding hits_ok_def
proof (intro allI impI)
  fix x j
  assume hit: "find (index m os ix) x = Some j"
  show "\<exists>os'. (f(m \<mapsto> os)) j = Some os' \<and> x \<in> set (mvals os')"
  proof (cases "x \<in> set (mvals os)")
    case True
    with hit find_index [OF assms(1,3) True] show ?thesis by auto
  next
    case False
    from find_index_other [OF assms(1,3) False hit] assms(2) show ?thesis
      by (auto simp: hits_ok_def)
  qed
qed

lemma hits_delete:
  assumes "inv ix" and "hits_ok find ix f"
  shows "hits_ok find (delete m ix) (f(m := None))"
  using assms by (fastforce simp: hits_ok_def dest: find_delete)

end

section \<open>The Go index keeps the promise\<close>

lemma mget_fold_const [gomap_simps]:
  "mget (fold (\<lambda>x. mput x m) xs t) y = (if y \<in> set xs then Some m else mget t y)"
  by (induction xs arbitrary: t) (auto simp: gomap_simps)

lemma mwf_fold_const [wf_intros]: "mwf t \<Longrightarrow> mwf (fold (\<lambda>x. mput x m) xs t)"
  by (induction xs arbitrary: t) auto

text \<open>An entry of the reverse table the re-indexed object no longer carries.\<close>

definition stale_in :: "ObjectIDs \<Rightarrow> ObjectIDs \<Rightarrow> ObjectID \<Rightarrow> bool" where
  "stale_in os cur x \<longleftrightarrow> (\<exists>k. (k, x) \<in> set cur \<and>
     (case mget os k of None \<Rightarrow> True | Some y \<Rightarrow> oid_value y \<noteq> oid_value x))"

definition drop_stale :: "ObjectIDs \<Rightarrow> string \<times> ObjectID \<Rightarrow> (ObjectID, ModelId) gomap \<Rightarrow>
    (ObjectID, ModelId) gomap" where
  "drop_stale os p m =
     (case p of (k, x) \<Rightarrow>
        (case Consumer_ObjectID os k of
           None \<Rightarrow> mdel x m
         | Some y \<Rightarrow> if oid_value y \<noteq> oid_value x then mdel x m else m))"

lemma mget_drop_stale:
  "mget (drop_stale os p m) x = (if stale_in os [p] x then None else mget m x)"
  by (cases p) (auto simp: drop_stale_def stale_in_def Consumer_ObjectID_def mget_mdel
      split: option.splits)

lemma stale_in_Cons: "stale_in os (p # cur) x \<longleftrightarrow> stale_in os [p] x \<or> stale_in os cur x"
  by (auto simp: stale_in_def)

lemma mget_fold_drop_stale:
  "mget (fold (drop_stale os) cur m) x = (if stale_in os cur x then None else mget m x)"
proof (induction cur arbitrary: m)
  case Nil
  then show ?case by (simp add: stale_in_def)
next
  case (Cons p cur)
  then show ?case by (simp add: mget_drop_stale stale_in_Cons [of os p cur])
qed

lemma mwf_fold_drop_stale: "mwf m \<Longrightarrow> mwf (fold (drop_stale os) cur m)"
proof (induction cur arbitrary: m)
  case (Cons p cur)
  then show ?case by (cases p) (simp add: drop_stale_def split: option.split)
qed simp

lemma ObjectIdIndex_Index_eq:
  "ObjectIdIndex_Index m os ix =
     (let byOid = (case mget (oix_byIdentifier ix) m of
                     None \<Rightarrow> oix_byObjectid ix
                   | Some cur \<Rightarrow> fold (drop_stale os) cur (oix_byObjectid ix))
      in \<lparr>oix_byObjectid = fold (\<lambda>x. mput x m) (mvals os) byOid,
          oix_byIdentifier = mput m (fold (\<lambda>x. mput (oid_kind x) x) (mvals os)
              (mget_or [] (oix_byIdentifier ix) m)) (oix_byIdentifier ix)\<rparr>)"
proof -
  have *: "(\<lambda>(k, x) m. (case Consumer_ObjectID os k of None \<Rightarrow> mdel x m
      | Some y \<Rightarrow> if oid_value y \<noteq> oid_value x then mdel x m else m)) = drop_stale os"
    by (intro ext) (simp add: drop_stale_def split: prod.splits)
  show ?thesis unfolding ObjectIdIndex_Index_def Let_def * by simp
qed

lemma Find_Index:
  "ObjectIdIndex_Find (ObjectIdIndex_Index m os ix) x =
     (if x \<in> set (mvals os) then Some m
      else if \<exists>cur. mget (oix_byIdentifier ix) m = Some cur \<and> stale_in os cur x then None
      else ObjectIdIndex_Find ix x)"
  by (simp add: ObjectIdIndex_Find_def ObjectIdIndex_Index_eq Let_def mget_fold_const
      mget_fold_drop_stale del: set_map split: option.splits)

lemma byIdentifier_Index:
  "mget (oix_byIdentifier (ObjectIdIndex_Index m os ix)) j =
     (if j = m then Some (fold (\<lambda>x. mput (oid_kind x) x) (mvals os)
        (mget_or [] (oix_byIdentifier ix) m))
      else mget (oix_byIdentifier ix) j)"
  by (simp add: ObjectIdIndex_Index_eq Let_def mget_mput)

lemma mget_reverse_entry:
  "oids_wf os \<Longrightarrow> mget (fold (\<lambda>x. mput (oid_kind x) x) (mvals os) cur) k =
     (case mget os k of Some x \<Rightarrow> Some x | None \<Rightarrow> mget cur k)"
  unfolding oids_wf_def using mget_fold_mput [where f = oid_kind and h = "\<lambda>x. x"] by blast

lemma oids_wf_fold_mput:
  "oids_wf cur \<Longrightarrow> oids_wf (fold (\<lambda>x. mput (oid_kind x) x) xs cur)"
  by (induction xs arbitrary: cur) simp_all

text \<open>An entry \<open>x \<mapsto> m\<close> that survives re-indexing \<open>m\<close> is one \<open>m\<close> carries.\<close>

lemma Find_Index_own:
  assumes inv: "oix_inv ix" and wf: "oids_wf os" and no: "x \<notin> set (mvals os)"
  shows "ObjectIdIndex_Find (ObjectIdIndex_Index m os ix) x \<noteq> Some m"
proof
  assume "ObjectIdIndex_Find (ObjectIdIndex_Index m os ix) x = Some m"
  with no have old: "ObjectIdIndex_Find ix x = Some m"
    and live: "\<not> (\<exists>cur. mget (oix_byIdentifier ix) m = Some cur \<and> stale_in os cur x)"
    by (auto simp: Find_Index simp del: set_map split: if_splits)
  from inv old obtain cur where cur: "mget (oix_byIdentifier ix) m = Some cur"
    and at: "mget cur (oid_kind x) = Some x" by (rule oix_invE)
  from live cur have "\<not> stale_in os cur x" by simp
  with mget_in_set [OF at] obtain y where y: "mget os (oid_kind x) = Some y"
    and "oid_value y = oid_value x"
    by (auto simp: stale_in_def split: option.splits)
  with oids_wf_kind [OF wf y] have "y = x" by simp
  with y no show False by (blast dest: mget_some_vals)
qed

lemma oix_inv_Index [simp, wf_intros]:
  assumes inv: "oix_inv ix" and wf: "oids_wf os"
  shows "oix_inv (ObjectIdIndex_Index m os ix)"
proof -
  let ?ix = "ObjectIdIndex_Index m os ix"
  let ?cur = "mget_or [] (oix_byIdentifier ix) m"
  from inv have cur_wf: "oids_wf ?cur"
    by (auto simp: oix_inv_def mget_or_def split: option.splits)
  have 1: "mwf (oix_byObjectid ?ix)" "mwf (oix_byIdentifier ?ix)"
    using inv by (auto simp: oix_inv_def ObjectIdIndex_Index_eq Let_def
        intro!: mwf_fold_const mwf_fold_drop_stale split: option.splits)
  have 2: "oids_wf os'" if "mget (oix_byIdentifier ?ix) j = Some os'" for j os'
    using that inv cur_wf
    by (auto simp: byIdentifier_Index oix_inv_def oids_wf_fold_mput split: if_splits)
  have 3: "\<exists>os'. mget (oix_byIdentifier ?ix) j = Some os' \<and> mget os' (oid_kind x) = Some x"
    if hit: "ObjectIdIndex_Find ?ix x = Some j" for x j
  proof (cases "x \<in> set (mvals os)")
    case True
    with wf have "mget os (oid_kind x) = Some x" by (simp only: oids_wf_vals)
    moreover from True hit have "j = m" by (simp add: Find_Index del: set_map)
    ultimately show ?thesis using wf by (simp add: byIdentifier_Index mget_reverse_entry)
  next
    case False
    with Find_Index_own [OF inv wf False] hit have ne: "j \<noteq> m" by auto
    from False hit have "ObjectIdIndex_Find ix x = Some j"
      by (auto simp: Find_Index simp del: set_map split: if_splits)
    with inv ne show ?thesis by (auto simp: byIdentifier_Index elim: oix_invE)
  qed
  from 1 2 3 show ?thesis unfolding oix_inv_def by blast
qed

lemma Find_Delete:
  "ObjectIdIndex_Find (ObjectIdIndex_Delete m ix) x =
     (if \<exists>cur. mget (oix_byIdentifier ix) m = Some cur \<and> x \<in> set (mvals cur) then None
      else ObjectIdIndex_Find ix x)"
  by (simp add: ObjectIdIndex_Find_def ObjectIdIndex_Delete_def mget_fold_mdel del: set_map
      split: option.splits)

lemma Find_Delete_own:
  assumes "oix_inv ix"
  shows "ObjectIdIndex_Find (ObjectIdIndex_Delete m ix) x \<noteq> Some m"
proof
  assume "ObjectIdIndex_Find (ObjectIdIndex_Delete m ix) x = Some m"
  then have old: "ObjectIdIndex_Find ix x = Some m"
    and no: "\<not> (\<exists>cur. mget (oix_byIdentifier ix) m = Some cur \<and> x \<in> set (mvals cur))"
    by (auto simp: Find_Delete simp del: set_map split: if_splits)
  from assms old show False by (rule oix_invE) (use no in \<open>blast dest: mget_some_vals\<close>)
qed

lemma byIdentifier_Delete:
  "mget (oix_byIdentifier (ObjectIdIndex_Delete m ix)) j =
     (if j = m then None else mget (oix_byIdentifier ix) j)"
  by (simp add: ObjectIdIndex_Delete_def mget_mdel split: option.splits)

lemma oix_inv_Delete [simp, wf_intros]:
  assumes "oix_inv ix"
  shows "oix_inv (ObjectIdIndex_Delete m ix)"
proof -
  let ?ix = "ObjectIdIndex_Delete m ix"
  have 1: "mwf (oix_byObjectid ?ix)" "mwf (oix_byIdentifier ?ix)"
    using assms by (auto simp: oix_inv_def ObjectIdIndex_Delete_def mwf_fold_mdel
        split: option.splits)
  have 2: "oids_wf os" if "mget (oix_byIdentifier ?ix) j = Some os" for j os
    using that assms by (auto simp: byIdentifier_Delete oix_inv_def split: if_splits)
  have 3: "\<exists>os. mget (oix_byIdentifier ?ix) j = Some os \<and> mget os (oid_kind x) = Some x"
    if hit: "ObjectIdIndex_Find ?ix x = Some j" for x j
  proof -
    from hit have "ObjectIdIndex_Find ix x = Some j"
      by (auto simp: Find_Delete simp del: set_map split: if_splits)
    moreover from assms hit have "j \<noteq> m" by (auto dest: Find_Delete_own)
    ultimately show ?thesis using assms by (auto simp: byIdentifier_Delete elim: oix_invE)
  qed
  from 1 2 3 show ?thesis unfolding oix_inv_def by blast
qed

interpretation oix: objectid_lookup
  NewObjectIdIndex ObjectIdIndex_Index ObjectIdIndex_Find ObjectIdIndex_Delete oix_inv
proof (unfold_locales, goal_cases)
  case (4 x)
  then show ?case by (simp add: NewObjectIdIndex_def ObjectIdIndex_Find_def)
next
  case (5 ix os x m)
  then show ?case by (simp add: Find_Index del: set_map)
next
  case (6 ix os x m j)
  then show ?case
    using Find_Index_own [of ix os x m]
    by (auto simp: Find_Index simp del: set_map split: if_splits)
next
  case (7 ix m x j)
  then show ?case
    using Find_Delete_own [of ix m x]
    by (auto simp: Find_Delete simp del: set_map split: if_splits)
qed simp_all

section \<open>Histories of the index\<close>

datatype oix_op = IndexModel ModelId ObjectIDs | DeleteModel ModelId

fun oix_step :: "oix_op \<Rightarrow> ObjectIdIndex \<Rightarrow> ObjectIdIndex" where
  "oix_step (IndexModel m os) ix = ObjectIdIndex_Index m os ix"
| "oix_step (DeleteModel m) ix = ObjectIdIndex_Delete m ix"

text \<open>The identifiers each live object was last indexed with.\<close>

fun live_step :: "oix_op \<Rightarrow> (ModelId \<Rightarrow> ObjectIDs option) \<Rightarrow> (ModelId \<Rightarrow> ObjectIDs option)" where
  "live_step (IndexModel m os) f = f(m \<mapsto> os)"
| "live_step (DeleteModel m) f = f(m := None)"

fun oix_op_wf :: "oix_op \<Rightarrow> bool" where
  "oix_op_wf (IndexModel m os) = oids_wf os"
| "oix_op_wf (DeleteModel m) = True"

lemma oix_run_sound:
  assumes "oix_inv ix" and "hits_ok ObjectIdIndex_Find ix f" and "\<forall>op \<in> set ops. oix_op_wf op"
  shows "oix_inv (fold oix_step ops ix) \<and>
    hits_ok ObjectIdIndex_Find (fold oix_step ops ix) (fold live_step ops f)"
  using assms
proof (induction ops arbitrary: ix f)
  case (Cons op ops)
  from Cons.prems have "oix_inv (oix_step op ix)"
    and "hits_ok ObjectIdIndex_Find (oix_step op ix) (live_step op f)"
    by (cases op; simp add: oix.hits_index oix.hits_delete)+
  with Cons.IH [of "oix_step op ix" "live_step op f"] Cons.prems show ?case by simp
qed simp

text \<open>
  Exactness: the reverse table agrees with the live objects and every live identifier is
  found. It is kept as long as no two live objects share an identifier and re-indexing an
  object never removes one of its kinds.
\<close>

definition oix_exact :: "ObjectIdIndex \<Rightarrow> (ModelId \<Rightarrow> ObjectIDs option) \<Rightarrow> bool" where
  "oix_exact ix f \<longleftrightarrow> oix_inv ix \<and> hits_ok ObjectIdIndex_Find ix f \<and>
     (\<forall>m. rel_option (\<lambda>cur os. oids_wf os \<and> mget cur = mget os)
        (mget (oix_byIdentifier ix) m) (f m)) \<and>
     (\<forall>m os x. f m = Some os \<longrightarrow> x \<in> set (mvals os) \<longrightarrow> ObjectIdIndex_Find ix x = Some m)"

fun keeps_exact :: "oix_op \<Rightarrow> (ModelId \<Rightarrow> ObjectIDs option) \<Rightarrow> bool" where
  "keeps_exact (IndexModel m os) f \<longleftrightarrow> oids_wf os \<and>
     (\<forall>old. f m = Some old \<longrightarrow> set (mkeys old) \<subseteq> set (mkeys os)) \<and>
     (\<forall>j os' x. j \<noteq> m \<longrightarrow> f j = Some os' \<longrightarrow> x \<in> set (mvals os) \<longrightarrow> x \<notin> set (mvals os'))"
| "keeps_exact (DeleteModel m) f \<longleftrightarrow> True"

lemma oix_exactD:
  assumes "oix_exact ix f"
  shows "oix_inv ix" and "hits_ok ObjectIdIndex_Find ix f"
    and "f m = Some os \<Longrightarrow> x \<in> set (mvals os) \<Longrightarrow> ObjectIdIndex_Find ix x = Some m"
    and "rel_option (\<lambda>cur os. oids_wf os \<and> mget cur = mget os)
      (mget (oix_byIdentifier ix) m) (f m)"
  using assms unfolding oix_exact_def by blast+

lemma oix_exact_some:
  assumes "oix_exact ix f" and "mget (oix_byIdentifier ix) m = Some cur"
  obtains os where "f m = Some os" and "oids_wf os" and "mget cur = mget os" and "oids_wf cur"
proof -
  from assms(1) have "oids_wf cur"
    using assms(2) by (auto simp: oix_exact_def oix_inv_def)
  with oix_exactD(4) [OF assms(1), of m] assms(2) that show thesis
    by (cases "f m") auto
qed

lemma oix_exact_Index:
  assumes ex: "oix_exact ix f" and ok: "keeps_exact (IndexModel m os) f"
  shows "oix_exact (ObjectIdIndex_Index m os ix) (f(m \<mapsto> os))"
proof -
  let ?ix = "ObjectIdIndex_Index m os ix"
  from ok have wf: "oids_wf os" by simp
  note D = oix_exactD [OF ex]
  have rel: "rel_option (\<lambda>cur os. oids_wf os \<and> mget cur = mget os)
      (mget (oix_byIdentifier ?ix) j) ((f(m \<mapsto> os)) j)" for j
  proof (cases "j = m")
    case True
    have "(case mget os k of Some x \<Rightarrow> Some x
        | None \<Rightarrow> mget (mget_or [] (oix_byIdentifier ix) m) k) = mget os k" for k
    proof (cases "mget (oix_byIdentifier ix) m")
      case None
      then show ?thesis by (simp add: mget_or_def split: option.splits)
    next
      case (Some cur)
      with ex obtain old where old: "f m = Some old" and eq: "mget cur = mget old"
        by (rule oix_exact_some)
      from ok old have "mget os k = None \<Longrightarrow> mget old k = None"
        by (auto simp: map_of_eq_None_iff)
      with Some eq show ?thesis by (auto simp: mget_or_def split: option.splits)
    qed
    with True wf show ?thesis
      by (auto simp: byIdentifier_Index mget_reverse_entry)
  next
    case False
    with D(4) [of j] show ?thesis by (simp add: byIdentifier_Index)
  qed
  have comp: "ObjectIdIndex_Find ?ix x = Some j"
    if j: "(f(m \<mapsto> os)) j = Some os'" and x: "x \<in> set (mvals os')" for j os' x
  proof (cases "j = m")
    case True
    with j x show ?thesis by (simp add: Find_Index del: set_map)
  next
    case False
    with j have fj: "f j = Some os'" by simp
    with D(3) x have found: "ObjectIdIndex_Find ix x = Some j" by blast
    from ok False fj x have no: "x \<notin> set (mvals os)"
      unfolding keeps_exact.simps by blast
    have "\<not> stale_in os cur x" if cur: "mget (oix_byIdentifier ix) m = Some cur" for cur
    proof
      from ex cur obtain old where old: "f m = Some old" "mget cur = mget old" "oids_wf cur"
        by (rule oix_exact_some)
      assume "stale_in os cur x"
      then obtain k where "(k, x) \<in> set cur" by (auto simp: stale_in_def)
      with old have "mget old k = Some x" by (simp add: oids_wf_def mwf_in_set)
      then have "x \<in> set (mvals old)" by (rule mget_some_vals)
      with D(3) [OF old(1)] found False show False by auto
    qed
    with no found show ?thesis by (simp add: Find_Index del: set_map)
  qed
  from rel comp wf D(1) oix.hits_index [OF D(1,2) wf] show ?thesis
    unfolding oix_exact_def by auto
qed

lemma oix_exact_Delete:
  assumes ex: "oix_exact ix f"
  shows "oix_exact (ObjectIdIndex_Delete m ix) (f(m := None))"
proof -
  let ?ix = "ObjectIdIndex_Delete m ix"
  note D = oix_exactD [OF ex]
  have rel: "rel_option (\<lambda>cur os. oids_wf os \<and> mget cur = mget os)
      (mget (oix_byIdentifier ?ix) j) ((f(m := None)) j)" for j
    using D(4) [of j] by (simp add: byIdentifier_Delete)
  have comp: "ObjectIdIndex_Find ?ix x = Some j"
    if j: "(f(m := None)) j = Some os'" and x: "x \<in> set (mvals os')" for j os' x
  proof -
    from j have ne: "j \<noteq> m" and fj: "f j = Some os'" by (auto split: if_splits)
    with D(3) x have found: "ObjectIdIndex_Find ix x = Some j" by blast
    have "x \<notin> set (mvals cur)" if cur: "mget (oix_byIdentifier ix) m = Some cur" for cur
    proof
      from ex cur obtain old where old: "f m = Some old" "mget cur = mget old" "oids_wf cur"
        by (rule oix_exact_some)
      assume "x \<in> set (mvals cur)"
      with old have "mget old (oid_kind x) = Some x" by (simp only: oids_wf_vals)
      then have "x \<in> set (mvals old)" by (rule mget_some_vals)
      with D(3) [OF old(1)] found ne show False by auto
    qed
    with found show ?thesis by (auto simp: Find_Delete simp del: set_map)
  qed
  from rel comp D(1) oix.hits_delete [OF D(1,2)] show ?thesis
    unfolding oix_exact_def by auto
qed

fun exact_history :: "oix_op list \<Rightarrow> (ModelId \<Rightarrow> ObjectIDs option) \<Rightarrow> bool" where
  "exact_history [] f = True"
| "exact_history (op # ops) f = (keeps_exact op f \<and> exact_history ops (live_step op f))"

lemma oix_run_exact:
  "oix_exact ix f \<Longrightarrow> exact_history ops f \<Longrightarrow>
     oix_exact (fold oix_step ops ix) (fold live_step ops f)"
proof (induction ops arbitrary: ix f)
  case (Cons op ops)
  have "oix_exact (oix_step op ix) (live_step op f)"
    using Cons.prems by (cases op) (simp_all only: oix_step.simps live_step.simps
        exact_history.simps oix_exact_Index oix_exact_Delete)
  with Cons show ?case by simp
qed simp

lemma oix_exact_new: "oix_exact NewObjectIdIndex Map.empty"
  by (simp add: oix_exact_def oix.hits_empty) (simp add: NewObjectIdIndex_def)

lemma oix_exact_iff:
  assumes "oix_exact ix f"
  shows "ObjectIdIndex_Find ix x = Some m \<longleftrightarrow> (\<exists>os. f m = Some os \<and> x \<in> set (mvals os))"
  using oix_exactD(2,3) [OF assms] unfolding hits_ok_def by blast

section \<open>Properties\<close>

text \<open>C8. After any history of \<^verbatim>\<open>Index\<close> and \<^verbatim>\<open>Delete\<close> calls, a hit of
  \<^verbatim>\<open>ObjectIdIndex.Find\<close> names an object that is still indexed and was last indexed with
  exactly that identifier: no deleted object and no identifier an object has lost is found.\<close>

theorem objectid_index_sound:
  assumes "\<forall>op \<in> set ops. oix_op_wf op"
    and "ObjectIdIndex_Find (fold oix_step ops NewObjectIdIndex) x = Some m"
  shows "\<exists>os. fold live_step ops Map.empty m = Some os \<and> x \<in> set (mvals os)"
proof -
  have "hits_ok ObjectIdIndex_Find (fold oix_step ops NewObjectIdIndex)
      (fold live_step ops Map.empty)"
    using oix_run_sound [OF oix.inv_empty oix.hits_empty assms(1)] by blast
  with assms(2) show ?thesis by (simp only: hits_ok_def)
qed

theorem objectid_index_sound_witness:
  "\<exists>os. fold live_step [IndexModel ''A'' [(''k'', NewObjectID ''k'' ''v'')]] Map.empty ''A'' = Some os
     \<and> NewObjectID ''k'' ''v'' \<in> set (mvals os)"
  by (rule objectid_index_sound)
    (simp_all add: NewObjectID_def oids_wf_def mwf_def NewObjectIdIndex_def
      ObjectIdIndex_Index_def ObjectIdIndex_Find_def mget_or_def)

text \<open>C9. As long as no two live objects share an identifier and no object is re-indexed
  without one of the kinds it had, \<^verbatim>\<open>ObjectIdIndex\<close> is exact: it finds an object if and
  only if the object is live and carries the identifier.\<close>

theorem objectid_index_exact:
  assumes "exact_history ops Map.empty"
  shows "ObjectIdIndex_Find (fold oix_step ops NewObjectIdIndex) x = Some m \<longleftrightarrow>
    (\<exists>os. fold live_step ops Map.empty m = Some os \<and> x \<in> set (mvals os))"
  by (rule oix_exact_iff) (rule oix_run_exact [OF oix_exact_new assms])

theorem objectid_index_exact_witness:
  "ObjectIdIndex_Find (fold oix_step
       [IndexModel ''A'' [(''k'', NewObjectID ''k'' ''v'')],
        IndexModel ''A'' [(''k'', NewObjectID ''k'' ''w'')],
        IndexModel ''B'' [(''k'', NewObjectID ''k'' ''v'')]] NewObjectIdIndex)
     (NewObjectID ''k'' ''v'') = Some ''B''"
  by (subst objectid_index_exact)
    (simp_all add: NewObjectID_def oids_wf_def mwf_def split: if_splits)

text \<open>An operation after which the object is indexed still, and without the kind.\<close>

fun gives_up :: "ModelId \<Rightarrow> string \<Rightarrow> oix_op \<Rightarrow> bool" where
  "gives_up m k (IndexModel j os) \<longleftrightarrow> oids_wf os \<and> (j = m \<longrightarrow> mget os k = None)"
| "gives_up m k (DeleteModel j) \<longleftrightarrow> j \<noteq> m"

lemma gives_up_remembered:
  assumes "mget (oix_byIdentifier ix) m = Some cur" and "mget cur k = Some x" and "list_all (gives_up m k) ops"
  shows "\<exists>cur. mget (oix_byIdentifier (fold oix_step ops ix)) m = Some cur \<and> mget cur k = Some x"
  using assms
proof (induction ops arbitrary: ix cur)
  case (Cons op ops)
  from Cons.prems have "\<exists>cur. mget (oix_byIdentifier (oix_step op ix)) m = Some cur \<and> mget cur k = Some x"
    by (cases op) (auto simp: byIdentifier_Index byIdentifier_Delete mget_reverse_entry mget_or_def)
  with Cons show ?case by auto
qed simp

text \<open>Without the condition on kinds the index loses objects. After any history, let A be indexed with an
  identifier x, and from then on neither deleted nor indexed with an identifier of that kind, whatever happens to
  the others; let B be live with x by then. When A is indexed once more without that kind, x is not found any
  longer, although B still has it: the reverse table of A kept x, and its entry, now B's, is deleted.\<close>

theorem objectid_index_loses_object:
  assumes "x \<in> set (mvals old)" and "oids_wf old"
    and "list_all (gives_up a (oid_kind x)) mid" and "gives_up a (oid_kind x) (IndexModel a new)"
    and "fold live_step (before @ IndexModel a old # mid) Map.empty b = Some os" and "x \<in> set (mvals os)" and "b \<noteq> a"
  defines "ops \<equiv> before @ IndexModel a old # mid @ [IndexModel a new]"
  shows "fold live_step ops Map.empty b = Some os \<and> ObjectIdIndex_Find (fold oix_step ops NewObjectIdIndex) x = None"
proof -
  let ?ix = "ObjectIdIndex_Index a old (fold oix_step before NewObjectIdIndex)"
  have x: "mget old (oid_kind x) = Some x" using assms(1) oids_wf_vals [OF assms(2)] by blast
  have "\<exists>cur. mget (oix_byIdentifier ?ix) a = Some cur \<and> mget cur (oid_kind x) = Some x"
    using x by (simp add: byIdentifier_Index mget_reverse_entry [OF assms(2)])
  with gives_up_remembered [OF _ _ assms(3)] obtain cur where
    cur: "mget (oix_byIdentifier (fold oix_step mid ?ix)) a = Some cur" "mget cur (oid_kind x) = Some x" by blast
  have "stale_in new cur x"
    using mget_in_set [OF cur(2)] assms(4) by (auto simp: stale_in_def)
  moreover have "x \<notin> set (mvals new)" using assms(4) by (auto simp: oids_wf_vals simp del: set_map)
  ultimately have "ObjectIdIndex_Find (ObjectIdIndex_Index a new (fold oix_step mid ?ix)) x = None"
    using cur(1) by (simp add: Find_Index del: set_map)
  then show ?thesis using assms(5,7) by (simp add: ops_def)
qed

theorem objectid_index_loses_object_witness:
  "let kv = NewObjectID ''k'' ''v'';
       ops = [] @ IndexModel ''A'' [(''k'', kv)] # [IndexModel ''A'' [], IndexModel ''B'' [(''k'', kv)]] @ [IndexModel ''A'' []]
   in fold live_step ops Map.empty ''B'' = Some [(''k'', kv)] \<and>
      ObjectIdIndex_Find (fold oix_step ops NewObjectIdIndex) kv = None"
  unfolding Let_def
  by (rule objectid_index_loses_object) (simp_all add: NewObjectID_def oids_wf_def mwf_def)

text \<open>The JSON form of an identifier table reads back as the table: unmarshalling what
  \<^verbatim>\<open>ObjectIDs.MarshalJSON\<close> wrote gives the same identifier under every kind.\<close>

theorem objectids_json_roundtrip:
  assumes "oids_wf os"
  shows "mget (ObjectIDs_UnmarshalJSON (ObjectIDs_MarshalJSON os) []) k = mget os k"
proof -
  have "mwf (ObjectIDs_MarshalJSON os)"
    by (simp add: ObjectIDs_MarshalJSON_def mwf_fold_pairs)
  moreover have "map_option (NewObjectID k) (map_option oid_value (mget os k)) = mget os k"
    using oids_wf_kind [OF assms, of k] by (cases "mget os k") (auto simp: NewObjectID_def)
  ultimately show ?thesis
    using assms mget_NewObjectIDsFromMap [of "ObjectIDs_MarshalJSON os" k]
    by (simp add: oids_wf_def mget_MarshalJSON ObjectIDs_UnmarshalJSON_def
        NewObjectIDsFromMap_def)
qed

theorem objectids_json_roundtrip_witness:
  "mget (ObjectIDs_UnmarshalJSON (ObjectIDs_MarshalJSON
      [(''k'', NewObjectID ''k'' ''v'')]) []) ''k'' = Some (NewObjectID ''k'' ''v'')"
  by (subst objectids_json_roundtrip) (simp_all add: oids_wf_def mwf_def NewObjectID_def)

end
