(* ===== verification/Indexes.thy ===== *)
theory Indexes
  imports ObjectIds
begin

text \<open>
  The secondary index of \<^verbatim>\<open>model/index.go\<close>: it lists, for every value of an extractor
  (the stop area of a stop visit, the line of a vehicle journey), the objects that have it.
  The extractor is applied by the caller of \<open>Index_Index\<close>, since the index uses nothing else
  of the object.

  The index is proved to be the inverse of a plain map from object to extracted value
  (\<open>rix_map\<close>); the locale \<open>reverse_index\<close> states this contract, and the managers of stop visits
  and vehicle journeys rest on it.
\<close>

record Index =
  rix_byIndexable :: "(ModelId, ModelId list) gomap"
  rix_byIdentifier :: "(ModelId, ModelId) gomap"

definition NewIndex :: Index where
  "NewIndex = \<lparr>rix_byIndexable = [], rix_byIdentifier = []\<rparr>"

text \<open>The loop deletes the first occurrence of \<open>modelId\<close> from the slice, and the whole entry
  when the slice becomes empty.\<close>

definition Index_removeFromIndexable :: "ModelId \<Rightarrow> ModelId \<Rightarrow> Index \<Rightarrow> Index" where
  "Index_removeFromIndexable indexable modelId index =
     (let ids = mget_or [] (rix_byIndexable index) indexable
      in if length ids = 0 then index
         else if modelId \<in> set ids then
           (let ids' = remove1 modelId ids
            in if length ids' = 0
               then index\<lparr>rix_byIndexable := mdel indexable (rix_byIndexable index)\<rparr>
               else index\<lparr>rix_byIndexable := mput indexable ids' (rix_byIndexable index)\<rparr>)
         else index)"

definition Index_Index :: "ModelId \<Rightarrow> ModelId \<Rightarrow> Index \<Rightarrow> Index" where
  "Index_Index modelId indexable index =
     (let add = (\<lambda>ix. ix\<lparr>
            rix_byIndexable := mput indexable
              (mget_or [] (rix_byIndexable ix) indexable @ [modelId]) (rix_byIndexable ix),
            rix_byIdentifier := mput modelId indexable (rix_byIdentifier ix)\<rparr>)
      in (case mget (rix_byIdentifier index) modelId of
            None \<Rightarrow> add index
          | Some currentIndexable \<Rightarrow>
              if currentIndexable \<noteq> indexable
              then add (Index_removeFromIndexable currentIndexable modelId index)
              else index))"

definition Index_Find :: "Index \<Rightarrow> ModelId \<Rightarrow> ModelId list option" where
  "Index_Find index indexable = mget (rix_byIndexable index) indexable"

definition Index_Delete :: "ModelId \<Rightarrow> Index \<Rightarrow> Index" where
  "Index_Delete modelId index =
     (case mget (rix_byIdentifier index) modelId of
        None \<Rightarrow> index
      | Some currentIndexable \<Rightarrow>
          (let ix = Index_removeFromIndexable currentIndexable modelId index
           in ix\<lparr>rix_byIdentifier := mdel modelId (rix_byIdentifier ix)\<rparr>))"

text \<open>What the callers read: the slice, or nil.\<close>

definition Index_ids :: "Index \<Rightarrow> ModelId \<Rightarrow> ModelId list" where
  "Index_ids index indexable = (case Index_Find index indexable of None \<Rightarrow> [] | Some l \<Rightarrow> l)"

section \<open>The contract\<close>

locale reverse_index =
  fixes empty :: 'ix
    and index :: "'id \<Rightarrow> 'v \<Rightarrow> 'ix \<Rightarrow> 'ix"
    and ids :: "'ix \<Rightarrow> 'v \<Rightarrow> 'id list"
    and delete :: "'id \<Rightarrow> 'ix \<Rightarrow> 'ix"
    and inv :: "'ix \<Rightarrow> bool"
    and the_map :: "'ix \<Rightarrow> 'id \<Rightarrow> 'v option"
  assumes inv_empty: "inv empty"
    and inv_index: "inv ix \<Longrightarrow> inv (index m v ix)"
    and inv_delete: "inv ix \<Longrightarrow> inv (delete m ix)"
    and map_empty: "the_map empty = Map.empty"
    and map_index: "inv ix \<Longrightarrow> the_map (index m v ix) = (the_map ix)(m \<mapsto> v)"
    and map_delete: "inv ix \<Longrightarrow> the_map (delete m ix) = (the_map ix)(m := None)"
    and ids_distinct: "inv ix \<Longrightarrow> distinct (ids ix v)"
    and ids_iff: "inv ix \<Longrightarrow> m \<in> set (ids ix v) \<longleftrightarrow> the_map ix m = Some v"
begin

text \<open>An object is listed under one value only, whatever was done before.\<close>

lemma ids_unique: "inv ix \<Longrightarrow> m \<in> set (ids ix v) \<Longrightarrow> m \<in> set (ids ix w) \<Longrightarrow> v = w"
  by (simp add: ids_iff)

lemma ids_index: "inv ix \<Longrightarrow>
    set (ids (index m v ix) w) = (if w = v then insert m (set (ids ix w)) else set (ids ix w) - {m})"
  by (auto simp: ids_iff inv_index map_index split: if_splits)

lemma ids_delete: "inv ix \<Longrightarrow> set (ids (delete m ix) w) = set (ids ix w) - {m}"
  by (auto simp: ids_iff inv_delete map_delete split: if_splits)

text \<open>Index and objects stay in step when both are written together.\<close>

lemma tracks_index:
  "inv ix \<Longrightarrow> the_map ix = map_option g \<circ> f \<Longrightarrow>
     the_map (index m (g e) ix) = map_option g \<circ> f(m \<mapsto> e)"
  by (auto simp: map_index fun_eq_iff)

lemma tracks_delete:
  "inv ix \<Longrightarrow> the_map ix = map_option g \<circ> f \<Longrightarrow>
     the_map (delete m ix) = map_option g \<circ> f(m := None)"
  by (auto simp: map_delete fun_eq_iff)

lemma tracks_ids:
  "inv ix \<Longrightarrow> the_map ix = map_option g \<circ> f \<Longrightarrow>
     m \<in> set (ids ix v) \<longleftrightarrow> (\<exists>e. f m = Some e \<and> g e = v)"
  by (auto simp: ids_iff)

end

section \<open>The Go index keeps it\<close>

definition rix_map :: "Index \<Rightarrow> ModelId \<Rightarrow> ModelId option" where
  "rix_map ix = mget (rix_byIdentifier ix)"

definition rix_inv :: "Index \<Rightarrow> bool" where
  "rix_inv ix \<longleftrightarrow> mwf (rix_byIndexable ix) \<and> mwf (rix_byIdentifier ix) \<and>
     (\<forall>v. Index_Find ix v \<noteq> Some []) \<and>
     (\<forall>v. distinct (Index_ids ix v)) \<and>
     (\<forall>m v. m \<in> set (Index_ids ix v) \<longleftrightarrow> rix_map ix m = Some v)"

lemma ids_removeFromIndexable:
  "Index_ids (Index_removeFromIndexable v m ix) w =
     (if w = v then remove1 m (Index_ids ix w) else Index_ids ix w)"
  by (auto simp: Index_removeFromIndexable_def Index_ids_def Index_Find_def mget_or_def Let_def
      gomap_simps remove1_idem split: option.splits)

lemma Find_removeFromIndexable:
  "(\<forall>w. Index_Find ix w \<noteq> Some []) \<Longrightarrow> Index_Find (Index_removeFromIndexable v m ix) w \<noteq> Some []"
  by (auto simp: Index_removeFromIndexable_def Index_Find_def Let_def gomap_simps)

lemma wf_removeFromIndexable:
  "mwf (rix_byIndexable ix) \<Longrightarrow> mwf (rix_byIndexable (Index_removeFromIndexable v m ix))"
  "rix_byIdentifier (Index_removeFromIndexable v m ix) = rix_byIdentifier ix"
  by (auto simp: Index_removeFromIndexable_def Let_def)

text \<open>Adding under a value \<open>v\<close> an object that is listed nowhere.\<close>

definition rix_add :: "ModelId \<Rightarrow> ModelId \<Rightarrow> Index \<Rightarrow> Index" where
  "rix_add m v ix = ix\<lparr>
     rix_byIndexable := mput v (mget_or [] (rix_byIndexable ix) v @ [m]) (rix_byIndexable ix),
     rix_byIdentifier := mput m v (rix_byIdentifier ix)\<rparr>"

lemma Index_Index_eq:
  "Index_Index m v ix =
     (case rix_map ix m of
        None \<Rightarrow> rix_add m v ix
      | Some w \<Rightarrow> if w \<noteq> v then rix_add m v (Index_removeFromIndexable w m ix) else ix)"
  by (simp add: Index_Index_def rix_add_def rix_map_def Let_def split: option.split)

lemma ids_add: "Index_ids (rix_add m v ix) w = (if w = v then Index_ids ix w @ [m] else Index_ids ix w)"
  by (simp add: rix_add_def Index_ids_def Index_Find_def mget_or_def gomap_simps split: option.split)

lemma Find_add: "(\<forall>w. Index_Find ix w \<noteq> Some []) \<Longrightarrow> Index_Find (rix_add m v ix) w \<noteq> Some []"
  by (simp add: rix_add_def Index_Find_def gomap_simps)

lemma rix_map_add: "rix_map (rix_add m v ix) = (rix_map ix)(m \<mapsto> v)"
  by (simp add: rix_add_def rix_map_def fun_eq_iff gomap_simps)

lemma rix_map_remove: "rix_map (Index_removeFromIndexable v m ix) = rix_map ix"
  by (simp add: rix_map_def wf_removeFromIndexable)

lemma rix_invD:
  assumes "rix_inv ix"
  shows "mwf (rix_byIndexable ix)" and "mwf (rix_byIdentifier ix)"
    and "Index_Find ix v \<noteq> Some []" and "distinct (Index_ids ix v)"
    and "m \<in> set (Index_ids ix v) \<longleftrightarrow> rix_map ix m = Some v"
  using assms unfolding rix_inv_def by blast+

lemma rix_inv_new: "rix_inv NewIndex"
  by (simp add: rix_inv_def NewIndex_def Index_Find_def Index_ids_def rix_map_def)

lemma rix_inv_Index:
  assumes inv: "rix_inv ix"
  shows "rix_inv (Index_Index m v ix)"
proof (cases "rix_map ix m")
  case None
  then show ?thesis
    using rix_invD [OF inv] unfolding rix_inv_def
    by (auto simp: Index_Index_eq ids_add rix_map_add Find_add)
      (simp_all add: rix_add_def)
next
  case (Some w)
  show ?thesis
  proof (cases "w = v")
    case True
    with Some inv show ?thesis by (simp add: Index_Index_eq)
  next
    case False
    let ?r = "Index_removeFromIndexable w m ix"
    have "mwf (rix_byIndexable (rix_add m v ?r))" "mwf (rix_byIdentifier (rix_add m v ?r))"
      using rix_invD(1,2) [OF inv] by (simp_all add: rix_add_def wf_removeFromIndexable)
    moreover have "\<forall>u. Index_Find (rix_add m v ?r) u \<noteq> Some []"
      using rix_invD(3) [OF inv] by (auto intro!: Find_add Find_removeFromIndexable)
    moreover have "distinct (Index_ids (rix_add m v ?r) u)" for u
      using rix_invD(4,5) [OF inv] Some False
      by (auto simp: ids_add ids_removeFromIndexable)
    moreover have "x \<in> set (Index_ids (rix_add m v ?r) u) \<longleftrightarrow> rix_map (rix_add m v ?r) x = Some u"
      for x u
      using rix_invD(4,5) [OF inv] Some False
      by (auto simp: ids_add ids_removeFromIndexable rix_map_add rix_map_remove)
    ultimately show ?thesis using Some False unfolding rix_inv_def
      by (simp add: Index_Index_eq)
  qed
qed

lemma rix_map_Index: "rix_map (Index_Index m v ix) = (rix_map ix)(m \<mapsto> v)"
  by (auto simp: Index_Index_eq rix_map_add rix_map_remove split: option.split)

lemma Index_Delete_eq:
  "Index_Delete m ix =
     (case rix_map ix m of
        None \<Rightarrow> ix
      | Some w \<Rightarrow> (Index_removeFromIndexable w m ix)
          \<lparr>rix_byIdentifier := mdel m (rix_byIdentifier ix)\<rparr>)"
  by (simp add: Index_Delete_def rix_map_def Let_def wf_removeFromIndexable split: option.split)

lemma rix_map_Delete: "rix_map (Index_Delete m ix) = (rix_map ix)(m := None)"
  by (auto simp: Index_Delete_eq fun_eq_iff rix_map_def gomap_simps split: option.split)

lemma rix_inv_Delete:
  assumes inv: "rix_inv ix"
  shows "rix_inv (Index_Delete m ix)"
proof (cases "rix_map ix m")
  case None
  with inv show ?thesis by (simp add: Index_Delete_eq)
next
  case (Some w)
  let ?d = "Index_Delete m ix"
  have ids: "Index_ids ?d u = (if u = w then remove1 m (Index_ids ix u) else Index_ids ix u)"
    and find: "Index_Find ?d u = Index_Find (Index_removeFromIndexable w m ix) u" for u
    using Some ids_removeFromIndexable [of w m ix u]
    by (simp_all add: Index_Delete_eq Index_ids_def Index_Find_def)
  have "mwf (rix_byIndexable ?d)" "mwf (rix_byIdentifier ?d)"
    using rix_invD(1,2) [OF inv] Some by (simp_all add: Index_Delete_eq wf_removeFromIndexable)
  moreover have "\<forall>u. Index_Find ?d u \<noteq> Some []"
    using rix_invD(3) [OF inv] by (auto simp: find Find_removeFromIndexable)
  moreover have "distinct (Index_ids ?d u)" for u
    using rix_invD(4) [OF inv] by (simp add: ids)
  moreover have "x \<in> set (Index_ids ?d u) \<longleftrightarrow> rix_map ?d x = Some u" for x u
    using rix_invD(4,5) [OF inv] Some by (auto simp: ids rix_map_Delete)
  ultimately show ?thesis unfolding rix_inv_def by blast
qed

interpretation rix: reverse_index NewIndex Index_Index Index_ids Index_Delete rix_inv rix_map
proof (unfold_locales, goal_cases)
  case 4
  then show ?case by (simp add: rix_map_def NewIndex_def fun_eq_iff)
qed (simp_all add: rix_inv_new rix_inv_Index rix_inv_Delete rix_map_Index rix_map_Delete
      rix_invD(4,5))

section \<open>Histories\<close>

datatype rix_op = RIndex ModelId ModelId | RDelete ModelId

fun rix_step :: "rix_op \<Rightarrow> Index \<Rightarrow> Index" where
  "rix_step (RIndex m v) ix = Index_Index m v ix"
| "rix_step (RDelete m) ix = Index_Delete m ix"

fun rix_live :: "rix_op \<Rightarrow> (ModelId \<Rightarrow> ModelId option) \<Rightarrow> (ModelId \<Rightarrow> ModelId option)" where
  "rix_live (RIndex m v) f = f(m \<mapsto> v)"
| "rix_live (RDelete m) f = f(m := None)"

lemma rix_run:
  "rix_inv ix \<Longrightarrow> rix_inv (fold rix_step ops ix) \<and>
     rix_map (fold rix_step ops ix) = fold rix_live ops (rix_map ix)"
proof (induction ops arbitrary: ix)
  case (Cons op ops)
  then have "rix_inv (rix_step op ix)" and "rix_map (rix_step op ix) = rix_live op (rix_map ix)"
    by (cases op; simp add: rix_inv_Index rix_inv_Delete rix_map_Index rix_map_Delete)+
  with Cons.IH [of "rix_step op ix"] show ?case by simp
qed simp

text \<open>C20. After any history of \<^verbatim>\<open>Index\<close> and \<^verbatim>\<open>Delete\<close> calls, \<^verbatim>\<open>Index.Find\<close> lists
  every object exactly once under the value it was last indexed with, lists no deleted object,
  and keeps no empty list: the secondary index refines a map from object to value.\<close>

theorem index_refines_map:
  "let ix = fold rix_step ops NewIndex
   in distinct (Index_ids ix v) \<and>
      set (Index_ids ix v) = {m. fold rix_live ops Map.empty m = Some v} \<and>
      (Index_Find ix v = None \<longleftrightarrow> (\<forall>m. fold rix_live ops Map.empty m \<noteq> Some v))"
proof -
  let ?ix = "fold rix_step ops NewIndex"
  have inv: "rix_inv ?ix" and map: "rix_map ?ix = fold rix_live ops Map.empty"
    using rix_run [OF rix_inv_new, of ops] by (simp_all add: rix.map_empty)
  have set: "set (Index_ids ?ix v) = {m. fold rix_live ops Map.empty m = Some v}"
    using rix_invD(5) [OF inv] map by auto
  moreover have "Index_Find ?ix v = None \<longleftrightarrow> set (Index_ids ?ix v) = {}"
    using rix_invD(3) [OF inv, of v] by (cases "Index_Find ?ix v") (simp_all add: Index_ids_def)
  ultimately show ?thesis using rix_invD(4) [OF inv, of v] by (simp add: Let_def)
qed

end
