(* ===== verification/Uuid.thy ===== *)
theory Uuid
  imports Prelude
begin

text \<open>
  Identifier generation (\<^verbatim>\<open>uuid/uuid_interface.go\<close>). What the managers use is the
  sequence of identifiers the generator hands out: a \<open>uuid_gen\<close> is that sequence with a
  position. The random generator of the library (\<^verbatim>\<open>satori/uuid\<close>) is any sequence; the fake
  generator of the repository is modelled from its code.
\<close>

record uuid_gen =
  ug_uuid :: "nat \<Rightarrow> string"
  ug_next :: nat

text \<open>\<^verbatim>\<open>UUIDConsumer.NewUUID\<close>.\<close>

definition NewUUID :: "uuid_gen \<Rightarrow> string \<times> uuid_gen" where
  "NewUUID g = (ug_uuid g (ug_next g), g\<lparr>ug_next := Suc (ug_next g)\<rparr>)"

section \<open>The fake generator\<close>

definition hex_digit :: "nat \<Rightarrow> char" where
  "hex_digit n = ''0123456789abcdef'' ! (n mod 16)"

text \<open>The format \<^verbatim>\<open>%x\<close> of a number that is not negative, and \<^verbatim>\<open>%04x\<close>.\<close>

fun hex :: "nat \<Rightarrow> string" where
  "hex n = (if n < 16 then [hex_digit n] else hex (n div 16) @ [hex_digit n])"

declare hex.simps [simp del]

definition hex04 :: "nat \<Rightarrow> string" where
  "hex04 n = replicate (4 - length (hex n)) (CHR ''0'') @ hex n"

record FakeUUIDGenerator =
  fg_counter :: nat
  fg_lastUUID :: string
  fg_realFormat :: bool

definition NewFakeUUIDGenerator :: "bool \<Rightarrow> FakeUUIDGenerator" where
  "NewFakeUUIDGenerator realFormat =
     \<lparr>fg_counter = 0, fg_lastUUID = '''', fg_realFormat = realFormat\<rparr>"

definition fake_uuid :: "bool \<Rightarrow> nat \<Rightarrow> string" where
  "fake_uuid realFormat n =
     ''6ba7b814-9dad-11d1-'' @ (if realFormat then hex04 n else hex n) @ ''-00c04fd430c8''"

definition Fake_NextUUID :: "FakeUUIDGenerator \<Rightarrow> string" where
  "Fake_NextUUID generator = fake_uuid (fg_realFormat generator) (fg_counter generator)"

definition Fake_NewUUID :: "FakeUUIDGenerator \<Rightarrow> string \<times> FakeUUIDGenerator" where
  "Fake_NewUUID generator =
     (let uuid = Fake_NextUUID generator
      in (uuid, generator\<lparr>fg_lastUUID := uuid,
                          fg_counter := (fg_counter generator + 1) mod 0xffff\<rparr>))"

fun Fake_run :: "nat \<Rightarrow> FakeUUIDGenerator \<Rightarrow> string list \<times> FakeUUIDGenerator" where
  "Fake_run 0 g = ([], g)"
| "Fake_run (Suc n) g = (let (u, g1) = Fake_NewUUID g; (us, g2) = Fake_run n g1 in (u # us, g2))"

text \<open>The fake generator as the sequence the managers see.\<close>

definition fake_gen :: "bool \<Rightarrow> uuid_gen" where
  "fake_gen realFormat = \<lparr>ug_uuid = (\<lambda>n. fake_uuid realFormat (n mod 0xffff)), ug_next = 0\<rparr>"

section \<open>Its identifiers\<close>

lemma hex_nonempty: "hex n \<noteq> []"
  by (subst hex.simps) simp

lemma hex_digit_inj: "m < 16 \<Longrightarrow> n < 16 \<Longrightarrow> hex_digit m = hex_digit n \<Longrightarrow> m = n"
proof -
  have "distinct ''0123456789abcdef''" by simp
  then show "m < 16 \<Longrightarrow> n < 16 \<Longrightarrow> hex_digit m = hex_digit n \<Longrightarrow> m = n"
    unfolding hex_digit_def by (subst (asm) nth_eq_iff_index_eq) simp_all
qed

lemma hex_inj: "hex m = hex n \<Longrightarrow> m = n"
proof (induction m arbitrary: n rule: hex.induct)
  case (1 m)
  have last: "last (hex k) = hex_digit (k mod 16)" for k
    by (subst hex.simps) (simp add: hex_digit_def)
  have bl: "butlast (hex k) = (if k < 16 then [] else hex (k div 16))" for k
    by (subst hex.simps) simp
  from "1.prems" have "hex_digit (m mod 16) = hex_digit (n mod 16)" using last by metis
  then have low: "m mod 16 = n mod 16" by (rule hex_digit_inj [rotated 2]) simp_all
  from "1.prems" bl have b: "(if m < 16 then [] else hex (m div 16)) = (if n < 16 then [] else hex (n div 16))"
    by metis
  have "m div 16 = n div 16"
  proof (cases "m < 16")
    case True
    with b have "n < 16" using hex_nonempty [of "n div 16"] by (auto split: if_splits)
    with True show ?thesis by simp
  next
    case False
    with b have "\<not> n < 16" "hex (m div 16) = hex (n div 16)"
      using hex_nonempty [of "m div 16"] by (auto split: if_splits)
    with "1.IH" False show ?thesis by blast
  qed
  with low show ?case by (metis div_mult_mod_eq)
qed

lemma hex_length: "n < 0x10000 \<Longrightarrow> length (hex n) \<le> 4"
proof -
  have step: "length (hex k) \<le> Suc b" if "k < 16 \<or> length (hex (k div 16)) \<le> b" for k b
    using that by (subst hex.simps) auto
  assume "n < 0x10000"
  then have "n div 16 div 16 div 16 < 16" by simp
  then show ?thesis using step by (metis eval_nat_numeral(2,3) semiring_norm(26-28) numeral_One One_nat_def)
qed

lemma hex_head: "n > 0 \<Longrightarrow> hd (hex n) \<noteq> CHR ''0''"
proof (induction n rule: hex.induct)
  case (1 n)
  show ?case
  proof (cases "n < 16")
    case True
    with "1.prems" have "hex_digit n \<noteq> hex_digit 0" using hex_digit_inj [of n 0] by auto
    with True show ?thesis by (subst hex.simps) (simp add: hex_digit_def)
  next
    case False
    with "1.IH" have "hd (hex (n div 16)) \<noteq> CHR ''0''" by simp
    with False show ?thesis by (subst hex.simps) (simp add: hex_nonempty)
  qed
qed

lemma fake_uuid_legacy_inj: "fake_uuid False m = fake_uuid False n \<Longrightarrow> m = n"
  by (simp add: fake_uuid_def hex_inj)

lemma Fake_run_eq:
  "fg_counter g < 0xffff \<Longrightarrow>
     fst (Fake_run n g) = map (\<lambda>i. fake_uuid (fg_realFormat g) ((fg_counter g + i) mod 0xffff)) [0..<n]"
proof (induction n arbitrary: g)
  case (Suc n)
  let ?g = "snd (Fake_NewUUID g)"
  have g: "fg_counter ?g = (fg_counter g + 1) mod 0xffff" "fg_realFormat ?g = fg_realFormat g"
    by (simp_all add: Fake_NewUUID_def Let_def)
  then have "fg_counter ?g < 0xffff" by simp
  from Suc.IH [OF this] have
    "fst (Fake_run n ?g) = map (\<lambda>i. fake_uuid (fg_realFormat g) ((fg_counter g + Suc i) mod 0xffff)) [0..<n]"
    by (simp add: g mod_simps)
  moreover have "fst (Fake_NewUUID g) = fake_uuid (fg_realFormat g) (fg_counter g)"
    by (simp add: Fake_NewUUID_def Fake_NextUUID_def Let_def)
  ultimately show ?case using Suc.prems
    by (simp add: case_prod_beta Let_def upt_conv_Cons map_Suc_upt [symmetric] del: upt_Suc)
qed simp

text \<open>The legacy fake generator hands out pairwise distinct identifiers for its first 65535
  calls, never an empty one, and then starts over with the first (the counter wraps at 65535, not
  at 65536).\<close>

theorem fake_uuids:
  "let us = fst (Fake_run n (NewFakeUUIDGenerator False))
   in (n \<le> 65535 \<longrightarrow> distinct us) \<and> '''' \<notin> set us \<and>
      (n > 65535 \<longrightarrow> us ! 65535 = us ! 0)"
proof -
  let ?g = "NewFakeUUIDGenerator False"
  have us: "fst (Fake_run n ?g) = map (\<lambda>i. fake_uuid False (i mod 0xffff)) [0..<n]"
    using Fake_run_eq [of ?g n] by (simp add: NewFakeUUIDGenerator_def)
  have "distinct (fst (Fake_run n ?g))" if "n \<le> 65535"
    unfolding us using that
    by (auto simp: distinct_map inj_on_def dest!: fake_uuid_legacy_inj)
  moreover have "'''' \<notin> set (fst (Fake_run n ?g))"
    unfolding us by (auto simp: fake_uuid_def)
  moreover have "fst (Fake_run n ?g) ! 65535 = fst (Fake_run n ?g) ! 0" if "n > 65535"
    unfolding us using that by simp
  ultimately show ?thesis by (simp add: Let_def)
qed

theorem fake_uuids_witness: "'''' \<notin> set (fst (Fake_run 65536 (NewFakeUUIDGenerator False)))
    \<and> fst (Fake_run 65536 (NewFakeUUIDGenerator False)) ! 65535
      = fst (Fake_run 65536 (NewFakeUUIDGenerator False)) ! 0"
  using fake_uuids [of 65536] by (simp add: Let_def)

text \<open>The managers' view of the fake generator is its run.\<close>

lemma fake_gen_run: "ug_uuid (fake_gen r) i = fst (Fake_run (Suc i) (NewFakeUUIDGenerator r)) ! i"
  by (subst Fake_run_eq) (simp_all add: NewFakeUUIDGenerator_def fake_gen_def nth_append del: upt_Suc)

end
