(* ===== verification/Stores.thy ===== *)
theory Stores
  imports ObjectIds Indexes Uuid
begin

text \<open>
  The contract of the in-memory managers (\<^verbatim>\<open>MemoryLines\<close>, \<^verbatim>\<open>MemoryStopAreas\<close>, ...) and
  what a transactional manager gets from it. Nothing here is code of the repository: the
  managers are modelled in their own theories, where each locale is interpreted.

  \<open>entity_store\<close> is what every manager promises, \<open>indexed_store\<close> adds the lookup by external
  identifier of the managers that keep an \<open>ObjectIdIndex\<close>, and \<open>transactional_store\<close> is the
  overlay of saved and deleted objects of \<^verbatim>\<open>model/transactional_*.go\<close> over such a manager.
\<close>

text \<open>The pointer every object and manager has to its model: nil, or the one memory model.\<close>

datatype model_ref = NilModel | TheModel

text \<open>The generator never hands out the empty string, which the code reads as "no identifier".\<close>

definition ug_ok :: "uuid_gen \<Rightarrow> bool" where
  "ug_ok g \<longleftrightarrow> (\<forall>n. ug_uuid g n \<noteq> [])"

lemma ug_ok_NewUUID [simp]: "ug_ok g \<Longrightarrow> ug_ok (snd (NewUUID g))"
  by (simp add: ug_ok_def NewUUID_def)

lemma ug_ok_fst [simp]: "ug_ok g \<Longrightarrow> fst (NewUUID g) \<noteq> []"
  by (simp add: ug_ok_def NewUUID_def)

lemma ug_ok_fake: "ug_ok (fake_gen r)"
  by (simp add: ug_ok_def fake_gen_def fake_uuid_def)

text \<open>Saving a list of objects one after the other, and the commit of a transactional manager:
  first the deletions, then the saves.\<close>

definition save_all ::
  "(uuid_gen \<Rightarrow> 'e \<Rightarrow> 's \<Rightarrow> uuid_gen \<times> 'e \<times> 's) \<Rightarrow> 'e list \<Rightarrow> uuid_gen \<times> 's \<Rightarrow> uuid_gen \<times> 's" where
  "save_all save es = fold (\<lambda>e (g, s). case save g e s of (g', _, s') \<Rightarrow> (g', s')) es"

lemma save_all_simps [simp]:
  "save_all save [] gs = gs"
  "save_all save (e # es) (g, s) =
     (case save g e s of (g', _, s') \<Rightarrow> save_all save es (g', s'))"
  by (simp_all add: save_all_def split: prod.split)

section \<open>The table and the identifier index of a manager\<close>

text \<open>
  The state most managers share: objects under their own non-empty identifier, all of them
  well-formed, and an identifier index whose hits name stored objects that carry the
  identifier looked up. \<open>f\<close> reads an object's identifier, \<open>os\<close> its external identifiers.
\<close>

definition table_inv ::
  "('e \<Rightarrow> string) \<Rightarrow> ('e \<Rightarrow> ObjectIDs) \<Rightarrow> ('e \<Rightarrow> bool) \<Rightarrow> (string, 'e) gomap \<Rightarrow> ObjectIdIndex \<Rightarrow> bool" where
  "table_inv f os ok m ix \<longleftrightarrow> mwf m \<and> keyed f m \<and> vals_ok (\<lambda>e. ok e \<and> f e \<noteq> []) m \<and>
     oix_inv ix \<and> hits_ok ObjectIdIndex_Find ix (\<lambda>i. map_option os (mget m i))"

lemma table_inv_new: "table_inv f os ok [] NewObjectIdIndex"
  by (simp add: table_inv_def oix.hits_empty)

lemma table_inv_put:
  assumes "table_inv f os ok m ix" and "ok e" and "f e \<noteq> []" and "oids_wf (os e)"
  shows "table_inv f os ok (mput (f e) e m) (ObjectIdIndex_Index (f e) (os e) ix)"
proof -
  have "(\<lambda>i. map_option os (mget (mput (f e) e m) i)) =
      (\<lambda>i. map_option os (mget m i))(f e \<mapsto> os e)"
    by (simp add: fun_eq_iff mget_mput)
  then show ?thesis
    using assms oix.hits_index [of ix "\<lambda>i. map_option os (mget m i)" "os e" "f e"]
    by (simp add: table_inv_def)
qed

lemma table_inv_del:
  assumes "table_inv f os ok m ix"
  shows "table_inv f os ok (mdel i m) (ObjectIdIndex_Delete i ix)"
proof -
  have "(\<lambda>j. map_option os (mget (mdel i m) j)) = (\<lambda>j. map_option os (mget m j))(i := None)"
    by (simp add: fun_eq_iff mget_mdel)
  then show ?thesis
    using assms oix.hits_delete [of ix "\<lambda>i. map_option os (mget m i)" i]
    by (simp add: table_inv_def)
qed

lemma table_inv_hit:
  assumes "table_inv f os ok m ix" and "ObjectIdIndex_Find ix x = Some i"
  obtains e where "mget m i = Some e" and "f e = i" and "ok e" and "x \<in> set (mvals (os e))"
proof -
  from assms obtain xs where "map_option os (mget m i) = Some xs" and xs: "x \<in> set (mvals xs)"
    unfolding table_inv_def hits_ok_def by blast
  then obtain e where e: "mget m i = Some e" and "os e = xs" by (cases "mget m i") auto
  with xs have x: "x \<in> set (mvals (os e))" by simp
  from assms(1) have "keyed f m" and "vals_ok (\<lambda>e. ok e \<and> f e \<noteq> []) m"
    by (simp_all only: table_inv_def)
  with e have "f e = i" and "ok e" by (blast dest: keyed_mget vals_ok_mget)+
  with e x that show thesis by blast
qed

lemma table_inv_get:
  assumes "table_inv f os ok m ix" and "mget m i = Some e"
  shows "f e = i" and "ok e" and "i \<noteq> []"
proof -
  from assms(1) have "keyed f m" and "vals_ok (\<lambda>e. ok e \<and> f e \<noteq> []) m"
    by (simp_all only: table_inv_def)
  with assms(2) show "f e = i" "ok e" "i \<noteq> []" by (blast dest: keyed_mget vals_ok_mget)+
qed

lemma table_inv_vals:
  assumes "table_inv f os ok m ix"
  shows "e \<in> set (mvals m) \<longleftrightarrow> mget m (f e) = Some e" and "distinct (map f (mvals m))"
proof -
  from assms have *: "keyed f m" "mwf m" by (simp_all only: table_inv_def)
  then show "e \<in> set (mvals m) \<longleftrightarrow> mget m (f e) = Some e" by (rule keyed_vals_iff)
  from * show "distinct (map f (mvals m))" by (simp only: keyed_map mwf_def)
qed

text \<open>Handing out copies of the stored objects changes nothing when the copy is faithful.\<close>

lemma map_copy_vals: "(\<And>e. ok e \<Longrightarrow> c e = e) \<Longrightarrow> vals_ok ok m \<Longrightarrow> map c (mvals m) = mvals m"
  by (induction m) simp_all

lemma table_inv_copy:
  assumes "table_inv f os ok m ix" and "\<And>e. ok e \<Longrightarrow> c e = e"
  shows "map c (mvals m) = mvals m"
proof -
  from assms(1) have "vals_ok (\<lambda>e. ok e \<and> f e \<noteq> []) m" by (simp only: table_inv_def)
  then have "vals_ok ok m" by (simp add: vals_ok_def list_all_iff)
  with assms(2) show ?thesis by (rule map_copy_vals)
qed

section \<open>Managers\<close>

locale entity_store =
  fixes find :: "'s \<Rightarrow> string \<Rightarrow> 'e option"
    and find_all :: "'s \<Rightarrow> 'e list"
    and save :: "uuid_gen \<Rightarrow> 'e \<Rightarrow> 's \<Rightarrow> uuid_gen \<times> 'e \<times> 's"
    and delete :: "'e \<Rightarrow> 's \<Rightarrow> 's"
    and eid :: "'e \<Rightarrow> string"
    and seal :: "'s \<Rightarrow> 'e \<Rightarrow> 'e"
    and ewf :: "'e \<Rightarrow> bool"
    and inv :: "'s \<Rightarrow> bool"
  assumes inv_save: "inv s \<Longrightarrow> ewf e \<Longrightarrow> ug_ok g \<Longrightarrow> save g e s = (g', e', s') \<Longrightarrow> inv s'"
    and inv_delete: "inv s \<Longrightarrow> inv (delete e s)"
    and save_old: "eid e \<noteq> [] \<Longrightarrow> save g e s = (g', e', s') \<Longrightarrow> g' = g \<and> e' = seal s e"
    and save_new: "eid e = [] \<Longrightarrow> save g e s = (g', e', s') \<Longrightarrow>
      g' = snd (NewUUID g) \<and> eid e' = fst (NewUUID g)"
    and seal_save: "save g e s = (g', e', s') \<Longrightarrow> seal s' = seal s"
    and seal_delete: "seal (delete e s) = seal s"
    and seal_eid: "eid (seal s e) = eid e"
    and seal_ewf: "ewf (seal s e) = ewf e"
    and find_save: "inv s \<Longrightarrow> ewf e \<Longrightarrow> ug_ok g \<Longrightarrow> save g e s = (g', e', s') \<Longrightarrow>
      find s' i = (if i = eid e' then Some e' else find s i)"
    and find_delete: "inv s \<Longrightarrow> find (delete e s) i = (if i = eid e then None else find s i)"
    and find_eid: "inv s \<Longrightarrow> find s i = Some e \<Longrightarrow> eid e = i \<and> i \<noteq> []"
    and find_ewf: "inv s \<Longrightarrow> find s i = Some e \<Longrightarrow> ewf e"
    and find_all_iff: "inv s \<Longrightarrow> e \<in> set (find_all s) \<longleftrightarrow> find s (eid e) = Some e"
    and find_all_distinct: "inv s \<Longrightarrow> distinct (map eid (find_all s))"
begin

text \<open>A saved object is found under its identifier, whether it had one or was given one.\<close>

lemma save_find:
  assumes "inv s" and "ewf e" and "ug_ok g" and "save g e s = (g', e', s')"
  shows "find s' (eid e') = Some e'" and "eid e' = (if eid e = [] then fst (NewUUID g) else eid e)"
proof -
  from find_save [OF assms] show "find s' (eid e') = Some e'" by simp
  show "eid e' = (if eid e = [] then fst (NewUUID g) else eid e)"
    using save_old [OF _ assms(4)] save_new [OF _ assms(4)] by (auto simp: seal_eid)
qed

lemma save_ug_ok: "ug_ok g \<Longrightarrow> save g e s = (g', e', s') \<Longrightarrow> ug_ok g'"
  by (cases "eid e = []") (auto dest: save_new save_old)

lemma save_all_inv:
  "inv s \<Longrightarrow> ug_ok g \<Longrightarrow> list_all ewf es \<Longrightarrow>
   inv (snd (save_all save es (g, s))) \<and> ug_ok (fst (save_all save es (g, s)))"
proof (induction es arbitrary: g s)
  case (Cons e es)
  obtain g1 e1 s1 where save: "save g e s = (g1, e1, s1)" by (rule prod_cases3)
  from Cons.prems have e: "ewf e" and es: "list_all ewf es" by simp_all
  from Cons.IH [OF inv_save [OF Cons.prems(1) e Cons.prems(2) save] save_ug_ok [OF Cons.prems(2) save] es]
  show ?case by (simp add: save)
qed simp

lemma delete_all:
  "inv s \<Longrightarrow> inv (fold delete ds s) \<and> seal (fold delete ds s) = seal s \<and>
     find (fold delete ds s) i = (if i \<in> eid ` set ds then None else find s i)"
  by (induction ds arbitrary: s) (auto simp: inv_delete seal_delete find_delete)

lemma save_all_keyed:
  assumes "inv s" and "ug_ok g" and "mwf m" and "keyed eid m"
    and "vals_ok (\<lambda>e. ewf e \<and> eid e \<noteq> []) m"
  shows "\<exists>s'. save_all save (mvals m) (g, s) = (g, s') \<and> inv s' \<and> seal s' = seal s \<and>
    (\<forall>i. find s' i = (case mget m i of Some e \<Rightarrow> Some (seal s e) | None \<Rightarrow> find s i))"
  using assms
proof (induction m arbitrary: s)
  case Nil
  then show ?case by simp
next
  case (Cons p m)
  let ?e = "snd p"
  obtain g1 e1 s1 where save: "save g ?e s = (g1, e1, s1)" by (cases "save g ?e s") auto
  from Cons.prems(5) have e: "ewf ?e" "eid ?e \<noteq> []" by simp_all
  from save_old [OF e(2) save] have 1: "g1 = g" "e1 = seal s ?e" by simp_all
  note inv1 = inv_save [OF Cons.prems(1) e(1) Cons.prems(2) save]
  note find1 = find_save [OF Cons.prems(1) e(1) Cons.prems(2) save]
  note seal1 = seal_save [OF save]
  have "vals_ok (\<lambda>e. ewf e \<and> eid e \<noteq> []) m" using Cons.prems(5) by simp
  with Cons.IH [OF inv1 Cons.prems(2)] Cons.prems(3,4) obtain s' where
    s': "save_all save (mvals m) (g, s1) = (g, s')" "inv s'" "seal s' = seal s1"
      "\<And>i. find s' i = (case mget m i of Some e \<Rightarrow> Some (seal s1 e) | None \<Rightarrow> find s1 i)"
    by (auto simp: mwf_Cons)
  have "find s' i = (case mget (p # m) i of Some e \<Rightarrow> Some (seal s e) | None \<Rightarrow> find s i)" for i
    using s'(4) [of i] Cons.prems(3,4)
    by (auto simp: mget_Cons seal1 find1 1 seal_eid mwf_Cons split: option.splits)
  with s' 1 save seal1 show ?case by simp
qed

end

section \<open>Managers with an identifier index\<close>

locale indexed_store = entity_store +
  fixes find_oid :: "'s \<Rightarrow> ObjectID \<Rightarrow> 'e option option"
    and oids :: "'e \<Rightarrow> ObjectIDs"
  assumes find_oid_no_crash: "inv s \<Longrightarrow> find_oid s x \<noteq> None"
    and find_oid_sound: "inv s \<Longrightarrow> find_oid s x = Some (Some e) \<Longrightarrow>
      find s (eid e) = Some e \<and> x \<in> set (mvals (oids e))"
    and find_oid_save: "inv s \<Longrightarrow> ewf e \<Longrightarrow> ug_ok g \<Longrightarrow> save g e s = (g', e', s') \<Longrightarrow>
      x \<in> set (mvals (oids e)) \<Longrightarrow> find_oid s' x = Some (Some e')"
begin

text \<open>Saving an object that carries an identifier, which is then found under it.\<close>

lemma upsert:
  assumes "inv s" and "ug_ok g" and "ewf e" and "x \<in> set (mvals (oids e))"
  obtains g' e' s' where "save g e s = (g', e', s')" and "inv s'" and "ug_ok g'"
    and "find_oid s' x = Some (Some e')" and "find s' = (find s)(eid e' \<mapsto> e')"
    and "eid e \<noteq> [] \<Longrightarrow> e' = seal s e" and "eid e = [] \<Longrightarrow> eid e' = fst (NewUUID g)"
proof -
  obtain g' e' s' where save: "save g e s = (g', e', s')" by (rule prod_cases3)
  show thesis
  proof (rule that [OF save])
    show "inv s'" by (rule inv_save [OF assms(1,3,2) save])
    show "ug_ok g'" by (rule save_ug_ok [OF assms(2) save])
    show "find_oid s' x = Some (Some e')" by (rule find_oid_save [OF assms(1,3,2) save assms(4)])
    show "find s' = (find s)(eid e' \<mapsto> e')" using find_save [OF assms(1,3,2) save] by (simp add: fun_eq_iff)
    show "eid e \<noteq> [] \<Longrightarrow> e' = seal s e" using save_old [OF _ save] by simp
    show "eid e = [] \<Longrightarrow> eid e' = fst (NewUUID g)" using save_new [OF _ save] by simp
  qed
qed

lemma find_oid_cases:
  assumes "inv s"
  obtains (miss) "find_oid s x = Some None"
    | (hit) e where "find_oid s x = Some (Some e)" and "find s (eid e) = Some e" and "ewf e"
      and "eid e \<noteq> []" and "x \<in> set (mvals (oids e))"
proof (cases "find_oid s x")
  case None
  with find_oid_no_crash [OF assms, of x] show ?thesis by simp
next
  case (Some r)
  show ?thesis
  proof (cases r)
    case None
    with Some miss show ?thesis by simp
  next
    case (Some e)
    with \<open>find_oid s x = Some r\<close> have "find_oid s x = Some (Some e)" by simp
    moreover from find_oid_sound [OF assms this] have "find s (eid e) = Some e"
      "x \<in> set (mvals (oids e))" by simp_all
    ultimately show ?thesis using hit find_ewf [OF assms] find_eid [OF assms] by blast
  qed
qed

end

section \<open>Managers that keep their objects in a table\<close>

text \<open>
  How every manager of the model keeps the contract: it reads and writes one table of objects
  under their identifier (\<open>tbl\<close>), hands out copies (\<open>copy\<close>), and gives an object without
  identifier a fresh one (\<open>named\<close>).
\<close>

locale table_store =
  fixes find :: "'s \<Rightarrow> string \<Rightarrow> 'e option"
    and find_all :: "'s \<Rightarrow> 'e list"
    and save :: "uuid_gen \<Rightarrow> 'e \<Rightarrow> 's \<Rightarrow> uuid_gen \<times> 'e \<times> 's"
    and delete :: "'e \<Rightarrow> 's \<Rightarrow> 's"
    and eid :: "'e \<Rightarrow> string"
    and seal :: "'s \<Rightarrow> 'e \<Rightarrow> 'e"
    and ewf :: "'e \<Rightarrow> bool"
    and inv :: "'s \<Rightarrow> bool"
    and tbl :: "'s \<Rightarrow> (string, 'e) gomap"
    and copy :: "'e \<Rightarrow> 'e"
    and named :: "string \<Rightarrow> 'e \<Rightarrow> 'e"
  assumes inv_tbl: "inv s \<Longrightarrow> mwf (tbl s) \<and> keyed eid (tbl s) \<and>
      vals_ok (\<lambda>e. ewf e \<and> eid e \<noteq> []) (tbl s)"
    and tbl_inv_save: "inv s \<Longrightarrow> ewf e \<Longrightarrow> ug_ok g \<Longrightarrow> save g e s = (g', e', s') \<Longrightarrow> inv s'"
    and tbl_inv_delete: "inv s \<Longrightarrow> inv (delete e s)"
    and copy_ewf: "ewf e \<Longrightarrow> copy e = e"
    and find_tbl: "inv s \<Longrightarrow> find s i = map_option copy (mget (tbl s) i)"
    and find_all_tbl: "find_all s = map copy (mvals (tbl s))"
    and save_eq: "save g e s = (g', e', s') \<Longrightarrow>
      g' = (if eid e = [] then snd (NewUUID g) else g) \<and>
      e' = seal s (if eid e = [] then named (fst (NewUUID g)) e else e) \<and>
      tbl s' = mput (eid e') e' (tbl s) \<and> seal s' = seal s"
    and delete_eq: "tbl (delete e s) = mdel (eid e) (tbl s) \<and> seal (delete e s) = seal s"
    and seal_keeps: "eid (seal s e) = eid e \<and> ewf (seal s e) = ewf e"
    and named_keeps: "eid (named i e) = i"
begin

lemma find_mget: "inv s \<Longrightarrow> find s i = mget (tbl s) i"
proof (cases "mget (tbl s) i")
  case (Some e)
  assume "inv s"
  then have "ewf e" using Some inv_tbl [of s] vals_ok_mget [of _ "tbl s" i e] by blast
  with Some \<open>inv s\<close> show ?thesis by (simp add: find_tbl copy_ewf)
qed (simp add: find_tbl)

lemma find_all_mvals: "inv s \<Longrightarrow> find_all s = mvals (tbl s)"
  unfolding find_all_tbl
  by (rule map_copy_vals [where ok = ewf]) (use inv_tbl copy_ewf in \<open>auto simp: vals_ok_def list_all_iff\<close>)

sublocale entity_store find find_all save delete eid seal ewf inv
proof (unfold_locales, goal_cases)
  case (1 s e g g' e' s')
  then show ?case by (rule tbl_inv_save)
next
  case (2 s e)
  then show ?case by (rule tbl_inv_delete)
next
  case (3 e g s g' e' s')
  then show ?case by (auto dest: save_eq)
next
  case (4 e g s g' e' s')
  then show ?case by (auto dest: save_eq simp: seal_keeps named_keeps)
next
  case (5 g e s g' e' s')
  then show ?case by (auto dest: save_eq)
next
  case (9 s e g g' e' s' i)
  from tbl_inv_save [OF 9] 9 save_eq [OF 9(4)] show ?case by (simp add: find_mget mget_mput)
next
  case (10 s e i)
  with tbl_inv_delete [OF 10, of e] show ?case by (simp add: find_mget delete_eq mget_mdel)
next
  case (11 s i e)
  then have "mget (tbl s) i = Some e" by (simp add: find_mget)
  with inv_tbl [OF 11(1)] show ?case using keyed_mget vals_ok_mget by fastforce
next
  case (12 s i e)
  then have "mget (tbl s) i = Some e" by (simp add: find_mget)
  with inv_tbl [OF 12(1)] show ?case using vals_ok_mget by fastforce
next
  case (13 s e)
  then show ?case unfolding find_mget [OF 13] find_all_mvals [OF 13]
    by (intro keyed_vals_iff) (use inv_tbl in blast)+
next
  case (14 s)
  then show ?case using inv_tbl [OF 14] by (simp only: find_all_mvals keyed_map mwf_def)
qed (simp_all add: seal_keeps delete_eq)

end

text \<open>The managers that also keep an index of the external identifiers.\<close>

locale indexed_table_store = table_store +
  fixes find_oid :: "'s \<Rightarrow> ObjectID \<Rightarrow> 'e option option"
    and oids :: "'e \<Rightarrow> ObjectIDs"
    and oidx :: "'s \<Rightarrow> ObjectIdIndex"
  assumes inv_table: "inv s \<Longrightarrow> table_inv eid oids ewf (tbl s) (oidx s)"
    and find_oid_eq: "find_oid s x =
      (case ObjectIdIndex_Find (oidx s) x of
         Some i \<Rightarrow> (case mget (tbl s) i of None \<Rightarrow> None | Some e \<Rightarrow> Some (Some (copy e)))
       | None \<Rightarrow> Some None)"
    and save_oix: "save g e s = (g', e', s') \<Longrightarrow> oidx s' = ObjectIdIndex_Index (eid e') (oids e') (oidx s)"
    and ewf_oids: "ewf e \<Longrightarrow> oids_wf (oids e)"
    and named_ewf: "ewf (named i e) = ewf e \<and> oids (named i e) = oids e"
    and seal_oids: "oids (seal s e) = oids e"
begin

lemma find_oid_hit:
  assumes "inv s" and "ObjectIdIndex_Find (oidx s) x = Some i"
  obtains e where "mget (tbl s) i = Some e" and "find_oid s x = Some (Some e)" and "eid e = i"
    and "x \<in> set (mvals (oids e))"
proof -
  from table_inv_hit [OF inv_table [OF assms(1)] assms(2)] obtain e where
    e: "mget (tbl s) i = Some e" "eid e = i" "ewf e" "x \<in> set (mvals (oids e))" by blast
  moreover from e have "find_oid s x = Some (Some e)"
    unfolding find_oid_eq assms(2) by (simp add: copy_ewf)
  ultimately show thesis using that by blast
qed

sublocale indexed_store find find_all save delete eid seal ewf inv find_oid oids
proof (unfold_locales, goal_cases)
  case (1 s x)
  then show ?case
    by (cases "ObjectIdIndex_Find (oidx s) x") (auto elim: find_oid_hit simp: find_oid_eq)
next
  case (2 s x e)
  then obtain i where i: "ObjectIdIndex_Find (oidx s) x = Some i"
    unfolding find_oid_eq by (cases "ObjectIdIndex_Find (oidx s) x") simp_all
  from find_oid_hit [OF 2(1) i] 2 show ?case by (metis find_mget option.inject)
next
  case (3 s e g g' e' s' x)
  from save_eq [OF 3(4)] 3(2) have e': "ewf e'" "oids e' = oids e"
    by (auto simp: seal_keeps named_ewf seal_oids)
  from inv_table [OF 3(1)] have "oix_inv (oidx s)" by (simp only: table_inv_def)
  with e' ewf_oids [OF e'(1)] 3(5) have "ObjectIdIndex_Find (oidx s') x = Some (eid e')"
    unfolding save_oix [OF 3(4)] by (simp add: oix.find_index del: set_map)
  moreover from save_eq [OF 3(4)] have "mget (tbl s') (eid e') = Some e'" by (simp add: mget_mput)
  ultimately show ?case using e' by (simp add: find_oid_eq copy_ewf)
qed

text \<open>What is found after an object has been saved: that object, or what was found before.\<close>

lemma find_oid_after_save:
  assumes "inv s" and "ewf e" and "ug_ok g" and "save g e s = (g', e', s')" and "find_oid s' x = Some (Some e1)"
  shows "e1 = e' \<or> find_oid s x = Some (Some e1)"
proof -
  from save_eq [OF assms(4)] assms(2) have e': "ewf e'" "tbl s' = mput (eid e') e' (tbl s)"
    by (auto simp: seal_keeps named_ewf)
  note inv' = tbl_inv_save [OF assms(1-4)]
  obtain i where i: "ObjectIdIndex_Find (oidx s') x = Some i"
    using assms(5) unfolding find_oid_eq by (cases "ObjectIdIndex_Find (oidx s') x") simp_all
  from find_oid_hit [OF inv' i] assms(5) have e1: "mget (tbl s') i = Some e1" by (metis option.inject)
  show ?thesis
  proof (cases "i = eid e'")
    case True
    with e1 e' show ?thesis by (simp add: mget_mput)
  next
    case False
    from inv_table [OF assms(1)] have "oix_inv (oidx s)" by (simp only: table_inv_def)
    moreover have "x \<notin> set (mvals (oids e'))"
    proof
      assume "x \<in> set (mvals (oids e'))"
      with calculation have "ObjectIdIndex_Find (oidx s') x = Some (eid e')"
        unfolding save_oix [OF assms(4)] by (simp add: oix.find_index ewf_oids [OF e'(1)] del: set_map)
      with i False show False by simp
    qed
    ultimately have hit: "ObjectIdIndex_Find (oidx s) x = Some i"
      using oix.find_index_other [OF _ ewf_oids [OF e'(1)]] i unfolding save_oix [OF assms(4)] by blast
    from False e1 e' have "mget (tbl s) i = Some e1" by (simp add: mget_mput)
    with find_oid_hit [OF assms(1) hit] show ?thesis by (metis option.inject)
  qed
qed

end

section \<open>Lookups through a reverse index\<close>

text \<open>
  Some managers keep an \<open>Index\<close> from an attribute (a line, a stop area, ...) to the identifiers
  of the objects that have it, and dereference every identifier it returns. \<open>index_inv\<close> says
  that the index tells exactly the stored objects' attribute, so no dereference fails.
\<close>

definition index_inv :: "('e \<Rightarrow> string) \<Rightarrow> (string, 'e) gomap \<Rightarrow> Index \<Rightarrow> bool" where
  "index_inv g m ix \<longleftrightarrow> rix_inv ix \<and> rix_map ix = map_option g \<circ> mget m"

lemma index_inv_new: "index_inv g [] NewIndex"
  by (simp add: index_inv_def rix.inv_empty fun_eq_iff) (simp add: rix_map_def NewIndex_def)

lemma index_inv_put:
  "index_inv g m ix \<Longrightarrow> index_inv g (mput i e m) (Index_Index i (g e) ix)"
  using rix.tracks_index [of ix g "mget m" i e]
  by (simp add: index_inv_def rix.inv_index fun_upd_def mget_mput comp_def)

lemma index_inv_del: "index_inv g m ix \<Longrightarrow> index_inv g (mdel i m) (Index_Delete i ix)"
  using rix.tracks_delete [of ix g "mget m" i]
  by (simp add: index_inv_def rix.inv_delete) (simp add: fun_eq_iff mget_mdel)

text \<open>The loop over the identifiers: a missing object is a nil dereference.\<close>

definition fetch :: "('e \<Rightarrow> 'e) \<Rightarrow> (string, 'e) gomap \<Rightarrow> string list \<Rightarrow> 'e list option" where
  "fetch copy m ids = those (map (\<lambda>i. map_option copy (mget m i)) ids)"

lemma fetch_index:
  assumes "table_inv f os ok m ox" and "index_inv g m ix" and "\<And>e. ok e \<Longrightarrow> copy e = e"
  obtains es where "fetch copy m (Index_ids ix v) = Some es"
    and "set es = {e. mget m (f e) = Some e \<and> g e = v}" and "distinct (map f es)"
    and "map f es = Index_ids ix v"
proof -
  from assms(2) have ix: "rix_inv ix" "rix_map ix = map_option g \<circ> mget m"
    by (simp_all add: index_inv_def)
  define es where "es = map (\<lambda>i. the (mget m i)) (Index_ids ix v)"
  have stored: "\<exists>e. mget m i = Some e \<and> g e = v \<and> f e = i \<and> copy e = e"
    if "i \<in> set (Index_ids ix v)" for i
    using that rix.tracks_ids [OF ix] table_inv_get [OF assms(1)] assms(3) by metis
  then have "map (\<lambda>i. map_option copy (mget m i)) (Index_ids ix v) = map Some es"
    unfolding es_def by fastforce
  then have 1: "fetch copy m (Index_ids ix v) = Some es" unfolding fetch_def those_Some .
  have keys: "map f es = Index_ids ix v" unfolding es_def using stored by (fastforce intro: map_idI)
  have "e \<in> set es \<longleftrightarrow> mget m (f e) = Some e \<and> g e = v" for e
  proof
    assume "e \<in> set es"
    then show "mget m (f e) = Some e \<and> g e = v" unfolding es_def using stored by fastforce
  next
    assume e: "mget m (f e) = Some e \<and> g e = v"
    then have "f e \<in> set (Index_ids ix v)" using rix.tracks_ids [OF ix] by blast
    then show "e \<in> set es" unfolding es_def using e by (force simp: image_iff)
  qed
  then have "set es = {e. mget m (f e) = Some e \<and> g e = v}" by blast
  moreover have "distinct (map f es)" unfolding keys using rix.ids_distinct [OF ix(1)] .
  ultimately show thesis using that 1 keys by blast
qed

text \<open>What a transactional lookup returns: the saved objects that satisfy a condition, then the
  objects the parent found for it that are not saved.\<close>

lemma overlay_filter:
  assumes "mwf saved" and "keyed eid saved"
    and "set found = {e. look (eid e) = Some e \<and> P e}" and "distinct (map eid found)"
  shows "set (filter P (mvals saved) @ filter (\<lambda>e. \<not> mhas saved (eid e)) found) =
      {e. (case mget saved (eid e) of Some e' \<Rightarrow> Some e' | None \<Rightarrow> look (eid e)) = Some e \<and> P e}"
    and "distinct (map eid (filter P (mvals saved) @ filter (\<lambda>e. \<not> mhas saved (eid e)) found))"
proof -
  show "set (filter P (mvals saved) @ filter (\<lambda>e. \<not> mhas saved (eid e)) found) =
      {e. (case mget saved (eid e) of Some e' \<Rightarrow> Some e' | None \<Rightarrow> look (eid e)) = Some e \<and> P e}"
    (is "?l = ?r")
  proof (rule set_eqI)
    fix e
    show "e \<in> ?l \<longleftrightarrow> e \<in> ?r"
      unfolding set_append set_filter assms(3) keyed_vals_iff [OF assms(2,1)] mhas_def
        Un_iff mem_Collect_eq
      by (cases "mget saved (eid e)") auto
  qed
  have "distinct (map eid (mvals saved))" unfolding keyed_map [OF assms(2)] using assms(1) by (simp only: mwf_def)
  then have "distinct (map eid (filter P (mvals saved)))" by (rule distinct_map_filter)
  moreover have "distinct (map eid (filter (\<lambda>e. \<not> mhas saved (eid e)) found))"
    using assms(4) by (rule distinct_map_filter)
  moreover have "mhas saved (eid e)" if "e \<in> set (filter P (mvals saved))" for e
    using that keyed_vals_iff [OF assms(2,1)] by (simp only: set_filter mem_Collect_eq mhas_def) simp
  then have "set (map eid (filter P (mvals saved))) \<inter> set (map eid (filter (\<lambda>e. \<not> mhas saved (eid e)) found)) = {}"
    unfolding set_map set_filter by fastforce
  ultimately show "distinct (map eid (filter P (mvals saved) @ filter (\<lambda>e. \<not> mhas saved (eid e)) found))"
    unfolding map_append distinct_append by blast
qed

section \<open>Transactional managers\<close>

text \<open>The lookup of one kind of object after a commit, from the one before.\<close>

definition committed ::
  "(string, 'e) gomap \<Rightarrow> (string, 'e) gomap \<Rightarrow> ('e \<Rightarrow> 'e) \<Rightarrow> (string \<Rightarrow> 'e option) \<Rightarrow> string \<Rightarrow> 'e option" where
  "committed saved deleted seal old i =
     (case mget saved i of
        Some e \<Rightarrow> Some (seal e)
      | None \<Rightarrow> if mhas deleted i then None else old i)"

locale transactional_store = entity_store +
  fixes saved :: "'t \<Rightarrow> (string, 'e) gomap"
    and deleted :: "'t \<Rightarrow> (string, 'e) gomap"
    and tfind :: "'t \<Rightarrow> 's \<Rightarrow> string \<Rightarrow> 'e option"
    and tfind_all :: "'t \<Rightarrow> 's \<Rightarrow> 'e list"
    and tsave :: "uuid_gen \<Rightarrow> 'e \<Rightarrow> 't \<Rightarrow> uuid_gen \<times> 'e \<times> 't"
    and tdelete :: "'e \<Rightarrow> 't \<Rightarrow> 't"
    and tcommit :: "uuid_gen \<Rightarrow> 't \<Rightarrow> 's \<Rightarrow> uuid_gen \<times> 's"
    and trollback :: "'t \<Rightarrow> 't"
    and tinv :: "'t \<Rightarrow> bool"
  assumes tinv_iff: "tinv t \<longleftrightarrow> mwf (saved t) \<and> keyed eid (saved t) \<and>
      vals_ok (\<lambda>e. ewf e \<and> eid e \<noteq> []) (saved t) \<and>
      mwf (deleted t) \<and> keyed eid (deleted t)"
    and tfind_eq: "tinv t \<Longrightarrow>
      tfind t s i = (case mget (saved t) i of Some e \<Rightarrow> Some e | None \<Rightarrow> find s i)"
    and tfind_all_eq: "tinv t \<Longrightarrow> inv s \<Longrightarrow>
      tfind_all t s = mvals (saved t) @ filter (\<lambda>e. \<not> mhas (saved t) (eid e)) (find_all s)"
    and tsave_old: "eid e \<noteq> [] \<Longrightarrow> tsave g e t = (g', e', t') \<Longrightarrow>
      g' = g \<and> e' = e \<and> saved t' = mput (eid e') e' (saved t) \<and> deleted t' = deleted t"
    and tsave_new: "eid e = [] \<Longrightarrow> tsave g e t = (g', e', t') \<Longrightarrow>
      g' = snd (NewUUID g) \<and> eid e' = fst (NewUUID g) \<and> (ewf e \<longrightarrow> ewf e') \<and>
      saved t' = mput (eid e') e' (saved t) \<and> deleted t' = deleted t"
    and tdelete_eq: "saved (tdelete e t) = saved t"
      "deleted (tdelete e t) = mput (eid e) e (deleted t)"
    and tcommit_eq: "tcommit g t s =
      save_all save (mvals (saved t)) (g, fold delete (mvals (deleted t)) s)"
    and trollback_eq: "saved (trollback t) = []" "deleted (trollback t) = []"
begin

lemma tinv_tsave: "tinv t \<Longrightarrow> ewf e \<Longrightarrow> ug_ok g \<Longrightarrow> tsave g e t = (g', e', t') \<Longrightarrow> tinv t'"
proof (cases "eid e = []")
  case True
  assume *: "tinv t" "ewf e" "ug_ok g" "tsave g e t = (g', e', t')"
  from tsave_new [OF True *(4)] * have "saved t' = mput (eid e') e' (saved t)" "ewf e'" "eid e' \<noteq> []"
    "deleted t' = deleted t" by auto
  with *(1) show ?thesis by (simp add: tinv_iff)
next
  case False
  assume *: "tinv t" "ewf e" "ug_ok g" "tsave g e t = (g', e', t')"
  from tsave_old [OF False *(4)] * False
  have "saved t' = mput (eid e') e' (saved t)" "ewf e'" "eid e' \<noteq> []" "deleted t' = deleted t"
    by auto
  with *(1) show ?thesis by (simp add: tinv_iff)
qed

lemma tinv_tdelete: "tinv t \<Longrightarrow> tinv (tdelete e t)"
  by (simp add: tinv_iff tdelete_eq)

lemma tinv_trollback: "tinv (trollback t)"
  by (simp add: tinv_iff trollback_eq)

text \<open>Read your writes.\<close>

lemma tsave_tfind:
  assumes "tinv t" and "ewf e" and "ug_ok g" and "tsave g e t = (g', e', t')"
  shows "tfind t' s i = (if i = eid e' then Some e' else tfind t s i)"
proof -
  have "saved t' = mput (eid e') e' (saved t)"
    using tsave_old [OF _ assms(4)] tsave_new [OF _ assms(4)] by (cases "eid e = []") auto
  with tinv_tsave [OF assms] assms(1) show ?thesis by (simp add: tfind_eq mget_mput)
qed

text \<open>After the commit the parent holds the saved objects, without the deleted ones; an object
  that is both is there.\<close>

lemma commit_find:
  assumes "tinv t" and "inv s" and "ug_ok g"
  shows "\<exists>s'. tcommit g t s = (g, s') \<and> inv s' \<and> seal s' = seal s \<and>
    (\<forall>i. find s' i = (case mget (saved t) i of
           Some e \<Rightarrow> Some (seal s e)
         | None \<Rightarrow> if mhas (deleted t) i then None else find s i))"
proof -
  let ?d = "fold delete (mvals (deleted t)) s"
  note d = delete_all [OF assms(2), of "mvals (deleted t)"]
  have del: "i \<in> eid ` set (mvals (deleted t)) \<longleftrightarrow> mhas (deleted t) i" for i
    using assms(1) keyed_image [of eid "deleted t"] unfolding tinv_iff mhas_iff by blast
  from d have "inv ?d" by blast
  with assms obtain s' where s': "save_all save (mvals (saved t)) (g, ?d) = (g, s')" "inv s'"
    "seal s' = seal ?d"
    "\<And>i. find s' i = (case mget (saved t) i of Some e \<Rightarrow> Some (seal ?d e) | None \<Rightarrow> find ?d i)"
    using save_all_keyed [of ?d g "saved t"] unfolding tinv_iff by blast
  have seal_d: "seal ?d = seal s" using d by blast
  have find_d: "find ?d i = (if mhas (deleted t) i then None else find s i)" for i
    using delete_all [OF assms(2), of "mvals (deleted t)" i] unfolding del [of i] by blast
  have "find s' i = (case mget (saved t) i of
           Some e \<Rightarrow> Some (seal s e)
         | None \<Rightarrow> if mhas (deleted t) i then None else find s i)" for i
    unfolding s'(4) seal_d find_d ..
  with s'(1-3) seal_d show ?thesis unfolding tcommit_eq by (intro exI [of _ s']) simp
qed

lemma commit_committed:
  assumes "tinv t" and "inv s" and "ug_ok g"
  shows "\<exists>s'. tcommit g t s = (g, s') \<and> inv s' \<and>
    find s' = committed (saved t) (deleted t) (seal s) (find s)"
  using commit_find [OF assms] unfolding committed_def fun_eq_iff by blast

text \<open>The overlay is a preview of the commit, as long as nothing is deleted.\<close>

lemma commit_preview:
  assumes "tinv t" and "inv s" and "ug_ok g" and "deleted t = []"
    and "tcommit g t s = (g', s')"
  shows "find s' i = (case mget (saved t) i of Some e \<Rightarrow> Some (seal s e) | None \<Rightarrow> tfind t s i)"
proof -
  from commit_find [OF assms(1-3)] assms(4,5)
  have "find s' i = (case mget (saved t) i of Some e \<Rightarrow> Some (seal s e) | None \<Rightarrow> find s i)"
    by (auto simp: mhas_def)
  then show ?thesis using assms(1) by (simp add: tfind_eq split: option.split)
qed

lemma commit_empty: "tinv t \<Longrightarrow> saved t = [] \<Longrightarrow> deleted t = [] \<Longrightarrow> tcommit g t s = (g, s)"
  by (simp add: tcommit_eq)

text \<open>\<^verbatim>\<open>FindAll\<close> of the overlay lists exactly what \<^verbatim>\<open>Find\<close> finds, each object once.\<close>

lemma tfind_all_iff:
  assumes "tinv t" and "inv s"
  shows "e \<in> set (tfind_all t s) \<longleftrightarrow> tfind t s (eid e) = Some e"
proof -
  have saved: "e \<in> set (mvals (saved t)) \<longleftrightarrow> mget (saved t) (eid e) = Some e"
    by (rule keyed_vals_iff) (use assms(1) tinv_iff in blast)+
  have "e \<in> set (tfind_all t s) \<longleftrightarrow>
      e \<in> set (mvals (saved t)) \<or> mget (saved t) (eid e) = None \<and> e \<in> set (find_all s)"
    unfolding tfind_all_eq [OF assms] set_append set_filter mhas_def by auto
  then show ?thesis
    unfolding saved find_all_iff [OF assms(2)] tfind_eq [OF assms(1)]
    by (cases "mget (saved t) (eid e)") simp_all
qed

lemma tfind_all_distinct:
  assumes "tinv t" and "inv s"
  shows "distinct (map eid (tfind_all t s))"
proof -
  let ?rest = "filter (\<lambda>e. \<not> mhas (saved t) (eid e)) (find_all s)"
  have keys: "map eid (mvals (saved t)) = mkeys (saved t)" "distinct (mkeys (saved t))"
    using assms(1) by (simp_all add: tinv_iff mwf_def keyed_map del: map_map)
  moreover have "distinct (map eid ?rest)"
    using find_all_distinct [OF assms(2)] by (simp add: distinct_map_filter)
  moreover have "set (mkeys (saved t)) \<inter> set (map eid ?rest) = {}"
    by (auto simp: mhas_iff image_iff)
  ultimately show ?thesis
    unfolding tfind_all_eq [OF assms] map_append keys(1) distinct_append by blast
qed

end

end
