(* ===== verification/Values.thy ===== *)
theory Values
  imports ObjectIds "HOL-Library.Word"
begin

text \<open>
  The small value types the model objects are made of: attributes
  (\<^verbatim>\<open>model/attributes.go\<close>), references (\<^verbatim>\<open>model/reference.go\<close>,
  \<^verbatim>\<open>model/references.go\<close>), the lines of a stop area (\<^verbatim>\<open>model/stop_area_line_ids.go\<close>)
  and the monitoring status per partner (\<^verbatim>\<open>model/stop_area_origin.go\<close>).
\<close>

text \<open>A \<^verbatim>\<open>float64\<close> is kept as its bit pattern: the modelled code only copies it.\<close>

type_synonym float64 = "64 word"

text \<open>The events the managers send to the broadcasters
  (\<^verbatim>\<open>model/stop_visit_broadcast_event.go\<close>, \<^verbatim>\<open>model/general_message_broadcast_event.go\<close>).\<close>

record StopMonitoringBroadcastEvent =
  sme_SubscriptionId :: string
  sme_ModelId :: string
  sme_ModelType :: string

record GeneralMessageBroadcastEvent =
  gme_SituationId :: string

section \<open>Attributes\<close>

type_synonym Attributes = "(string, string) gomap"

definition NewAttributes :: Attributes where
  "NewAttributes = []"

definition Attributes_Set :: "string \<Rightarrow> string \<Rightarrow> Attributes \<Rightarrow> Attributes" where
  "Attributes_Set key value attributes =
     (if value = '''' then attributes else mput key value attributes)"

definition Attributes_IsEmpty :: "Attributes \<Rightarrow> bool" where
  "Attributes_IsEmpty attributes \<longleftrightarrow> length attributes = 0"

definition Attributes_Copy :: "Attributes \<Rightarrow> Attributes" where
  "Attributes_Copy attributes = fold (\<lambda>(k, v). mput k v) attributes []"

text \<open>Copying a map entry by entry gives the same map, in the same order.\<close>

lemma mput_append: "k \<notin> set (mkeys m) \<Longrightarrow> mput k v m = m @ [(k, v)]"
  by (induction m) auto

lemma fold_copy:
  "distinct (mkeys acc @ mkeys s) \<Longrightarrow> fold (\<lambda>(k, v). mput k (g v)) s acc = acc @ map (map_prod id g) s"
proof (induction s arbitrary: acc)
  case (Cons p s)
  then show ?case by (cases p) (simp add: mput_append image_iff)
qed simp

lemma mwf_fold_copy: "mwf m \<Longrightarrow> fold (\<lambda>(k, v). mput k (g v)) m [] = map (map_prod id g) m"
  by (simp add: mwf_def fold_copy)

lemma fold_copy_id: "mwf m \<Longrightarrow> fold (\<lambda>(k, v). mput k v) m [] = m"
  using mwf_fold_copy [of m "\<lambda>v. v"] by (simp add: map_prod_def map_idI)

lemma Attributes_Copy_id [simp]: "mwf m \<Longrightarrow> Attributes_Copy m = m"
  by (simp add: Attributes_Copy_def fold_copy_id)

lemma Attributes_Set_wf [simp, wf_intros]: "mwf m \<Longrightarrow> mwf (Attributes_Set k v m)"
  by (simp add: Attributes_Set_def)

section \<open>References\<close>

record Reference =
  ref_ObjectId :: "ObjectID option"
  ref_Type :: string

type_synonym References = "(string, Reference) gomap"

definition NewReference :: "ObjectID \<Rightarrow> Reference" where
  "NewReference objectId = \<lparr>ref_ObjectId = Some objectId, ref_Type = ''''\<rparr>"

text \<open>A nil \<open>ObjectId\<close> is dereferenced by \<^verbatim>\<open>HashValue\<close>: a crash.\<close>

definition Reference_GetSha1 :: "(string \<Rightarrow> string) \<Rightarrow> Reference \<Rightarrow> string option" where
  "Reference_GetSha1 sha1_hex reference = map_option (HashValue sha1_hex) (ref_ObjectId reference)"

definition NewReferences :: References where
  "NewReferences = []"

definition References_GetSiriReferences :: "References \<Rightarrow> (string, string) gomap option" where
  "References_GetSiriReferences references =
     fold (\<lambda>(k, v) acc. do { sref \<leftarrow> acc; obj \<leftarrow> ref_ObjectId v;
                             Some (mput k (oid_value obj) sref) })
       references (Some [])"

definition References_SetReference :: "string \<Rightarrow> Reference \<Rightarrow> References \<Rightarrow> References" where
  "References_SetReference key r references = mput key r references"

definition References_Get :: "References \<Rightarrow> string \<Rightarrow> Reference option" where
  "References_Get references key = mget references key"

text \<open>\<^verbatim>\<open>Set\<close> tests for the zero \<^verbatim>\<open>Reference{}\<close> only; any other reference without an
  identifier is dereferenced and crashes.\<close>

definition References_Set :: "string \<Rightarrow> Reference \<Rightarrow> References \<Rightarrow> References option" where
  "References_Set key value references =
     (if value = \<lparr>ref_ObjectId = None, ref_Type = ''''\<rparr> then Some references
      else do {
        obj \<leftarrow> ref_ObjectId value;
        (if oid_kind obj = '''' \<or> oid_value obj = '''' then Some references
         else Some (mput key value references)) })"

definition References_SetObjectId :: "string \<Rightarrow> ObjectID \<Rightarrow> References \<Rightarrow> References" where
  "References_SetObjectId key obj references =
     (if oid_kind obj = '''' \<or> oid_value obj = '''' then references
      else mput key \<lparr>ref_ObjectId = Some obj, ref_Type = ''''\<rparr> references)"

definition References_IsEmpty :: "References \<Rightarrow> bool" where
  "References_IsEmpty references \<longleftrightarrow> length references = 0"

definition References_Copy :: "References \<Rightarrow> References" where
  "References_Copy references =
     fold (\<lambda>(key, value). mput key
        \<lparr>ref_ObjectId = (case ref_ObjectId value of
                          None \<Rightarrow> None
                        | Some o1 \<Rightarrow> Some (NewObjectID (oid_kind o1) (oid_value o1))),
         ref_Type = ref_Type value\<rparr>) references []"

lemma Reference_copy_id:
  "\<lparr>ref_ObjectId = (case ref_ObjectId r of None \<Rightarrow> None
      | Some o1 \<Rightarrow> Some (NewObjectID (oid_kind o1) (oid_value o1))), ref_Type = ref_Type r\<rparr> = r"
  by (cases r) (simp add: NewObjectID_def split: option.split)

lemma References_Copy_id [simp]: "mwf m \<Longrightarrow> References_Copy m = m"
  by (simp only: References_Copy_def Reference_copy_id fold_copy_id)

lemma References_SetObjectId_wf [simp, wf_intros]: "mwf m \<Longrightarrow> mwf (References_SetObjectId k x m)"
  by (simp add: References_SetObjectId_def)

lemma mget_SetObjectId [gomap_simps]:
  "mget (References_SetObjectId k x m) j =
     (if j = k \<and> oid_kind x \<noteq> '''' \<and> oid_value x \<noteq> '''' then Some (NewReference x) else mget m j)"
  by (simp add: References_SetObjectId_def NewReference_def gomap_simps)

section \<open>Lines of a stop area\<close>

type_synonym LineId = ModelId

fun StopAreaLineIds_Contains :: "LineId list \<Rightarrow> LineId \<Rightarrow> bool" where
  "StopAreaLineIds_Contains [] id' = False"
| "StopAreaLineIds_Contains (lineId # ids) id' =
     (if lineId = id' then True else StopAreaLineIds_Contains ids id')"

definition StopAreaLineIds_Add :: "LineId \<Rightarrow> LineId list \<Rightarrow> LineId list" where
  "StopAreaLineIds_Add id' ids = (if \<not> StopAreaLineIds_Contains ids id' then ids @ [id'] else ids)"

lemma Contains_iff [simp]: "StopAreaLineIds_Contains ids x \<longleftrightarrow> x \<in> set ids"
  by (induction ids) auto

lemma set_StopAreaLineIds_Add [simp]: "set (StopAreaLineIds_Add x ids) = insert x (set ids)"
  by (auto simp: StopAreaLineIds_Add_def)

lemma distinct_StopAreaLineIds_Add [simp]: "distinct ids \<Longrightarrow> distinct (StopAreaLineIds_Add x ids)"
  by (auto simp: StopAreaLineIds_Add_def)

section \<open>Origins: monitoring status per partner\<close>

type_synonym StopAreaOrigins = "(string, bool) gomap"

definition NewStopAreaOrigins :: StopAreaOrigins where
  "NewStopAreaOrigins = []"

definition SetOriginsFromMap :: "(string, bool) gomap \<Rightarrow> StopAreaOrigins \<Rightarrow> StopAreaOrigins" where
  "SetOriginsFromMap originMap origins = fold (\<lambda>(partner, status). mput partner status) originMap []"

definition Origins_Copy :: "StopAreaOrigins \<Rightarrow> StopAreaOrigins" where
  "Origins_Copy origins = fold (\<lambda>(key, value). mput key value) origins []"

text \<open>The results \<^verbatim>\<open>(status, present)\<close>.\<close>

definition Origins_Origin :: "StopAreaOrigins \<Rightarrow> string \<Rightarrow> bool \<times> bool" where
  "Origins_Origin origins partner = (mget_or False origins partner, mhas origins partner)"

definition Origins_AllOrigin :: "StopAreaOrigins \<Rightarrow> (string, bool) gomap" where
  "Origins_AllOrigin origins = fold (\<lambda>(k, v). mput k v) origins []"

definition Origins_SetPartnerStatus :: "string \<Rightarrow> bool \<Rightarrow> StopAreaOrigins \<Rightarrow> StopAreaOrigins" where
  "Origins_SetPartnerStatus partner status origins = mput partner status origins"

definition Origins_NewOrigin :: "string \<Rightarrow> StopAreaOrigins \<Rightarrow> StopAreaOrigins" where
  "Origins_NewOrigin partner origins = Origins_SetPartnerStatus partner True origins"

fun Origins_Monitored :: "StopAreaOrigins \<Rightarrow> bool" where
  "Origins_Monitored [] = True"
| "Origins_Monitored ((partner, status) # origins) =
     (if \<not> status then False else Origins_Monitored origins)"

definition Origins_PartnersKO :: "StopAreaOrigins \<Rightarrow> string list" where
  "Origins_PartnersKO origins = map fst (filter (\<lambda>(partner, status). \<not> status) origins)"

definition Origins_PartnersLost ::
  "StopAreaOrigins \<Rightarrow> StopAreaOrigins option \<Rightarrow> string list \<times> bool" where
  "Origins_PartnersLost origins comparedOrigins =
     (case comparedOrigins of
        None \<Rightarrow> ([], False)
      | Some compared \<Rightarrow>
          fold (\<lambda>(partner, status) (partnersLost, r).
                  if status \<and> \<not> mget_or False compared partner
                  then (partnersLost @ [partner], True) else (partnersLost, r))
            origins ([], False))"

lemma Origins_Copy_id [simp]: "mwf m \<Longrightarrow> Origins_Copy m = m"
  by (simp add: Origins_Copy_def fold_copy_id)

lemma Origins_SetPartnerStatus_wf [simp, wf_intros]:
  "mwf m \<Longrightarrow> mwf (Origins_SetPartnerStatus p s m)"
  by (simp add: Origins_SetPartnerStatus_def)

lemma mget_SetPartnerStatus [gomap_simps]:
  "mget (Origins_SetPartnerStatus p s m) q = (if q = p then Some s else mget m q)"
  by (simp add: Origins_SetPartnerStatus_def gomap_simps)

lemma Monitored_all: "Origins_Monitored m \<longleftrightarrow> (\<forall>(p, s) \<in> set m. s)"
  by (induction m rule: Origins_Monitored.induct) auto

lemma Monitored_iff: "mwf m \<Longrightarrow> Origins_Monitored m \<longleftrightarrow> (\<forall>p s. mget m p = Some s \<longrightarrow> s)"
  by (metis (mono_tags) Monitored_all case_prodD case_prodI2 mwf_in_set)

lemma PartnersKO_iff: "mwf m \<Longrightarrow> p \<in> set (Origins_PartnersKO m) \<longleftrightarrow> mget m p = Some False"
  by (force simp: Origins_PartnersKO_def mwf_in_set)

lemma PartnersLost_eq:
  "Origins_PartnersLost m (Some c) =
     (let lost = map fst (filter (\<lambda>(p, s). s \<and> \<not> mget_or False c p) m) in (lost, lost \<noteq> []))"
proof -
  have "fold (\<lambda>(p, s) (l, r). if s \<and> \<not> mget_or False c p then (l @ [p], True) else (l, r)) m (l, r)
      = (let lost = map fst (filter (\<lambda>(p, s). s \<and> \<not> mget_or False c p) m)
         in (l @ lost, r \<or> lost \<noteq> []))" for l r
  proof (induction m arbitrary: l r)
    case (Cons p m)
    then show ?case by (cases p) (simp add: Let_def)
  qed simp
  then show ?thesis by (simp add: Origins_PartnersLost_def)
qed

text \<open>The three readings of a stop area's origins agree: it is monitored exactly when
  \<^verbatim>\<open>PartnersKO\<close> is empty, \<^verbatim>\<open>PartnersKO\<close> lists exactly the partners whose status is false,
  and after \<^verbatim>\<open>SetPartnerStatus\<close> it is monitored iff the new status is true and all the other
  partners are up.\<close>

theorem origins_monitored:
  assumes "mwf origins"
  shows "(Origins_Monitored origins \<longleftrightarrow> Origins_PartnersKO origins = []) \<and>
    (p \<in> set (Origins_PartnersKO origins) \<longleftrightarrow> Origins_Origin origins p = (False, True)) \<and>
    (Origins_Monitored (Origins_SetPartnerStatus p s origins) \<longleftrightarrow>
       s \<and> (\<forall>q. q \<noteq> p \<longrightarrow> Origins_Origin origins q \<noteq> (False, True)))"
proof (intro conjI)
  show "Origins_Monitored origins \<longleftrightarrow> Origins_PartnersKO origins = []"
    by (auto simp: Monitored_all Origins_PartnersKO_def filter_empty_conv split: prod.splits)
  have origin: "Origins_Origin origins q = (False, True) \<longleftrightarrow> mget origins q = Some False" for q
    by (auto simp: Origins_Origin_def mget_or_def mhas_def split: option.splits)
  then show "p \<in> set (Origins_PartnersKO origins) \<longleftrightarrow> Origins_Origin origins p = (False, True)"
    using PartnersKO_iff [OF assms] by simp
  show "Origins_Monitored (Origins_SetPartnerStatus p s origins) \<longleftrightarrow>
      s \<and> (\<forall>q. q \<noteq> p \<longrightarrow> Origins_Origin origins q \<noteq> (False, True))"
    using assms unfolding origin by (auto simp: Monitored_iff gomap_simps)
qed

theorem origins_monitored_witness:
  "\<not> Origins_Monitored (Origins_SetPartnerStatus ''a'' True [(''a'', False), (''b'', False)])"
  using origins_monitored [of "[(''a'', False), (''b'', False)]" "''a''" True]
  by (auto simp: mwf_def Origins_Origin_def mget_or_def mhas_def)

text \<open>\<^verbatim>\<open>PartnersLost\<close> reports exactly the partners that were up and are now down or
  gone, its flag says whether there is one, and comparing a stop area's origins with themselves
  reports nothing.\<close>

theorem origins_partners_lost:
  assumes "mwf origins"
  shows "(p \<in> set (fst (Origins_PartnersLost origins (Some compared))) \<longleftrightarrow>
      mget origins p = Some True \<and> mget compared p \<noteq> Some True) \<and>
    (snd (Origins_PartnersLost origins (Some compared)) \<longleftrightarrow>
      (\<exists>q. mget origins q = Some True \<and> mget compared q \<noteq> Some True)) \<and>
    Origins_PartnersLost origins (Some origins) = ([], False)"
proof (intro conjI)
  have in_lost: "q \<in> set (map fst (filter (\<lambda>(p, s). s \<and> \<not> mget_or False c p) origins)) \<longleftrightarrow>
      mget origins q = Some True \<and> mget c q \<noteq> Some True" for c q
    using assms by (force simp: mwf_in_set mget_or_def split: option.splits)
  show "p \<in> set (fst (Origins_PartnersLost origins (Some compared))) \<longleftrightarrow>
      mget origins p = Some True \<and> mget compared p \<noteq> Some True"
    by (simp only: PartnersLost_eq Let_def fst_conv in_lost)
  have "snd (Origins_PartnersLost origins (Some compared)) \<longleftrightarrow>
      (\<exists>q. q \<in> set (map fst (filter (\<lambda>(p, s). s \<and> \<not> mget_or False compared p) origins)))"
    by (simp only: PartnersLost_eq Let_def snd_conv ex_in_conv set_empty simp_thms)
  then show "snd (Origins_PartnersLost origins (Some compared)) \<longleftrightarrow>
      (\<exists>q. mget origins q = Some True \<and> mget compared q \<noteq> Some True)"
    by (simp only: in_lost)
  have "map fst (filter (\<lambda>(p, s). s \<and> \<not> mget_or False origins p) origins) = []"
    using in_lost [of _ origins] by (metis list.set_intros(1) neq_Nil_conv)
  then show "Origins_PartnersLost origins (Some origins) = ([], False)"
    by (simp only: PartnersLost_eq Let_def) simp
qed

theorem origins_partners_lost_witness:
  "''a'' \<in> set (fst (Origins_PartnersLost [(''a'', True), (''b'', True)] (Some [(''b'', True)])))"
  using origins_partners_lost [of "[(''a'', True), (''b'', True)]" "''a''" "[(''b'', True)]"]
  by (simp add: mwf_def)

text \<open>A reference without identifier but with a type crashes \<^verbatim>\<open>References.Set\<close>, since
  only the reference with both fields zero is filtered out.\<close>

theorem references_set_crash:
  "References_Set key r references = None \<longleftrightarrow> ref_ObjectId r = None \<and> ref_Type r \<noteq> ''''"
  by (cases "ref_ObjectId r") (auto simp: References_Set_def)

end
