(* ===== verification/Lines.thy ===== *)
theory Lines
  imports Stores Values
begin

text \<open>
  Lines: the object and its in-memory manager (\<^verbatim>\<open>model/lines.go\<close>), and the transactional
  overlay (\<^verbatim>\<open>model/transactional_lines.go\<close>).

  A manager method that stores its argument takes the identifier generator and returns it with
  the object as the caller's pointer sees it afterwards and the manager. A method of the overlay
  that reads its parent takes the parent manager as last argument.
\<close>

section \<open>The object\<close>

record Line =
  line_objectids :: ObjectIDs
  line_model :: model_ref
  line_origin :: string
  line_id :: LineId
  line_CollectGeneralMessages :: bool
  line_nextCollectAt :: gotime
  line_collectedAt :: gotime
  line_Name :: string
  line_Attributes :: Attributes
  line_References :: References

definition NewLine :: "model_ref \<Rightarrow> Line" where
  "NewLine model =
     \<lparr>line_objectids = [], line_model = model, line_origin = '''', line_id = '''',
      line_CollectGeneralMessages = False, line_nextCollectAt = 0, line_collectedAt = 0,
      line_Name = '''', line_Attributes = NewAttributes, line_References = NewReferences\<rparr>"

definition Line_copy :: "Line \<Rightarrow> Line" where
  "Line_copy line =
     line\<lparr>line_Attributes := Attributes_Copy (line_Attributes line),
          line_References := References_Copy (line_References line)\<rparr>"

definition Line_NextCollect :: "gotime \<Rightarrow> Line \<Rightarrow> Line" where
  "Line_NextCollect collectTime line = line\<lparr>line_nextCollectAt := collectTime\<rparr>"

definition Line_Updated :: "gotime \<Rightarrow> Line \<Rightarrow> Line" where
  "Line_Updated updateTime line = line\<lparr>line_collectedAt := updateTime\<rparr>"

definition Line_SetOrigin :: "string \<Rightarrow> Line \<Rightarrow> Line" where
  "Line_SetOrigin origin line = line\<lparr>line_origin := origin\<rparr>"

definition Line_SetObjectID :: "ObjectID \<Rightarrow> Line \<Rightarrow> Line" where
  "Line_SetObjectID objectid line =
     line\<lparr>line_objectids := Consumer_SetObjectID objectid (line_objectids line)\<rparr>"

definition Line_Attribute :: "Line \<Rightarrow> string \<Rightarrow> string option" where
  "Line_Attribute line key = mget (line_Attributes line) key"

definition Line_Reference :: "Line \<Rightarrow> string \<Rightarrow> Reference option" where
  "Line_Reference line key = References_Get (line_References line) key"

text \<open>The maps inside a line are proper Go maps, and its identifiers are filed by kind.\<close>

definition line_wf :: "Line \<Rightarrow> bool" where
  "line_wf line \<longleftrightarrow> oids_wf (line_objectids line) \<and> mwf (line_Attributes line) \<and>
     mwf (line_References line)"

lemma Line_copy_id [simp]: "line_wf line \<Longrightarrow> Line_copy line = line"
  by (simp add: Line_copy_def line_wf_def)

lemma line_wf_new [simp, wf_intros]: "line_wf (NewLine m)"
  by (simp add: line_wf_def NewLine_def NewAttributes_def NewReferences_def)

lemma line_wf_ops [simp, wf_intros]:
  "line_wf l \<Longrightarrow> line_wf (Line_SetObjectID x l)"
  "line_wf (Line_Updated t l) \<longleftrightarrow> line_wf l"
  "line_wf (Line_NextCollect t l) \<longleftrightarrow> line_wf l"
  "line_wf (Line_SetOrigin s l) \<longleftrightarrow> line_wf l"
  "line_wf (l\<lparr>line_id := i\<rparr>) \<longleftrightarrow> line_wf l"
  "line_wf (l\<lparr>line_model := r\<rparr>) \<longleftrightarrow> line_wf l"
  "line_wf (l\<lparr>line_Name := n\<rparr>) \<longleftrightarrow> line_wf l"
  "line_wf (l\<lparr>line_CollectGeneralMessages := b\<rparr>) \<longleftrightarrow> line_wf l"
  by (simp_all add: line_wf_def Line_SetObjectID_def Line_Updated_def Line_NextCollect_def
      Line_SetOrigin_def)

section \<open>The in-memory manager\<close>

record MemoryLines =
  mln_model :: model_ref
  mln_byIdentifier :: "(LineId, Line) gomap"
  mln_byObjectId :: ObjectIdIndex

definition NewMemoryLines :: MemoryLines where
  "NewMemoryLines =
     \<lparr>mln_model = NilModel, mln_byIdentifier = [], mln_byObjectId = NewObjectIdIndex\<rparr>"

definition MemoryLines_New :: "MemoryLines \<Rightarrow> Line" where
  "MemoryLines_New manager = NewLine (mln_model manager)"

definition MemoryLines_Find :: "MemoryLines \<Rightarrow> LineId \<Rightarrow> Line option" where
  "MemoryLines_Find manager i =
     (case mget (mln_byIdentifier manager) i of
        Some line \<Rightarrow> Some (Line_copy line)
      | None \<Rightarrow> None)"

definition MemoryLines_FindByObjectId :: "MemoryLines \<Rightarrow> ObjectID \<Rightarrow> Line option option" where
  "MemoryLines_FindByObjectId manager objectid =
     (case ObjectIdIndex_Find (mln_byObjectId manager) objectid of
        Some i \<Rightarrow>
          (case mget (mln_byIdentifier manager) i of
             None \<Rightarrow> None
           | Some line \<Rightarrow> Some (Some (Line_copy line)))
      | None \<Rightarrow> Some None)"

definition MemoryLines_FindAll :: "MemoryLines \<Rightarrow> Line list" where
  "MemoryLines_FindAll manager = map Line_copy (mvals (mln_byIdentifier manager))"

definition MemoryLines_Save ::
  "uuid_gen \<Rightarrow> Line \<Rightarrow> MemoryLines \<Rightarrow> uuid_gen \<times> Line \<times> MemoryLines" where
  "MemoryLines_Save g line manager =
     (let (g1, line1) = (if line_id line = ''''
                         then (let (u, g') = NewUUID g in (g', line\<lparr>line_id := u\<rparr>))
                         else (g, line));
          line2 = line1\<lparr>line_model := mln_model manager\<rparr>
      in (g1, line2,
          manager\<lparr>mln_byIdentifier := mput (line_id line2) line2 (mln_byIdentifier manager),
                  mln_byObjectId := ObjectIdIndex_Index (line_id line2) (line_objectids line2)
                    (mln_byObjectId manager)\<rparr>))"

definition MemoryLines_Delete :: "Line \<Rightarrow> MemoryLines \<Rightarrow> MemoryLines" where
  "MemoryLines_Delete line manager =
     manager\<lparr>mln_byIdentifier := mdel (line_id line) (mln_byIdentifier manager),
             mln_byObjectId := ObjectIdIndex_Delete (line_id line) (mln_byObjectId manager)\<rparr>"

definition MemoryLines_Clone :: "uuid_gen \<Rightarrow> model_ref \<Rightarrow> MemoryLines \<Rightarrow> uuid_gen \<times> MemoryLines" where
  "MemoryLines_Clone g model manager =
     save_all MemoryLines_Save (mvals (mln_byIdentifier manager))
       (g, NewMemoryLines\<lparr>mln_model := model\<rparr>)"

definition lines_inv :: "MemoryLines \<Rightarrow> bool" where
  "lines_inv s \<longleftrightarrow> table_inv line_id line_objectids line_wf (mln_byIdentifier s) (mln_byObjectId s)"

lemma lines_inv_new [simp]: "lines_inv NewMemoryLines" "lines_inv (NewMemoryLines\<lparr>mln_model := r\<rparr>)"
  by (simp_all add: lines_inv_def NewMemoryLines_def table_inv_new)

lemma MemoryLines_Save_eq:
  "MemoryLines_Save g line s =
     (let line2 = (if line_id line = [] then line\<lparr>line_id := fst (NewUUID g)\<rparr> else line)
                    \<lparr>line_model := mln_model s\<rparr>
      in ((if line_id line = [] then snd (NewUUID g) else g), line2,
          s\<lparr>mln_byIdentifier := mput (line_id line2) line2 (mln_byIdentifier s),
            mln_byObjectId := ObjectIdIndex_Index (line_id line2) (line_objectids line2)
              (mln_byObjectId s)\<rparr>))"
  by (simp add: MemoryLines_Save_def Let_def split: prod.split)

lemma lines_inv_table: "lines_inv s \<Longrightarrow>
    table_inv line_id line_objectids line_wf (mln_byIdentifier s) (mln_byObjectId s)"
  by (simp only: lines_inv_def)

lemma MemoryLines_Save_inv:
  assumes "lines_inv s" and "line_wf e" and "ug_ok g" and "MemoryLines_Save g e s = (g', e', s')"
  shows "lines_inv s'"
proof -
  from assms(2-4) have e': "line_wf e'" "line_id e' \<noteq> []" "oids_wf (line_objectids e')"
    by (auto simp: MemoryLines_Save_eq Let_def line_wf_def split: if_splits)
  from table_inv_put [OF assms(1) [unfolded lines_inv_def] e'] assms(4) show ?thesis
    by (auto simp: lines_inv_def MemoryLines_Save_eq Let_def split: if_splits)
qed

lemma MemoryLines_Delete_inv: "lines_inv s \<Longrightarrow> lines_inv (MemoryLines_Delete e s)"
  by (simp add: lines_inv_def MemoryLines_Delete_def table_inv_del)

interpretation mem_lines: indexed_table_store MemoryLines_Find MemoryLines_FindAll MemoryLines_Save
  MemoryLines_Delete line_id "\<lambda>s e. e\<lparr>line_model := mln_model s\<rparr>" line_wf lines_inv
  mln_byIdentifier Line_copy "\<lambda>i e. e\<lparr>line_id := i\<rparr>" 
  MemoryLines_FindByObjectId line_objectids mln_byObjectId
proof (unfold_locales, goal_cases)
  case (1 s)
  then show ?case using lines_inv_table [of s] by (simp only: table_inv_def)
next
  case (2 s e g g' e' s')
  then show ?case by (rule MemoryLines_Save_inv)
next
  case (3 s e)
  then show ?case by (rule MemoryLines_Delete_inv)
next
  case (4 e)
  then show ?case by simp
next
  case (5 s i)
  then show ?case by (simp add: MemoryLines_Find_def split: option.split)
next
  case (6 s)
  show ?case by (simp add: MemoryLines_FindAll_def)
next
  case (7 g e s g' e' s')
  then show ?case by (auto simp: MemoryLines_Save_eq Let_def)
next
  case (11 s)
  then show ?case by (rule lines_inv_table)
next
  case (12 s x)
  show ?case by (simp add: MemoryLines_FindByObjectId_def)
next
  case (13 g e s g' e' s')
  then show ?case by (auto simp: MemoryLines_Save_eq Let_def)
qed (simp_all add: MemoryLines_Delete_def line_wf_def)

lemmas MemoryLines_Find_eq = mem_lines.find_mget

section \<open>The transactional overlay\<close>

record TransactionalLines =
  tln_model :: model_ref
  tln_saved :: "(LineId, Line) gomap"
  tln_deleted :: "(LineId, Line) gomap"

definition TransactionalLines_resetCaches :: "TransactionalLines \<Rightarrow> TransactionalLines" where
  "TransactionalLines_resetCaches manager = manager\<lparr>tln_saved := [], tln_deleted := []\<rparr>"

definition NewTransactionalLines :: "model_ref \<Rightarrow> TransactionalLines" where
  "NewTransactionalLines model = \<lparr>tln_model = model, tln_saved = [], tln_deleted = []\<rparr>"

definition TransactionalLines_New :: "TransactionalLines \<Rightarrow> Line" where
  "TransactionalLines_New manager = NewLine (tln_model manager)"

definition TransactionalLines_Find ::
  "TransactionalLines \<Rightarrow> MemoryLines \<Rightarrow> LineId \<Rightarrow> Line option" where
  "TransactionalLines_Find manager parent i =
     (case mget (tln_saved manager) i of
        Some line \<Rightarrow> Some line
      | None \<Rightarrow> MemoryLines_Find parent i)"

text \<open>The loop over the saved objects reads a missing identifier as the zero value.\<close>

definition TransactionalLines_FindByObjectId ::
  "TransactionalLines \<Rightarrow> MemoryLines \<Rightarrow> ObjectID \<Rightarrow> Line option option" where
  "TransactionalLines_FindByObjectId manager parent objectid =
     (case first_some (\<lambda>line. oid_value (Consumer_ObjectID_or_zero (line_objectids line)
                                (oid_kind objectid)) = oid_value objectid)
             (mvals (tln_saved manager)) of
        Some line \<Rightarrow> Some (Some line)
      | None \<Rightarrow> MemoryLines_FindByObjectId parent objectid)"

definition TransactionalLines_FindAll :: "TransactionalLines \<Rightarrow> MemoryLines \<Rightarrow> Line list" where
  "TransactionalLines_FindAll manager parent =
     mvals (tln_saved manager) @
     filter (\<lambda>line. \<not> mhas (tln_saved manager) (line_id line)) (MemoryLines_FindAll parent)"

definition TransactionalLines_Save ::
  "uuid_gen \<Rightarrow> Line \<Rightarrow> TransactionalLines \<Rightarrow> uuid_gen \<times> Line \<times> TransactionalLines" where
  "TransactionalLines_Save g line manager =
     (let (g1, line1) = (if line_id line = ''''
                         then (let (u, g') = NewUUID g in (g', line\<lparr>line_id := u\<rparr>))
                         else (g, line))
      in (g1, line1,
          manager\<lparr>tln_saved := mput (line_id line1) line1 (tln_saved manager)\<rparr>))"

definition TransactionalLines_Delete :: "Line \<Rightarrow> TransactionalLines \<Rightarrow> TransactionalLines" where
  "TransactionalLines_Delete line manager =
     manager\<lparr>tln_deleted := mput (line_id line) line (tln_deleted manager)\<rparr>"

definition TransactionalLines_Commit ::
  "uuid_gen \<Rightarrow> TransactionalLines \<Rightarrow> MemoryLines \<Rightarrow> uuid_gen \<times> MemoryLines" where
  "TransactionalLines_Commit g manager parent =
     save_all MemoryLines_Save (mvals (tln_saved manager))
       (g, fold MemoryLines_Delete (mvals (tln_deleted manager)) parent)"

definition TransactionalLines_Rollback :: "TransactionalLines \<Rightarrow> TransactionalLines" where
  "TransactionalLines_Rollback manager = TransactionalLines_resetCaches manager"

definition tx_lines_inv :: "TransactionalLines \<Rightarrow> bool" where
  "tx_lines_inv t \<longleftrightarrow> mwf (tln_saved t) \<and> keyed line_id (tln_saved t) \<and>
     vals_ok (\<lambda>e. line_wf e \<and> line_id e \<noteq> []) (tln_saved t) \<and>
     mwf (tln_deleted t) \<and> keyed line_id (tln_deleted t)"

lemma tx_lines_inv_new [simp]: "tx_lines_inv (NewTransactionalLines r)"
  by (simp add: tx_lines_inv_def NewTransactionalLines_def)

interpretation tx_lines: transactional_store MemoryLines_Find MemoryLines_FindAll MemoryLines_Save
  MemoryLines_Delete line_id "\<lambda>s e. e\<lparr>line_model := mln_model s\<rparr>" line_wf lines_inv
  tln_saved tln_deleted TransactionalLines_Find TransactionalLines_FindAll TransactionalLines_Save
  TransactionalLines_Delete TransactionalLines_Commit TransactionalLines_Rollback tx_lines_inv
proof (unfold_locales, goal_cases)
  case (1 t)
  then show ?case by (simp add: tx_lines_inv_def)
next
  case (2 t s i)
  then show ?case by (simp add: TransactionalLines_Find_def split: option.split)
next
  case (3 t s)
  then show ?case by (simp add: TransactionalLines_FindAll_def)
next
  case (4 e g t g' e' t')
  then show ?case by (auto simp: TransactionalLines_Save_def)
next
  case (5 e g t g' e' t')
  then show ?case by (auto simp: TransactionalLines_Save_def Let_def split: prod.splits)
qed (simp_all add: TransactionalLines_Delete_def TransactionalLines_Commit_def
      TransactionalLines_Rollback_def TransactionalLines_resetCaches_def)

end
