(* ===== verification/Walks.thy ===== *)
theory Walks
  imports Prelude
begin

text \<open>
  Recursive walks over a graph that the code does not guard against cycles, such as the search
  for the family or the ascendants of a stop area. \<open>walk succ n x\<close> follows the successors in
  order, at most \<open>n\<close> nodes deep; \<^const>\<open>None\<close> is running out of depth. With a depth of the
  number of nodes, running out means that the walk would never end.
\<close>

fun walk :: "('n \<Rightarrow> 'n list) \<Rightarrow> nat \<Rightarrow> 'n \<Rightarrow> 'n list option" where
  "walk succ 0 x = None"
| "walk succ (Suc n) x =
     (case those (map (walk succ n) (succ x)) of
        None \<Rightarrow> None
      | Some ls \<Rightarrow> Some (x # concat ls))"

definition edges :: "('n \<Rightarrow> 'n list) \<Rightarrow> ('n \<times> 'n) set" where
  "edges succ = {(x, y). y \<in> set (succ x)}"

definition reach :: "('n \<Rightarrow> 'n list) \<Rightarrow> 'n \<Rightarrow> 'n set" where
  "reach succ x = {y. (x, y) \<in> (edges succ)\<^sup>*}"

lemma edges_iff [simp]: "(x, y) \<in> edges succ \<longleftrightarrow> y \<in> set (succ x)"
  by (simp add: edges_def)

lemma reach_refl [simp]: "x \<in> reach succ x"
  by (simp add: reach_def)

lemma reach_unfold: "reach succ x = insert x (\<Union>y \<in> set (succ x). reach succ y)"
  by (auto simp: reach_def elim: converse_rtranclE intro: converse_rtrancl_into_rtrancl)

lemma reach_succ: "y \<in> set (succ x) \<Longrightarrow> reach succ y \<subseteq> reach succ x"
  using reach_unfold [of succ x] by blast

text \<open>More depth never changes a result.\<close>

lemma walk_mono: "walk succ n x = Some r \<Longrightarrow> n \<le> k \<Longrightarrow> walk succ k x = Some r"
proof (induction n arbitrary: x r k)
  case (Suc n)
  from Suc.prems(1) obtain ls where ls: "those (map (walk succ n) (succ x)) = Some ls"
    and r: "r = x # concat ls" by (auto split: option.splits)
  from Suc.prems(2) obtain k' where k: "k = Suc k'" "n \<le> k'" by (cases k) auto
  have "walk succ k' y = walk succ n y" if "y \<in> set (succ x)" for y
  proof -
    from those_map_Some [OF ls that] obtain l where l: "walk succ n y = Some l" by blast
    from Suc.IH [OF this k(2)] l show ?thesis by simp
  qed
  then have eq: "map (walk succ k') (succ x) = map (walk succ n) (succ x)" by simp
  show ?case unfolding k walk.simps eq ls r by simp
qed simp

lemma walk_succ:
  assumes "walk succ (Suc n) x = Some r" and "y \<in> set (succ x)"
  obtains l where "walk succ n y = Some l"
  using assms by (auto split: option.splits dest: those_map_Some)

lemma walk_trancl:
  "(x, y) \<in> (edges succ)\<^sup>+ \<Longrightarrow> walk succ n x = Some r \<Longrightarrow> \<exists>k < n. \<exists>l. walk succ k y = Some l"
proof (induction arbitrary: n r rule: converse_trancl_induct)
  case (base x)
  then obtain n' where n: "n = Suc n'" by (cases n) auto
  with base have w: "walk succ (Suc n') x = Some r" and y: "y \<in> set (succ x)" by simp_all
  from w y obtain l where "walk succ n' y = Some l" by (rule walk_succ)
  with n show ?case by blast
next
  case (step x z)
  from step.prems obtain n' where n: "n = Suc n'" by (cases n) auto
  with step.hyps(1) step.prems have w: "walk succ (Suc n') x = Some r" and z: "z \<in> set (succ x)"
    by simp_all
  from w z obtain l where "walk succ n' z = Some l" by (rule walk_succ)
  from step.IH [OF this] n show ?case by (meson less_Suc_eq)
qed

text \<open>A walk that ends has no cycle ahead.\<close>

lemma walk_no_cycle:
  assumes "walk succ n x = Some r"
  shows "(x, x) \<notin> (edges succ)\<^sup>+"
proof
  assume cyc: "(x, x) \<in> (edges succ)\<^sup>+"
  define k where "k = (LEAST k. \<exists>l. walk succ k x = Some l)"
  from assms have ex: "\<exists>k l. walk succ k x = Some l" by blast
  from LeastI_ex [OF ex] obtain l where "walk succ k x = Some l" unfolding k_def by blast
  from walk_trancl [OF cyc this] obtain j where "j < k" "\<exists>l. walk succ j x = Some l" by blast
  then show False unfolding k_def by (blast dest: not_less_Least)
qed

lemma walk_no_cycle_ahead:
  assumes "walk succ n x = Some r" and "y \<in> reach succ x"
  shows "(y, y) \<notin> (edges succ)\<^sup>+"
proof -
  from assms(2) have "x = y \<or> (x, y) \<in> (edges succ)\<^sup>+"
    by (auto simp: reach_def rtrancl_eq_or_trancl)
  then show ?thesis using assms(1) walk_no_cycle walk_trancl by metis
qed

lemma reach_succ_psubset:
  assumes "y \<in> set (succ x)" and "(x, x) \<notin> (edges succ)\<^sup>+"
  shows "reach succ y \<subset> reach succ x"
proof -
  have "x \<notin> reach succ y"
    using assms rtrancl_into_trancl2 [of x y "edges succ" x] by (auto simp: reach_def)
  moreover from assms(1) have "reach succ y \<subseteq> reach succ x" by (rule reach_succ)
  ultimately show ?thesis using reach_refl [of x succ] by blast
qed

text \<open>Without a cycle ahead, the number of nodes ahead is depth enough.\<close>

lemma walk_enough:
  assumes "finite (reach succ x)" and "\<forall>y \<in> reach succ x. (y, y) \<notin> (edges succ)\<^sup>+"
    and "card (reach succ x) \<le> n"
  shows "walk succ n x \<noteq> None"
  using assms
proof (induction n arbitrary: x)
  case 0
  then show ?case using reach_refl [of x succ] by auto
next
  case (Suc n)
  have children: "walk succ n y \<noteq> None" if y: "y \<in> set (succ x)" for y
  proof (rule Suc.IH)
    from Suc.prems(2) have "(x, x) \<notin> (edges succ)\<^sup>+" by simp
    with y have sub: "reach succ y \<subset> reach succ x" by (rule reach_succ_psubset)
    with Suc.prems(1) show "finite (reach succ y)" using finite_subset by blast
    from sub Suc.prems(1) have "card (reach succ y) < card (reach succ x)" by (rule psubset_card_mono [rotated])
    with Suc.prems(3) show "card (reach succ y) \<le> n" by simp
    from sub Suc.prems(2) show "\<forall>z \<in> reach succ y. (z, z) \<notin> (edges succ)\<^sup>+" by blast
  qed
  have "None \<notin> set (map (walk succ n) (succ x))"
    using children by (metis (no_types, lifting) image_iff list.set_map)
  then have "those (map (walk succ n) (succ x)) \<noteq> None"
    by (simp only: those_None) simp
  then show ?case by (auto split: option.split)
qed

text \<open>What a walk returns: every node ahead.\<close>

lemma walk_set: "walk succ n x = Some r \<Longrightarrow> set r = reach succ x"
proof (induction n arbitrary: x r)
  case (Suc n)
  then obtain ls where ls: "those (map (walk succ n) (succ x)) = Some ls" and r: "r = x # concat ls"
    by (auto split: option.splits)
  from ls have eq: "map (walk succ n) (succ x) = map Some ls" by (simp only: those_Some)
  have "set ` set ls = reach succ ` set (succ x)"
  proof -
    have "(\<lambda>w. case w of Some l \<Rightarrow> set l | None \<Rightarrow> {}) ` set (map (walk succ n) (succ x)) = set ` set ls"
      unfolding eq by force
    moreover have "(case walk succ n y of Some l \<Rightarrow> set l | None \<Rightarrow> {}) = reach succ y"
      if "y \<in> set (succ x)" for y
      using those_map_Some [OF ls that] Suc.IH by auto
    ultimately show ?thesis by (simp add: image_image)
  qed
  then have "(\<Union>l \<in> set ls. set l) = (\<Union>y \<in> set (succ x). reach succ y)" by simp
  with r show ?case using reach_unfold [of succ x] by simp
qed simp

text \<open>The walk with a fixed depth that covers all nodes: it fails exactly on a cycle ahead,
  and then it fails at every depth.\<close>

theorem walk_complete:
  assumes "finite (reach succ x)" and "card (reach succ x) \<le> n"
  shows "walk succ n x = None \<longleftrightarrow> (\<exists>y \<in> reach succ x. (y, y) \<in> (edges succ)\<^sup>+)"
    and "walk succ n x = None \<longleftrightarrow> (\<forall>k. walk succ k x = None)"
proof -
  show 1: "walk succ n x = None \<longleftrightarrow> (\<exists>y \<in> reach succ x. (y, y) \<in> (edges succ)\<^sup>+)"
    using walk_enough [OF assms(1) _ assms(2)] walk_no_cycle_ahead [of succ n x]
    by (cases "walk succ n x") auto
  show "walk succ n x = None \<longleftrightarrow> (\<forall>k. walk succ k x = None)"
    using 1 walk_no_cycle_ahead [of succ _ x] by (metis option.exhaust)
qed

end
