(* ===== verification/StopAreas.thy ===== *)
theory StopAreas
  imports Lines Walks
begin

text \<open>
  Stop areas: the object and its in-memory manager (\<^verbatim>\<open>model/stop_area.go\<close>), and the
  transactional overlay (\<^verbatim>\<open>model/transactional_stop_areas.go\<close>). Stop areas form a hierarchy
  through their parent and their referent, which the manager walks down (family) and up
  (ascendants) by unguarded recursion.

  The callback \<^verbatim>\<open>broadcastEvent\<close> is modelled by what it was called with: \<^const>\<open>None\<close> is the
  nil callback of a cloned manager, \<open>Some log\<close> the events passed so far.
\<close>

section \<open>The object\<close>

type_synonym StopAreaId = ModelId

record StopArea =
  sa_objectids :: ObjectIDs
  sa_model :: model_ref
  sa_id :: StopAreaId
  sa_ParentId :: StopAreaId
  sa_ReferentId :: StopAreaId
  sa_nextCollectAt :: gotime
  sa_collectedAt :: gotime
  sa_CollectedUntil :: gotime
  sa_CollectedAlways :: bool
  sa_CollectGeneralMessages :: bool
  sa_Monitored :: bool
  sa_Origins :: StopAreaOrigins
  sa_Name :: string
  sa_LineIds :: "LineId list"
  sa_CollectChildren :: bool
  sa_Attributes :: Attributes
  sa_References :: References
  sa_Longitude :: float64
  sa_Latitude :: float64

definition NewStopArea :: "model_ref \<Rightarrow> StopArea" where
  "NewStopArea model =
     \<lparr>sa_objectids = [], sa_model = model, sa_id = '''', sa_ParentId = '''', sa_ReferentId = '''',
      sa_nextCollectAt = 0, sa_collectedAt = 0, sa_CollectedUntil = 0, sa_CollectedAlways = True,
      sa_CollectGeneralMessages = False, sa_Monitored = False, sa_Origins = NewStopAreaOrigins,
      sa_Name = '''', sa_LineIds = [], sa_CollectChildren = False,
      sa_Attributes = NewAttributes, sa_References = NewReferences,
      sa_Longitude = 0, sa_Latitude = 0\<rparr>"

definition StopArea_copy :: "StopArea \<Rightarrow> StopArea" where
  "StopArea_copy stopArea =
     stopArea\<lparr>sa_Origins := Origins_Copy (sa_Origins stopArea),
              sa_Attributes := Attributes_Copy (sa_Attributes stopArea),
              sa_References := References_Copy (sa_References stopArea)\<rparr>"

definition StopArea_NextCollect :: "gotime \<Rightarrow> StopArea \<Rightarrow> StopArea" where
  "StopArea_NextCollect collectTime stopArea = stopArea\<lparr>sa_nextCollectAt := collectTime\<rparr>"

definition StopArea_Updated :: "gotime \<Rightarrow> StopArea \<Rightarrow> StopArea" where
  "StopArea_Updated updateTime stopArea = stopArea\<lparr>sa_collectedAt := updateTime\<rparr>"

definition StopArea_SetObjectID :: "ObjectID \<Rightarrow> StopArea \<Rightarrow> StopArea" where
  "StopArea_SetObjectID objectid stopArea =
     stopArea\<lparr>sa_objectids := Consumer_SetObjectID objectid (sa_objectids stopArea)\<rparr>"

definition StopArea_Attribute :: "StopArea \<Rightarrow> string \<Rightarrow> string option" where
  "StopArea_Attribute stopArea key = mget (sa_Attributes stopArea) key"

definition StopArea_Reference :: "StopArea \<Rightarrow> string \<Rightarrow> Reference option" where
  "StopArea_Reference stopArea key = References_Get (sa_References stopArea) key"

text \<open>The lines of a stop area are read from its model; \<open>None\<close> is the nil dereference of an area
  without model.\<close>

definition StopArea_Lines :: "MemoryLines \<Rightarrow> StopArea \<Rightarrow> Line list option" where
  "StopArea_Lines lines stopArea =
     fold (\<lambda>lineId acc. do {
             found \<leftarrow> acc;
             (case sa_model stopArea of
                NilModel \<Rightarrow> None
              | TheModel \<Rightarrow> (case MemoryLines_Find lines lineId of
                                Some foundLine \<Rightarrow> Some (found @ [foundLine])
                              | None \<Rightarrow> Some found)) })
       (sa_LineIds stopArea) (Some [])"

definition StopArea_SetPartnerStatus :: "string \<Rightarrow> bool \<Rightarrow> StopArea \<Rightarrow> StopArea" where
  "StopArea_SetPartnerStatus partner status stopArea =
     (let origins = Origins_SetPartnerStatus partner status (sa_Origins stopArea)
      in stopArea\<lparr>sa_Origins := origins, sa_Monitored := Origins_Monitored origins\<rparr>)"

definition stop_area_wf :: "StopArea \<Rightarrow> bool" where
  "stop_area_wf sa \<longleftrightarrow> oids_wf (sa_objectids sa) \<and> mwf (sa_Origins sa) \<and>
     mwf (sa_Attributes sa) \<and> mwf (sa_References sa)"

lemma StopArea_copy_id [simp]: "stop_area_wf sa \<Longrightarrow> StopArea_copy sa = sa"
  by (simp add: StopArea_copy_def stop_area_wf_def)

lemma StopArea_copy_sel [simp]:
  "sa_id (StopArea_copy sa) = sa_id sa" "sa_objectids (StopArea_copy sa) = sa_objectids sa"
  by (simp_all add: StopArea_copy_def)

lemma stop_area_wf_new [simp, wf_intros]: "stop_area_wf (NewStopArea m)"
  by (simp add: stop_area_wf_def NewStopArea_def NewStopAreaOrigins_def NewAttributes_def
      NewReferences_def)

lemma stop_area_wf_ops [simp, wf_intros]:
  "stop_area_wf sa \<Longrightarrow> stop_area_wf (StopArea_SetObjectID x sa)"
  "stop_area_wf sa \<Longrightarrow> stop_area_wf (StopArea_SetPartnerStatus p b sa)"
  "stop_area_wf (StopArea_Updated t sa) \<longleftrightarrow> stop_area_wf sa"
  "stop_area_wf (StopArea_NextCollect t sa) \<longleftrightarrow> stop_area_wf sa"
  "stop_area_wf (sa\<lparr>sa_id := i\<rparr>) \<longleftrightarrow> stop_area_wf sa"
  "stop_area_wf (sa\<lparr>sa_model := r\<rparr>) \<longleftrightarrow> stop_area_wf sa"
  "stop_area_wf (sa\<lparr>sa_ParentId := i\<rparr>) \<longleftrightarrow> stop_area_wf sa"
  "stop_area_wf (sa\<lparr>sa_ReferentId := i\<rparr>) \<longleftrightarrow> stop_area_wf sa"
  "stop_area_wf (sa\<lparr>sa_Name := n\<rparr>) \<longleftrightarrow> stop_area_wf sa"
  "stop_area_wf (sa\<lparr>sa_LineIds := ls\<rparr>) \<longleftrightarrow> stop_area_wf sa"
  "stop_area_wf (sa\<lparr>sa_CollectedAlways := b\<rparr>) \<longleftrightarrow> stop_area_wf sa"
  "stop_area_wf (sa\<lparr>sa_CollectGeneralMessages := b\<rparr>) \<longleftrightarrow> stop_area_wf sa"
  "stop_area_wf (sa\<lparr>sa_Longitude := lon\<rparr>) \<longleftrightarrow> stop_area_wf sa"
  "stop_area_wf (sa\<lparr>sa_Latitude := lat\<rparr>) \<longleftrightarrow> stop_area_wf sa"
  by (simp_all add: stop_area_wf_def StopArea_SetObjectID_def StopArea_Updated_def
      StopArea_NextCollect_def StopArea_SetPartnerStatus_def Let_def)

section \<open>The in-memory manager\<close>

record MemoryStopAreas =
  msa_model :: model_ref
  msa_byIdentifier :: "(StopAreaId, StopArea) gomap"
  msa_byObjectId :: ObjectIdIndex
  msa_broadcastEvent :: "StopMonitoringBroadcastEvent list option"

definition NewMemoryStopAreas :: MemoryStopAreas where
  "NewMemoryStopAreas =
     \<lparr>msa_model = NilModel, msa_byIdentifier = [], msa_byObjectId = NewObjectIdIndex,
      msa_broadcastEvent = None\<rparr>"

definition MemoryStopAreas_New :: "MemoryStopAreas \<Rightarrow> StopArea" where
  "MemoryStopAreas_New manager = NewStopArea (msa_model manager)"

definition MemoryStopAreas_Find :: "MemoryStopAreas \<Rightarrow> StopAreaId \<Rightarrow> StopArea option" where
  "MemoryStopAreas_Find manager i =
     (case mget (msa_byIdentifier manager) i of
        Some stopArea \<Rightarrow> Some (StopArea_copy stopArea)
      | None \<Rightarrow> None)"

definition MemoryStopAreas_FindByObjectId ::
  "MemoryStopAreas \<Rightarrow> ObjectID \<Rightarrow> StopArea option option" where
  "MemoryStopAreas_FindByObjectId manager objectid =
     (case ObjectIdIndex_Find (msa_byObjectId manager) objectid of
        Some i \<Rightarrow>
          (case mget (msa_byIdentifier manager) i of
             None \<Rightarrow> None
           | Some stopArea \<Rightarrow> Some (Some (StopArea_copy stopArea)))
      | None \<Rightarrow> Some None)"

definition MemoryStopAreas_FindByLineId :: "MemoryStopAreas \<Rightarrow> LineId \<Rightarrow> StopArea list" where
  "MemoryStopAreas_FindByLineId manager i =
     map StopArea_copy (filter (\<lambda>stopArea. StopAreaLineIds_Contains (sa_LineIds stopArea) i)
       (mvals (msa_byIdentifier manager)))"

definition MemoryStopAreas_FindByOrigin :: "MemoryStopAreas \<Rightarrow> string \<Rightarrow> StopAreaId list" where
  "MemoryStopAreas_FindByOrigin manager origin =
     map sa_id (filter (\<lambda>stopArea. snd (Origins_Origin (sa_Origins stopArea) origin))
       (mvals (msa_byIdentifier manager)))"

definition MemoryStopAreas_FindAll :: "MemoryStopAreas \<Rightarrow> StopArea list" where
  "MemoryStopAreas_FindAll manager = map StopArea_copy (mvals (msa_byIdentifier manager))"

definition MemoryStopAreas_Save ::
  "uuid_gen \<Rightarrow> StopArea \<Rightarrow> MemoryStopAreas \<Rightarrow> uuid_gen \<times> StopArea \<times> MemoryStopAreas" where
  "MemoryStopAreas_Save g stopArea manager =
     (let (g1, stopArea1) = (if sa_id stopArea = ''''
                             then (let (u, g') = NewUUID g in (g', stopArea\<lparr>sa_id := u\<rparr>))
                             else (g, stopArea));
          stopArea2 = stopArea1\<lparr>sa_model := msa_model manager\<rparr>;
          event = \<lparr>sme_SubscriptionId = '''', sme_ModelId = sa_id stopArea2,
                   sme_ModelType = ''StopArea''\<rparr>
      in (g1, stopArea2,
          manager\<lparr>msa_byIdentifier := mput (sa_id stopArea2) stopArea2 (msa_byIdentifier manager),
                  msa_byObjectId := ObjectIdIndex_Index (sa_id stopArea2) (sa_objectids stopArea2)
                    (msa_byObjectId manager),
                  msa_broadcastEvent := map_option (\<lambda>log. log @ [event]) (msa_broadcastEvent manager)\<rparr>))"

definition MemoryStopAreas_Delete :: "StopArea \<Rightarrow> MemoryStopAreas \<Rightarrow> MemoryStopAreas" where
  "MemoryStopAreas_Delete stopArea manager =
     manager\<lparr>msa_byIdentifier := mdel (sa_id stopArea) (msa_byIdentifier manager),
             msa_byObjectId := ObjectIdIndex_Delete (sa_id stopArea) (msa_byObjectId manager)\<rparr>"

text \<open>The clone keeps no identifier: every area gets a fresh one.\<close>

definition MemoryStopAreas_Clone ::
  "uuid_gen \<Rightarrow> model_ref \<Rightarrow> MemoryStopAreas \<Rightarrow> uuid_gen \<times> MemoryStopAreas" where
  "MemoryStopAreas_Clone g model manager =
     save_all MemoryStopAreas_Save
       (map (\<lambda>stopArea. stopArea\<lparr>sa_id := ''''\<rparr>) (mvals (msa_byIdentifier manager)))
       (g, NewMemoryStopAreas\<lparr>msa_model := model\<rparr>)"

subsection \<open>The hierarchy\<close>

text \<open>The recursion depth is counted down; running out is \<open>None\<close>. A stop area's family is itself
  and the families of the areas it is the parent or the referent of.\<close>

fun findFamily ::
  "nat \<Rightarrow> (StopAreaId, StopArea) gomap \<Rightarrow> StopAreaId \<Rightarrow> StopAreaId list option" where
  "findFamily 0 m stopAreaId = None"
| "findFamily (Suc n) m stopAreaId =
     fold (\<lambda>stopArea acc. do {
             stopAreaIds \<leftarrow> acc;
             (if sa_ParentId stopArea = stopAreaId \<or> sa_ReferentId stopArea = stopAreaId
              then do { family \<leftarrow> findFamily n m (sa_id stopArea); Some (stopAreaIds @ family) }
              else Some stopAreaIds) })
       (mvals m) (Some [stopAreaId])"

fun findAscendants ::
  "nat \<Rightarrow> (StopAreaId, StopArea) gomap \<Rightarrow> StopAreaId \<Rightarrow> StopArea list option" where
  "findAscendants 0 m stopAreaId =
     (case mget m stopAreaId of None \<Rightarrow> Some [] | Some sa \<Rightarrow> None)"
| "findAscendants (Suc n) m stopAreaId =
     (case mget m stopAreaId of
        None \<Rightarrow> Some []
      | Some sa \<Rightarrow> do {
          fromParent \<leftarrow> (if sa_ParentId sa \<noteq> '''' then findAscendants n m (sa_ParentId sa) else Some []);
          fromReferent \<leftarrow> (if sa_ReferentId sa \<noteq> '''' then findAscendants n m (sa_ReferentId sa)
                           else Some []);
          Some ([StopArea_copy sa] @ fromParent @ fromReferent) })"

fun findAscendantsWithObjectIdKind ::
  "nat \<Rightarrow> (StopAreaId, StopArea) gomap \<Rightarrow> string \<Rightarrow> StopAreaId \<Rightarrow> ObjectID list option" where
  "findAscendantsWithObjectIdKind 0 m kind stopAreaId =
     (case mget m stopAreaId of None \<Rightarrow> Some [] | Some sa \<Rightarrow> None)"
| "findAscendantsWithObjectIdKind (Suc n) m kind stopAreaId =
     (case mget m stopAreaId of
        None \<Rightarrow> Some []
      | Some sa \<Rightarrow> do {
          own \<leftarrow> (case Consumer_ObjectID (sa_objectids sa) kind of
                    Some i \<Rightarrow> Some [i] | None \<Rightarrow> Some []);
          fromParent \<leftarrow> (if sa_ParentId sa \<noteq> ''''
                          then findAscendantsWithObjectIdKind n m kind (sa_ParentId sa) else Some []);
          fromReferent \<leftarrow> (if sa_ReferentId sa \<noteq> ''''
                            then findAscendantsWithObjectIdKind n m kind (sa_ReferentId sa)
                            else Some []);
          Some (own @ fromParent @ fromReferent) })"

text \<open>One more than the number of stored areas is depth enough (theorems below).\<close>

definition MemoryStopAreas_FindFamily ::
  "MemoryStopAreas \<Rightarrow> StopAreaId \<Rightarrow> StopAreaId list option" where
  "MemoryStopAreas_FindFamily manager stopAreaId =
     findFamily (Suc (length (msa_byIdentifier manager))) (msa_byIdentifier manager) stopAreaId"

definition MemoryStopAreas_FindAscendants ::
  "MemoryStopAreas \<Rightarrow> StopAreaId \<Rightarrow> StopArea list option" where
  "MemoryStopAreas_FindAscendants manager stopAreaId =
     findAscendants (Suc (length (msa_byIdentifier manager))) (msa_byIdentifier manager) stopAreaId"

definition MemoryStopAreas_FindAscendantsWithObjectIdKind ::
  "MemoryStopAreas \<Rightarrow> StopAreaId \<Rightarrow> string \<Rightarrow> ObjectID list option" where
  "MemoryStopAreas_FindAscendantsWithObjectIdKind manager stopAreaId kind =
     findAscendantsWithObjectIdKind (Suc (length (msa_byIdentifier manager)))
       (msa_byIdentifier manager) kind stopAreaId"

subsection \<open>Navigation from an area\<close>

definition StopArea_Parent :: "MemoryStopAreas \<Rightarrow> StopArea \<Rightarrow> StopArea option option" where
  "StopArea_Parent manager stopArea =
     (case sa_model stopArea of
        NilModel \<Rightarrow> None
      | TheModel \<Rightarrow> Some (MemoryStopAreas_Find manager (sa_ParentId stopArea)))"

definition StopArea_Referent :: "MemoryStopAreas \<Rightarrow> StopArea \<Rightarrow> StopArea option option" where
  "StopArea_Referent manager stopArea =
     (case sa_model stopArea of
        NilModel \<Rightarrow> None
      | TheModel \<Rightarrow> Some (MemoryStopAreas_Find manager (sa_ReferentId stopArea)))"

definition StopArea_ReferentOrSelfObjectId ::
  "MemoryStopAreas \<Rightarrow> StopArea \<Rightarrow> string \<Rightarrow> ObjectID option option" where
  "StopArea_ReferentOrSelfObjectId manager stopArea objectIDKind =
     do { ref \<leftarrow> StopArea_Referent manager stopArea;
          (let self = Consumer_ObjectID (sa_objectids stopArea) objectIDKind
           in (case ref of
                 Some r \<Rightarrow> (case Consumer_ObjectID (sa_objectids r) objectIDKind of
                              Some objectID \<Rightarrow> Some (Some objectID)
                            | None \<Rightarrow> Some self)
               | None \<Rightarrow> Some self)) }"

section \<open>The manager keeps the contract\<close>

definition stopareas_inv :: "MemoryStopAreas \<Rightarrow> bool" where
  "stopareas_inv s \<longleftrightarrow> table_inv sa_id sa_objectids stop_area_wf (msa_byIdentifier s) (msa_byObjectId s)"

lemma stopareas_inv_new [simp]:
  "stopareas_inv NewMemoryStopAreas"
  "stopareas_inv (NewMemoryStopAreas\<lparr>msa_model := r\<rparr>)"
  "stopareas_inv (s\<lparr>msa_broadcastEvent := b\<rparr>) \<longleftrightarrow> stopareas_inv s"
  by (simp_all add: stopareas_inv_def NewMemoryStopAreas_def table_inv_new)

lemma MemoryStopAreas_Save_eq:
  "MemoryStopAreas_Save g sa s =
     (let sa2 = (if sa_id sa = [] then sa\<lparr>sa_id := fst (NewUUID g)\<rparr> else sa)\<lparr>sa_model := msa_model s\<rparr>
      in ((if sa_id sa = [] then snd (NewUUID g) else g), sa2,
          s\<lparr>msa_byIdentifier := mput (sa_id sa2) sa2 (msa_byIdentifier s),
            msa_byObjectId := ObjectIdIndex_Index (sa_id sa2) (sa_objectids sa2) (msa_byObjectId s),
            msa_broadcastEvent := map_option (\<lambda>log. log @
              [\<lparr>sme_SubscriptionId = '''', sme_ModelId = sa_id sa2, sme_ModelType = ''StopArea''\<rparr>])
              (msa_broadcastEvent s)\<rparr>))"
  by (simp add: MemoryStopAreas_Save_def Let_def split: prod.split)

lemma stopareas_inv_table: "stopareas_inv s \<Longrightarrow>
    table_inv sa_id sa_objectids stop_area_wf (msa_byIdentifier s) (msa_byObjectId s)"
  by (simp only: stopareas_inv_def)

lemma MemoryStopAreas_Save_inv:
  assumes "stopareas_inv s" and "stop_area_wf e" and "ug_ok g" and "MemoryStopAreas_Save g e s = (g', e', s')"
  shows "stopareas_inv s'"
proof -
  from assms(2-4) have e': "stop_area_wf e'" "sa_id e' \<noteq> []" "oids_wf (sa_objectids e')"
    by (auto simp: MemoryStopAreas_Save_eq Let_def stop_area_wf_def split: if_splits)
  from table_inv_put [OF assms(1) [unfolded stopareas_inv_def] e'] assms(4) show ?thesis
    by (auto simp: stopareas_inv_def MemoryStopAreas_Save_eq Let_def split: if_splits)
qed

lemma MemoryStopAreas_Delete_inv: "stopareas_inv s \<Longrightarrow> stopareas_inv (MemoryStopAreas_Delete e s)"
  by (simp add: stopareas_inv_def MemoryStopAreas_Delete_def table_inv_del)

interpretation mem_stopareas: indexed_table_store MemoryStopAreas_Find MemoryStopAreas_FindAll MemoryStopAreas_Save
  MemoryStopAreas_Delete sa_id "\<lambda>s e. e\<lparr>sa_model := msa_model s\<rparr>" stop_area_wf stopareas_inv
  msa_byIdentifier StopArea_copy "\<lambda>i e. e\<lparr>sa_id := i\<rparr>" 
  MemoryStopAreas_FindByObjectId sa_objectids msa_byObjectId
proof (unfold_locales, goal_cases)
  case (1 s)
  then show ?case using stopareas_inv_table [of s] by (simp only: table_inv_def)
next
  case (2 s e g g' e' s')
  then show ?case by (rule MemoryStopAreas_Save_inv)
next
  case (3 s e)
  then show ?case by (rule MemoryStopAreas_Delete_inv)
next
  case (4 e)
  then show ?case by simp
next
  case (5 s i)
  then show ?case by (simp add: MemoryStopAreas_Find_def split: option.split)
next
  case (6 s)
  show ?case by (simp add: MemoryStopAreas_FindAll_def)
next
  case (7 g e s g' e' s')
  then show ?case by (auto simp: MemoryStopAreas_Save_eq Let_def)
next
  case (11 s)
  then show ?case by (rule stopareas_inv_table)
next
  case (12 s x)
  show ?case by (simp add: MemoryStopAreas_FindByObjectId_def)
next
  case (13 g e s g' e' s')
  then show ?case by (auto simp: MemoryStopAreas_Save_eq Let_def)
qed (simp_all add: MemoryStopAreas_Delete_def stop_area_wf_def)

lemmas MemoryStopAreas_Find_eq = mem_stopareas.find_mget

section \<open>The transactional overlay\<close>

record TransactionalStopAreas =
  tsa_model :: model_ref
  tsa_saved :: "(StopAreaId, StopArea) gomap"
  tsa_deleted :: "(StopAreaId, StopArea) gomap"

definition TransactionalStopAreas_resetCaches :: "TransactionalStopAreas \<Rightarrow> TransactionalStopAreas" where
  "TransactionalStopAreas_resetCaches manager = manager\<lparr>tsa_saved := [], tsa_deleted := []\<rparr>"

definition NewTransactionalStopAreas :: "model_ref \<Rightarrow> TransactionalStopAreas" where
  "NewTransactionalStopAreas model = \<lparr>tsa_model = model, tsa_saved = [], tsa_deleted = []\<rparr>"

definition TransactionalStopAreas_New :: "TransactionalStopAreas \<Rightarrow> StopArea" where
  "TransactionalStopAreas_New manager = NewStopArea (tsa_model manager)"

definition TransactionalStopAreas_Find ::
  "TransactionalStopAreas \<Rightarrow> MemoryStopAreas \<Rightarrow> StopAreaId \<Rightarrow> StopArea option" where
  "TransactionalStopAreas_Find manager parent i =
     (case mget (tsa_saved manager) i of
        Some stopArea \<Rightarrow> Some (StopArea_copy stopArea)
      | None \<Rightarrow> MemoryStopAreas_Find parent i)"

text \<open>The loop over the saved objects reads a missing identifier as the zero value.\<close>

definition TransactionalStopAreas_FindByObjectId ::
  "TransactionalStopAreas \<Rightarrow> MemoryStopAreas \<Rightarrow> ObjectID \<Rightarrow> StopArea option option" where
  "TransactionalStopAreas_FindByObjectId manager parent objectid =
     (case first_some (\<lambda>stopArea. oid_value (Consumer_ObjectID_or_zero (sa_objectids stopArea)
                                (oid_kind objectid)) = oid_value objectid)
             (mvals (tsa_saved manager)) of
        Some stopArea \<Rightarrow> Some (Some (StopArea_copy stopArea))
      | None \<Rightarrow> MemoryStopAreas_FindByObjectId parent objectid)"

definition TransactionalStopAreas_FindAll :: "TransactionalStopAreas \<Rightarrow> MemoryStopAreas \<Rightarrow> StopArea list" where
  "TransactionalStopAreas_FindAll manager parent =
     map StopArea_copy (mvals (tsa_saved manager)) @
     filter (\<lambda>stopArea. \<not> mhas (tsa_saved manager) (sa_id stopArea)) (MemoryStopAreas_FindAll parent)"

definition TransactionalStopAreas_FindByLineId ::
  "TransactionalStopAreas \<Rightarrow> MemoryStopAreas \<Rightarrow> LineId \<Rightarrow> StopArea list" where
  "TransactionalStopAreas_FindByLineId manager parent i =
     map StopArea_copy (filter (\<lambda>stopArea. StopAreaLineIds_Contains (sa_LineIds stopArea) i)
       (mvals (tsa_saved manager))) @
     filter (\<lambda>stopArea. \<not> mhas (tsa_saved manager) (sa_id stopArea))
       (MemoryStopAreas_FindByLineId parent i)"

definition TransactionalStopAreas_FindByOrigin ::
  "TransactionalStopAreas \<Rightarrow> MemoryStopAreas \<Rightarrow> string \<Rightarrow> StopAreaId list" where
  "TransactionalStopAreas_FindByOrigin manager parent origin =
     filter (\<lambda>stopAreaId. \<not> mhas (tsa_deleted manager) stopAreaId)
       (MemoryStopAreas_FindByOrigin parent origin)"

definition TransactionalStopAreas_FindFamily ::
  "TransactionalStopAreas \<Rightarrow> MemoryStopAreas \<Rightarrow> StopAreaId \<Rightarrow> StopAreaId list option" where
  "TransactionalStopAreas_FindFamily manager parent stopAreaId =
     map_option (filter (\<lambda>i. \<not> mhas (tsa_deleted manager) i))
       (MemoryStopAreas_FindFamily parent stopAreaId)"

definition TransactionalStopAreas_FindAscendants ::
  "TransactionalStopAreas \<Rightarrow> MemoryStopAreas \<Rightarrow> StopAreaId \<Rightarrow> StopArea list option" where
  "TransactionalStopAreas_FindAscendants manager parent stopAreaId =
     map_option (\<lambda>found.
         map (\<lambda>stopArea. case mget (tsa_saved manager) (sa_id stopArea) of
                            Some savedStopArea \<Rightarrow> StopArea_copy savedStopArea
                          | None \<Rightarrow> stopArea)
           (filter (\<lambda>stopArea. \<not> mhas (tsa_deleted manager) (sa_id stopArea)) found))
       (MemoryStopAreas_FindAscendants parent stopAreaId)"

definition TransactionalStopAreas_findByObjectIdInDeleted ::
  "TransactionalStopAreas \<Rightarrow> ObjectID \<Rightarrow> bool" where
  "TransactionalStopAreas_findByObjectIdInDeleted manager objectid \<longleftrightarrow>
     list_ex (\<lambda>sa. case Consumer_ObjectID (sa_objectids sa) (oid_kind objectid) of
                     Some i \<Rightarrow> oid_value i = oid_value objectid
                   | None \<Rightarrow> False) (mvals (tsa_deleted manager))"

definition TransactionalStopAreas_FindAscendantsWithObjectIdKind ::
  "TransactionalStopAreas \<Rightarrow> MemoryStopAreas \<Rightarrow> StopAreaId \<Rightarrow> string \<Rightarrow> ObjectID list option" where
  "TransactionalStopAreas_FindAscendantsWithObjectIdKind manager parent stopAreaId kind =
     map_option (filter (\<lambda>x. \<not> TransactionalStopAreas_findByObjectIdInDeleted manager x))
       (MemoryStopAreas_FindAscendantsWithObjectIdKind parent stopAreaId kind)"

definition TransactionalStopAreas_Save ::
  "uuid_gen \<Rightarrow> StopArea \<Rightarrow> TransactionalStopAreas \<Rightarrow> uuid_gen \<times> StopArea \<times> TransactionalStopAreas" where
  "TransactionalStopAreas_Save g stopArea manager =
     (let (g1, stopArea1) = (if sa_id stopArea = ''''
                         then (let (u, g') = NewUUID g in (g', stopArea\<lparr>sa_id := u\<rparr>))
                         else (g, stopArea))
      in (g1, stopArea1,
          manager\<lparr>tsa_saved := mput (sa_id stopArea1) stopArea1 (tsa_saved manager)\<rparr>))"

definition TransactionalStopAreas_Delete :: "StopArea \<Rightarrow> TransactionalStopAreas \<Rightarrow> TransactionalStopAreas" where
  "TransactionalStopAreas_Delete stopArea manager =
     manager\<lparr>tsa_deleted := mput (sa_id stopArea) stopArea (tsa_deleted manager)\<rparr>"

definition TransactionalStopAreas_Commit ::
  "uuid_gen \<Rightarrow> TransactionalStopAreas \<Rightarrow> MemoryStopAreas \<Rightarrow> uuid_gen \<times> MemoryStopAreas" where
  "TransactionalStopAreas_Commit g manager parent =
     save_all MemoryStopAreas_Save (mvals (tsa_saved manager))
       (g, fold MemoryStopAreas_Delete (mvals (tsa_deleted manager)) parent)"

definition TransactionalStopAreas_Rollback :: "TransactionalStopAreas \<Rightarrow> TransactionalStopAreas" where
  "TransactionalStopAreas_Rollback manager = TransactionalStopAreas_resetCaches manager"

definition tx_stopareas_inv :: "TransactionalStopAreas \<Rightarrow> bool" where
  "tx_stopareas_inv t \<longleftrightarrow> mwf (tsa_saved t) \<and> keyed sa_id (tsa_saved t) \<and>
     vals_ok (\<lambda>e. stop_area_wf e \<and> sa_id e \<noteq> []) (tsa_saved t) \<and>
     mwf (tsa_deleted t) \<and> keyed sa_id (tsa_deleted t)"

lemma tx_stopareas_inv_new [simp]: "tx_stopareas_inv (NewTransactionalStopAreas r)"
  by (simp add: tx_stopareas_inv_def NewTransactionalStopAreas_def)

interpretation tx_stopareas: transactional_store MemoryStopAreas_Find MemoryStopAreas_FindAll MemoryStopAreas_Save
  MemoryStopAreas_Delete sa_id "\<lambda>s e. e\<lparr>sa_model := msa_model s\<rparr>" stop_area_wf stopareas_inv
  tsa_saved tsa_deleted TransactionalStopAreas_Find TransactionalStopAreas_FindAll TransactionalStopAreas_Save
  TransactionalStopAreas_Delete TransactionalStopAreas_Commit TransactionalStopAreas_Rollback tx_stopareas_inv
proof (unfold_locales, goal_cases)
  case (1 t)
  then show ?case by (simp add: tx_stopareas_inv_def)
next
  case (2 t s i)
  then show ?case
    by (auto simp: TransactionalStopAreas_Find_def tx_stopareas_inv_def dest: vals_ok_mget split: option.split)
next
  case (3 t s)
  then have "vals_ok stop_area_wf (tsa_saved t)" by (simp add: tx_stopareas_inv_def vals_ok_def list_all_iff)
  then have "map StopArea_copy (mvals (tsa_saved t)) = mvals (tsa_saved t)"
    by (rule map_copy_vals [rotated]) simp
  then show ?case by (simp only: TransactionalStopAreas_FindAll_def)
next
  case (4 e g t g' e' t')
  then show ?case by (auto simp: TransactionalStopAreas_Save_def)
next
  case (5 e g t g' e' t')
  then show ?case by (auto simp: TransactionalStopAreas_Save_def Let_def split: prod.splits)
qed (simp_all add: TransactionalStopAreas_Delete_def TransactionalStopAreas_Commit_def
      TransactionalStopAreas_Rollback_def TransactionalStopAreas_resetCaches_def)

section \<open>The walks over the hierarchy\<close>

text \<open>The relations the two recursions follow: from an area to those that name it as parent or
  referent, and from a stored area to its own stored parent and referent.\<close>

definition child_edges :: "(StopAreaId, StopArea) gomap \<Rightarrow> (StopAreaId \<times> StopAreaId) set" where
  "child_edges m = {(i, j). \<exists>sa \<in> set (mvals m). sa_id sa = j \<and>
     (sa_ParentId sa = i \<or> sa_ReferentId sa = i)}"

definition parent_edges :: "(StopAreaId, StopArea) gomap \<Rightarrow> (StopAreaId \<times> StopAreaId) set" where
  "parent_edges m = {(i, j). \<exists>sa. mget m i = Some sa \<and> mget m j \<noteq> None \<and> j \<noteq> '''' \<and>
     (sa_ParentId sa = j \<or> sa_ReferentId sa = j)}"

definition children :: "(StopAreaId, StopArea) gomap \<Rightarrow> StopAreaId \<Rightarrow> StopAreaId list" where
  "children m i = map sa_id (filter (\<lambda>sa. sa_ParentId sa = i \<or> sa_ReferentId sa = i) (mvals m))"

definition parents :: "(StopAreaId, StopArea) gomap \<Rightarrow> StopAreaId \<Rightarrow> StopAreaId list" where
  "parents m i =
     (case mget m i of
        None \<Rightarrow> []
      | Some sa \<Rightarrow> filter (\<lambda>j. j \<noteq> '''' \<and> mhas m j) [sa_ParentId sa, sa_ReferentId sa])"

lemma edges_children: "edges (children m) = child_edges m"
  by (force simp: edges_def children_def child_edges_def)

lemma edges_parents: "edges (parents m) = parent_edges m"
proof -
  have "(i, j) \<in> edges (parents m) \<longleftrightarrow> (i, j) \<in> parent_edges m" for i j
    by (cases "mget m i") (auto simp: parents_def parent_edges_def mhas_def)
  then show ?thesis by auto
qed

lemma fold_bind_walk:
  "fold (\<lambda>x acc. do { a \<leftarrow> acc;
       (if P x then do { l \<leftarrow> g x; Some (a @ l) } else Some a) }) xs (Some a0) =
   (case those (map g (filter P xs)) of None \<Rightarrow> None | Some ls \<Rightarrow> Some (a0 @ concat ls))"
proof -
  have none: "fold (\<lambda>x acc. do { a \<leftarrow> acc;
       (if P x then do { l \<leftarrow> g x; Some (a @ l) } else Some a) }) xs None = None" for xs
    by (induction xs) simp_all
  show ?thesis
    by (induction xs arbitrary: a0) (auto simp: none split: option.splits bind_splits)
qed

lemma findFamily_walk: "findFamily n m i = walk (children m) n i"
proof (induction n arbitrary: i)
  case (Suc n)
  then have "findFamily n m = walk (children m) n" by (simp add: fun_eq_iff)
  then show ?case
    by (simp add: fold_bind_walk children_def [of m i] comp_def split: option.split)
qed simp

lemma findAscendants_stored:
  "mget m i \<noteq> None \<Longrightarrow>
   findAscendants n m i = map_option (map (\<lambda>j. StopArea_copy (the (mget m j)))) (walk (parents m) n i)"
proof (induction n arbitrary: i)
  case 0
  then show ?case by (auto split: option.split)
next
  case (Suc n)
  from Suc.prems obtain sa where sa: "mget m i = Some sa" by blast
  have up: "(if j \<noteq> '''' then findAscendants n m j else Some []) =
      (if j \<noteq> '''' \<and> mhas m j
       then map_option (map (\<lambda>j. StopArea_copy (the (mget m j)))) (walk (parents m) n j) else Some [])" for j
    using Suc.IH [of j] by (cases n) (auto simp: mhas_def split: option.split)
  have parents: "parents m i = filter (\<lambda>j. j \<noteq> '''' \<and> mhas m j) [sa_ParentId sa, sa_ReferentId sa]"
    by (simp add: parents_def sa)
  show ?case
    unfolding findAscendants.simps walk.simps sa option.case up parents
    by (auto simp: sa split: option.splits bind_splits)
qed

lemma map_filter_app: "List.map_filter f (xs @ ys) = List.map_filter f xs @ List.map_filter f ys"
  by (simp add: List.map_filter_def)

lemma findAscendantsWithObjectIdKind_map:
  "findAscendantsWithObjectIdKind n m kind i =
   map_option (List.map_filter (\<lambda>sa. Consumer_ObjectID (sa_objectids sa) kind)) (findAscendants n m i)"
proof (induction n arbitrary: i)
  case 0
  then show ?case by (auto simp: List.map_filter_simps split: option.split)
next
  case (Suc n)
  then show ?case
    by (auto simp: List.map_filter_simps map_filter_app split: option.splits bind_splits)
qed

lemma reach_children: "reach (children m) i \<subseteq> set (i # map sa_id (mvals m))"
proof
  fix j assume "j \<in> reach (children m) i"
  then have "(i, j) \<in> (edges (children m))\<^sup>*" by (simp add: reach_def)
  then show "j \<in> set (i # map sa_id (mvals m))"
    by (cases rule: rtranclE) (auto simp: children_def)
qed

lemma reach_parents: "mget m i \<noteq> None \<Longrightarrow> reach (parents m) i \<subseteq> set (mkeys m)"
proof
  fix j assume i: "mget m i \<noteq> None" and "j \<in> reach (parents m) i"
  then have "(i, j) \<in> (parent_edges m)\<^sup>*" by (simp add: reach_def edges_parents)
  then have "mget m j \<noteq> None" using i
    by (induction rule: rtrancl_induct) (auto simp: parent_edges_def)
  then show "j \<in> set (mkeys m)" unfolding mhas_iff [symmetric] mhas_def .
qed

lemma card_list: "A \<subseteq> set xs \<Longrightarrow> finite A \<and> card A \<le> length xs"
  using card_length [of xs] card_mono [of "set xs" A] finite_subset [of A "set xs"] by fastforce

text \<open>C21. The search for the family of a stop area (itself and everything below it through
  parent or referent) returns exactly the areas reachable downwards, when no reachable area is
  below itself. Otherwise it does not end, whatever the recursion depth: the code does not guard
  against cycles.\<close>

theorem find_family:
  "case MemoryStopAreas_FindFamily s i of
     Some family \<Rightarrow>
       set family = (child_edges (msa_byIdentifier s))\<^sup>* `` {i} \<and>
       \<not> (\<exists>j. (i, j) \<in> (child_edges (msa_byIdentifier s))\<^sup>* \<and>
              (j, j) \<in> (child_edges (msa_byIdentifier s))\<^sup>+)
   | None \<Rightarrow>
       (\<exists>j. (i, j) \<in> (child_edges (msa_byIdentifier s))\<^sup>* \<and>
            (j, j) \<in> (child_edges (msa_byIdentifier s))\<^sup>+) \<and>
       (\<forall>depth. findFamily depth (msa_byIdentifier s) i = None)"
proof -
  let ?m = "msa_byIdentifier s"
  from card_list [OF reach_children, of ?m i]
  have "finite (reach (children ?m) i)" "card (reach (children ?m) i) \<le> Suc (length ?m)" by simp_all
  note walk = walk_complete [OF this] walk_set [of "children ?m" "Suc (length ?m)" i]
  then show ?thesis
    unfolding MemoryStopAreas_FindFamily_def findFamily_walk
    by (auto simp: reach_def edges_children simp del: walk.simps split: option.split)
qed

lemma findAscendants_unknown: "mget m i = None \<Longrightarrow> findAscendants n m i = Some []"
  by (cases n) simp_all

lemma ascendants_stored:
  assumes "stopareas_inv s" and "set ids \<subseteq> set (mkeys (msa_byIdentifier s))"
  shows "map sa_id (map (\<lambda>j. StopArea_copy (the (mget (msa_byIdentifier s) j))) ids) = ids"
    and "list_all (\<lambda>a. MemoryStopAreas_Find s (sa_id a) = Some a)
      (map (\<lambda>j. StopArea_copy (the (mget (msa_byIdentifier s) j))) ids)"
proof -
  let ?m = "msa_byIdentifier s" and ?c = "\<lambda>j. StopArea_copy (the (mget (msa_byIdentifier s) j))"
  have each: "sa_id (?c j) = j \<and> mget ?m j = Some (?c j)" if j: "j \<in> set ids" for j
  proof -
    from j assms(2) have "mhas ?m j" by (auto simp: mhas_iff)
    then obtain a where a: "mget ?m j = Some a" by (auto simp: mhas_def)
    with table_inv_get [OF assms(1) [unfolded stopareas_inv_def] a] show ?thesis by simp
  qed
  then show "map sa_id (map ?c ids) = ids" by (simp add: map_idI)
  from each show "list_all (\<lambda>a. MemoryStopAreas_Find s (sa_id a) = Some a) (map ?c ids)"
    unfolding MemoryStopAreas_Find_eq [OF assms(1)] by (simp add: list_all_iff)
qed

lemma ascendants_spec:
  assumes "stopareas_inv s"
  shows "case MemoryStopAreas_Find s i of
     None \<Rightarrow> MemoryStopAreas_FindAscendants s i = Some []
   | Some sa \<Rightarrow>
       (case MemoryStopAreas_FindAscendants s i of
          Some areas \<Rightarrow>
            set (map sa_id areas) = (parent_edges (msa_byIdentifier s))\<^sup>* `` {i} \<and>
            list_all (\<lambda>a. MemoryStopAreas_Find s (sa_id a) = Some a) areas \<and>
            \<not> (\<exists>j. (i, j) \<in> (parent_edges (msa_byIdentifier s))\<^sup>* \<and>
                   (j, j) \<in> (parent_edges (msa_byIdentifier s))\<^sup>+)
        | None \<Rightarrow>
            (\<exists>j. (i, j) \<in> (parent_edges (msa_byIdentifier s))\<^sup>* \<and>
                 (j, j) \<in> (parent_edges (msa_byIdentifier s))\<^sup>+) \<and>
            (\<forall>depth. findAscendants depth (msa_byIdentifier s) i = None))"
proof (cases "MemoryStopAreas_Find s i")
  case None
  then show ?thesis
    by (simp add: MemoryStopAreas_Find_eq [OF assms] MemoryStopAreas_FindAscendants_def)
next
  case (Some sa)
  let ?m = "msa_byIdentifier s"
  from Some have i: "mget ?m i \<noteq> None" by (simp add: MemoryStopAreas_Find_eq [OF assms])
  have reach: "reach (parents ?m) i = (parent_edges ?m)\<^sup>* `` {i}"
    by (auto simp: reach_def edges_parents)
  from card_list [OF reach_parents [OF i]]
  have "finite (reach (parents ?m) i)" "card (reach (parents ?m) i) \<le> Suc (length ?m)" by simp_all
  note walk = walk_complete [OF this, unfolded edges_parents]
  show ?thesis
  proof (cases "walk (parents ?m) (Suc (length ?m)) i")
    case None
    with walk have "\<exists>j. (i, j) \<in> (parent_edges ?m)\<^sup>* \<and> (j, j) \<in> (parent_edges ?m)\<^sup>+"
      "\<forall>depth. walk (parents ?m) depth i = None" unfolding reach by auto
    with None Some i show ?thesis
      by (simp add: MemoryStopAreas_FindAscendants_def findAscendants_stored del: walk.simps
          findAscendants.simps)
  next
    case (Some ids)
    from walk_set [OF Some] have set: "set ids = (parent_edges ?m)\<^sup>* `` {i}" by (simp only: reach)
    with reach_parents [OF i] reach have "set ids \<subseteq> set (mkeys ?m)" by simp
    note stored = ascendants_stored [OF assms this]
    from Some walk(1) have "\<not> (\<exists>j. (i, j) \<in> (parent_edges ?m)\<^sup>* \<and> (j, j) \<in> (parent_edges ?m)\<^sup>+)"
      unfolding reach by auto
    with Some \<open>MemoryStopAreas_Find s i = Some sa\<close> set stored show ?thesis
      unfolding MemoryStopAreas_FindAscendants_def findAscendants_stored [OF i] Some
      by (simp only: option.map option.case stored simp_thms)
  qed
qed

text \<open>The search for the ascendants of a stored stop area returns exactly the stored areas
  reachable upwards through parent and referent, as they are stored, when none of them is above
  itself; otherwise it does not end, whatever the recursion depth. An unknown area has no
  ascendants.\<close>

theorem find_ascendants:
  assumes "stopareas_inv s"
  shows "case MemoryStopAreas_Find s i of
     None \<Rightarrow> MemoryStopAreas_FindAscendants s i = Some []
   | Some sa \<Rightarrow>
       (case MemoryStopAreas_FindAscendants s i of
          Some areas \<Rightarrow>
            set (map sa_id areas) = (parent_edges (msa_byIdentifier s))\<^sup>* `` {i} \<and>
            list_all (\<lambda>a. MemoryStopAreas_Find s (sa_id a) = Some a) areas \<and>
            \<not> (\<exists>j. (i, j) \<in> (parent_edges (msa_byIdentifier s))\<^sup>* \<and>
                   (j, j) \<in> (parent_edges (msa_byIdentifier s))\<^sup>+)
        | None \<Rightarrow>
            (\<exists>j. (i, j) \<in> (parent_edges (msa_byIdentifier s))\<^sup>* \<and>
                 (j, j) \<in> (parent_edges (msa_byIdentifier s))\<^sup>+) \<and>
            (\<forall>depth. findAscendants depth (msa_byIdentifier s) i = None))"
  using ascendants_spec [OF assms] .

definition example_area :: StopArea where
  "example_area = (NewStopArea NilModel)\<lparr>sa_id := ''b'', sa_ParentId := ''a''\<rparr>"

definition example_areas :: MemoryStopAreas where
  "example_areas = snd (save_all MemoryStopAreas_Save
     [example_area\<lparr>sa_id := ''a'', sa_ParentId := ''''\<rparr>, example_area,
      example_area\<lparr>sa_id := ''c'', sa_ParentId := ''x'', sa_ReferentId := ''b''\<rparr>]
     (fake_gen True, NewMemoryStopAreas))"

lemma example_areas_inv: "stopareas_inv example_areas"
  unfolding example_areas_def
  by (rule mem_stopareas.save_all_inv [THEN conjunct1]) (simp_all add: ug_ok_fake example_area_def)

lemma example_areas_table:
  "msa_byIdentifier example_areas =
    [(''a'', example_area\<lparr>sa_id := ''a'', sa_ParentId := ''''\<rparr>), (''b'', example_area),
     (''c'', example_area\<lparr>sa_id := ''c'', sa_ParentId := ''x'', sa_ReferentId := ''b''\<rparr>)]"
  by (simp add: example_areas_def example_area_def MemoryStopAreas_Save_eq Let_def
      NewMemoryStopAreas_def NewStopArea_def)

theorem find_ascendants_witness:
  "(parent_edges (msa_byIdentifier example_areas))\<^sup>* `` {''c''} = {''a'', ''b'', ''c''}"
proof -
  have "map_option sa_id (MemoryStopAreas_Find example_areas ''c'') = Some ''c''"
    and "map_option (map sa_id) (MemoryStopAreas_FindAscendants example_areas ''c'') =
      Some [''c'', ''b'', ''a'']"
    by (simp_all add: MemoryStopAreas_Find_def MemoryStopAreas_FindAscendants_def
        example_areas_table example_area_def NewStopArea_def)
  then obtain sa areas where "MemoryStopAreas_Find example_areas ''c'' = Some sa"
    and areas: "MemoryStopAreas_FindAscendants example_areas ''c'' = Some areas"
      "map sa_id areas = [''c'', ''b'', ''a'']"
    unfolding map_option_eq_Some by (elim exE conjE) (rule that)
  with find_ascendants [OF example_areas_inv, of "''c''"]
  have "(parent_edges (msa_byIdentifier example_areas))\<^sup>* `` {''c''} = set (map sa_id areas)"
    by (simp only: option.case)
  then show ?thesis unfolding areas(2) by (simp add: insert_commute)
qed

text \<open>The external identifiers of a given kind found while climbing the hierarchy are those of
  the ascendants, in the same order, and the two searches end together.\<close>

theorem ascendants_with_kind:
  "MemoryStopAreas_FindAscendantsWithObjectIdKind s i kind =
   map_option (List.map_filter (\<lambda>sa. Consumer_ObjectID (sa_objectids sa) kind))
     (MemoryStopAreas_FindAscendants s i)"
  unfolding MemoryStopAreas_FindAscendantsWithObjectIdKind_def MemoryStopAreas_FindAscendants_def
  by (rule findAscendantsWithObjectIdKind_map)

end
