(* ===== verification/VehicleJourneys.thy ===== *)
theory VehicleJourneys
  imports Lines
begin

text \<open>
  Vehicle journeys: the object and its in-memory manager, which also indexes journeys by line
  (\<^verbatim>\<open>model/vehicle_journey.go\<close>), and the transactional overlay
  (\<^verbatim>\<open>model/transactional_vehicle_journeys.go\<close>).
\<close>

section \<open>The object\<close>

type_synonym VehicleJourneyId = ModelId

record VehicleJourney =
  vj_objectids :: ObjectIDs
  vj_model :: model_ref
  vj_Origin :: string
  vj_id :: VehicleJourneyId
  vj_LineId :: LineId
  vj_Name :: string
  vj_OriginName :: string
  vj_DestinationName :: string
  vj_Monitored :: bool
  vj_Attributes :: Attributes
  vj_References :: References

definition NewVehicleJourney :: "model_ref \<Rightarrow> VehicleJourney" where
  "NewVehicleJourney model =
     \<lparr>vj_objectids = [], vj_model = model, vj_Origin = '''', vj_id = '''', vj_LineId = '''',
      vj_Name = '''', vj_OriginName = '''', vj_DestinationName = '''', vj_Monitored = False,
      vj_Attributes = NewAttributes, vj_References = NewReferences\<rparr>"

definition VehicleJourney_copy :: "VehicleJourney \<Rightarrow> VehicleJourney" where
  "VehicleJourney_copy vehicleJourney =
     vehicleJourney\<lparr>vj_Attributes := Attributes_Copy (vj_Attributes vehicleJourney),
                    vj_References := References_Copy (vj_References vehicleJourney)\<rparr>"

definition VehicleJourney_Line :: "MemoryLines \<Rightarrow> VehicleJourney \<Rightarrow> Line option" where
  "VehicleJourney_Line lines vehicleJourney =
     (case vj_model vehicleJourney of
        NilModel \<Rightarrow> None
      | TheModel \<Rightarrow> MemoryLines_Find lines (vj_LineId vehicleJourney))"

definition VehicleJourney_SetObjectID :: "ObjectID \<Rightarrow> VehicleJourney \<Rightarrow> VehicleJourney" where
  "VehicleJourney_SetObjectID objectid vehicleJourney =
     vehicleJourney\<lparr>vj_objectids := Consumer_SetObjectID objectid (vj_objectids vehicleJourney)\<rparr>"

definition VehicleJourney_Attribute :: "VehicleJourney \<Rightarrow> string \<Rightarrow> string option" where
  "VehicleJourney_Attribute vehicleJourney key = mget (vj_Attributes vehicleJourney) key"

definition VehicleJourney_Reference :: "VehicleJourney \<Rightarrow> string \<Rightarrow> Reference option" where
  "VehicleJourney_Reference vehicleJourney key = References_Get (vj_References vehicleJourney) key"

definition VehicleJourney_ToFormat :: "string list" where
  "VehicleJourney_ToFormat = [''RouteRef'', ''JourneyPatternRef'', ''DatedVehicleJourneyRef'']"

definition vehicle_journey_wf :: "VehicleJourney \<Rightarrow> bool" where
  "vehicle_journey_wf vj \<longleftrightarrow> oids_wf (vj_objectids vj) \<and> mwf (vj_Attributes vj) \<and>
     mwf (vj_References vj)"

lemma VehicleJourney_copy_id [simp]: "vehicle_journey_wf vj \<Longrightarrow> VehicleJourney_copy vj = vj"
  by (simp add: VehicleJourney_copy_def vehicle_journey_wf_def)

lemma vehicle_journey_wf_new [simp, wf_intros]: "vehicle_journey_wf (NewVehicleJourney m)"
  by (simp add: vehicle_journey_wf_def NewVehicleJourney_def NewAttributes_def NewReferences_def)

lemma vehicle_journey_wf_ops [simp, wf_intros]:
  "vehicle_journey_wf vj \<Longrightarrow> vehicle_journey_wf (VehicleJourney_SetObjectID x vj)"
  "mwf a \<Longrightarrow> vehicle_journey_wf vj \<Longrightarrow> vehicle_journey_wf (vj\<lparr>vj_Attributes := a\<rparr>)"
  "mwf r \<Longrightarrow> vehicle_journey_wf vj \<Longrightarrow> vehicle_journey_wf (vj\<lparr>vj_References := r\<rparr>)"
  "vehicle_journey_wf (vj\<lparr>vj_id := i\<rparr>) \<longleftrightarrow> vehicle_journey_wf vj"
  "vehicle_journey_wf (vj\<lparr>vj_model := m\<rparr>) \<longleftrightarrow> vehicle_journey_wf vj"
  "vehicle_journey_wf (vj\<lparr>vj_Origin := s\<rparr>) \<longleftrightarrow> vehicle_journey_wf vj"
  "vehicle_journey_wf (vj\<lparr>vj_LineId := s\<rparr>) \<longleftrightarrow> vehicle_journey_wf vj"
  "vehicle_journey_wf (vj\<lparr>vj_Name := s\<rparr>) \<longleftrightarrow> vehicle_journey_wf vj"
  "vehicle_journey_wf (vj\<lparr>vj_OriginName := s\<rparr>) \<longleftrightarrow> vehicle_journey_wf vj"
  "vehicle_journey_wf (vj\<lparr>vj_DestinationName := s\<rparr>) \<longleftrightarrow> vehicle_journey_wf vj"
  "vehicle_journey_wf (vj\<lparr>vj_Monitored := b\<rparr>) \<longleftrightarrow> vehicle_journey_wf vj"
  by (simp_all add: vehicle_journey_wf_def VehicleJourney_SetObjectID_def)

section \<open>The in-memory manager\<close>

record MemoryVehicleJourneys =
  mvj_model :: model_ref
  mvj_byIdentifier :: "(VehicleJourneyId, VehicleJourney) gomap"
  mvj_byObjectId :: ObjectIdIndex
  mvj_byLine :: Index

definition NewMemoryVehicleJourneys :: MemoryVehicleJourneys where
  "NewMemoryVehicleJourneys =
     \<lparr>mvj_model = NilModel, mvj_byIdentifier = [], mvj_byObjectId = NewObjectIdIndex,
      mvj_byLine = NewIndex\<rparr>"

definition MemoryVehicleJourneys_New :: "MemoryVehicleJourneys \<Rightarrow> VehicleJourney" where
  "MemoryVehicleJourneys_New manager = NewVehicleJourney (mvj_model manager)"

definition MemoryVehicleJourneys_Find ::
  "MemoryVehicleJourneys \<Rightarrow> VehicleJourneyId \<Rightarrow> VehicleJourney option" where
  "MemoryVehicleJourneys_Find manager i =
     (case mget (mvj_byIdentifier manager) i of
        Some vehicleJourney \<Rightarrow> Some (VehicleJourney_copy vehicleJourney)
      | None \<Rightarrow> None)"

definition MemoryVehicleJourneys_FindByObjectId ::
  "MemoryVehicleJourneys \<Rightarrow> ObjectID \<Rightarrow> VehicleJourney option option" where
  "MemoryVehicleJourneys_FindByObjectId manager objectid =
     (case ObjectIdIndex_Find (mvj_byObjectId manager) objectid of
        Some i \<Rightarrow>
          (case mget (mvj_byIdentifier manager) i of
             None \<Rightarrow> None
           | Some vehicleJourney \<Rightarrow> Some (Some (VehicleJourney_copy vehicleJourney)))
      | None \<Rightarrow> Some None)"

definition MemoryVehicleJourneys_FindByLineId ::
  "MemoryVehicleJourneys \<Rightarrow> LineId \<Rightarrow> VehicleJourney list option" where
  "MemoryVehicleJourneys_FindByLineId manager i =
     fetch VehicleJourney_copy (mvj_byIdentifier manager) (Index_ids (mvj_byLine manager) i)"

definition MemoryVehicleJourneys_FindAll :: "MemoryVehicleJourneys \<Rightarrow> VehicleJourney list" where
  "MemoryVehicleJourneys_FindAll manager = map VehicleJourney_copy (mvals (mvj_byIdentifier manager))"

definition MemoryVehicleJourneys_Save ::
  "uuid_gen \<Rightarrow> VehicleJourney \<Rightarrow> MemoryVehicleJourneys \<Rightarrow>
   uuid_gen \<times> VehicleJourney \<times> MemoryVehicleJourneys" where
  "MemoryVehicleJourneys_Save g vehicleJourney manager =
     (let (g1, vj1) = (if vj_id vehicleJourney = ''''
                       then (let (u, g') = NewUUID g in (g', vehicleJourney\<lparr>vj_id := u\<rparr>))
                       else (g, vehicleJourney));
          vj2 = vj1\<lparr>vj_model := mvj_model manager\<rparr>
      in (g1, vj2,
          manager\<lparr>mvj_byIdentifier := mput (vj_id vj2) vj2 (mvj_byIdentifier manager),
                  mvj_byObjectId := ObjectIdIndex_Index (vj_id vj2) (vj_objectids vj2)
                    (mvj_byObjectId manager),
                  mvj_byLine := Index_Index (vj_id vj2) (vj_LineId vj2) (mvj_byLine manager)\<rparr>))"

definition MemoryVehicleJourneys_Delete ::
  "VehicleJourney \<Rightarrow> MemoryVehicleJourneys \<Rightarrow> MemoryVehicleJourneys" where
  "MemoryVehicleJourneys_Delete vehicleJourney manager =
     manager\<lparr>mvj_byIdentifier := mdel (vj_id vehicleJourney) (mvj_byIdentifier manager),
             mvj_byObjectId := ObjectIdIndex_Delete (vj_id vehicleJourney) (mvj_byObjectId manager),
             mvj_byLine := Index_Delete (vj_id vehicleJourney) (mvj_byLine manager)\<rparr>"

section \<open>The manager keeps the contract\<close>

definition vehiclejourneys_inv :: "MemoryVehicleJourneys \<Rightarrow> bool" where
  "vehiclejourneys_inv s \<longleftrightarrow>
     table_inv vj_id vj_objectids vehicle_journey_wf (mvj_byIdentifier s) (mvj_byObjectId s) \<and>
     index_inv vj_LineId (mvj_byIdentifier s) (mvj_byLine s)"

lemma vehiclejourneys_inv_new [simp]:
  "vehiclejourneys_inv NewMemoryVehicleJourneys"
  "vehiclejourneys_inv (NewMemoryVehicleJourneys\<lparr>mvj_model := r\<rparr>)"
  by (simp_all add: vehiclejourneys_inv_def NewMemoryVehicleJourneys_def table_inv_new index_inv_new)

lemma vehiclejourneys_inv_table: "vehiclejourneys_inv s \<Longrightarrow>
    table_inv vj_id vj_objectids vehicle_journey_wf (mvj_byIdentifier s) (mvj_byObjectId s)"
  by (simp only: vehiclejourneys_inv_def)

lemma MemoryVehicleJourneys_Save_eq:
  "MemoryVehicleJourneys_Save g vj s =
     (let vj2 = (if vj_id vj = [] then vj\<lparr>vj_id := fst (NewUUID g)\<rparr> else vj)\<lparr>vj_model := mvj_model s\<rparr>
      in ((if vj_id vj = [] then snd (NewUUID g) else g), vj2,
          s\<lparr>mvj_byIdentifier := mput (vj_id vj2) vj2 (mvj_byIdentifier s),
            mvj_byObjectId := ObjectIdIndex_Index (vj_id vj2) (vj_objectids vj2) (mvj_byObjectId s),
            mvj_byLine := Index_Index (vj_id vj2) (vj_LineId vj2) (mvj_byLine s)\<rparr>))"
  by (simp add: MemoryVehicleJourneys_Save_def Let_def split: prod.split)

lemma MemoryVehicleJourneys_Save_inv:
  assumes "vehiclejourneys_inv s" and "vehicle_journey_wf e" and "ug_ok g"
    and "MemoryVehicleJourneys_Save g e s = (g', e', s')"
  shows "vehiclejourneys_inv s'"
proof -
  from assms(2-4) have e': "vehicle_journey_wf e'" "vj_id e' \<noteq> []" "oids_wf (vj_objectids e')"
    by (auto simp: MemoryVehicleJourneys_Save_eq Let_def vehicle_journey_wf_def split: if_splits)
  note inv = assms(1) [unfolded vehiclejourneys_inv_def]
  from table_inv_put [OF inv [THEN conjunct1] e'] index_inv_put [OF inv [THEN conjunct2], of "vj_id e'" e']
    assms(4)
  show ?thesis
    by (auto simp: vehiclejourneys_inv_def MemoryVehicleJourneys_Save_eq Let_def split: if_splits)
qed

lemma MemoryVehicleJourneys_Delete_inv:
  "vehiclejourneys_inv s \<Longrightarrow> vehiclejourneys_inv (MemoryVehicleJourneys_Delete e s)"
  by (simp add: vehiclejourneys_inv_def MemoryVehicleJourneys_Delete_def table_inv_del index_inv_del)

interpretation mem_vehiclejourneys: indexed_table_store MemoryVehicleJourneys_Find MemoryVehicleJourneys_FindAll MemoryVehicleJourneys_Save
  MemoryVehicleJourneys_Delete vj_id "\<lambda>s e. e\<lparr>vj_model := mvj_model s\<rparr>" vehicle_journey_wf vehiclejourneys_inv
  mvj_byIdentifier VehicleJourney_copy "\<lambda>i e. e\<lparr>vj_id := i\<rparr>" 
  MemoryVehicleJourneys_FindByObjectId vj_objectids mvj_byObjectId
proof (unfold_locales, goal_cases)
  case (1 s)
  then show ?case using vehiclejourneys_inv_table [of s] by (simp only: table_inv_def)
next
  case (2 s e g g' e' s')
  then show ?case by (rule MemoryVehicleJourneys_Save_inv)
next
  case (3 s e)
  then show ?case by (rule MemoryVehicleJourneys_Delete_inv)
next
  case (4 e)
  then show ?case by simp
next
  case (5 s i)
  then show ?case by (simp add: MemoryVehicleJourneys_Find_def split: option.split)
next
  case (6 s)
  show ?case by (simp add: MemoryVehicleJourneys_FindAll_def)
next
  case (7 g e s g' e' s')
  then show ?case by (auto simp: MemoryVehicleJourneys_Save_eq Let_def)
next
  case (11 s)
  then show ?case by (rule vehiclejourneys_inv_table)
next
  case (12 s x)
  show ?case by (simp add: MemoryVehicleJourneys_FindByObjectId_def)
next
  case (13 g e s g' e' s')
  then show ?case by (auto simp: MemoryVehicleJourneys_Save_eq Let_def)
qed (simp_all add: MemoryVehicleJourneys_Delete_def vehicle_journey_wf_def)

section \<open>The transactional overlay\<close>

record TransactionalVehicleJourneys =
  tvj_model :: model_ref
  tvj_saved :: "(VehicleJourneyId, VehicleJourney) gomap"
  tvj_deleted :: "(VehicleJourneyId, VehicleJourney) gomap"

definition TransactionalVehicleJourneys_resetCaches :: "TransactionalVehicleJourneys \<Rightarrow> TransactionalVehicleJourneys" where
  "TransactionalVehicleJourneys_resetCaches manager = manager\<lparr>tvj_saved := [], tvj_deleted := []\<rparr>"

definition NewTransactionalVehicleJourneys :: "model_ref \<Rightarrow> TransactionalVehicleJourneys" where
  "NewTransactionalVehicleJourneys model = \<lparr>tvj_model = model, tvj_saved = [], tvj_deleted = []\<rparr>"

definition TransactionalVehicleJourneys_New :: "TransactionalVehicleJourneys \<Rightarrow> VehicleJourney" where
  "TransactionalVehicleJourneys_New manager = NewVehicleJourney (tvj_model manager)"

definition TransactionalVehicleJourneys_Find ::
  "TransactionalVehicleJourneys \<Rightarrow> MemoryVehicleJourneys \<Rightarrow> VehicleJourneyId \<Rightarrow> VehicleJourney option" where
  "TransactionalVehicleJourneys_Find manager parent i =
     (case mget (tvj_saved manager) i of
        Some vehicleJourney \<Rightarrow> Some vehicleJourney
      | None \<Rightarrow> MemoryVehicleJourneys_Find parent i)"

text \<open>The loop over the saved objects reads a missing identifier as the zero value.\<close>

definition TransactionalVehicleJourneys_FindByObjectId ::
  "TransactionalVehicleJourneys \<Rightarrow> MemoryVehicleJourneys \<Rightarrow> ObjectID \<Rightarrow> VehicleJourney option option" where
  "TransactionalVehicleJourneys_FindByObjectId manager parent objectid =
     (case first_some (\<lambda>vehicleJourney. oid_value (Consumer_ObjectID_or_zero (vj_objectids vehicleJourney)
                                (oid_kind objectid)) = oid_value objectid)
             (mvals (tvj_saved manager)) of
        Some vehicleJourney \<Rightarrow> Some (Some vehicleJourney)
      | None \<Rightarrow> MemoryVehicleJourneys_FindByObjectId parent objectid)"

definition TransactionalVehicleJourneys_FindAll :: "TransactionalVehicleJourneys \<Rightarrow> MemoryVehicleJourneys \<Rightarrow> VehicleJourney list" where
  "TransactionalVehicleJourneys_FindAll manager parent =
     mvals (tvj_saved manager) @
     filter (\<lambda>vehicleJourney. \<not> mhas (tvj_saved manager) (vj_id vehicleJourney)) (MemoryVehicleJourneys_FindAll parent)"

definition TransactionalVehicleJourneys_FindByLineId ::
  "TransactionalVehicleJourneys \<Rightarrow> MemoryVehicleJourneys \<Rightarrow> LineId \<Rightarrow> VehicleJourney list option" where
  "TransactionalVehicleJourneys_FindByLineId manager parent i =
     do { modelVehicleJourneys \<leftarrow> MemoryVehicleJourneys_FindByLineId parent i;
          Some (filter (\<lambda>vj. vj_LineId vj = i) (mvals (tvj_saved manager)) @
                filter (\<lambda>vj. \<not> mhas (tvj_saved manager) (vj_id vj)) modelVehicleJourneys) }"

definition TransactionalVehicleJourneys_Save ::
  "uuid_gen \<Rightarrow> VehicleJourney \<Rightarrow> TransactionalVehicleJourneys \<Rightarrow> uuid_gen \<times> VehicleJourney \<times> TransactionalVehicleJourneys" where
  "TransactionalVehicleJourneys_Save g vehicleJourney manager =
     (let (g1, vehicleJourney1) = (if vj_id vehicleJourney = ''''
                         then (let (u, g') = NewUUID g in (g', vehicleJourney\<lparr>vj_id := u\<rparr>))
                         else (g, vehicleJourney))
      in (g1, vehicleJourney1,
          manager\<lparr>tvj_saved := mput (vj_id vehicleJourney1) vehicleJourney1 (tvj_saved manager)\<rparr>))"

definition TransactionalVehicleJourneys_Delete :: "VehicleJourney \<Rightarrow> TransactionalVehicleJourneys \<Rightarrow> TransactionalVehicleJourneys" where
  "TransactionalVehicleJourneys_Delete vehicleJourney manager =
     manager\<lparr>tvj_deleted := mput (vj_id vehicleJourney) vehicleJourney (tvj_deleted manager)\<rparr>"

definition TransactionalVehicleJourneys_Commit ::
  "uuid_gen \<Rightarrow> TransactionalVehicleJourneys \<Rightarrow> MemoryVehicleJourneys \<Rightarrow> uuid_gen \<times> MemoryVehicleJourneys" where
  "TransactionalVehicleJourneys_Commit g manager parent =
     save_all MemoryVehicleJourneys_Save (mvals (tvj_saved manager))
       (g, fold MemoryVehicleJourneys_Delete (mvals (tvj_deleted manager)) parent)"

definition TransactionalVehicleJourneys_Rollback :: "TransactionalVehicleJourneys \<Rightarrow> TransactionalVehicleJourneys" where
  "TransactionalVehicleJourneys_Rollback manager = TransactionalVehicleJourneys_resetCaches manager"

definition tx_vehiclejourneys_inv :: "TransactionalVehicleJourneys \<Rightarrow> bool" where
  "tx_vehiclejourneys_inv t \<longleftrightarrow> mwf (tvj_saved t) \<and> keyed vj_id (tvj_saved t) \<and>
     vals_ok (\<lambda>e. vehicle_journey_wf e \<and> vj_id e \<noteq> []) (tvj_saved t) \<and>
     mwf (tvj_deleted t) \<and> keyed vj_id (tvj_deleted t)"

lemma tx_vehiclejourneys_inv_new [simp]: "tx_vehiclejourneys_inv (NewTransactionalVehicleJourneys r)"
  by (simp add: tx_vehiclejourneys_inv_def NewTransactionalVehicleJourneys_def)

interpretation tx_vehiclejourneys: transactional_store MemoryVehicleJourneys_Find MemoryVehicleJourneys_FindAll MemoryVehicleJourneys_Save
  MemoryVehicleJourneys_Delete vj_id "\<lambda>s e. e\<lparr>vj_model := mvj_model s\<rparr>" vehicle_journey_wf vehiclejourneys_inv
  tvj_saved tvj_deleted TransactionalVehicleJourneys_Find TransactionalVehicleJourneys_FindAll TransactionalVehicleJourneys_Save
  TransactionalVehicleJourneys_Delete TransactionalVehicleJourneys_Commit TransactionalVehicleJourneys_Rollback tx_vehiclejourneys_inv
proof (unfold_locales, goal_cases)
  case (1 t)
  then show ?case by (simp add: tx_vehiclejourneys_inv_def)
next
  case (2 t s i)
  then show ?case by (simp add: TransactionalVehicleJourneys_Find_def split: option.split)
next
  case (3 t s)
  then show ?case by (simp add: TransactionalVehicleJourneys_FindAll_def)
next
  case (4 e g t g' e' t')
  then show ?case by (auto simp: TransactionalVehicleJourneys_Save_def)
next
  case (5 e g t g' e' t')
  then show ?case by (auto simp: TransactionalVehicleJourneys_Save_def Let_def split: prod.splits)
qed (simp_all add: TransactionalVehicleJourneys_Delete_def TransactionalVehicleJourneys_Commit_def
      TransactionalVehicleJourneys_Rollback_def TransactionalVehicleJourneys_resetCaches_def)

section \<open>Lookups by line\<close>

lemma MemoryVehicleJourneys_FindByLineId_eq:
  assumes "vehiclejourneys_inv s"
  obtains vjs where "MemoryVehicleJourneys_FindByLineId s i = Some vjs"
    and "set vjs = {vj. MemoryVehicleJourneys_Find s (vj_id vj) = Some vj \<and> vj_LineId vj = i}"
    and "distinct (map vj_id vjs)"
proof -
  from assms have "index_inv vj_LineId (mvj_byIdentifier s) (mvj_byLine s)"
    by (simp only: vehiclejourneys_inv_def)
  from vehiclejourneys_inv_table [OF assms] this VehicleJourney_copy_id show thesis
  proof (rule fetch_index [where v = i])
    fix vjs
    assume "fetch VehicleJourney_copy (mvj_byIdentifier s) (Index_ids (mvj_byLine s) i) = Some vjs"
      and "set vjs = {vj. mget (mvj_byIdentifier s) (vj_id vj) = Some vj \<and> vj_LineId vj = i}"
      and "distinct (map vj_id vjs)"
    then show thesis
      by (intro that [of vjs])
        (simp_all only: MemoryVehicleJourneys_FindByLineId_def mem_vehiclejourneys.find_mget [OF assms])
  qed
qed

text \<open>The vehicle journeys of a line, seen from a transaction, are exactly the journeys the
  transaction finds whose line it is, each once; no index entry is dangling, so the lookup does
  not crash.\<close>

theorem journeys_of_line:
  assumes "vehiclejourneys_inv s" and "tx_vehiclejourneys_inv t"
  shows "\<exists>vjs. TransactionalVehicleJourneys_FindByLineId t s i = Some vjs \<and>
     set vjs = {vj. TransactionalVehicleJourneys_Find t s (vj_id vj) = Some vj \<and> vj_LineId vj = i} \<and>
     distinct (map vj_id vjs)"
proof -
  obtain vjs where vjs: "MemoryVehicleJourneys_FindByLineId s i = Some vjs"
    "set vjs = {vj. MemoryVehicleJourneys_Find s (vj_id vj) = Some vj \<and> vj_LineId vj = i}"
    "distinct (map vj_id vjs)"
    using MemoryVehicleJourneys_FindByLineId_eq [OF assms(1)] .
  from assms(2) have "mwf (tvj_saved t)" "keyed vj_id (tvj_saved t)"
    by (simp_all only: tx_vehiclejourneys_inv_def)
  note overlay = overlay_filter [OF this vjs(2,3)]
  show ?thesis
    unfolding TransactionalVehicleJourneys_FindByLineId_def vjs(1) Option.bind.simps
      tx_vehiclejourneys.tfind_eq [OF assms(2)]
    by (intro exI conjI) (rule refl overlay)+
qed

definition example_journey :: VehicleJourney where
  "example_journey = (VehicleJourney_SetObjectID (NewObjectID ''k'' ''j'') (NewVehicleJourney NilModel))
     \<lparr>vj_id := ''j1'', vj_LineId := ''l1''\<rparr>"

lemma example_journey_wf:
  "vehicle_journey_wf example_journey" "vj_id example_journey = ''j1''" "vj_LineId example_journey = ''l1''"
  "NewObjectID ''k'' ''j'' \<in> set (mvals (vj_objectids example_journey))"
  by (simp_all add: example_journey_def)
    (simp_all add: VehicleJourney_SetObjectID_def Consumer_SetObjectID_def NewVehicleJourney_def NewObjectID_def)

theorem journeys_of_line_witness:
  "\<exists>vjs. TransactionalVehicleJourneys_FindByLineId (NewTransactionalVehicleJourneys TheModel)
       (snd (snd (MemoryVehicleJourneys_Save (fake_gen True) example_journey NewMemoryVehicleJourneys))) ''l1'' = Some vjs \<and>
     example_journey \<in> set vjs"
proof -
  obtain g e s where save: "MemoryVehicleJourneys_Save (fake_gen True) example_journey NewMemoryVehicleJourneys = (g, e, s)"
    by (rule prod_cases3)
  note new = vehiclejourneys_inv_new(1)
  have e: "e = example_journey"
    using mem_vehiclejourneys.save_eq [OF save]
    by (simp add: example_journey_wf) (simp add: example_journey_def NewMemoryVehicleJourneys_def
        NewVehicleJourney_def VehicleJourney_SetObjectID_def)
  from mem_vehiclejourneys.find_save [OF new example_journey_wf(1) ug_ok_fake save]
  have find: "TransactionalVehicleJourneys_Find (NewTransactionalVehicleJourneys TheModel) s (vj_id example_journey)
      = Some example_journey"
    by (simp add: e tx_vehiclejourneys.tfind_eq [OF tx_vehiclejourneys_inv_new]) (simp add: e NewTransactionalVehicleJourneys_def)
  have "vehiclejourneys_inv s"
    by (rule mem_vehiclejourneys.inv_save [OF new example_journey_wf(1) ug_ok_fake save])
  from journeys_of_line [OF this tx_vehiclejourneys_inv_new [of TheModel], of "''l1''"] find
  show ?thesis unfolding save snd_conv using example_journey_wf(3) by blast
qed

end
