(* ===== verification/Schedules.thy ===== *)
theory Schedules
  imports Values
begin

text \<open>
  The schedules of a stop visit (\<^verbatim>\<open>model/stop_visit_schedule.go\<close>): for each kind
  (aimed, expected, actual) a departure and an arrival time, the zero time meaning unknown.
\<close>

type_synonym StopVisitScheduleType = string

definition STOP_VISIT_SCHEDULE_AIMED :: StopVisitScheduleType where
  "STOP_VISIT_SCHEDULE_AIMED = ''aimed''"

definition STOP_VISIT_SCHEDULE_EXPECTED :: StopVisitScheduleType where
  "STOP_VISIT_SCHEDULE_EXPECTED = ''expected''"

definition STOP_VISIT_SCHEDULE_ACTUAL :: StopVisitScheduleType where
  "STOP_VISIT_SCHEDULE_ACTUAL = ''actual''"

definition stopVisitScheduleTypes :: "StopVisitScheduleType list" where
  "stopVisitScheduleTypes =
     [STOP_VISIT_SCHEDULE_AIMED, STOP_VISIT_SCHEDULE_EXPECTED, STOP_VISIT_SCHEDULE_ACTUAL]"

lemmas schedule_kind_defs =
  STOP_VISIT_SCHEDULE_AIMED_def STOP_VISIT_SCHEDULE_EXPECTED_def STOP_VISIT_SCHEDULE_ACTUAL_def

record StopVisitSchedule =
  svs_kind :: StopVisitScheduleType
  svs_departureTime :: gotime
  svs_arrivalTime :: gotime

definition zero_Schedule :: StopVisitSchedule where
  "zero_Schedule = \<lparr>svs_kind = '''', svs_departureTime = 0, svs_arrivalTime = 0\<rparr>"

type_synonym StopVisitSchedules = "(StopVisitScheduleType, StopVisitSchedule) gomap"

definition NewStopVisitSchedules :: StopVisitSchedules where
  "NewStopVisitSchedules = []"

definition Schedules_Copy :: "StopVisitSchedules \<Rightarrow> StopVisitSchedules" where
  "Schedules_Copy schedules =
     fold (\<lambda>(key, value). mput key
        \<lparr>svs_kind = svs_kind value, svs_departureTime = svs_departureTime value,
         svs_arrivalTime = svs_arrivalTime value\<rparr>) schedules []"

definition Schedules_Merge :: "StopVisitSchedules \<Rightarrow> StopVisitSchedules \<Rightarrow> StopVisitSchedules" where
  "Schedules_Merge schedules newSchedules =
     fold (\<lambda>(key, value). mput key
        \<lparr>svs_kind = svs_kind value, svs_departureTime = svs_departureTime value,
         svs_arrivalTime = svs_arrivalTime value\<rparr>) newSchedules schedules"

definition compareSchedules :: "StopVisitSchedule option \<Rightarrow> StopVisitSchedule option \<Rightarrow> bool" where
  "compareSchedules sc1 sc2 =
     (case (sc1, sc2) of
        (Some s1, Some s2) \<Rightarrow>
          if svs_kind s1 \<noteq> svs_kind s2 then False
          else if svs_arrivalTime s1 \<noteq> svs_arrivalTime s2 \<or>
                  svs_departureTime s1 \<noteq> svs_departureTime s2 then False
          else True
      | _ \<Rightarrow> False)"

definition Schedules_Include :: "StopVisitSchedules \<Rightarrow> StopVisitSchedules \<Rightarrow> bool" where
  "Schedules_Include schedules scs \<longleftrightarrow>
     list_all (\<lambda>(k, v). compareSchedules (Some v) (mget schedules k)) scs"

definition Schedules_Eq :: "StopVisitSchedules \<Rightarrow> StopVisitSchedules \<Rightarrow> bool" where
  "Schedules_Eq schedules scs \<longleftrightarrow>
     list_all (\<lambda>t. (mget schedules t = None \<and> mget scs t = None) \<or>
                   compareSchedules (mget schedules t) (mget scs t)) stopVisitScheduleTypes"

text \<open>A missing entry is first created with the kind alone.\<close>

definition fresh_Schedule :: "StopVisitScheduleType \<Rightarrow> StopVisitSchedules \<Rightarrow> StopVisitSchedule" where
  "fresh_Schedule kind schedules = mget_or (zero_Schedule\<lparr>svs_kind := kind\<rparr>) schedules kind"

definition Schedules_SetDepartureTime ::
  "StopVisitScheduleType \<Rightarrow> gotime \<Rightarrow> StopVisitSchedules \<Rightarrow> StopVisitSchedules" where
  "Schedules_SetDepartureTime kind departureTime schedules =
     mput kind ((fresh_Schedule kind schedules)\<lparr>svs_departureTime := departureTime\<rparr>) schedules"

definition Schedules_SetArrivalTime ::
  "StopVisitScheduleType \<Rightarrow> gotime \<Rightarrow> StopVisitSchedules \<Rightarrow> StopVisitSchedules" where
  "Schedules_SetArrivalTime kind arrivalTime schedules =
     mput kind ((fresh_Schedule kind schedules)\<lparr>svs_arrivalTime := arrivalTime\<rparr>) schedules"

definition Schedules_SetSchedule ::
  "StopVisitScheduleType \<Rightarrow> gotime \<Rightarrow> gotime \<Rightarrow> StopVisitSchedules \<Rightarrow> StopVisitSchedules" where
  "Schedules_SetSchedule kind departureTime arrivalTime schedules =
     mput kind \<lparr>svs_kind = kind, svs_departureTime = departureTime,
                svs_arrivalTime = arrivalTime\<rparr> schedules"

definition Schedules_Schedule :: "StopVisitSchedules \<Rightarrow> StopVisitScheduleType \<Rightarrow> StopVisitSchedule" where
  "Schedules_Schedule schedules kind =
     (case mget schedules kind of None \<Rightarrow> zero_Schedule | Some schedule \<Rightarrow> schedule)"

text \<open>The first kind of the list that has an entry decides; a nil list means actual, expected,
  aimed.\<close>

fun first_entry :: "StopVisitSchedules \<Rightarrow> StopVisitScheduleType list \<Rightarrow> StopVisitSchedule option" where
  "first_entry schedules [] = None"
| "first_entry schedules (kind # kinds) =
     (case mget schedules kind of Some value \<Rightarrow> Some value | None \<Rightarrow> first_entry schedules kinds)"

definition Schedules_ArrivalTimeFromKind ::
  "StopVisitSchedules \<Rightarrow> StopVisitScheduleType list option \<Rightarrow> gotime" where
  "Schedules_ArrivalTimeFromKind schedules kinds =
     (let ks = (case kinds of None \<Rightarrow> [''actual'', ''expected'', ''aimed''] | Some l \<Rightarrow> l)
      in (case first_entry schedules ks of Some value \<Rightarrow> svs_arrivalTime value | None \<Rightarrow> 0))"

definition Schedules_DepartureTimeFromKind ::
  "StopVisitSchedules \<Rightarrow> StopVisitScheduleType list option \<Rightarrow> gotime" where
  "Schedules_DepartureTimeFromKind schedules kinds =
     (let ks = (case kinds of None \<Rightarrow> [''actual'', ''expected'', ''aimed''] | Some l \<Rightarrow> l)
      in (case first_entry schedules ks of Some value \<Rightarrow> svs_departureTime value | None \<Rightarrow> 0))"

definition Schedules_ToSlice :: "StopVisitSchedules \<Rightarrow> StopVisitSchedule list" where
  "Schedules_ToSlice schedules = mvals schedules"

section \<open>Library facts\<close>

text \<open>Copying a schedule field by field gives the schedule.\<close>

lemma schedule_copy_id:
  "\<lparr>svs_kind = svs_kind v, svs_departureTime = svs_departureTime v,
    svs_arrivalTime = svs_arrivalTime v\<rparr> = v"
  by simp

lemma Schedules_Copy_id [simp]: "mwf m \<Longrightarrow> Schedules_Copy m = m"
  by (simp only: Schedules_Copy_def schedule_copy_id fold_copy_id)

lemma compareSchedules_iff:
  "compareSchedules a b \<longleftrightarrow> (\<exists>s. a = Some s \<and> b = Some s)"
  by (auto simp: compareSchedules_def split: option.splits)

lemma mget_Merge [gomap_simps]:
  "mwf n \<Longrightarrow> mget (Schedules_Merge s n) k = (case mget n k of Some v \<Rightarrow> Some v | None \<Rightarrow> mget s k)"
  by (simp add: Schedules_Merge_def schedule_copy_id mget_fold_pairs split: option.splits)

lemma mwf_Merge [simp, wf_intros]: "mwf s \<Longrightarrow> mwf (Schedules_Merge s n)"
  by (simp add: Schedules_Merge_def mwf_fold_pairs)

lemma Include_iff:
  "mwf n \<Longrightarrow> Schedules_Include s n \<longleftrightarrow> (\<forall>k v. mget n k = Some v \<longrightarrow> mget s k = Some v)"
  by (auto simp: Schedules_Include_def list_all_iff compareSchedules_iff mwf_in_set)

lemma Eq_iff: "Schedules_Eq s t \<longleftrightarrow> (\<forall>k \<in> set stopVisitScheduleTypes. mget s k = mget t k)"
proof -
  have "(mget s k = None \<and> mget t k = None) \<or> compareSchedules (mget s k) (mget t k) \<longleftrightarrow>
      mget s k = mget t k" for k
    by (cases "mget s k"; cases "mget t k") (auto simp: compareSchedules_iff)
  then show ?thesis by (simp add: Schedules_Eq_def list_all_iff)
qed

text \<open>Merging is an overwrite that the code's own tests recognise: afterwards the new
  schedules are included, every kind they do not mention is as before, a second merge changes
  nothing, and merging something already included changes nothing.\<close>

theorem schedules_merge:
  assumes "mwf n"
  shows "Schedules_Include (Schedules_Merge s n) n \<and>
    (mget n k = None \<longrightarrow> mget (Schedules_Merge s n) k = mget s k) \<and>
    Schedules_Eq (Schedules_Merge (Schedules_Merge s n) n) (Schedules_Merge s n) \<and>
    (Schedules_Include s n \<longrightarrow> Schedules_Eq (Schedules_Merge s n) s)"
  using assms by (auto simp: Include_iff Eq_iff gomap_simps split: option.splits)

theorem schedules_merge_witness:
  "Schedules_Include (Schedules_Merge [(''aimed'', \<lparr>svs_kind = ''aimed'', svs_departureTime = 5,
      svs_arrivalTime = 4\<rparr>)] [(''actual'', \<lparr>svs_kind = ''actual'', svs_departureTime = 7,
      svs_arrivalTime = 6\<rparr>)]) [(''actual'', \<lparr>svs_kind = ''actual'', svs_departureTime = 7,
      svs_arrivalTime = 6\<rparr>)]"
  by (rule schedules_merge [THEN conjunct1]) (simp add: mwf_def)

text \<open>\<^verbatim>\<open>Eq\<close> is an equivalence, and it is mutual inclusion when the schedules use the
  three known kinds only; a kind outside these three is invisible to \<^verbatim>\<open>Eq\<close> but not to
  \<^verbatim>\<open>Include\<close>.\<close>

theorem schedules_eq_is_mutual_inclusion:
  assumes "mwf s" and "mwf t"
    and "set (mkeys s) \<subseteq> set stopVisitScheduleTypes"
    and "set (mkeys t) \<subseteq> set stopVisitScheduleTypes"
  shows "Schedules_Eq s t \<longleftrightarrow> Schedules_Include s t \<and> Schedules_Include t s"
proof -
  have other: "mget m k = None"
    if "set (mkeys m) \<subseteq> set stopVisitScheduleTypes" and "k \<notin> set stopVisitScheduleTypes"
    for m :: StopVisitSchedules and k
    using that by (auto simp: map_of_eq_None_iff)
  have "mget s k = mget t k" if "Schedules_Eq s t" for k
    using that other [OF assms(3), of k] other [OF assms(4), of k] unfolding Eq_iff
    by (cases "k \<in> set stopVisitScheduleTypes") simp_all
  then have "Schedules_Eq s t \<longleftrightarrow> mget s = mget t"
    unfolding Eq_iff fun_eq_iff by blast
  also have "\<dots> \<longleftrightarrow> Schedules_Include s t \<and> Schedules_Include t s"
    unfolding Include_iff [OF assms(1)] Include_iff [OF assms(2)] fun_eq_iff
    by (metis not_None_eq)
  finally show ?thesis .
qed

theorem schedules_eq_is_mutual_inclusion_witness:
  "\<not> Schedules_Eq [(''aimed'', zero_Schedule\<lparr>svs_kind := ''aimed''\<rparr>)] []"
  by (subst schedules_eq_is_mutual_inclusion)
    (simp_all add: mwf_def stopVisitScheduleTypes_def schedule_kind_defs
      Schedules_Include_def compareSchedules_def)

text \<open>The setters change one time of one kind and nothing else, creating the entry when it
  is missing, and keep every entry filed under its own kind.\<close>

theorem schedules_setters:
  "svs_departureTime (Schedules_Schedule (Schedules_SetDepartureTime k t s) k) = t \<and>
   svs_arrivalTime (Schedules_Schedule (Schedules_SetDepartureTime k t s) k) =
     svs_arrivalTime (Schedules_Schedule s k) \<and>
   svs_arrivalTime (Schedules_Schedule (Schedules_SetArrivalTime k t s) k) = t \<and>
   svs_departureTime (Schedules_Schedule (Schedules_SetArrivalTime k t s) k) =
     svs_departureTime (Schedules_Schedule s k) \<and>
   (j \<noteq> k \<longrightarrow> Schedules_Schedule (Schedules_SetDepartureTime k t s) j = Schedules_Schedule s j \<and>
      Schedules_Schedule (Schedules_SetArrivalTime k t s) j = Schedules_Schedule s j) \<and>
   (keyed svs_kind s \<longrightarrow> keyed svs_kind (Schedules_SetDepartureTime k t s) \<and>
      keyed svs_kind (Schedules_SetArrivalTime k t s) \<and>
      keyed svs_kind (Schedules_SetSchedule k t u s))"
proof -
  have "keyed svs_kind s \<Longrightarrow> svs_kind (fresh_Schedule k s) = k"
    by (auto simp: fresh_Schedule_def mget_or_def dest: keyed_mget split: option.splits)
  then have "keyed svs_kind s \<longrightarrow> keyed svs_kind (Schedules_SetDepartureTime k t s) \<and>
      keyed svs_kind (Schedules_SetArrivalTime k t s) \<and>
      keyed svs_kind (Schedules_SetSchedule k t u s)"
    by (simp add: Schedules_SetDepartureTime_def Schedules_SetArrivalTime_def
        Schedules_SetSchedule_def)
  then show ?thesis
    by (simp add: Schedules_SetDepartureTime_def Schedules_SetArrivalTime_def Schedules_Schedule_def
        fresh_Schedule_def mget_or_def zero_Schedule_def gomap_simps split: option.splits)
qed

theorem schedules_setters_witness:
  "Schedules_Schedule (Schedules_SetDepartureTime ''actual'' 9
      [(''aimed'', zero_Schedule\<lparr>svs_kind := ''aimed''\<rparr>)]) ''aimed'' =
    zero_Schedule\<lparr>svs_kind := ''aimed''\<rparr>"
  using schedules_setters [where k = "''actual''" and t = 9 and j = "''aimed''"
      and s = "[(''aimed'', zero_Schedule\<lparr>svs_kind := ''aimed''\<rparr>)]"]
  by (simp add: Schedules_Schedule_def)

end
