(* ===== verification/StopVisits.thy ===== *)
theory StopVisits
  imports StopAreas VehicleJourneys Schedules "HOL-Library.Multiset"
begin

text \<open>
  Stop visits: the object and its in-memory manager, which also indexes visits by stop area and
  by vehicle journey (\<^verbatim>\<open>model/stop_visit.go\<close>), the selectors
  (\<^verbatim>\<open>model/stop_visit_selector.go\<close>) and the transactional overlay
  (\<^verbatim>\<open>model/transactional_stop_visits.go\<close>).

  The lookups of following visits compare with the clock, which they read for every visit; the
  model reads it once, as the argument \<open>now\<close>. \<^verbatim>\<open>sort.Sort(ByTime(..))\<close> promises no order
  among visits of the same time; the model keeps the order of the input there.
\<close>

section \<open>The object\<close>

type_synonym StopVisitId = ModelId
type_synonym StopVisitArrivalStatus = string
type_synonym StopVisitDepartureStatus = string

definition STOP_VISIT_ARRIVAL_CANCELLED :: StopVisitArrivalStatus where
  "STOP_VISIT_ARRIVAL_CANCELLED = ''cancelled''"

definition STOP_VISIT_DEPARTURE_DEPARTED :: StopVisitDepartureStatus where
  "STOP_VISIT_DEPARTURE_DEPARTED = ''departed''"

definition SCHEDULE_ORDER_MAP :: "StopVisitScheduleType list" where
  "SCHEDULE_ORDER_MAP =
     [STOP_VISIT_SCHEDULE_ACTUAL, STOP_VISIT_SCHEDULE_EXPECTED, STOP_VISIT_SCHEDULE_AIMED]"

record StopVisit =
  sv_objectids :: ObjectIDs
  sv_model :: model_ref
  sv_Origin :: string
  sv_id :: StopVisitId
  sv_collected :: bool
  sv_collectedAt :: gotime
  sv_StopAreaId :: StopAreaId
  sv_VehicleJourneyId :: VehicleJourneyId
  sv_Attributes :: Attributes
  sv_References :: References
  sv_ArrivalStatus :: StopVisitArrivalStatus
  sv_DepartureStatus :: StopVisitDepartureStatus
  sv_DataFrameRef :: string
  sv_RecordedAt :: gotime
  sv_Schedules :: StopVisitSchedules
  sv_VehicleAtStop :: bool
  sv_PassageOrder :: int

definition NewStopVisit :: "model_ref \<Rightarrow> StopVisit" where
  "NewStopVisit model =
     \<lparr>sv_objectids = [], sv_model = model, sv_Origin = '''', sv_id = '''', sv_collected = False,
      sv_collectedAt = 0, sv_StopAreaId = '''', sv_VehicleJourneyId = '''',
      sv_Attributes = NewAttributes, sv_References = NewReferences, sv_ArrivalStatus = '''',
      sv_DepartureStatus = '''', sv_DataFrameRef = '''', sv_RecordedAt = 0,
      sv_Schedules = NewStopVisitSchedules, sv_VehicleAtStop = False, sv_PassageOrder = 0\<rparr>"

definition StopVisit_copy :: "StopVisit \<Rightarrow> StopVisit" where
  "StopVisit_copy stopVisit =
     stopVisit\<lparr>sv_Attributes := Attributes_Copy (sv_Attributes stopVisit),
               sv_References := References_Copy (sv_References stopVisit),
               sv_Schedules := Schedules_Copy (sv_Schedules stopVisit)\<rparr>"

definition StopVisit_NotCollected :: "StopVisit \<Rightarrow> StopVisit" where
  "StopVisit_NotCollected stopVisit =
     stopVisit\<lparr>sv_collected := False, sv_ArrivalStatus := STOP_VISIT_ARRIVAL_CANCELLED,
               sv_DepartureStatus := STOP_VISIT_DEPARTURE_DEPARTED\<rparr>"

definition StopVisit_Collected :: "gotime \<Rightarrow> StopVisit \<Rightarrow> StopVisit" where
  "StopVisit_Collected t stopVisit = stopVisit\<lparr>sv_collected := True, sv_collectedAt := t\<rparr>"

definition StopVisit_SetObjectID :: "ObjectID \<Rightarrow> StopVisit \<Rightarrow> StopVisit" where
  "StopVisit_SetObjectID objectid stopVisit =
     stopVisit\<lparr>sv_objectids := Consumer_SetObjectID objectid (sv_objectids stopVisit)\<rparr>"

definition StopVisit_Attribute :: "StopVisit \<Rightarrow> string \<Rightarrow> string option" where
  "StopVisit_Attribute stopVisit key = mget (sv_Attributes stopVisit) key"

definition StopVisit_Reference :: "StopVisit \<Rightarrow> string \<Rightarrow> Reference option" where
  "StopVisit_Reference stopVisit key = References_Get (sv_References stopVisit) key"

text \<open>Both follow the model pointer of the visit, and crash when it is nil. A missing stop area
  is the zero value.\<close>

definition StopVisit_StopArea :: "MemoryStopAreas \<Rightarrow> StopVisit \<Rightarrow> StopArea option" where
  "StopVisit_StopArea stopAreas stopVisit =
     (case sv_model stopVisit of
        NilModel \<Rightarrow> None
      | TheModel \<Rightarrow>
          (case MemoryStopAreas_Find stopAreas (sv_StopAreaId stopVisit) of
             Some stopArea \<Rightarrow> Some stopArea
           | None \<Rightarrow> Some ((NewStopArea NilModel)\<lparr>sa_CollectedAlways := False\<rparr>)))"

definition StopVisit_VehicleJourney ::
  "MemoryVehicleJourneys \<Rightarrow> StopVisit \<Rightarrow> VehicleJourney option option" where
  "StopVisit_VehicleJourney vehicleJourneys stopVisit =
     (case sv_model stopVisit of
        NilModel \<Rightarrow> None
      | TheModel \<Rightarrow> Some (MemoryVehicleJourneys_Find vehicleJourneys (sv_VehicleJourneyId stopVisit)))"

definition StopVisit_ReferenceArrivalTime :: "StopVisit \<Rightarrow> gotime" where
  "StopVisit_ReferenceArrivalTime stopVisit =
     (case first_some (\<lambda>kind. \<not> IsZero (svs_arrivalTime (Schedules_Schedule (sv_Schedules stopVisit) kind)))
             SCHEDULE_ORDER_MAP of
        Some kind \<Rightarrow> svs_arrivalTime (Schedules_Schedule (sv_Schedules stopVisit) kind)
      | None \<Rightarrow> 0)"

definition StopVisit_ReferenceDepartureTime :: "StopVisit \<Rightarrow> gotime" where
  "StopVisit_ReferenceDepartureTime stopVisit =
     (case first_some (\<lambda>kind. \<not> IsZero (svs_departureTime (Schedules_Schedule (sv_Schedules stopVisit) kind)))
             SCHEDULE_ORDER_MAP of
        Some kind \<Rightarrow> svs_departureTime (Schedules_Schedule (sv_Schedules stopVisit) kind)
      | None \<Rightarrow> 0)"

definition StopVisit_ReferenceTime :: "StopVisit \<Rightarrow> gotime" where
  "StopVisit_ReferenceTime stopVisit =
     (let t = StopVisit_ReferenceArrivalTime stopVisit
      in if \<not> IsZero t then t else StopVisit_ReferenceDepartureTime stopVisit)"

definition sort_ByTime :: "StopVisit list \<Rightarrow> StopVisit list" where
  "sort_ByTime stopVisits = sort_key StopVisit_ReferenceTime stopVisits"

definition stop_visit_wf :: "StopVisit \<Rightarrow> bool" where
  "stop_visit_wf sv \<longleftrightarrow> oids_wf (sv_objectids sv) \<and> mwf (sv_Attributes sv) \<and>
     mwf (sv_References sv) \<and> mwf (sv_Schedules sv)"

lemma StopVisit_copy_id [simp]: "stop_visit_wf sv \<Longrightarrow> StopVisit_copy sv = sv"
  by (simp add: StopVisit_copy_def stop_visit_wf_def)

lemma stop_visit_wf_new [simp, wf_intros]: "stop_visit_wf (NewStopVisit m)"
  by (simp add: stop_visit_wf_def NewStopVisit_def NewAttributes_def NewReferences_def
      NewStopVisitSchedules_def)

lemma stop_visit_wf_ops [simp, wf_intros]:
  "stop_visit_wf sv \<Longrightarrow> stop_visit_wf (StopVisit_SetObjectID x sv)"
  "mwf a \<Longrightarrow> stop_visit_wf sv \<Longrightarrow> stop_visit_wf (sv\<lparr>sv_Attributes := a\<rparr>)"
  "mwf r \<Longrightarrow> stop_visit_wf sv \<Longrightarrow> stop_visit_wf (sv\<lparr>sv_References := r\<rparr>)"
  "mwf c \<Longrightarrow> stop_visit_wf sv \<Longrightarrow> stop_visit_wf (sv\<lparr>sv_Schedules := c\<rparr>)"
  "stop_visit_wf (StopVisit_NotCollected sv) \<longleftrightarrow> stop_visit_wf sv"
  "stop_visit_wf (StopVisit_Collected t sv) \<longleftrightarrow> stop_visit_wf sv"
  "stop_visit_wf (sv\<lparr>sv_id := i\<rparr>) \<longleftrightarrow> stop_visit_wf sv"
  "stop_visit_wf (sv\<lparr>sv_model := m\<rparr>) \<longleftrightarrow> stop_visit_wf sv"
  "stop_visit_wf (sv\<lparr>sv_Origin := s\<rparr>) \<longleftrightarrow> stop_visit_wf sv"
  "stop_visit_wf (sv\<lparr>sv_StopAreaId := s\<rparr>) \<longleftrightarrow> stop_visit_wf sv"
  "stop_visit_wf (sv\<lparr>sv_VehicleJourneyId := s\<rparr>) \<longleftrightarrow> stop_visit_wf sv"
  "stop_visit_wf (sv\<lparr>sv_ArrivalStatus := s\<rparr>) \<longleftrightarrow> stop_visit_wf sv"
  "stop_visit_wf (sv\<lparr>sv_DepartureStatus := s\<rparr>) \<longleftrightarrow> stop_visit_wf sv"
  "stop_visit_wf (sv\<lparr>sv_DataFrameRef := s\<rparr>) \<longleftrightarrow> stop_visit_wf sv"
  "stop_visit_wf (sv\<lparr>sv_RecordedAt := t\<rparr>) \<longleftrightarrow> stop_visit_wf sv"
  "stop_visit_wf (sv\<lparr>sv_VehicleAtStop := b\<rparr>) \<longleftrightarrow> stop_visit_wf sv"
  "stop_visit_wf (sv\<lparr>sv_PassageOrder := n\<rparr>) \<longleftrightarrow> stop_visit_wf sv"
  by (simp_all add: stop_visit_wf_def StopVisit_SetObjectID_def StopVisit_NotCollected_def
      StopVisit_Collected_def)

section \<open>The in-memory manager\<close>

record MemoryStopVisits =
  msv_model :: model_ref
  msv_byIdentifier :: "(StopVisitId, StopVisit) gomap"
  msv_byObjectId :: ObjectIdIndex
  msv_byStopArea :: Index
  msv_byVehicleJourney :: Index
  msv_broadcastEvent :: "StopMonitoringBroadcastEvent list option"

definition NewMemoryStopVisits :: MemoryStopVisits where
  "NewMemoryStopVisits =
     \<lparr>msv_model = NilModel, msv_byIdentifier = [], msv_byObjectId = NewObjectIdIndex,
      msv_byStopArea = NewIndex, msv_byVehicleJourney = NewIndex, msv_broadcastEvent = None\<rparr>"

definition MemoryStopVisits_New :: "MemoryStopVisits \<Rightarrow> StopVisit" where
  "MemoryStopVisits_New manager = NewStopVisit (msv_model manager)"

definition MemoryStopVisits_Find :: "MemoryStopVisits \<Rightarrow> StopVisitId \<Rightarrow> StopVisit option" where
  "MemoryStopVisits_Find manager i =
     (case mget (msv_byIdentifier manager) i of
        Some stopVisit \<Rightarrow> Some (StopVisit_copy stopVisit)
      | None \<Rightarrow> None)"

definition MemoryStopVisits_FindByObjectId ::
  "MemoryStopVisits \<Rightarrow> ObjectID \<Rightarrow> StopVisit option option" where
  "MemoryStopVisits_FindByObjectId manager objectid =
     (case ObjectIdIndex_Find (msv_byObjectId manager) objectid of
        Some i \<Rightarrow>
          (case mget (msv_byIdentifier manager) i of
             None \<Rightarrow> None
           | Some stopVisit \<Rightarrow> Some (Some (StopVisit_copy stopVisit)))
      | None \<Rightarrow> Some None)"

definition MemoryStopVisits_FindByVehicleJourneyId ::
  "MemoryStopVisits \<Rightarrow> VehicleJourneyId \<Rightarrow> StopVisit list option" where
  "MemoryStopVisits_FindByVehicleJourneyId manager i =
     fetch StopVisit_copy (msv_byIdentifier manager) (Index_ids (msv_byVehicleJourney manager) i)"

definition MemoryStopVisits_FindByStopAreaId ::
  "MemoryStopVisits \<Rightarrow> StopAreaId \<Rightarrow> StopVisit list option" where
  "MemoryStopVisits_FindByStopAreaId manager i =
     fetch StopVisit_copy (msv_byIdentifier manager) (Index_ids (msv_byStopArea manager) i)"

text \<open>The loop over the visits that keeps copies of those after the clock's time.\<close>

definition following :: "gotime \<Rightarrow> StopVisit list \<Rightarrow> StopVisit list" where
  "following now stopVisits =
     map StopVisit_copy (filter (\<lambda>sv. StopVisit_ReferenceTime sv > now) stopVisits)"

definition MemoryStopVisits_FindFollowingByVehicleJourneyId ::
  "gotime \<Rightarrow> MemoryStopVisits \<Rightarrow> VehicleJourneyId \<Rightarrow> StopVisit list option" where
  "MemoryStopVisits_FindFollowingByVehicleJourneyId now manager i =
     do { svs \<leftarrow> fetch (\<lambda>sv. sv) (msv_byIdentifier manager) (Index_ids (msv_byVehicleJourney manager) i);
          Some (sort_ByTime (following now svs)) }"

definition MemoryStopVisits_FindFollowingByStopAreaId ::
  "gotime \<Rightarrow> MemoryStopVisits \<Rightarrow> StopAreaId \<Rightarrow> StopVisit list option" where
  "MemoryStopVisits_FindFollowingByStopAreaId now manager i =
     do { svs \<leftarrow> fetch (\<lambda>sv. sv) (msv_byIdentifier manager) (Index_ids (msv_byStopArea manager) i);
          Some (sort_ByTime (following now svs)) }"

text \<open>
  The read lock, as the number of readers: releasing a lock nobody holds is a fatal error. The
  lookup for several stop areas releases its lock before sorting and once more on return; the
  result carries the number of readers it leaves.
\<close>

definition RLock :: "nat \<Rightarrow> nat" where
  "RLock readers = Suc readers"

definition RUnlock :: "nat \<Rightarrow> nat option" where
  "RUnlock readers = (case readers of 0 \<Rightarrow> None | Suc n \<Rightarrow> Some n)"

definition MemoryStopVisits_FindFollowingByStopAreaIds ::
  "nat \<Rightarrow> gotime \<Rightarrow> MemoryStopVisits \<Rightarrow> StopAreaId list \<Rightarrow> (nat \<times> StopVisit list) option" where
  "MemoryStopVisits_FindFollowingByStopAreaIds readers now manager stopAreaIds =
     (let r1 = RLock readers;
          ids = concat (map (Index_ids (msv_byStopArea manager)) stopAreaIds)
      in do { svs \<leftarrow> fetch (\<lambda>sv. sv) (msv_byIdentifier manager) ids;
              r2 \<leftarrow> RUnlock r1;
              (let stopVisits = sort_ByTime (following now svs)
               in do { r3 \<leftarrow> RUnlock r2; Some (r3, stopVisits) }) })"

definition MemoryStopVisits_FindMonitoredByOriginByStopAreaId ::
  "MemoryStopVisits \<Rightarrow> StopAreaId \<Rightarrow> string \<Rightarrow> StopVisit list" where
  "MemoryStopVisits_FindMonitoredByOriginByStopAreaId manager i origin =
     map StopVisit_copy (filter (\<lambda>stopVisit. sv_StopAreaId stopVisit = i \<and> sv_collected stopVisit \<and>
         sv_Origin stopVisit = origin) (mvals (msv_byIdentifier manager)))"

definition MemoryStopVisits_FindAll :: "MemoryStopVisits \<Rightarrow> StopVisit list" where
  "MemoryStopVisits_FindAll manager = map StopVisit_copy (mvals (msv_byIdentifier manager))"

definition MemoryStopVisits_FindAllAfter :: "MemoryStopVisits \<Rightarrow> gotime \<Rightarrow> StopVisit list" where
  "MemoryStopVisits_FindAllAfter manager t =
     map StopVisit_copy (filter (\<lambda>stopVisit. StopVisit_ReferenceTime stopVisit > t)
       (mvals (msv_byIdentifier manager)))"

definition MemoryStopVisits_Save ::
  "uuid_gen \<Rightarrow> StopVisit \<Rightarrow> MemoryStopVisits \<Rightarrow> uuid_gen \<times> StopVisit \<times> MemoryStopVisits" where
  "MemoryStopVisits_Save g stopVisit manager =
     (let (g1, sv1) = (if sv_id stopVisit = ''''
                       then (let (u, g') = NewUUID g in (g', stopVisit\<lparr>sv_id := u\<rparr>))
                       else (g, stopVisit));
          sv2 = sv1\<lparr>sv_model := msv_model manager\<rparr>;
          event = \<lparr>sme_SubscriptionId = '''', sme_ModelId = sv_id sv2, sme_ModelType = ''StopVisit''\<rparr>
      in (g1, sv2,
          manager\<lparr>msv_byIdentifier := mput (sv_id sv2) sv2 (msv_byIdentifier manager),
                  msv_byObjectId := ObjectIdIndex_Index (sv_id sv2) (sv_objectids sv2)
                    (msv_byObjectId manager),
                  msv_byStopArea := Index_Index (sv_id sv2) (sv_StopAreaId sv2) (msv_byStopArea manager),
                  msv_byVehicleJourney := Index_Index (sv_id sv2) (sv_VehicleJourneyId sv2)
                    (msv_byVehicleJourney manager),
                  msv_broadcastEvent := map_option (\<lambda>log. log @ [event]) (msv_broadcastEvent manager)\<rparr>))"

definition MemoryStopVisits_Delete :: "StopVisit \<Rightarrow> MemoryStopVisits \<Rightarrow> MemoryStopVisits" where
  "MemoryStopVisits_Delete stopVisit manager =
     manager\<lparr>msv_byIdentifier := mdel (sv_id stopVisit) (msv_byIdentifier manager),
             msv_byObjectId := ObjectIdIndex_Delete (sv_id stopVisit) (msv_byObjectId manager),
             msv_byStopArea := Index_Delete (sv_id stopVisit) (msv_byStopArea manager),
             msv_byVehicleJourney := Index_Delete (sv_id stopVisit) (msv_byVehicleJourney manager)\<rparr>"

section \<open>The manager keeps the contract\<close>

definition stopvisits_inv :: "MemoryStopVisits \<Rightarrow> bool" where
  "stopvisits_inv s \<longleftrightarrow>
     table_inv sv_id sv_objectids stop_visit_wf (msv_byIdentifier s) (msv_byObjectId s) \<and>
     index_inv sv_StopAreaId (msv_byIdentifier s) (msv_byStopArea s) \<and>
     index_inv sv_VehicleJourneyId (msv_byIdentifier s) (msv_byVehicleJourney s)"

lemma stopvisits_inv_new [simp]:
  "stopvisits_inv NewMemoryStopVisits"
  "stopvisits_inv (NewMemoryStopVisits\<lparr>msv_model := r\<rparr>)"
  "stopvisits_inv (s\<lparr>msv_broadcastEvent := b\<rparr>) \<longleftrightarrow> stopvisits_inv s"
  by (simp_all add: stopvisits_inv_def NewMemoryStopVisits_def table_inv_new index_inv_new)

lemma stopvisits_inv_parts:
  assumes "stopvisits_inv s"
  shows stopvisits_inv_table:
      "table_inv sv_id sv_objectids stop_visit_wf (msv_byIdentifier s) (msv_byObjectId s)"
    and "index_inv sv_StopAreaId (msv_byIdentifier s) (msv_byStopArea s)"
    and "index_inv sv_VehicleJourneyId (msv_byIdentifier s) (msv_byVehicleJourney s)"
  using assms by (simp_all only: stopvisits_inv_def)

lemma MemoryStopVisits_Save_eq:
  "MemoryStopVisits_Save g sv s =
     (let sv2 = (if sv_id sv = [] then sv\<lparr>sv_id := fst (NewUUID g)\<rparr> else sv)\<lparr>sv_model := msv_model s\<rparr>
      in ((if sv_id sv = [] then snd (NewUUID g) else g), sv2,
          s\<lparr>msv_byIdentifier := mput (sv_id sv2) sv2 (msv_byIdentifier s),
            msv_byObjectId := ObjectIdIndex_Index (sv_id sv2) (sv_objectids sv2) (msv_byObjectId s),
            msv_byStopArea := Index_Index (sv_id sv2) (sv_StopAreaId sv2) (msv_byStopArea s),
            msv_byVehicleJourney := Index_Index (sv_id sv2) (sv_VehicleJourneyId sv2)
              (msv_byVehicleJourney s),
            msv_broadcastEvent := map_option (\<lambda>log. log @
              [\<lparr>sme_SubscriptionId = '''', sme_ModelId = sv_id sv2, sme_ModelType = ''StopVisit''\<rparr>])
              (msv_broadcastEvent s)\<rparr>))"
  by (simp add: MemoryStopVisits_Save_def Let_def split: prod.split)

lemma MemoryStopVisits_Save_inv:
  assumes "stopvisits_inv s" and "stop_visit_wf e" and "ug_ok g"
    and "MemoryStopVisits_Save g e s = (g', e', s')"
  shows "stopvisits_inv s'"
proof -
  from assms(2-4) have e': "stop_visit_wf e'" "sv_id e' \<noteq> []" "oids_wf (sv_objectids e')"
    by (auto simp: MemoryStopVisits_Save_eq Let_def stop_visit_wf_def split: if_splits)
  note inv = stopvisits_inv_parts [OF assms(1)]
  from table_inv_put [OF inv(1) e'] index_inv_put [OF inv(2), of "sv_id e'" e']
    index_inv_put [OF inv(3), of "sv_id e'" e'] assms(4)
  show ?thesis
    by (auto simp: stopvisits_inv_def MemoryStopVisits_Save_eq Let_def split: if_splits)
qed

lemma MemoryStopVisits_Delete_inv: "stopvisits_inv s \<Longrightarrow> stopvisits_inv (MemoryStopVisits_Delete e s)"
  by (simp add: stopvisits_inv_def MemoryStopVisits_Delete_def table_inv_del index_inv_del)

interpretation mem_stopvisits: indexed_table_store MemoryStopVisits_Find MemoryStopVisits_FindAll MemoryStopVisits_Save
  MemoryStopVisits_Delete sv_id "\<lambda>s e. e\<lparr>sv_model := msv_model s\<rparr>" stop_visit_wf stopvisits_inv
  msv_byIdentifier StopVisit_copy "\<lambda>i e. e\<lparr>sv_id := i\<rparr>" 
  MemoryStopVisits_FindByObjectId sv_objectids msv_byObjectId
proof (unfold_locales, goal_cases)
  case (1 s)
  then show ?case using stopvisits_inv_table [of s] by (simp only: table_inv_def)
next
  case (2 s e g g' e' s')
  then show ?case by (rule MemoryStopVisits_Save_inv)
next
  case (3 s e)
  then show ?case by (rule MemoryStopVisits_Delete_inv)
next
  case (4 e)
  then show ?case by simp
next
  case (5 s i)
  then show ?case by (simp add: MemoryStopVisits_Find_def split: option.split)
next
  case (6 s)
  show ?case by (simp add: MemoryStopVisits_FindAll_def)
next
  case (7 g e s g' e' s')
  then show ?case by (auto simp: MemoryStopVisits_Save_eq Let_def)
next
  case (11 s)
  then show ?case by (rule stopvisits_inv_table)
next
  case (12 s x)
  show ?case by (simp add: MemoryStopVisits_FindByObjectId_def)
next
  case (13 g e s g' e' s')
  then show ?case by (auto simp: MemoryStopVisits_Save_eq Let_def)
qed (simp_all add: MemoryStopVisits_Delete_def stop_visit_wf_def)

section \<open>The transactional overlay\<close>

record TransactionalStopVisits =
  tsv_model :: model_ref
  tsv_saved :: "(StopVisitId, StopVisit) gomap"
  tsv_deleted :: "(StopVisitId, StopVisit) gomap"

definition TransactionalStopVisits_resetCaches :: "TransactionalStopVisits \<Rightarrow> TransactionalStopVisits" where
  "TransactionalStopVisits_resetCaches manager = manager\<lparr>tsv_saved := [], tsv_deleted := []\<rparr>"

definition NewTransactionalStopVisits :: "model_ref \<Rightarrow> TransactionalStopVisits" where
  "NewTransactionalStopVisits model = \<lparr>tsv_model = model, tsv_saved = [], tsv_deleted = []\<rparr>"

definition TransactionalStopVisits_New :: "TransactionalStopVisits \<Rightarrow> StopVisit" where
  "TransactionalStopVisits_New manager = NewStopVisit (tsv_model manager)"

definition TransactionalStopVisits_Find ::
  "TransactionalStopVisits \<Rightarrow> MemoryStopVisits \<Rightarrow> StopVisitId \<Rightarrow> StopVisit option" where
  "TransactionalStopVisits_Find manager parent i =
     (case mget (tsv_saved manager) i of
        Some stopVisit \<Rightarrow> Some (StopVisit_copy stopVisit)
      | None \<Rightarrow> MemoryStopVisits_Find parent i)"

text \<open>The loop over the saved objects reads a missing identifier as the zero value.\<close>

definition TransactionalStopVisits_FindByObjectId ::
  "TransactionalStopVisits \<Rightarrow> MemoryStopVisits \<Rightarrow> ObjectID \<Rightarrow> StopVisit option option" where
  "TransactionalStopVisits_FindByObjectId manager parent objectid =
     (case first_some (\<lambda>stopVisit. oid_value (Consumer_ObjectID_or_zero (sv_objectids stopVisit)
                                (oid_kind objectid)) = oid_value objectid)
             (mvals (tsv_saved manager)) of
        Some stopVisit \<Rightarrow> Some (Some (StopVisit_copy stopVisit))
      | None \<Rightarrow> MemoryStopVisits_FindByObjectId parent objectid)"

definition TransactionalStopVisits_FindAll :: "TransactionalStopVisits \<Rightarrow> MemoryStopVisits \<Rightarrow> StopVisit list" where
  "TransactionalStopVisits_FindAll manager parent =
     map StopVisit_copy (mvals (tsv_saved manager)) @
     filter (\<lambda>stopVisit. \<not> mhas (tsv_saved manager) (sv_id stopVisit)) (MemoryStopVisits_FindAll parent)"

text \<open>The lookups that combine the saved visits with those of the parent.\<close>

definition sv_overlay ::
  "TransactionalStopVisits \<Rightarrow> (StopVisit \<Rightarrow> bool) \<Rightarrow> StopVisit list \<Rightarrow> StopVisit list" where
  "sv_overlay manager keep found =
     map StopVisit_copy (filter keep (mvals (tsv_saved manager))) @
     filter (\<lambda>stopVisit. \<not> mhas (tsv_saved manager) (sv_id stopVisit)) found"

definition TransactionalStopVisits_FindByVehicleJourneyId ::
  "TransactionalStopVisits \<Rightarrow> MemoryStopVisits \<Rightarrow> VehicleJourneyId \<Rightarrow> StopVisit list option" where
  "TransactionalStopVisits_FindByVehicleJourneyId manager parent i =
     do { found \<leftarrow> MemoryStopVisits_FindByVehicleJourneyId parent i;
          Some (sv_overlay manager (\<lambda>sv. sv_VehicleJourneyId sv = i) found) }"

definition TransactionalStopVisits_FindFollowingByVehicleJourneyId ::
  "gotime \<Rightarrow> TransactionalStopVisits \<Rightarrow> MemoryStopVisits \<Rightarrow> VehicleJourneyId \<Rightarrow> StopVisit list option" where
  "TransactionalStopVisits_FindFollowingByVehicleJourneyId now manager parent i =
     do { found \<leftarrow> MemoryStopVisits_FindFollowingByVehicleJourneyId now parent i;
          Some (sort_ByTime (sv_overlay manager
            (\<lambda>sv. sv_VehicleJourneyId sv = i \<and> StopVisit_ReferenceTime sv > now) found)) }"

definition TransactionalStopVisits_FindByStopAreaId ::
  "TransactionalStopVisits \<Rightarrow> MemoryStopVisits \<Rightarrow> StopAreaId \<Rightarrow> StopVisit list option" where
  "TransactionalStopVisits_FindByStopAreaId manager parent i =
     do { found \<leftarrow> MemoryStopVisits_FindByStopAreaId parent i;
          Some (sv_overlay manager (\<lambda>sv. sv_StopAreaId sv = i) found) }"

definition TransactionalStopVisits_FindMonitoredByOriginByStopAreaId ::
  "TransactionalStopVisits \<Rightarrow> MemoryStopVisits \<Rightarrow> StopAreaId \<Rightarrow> string \<Rightarrow> StopVisit list" where
  "TransactionalStopVisits_FindMonitoredByOriginByStopAreaId manager parent i origin =
     MemoryStopVisits_FindMonitoredByOriginByStopAreaId parent i origin"

definition TransactionalStopVisits_FindFollowingByStopAreaId ::
  "gotime \<Rightarrow> TransactionalStopVisits \<Rightarrow> MemoryStopVisits \<Rightarrow> StopAreaId \<Rightarrow> StopVisit list option" where
  "TransactionalStopVisits_FindFollowingByStopAreaId now manager parent i =
     do { found \<leftarrow> MemoryStopVisits_FindFollowingByStopAreaId now parent i;
          Some (sort_ByTime (sv_overlay manager
            (\<lambda>sv. sv_StopAreaId sv = i \<and> StopVisit_ReferenceTime sv > now) found)) }"

definition TransactionalStopVisits_FindFollowingByStopAreaIds ::
  "gotime \<Rightarrow> TransactionalStopVisits \<Rightarrow> MemoryStopVisits \<Rightarrow> StopAreaId list \<Rightarrow> StopVisit list option" where
  "TransactionalStopVisits_FindFollowingByStopAreaIds now manager parent stopAreaIds =
     do { each \<leftarrow> those (map (TransactionalStopVisits_FindFollowingByStopAreaId now manager parent) stopAreaIds);
          Some (sort_ByTime (concat each)) }"

text \<open>The one lookup that also leaves out the deleted visits.\<close>

definition TransactionalStopVisits_FindAllAfter ::
  "TransactionalStopVisits \<Rightarrow> MemoryStopVisits \<Rightarrow> gotime \<Rightarrow> StopVisit list" where
  "TransactionalStopVisits_FindAllAfter manager parent t =
     map StopVisit_copy (filter (\<lambda>stopVisit. StopVisit_ReferenceTime stopVisit > t)
       (mvals (tsv_saved manager))) @
     filter (\<lambda>stopVisit. \<not> mhas (tsv_saved manager) (sv_id stopVisit) \<and>
         \<not> mhas (tsv_deleted manager) (sv_id stopVisit) \<and> StopVisit_ReferenceTime stopVisit > t)
       (MemoryStopVisits_FindAll parent)"

definition TransactionalStopVisits_Save ::
  "uuid_gen \<Rightarrow> StopVisit \<Rightarrow> TransactionalStopVisits \<Rightarrow> uuid_gen \<times> StopVisit \<times> TransactionalStopVisits" where
  "TransactionalStopVisits_Save g stopVisit manager =
     (let (g1, stopVisit1) = (if sv_id stopVisit = ''''
                         then (let (u, g') = NewUUID g in (g', stopVisit\<lparr>sv_id := u\<rparr>))
                         else (g, stopVisit))
      in (g1, stopVisit1,
          manager\<lparr>tsv_saved := mput (sv_id stopVisit1) stopVisit1 (tsv_saved manager)\<rparr>))"

definition TransactionalStopVisits_Delete :: "StopVisit \<Rightarrow> TransactionalStopVisits \<Rightarrow> TransactionalStopVisits" where
  "TransactionalStopVisits_Delete stopVisit manager =
     manager\<lparr>tsv_deleted := mput (sv_id stopVisit) stopVisit (tsv_deleted manager)\<rparr>"

definition TransactionalStopVisits_Commit ::
  "uuid_gen \<Rightarrow> TransactionalStopVisits \<Rightarrow> MemoryStopVisits \<Rightarrow> uuid_gen \<times> MemoryStopVisits" where
  "TransactionalStopVisits_Commit g manager parent =
     save_all MemoryStopVisits_Save (mvals (tsv_saved manager))
       (g, fold MemoryStopVisits_Delete (mvals (tsv_deleted manager)) parent)"

definition TransactionalStopVisits_Rollback :: "TransactionalStopVisits \<Rightarrow> TransactionalStopVisits" where
  "TransactionalStopVisits_Rollback manager = TransactionalStopVisits_resetCaches manager"

definition tx_stopvisits_inv :: "TransactionalStopVisits \<Rightarrow> bool" where
  "tx_stopvisits_inv t \<longleftrightarrow> mwf (tsv_saved t) \<and> keyed sv_id (tsv_saved t) \<and>
     vals_ok (\<lambda>e. stop_visit_wf e \<and> sv_id e \<noteq> []) (tsv_saved t) \<and>
     mwf (tsv_deleted t) \<and> keyed sv_id (tsv_deleted t)"

lemma tx_stopvisits_inv_new [simp]: "tx_stopvisits_inv (NewTransactionalStopVisits r)"
  by (simp add: tx_stopvisits_inv_def NewTransactionalStopVisits_def)

interpretation tx_stopvisits: transactional_store MemoryStopVisits_Find MemoryStopVisits_FindAll MemoryStopVisits_Save
  MemoryStopVisits_Delete sv_id "\<lambda>s e. e\<lparr>sv_model := msv_model s\<rparr>" stop_visit_wf stopvisits_inv
  tsv_saved tsv_deleted TransactionalStopVisits_Find TransactionalStopVisits_FindAll TransactionalStopVisits_Save
  TransactionalStopVisits_Delete TransactionalStopVisits_Commit TransactionalStopVisits_Rollback tx_stopvisits_inv
proof (unfold_locales, goal_cases)
  case (1 t)
  then show ?case by (simp add: tx_stopvisits_inv_def)
next
  case (2 t s i)
  then show ?case
    by (auto simp: TransactionalStopVisits_Find_def tx_stopvisits_inv_def dest: vals_ok_mget split: option.split)
next
  case (3 t s)
  then have "vals_ok stop_visit_wf (tsv_saved t)" by (simp add: tx_stopvisits_inv_def vals_ok_def list_all_iff)
  then have "map StopVisit_copy (mvals (tsv_saved t)) = mvals (tsv_saved t)"
    by (rule map_copy_vals [rotated]) simp
  then show ?case by (simp only: TransactionalStopVisits_FindAll_def)
next
  case (4 e g t g' e' t')
  then show ?case by (auto simp: TransactionalStopVisits_Save_def)
next
  case (5 e g t g' e' t')
  then show ?case by (auto simp: TransactionalStopVisits_Save_def Let_def split: prod.splits)
qed (simp_all add: TransactionalStopVisits_Delete_def TransactionalStopVisits_Commit_def
      TransactionalStopVisits_Rollback_def TransactionalStopVisits_resetCaches_def)

section \<open>Lookups by stop area and by vehicle journey\<close>

lemma stopvisits_fetch:
  assumes "stopvisits_inv s" and "index_inv g (msv_byIdentifier s) ix"
    and "\<And>e. stop_visit_wf e \<Longrightarrow> c e = e"
  obtains svs where "fetch c (msv_byIdentifier s) (Index_ids ix i) = Some svs"
    and "set svs = {sv. MemoryStopVisits_Find s (sv_id sv) = Some sv \<and> g sv = i}"
    and "distinct (map sv_id svs)"
proof -
  from stopvisits_inv_table [OF assms(1)] assms(2,3) show thesis
  proof (rule fetch_index [where v = i])
    fix svs
    assume "fetch c (msv_byIdentifier s) (Index_ids ix i) = Some svs"
      and "set svs = {sv. mget (msv_byIdentifier s) (sv_id sv) = Some sv \<and> g sv = i}"
      and "distinct (map sv_id svs)"
    then show thesis by (intro that [of svs]) (simp_all only: mem_stopvisits.find_mget [OF assms(1)])
  qed
qed

lemma following_id:
  "list_all stop_visit_wf svs \<Longrightarrow> following now svs = filter (\<lambda>sv. StopVisit_ReferenceTime sv > now) svs"
  unfolding following_def by (rule map_idI) (simp add: list_all_iff)

lemma sort_ByTime_simps [simp]:
  "set (sort_ByTime svs) = set svs" "sorted (map StopVisit_ReferenceTime (sort_ByTime svs))"
  "distinct (map sv_id (sort_ByTime svs)) \<longleftrightarrow> distinct (map sv_id svs)"
proof -
  show "distinct (map sv_id (sort_ByTime svs)) \<longleftrightarrow> distinct (map sv_id svs)"
    unfolding sort_ByTime_def
    by (rule mset_eq_imp_distinct_iff) simp
qed (simp_all add: sort_ByTime_def)

lemma stopvisits_following:
  assumes "stopvisits_inv s" and "index_inv g (msv_byIdentifier s) ix"
  obtains svs where "fetch (\<lambda>sv. sv) (msv_byIdentifier s) (Index_ids ix i) = Some svs"
    and "set (sort_ByTime (following now svs)) = {sv. MemoryStopVisits_Find s (sv_id sv) = Some sv \<and>
           g sv = i \<and> StopVisit_ReferenceTime sv > now}"
    and "distinct (map sv_id (sort_ByTime (following now svs)))"
proof (rule stopvisits_fetch [OF assms refl, of i])
  fix svs
  assume svs: "fetch (\<lambda>sv. sv) (msv_byIdentifier s) (Index_ids ix i) = Some svs"
    "set svs = {sv. MemoryStopVisits_Find s (sv_id sv) = Some sv \<and> g sv = i}"
    "distinct (map sv_id svs)"
  then have "list_all stop_visit_wf svs"
    unfolding list_all_iff using mem_stopvisits.find_ewf [OF assms(1)] by blast
  note following = following_id [OF this]
  show thesis
  proof (rule that [OF svs(1)])
    show "set (sort_ByTime (following now svs)) = {sv. MemoryStopVisits_Find s (sv_id sv) = Some sv \<and>
           g sv = i \<and> StopVisit_ReferenceTime sv > now}"
      unfolding sort_ByTime_simps following set_filter svs(2) by blast
    show "distinct (map sv_id (sort_ByTime (following now svs)))"
      unfolding sort_ByTime_simps following using svs(3) by (rule distinct_map_filter)
  qed
qed

lemma sv_overlay_filter:
  assumes "tx_stopvisits_inv t" and "stopvisits_inv s"
    and "set found = {sv. MemoryStopVisits_Find s (sv_id sv) = Some sv \<and> P sv}"
    and "distinct (map sv_id found)"
  shows "set (sv_overlay t P found) =
      {sv. TransactionalStopVisits_Find t s (sv_id sv) = Some sv \<and> P sv}"
    and "distinct (map sv_id (sv_overlay t P found))"
proof -
  from assms(1) have t: "mwf (tsv_saved t)" "keyed sv_id (tsv_saved t)"
    "vals_ok (\<lambda>e. stop_visit_wf e \<and> sv_id e \<noteq> []) (tsv_saved t)"
    by (simp_all only: tx_stopvisits_inv_def)
  then have "\<forall>e \<in> set (mvals (tsv_saved t)). stop_visit_wf e" by (simp only: vals_ok_vals) blast
  then have "map StopVisit_copy (filter P (mvals (tsv_saved t))) = filter P (mvals (tsv_saved t))"
    by (intro map_idI) auto
  then have eq: "sv_overlay t P found =
      filter P (mvals (tsv_saved t)) @ filter (\<lambda>e. \<not> mhas (tsv_saved t) (sv_id e)) found"
    by (simp only: sv_overlay_def)
  show "set (sv_overlay t P found) =
      {sv. TransactionalStopVisits_Find t s (sv_id sv) = Some sv \<and> P sv}"
    and "distinct (map sv_id (sv_overlay t P found))"
    unfolding eq tx_stopvisits.tfind_eq [OF assms(1)] using overlay_filter [OF t(1,2) assms(3,4)] .
qed

text \<open>C40. The visits of a stop area that follow a given time, seen from a transaction, are exactly
  the visits the transaction finds there whose reference time is later, each once and in the order of
  their reference time; no index entry is dangling, so the lookup does not crash.\<close>

theorem following_visits:
  assumes "stopvisits_inv s" and "tx_stopvisits_inv t"
  shows "\<exists>svs. TransactionalStopVisits_FindFollowingByStopAreaId now t s i = Some svs \<and>
     set svs = {sv. TransactionalStopVisits_Find t s (sv_id sv) = Some sv \<and>
       sv_StopAreaId sv = i \<and> StopVisit_ReferenceTime sv > now} \<and>
     distinct (map sv_id svs) \<and> sorted (map StopVisit_ReferenceTime svs)"
proof (rule stopvisits_following [OF assms(1) stopvisits_inv_parts(2) [OF assms(1)], of i now])
  fix svs
  assume svs: "fetch (\<lambda>sv. sv) (msv_byIdentifier s) (Index_ids (msv_byStopArea s) i) = Some svs"
    "set (sort_ByTime (following now svs)) = {sv. MemoryStopVisits_Find s (sv_id sv) = Some sv \<and>
       sv_StopAreaId sv = i \<and> StopVisit_ReferenceTime sv > now}"
    "distinct (map sv_id (sort_ByTime (following now svs)))"
  show ?thesis
    unfolding TransactionalStopVisits_FindFollowingByStopAreaId_def
      MemoryStopVisits_FindFollowingByStopAreaId_def svs(1) Option.bind.simps
    by (intro exI conjI, rule refl)
      (simp_all only: sort_ByTime_simps sv_overlay_filter [OF assms(2,1) svs(2,3)])
qed

definition example_visit :: "string \<Rightarrow> gotime \<Rightarrow> StopVisit" where
  "example_visit i t = (NewStopVisit NilModel)\<lparr>sv_id := i, sv_StopAreaId := ''a'',
     sv_Schedules := Schedules_SetArrivalTime STOP_VISIT_SCHEDULE_AIMED t []\<rparr>"

definition example_visits :: MemoryStopVisits where
  "example_visits = snd (save_all MemoryStopVisits_Save
     [example_visit ''x'' 9, example_visit ''y'' 4, example_visit ''z'' 7] (fake_gen True, NewMemoryStopVisits))"

definition example_tx_visits :: TransactionalStopVisits where
  "example_tx_visits = snd (snd (TransactionalStopVisits_Save (fake_gen True) (example_visit ''z'' 12)
     (NewTransactionalStopVisits TheModel)))"

lemma example_visit_wf [simp]: "stop_visit_wf (example_visit i t)"
  by (simp add: example_visit_def Schedules_SetArrivalTime_def mwf_def)

lemma example_visits_inv: "stopvisits_inv example_visits" "tx_stopvisits_inv example_tx_visits"
proof -
  show "stopvisits_inv example_visits"
    unfolding example_visits_def
    by (rule mem_stopvisits.save_all_inv [THEN conjunct1]) (simp_all add: ug_ok_fake)
  show "tx_stopvisits_inv example_tx_visits"
    unfolding example_tx_visits_def
    by (rule tx_stopvisits.tinv_tsave [OF tx_stopvisits_inv_new example_visit_wf ug_ok_fake])
      (simp add: prod_eq_iff)
qed

lemma example_visit_simps [simp]:
  "StopVisit_ReferenceTime (example_visit i t) = t" "sv_id (example_visit i t) = i"
  "sv_StopAreaId (example_visit i t) = ''a''"
  by (simp_all add: StopVisit_ReferenceTime_def StopVisit_ReferenceArrivalTime_def
      StopVisit_ReferenceDepartureTime_def SCHEDULE_ORDER_MAP_def Schedules_Schedule_def Let_def
      Schedules_SetArrivalTime_def fresh_Schedule_def mget_or_def zero_Schedule_def schedule_kind_defs
      example_visit_def NewStopVisit_def)

lemma example_visits_table:
  "tsv_saved example_tx_visits = [(''z'', example_visit ''z'' 12)]"
  "mget (msv_byIdentifier example_visits) ''y'' = Some (example_visit ''y'' 4)"
  by (simp_all add: example_tx_visits_def TransactionalStopVisits_Save_def example_visits_def
      NewTransactionalStopVisits_def MemoryStopVisits_Save_eq Let_def NewMemoryStopVisits_def)
    (simp add: example_visit_def NewStopVisit_def)

theorem following_visits_witness:
  "\<exists>svs. TransactionalStopVisits_FindFollowingByStopAreaId 5 example_tx_visits example_visits ''a'' =
     Some svs \<and> example_visit ''z'' 12 \<in> set svs"
proof -
  have "TransactionalStopVisits_Find example_tx_visits example_visits ''z'' = Some (example_visit ''z'' 12)"
    by (simp add: TransactionalStopVisits_Find_def example_visits_table)
  then show ?thesis using following_visits [OF example_visits_inv, of 5 "''a''"] by auto
qed

text \<open>The lookup of the memory manager for several stop areas always releases its read lock once
  too often. When nobody else holds the lock the program dies of a fatal error, whatever areas are asked
  for; when others do, it returns but takes the lock of one of them.\<close>

theorem followings_by_areas_unlock:
  assumes "stopvisits_inv s"
  shows "MemoryStopVisits_FindFollowingByStopAreaIds 0 now s ids = None \<and>
    (\<exists>svs. MemoryStopVisits_FindFollowingByStopAreaIds (Suc readers) now s ids = Some (readers, svs))"
proof -
  let ?m = "msv_byIdentifier s" and ?ids = "concat (map (Index_ids (msv_byStopArea s)) ids)"
  have "fetch (\<lambda>sv. sv) ?m ?ids \<noteq> None"
  proof
    assume "fetch (\<lambda>sv. sv) ?m ?ids = None"
    then obtain i j where i: "i \<in> set (Index_ids (msv_byStopArea s) j)" and none: "mget ?m i = None"
      unfolding fetch_def those_None by (auto simp: map_option_is_None)
    obtain svs where "fetch (\<lambda>sv. sv) ?m (Index_ids (msv_byStopArea s) j) = Some svs"
      using stopvisits_fetch [OF assms stopvisits_inv_parts(2) [OF assms] refl, of j] by blast
    from those_map_Some [OF this [unfolded fetch_def] i] none show False by simp
  qed
  then show ?thesis
    by (auto simp: MemoryStopVisits_FindFollowingByStopAreaIds_def RLock_def RUnlock_def Let_def)
qed

theorem followings_by_areas_unlock_witness:
  "MemoryStopVisits_FindFollowingByStopAreaIds 0 5 example_visits [''a''] = None"
  using followings_by_areas_unlock [OF example_visits_inv(1)] by blast

text \<open>The reference time of a visit is the first known time among the actual, expected and
  aimed arrival, and then the actual, expected and aimed departure; it is zero only when none is
  known.\<close>

theorem reference_time:
  "StopVisit_ReferenceTime sv =
     (case filter (\<lambda>t. t \<noteq> 0)
        (map (\<lambda>k. svs_arrivalTime (Schedules_Schedule (sv_Schedules sv) k)) [''actual'', ''expected'', ''aimed''] @
         map (\<lambda>k. svs_departureTime (Schedules_Schedule (sv_Schedules sv) k)) [''actual'', ''expected'', ''aimed''])
      of [] \<Rightarrow> 0 | t # _ \<Rightarrow> t)"
  by (simp add: StopVisit_ReferenceTime_def StopVisit_ReferenceArrivalTime_def Let_def
      StopVisit_ReferenceDepartureTime_def SCHEDULE_ORDER_MAP_def schedule_kind_defs)

text \<open>A visit deleted in a transaction but not yet committed is left out by the lookup of the
  visits after a given time, and still returned by the other lookups of the overlay.\<close>

theorem deleted_visit_lookups:
  assumes "stopvisits_inv s" and "tx_stopvisits_inv t"
    and "MemoryStopVisits_Find s i = Some sv" and "mget (tsv_saved t) i = None"
  shows "sv \<notin> set (TransactionalStopVisits_FindAllAfter (TransactionalStopVisits_Delete sv t) s time) \<and>
    sv \<in> set (TransactionalStopVisits_FindAll (TransactionalStopVisits_Delete sv t) s) \<and>
    TransactionalStopVisits_Find (TransactionalStopVisits_Delete sv t) s i = Some sv"
proof -
  let ?t = "TransactionalStopVisits_Delete sv t"
  from mem_stopvisits.find_eid [OF assms(1,3)] have i: "sv_id sv = i" by simp
  have inv: "tx_stopvisits_inv ?t" by (rule tx_stopvisits.tinv_tdelete [OF assms(2)])
  have saved: "tsv_saved ?t = tsv_saved t" by (rule tx_stopvisits.tdelete_eq)
  have find: "TransactionalStopVisits_Find ?t s i = Some sv"
    using assms(3,4) saved by (simp add: TransactionalStopVisits_Find_def)
  then have "sv \<in> set (TransactionalStopVisits_FindAll ?t s)"
    using tx_stopvisits.tfind_all_iff [OF inv assms(1), of sv] i by simp
  moreover have "StopVisit_copy e \<noteq> sv" if "e \<in> set (mvals (tsv_saved t))" for e
  proof -
    from assms(2) have "keyed sv_id (tsv_saved t)" "mwf (tsv_saved t)" by (simp_all only: tx_stopvisits_inv_def)
    then have "mget (tsv_saved t) (sv_id e) = Some e" using that by (rule keyed_vals_key)
    with assms(4) i show ?thesis by (auto simp: StopVisit_copy_def)
  qed
  moreover have "mhas (tsv_deleted ?t) (sv_id sv)"
    by (simp add: tx_stopvisits.tdelete_eq mhas_def mget_mput)
  ultimately show ?thesis
    using find unfolding TransactionalStopVisits_FindAllAfter_def saved by fastforce
qed

theorem deleted_visit_lookups_witness:
  "example_visit ''y'' 4 \<in> set (TransactionalStopVisits_FindAll
     (TransactionalStopVisits_Delete (example_visit ''y'' 4) example_tx_visits) example_visits)"
proof -
  have "MemoryStopVisits_Find example_visits ''y'' = Some (example_visit ''y'' 4)"
    by (simp add: mem_stopvisits.find_mget example_visits_inv example_visits_table)
  moreover have "mget (tsv_saved example_tx_visits) ''y'' = None" by (simp add: example_visits_table)
  ultimately show ?thesis using deleted_visit_lookups [OF example_visits_inv] by blast
qed

section \<open>Selectors\<close>

text \<open>A selector may crash: the one by line follows the visit's model pointer.\<close>

type_synonym StopVisitSelector = "StopVisit \<Rightarrow> bool option"

definition StopVisitSelectorByTime :: "gotime \<Rightarrow> gotime \<Rightarrow> StopVisitSelector" where
  "StopVisitSelectorByTime startTime endTime stopVisit =
     Some (\<not> (IsZero (StopVisit_ReferenceTime stopVisit) \<or>
               StopVisit_ReferenceTime stopVisit < startTime \<or>
               StopVisit_ReferenceTime stopVisit > endTime))"

definition StopVisitSelectorAfterTime :: "gotime \<Rightarrow> StopVisitSelector" where
  "StopVisitSelectorAfterTime startTime stopVisit =
     Some (\<not> (IsZero (StopVisit_ReferenceTime stopVisit) \<or>
               StopVisit_ReferenceTime stopVisit < startTime))"

definition StopVisitSelectorBeforeTime :: "gotime \<Rightarrow> StopVisitSelector" where
  "StopVisitSelectorBeforeTime endTime stopVisit =
     Some (\<not> (IsZero (StopVisit_ReferenceTime stopVisit) \<or>
               StopVisit_ReferenceTime stopVisit > endTime))"

definition StopVisitSelectByStopAreaId :: "StopAreaId \<Rightarrow> StopVisitSelector" where
  "StopVisitSelectByStopAreaId stopAreaId stopVisit = Some (sv_StopAreaId stopVisit = stopAreaId)"

definition StopVisitSelectorByLine ::
  "MemoryVehicleJourneys \<Rightarrow> MemoryLines \<Rightarrow> ObjectID \<Rightarrow> StopVisitSelector" where
  "StopVisitSelectorByLine vehicleJourneys lines objectid stopVisit =
     do { vehicleJourney \<leftarrow> StopVisit_VehicleJourney vehicleJourneys stopVisit;
          Some (case vehicleJourney of
                  None \<Rightarrow> False
                | Some vj \<Rightarrow>
                    (case VehicleJourney_Line lines vj of
                       None \<Rightarrow> False
                     | Some line \<Rightarrow>
                         (case Consumer_ObjectID (line_objectids line) (oid_kind objectid) of
                            Some lineObjectid \<Rightarrow> oid_value lineObjectid = oid_value objectid
                          | None \<Rightarrow> False))) }"

fun CompositeStopVisitSelector :: "StopVisitSelector list \<Rightarrow> StopVisitSelector" where
  "CompositeStopVisitSelector [] stopVisit = Some True"
| "CompositeStopVisitSelector (selector # selectors) stopVisit =
     do { ok \<leftarrow> selector stopVisit;
          (if \<not> ok then Some False else CompositeStopVisitSelector selectors stopVisit) }"

lemma Composite_True: "CompositeStopVisitSelector sels sv = Some True \<longleftrightarrow> (\<forall>sel \<in> set sels. sel sv = Some True)"
  by (induction sels) (auto simp: bind_Some_iff)

text \<open>A composite selector accepts a visit exactly when each of its selectors does, whatever
  their order, and a selector after one that rejects is not consulted; selecting between two times is the
  composition of the selectors after the first and before the second, and never accepts a visit without
  reference time.\<close>

theorem composite_selectors:
  "(CompositeStopVisitSelector sels sv = Some True \<longleftrightarrow> list_all (\<lambda>sel. sel sv = Some True) sels) \<and>
   CompositeStopVisitSelector (StopVisitSelectByStopAreaId (sv_StopAreaId sv @ ''x'') # sels) sv = Some False \<and>
   CompositeStopVisitSelector [StopVisitSelectorAfterTime t1, StopVisitSelectorBeforeTime t2] sv =
     StopVisitSelectorByTime t1 t2 sv \<and>
   (StopVisitSelectorByTime t1 t2 sv = Some True \<longleftrightarrow>
     StopVisit_ReferenceTime sv \<noteq> 0 \<and> StopVisit_ReferenceTime sv \<in> {t1..t2})"
  by (auto simp: Composite_True list_all_iff StopVisitSelectByStopAreaId_def StopVisitSelectorAfterTime_def
      StopVisitSelectorBeforeTime_def StopVisitSelectorByTime_def)

end
