(* ===== verification/Situations.thy ===== *)
theory Situations
  imports Stores Values
begin

text \<open>
  Situations: the object and its in-memory manager (\<^verbatim>\<open>model/situation.go\<close>), and the
  transactional overlay (\<^verbatim>\<open>model/transactional_situations.go\<close>). This manager keeps no identifier
  index: it looks an external identifier up by a scan that reads a missing identifier as the
  empty string.
\<close>

section \<open>The object\<close>

type_synonym SituationId = ModelId

record Message =
  msg_Content :: string
  msg_Type :: string
  msg_NumberOfLines :: int
  msg_NumberOfCharPerLine :: int

record Situation =
  st_objectids :: ObjectIDs
  st_model :: model_ref
  st_Origin :: string
  st_id :: SituationId
  st_References :: "Reference list"
  st_LineSections :: "References list"
  st_Messages :: "Message list"
  st_RecordedAt :: stamp
  st_ValidUntil :: gotime
  st_Format :: string
  st_Channel :: string
  st_ProducerRef :: string
  st_Version :: int

definition NewSituation :: "model_ref \<Rightarrow> Situation" where
  "NewSituation model =
     \<lparr>st_objectids = [], st_model = model, st_Origin = '''', st_id = '''', st_References = [],
      st_LineSections = [], st_Messages = [], st_RecordedAt = zero_stamp, st_ValidUntil = 0,
      st_Format = '''', st_Channel = '''', st_ProducerRef = '''', st_Version = 0\<rparr>"

text \<open>A reference without identifier is dereferenced by the comparison: a crash. The reference
  found is \<open>Some\<close>, no match is \<open>Some None\<close>.\<close>

fun find_reference :: "Reference list \<Rightarrow> ObjectID \<Rightarrow> Reference option option" where
  "find_reference [] obj = Some None"
| "find_reference (ref # refs) obj =
     do { objectId \<leftarrow> ref_ObjectId ref;
          (if ObjectID_String objectId = ObjectID_String obj then Some (Some ref)
           else find_reference refs obj) }"

definition Situation_FindReferenceByObjectId :: "Situation \<Rightarrow> ObjectID \<Rightarrow> Reference option option" where
  "Situation_FindReferenceByObjectId situation obj = find_reference (st_References situation) obj"

definition Situation_SetObjectID :: "ObjectID \<Rightarrow> Situation \<Rightarrow> Situation" where
  "Situation_SetObjectID objectid situation =
     situation\<lparr>st_objectids := Consumer_SetObjectID objectid (st_objectids situation)\<rparr>"

definition situation_wf :: "Situation \<Rightarrow> bool" where
  "situation_wf st \<longleftrightarrow> oids_wf (st_objectids st)"

lemma situation_wf_new [simp, wf_intros]: "situation_wf (NewSituation m)"
  by (simp add: situation_wf_def NewSituation_def)

lemma situation_wf_ops [simp, wf_intros]:
  "situation_wf st \<Longrightarrow> situation_wf (Situation_SetObjectID x st)"
  "situation_wf (st\<lparr>st_id := i\<rparr>) \<longleftrightarrow> situation_wf st"
  "situation_wf (st\<lparr>st_model := m\<rparr>) \<longleftrightarrow> situation_wf st"
  "situation_wf (st\<lparr>st_Origin := s\<rparr>) \<longleftrightarrow> situation_wf st"
  "situation_wf (st\<lparr>st_References := rs\<rparr>) \<longleftrightarrow> situation_wf st"
  "situation_wf (st\<lparr>st_LineSections := rss\<rparr>) \<longleftrightarrow> situation_wf st"
  "situation_wf (st\<lparr>st_Messages := ms\<rparr>) \<longleftrightarrow> situation_wf st"
  "situation_wf (st\<lparr>st_RecordedAt := stamp\<rparr>) \<longleftrightarrow> situation_wf st"
  "situation_wf (st\<lparr>st_ValidUntil := t\<rparr>) \<longleftrightarrow> situation_wf st"
  "situation_wf (st\<lparr>st_Format := s\<rparr>) \<longleftrightarrow> situation_wf st"
  "situation_wf (st\<lparr>st_Channel := s\<rparr>) \<longleftrightarrow> situation_wf st"
  "situation_wf (st\<lparr>st_ProducerRef := s\<rparr>) \<longleftrightarrow> situation_wf st"
  "situation_wf (st\<lparr>st_Version := n\<rparr>) \<longleftrightarrow> situation_wf st"
  by (simp_all add: situation_wf_def Situation_SetObjectID_def)

section \<open>The in-memory manager\<close>

record MemorySituations =
  mst_model :: model_ref
  mst_broadcastEvent :: "GeneralMessageBroadcastEvent list option"
  mst_byIdentifier :: "(SituationId, Situation) gomap"

definition NewMemorySituations :: MemorySituations where
  "NewMemorySituations = \<lparr>mst_model = NilModel, mst_broadcastEvent = None, mst_byIdentifier = []\<rparr>"

definition MemorySituations_New :: "MemorySituations \<Rightarrow> Situation" where
  "MemorySituations_New manager = NewSituation (mst_model manager)"

definition MemorySituations_Find :: "MemorySituations \<Rightarrow> SituationId \<Rightarrow> Situation option" where
  "MemorySituations_Find manager i = mget (mst_byIdentifier manager) i"

definition MemorySituations_FindAll :: "MemorySituations \<Rightarrow> Situation list" where
  "MemorySituations_FindAll manager =
     (if length (mst_byIdentifier manager) = 0 then [] else mvals (mst_byIdentifier manager))"

definition MemorySituations_FindByObjectId :: "MemorySituations \<Rightarrow> ObjectID \<Rightarrow> Situation option" where
  "MemorySituations_FindByObjectId manager objectid =
     first_some (\<lambda>situation. oid_value (Consumer_ObjectID_or_zero (st_objectids situation)
                    (oid_kind objectid)) = oid_value objectid)
       (mvals (mst_byIdentifier manager))"

definition MemorySituations_Save ::
  "uuid_gen \<Rightarrow> Situation \<Rightarrow> MemorySituations \<Rightarrow> uuid_gen \<times> Situation \<times> MemorySituations" where
  "MemorySituations_Save g situation manager =
     (let (g1, situation1) = (if st_id situation = ''''
                              then (let (u, g') = NewUUID g in (g', situation\<lparr>st_id := u\<rparr>))
                              else (g, situation));
          situation2 = situation1\<lparr>st_model := mst_model manager\<rparr>;
          event = \<lparr>gme_SituationId = st_id situation2\<rparr>
      in (g1, situation2,
          manager\<lparr>mst_byIdentifier := mput (st_id situation2) situation2 (mst_byIdentifier manager),
                  mst_broadcastEvent := map_option (\<lambda>log. log @ [event]) (mst_broadcastEvent manager)\<rparr>))"

definition MemorySituations_Delete :: "Situation \<Rightarrow> MemorySituations \<Rightarrow> MemorySituations" where
  "MemorySituations_Delete situation manager =
     manager\<lparr>mst_byIdentifier := mdel (st_id situation) (mst_byIdentifier manager)\<rparr>"

lemma MemorySituations_Save_eq:
  "MemorySituations_Save g st s =
     (let st2 = (if st_id st = [] then st\<lparr>st_id := fst (NewUUID g)\<rparr> else st)\<lparr>st_model := mst_model s\<rparr>
      in ((if st_id st = [] then snd (NewUUID g) else g), st2,
          s\<lparr>mst_byIdentifier := mput (st_id st2) st2 (mst_byIdentifier s),
            mst_broadcastEvent := map_option (\<lambda>log. log @ [\<lparr>gme_SituationId = st_id st2\<rparr>])
              (mst_broadcastEvent s)\<rparr>))"
  by (simp add: MemorySituations_Save_def Let_def split: prod.split)

section \<open>The manager keeps the contract\<close>

definition situations_inv :: "MemorySituations \<Rightarrow> bool" where
  "situations_inv s \<longleftrightarrow> mwf (mst_byIdentifier s) \<and> keyed st_id (mst_byIdentifier s) \<and>
     vals_ok (\<lambda>e. situation_wf e \<and> st_id e \<noteq> []) (mst_byIdentifier s)"

lemma situations_inv_new [simp]:
  "situations_inv NewMemorySituations"
  "situations_inv (NewMemorySituations\<lparr>mst_model := r\<rparr>)"
  "situations_inv (s\<lparr>mst_broadcastEvent := b\<rparr>) \<longleftrightarrow> situations_inv s"
  by (simp_all add: situations_inv_def NewMemorySituations_def)

lemma MemorySituations_Save_inv:
  assumes "situations_inv s" and "situation_wf e" and "ug_ok g" and "MemorySituations_Save g e s = (g', e', s')"
  shows "situations_inv s'"
proof -
  from assms(2-4) have "situation_wf e'" "st_id e' \<noteq> []"
    by (auto simp: MemorySituations_Save_eq Let_def situation_wf_def split: if_splits)
  with assms(1,4) show ?thesis
    by (auto simp: situations_inv_def MemorySituations_Save_eq Let_def split: if_splits)
qed

lemma MemorySituations_Delete_inv: "situations_inv s \<Longrightarrow> situations_inv (MemorySituations_Delete e s)"
  by (simp add: situations_inv_def MemorySituations_Delete_def)

interpretation mem_situations: table_store MemorySituations_Find MemorySituations_FindAll MemorySituations_Save
  MemorySituations_Delete st_id "\<lambda>s e. e\<lparr>st_model := mst_model s\<rparr>" situation_wf situations_inv
  mst_byIdentifier "\<lambda>e. e" "\<lambda>i e. e\<lparr>st_id := i\<rparr>" 
proof (unfold_locales, goal_cases)
  case (1 s)
  then show ?case by (simp only: situations_inv_def)
next
  case (2 s e g g' e' s')
  then show ?case by (rule MemorySituations_Save_inv)
next
  case (3 s e)
  then show ?case by (rule MemorySituations_Delete_inv)
next
  case (4 e)
  then show ?case by simp
next
  case (5 s i)
  then show ?case by (simp add: MemorySituations_Find_def option.map_ident)
next
  case (6 s)
  show ?case by (simp add: MemorySituations_FindAll_def)
next
  case (7 g e s g' e' s')
  then show ?case by (auto simp: MemorySituations_Save_eq Let_def)
next
qed (simp_all add: MemorySituations_Delete_def situation_wf_def)

section \<open>The transactional overlay\<close>

record TransactionalSituations =
  tst_model :: model_ref
  tst_saved :: "(SituationId, Situation) gomap"
  tst_deleted :: "(SituationId, Situation) gomap"

definition TransactionalSituations_resetCaches :: "TransactionalSituations \<Rightarrow> TransactionalSituations" where
  "TransactionalSituations_resetCaches manager = manager\<lparr>tst_saved := [], tst_deleted := []\<rparr>"

definition NewTransactionalSituations :: "model_ref \<Rightarrow> TransactionalSituations" where
  "NewTransactionalSituations model = \<lparr>tst_model = model, tst_saved = [], tst_deleted = []\<rparr>"

definition TransactionalSituations_New :: "TransactionalSituations \<Rightarrow> Situation" where
  "TransactionalSituations_New manager = NewSituation (tst_model manager)"

definition TransactionalSituations_Find ::
  "TransactionalSituations \<Rightarrow> MemorySituations \<Rightarrow> SituationId \<Rightarrow> Situation option" where
  "TransactionalSituations_Find manager parent i =
     (case mget (tst_saved manager) i of
        Some situation \<Rightarrow> Some situation
      | None \<Rightarrow> MemorySituations_Find parent i)"

text \<open>The loop over the saved objects reads a missing identifier as the zero value.\<close>

definition TransactionalSituations_FindByObjectId ::
  "TransactionalSituations \<Rightarrow> MemorySituations \<Rightarrow> ObjectID \<Rightarrow> Situation option" where
  "TransactionalSituations_FindByObjectId manager parent objectid =
     (case first_some (\<lambda>situation. oid_value (Consumer_ObjectID_or_zero (st_objectids situation)
                                (oid_kind objectid)) = oid_value objectid)
             (mvals (tst_saved manager)) of
        Some situation \<Rightarrow> Some situation
      | None \<Rightarrow> MemorySituations_FindByObjectId parent objectid)"

definition TransactionalSituations_FindAll :: "TransactionalSituations \<Rightarrow> MemorySituations \<Rightarrow> Situation list" where
  "TransactionalSituations_FindAll manager parent =
     mvals (tst_saved manager) @
     filter (\<lambda>situation. \<not> mhas (tst_saved manager) (st_id situation)) (MemorySituations_FindAll parent)"

definition TransactionalSituations_Save ::
  "uuid_gen \<Rightarrow> Situation \<Rightarrow> TransactionalSituations \<Rightarrow> uuid_gen \<times> Situation \<times> TransactionalSituations" where
  "TransactionalSituations_Save g situation manager =
     (let (g1, situation1) = (if st_id situation = ''''
                         then (let (u, g') = NewUUID g in (g', situation\<lparr>st_id := u\<rparr>))
                         else (g, situation))
      in (g1, situation1,
          manager\<lparr>tst_saved := mput (st_id situation1) situation1 (tst_saved manager)\<rparr>))"

definition TransactionalSituations_Delete :: "Situation \<Rightarrow> TransactionalSituations \<Rightarrow> TransactionalSituations" where
  "TransactionalSituations_Delete situation manager =
     manager\<lparr>tst_deleted := mput (st_id situation) situation (tst_deleted manager)\<rparr>"

definition TransactionalSituations_Commit ::
  "uuid_gen \<Rightarrow> TransactionalSituations \<Rightarrow> MemorySituations \<Rightarrow> uuid_gen \<times> MemorySituations" where
  "TransactionalSituations_Commit g manager parent =
     save_all MemorySituations_Save (mvals (tst_saved manager))
       (g, fold MemorySituations_Delete (mvals (tst_deleted manager)) parent)"

definition TransactionalSituations_Rollback :: "TransactionalSituations \<Rightarrow> TransactionalSituations" where
  "TransactionalSituations_Rollback manager = TransactionalSituations_resetCaches manager"

definition tx_situations_inv :: "TransactionalSituations \<Rightarrow> bool" where
  "tx_situations_inv t \<longleftrightarrow> mwf (tst_saved t) \<and> keyed st_id (tst_saved t) \<and>
     vals_ok (\<lambda>e. situation_wf e \<and> st_id e \<noteq> []) (tst_saved t) \<and>
     mwf (tst_deleted t) \<and> keyed st_id (tst_deleted t)"

lemma tx_situations_inv_new [simp]: "tx_situations_inv (NewTransactionalSituations r)"
  by (simp add: tx_situations_inv_def NewTransactionalSituations_def)

interpretation tx_situations: transactional_store MemorySituations_Find MemorySituations_FindAll MemorySituations_Save
  MemorySituations_Delete st_id "\<lambda>s e. e\<lparr>st_model := mst_model s\<rparr>" situation_wf situations_inv
  tst_saved tst_deleted TransactionalSituations_Find TransactionalSituations_FindAll TransactionalSituations_Save
  TransactionalSituations_Delete TransactionalSituations_Commit TransactionalSituations_Rollback tx_situations_inv
proof (unfold_locales, goal_cases)
  case (1 t)
  then show ?case by (simp add: tx_situations_inv_def)
next
  case (2 t s i)
  then show ?case by (simp add: TransactionalSituations_Find_def split: option.split)
next
  case (3 t s)
  then show ?case by (simp add: TransactionalSituations_FindAll_def)
next
  case (4 e g t g' e' t')
  then show ?case by (auto simp: TransactionalSituations_Save_def)
next
  case (5 e g t g' e' t')
  then show ?case by (auto simp: TransactionalSituations_Save_def Let_def split: prod.splits)
qed (simp_all add: TransactionalSituations_Delete_def TransactionalSituations_Commit_def
      TransactionalSituations_Rollback_def TransactionalSituations_resetCaches_def)

end
