(* ===== verification/Operators.thy ===== *)
theory Operators
  imports Stores Values
begin

text \<open>
  Operators: the object and its in-memory manager (\<^verbatim>\<open>model/operator.go\<close>), and the transactional
  overlay (\<^verbatim>\<open>model/transactional_operators.go\<close>). As for situations, an external identifier is
  looked up by a scan that reads a missing identifier as the empty string.
\<close>

section \<open>The object\<close>

type_synonym OperatorId = ModelId

record Operator =
  opr_objectids :: ObjectIDs
  opr_model :: model_ref
  opr_id :: OperatorId
  opr_Name :: string

definition NewOperator :: "model_ref \<Rightarrow> Operator" where
  "NewOperator model = \<lparr>opr_objectids = [], opr_model = model, opr_id = '''', opr_Name = ''''\<rparr>"

definition Operator_SetObjectID :: "ObjectID \<Rightarrow> Operator \<Rightarrow> Operator" where
  "Operator_SetObjectID objectid operator =
     operator\<lparr>opr_objectids := Consumer_SetObjectID objectid (opr_objectids operator)\<rparr>"

definition operator_wf :: "Operator \<Rightarrow> bool" where
  "operator_wf operator \<longleftrightarrow> oids_wf (opr_objectids operator)"

lemma operator_wf_ops [simp, wf_intros]:
  "operator_wf (NewOperator m)"
  "operator_wf opr \<Longrightarrow> operator_wf (Operator_SetObjectID x opr)"
  "operator_wf (opr\<lparr>opr_id := i\<rparr>) \<longleftrightarrow> operator_wf opr"
  "operator_wf (opr\<lparr>opr_model := m\<rparr>) \<longleftrightarrow> operator_wf opr"
  "operator_wf (opr\<lparr>opr_Name := s\<rparr>) \<longleftrightarrow> operator_wf opr"
  by (simp_all add: operator_wf_def Operator_SetObjectID_def NewOperator_def)

section \<open>The in-memory manager\<close>

record MemoryOperators =
  mop_model :: model_ref
  mop_byIdentifier :: "(OperatorId, Operator) gomap"

definition NewMemoryOperators :: MemoryOperators where
  "NewMemoryOperators = \<lparr>mop_model = NilModel, mop_byIdentifier = []\<rparr>"

definition MemoryOperators_New :: "MemoryOperators \<Rightarrow> Operator" where
  "MemoryOperators_New manager = NewOperator (mop_model manager)"

definition MemoryOperators_Find :: "MemoryOperators \<Rightarrow> OperatorId \<Rightarrow> Operator option" where
  "MemoryOperators_Find manager i = mget (mop_byIdentifier manager) i"

definition MemoryOperators_FindAll :: "MemoryOperators \<Rightarrow> Operator list" where
  "MemoryOperators_FindAll manager =
     (if length (mop_byIdentifier manager) = 0 then [] else mvals (mop_byIdentifier manager))"

definition MemoryOperators_FindByObjectId :: "MemoryOperators \<Rightarrow> ObjectID \<Rightarrow> Operator option" where
  "MemoryOperators_FindByObjectId manager objectid =
     first_some (\<lambda>operator. oid_value (Consumer_ObjectID_or_zero (opr_objectids operator)
                    (oid_kind objectid)) = oid_value objectid)
       (mvals (mop_byIdentifier manager))"

definition MemoryOperators_Save ::
  "uuid_gen \<Rightarrow> Operator \<Rightarrow> MemoryOperators \<Rightarrow> uuid_gen \<times> Operator \<times> MemoryOperators" where
  "MemoryOperators_Save g operator manager =
     (let (g1, operator1) = (if opr_id operator = ''''
                             then (let (u, g') = NewUUID g in (g', operator\<lparr>opr_id := u\<rparr>))
                             else (g, operator));
          operator2 = operator1\<lparr>opr_model := mop_model manager\<rparr>
      in (g1, operator2,
          manager\<lparr>mop_byIdentifier := mput (opr_id operator2) operator2 (mop_byIdentifier manager)\<rparr>))"

definition MemoryOperators_Delete :: "Operator \<Rightarrow> MemoryOperators \<Rightarrow> MemoryOperators" where
  "MemoryOperators_Delete operator manager =
     manager\<lparr>mop_byIdentifier := mdel (opr_id operator) (mop_byIdentifier manager)\<rparr>"

lemma MemoryOperators_Save_eq:
  "MemoryOperators_Save g opr s =
     (let opr2 = (if opr_id opr = [] then opr\<lparr>opr_id := fst (NewUUID g)\<rparr> else opr)\<lparr>opr_model := mop_model s\<rparr>
      in ((if opr_id opr = [] then snd (NewUUID g) else g), opr2,
          s\<lparr>mop_byIdentifier := mput (opr_id opr2) opr2 (mop_byIdentifier s)\<rparr>))"
  by (simp add: MemoryOperators_Save_def Let_def split: prod.split)

section \<open>The manager keeps the contract\<close>

definition operators_inv :: "MemoryOperators \<Rightarrow> bool" where
  "operators_inv s \<longleftrightarrow> mwf (mop_byIdentifier s) \<and> keyed opr_id (mop_byIdentifier s) \<and>
     vals_ok (\<lambda>e. operator_wf e \<and> opr_id e \<noteq> []) (mop_byIdentifier s)"

lemma operators_inv_new [simp]:
  "operators_inv NewMemoryOperators"
  "operators_inv (NewMemoryOperators\<lparr>mop_model := r\<rparr>)"
  by (simp_all add: operators_inv_def NewMemoryOperators_def)

lemma MemoryOperators_Save_inv:
  assumes "operators_inv s" and "operator_wf e" and "ug_ok g" and "MemoryOperators_Save g e s = (g', e', s')"
  shows "operators_inv s'"
proof -
  from assms(2-4) have "operator_wf e'" "opr_id e' \<noteq> []"
    by (auto simp: MemoryOperators_Save_eq Let_def operator_wf_def split: if_splits)
  with assms(1,4) show ?thesis
    by (auto simp: operators_inv_def MemoryOperators_Save_eq Let_def split: if_splits)
qed

lemma MemoryOperators_Delete_inv: "operators_inv s \<Longrightarrow> operators_inv (MemoryOperators_Delete e s)"
  by (simp add: operators_inv_def MemoryOperators_Delete_def)

interpretation mem_operators: table_store MemoryOperators_Find MemoryOperators_FindAll MemoryOperators_Save
  MemoryOperators_Delete opr_id "\<lambda>s e. e\<lparr>opr_model := mop_model s\<rparr>" operator_wf operators_inv
  mop_byIdentifier "\<lambda>e. e" "\<lambda>i e. e\<lparr>opr_id := i\<rparr>" 
proof (unfold_locales, goal_cases)
  case (1 s)
  then show ?case by (simp only: operators_inv_def)
next
  case (2 s e g g' e' s')
  then show ?case by (rule MemoryOperators_Save_inv)
next
  case (3 s e)
  then show ?case by (rule MemoryOperators_Delete_inv)
next
  case (4 e)
  then show ?case by simp
next
  case (5 s i)
  then show ?case by (simp add: MemoryOperators_Find_def option.map_ident)
next
  case (6 s)
  show ?case by (simp add: MemoryOperators_FindAll_def)
next
  case (7 g e s g' e' s')
  then show ?case by (auto simp: MemoryOperators_Save_eq Let_def)
next
qed (simp_all add: MemoryOperators_Delete_def operator_wf_def)

section \<open>The transactional overlay\<close>

record TransactionalOperators =
  top_model :: model_ref
  top_saved :: "(OperatorId, Operator) gomap"
  top_deleted :: "(OperatorId, Operator) gomap"

definition TransactionalOperators_resetCaches :: "TransactionalOperators \<Rightarrow> TransactionalOperators" where
  "TransactionalOperators_resetCaches manager = manager\<lparr>top_saved := [], top_deleted := []\<rparr>"

definition NewTransactionalOperators :: "model_ref \<Rightarrow> TransactionalOperators" where
  "NewTransactionalOperators model = \<lparr>top_model = model, top_saved = [], top_deleted = []\<rparr>"

definition TransactionalOperators_New :: "TransactionalOperators \<Rightarrow> Operator" where
  "TransactionalOperators_New manager = NewOperator (top_model manager)"

definition TransactionalOperators_Find ::
  "TransactionalOperators \<Rightarrow> MemoryOperators \<Rightarrow> OperatorId \<Rightarrow> Operator option" where
  "TransactionalOperators_Find manager parent i =
     (case mget (top_saved manager) i of
        Some operator \<Rightarrow> Some operator
      | None \<Rightarrow> MemoryOperators_Find parent i)"

text \<open>The loop over the saved objects reads a missing identifier as the zero value.\<close>

definition TransactionalOperators_FindByObjectId ::
  "TransactionalOperators \<Rightarrow> MemoryOperators \<Rightarrow> ObjectID \<Rightarrow> Operator option" where
  "TransactionalOperators_FindByObjectId manager parent objectid =
     (case first_some (\<lambda>operator. oid_value (Consumer_ObjectID_or_zero (opr_objectids operator)
                                (oid_kind objectid)) = oid_value objectid)
             (mvals (top_saved manager)) of
        Some operator \<Rightarrow> Some operator
      | None \<Rightarrow> MemoryOperators_FindByObjectId parent objectid)"

definition TransactionalOperators_FindAll :: "TransactionalOperators \<Rightarrow> MemoryOperators \<Rightarrow> Operator list" where
  "TransactionalOperators_FindAll manager parent =
     mvals (top_saved manager) @
     filter (\<lambda>operator. \<not> mhas (top_saved manager) (opr_id operator)) (MemoryOperators_FindAll parent)"

definition TransactionalOperators_Save ::
  "uuid_gen \<Rightarrow> Operator \<Rightarrow> TransactionalOperators \<Rightarrow> uuid_gen \<times> Operator \<times> TransactionalOperators" where
  "TransactionalOperators_Save g operator manager =
     (let (g1, operator1) = (if opr_id operator = ''''
                         then (let (u, g') = NewUUID g in (g', operator\<lparr>opr_id := u\<rparr>))
                         else (g, operator))
      in (g1, operator1,
          manager\<lparr>top_saved := mput (opr_id operator1) operator1 (top_saved manager)\<rparr>))"

definition TransactionalOperators_Delete :: "Operator \<Rightarrow> TransactionalOperators \<Rightarrow> TransactionalOperators" where
  "TransactionalOperators_Delete operator manager =
     manager\<lparr>top_deleted := mput (opr_id operator) operator (top_deleted manager)\<rparr>"

definition TransactionalOperators_Commit ::
  "uuid_gen \<Rightarrow> TransactionalOperators \<Rightarrow> MemoryOperators \<Rightarrow> uuid_gen \<times> MemoryOperators" where
  "TransactionalOperators_Commit g manager parent =
     save_all MemoryOperators_Save (mvals (top_saved manager))
       (g, fold MemoryOperators_Delete (mvals (top_deleted manager)) parent)"

definition TransactionalOperators_Rollback :: "TransactionalOperators \<Rightarrow> TransactionalOperators" where
  "TransactionalOperators_Rollback manager = TransactionalOperators_resetCaches manager"

definition tx_operators_inv :: "TransactionalOperators \<Rightarrow> bool" where
  "tx_operators_inv t \<longleftrightarrow> mwf (top_saved t) \<and> keyed opr_id (top_saved t) \<and>
     vals_ok (\<lambda>e. operator_wf e \<and> opr_id e \<noteq> []) (top_saved t) \<and>
     mwf (top_deleted t) \<and> keyed opr_id (top_deleted t)"

lemma tx_operators_inv_new [simp]: "tx_operators_inv (NewTransactionalOperators r)"
  by (simp add: tx_operators_inv_def NewTransactionalOperators_def)

interpretation tx_operators: transactional_store MemoryOperators_Find MemoryOperators_FindAll MemoryOperators_Save
  MemoryOperators_Delete opr_id "\<lambda>s e. e\<lparr>opr_model := mop_model s\<rparr>" operator_wf operators_inv
  top_saved top_deleted TransactionalOperators_Find TransactionalOperators_FindAll TransactionalOperators_Save
  TransactionalOperators_Delete TransactionalOperators_Commit TransactionalOperators_Rollback tx_operators_inv
proof (unfold_locales, goal_cases)
  case (1 t)
  then show ?case by (simp add: tx_operators_inv_def)
next
  case (2 t s i)
  then show ?case by (simp add: TransactionalOperators_Find_def split: option.split)
next
  case (3 t s)
  then show ?case by (simp add: TransactionalOperators_FindAll_def)
next
  case (4 e g t g' e' t')
  then show ?case by (auto simp: TransactionalOperators_Save_def)
next
  case (5 e g t g' e' t')
  then show ?case by (auto simp: TransactionalOperators_Save_def Let_def split: prod.splits)
qed (simp_all add: TransactionalOperators_Delete_def TransactionalOperators_Commit_def
      TransactionalOperators_Rollback_def TransactionalOperators_resetCaches_def)

section \<open>Looking up an external identifier by a scan\<close>

text \<open>What the scan takes for a match: the identifier itself, or no identifier of that kind when an
  empty value is looked up.\<close>

definition scan_match :: "ObjectIDs \<Rightarrow> ObjectID \<Rightarrow> bool" where
  "scan_match os x \<longleftrightarrow>
     mget os (oid_kind x) = Some x \<or> mget os (oid_kind x) = None \<and> oid_value x = ''''"

lemma scan_value:
  assumes "oids_wf os"
  shows "oid_value (Consumer_ObjectID_or_zero os (oid_kind x)) = oid_value x \<longleftrightarrow> scan_match os x"
proof (cases "mget os (oid_kind x)")
  case None
  then show ?thesis
    by (auto simp: scan_match_def Consumer_ObjectID_or_zero_def Consumer_ObjectID_def zero_ObjectID_def)
next
  case (Some y)
  from assms have "keyed oid_kind os" by (simp only: oids_wf_def)
  then have "oid_kind y = oid_kind x" using Some by (rule keyed_mget)
  with Some show ?thesis
    by (auto simp: scan_match_def Consumer_ObjectID_or_zero_def Consumer_ObjectID_def)
qed

text \<open>Looking an operator up by external identifier returns a stored operator that has that
  identifier, and fails only when there is none; but an identifier with an empty value is also found on
  any operator that has no identifier of that kind.\<close>

theorem operator_by_objectid:
  assumes "operators_inv s"
  shows "case MemoryOperators_FindByObjectId s x of
     Some opr \<Rightarrow> MemoryOperators_Find s (opr_id opr) = Some opr \<and> scan_match (opr_objectids opr) x
   | None \<Rightarrow> \<not> (\<exists>opr. MemoryOperators_Find s (opr_id opr) = Some opr \<and> scan_match (opr_objectids opr) x)"
proof -
  let ?vals = "mvals (mop_byIdentifier s)"
  have stored: "opr \<in> set ?vals \<longleftrightarrow> MemoryOperators_Find s (opr_id opr) = Some opr" for opr
    unfolding MemoryOperators_Find_def
    by (rule keyed_vals_iff) (use assms in \<open>simp_all only: operators_inv_def\<close>)
  have matches: "oid_value (Consumer_ObjectID_or_zero (opr_objectids opr) (oid_kind x)) = oid_value x \<longleftrightarrow>
      scan_match (opr_objectids opr) x" if "opr \<in> set ?vals" for opr
    using that mem_operators.find_ewf [OF assms] scan_value
    unfolding stored operator_wf_def by blast
  show ?thesis
  proof (cases "MemoryOperators_FindByObjectId s x")
    case None
    from None [unfolded MemoryOperators_FindByObjectId_def first_some_None] matches
    show ?thesis unfolding None option.case stored [symmetric] by blast
  next
    case (Some opr)
    from first_some_Some [OF Some [unfolded MemoryOperators_FindByObjectId_def]] matches
    show ?thesis unfolding Some option.case stored [symmetric] by blast
  qed
qed

theorem operator_by_objectid_witness:
  "scan_match [] \<lparr>oid_kind = ''k'', oid_value = ''''\<rparr>"
proof -
  let ?s = "NewMemoryOperators\<lparr>mop_byIdentifier := [(''a'', (NewOperator NilModel)\<lparr>opr_id := ''a''\<rparr>)]\<rparr>"
  have "operators_inv ?s"
    by (simp add: operators_inv_def NewMemoryOperators_def mwf_def)
  moreover have "MemoryOperators_FindByObjectId ?s \<lparr>oid_kind = ''k'', oid_value = ''''\<rparr> =
      Some ((NewOperator NilModel)\<lparr>opr_id := ''a''\<rparr>)"
    by (simp add: MemoryOperators_FindByObjectId_def NewMemoryOperators_def NewOperator_def
        Consumer_ObjectID_or_zero_def Consumer_ObjectID_def zero_ObjectID_def)
  ultimately show ?thesis
    using operator_by_objectid [of ?s "\<lparr>oid_kind = ''k'', oid_value = ''''\<rparr>"]
    by (simp add: NewOperator_def)
qed

end
