(* ===== verification/Vehicles.thy ===== *)
theory Vehicles
  imports VehicleJourneys
begin

text \<open>
  Vehicles: the object and its in-memory manager (\<^verbatim>\<open>model/vehicles.go\<close>), and the transactional
  overlay (\<^verbatim>\<open>model/transactional_vehicles.go\<close>). The audit message that \<^verbatim>\<open>Save\<close> publishes for a
  new or changed vehicle is left out, and with it the reflective comparison
  \<^verbatim>\<open>Equal\<close> (\<^verbatim>\<open>model/diff.go\<close>) that decides on it.
\<close>

section \<open>The object\<close>

type_synonym VehicleId = ModelId

record Vehicle =
  veh_objectids :: ObjectIDs
  veh_model :: model_ref
  veh_id :: VehicleId
  veh_LineId :: LineId
  veh_VehicleJourneyId :: VehicleJourneyId
  veh_Longitude :: float64
  veh_Latitude :: float64
  veh_Bearing :: float64
  veh_RecordedAtTime :: gotime

definition NewVehicle :: "model_ref \<Rightarrow> Vehicle" where
  "NewVehicle model =
     \<lparr>veh_objectids = [], veh_model = model, veh_id = '''', veh_LineId = '''',
      veh_VehicleJourneyId = '''', veh_Longitude = 0, veh_Latitude = 0, veh_Bearing = 0,
      veh_RecordedAtTime = 0\<rparr>"

definition Vehicle_SetObjectID :: "ObjectID \<Rightarrow> Vehicle \<Rightarrow> Vehicle" where
  "Vehicle_SetObjectID objectid vehicle =
     vehicle\<lparr>veh_objectids := Consumer_SetObjectID objectid (veh_objectids vehicle)\<rparr>"

definition Vehicle_VehicleJourney ::
  "MemoryVehicleJourneys \<Rightarrow> Vehicle \<Rightarrow> VehicleJourney option option" where
  "Vehicle_VehicleJourney vehicleJourneys vehicle =
     (case veh_model vehicle of
        NilModel \<Rightarrow> None
      | TheModel \<Rightarrow> Some (MemoryVehicleJourneys_Find vehicleJourneys (veh_VehicleJourneyId vehicle)))"

definition vehicle_wf :: "Vehicle \<Rightarrow> bool" where
  "vehicle_wf vehicle \<longleftrightarrow> oids_wf (veh_objectids vehicle)"

lemma vehicle_wf_ops [simp, wf_intros]:
  "vehicle_wf (NewVehicle m)"
  "vehicle_wf v \<Longrightarrow> vehicle_wf (Vehicle_SetObjectID x v)"
  "vehicle_wf (v\<lparr>veh_id := i\<rparr>) \<longleftrightarrow> vehicle_wf v"
  "vehicle_wf (v\<lparr>veh_model := m\<rparr>) \<longleftrightarrow> vehicle_wf v"
  "vehicle_wf (v\<lparr>veh_LineId := s\<rparr>) \<longleftrightarrow> vehicle_wf v"
  "vehicle_wf (v\<lparr>veh_VehicleJourneyId := s\<rparr>) \<longleftrightarrow> vehicle_wf v"
  "vehicle_wf (v\<lparr>veh_Longitude := lon\<rparr>) \<longleftrightarrow> vehicle_wf v"
  "vehicle_wf (v\<lparr>veh_Latitude := lat\<rparr>) \<longleftrightarrow> vehicle_wf v"
  "vehicle_wf (v\<lparr>veh_Bearing := brg\<rparr>) \<longleftrightarrow> vehicle_wf v"
  "vehicle_wf (v\<lparr>veh_RecordedAtTime := t\<rparr>) \<longleftrightarrow> vehicle_wf v"
  by (simp_all add: vehicle_wf_def Vehicle_SetObjectID_def NewVehicle_def)

section \<open>The in-memory manager\<close>

record MemoryVehicles =
  mve_model :: model_ref
  mve_byIdentifier :: "(VehicleId, Vehicle) gomap"
  mve_byObjectId :: ObjectIdIndex

definition NewMemoryVehicles :: MemoryVehicles where
  "NewMemoryVehicles = \<lparr>mve_model = NilModel, mve_byIdentifier = [], mve_byObjectId = NewObjectIdIndex\<rparr>"

definition MemoryVehicles_New :: "MemoryVehicles \<Rightarrow> Vehicle" where
  "MemoryVehicles_New manager = NewVehicle (mve_model manager)"

definition MemoryVehicles_Find :: "MemoryVehicles \<Rightarrow> VehicleId \<Rightarrow> Vehicle option" where
  "MemoryVehicles_Find manager i =
     (if i = '''' then None else mget (mve_byIdentifier manager) i)"

definition MemoryVehicles_FindByObjectId :: "MemoryVehicles \<Rightarrow> ObjectID \<Rightarrow> Vehicle option option" where
  "MemoryVehicles_FindByObjectId manager objectid =
     (case ObjectIdIndex_Find (mve_byObjectId manager) objectid of
        Some i \<Rightarrow>
          (case mget (mve_byIdentifier manager) i of
             None \<Rightarrow> None
           | Some vehicle \<Rightarrow> Some (Some vehicle))
      | None \<Rightarrow> Some None)"

definition MemoryVehicles_FindByLineId :: "MemoryVehicles \<Rightarrow> LineId \<Rightarrow> Vehicle list" where
  "MemoryVehicles_FindByLineId manager i =
     filter (\<lambda>vehicle. veh_LineId vehicle = i) (mvals (mve_byIdentifier manager))"

definition MemoryVehicles_FindAll :: "MemoryVehicles \<Rightarrow> Vehicle list" where
  "MemoryVehicles_FindAll manager =
     (if length (mve_byIdentifier manager) = 0 then [] else mvals (mve_byIdentifier manager))"

definition MemoryVehicles_Save ::
  "uuid_gen \<Rightarrow> Vehicle \<Rightarrow> MemoryVehicles \<Rightarrow> uuid_gen \<times> Vehicle \<times> MemoryVehicles" where
  "MemoryVehicles_Save g vehicle manager =
     (let (g1, vehicle1) = (if veh_id vehicle = ''''
                            then (let (u, g') = NewUUID g in (g', vehicle\<lparr>veh_id := u\<rparr>))
                            else (g, vehicle));
          vehicle2 = vehicle1\<lparr>veh_model := mve_model manager\<rparr>
      in (g1, vehicle2,
          manager\<lparr>mve_byIdentifier := mput (veh_id vehicle2) vehicle2 (mve_byIdentifier manager),
                  mve_byObjectId := ObjectIdIndex_Index (veh_id vehicle2) (veh_objectids vehicle2)
                    (mve_byObjectId manager)\<rparr>))"

definition MemoryVehicles_Delete :: "Vehicle \<Rightarrow> MemoryVehicles \<Rightarrow> MemoryVehicles" where
  "MemoryVehicles_Delete vehicle manager =
     manager\<lparr>mve_byIdentifier := mdel (veh_id vehicle) (mve_byIdentifier manager),
             mve_byObjectId := ObjectIdIndex_Delete (veh_id vehicle) (mve_byObjectId manager)\<rparr>"

lemma MemoryVehicles_Save_eq:
  "MemoryVehicles_Save g v s =
     (let v2 = (if veh_id v = [] then v\<lparr>veh_id := fst (NewUUID g)\<rparr> else v)\<lparr>veh_model := mve_model s\<rparr>
      in ((if veh_id v = [] then snd (NewUUID g) else g), v2,
          s\<lparr>mve_byIdentifier := mput (veh_id v2) v2 (mve_byIdentifier s),
            mve_byObjectId := ObjectIdIndex_Index (veh_id v2) (veh_objectids v2) (mve_byObjectId s)\<rparr>))"
  by (simp add: MemoryVehicles_Save_def Let_def split: prod.split)

section \<open>The manager keeps the contract\<close>

definition vehicles_inv :: "MemoryVehicles \<Rightarrow> bool" where
  "vehicles_inv s \<longleftrightarrow> table_inv veh_id veh_objectids vehicle_wf (mve_byIdentifier s) (mve_byObjectId s)"

lemma vehicles_inv_new [simp]:
  "vehicles_inv NewMemoryVehicles" "vehicles_inv (NewMemoryVehicles\<lparr>mve_model := r\<rparr>)"
  by (simp_all add: vehicles_inv_def NewMemoryVehicles_def table_inv_new)

lemma MemoryVehicles_Find_mget:
  assumes "vehicles_inv s"
  shows "MemoryVehicles_Find s i = mget (mve_byIdentifier s) i"
  using table_inv_get(3) [OF assms [unfolded vehicles_inv_def], of i]
  by (cases "mget (mve_byIdentifier s) i") (auto simp: MemoryVehicles_Find_def)

lemma vehicles_inv_table: "vehicles_inv s \<Longrightarrow>
    table_inv veh_id veh_objectids vehicle_wf (mve_byIdentifier s) (mve_byObjectId s)"
  by (simp only: vehicles_inv_def)

lemma MemoryVehicles_Save_inv:
  assumes "vehicles_inv s" and "vehicle_wf e" and "ug_ok g" and "MemoryVehicles_Save g e s = (g', e', s')"
  shows "vehicles_inv s'"
proof -
  from assms(2-4) have e': "vehicle_wf e'" "veh_id e' \<noteq> []" "oids_wf (veh_objectids e')"
    by (auto simp: MemoryVehicles_Save_eq Let_def vehicle_wf_def split: if_splits)
  from table_inv_put [OF assms(1) [unfolded vehicles_inv_def] e'] assms(4) show ?thesis
    by (auto simp: vehicles_inv_def MemoryVehicles_Save_eq Let_def split: if_splits)
qed

lemma MemoryVehicles_Delete_inv: "vehicles_inv s \<Longrightarrow> vehicles_inv (MemoryVehicles_Delete e s)"
  by (simp add: vehicles_inv_def MemoryVehicles_Delete_def table_inv_del)

interpretation mem_vehicles: indexed_table_store MemoryVehicles_Find MemoryVehicles_FindAll MemoryVehicles_Save
  MemoryVehicles_Delete veh_id "\<lambda>s e. e\<lparr>veh_model := mve_model s\<rparr>" vehicle_wf vehicles_inv
  mve_byIdentifier "\<lambda>e. e" "\<lambda>i e. e\<lparr>veh_id := i\<rparr>" 
  MemoryVehicles_FindByObjectId veh_objectids mve_byObjectId
proof (unfold_locales, goal_cases)
  case (1 s)
  then show ?case using vehicles_inv_table [of s] by (simp only: table_inv_def)
next
  case (2 s e g g' e' s')
  then show ?case by (rule MemoryVehicles_Save_inv)
next
  case (3 s e)
  then show ?case by (rule MemoryVehicles_Delete_inv)
next
  case (4 e)
  then show ?case by simp
next
  case (5 s i)
  then show ?case by (simp add: MemoryVehicles_Find_mget option.map_ident)
next
  case (6 s)
  show ?case by (simp add: MemoryVehicles_FindAll_def)
next
  case (7 g e s g' e' s')
  then show ?case by (auto simp: MemoryVehicles_Save_eq Let_def)
next
  case (11 s)
  then show ?case by (rule vehicles_inv_table)
next
  case (12 s x)
  show ?case by (simp add: MemoryVehicles_FindByObjectId_def)
next
  case (13 g e s g' e' s')
  then show ?case by (auto simp: MemoryVehicles_Save_eq Let_def)
qed (simp_all add: MemoryVehicles_Delete_def vehicle_wf_def)

section \<open>The transactional overlay\<close>

record TransactionalVehicles =
  tve_model :: model_ref
  tve_saved :: "(VehicleId, Vehicle) gomap"
  tve_deleted :: "(VehicleId, Vehicle) gomap"

definition TransactionalVehicles_resetCaches :: "TransactionalVehicles \<Rightarrow> TransactionalVehicles" where
  "TransactionalVehicles_resetCaches manager = manager\<lparr>tve_saved := [], tve_deleted := []\<rparr>"

definition NewTransactionalVehicles :: "model_ref \<Rightarrow> TransactionalVehicles" where
  "NewTransactionalVehicles model = \<lparr>tve_model = model, tve_saved = [], tve_deleted = []\<rparr>"

definition TransactionalVehicles_New :: "TransactionalVehicles \<Rightarrow> Vehicle" where
  "TransactionalVehicles_New manager = NewVehicle (tve_model manager)"

definition TransactionalVehicles_Find ::
  "TransactionalVehicles \<Rightarrow> MemoryVehicles \<Rightarrow> VehicleId \<Rightarrow> Vehicle option" where
  "TransactionalVehicles_Find manager parent i =
     (case mget (tve_saved manager) i of
        Some vehicle \<Rightarrow> Some vehicle
      | None \<Rightarrow> MemoryVehicles_Find parent i)"

text \<open>The loop over the saved objects reads a missing identifier as the zero value.\<close>

definition TransactionalVehicles_FindByObjectId ::
  "TransactionalVehicles \<Rightarrow> MemoryVehicles \<Rightarrow> ObjectID \<Rightarrow> Vehicle option option" where
  "TransactionalVehicles_FindByObjectId manager parent objectid =
     (case first_some (\<lambda>vehicle. oid_value (Consumer_ObjectID_or_zero (veh_objectids vehicle)
                                (oid_kind objectid)) = oid_value objectid)
             (mvals (tve_saved manager)) of
        Some vehicle \<Rightarrow> Some (Some vehicle)
      | None \<Rightarrow> MemoryVehicles_FindByObjectId parent objectid)"

definition TransactionalVehicles_FindAll :: "TransactionalVehicles \<Rightarrow> MemoryVehicles \<Rightarrow> Vehicle list" where
  "TransactionalVehicles_FindAll manager parent =
     mvals (tve_saved manager) @
     filter (\<lambda>vehicle. \<not> mhas (tve_saved manager) (veh_id vehicle)) (MemoryVehicles_FindAll parent)"

definition TransactionalVehicles_FindByLineId ::
  "TransactionalVehicles \<Rightarrow> MemoryVehicles \<Rightarrow> LineId \<Rightarrow> Vehicle list" where
  "TransactionalVehicles_FindByLineId manager parent i =
     filter (\<lambda>vehicle. veh_LineId vehicle = i) (mvals (tve_saved manager)) @
     filter (\<lambda>vehicle. \<not> mhas (tve_saved manager) (veh_id vehicle)) (MemoryVehicles_FindByLineId parent i)"

definition TransactionalVehicles_Save ::
  "uuid_gen \<Rightarrow> Vehicle \<Rightarrow> TransactionalVehicles \<Rightarrow> uuid_gen \<times> Vehicle \<times> TransactionalVehicles" where
  "TransactionalVehicles_Save g vehicle manager =
     (let (g1, vehicle1) = (if veh_id vehicle = ''''
                         then (let (u, g') = NewUUID g in (g', vehicle\<lparr>veh_id := u\<rparr>))
                         else (g, vehicle))
      in (g1, vehicle1,
          manager\<lparr>tve_saved := mput (veh_id vehicle1) vehicle1 (tve_saved manager)\<rparr>))"

definition TransactionalVehicles_Delete :: "Vehicle \<Rightarrow> TransactionalVehicles \<Rightarrow> TransactionalVehicles" where
  "TransactionalVehicles_Delete vehicle manager =
     manager\<lparr>tve_deleted := mput (veh_id vehicle) vehicle (tve_deleted manager)\<rparr>"

definition TransactionalVehicles_Commit ::
  "uuid_gen \<Rightarrow> TransactionalVehicles \<Rightarrow> MemoryVehicles \<Rightarrow> uuid_gen \<times> MemoryVehicles" where
  "TransactionalVehicles_Commit g manager parent =
     save_all MemoryVehicles_Save (mvals (tve_saved manager))
       (g, fold MemoryVehicles_Delete (mvals (tve_deleted manager)) parent)"

definition TransactionalVehicles_Rollback :: "TransactionalVehicles \<Rightarrow> TransactionalVehicles" where
  "TransactionalVehicles_Rollback manager = TransactionalVehicles_resetCaches manager"

definition tx_vehicles_inv :: "TransactionalVehicles \<Rightarrow> bool" where
  "tx_vehicles_inv t \<longleftrightarrow> mwf (tve_saved t) \<and> keyed veh_id (tve_saved t) \<and>
     vals_ok (\<lambda>e. vehicle_wf e \<and> veh_id e \<noteq> []) (tve_saved t) \<and>
     mwf (tve_deleted t) \<and> keyed veh_id (tve_deleted t)"

lemma tx_vehicles_inv_new [simp]: "tx_vehicles_inv (NewTransactionalVehicles r)"
  by (simp add: tx_vehicles_inv_def NewTransactionalVehicles_def)

interpretation tx_vehicles: transactional_store MemoryVehicles_Find MemoryVehicles_FindAll MemoryVehicles_Save
  MemoryVehicles_Delete veh_id "\<lambda>s e. e\<lparr>veh_model := mve_model s\<rparr>" vehicle_wf vehicles_inv
  tve_saved tve_deleted TransactionalVehicles_Find TransactionalVehicles_FindAll TransactionalVehicles_Save
  TransactionalVehicles_Delete TransactionalVehicles_Commit TransactionalVehicles_Rollback tx_vehicles_inv
proof (unfold_locales, goal_cases)
  case (1 t)
  then show ?case by (simp add: tx_vehicles_inv_def)
next
  case (2 t s i)
  then show ?case by (simp add: TransactionalVehicles_Find_def split: option.split)
next
  case (3 t s)
  then show ?case by (simp add: TransactionalVehicles_FindAll_def)
next
  case (4 e g t g' e' t')
  then show ?case by (auto simp: TransactionalVehicles_Save_def)
next
  case (5 e g t g' e' t')
  then show ?case by (auto simp: TransactionalVehicles_Save_def Let_def split: prod.splits)
qed (simp_all add: TransactionalVehicles_Delete_def TransactionalVehicles_Commit_def
      TransactionalVehicles_Rollback_def TransactionalVehicles_resetCaches_def)

end
