(* ===== verification/Model.thy ===== *)
theory Model
  imports StopVisits Situations Operators Vehicles
begin

text \<open>
  The model of a referential: the seven in-memory managers and the channels to the broadcasters
  (\<^verbatim>\<open>model/model_interface.go\<close>), and a transaction over it (\<^verbatim>\<open>model/transaction.go\<close>,
  \<^verbatim>\<open>model/transactional_model.go\<close>).

  A manager logs the calls of its broadcast callback. \<open>MemoryModel_deliver\<close> is the callbacks' effect,
  applied after every operation on the model: each logged event is sent on its channel without
  blocking, in the order of the calls, and the logs start anew.
\<close>

section \<open>Channels\<close>

text \<open>A channel is nil or has a capacity and the events buffered, oldest first; the receivers
  run elsewhere. A send in a \<^verbatim>\<open>select\<close> with a default case drops the event when the channel is nil
  or its buffer is full.\<close>

type_synonym 'e gochan = "(nat \<times> 'e list) option"

definition chan_send :: "'e \<Rightarrow> 'e gochan \<Rightarrow> 'e gochan" where
  "chan_send event channel =
     (case channel of
        None \<Rightarrow> None
      | Some (capacity, queue) \<Rightarrow>
          if length queue < capacity then Some (capacity, queue @ [event]) else channel)"

lemma chan_send_all:
  "fold chan_send es (Some (cap, q)) = Some (cap, q @ take (cap - length q) es)"
proof (induction es arbitrary: q)
  case (Cons e es)
  show ?case
  proof (cases "length q < cap")
    case True
    then have "cap - length q = Suc (cap - Suc (length q))" by simp
    with True Cons show ?thesis by (simp add: chan_send_def)
  qed (use Cons in \<open>simp add: chan_send_def\<close>)
qed simp

lemma chan_send_nil [simp]: "fold chan_send es None = None"
  by (induction es) (simp_all add: chan_send_def)

section \<open>The in-memory model\<close>

text \<open>\<open>mm_date\<close> is the instant whose calendar day is the date of the model.\<close>

record MemoryModel =
  mm_date :: gotime
  mm_referential :: string
  mm_stopAreas :: MemoryStopAreas
  mm_stopVisits :: MemoryStopVisits
  mm_vehicleJourneys :: MemoryVehicleJourneys
  mm_lines :: MemoryLines
  mm_vehicles :: MemoryVehicles
  mm_situations :: MemorySituations
  mm_operators :: MemoryOperators
  mm_SMEventsChan :: "StopMonitoringBroadcastEvent gochan"
  mm_GMEventsChan :: "GeneralMessageBroadcastEvent gochan"

definition NewMemoryModel :: "gotime \<Rightarrow> string option \<Rightarrow> MemoryModel" where
  "NewMemoryModel now referential =
     \<lparr>mm_date = now,
      mm_referential = (case referential of None \<Rightarrow> '''' | Some r \<Rightarrow> r),
      mm_stopAreas = NewMemoryStopAreas\<lparr>msa_model := TheModel, msa_broadcastEvent := Some []\<rparr>,
      mm_stopVisits = NewMemoryStopVisits\<lparr>msv_model := TheModel, msv_broadcastEvent := Some []\<rparr>,
      mm_vehicleJourneys = NewMemoryVehicleJourneys\<lparr>mvj_model := TheModel\<rparr>,
      mm_lines = NewMemoryLines\<lparr>mln_model := TheModel\<rparr>,
      mm_vehicles = NewMemoryVehicles\<lparr>mve_model := TheModel\<rparr>,
      mm_situations = NewMemorySituations\<lparr>mst_model := TheModel, mst_broadcastEvent := Some []\<rparr>,
      mm_operators = NewMemoryOperators\<lparr>mop_model := TheModel\<rparr>,
      mm_SMEventsChan = None, mm_GMEventsChan = None\<rparr>"

definition MemoryModel_SetBroadcastSMChan ::
  "StopMonitoringBroadcastEvent gochan \<Rightarrow> MemoryModel \<Rightarrow> MemoryModel" where
  "MemoryModel_SetBroadcastSMChan channel model = model\<lparr>mm_SMEventsChan := channel\<rparr>"

definition MemoryModel_SetBroadcastGMChan ::
  "GeneralMessageBroadcastEvent gochan \<Rightarrow> MemoryModel \<Rightarrow> MemoryModel" where
  "MemoryModel_SetBroadcastGMChan channel model = model\<lparr>mm_GMEventsChan := channel\<rparr>"

definition MemoryModel_SetReferential :: "string \<Rightarrow> MemoryModel \<Rightarrow> MemoryModel" where
  "MemoryModel_SetReferential referential model = model\<lparr>mm_referential := referential\<rparr>"

definition MemoryModel_broadcastSMEvent :: "StopMonitoringBroadcastEvent \<Rightarrow> MemoryModel \<Rightarrow> MemoryModel" where
  "MemoryModel_broadcastSMEvent event model =
     model\<lparr>mm_SMEventsChan := chan_send event (mm_SMEventsChan model)\<rparr>"

definition MemoryModel_broadcastGMEvent :: "GeneralMessageBroadcastEvent \<Rightarrow> MemoryModel \<Rightarrow> MemoryModel" where
  "MemoryModel_broadcastGMEvent event model =
     model\<lparr>mm_GMEventsChan := chan_send event (mm_GMEventsChan model)\<rparr>"

definition log_events :: "'e list option \<Rightarrow> 'e list" where
  "log_events log = (case log of None \<Rightarrow> [] | Some events \<Rightarrow> events)"

definition MemoryModel_deliver :: "MemoryModel \<Rightarrow> MemoryModel" where
  "MemoryModel_deliver model =
     (let sm = log_events (msa_broadcastEvent (mm_stopAreas model)) @
               log_events (msv_broadcastEvent (mm_stopVisits model));
          gm = log_events (mst_broadcastEvent (mm_situations model));
          sent = fold MemoryModel_broadcastGMEvent gm (fold MemoryModel_broadcastSMEvent sm model)
      in sent\<lparr>mm_stopAreas := (mm_stopAreas sent)\<lparr>msa_broadcastEvent :=
                map_option (\<lambda>_. []) (msa_broadcastEvent (mm_stopAreas sent))\<rparr>,
              mm_stopVisits := (mm_stopVisits sent)\<lparr>msv_broadcastEvent :=
                map_option (\<lambda>_. []) (msv_broadcastEvent (mm_stopVisits sent))\<rparr>,
              mm_situations := (mm_situations sent)\<lparr>mst_broadcastEvent :=
                map_option (\<lambda>_. []) (mst_broadcastEvent (mm_situations sent))\<rparr>\<rparr>)"

text \<open>Reloading starts from a new model and fills it from the database: the four loaders are
  parameters.\<close>

definition MemoryModel_Reload ::
  "gotime \<Rightarrow> (string \<Rightarrow> MemoryStopAreas \<Rightarrow> MemoryStopAreas) \<Rightarrow> (string \<Rightarrow> MemoryLines \<Rightarrow> MemoryLines) \<Rightarrow>
   (string \<Rightarrow> MemoryOperators \<Rightarrow> MemoryOperators) \<Rightarrow>
   (string \<Rightarrow> MemoryVehicleJourneys \<Rightarrow> MemoryVehicleJourneys) \<Rightarrow> string \<Rightarrow> MemoryModel \<Rightarrow> MemoryModel" where
  "MemoryModel_Reload now loadStopAreas loadLines loadOperators loadVehicleJourneys referentialSlug model =
     (let model0 = NewMemoryModel now None;
          model1 = model0\<lparr>mm_date := now\<rparr>;
          model2 = model1\<lparr>mm_stopAreas := loadStopAreas referentialSlug (mm_stopAreas model1)\<rparr>;
          model3 = model2\<lparr>mm_lines := loadLines referentialSlug (mm_lines model2)\<rparr>;
          model4 = model3\<lparr>mm_operators := loadOperators referentialSlug (mm_operators model3)\<rparr>
      in model4\<lparr>mm_vehicleJourneys := loadVehicleJourneys referentialSlug (mm_vehicleJourneys model4)\<rparr>)"

definition MemoryModel_Clone :: "uuid_gen \<Rightarrow> gotime \<Rightarrow> MemoryModel \<Rightarrow> uuid_gen \<times> MemoryModel" where
  "MemoryModel_Clone g now model =
     (let clone = NewMemoryModel now None;
          (g1, stopAreas) = MemoryStopAreas_Clone g TheModel (mm_stopAreas model);
          (g2, lines) = MemoryLines_Clone g1 TheModel (mm_lines model)
      in (g2, clone\<lparr>mm_stopAreas := stopAreas, mm_lines := lines, mm_date := now\<rparr>))"

definition mm_inv :: "MemoryModel \<Rightarrow> bool" where
  "mm_inv m \<longleftrightarrow> stopareas_inv (mm_stopAreas m) \<and> stopvisits_inv (mm_stopVisits m) \<and>
     vehiclejourneys_inv (mm_vehicleJourneys m) \<and> lines_inv (mm_lines m) \<and>
     vehicles_inv (mm_vehicles m) \<and> situations_inv (mm_situations m) \<and> operators_inv (mm_operators m)"

lemma mm_inv_new [simp]: "mm_inv (NewMemoryModel now r)"
  by (simp add: mm_inv_def NewMemoryModel_def)

lemma mm_invD:
  assumes "mm_inv m"
  shows "stopareas_inv (mm_stopAreas m)" "stopvisits_inv (mm_stopVisits m)"
    "vehiclejourneys_inv (mm_vehicleJourneys m)" "lines_inv (mm_lines m)"
    "vehicles_inv (mm_vehicles m)" "situations_inv (mm_situations m)" "operators_inv (mm_operators m)"
  using assms by (simp_all only: mm_inv_def)

subsection \<open>Delivering\<close>

lemma broadcastSM_fold:
  "fold MemoryModel_broadcastSMEvent es m = m\<lparr>mm_SMEventsChan := fold chan_send es (mm_SMEventsChan m)\<rparr>"
  by (induction es arbitrary: m) (simp_all add: MemoryModel_broadcastSMEvent_def)

lemma broadcastGM_fold:
  "fold MemoryModel_broadcastGMEvent es m = m\<lparr>mm_GMEventsChan := fold chan_send es (mm_GMEventsChan m)\<rparr>"
  by (induction es arbitrary: m) (simp_all add: MemoryModel_broadcastGMEvent_def)

text \<open>Finding never looks at the log.\<close>

lemma find_log [simp]:
  "MemoryStopAreas_Find (sas\<lparr>msa_broadcastEvent := b\<rparr>) i = MemoryStopAreas_Find sas i"
  "MemoryStopVisits_Find (svs\<lparr>msv_broadcastEvent := b\<rparr>) i = MemoryStopVisits_Find svs i"
  "MemorySituations_Find (sts\<lparr>mst_broadcastEvent := d\<rparr>) i = MemorySituations_Find sts i"
  by (simp_all add: MemoryStopAreas_Find_def MemoryStopVisits_Find_def MemorySituations_Find_def)

lemma find_log_eq:
  "MemoryStopAreas_Find (sas\<lparr>msa_broadcastEvent := b\<rparr>) = MemoryStopAreas_Find sas"
  "MemoryStopVisits_Find (svs\<lparr>msv_broadcastEvent := b\<rparr>) = MemoryStopVisits_Find svs"
  "MemorySituations_Find (sts\<lparr>mst_broadcastEvent := d\<rparr>) = MemorySituations_Find sts"
  by (simp_all add: fun_eq_iff)

lemma deliver_simps [simp]:
  "mm_date (MemoryModel_deliver m) = mm_date m"
  "mm_referential (MemoryModel_deliver m) = mm_referential m"
  "mm_vehicleJourneys (MemoryModel_deliver m) = mm_vehicleJourneys m"
  "mm_lines (MemoryModel_deliver m) = mm_lines m"
  "mm_vehicles (MemoryModel_deliver m) = mm_vehicles m"
  "mm_operators (MemoryModel_deliver m) = mm_operators m"
  "mm_stopAreas (MemoryModel_deliver m) = (mm_stopAreas m)\<lparr>msa_broadcastEvent :=
     map_option (\<lambda>_. []) (msa_broadcastEvent (mm_stopAreas m))\<rparr>"
  "mm_stopVisits (MemoryModel_deliver m) = (mm_stopVisits m)\<lparr>msv_broadcastEvent :=
     map_option (\<lambda>_. []) (msv_broadcastEvent (mm_stopVisits m))\<rparr>"
  "mm_situations (MemoryModel_deliver m) = (mm_situations m)\<lparr>mst_broadcastEvent :=
     map_option (\<lambda>_. []) (mst_broadcastEvent (mm_situations m))\<rparr>"
  "mm_SMEventsChan (MemoryModel_deliver m) =
     fold chan_send (log_events (msa_broadcastEvent (mm_stopAreas m)) @
       log_events (msv_broadcastEvent (mm_stopVisits m))) (mm_SMEventsChan m)"
  "mm_GMEventsChan (MemoryModel_deliver m) =
     fold chan_send (log_events (mst_broadcastEvent (mm_situations m))) (mm_GMEventsChan m)"
  by (simp_all only: MemoryModel_deliver_def Let_def broadcastSM_fold broadcastGM_fold) simp_all

lemma mm_inv_deliver [simp]: "mm_inv (MemoryModel_deliver m) \<longleftrightarrow> mm_inv m"
  by (simp add: mm_inv_def)

section \<open>Transactions\<close>

record TransactionalModel =
  tm_referential :: string
  tm_lines :: TransactionalLines
  tm_situations :: TransactionalSituations
  tm_stopAreas :: TransactionalStopAreas
  tm_stopVisits :: TransactionalStopVisits
  tm_vehicleJourneys :: TransactionalVehicleJourneys
  tm_operators :: TransactionalOperators
  tm_vehicles :: TransactionalVehicles

definition NewTransactionalModel :: "MemoryModel \<Rightarrow> TransactionalModel" where
  "NewTransactionalModel parent =
     \<lparr>tm_referential = mm_referential parent,
      tm_lines = NewTransactionalLines TheModel,
      tm_situations = NewTransactionalSituations TheModel,
      tm_stopAreas = NewTransactionalStopAreas TheModel,
      tm_stopVisits = NewTransactionalStopVisits TheModel,
      tm_vehicleJourneys = NewTransactionalVehicleJourneys TheModel,
      tm_operators = NewTransactionalOperators TheModel,
      tm_vehicles = NewTransactionalVehicles TheModel\<rparr>"

text \<open>No commit of a manager reports an error, so all seven are committed, in this order.\<close>

definition TransactionalModel_Commit ::
  "uuid_gen \<Rightarrow> TransactionalModel \<Rightarrow> MemoryModel \<Rightarrow> uuid_gen \<times> MemoryModel" where
  "TransactionalModel_Commit g model parent =
     (let (g1, sas) = TransactionalStopAreas_Commit g (tm_stopAreas model) (mm_stopAreas parent);
          (g2, svs) = TransactionalStopVisits_Commit g1 (tm_stopVisits model) (mm_stopVisits parent);
          (g3, vjs) = TransactionalVehicleJourneys_Commit g2 (tm_vehicleJourneys model)
                        (mm_vehicleJourneys parent);
          (g4, lns) = TransactionalLines_Commit g3 (tm_lines model) (mm_lines parent);
          (g5, sts) = TransactionalSituations_Commit g4 (tm_situations model) (mm_situations parent);
          (g6, ops) = TransactionalOperators_Commit g5 (tm_operators model) (mm_operators parent);
          (g7, ves) = TransactionalVehicles_Commit g6 (tm_vehicles model) (mm_vehicles parent)
      in (g7, MemoryModel_deliver (parent\<lparr>mm_stopAreas := sas, mm_stopVisits := svs,
            mm_vehicleJourneys := vjs, mm_lines := lns, mm_situations := sts, mm_operators := ops,
            mm_vehicles := ves\<rparr>)))"

definition TransactionalModel_Rollback :: "TransactionalModel \<Rightarrow> TransactionalModel" where
  "TransactionalModel_Rollback model =
     model\<lparr>tm_stopAreas := TransactionalStopAreas_Rollback (tm_stopAreas model),
           tm_stopVisits := TransactionalStopVisits_Rollback (tm_stopVisits model),
           tm_vehicleJourneys := TransactionalVehicleJourneys_Rollback (tm_vehicleJourneys model),
           tm_lines := TransactionalLines_Rollback (tm_lines model),
           tm_situations := TransactionalSituations_Rollback (tm_situations model),
           tm_operators := TransactionalOperators_Rollback (tm_operators model),
           tm_vehicles := TransactionalVehicles_Rollback (tm_vehicles model)\<rparr>"

datatype TransactionStatus = PENDING | COMMIT | ROLLBACK

record Transaction =
  tr_model :: TransactionalModel
  tr_status :: TransactionStatus

definition NewTransaction :: "MemoryModel \<Rightarrow> Transaction" where
  "NewTransaction model = \<lparr>tr_model = NewTransactionalModel model, tr_status = PENDING\<rparr>"

definition Transaction_Commit ::
  "uuid_gen \<Rightarrow> Transaction \<Rightarrow> MemoryModel \<Rightarrow> uuid_gen \<times> Transaction \<times> MemoryModel" where
  "Transaction_Commit g transaction model =
     (let (g', model') = TransactionalModel_Commit g (tr_model transaction) model
      in (g', transaction\<lparr>tr_status := COMMIT\<rparr>, model'))"

definition Transaction_Rollback :: "Transaction \<Rightarrow> Transaction" where
  "Transaction_Rollback transaction =
     transaction\<lparr>tr_model := TransactionalModel_Rollback (tr_model transaction), tr_status := ROLLBACK\<rparr>"

definition Transaction_Close :: "Transaction \<Rightarrow> Transaction" where
  "Transaction_Close transaction =
     (if tr_status transaction \<noteq> COMMIT then Transaction_Rollback transaction else transaction)"

definition tm_inv :: "TransactionalModel \<Rightarrow> bool" where
  "tm_inv t \<longleftrightarrow> tx_stopareas_inv (tm_stopAreas t) \<and> tx_stopvisits_inv (tm_stopVisits t) \<and>
     tx_vehiclejourneys_inv (tm_vehicleJourneys t) \<and> tx_lines_inv (tm_lines t) \<and>
     tx_situations_inv (tm_situations t) \<and> tx_operators_inv (tm_operators t) \<and>
     tx_vehicles_inv (tm_vehicles t)"

lemma tm_inv_new [simp]: "tm_inv (NewTransactionalModel m)"
  by (simp add: tm_inv_def NewTransactionalModel_def)

lemma tm_invD:
  assumes "tm_inv t"
  shows "tx_stopareas_inv (tm_stopAreas t)" "tx_stopvisits_inv (tm_stopVisits t)"
    "tx_vehiclejourneys_inv (tm_vehicleJourneys t)" "tx_lines_inv (tm_lines t)"
    "tx_situations_inv (tm_situations t)" "tx_operators_inv (tm_operators t)"
    "tx_vehicles_inv (tm_vehicles t)"
  using assms by (simp_all only: tm_inv_def)

section \<open>What a commit does\<close>

text \<open>The lookups of a model after a transaction, from the ones before: \<open>committed\<close> for each of the seven
  managers, and nothing else.\<close>

definition committed_model :: "TransactionalModel \<Rightarrow> MemoryModel \<Rightarrow> MemoryModel \<Rightarrow> bool" where
  "committed_model t m m' \<longleftrightarrow>
    MemoryStopAreas_Find (mm_stopAreas m') =
      committed (tsa_saved (tm_stopAreas t)) (tsa_deleted (tm_stopAreas t))
        (\<lambda>e. e\<lparr>sa_model := msa_model (mm_stopAreas m)\<rparr>) (MemoryStopAreas_Find (mm_stopAreas m)) \<and>
    MemoryStopVisits_Find (mm_stopVisits m') =
      committed (tsv_saved (tm_stopVisits t)) (tsv_deleted (tm_stopVisits t))
        (\<lambda>e. e\<lparr>sv_model := msv_model (mm_stopVisits m)\<rparr>) (MemoryStopVisits_Find (mm_stopVisits m)) \<and>
    MemoryVehicleJourneys_Find (mm_vehicleJourneys m') =
      committed (tvj_saved (tm_vehicleJourneys t)) (tvj_deleted (tm_vehicleJourneys t))
        (\<lambda>e. e\<lparr>vj_model := mvj_model (mm_vehicleJourneys m)\<rparr>)
        (MemoryVehicleJourneys_Find (mm_vehicleJourneys m)) \<and>
    MemoryLines_Find (mm_lines m') =
      committed (tln_saved (tm_lines t)) (tln_deleted (tm_lines t))
        (\<lambda>e. e\<lparr>line_model := mln_model (mm_lines m)\<rparr>) (MemoryLines_Find (mm_lines m)) \<and>
    MemorySituations_Find (mm_situations m') =
      committed (tst_saved (tm_situations t)) (tst_deleted (tm_situations t))
        (\<lambda>e. e\<lparr>st_model := mst_model (mm_situations m)\<rparr>) (MemorySituations_Find (mm_situations m)) \<and>
    MemoryOperators_Find (mm_operators m') =
      committed (top_saved (tm_operators t)) (top_deleted (tm_operators t))
        (\<lambda>e. e\<lparr>opr_model := mop_model (mm_operators m)\<rparr>) (MemoryOperators_Find (mm_operators m)) \<and>
    MemoryVehicles_Find (mm_vehicles m') =
      committed (tve_saved (tm_vehicles t)) (tve_deleted (tm_vehicles t))
        (\<lambda>e. e\<lparr>veh_model := mve_model (mm_vehicles m)\<rparr>) (MemoryVehicles_Find (mm_vehicles m)) \<and>
    mm_referential m' = mm_referential m \<and> mm_date m' = mm_date m"

lemma commit_effect:
  assumes "mm_inv m" and "tm_inv t" and "ug_ok g"
  shows "\<exists>m'. TransactionalModel_Commit g t m = (g, m') \<and> mm_inv m' \<and> committed_model t m m'"
proof -
  note t = tm_invD [OF assms(2)] and m = mm_invD [OF assms(1)] and g = assms(3)
  from tx_stopareas.commit_committed [OF t(1) m(1) g] tx_stopvisits.commit_committed [OF t(2) m(2) g]
    tx_vehiclejourneys.commit_committed [OF t(3) m(3) g] tx_lines.commit_committed [OF t(4) m(4) g]
    tx_situations.commit_committed [OF t(5) m(6) g] tx_operators.commit_committed [OF t(6) m(7) g]
    tx_vehicles.commit_committed [OF t(7) m(5) g]
  show ?thesis
    unfolding TransactionalModel_Commit_def committed_model_def by (elim exE conjE) (simp add: mm_inv_def find_log_eq)
qed

text \<open>The managers keep their pointer to the model.\<close>

lemma commit_models:
  assumes "mm_inv m" and "tm_inv t" and "ug_ok g" and "TransactionalModel_Commit g t m = (g', m')"
  shows "msa_model (mm_stopAreas m') = msa_model (mm_stopAreas m)"
    "msv_model (mm_stopVisits m') = msv_model (mm_stopVisits m)"
    "mvj_model (mm_vehicleJourneys m') = mvj_model (mm_vehicleJourneys m)"
proof -
  note t = tm_invD [OF assms(2)] and m = mm_invD [OF assms(1)] and g = assms(3)
  from tx_stopareas.commit_find [OF t(1) m(1) g] obtain sas where
    1: "TransactionalStopAreas_Commit g (tm_stopAreas t) (mm_stopAreas m) = (g, sas)"
      "(\<lambda>e::StopArea. e\<lparr>sa_model := msa_model sas\<rparr>) = (\<lambda>e::StopArea. e\<lparr>sa_model := msa_model (mm_stopAreas m)\<rparr>)" by blast
  from tx_stopvisits.commit_find [OF t(2) m(2) g] obtain svs where
    2: "TransactionalStopVisits_Commit g (tm_stopVisits t) (mm_stopVisits m) = (g, svs)"
      "(\<lambda>e::StopVisit. e\<lparr>sv_model := msv_model svs\<rparr>) = (\<lambda>e::StopVisit. e\<lparr>sv_model := msv_model (mm_stopVisits m)\<rparr>)" by blast
  from tx_vehiclejourneys.commit_find [OF t(3) m(3) g] obtain vjs where
    3: "TransactionalVehicleJourneys_Commit g (tm_vehicleJourneys t) (mm_vehicleJourneys m) = (g, vjs)"
      "(\<lambda>e::VehicleJourney. e\<lparr>vj_model := mvj_model vjs\<rparr>) = (\<lambda>e::VehicleJourney. e\<lparr>vj_model := mvj_model (mm_vehicleJourneys m)\<rparr>)" by blast
  have "mm_stopAreas m' = sas\<lparr>msa_broadcastEvent := map_option (\<lambda>_. []) (msa_broadcastEvent sas)\<rparr>"
    "mm_stopVisits m' = svs\<lparr>msv_broadcastEvent := map_option (\<lambda>_. []) (msv_broadcastEvent svs)\<rparr>"
    "mm_vehicleJourneys m' = vjs"
    using assms(4) 1(1) 2(1) 3(1) by (auto simp: TransactionalModel_Commit_def Let_def split: prod.splits)
  then show "msa_model (mm_stopAreas m') = msa_model (mm_stopAreas m)"
    "msv_model (mm_stopVisits m') = msv_model (mm_stopVisits m)"
    "mvj_model (mm_vehicleJourneys m') = mvj_model (mm_vehicleJourneys m)"
    using arg_cong [OF 1(2), of "\<lambda>f. sa_model (f (NewStopArea NilModel))"]
      arg_cong [OF 2(2), of "\<lambda>f. sv_model (f (NewStopVisit NilModel))"]
      arg_cong [OF 3(2), of "\<lambda>f. vj_model (f (NewVehicleJourney NilModel))"] by simp_all
qed

text \<open>C4. Committing a transaction makes all its changes to the seven kinds of objects visible in the
  model at once, and changes nothing else: afterwards an object is the one saved in the transaction, or
  is gone if it was deleted (and not saved), or is what it was. An object both saved and deleted in the
  transaction is there. No identifier is generated and every manager stays well-formed.\<close>

theorem transaction_commit:
  assumes "mm_inv m" and "tm_inv t" and "ug_ok g"
  shows "\<exists>m'. TransactionalModel_Commit g t m = (g, m') \<and> mm_inv m' \<and>
    MemoryStopAreas_Find (mm_stopAreas m') =
      committed (tsa_saved (tm_stopAreas t)) (tsa_deleted (tm_stopAreas t))
        (\<lambda>e. e\<lparr>sa_model := msa_model (mm_stopAreas m)\<rparr>) (MemoryStopAreas_Find (mm_stopAreas m)) \<and>
    MemoryStopVisits_Find (mm_stopVisits m') =
      committed (tsv_saved (tm_stopVisits t)) (tsv_deleted (tm_stopVisits t))
        (\<lambda>e. e\<lparr>sv_model := msv_model (mm_stopVisits m)\<rparr>) (MemoryStopVisits_Find (mm_stopVisits m)) \<and>
    MemoryVehicleJourneys_Find (mm_vehicleJourneys m') =
      committed (tvj_saved (tm_vehicleJourneys t)) (tvj_deleted (tm_vehicleJourneys t))
        (\<lambda>e. e\<lparr>vj_model := mvj_model (mm_vehicleJourneys m)\<rparr>)
        (MemoryVehicleJourneys_Find (mm_vehicleJourneys m)) \<and>
    MemoryLines_Find (mm_lines m') =
      committed (tln_saved (tm_lines t)) (tln_deleted (tm_lines t))
        (\<lambda>e. e\<lparr>line_model := mln_model (mm_lines m)\<rparr>) (MemoryLines_Find (mm_lines m)) \<and>
    MemorySituations_Find (mm_situations m') =
      committed (tst_saved (tm_situations t)) (tst_deleted (tm_situations t))
        (\<lambda>e. e\<lparr>st_model := mst_model (mm_situations m)\<rparr>) (MemorySituations_Find (mm_situations m)) \<and>
    MemoryOperators_Find (mm_operators m') =
      committed (top_saved (tm_operators t)) (top_deleted (tm_operators t))
        (\<lambda>e. e\<lparr>opr_model := mop_model (mm_operators m)\<rparr>) (MemoryOperators_Find (mm_operators m)) \<and>
    MemoryVehicles_Find (mm_vehicles m') =
      committed (tve_saved (tm_vehicles t)) (tve_deleted (tm_vehicles t))
        (\<lambda>e. e\<lparr>veh_model := mve_model (mm_vehicles m)\<rparr>) (MemoryVehicles_Find (mm_vehicles m)) \<and>
    mm_referential m' = mm_referential m \<and> mm_date m' = mm_date m"
  using commit_effect [OF assms] unfolding committed_model_def .

definition example_tx :: "TransactionalModel" where
  "example_tx = (NewTransactionalModel (NewMemoryModel 0 None))\<lparr>tm_stopAreas :=
     TransactionalStopAreas_Delete example_area (snd (snd (TransactionalStopAreas_Save (fake_gen True)
       example_area (NewTransactionalStopAreas TheModel))))\<rparr>"

lemma example_tx_inv: "tm_inv example_tx"
proof -
  have "tx_stopareas_inv (snd (snd (TransactionalStopAreas_Save (fake_gen True) example_area
      (NewTransactionalStopAreas TheModel))))"
    by (rule tx_stopareas.tinv_tsave [OF tx_stopareas_inv_new _ ug_ok_fake])
      (simp_all add: prod_eq_iff example_area_def)
  then show ?thesis
    using tm_inv_new [of "NewMemoryModel 0 None"]
    by (simp add: tm_inv_def example_tx_def tx_stopareas.tinv_tdelete)
qed

theorem transaction_commit_witness:
  "\<exists>m'. TransactionalModel_Commit (fake_gen True) example_tx (NewMemoryModel 0 None) = (fake_gen True, m') \<and>
     MemoryStopAreas_Find (mm_stopAreas m') ''b'' = Some (example_area\<lparr>sa_model := TheModel\<rparr>)"
proof -
  have "committed (tsa_saved (tm_stopAreas example_tx)) (tsa_deleted (tm_stopAreas example_tx))
        (\<lambda>e. e\<lparr>sa_model := msa_model (mm_stopAreas (NewMemoryModel 0 None))\<rparr>)
        (MemoryStopAreas_Find (mm_stopAreas (NewMemoryModel 0 None))) ''b'' =
      Some (example_area\<lparr>sa_model := TheModel\<rparr>)"
    by (simp add: committed_def example_tx_def TransactionalStopAreas_Save_def example_area_def
        TransactionalStopAreas_Delete_def NewTransactionalStopAreas_def NewMemoryModel_def)
  then show ?thesis
    using transaction_commit [OF mm_inv_new [of 0 None] example_tx_inv ug_ok_fake [of True]] by metis
qed

subsection \<open>The events of a commit\<close>

definition area_event :: "StopArea \<Rightarrow> StopMonitoringBroadcastEvent" where
  "area_event sa = \<lparr>sme_SubscriptionId = '''', sme_ModelId = sa_id sa, sme_ModelType = ''StopArea''\<rparr>"

definition visit_event :: "StopVisit \<Rightarrow> StopMonitoringBroadcastEvent" where
  "visit_event sv = \<lparr>sme_SubscriptionId = '''', sme_ModelId = sv_id sv, sme_ModelType = ''StopVisit''\<rparr>"

lemma save_all_area_log:
  "list_all (\<lambda>e. sa_id e \<noteq> []) es \<Longrightarrow>
   msa_broadcastEvent (snd (save_all MemoryStopAreas_Save es (g, s))) =
     map_option (\<lambda>log. log @ map area_event es) (msa_broadcastEvent s)"
proof (induction es arbitrary: s)
  case (Cons e es)
  then show ?case
    by (simp add: MemoryStopAreas_Save_eq Let_def area_event_def option.map_comp comp_def)
qed (simp add: option.map_ident)

lemma save_all_visit_log:
  "list_all (\<lambda>e. sv_id e \<noteq> []) es \<Longrightarrow>
   msv_broadcastEvent (snd (save_all MemoryStopVisits_Save es (g, s))) =
     map_option (\<lambda>log. log @ map visit_event es) (msv_broadcastEvent s)"
proof (induction es arbitrary: s)
  case (Cons e es)
  then show ?case
    by (simp add: MemoryStopVisits_Save_eq Let_def visit_event_def option.map_comp comp_def)
qed (simp add: option.map_ident)

lemma fold_delete_log:
  "msa_broadcastEvent (fold MemoryStopAreas_Delete as sas) = msa_broadcastEvent sas"
  "msv_broadcastEvent (fold MemoryStopVisits_Delete vs svs) = msv_broadcastEvent svs"
proof -
  show "msa_broadcastEvent (fold MemoryStopAreas_Delete as sas) = msa_broadcastEvent sas"
    by (induction "as" arbitrary: sas) (simp_all add: MemoryStopAreas_Delete_def)
  show "msv_broadcastEvent (fold MemoryStopVisits_Delete vs svs) = msv_broadcastEvent svs"
    by (induction vs arbitrary: svs) (simp_all add: MemoryStopVisits_Delete_def)
qed

lemma tx_saved_named:
  "tx_stopareas_inv ta \<Longrightarrow> list_all (\<lambda>e. sa_id e \<noteq> []) (mvals (tsa_saved ta))"
  "tx_stopvisits_inv tv \<Longrightarrow> list_all (\<lambda>e. sv_id e \<noteq> []) (mvals (tsv_saved tv))"
  by (simp_all add: tx_stopareas_inv_def tx_stopvisits_inv_def vals_ok_def list_all_iff)

lemma commit_channel:
  assumes "tm_inv t" and "TransactionalModel_Commit g t m = (g', m')"
    and "msa_broadcastEvent (mm_stopAreas m) = Some []" and "msv_broadcastEvent (mm_stopVisits m) = Some []"
  shows "mm_SMEventsChan m' = fold chan_send (map area_event (mvals (tsa_saved (tm_stopAreas t))) @
      map visit_event (mvals (tsv_saved (tm_stopVisits t)))) (mm_SMEventsChan m)"
    and "msa_broadcastEvent (mm_stopAreas m') = Some []"
    and "msv_broadcastEvent (mm_stopVisits m') = Some []"
proof -
  note named = tx_saved_named(1) [OF tm_invD(1) [OF assms(1)]] tx_saved_named(2) [OF tm_invD(2) [OF assms(1)]]
  have log1: "msa_broadcastEvent sas = Some (map area_event (mvals (tsa_saved (tm_stopAreas t))))"
    if "TransactionalStopAreas_Commit g1 (tm_stopAreas t) (mm_stopAreas m) = (g2, sas)" for g1 g2 sas
    using that save_all_area_log [OF named(1)] assms(3)
    by (auto simp: TransactionalStopAreas_Commit_def fold_delete_log prod_eq_iff)
  have log2: "msv_broadcastEvent svs = Some (map visit_event (mvals (tsv_saved (tm_stopVisits t))))"
    if "TransactionalStopVisits_Commit g1 (tm_stopVisits t) (mm_stopVisits m) = (g2, svs)" for g1 g2 svs
    using that save_all_visit_log [OF named(2)] assms(4)
    by (auto simp: TransactionalStopVisits_Commit_def fold_delete_log prod_eq_iff)
  from assms(2) log1 log2
  show "mm_SMEventsChan m' = fold chan_send (map area_event (mvals (tsa_saved (tm_stopAreas t))) @
      map visit_event (mvals (tsv_saved (tm_stopVisits t)))) (mm_SMEventsChan m)"
    and "msa_broadcastEvent (mm_stopAreas m') = Some []"
    and "msv_broadcastEvent (mm_stopVisits m') = Some []"
    by (auto simp: TransactionalModel_Commit_def log_events_def split: prod.splits)
qed

text \<open>C39. A commit tells the stop monitoring broadcaster of every saved stop area, then of every saved
  stop visit, once each and in that order, as long as its queue has room; what does not fit is dropped
  and the commit does not wait. Deletions are not announced.\<close>

theorem commit_events:
  assumes "tm_inv t" and "TransactionalModel_Commit g t m = (g', m')"
    and "msa_broadcastEvent (mm_stopAreas m) = Some []" and "msv_broadcastEvent (mm_stopVisits m) = Some []"
    and "mm_SMEventsChan m = Some (capacity, queue)"
  shows "mm_SMEventsChan m' = Some (capacity, queue @ take (capacity - length queue)
      (map area_event (mvals (tsa_saved (tm_stopAreas t))) @
       map visit_event (mvals (tsv_saved (tm_stopVisits t)))))"
  using commit_channel(1) [OF assms(1-4)] by (simp only: assms(5) chan_send_all)

theorem commit_events_witness:
  "mm_SMEventsChan (snd (TransactionalModel_Commit (fake_gen True) example_tx
     (MemoryModel_SetBroadcastSMChan (Some (1, [])) (NewMemoryModel 0 None)))) =
   Some (1, [\<lparr>sme_SubscriptionId = '''', sme_ModelId = ''b'', sme_ModelType = ''StopArea''\<rparr>])"
proof -
  let ?m = "MemoryModel_SetBroadcastSMChan (Some (1, [])) (NewMemoryModel 0 None)"
  obtain g' m' where c: "TransactionalModel_Commit (fake_gen True) example_tx ?m = (g', m')"
    by (rule prod.exhaust)
  have "mm_SMEventsChan m' = Some (1, [] @ take (1 - length ([] :: StopMonitoringBroadcastEvent list))
      (map area_event (mvals (tsa_saved (tm_stopAreas example_tx))) @
       map visit_event (mvals (tsv_saved (tm_stopVisits example_tx)))))"
    by (rule commit_events [OF example_tx_inv c])
      (simp_all add: MemoryModel_SetBroadcastSMChan_def NewMemoryModel_def)
  moreover have "\<dots> = Some (1, [\<lparr>sme_SubscriptionId = '''', sme_ModelId = ''b'', sme_ModelType = ''StopArea''\<rparr>])"
    by (simp add: area_event_def example_tx_def TransactionalStopAreas_Save_def example_area_def
        TransactionalStopAreas_Delete_def NewTransactionalStopAreas_def NewTransactionalModel_def
        NewTransactionalStopVisits_def)
  ultimately show ?thesis by (simp only: c prod.sel)
qed

subsection \<open>Abandoning a transaction\<close>

lemma commit_nothing:
  "TransactionalModel_Commit g (TransactionalModel_Rollback t) m = (g, MemoryModel_deliver m)"
  by (simp add: TransactionalModel_Commit_def TransactionalModel_Rollback_def
      tx_stopareas.trollback_eq tx_stopvisits.trollback_eq tx_vehiclejourneys.trollback_eq
      tx_lines.trollback_eq tx_situations.trollback_eq tx_operators.trollback_eq tx_vehicles.trollback_eq
      TransactionalStopAreas_Commit_def TransactionalStopVisits_Commit_def
      TransactionalVehicleJourneys_Commit_def TransactionalLines_Commit_def
      TransactionalSituations_Commit_def TransactionalOperators_Commit_def TransactionalVehicles_Commit_def)

text \<open>Closing a transaction that was not committed rolls it back: whatever it had saved or deleted is
  forgotten, so that even a later commit of it changes nothing. Closing a committed transaction does
  nothing.\<close>

theorem transaction_close:
  "(case Transaction_Commit g (Transaction_Close (tr\<lparr>tr_status := PENDING\<rparr>)) m of
      (g', tr', m') \<Rightarrow> g' = g \<and> m' = MemoryModel_deliver m) \<and>
   tr_status (Transaction_Close (tr\<lparr>tr_status := PENDING\<rparr>)) = ROLLBACK \<and>
   Transaction_Close (tr\<lparr>tr_status := COMMIT\<rparr>) = tr\<lparr>tr_status := COMMIT\<rparr>"
  by (simp add: Transaction_Commit_def Transaction_Close_def Transaction_Rollback_def commit_nothing)

text \<open>Reloading a model forgets the name of its referential: whatever the loaders put into it, the new
  model is nameless, and its broadcast channels are nil, so that nothing saved before the referential is
  started again is broadcast.\<close>

theorem reload_forgets:
  "let m' = MemoryModel_Reload now loadSA loadL loadO loadVJ slug m
   in mm_referential m' = '''' \<and> mm_SMEventsChan m' = None \<and> mm_GMEventsChan m' = None \<and>
      mm_stopVisits m' = NewMemoryStopVisits\<lparr>msv_model := TheModel, msv_broadcastEvent := Some []\<rparr>"
  by (simp add: MemoryModel_Reload_def NewMemoryModel_def Let_def)

end
