(* ===== verification/Updates.thy ===== *)
theory Updates
  imports Model
begin

text \<open>
  How collected data enters the model: the update events (\<^verbatim>\<open>model/*_update_event.go\<close>), the
  manager that applies them, each in transactions of its own (\<^verbatim>\<open>model/update_manager.go\<close>), and the
  manager of situation updates (\<^verbatim>\<open>model/situation_update_manager.go\<close>).

  A handler takes the clock's time and the hash function (\<open>sha1_hex\<close>: SHA-1 printed in hexadecimal), the
  event, the identifier generator and the model, and returns the last two. \<^const>\<open>None\<close> is a crash of
  the program; the only one a handler can meet is the recursion over a cyclic stop area hierarchy.
\<close>

section \<open>Events\<close>

record StopAreaUpdateEvent =
  sau_Origin :: string
  sau_ObjectId :: ObjectID
  sau_ParentObjectId :: ObjectID
  sau_Name :: string
  sau_CollectedAlways :: bool
  sau_Longitude :: float64
  sau_Latitude :: float64

record LineUpdateEvent =
  lnu_Origin :: string
  lnu_ObjectId :: ObjectID
  lnu_Name :: string

record VehicleUpdateEvent =
  veu_ObjectId :: ObjectID
  veu_VehicleJourneyObjectId :: ObjectID
  veu_Longitude :: float64
  veu_Latitude :: float64
  veu_Bearing :: float64

record StatusUpdateEvent =
  stu_StopAreaId :: StopAreaId
  stu_Partner :: string
  stu_Status :: bool

definition NewStatusUpdateEvent :: "StopAreaId \<Rightarrow> string \<Rightarrow> bool \<Rightarrow> StatusUpdateEvent" where
  "NewStatusUpdateEvent stopAreaId partner status =
     \<lparr>stu_StopAreaId = stopAreaId, stu_Partner = partner, stu_Status = status\<rparr>"

record NotCollectedUpdateEvent =
  ncu_ObjectId :: ObjectID

text \<open>The SIRI document of an event, when it has one, is what its methods read, by the name of the method; an
  absent element reads as the empty string. \<open>Builders\<close> takes it from the XML document.\<close>

type_synonym XMLMonitoredStopVisit = "string \<Rightarrow> string"

record VehicleJourneyUpdateEvent =
  vju_Origin :: string
  vju_ObjectId :: ObjectID
  vju_LineObjectId :: ObjectID
  vju_OriginRef :: string
  vju_OriginName :: string
  vju_DestinationRef :: string
  vju_DestinationName :: string
  vju_Direction :: string
  vju_Monitored :: bool
  vju_ObjectidKind :: string
  vju_SiriXML :: "XMLMonitoredStopVisit option"
  vju_attributes :: "Attributes option"
  vju_references :: "References option"

definition VehicleJourneyUpdateEvent_Attributes :: "VehicleJourneyUpdateEvent \<Rightarrow> Attributes" where
  "VehicleJourneyUpdateEvent_Attributes ue =
     (case vju_attributes ue of
        Some attributes \<Rightarrow> attributes
      | None \<Rightarrow>
          (case vju_SiriXML ue of
             None \<Rightarrow> NewAttributes
           | Some xml \<Rightarrow>
               fold (\<lambda>name. Attributes_Set name (xml name))
                 [''Delay'', ''Bearing'', ''InPanic'', ''InCongestion'', ''SituationRef'', ''DirectionName'',
                  ''FirstOrLastJourney'', ''HeadwayService'', ''JourneyNote'', ''JourneyPatternName'',
                  ''MonitoringError'', ''Occupancy'', ''OriginAimedDepartureTime'',
                  ''DestinationAimedArrivalTime'', ''ProductCategoryRef'', ''ServiceFeatureRef'',
                  ''TrainNumberRef'', ''VehicleFeature'', ''VehicleMode'', ''ViaPlaceName'',
                  ''VehicleJourneyName'', ''DirectionRef'', ''DestinationName'', ''OriginName'']
                 NewAttributes))"

definition VehicleJourneyUpdateEvent_References :: "VehicleJourneyUpdateEvent \<Rightarrow> References" where
  "VehicleJourneyUpdateEvent_References ue =
     (case vju_references ue of
        Some references \<Rightarrow> references
      | None \<Rightarrow>
          (case vju_SiriXML ue of
             None \<Rightarrow> NewReferences
           | Some xml \<Rightarrow>
               fold (\<lambda>name. References_SetObjectId name (NewObjectID (vju_ObjectidKind ue) (xml name)))
                 [''PlaceRef'', ''JourneyPatternRef'', ''RouteRef'', ''DestinationRef'', ''OriginRef'']
                 NewReferences))"

record StopVisitUpdateEvent =
  svu_Origin :: string
  svu_ObjectId :: ObjectID
  svu_StopAreaObjectId :: ObjectID
  svu_VehicleJourneyObjectId :: ObjectID
  svu_DataFrameRef :: string
  svu_PassageOrder :: int
  svu_Monitored :: bool
  svu_VehicleAtStop :: bool
  svu_Schedules :: StopVisitSchedules
  svu_DepartureStatus :: StopVisitDepartureStatus
  svu_ArrivalStatus :: StopVisitArrivalStatus
  svu_RecordedAt :: gotime
  svu_ObjectidKind :: string
  svu_SiriXML :: "XMLMonitoredStopVisit option"
  svu_attributes :: "Attributes option"
  svu_references :: "References option"

definition StopVisitUpdateEvent_Attributes :: "StopVisitUpdateEvent \<Rightarrow> Attributes" where
  "StopVisitUpdateEvent_Attributes ue =
     (case svu_attributes ue of
        Some attributes \<Rightarrow> attributes
      | None \<Rightarrow>
          (case svu_SiriXML ue of
             None \<Rightarrow> NewAttributes
           | Some xml \<Rightarrow>
               fold (\<lambda>name. Attributes_Set name (xml name))
                 [''Delay'', ''ActualQuayName'', ''AimedHeadwayInterval'', ''ArrivalPlatformName'',
                  ''ArrivalProximyTest'', ''DepartureBoardingActivity'', ''DeparturePlatformName'',
                  ''DestinationDisplay'', ''DistanceFromStop'', ''ExpectedHeadwayInterval'',
                  ''NumberOfStopsAway'', ''PlatformTraversal'']
                 NewAttributes))"

definition StopVisitUpdateEvent_References :: "StopVisitUpdateEvent \<Rightarrow> References" where
  "StopVisitUpdateEvent_References ue =
     (case svu_references ue of
        Some references \<Rightarrow> references
      | None \<Rightarrow>
          (case svu_SiriXML ue of
             None \<Rightarrow> NewReferences
           | Some xml \<Rightarrow>
               References_SetObjectId ''OperatorRef''
                 (NewObjectID (svu_ObjectidKind ue) (xml ''OperatorRef'')) NewReferences))"

datatype UpdateEvent =
    STOP_AREA_EVENT StopAreaUpdateEvent
  | STATUS_EVENT StatusUpdateEvent
  | LINE_EVENT LineUpdateEvent
  | VEHICLE_JOURNEY_EVENT VehicleJourneyUpdateEvent
  | STOP_VISIT_EVENT StopVisitUpdateEvent
  | NOT_COLLECTED_EVENT NotCollectedUpdateEvent
  | VEHICLE_EVENT VehicleUpdateEvent

section \<open>The update manager\<close>

text \<open>Saving each of a list of stop areas in a transaction.\<close>

definition save_each ::
  "uuid_gen \<Rightarrow> StopArea list \<Rightarrow> TransactionalStopAreas \<Rightarrow> uuid_gen \<times> TransactionalStopAreas" where
  "save_each g stopAreas manager =
     fold (\<lambda>stopArea (g, manager).
             (case TransactionalStopAreas_Save g stopArea manager of (g', _, manager') \<Rightarrow> (g', manager')))
       stopAreas (g, manager)"

definition updateMonitoredStopArea ::
  "StopAreaId \<Rightarrow> string \<Rightarrow> bool \<Rightarrow> uuid_gen \<Rightarrow> MemoryModel \<Rightarrow> (uuid_gen \<times> MemoryModel) option" where
  "updateMonitoredStopArea stopAreaId partner status g model =
     (let tx = NewTransactionalModel model
      in do {
        ascendants \<leftarrow> TransactionalStopAreas_FindAscendants (tm_stopAreas tx) (mm_stopAreas model) stopAreaId;
        (let (g1, stopAreas) = save_each g (map (StopArea_SetPartnerStatus partner status) ascendants)
                                 (tm_stopAreas tx)
         in Some (TransactionalModel_Commit g1 (tx\<lparr>tm_stopAreas := stopAreas\<rparr>) model)) })"

definition updateStatus ::
  "StatusUpdateEvent \<Rightarrow> uuid_gen \<Rightarrow> MemoryModel \<Rightarrow> (uuid_gen \<times> MemoryModel) option" where
  "updateStatus event g model =
     (let tx = NewTransactionalModel model
      in do {
        ascendants \<leftarrow> TransactionalStopAreas_FindAscendants (tm_stopAreas tx) (mm_stopAreas model)
                        (stu_StopAreaId event);
        (let (g1, stopAreas) = save_each g
               (map (StopArea_SetPartnerStatus (stu_Partner event) (stu_Status event)) ascendants)
               (tm_stopAreas tx)
         in Some (TransactionalModel_Commit g1 (tx\<lparr>tm_stopAreas := stopAreas\<rparr>) model)) })"

definition newStopArea :: "StopAreaUpdateEvent \<Rightarrow> StopArea \<Rightarrow> StopArea" where
  "newStopArea event stopArea =
     (StopArea_SetObjectID (sau_ObjectId event) stopArea)
     \<lparr>sa_CollectGeneralMessages := True, sa_Name := sau_Name event,
      sa_CollectedAlways := sau_CollectedAlways event,
      sa_Longitude := sau_Longitude event, sa_Latitude := sau_Latitude event\<rparr>"

definition updateStopArea ::
  "gotime \<Rightarrow> StopAreaUpdateEvent \<Rightarrow> uuid_gen \<Rightarrow> MemoryModel \<Rightarrow> (uuid_gen \<times> MemoryModel) option" where
  "updateStopArea now event g model =
     (let tx = NewTransactionalModel model
      in do {
        found \<leftarrow> TransactionalStopAreas_FindByObjectId (tm_stopAreas tx) (mm_stopAreas model)
                   (sau_ObjectId event);
        (let stopArea1 = (case found of
                            Some stopArea \<Rightarrow> stopArea
                          | None \<Rightarrow> newStopArea event (TransactionalStopAreas_New (tm_stopAreas tx)))
         in do {
           stopArea2 \<leftarrow>
             (if sa_ParentId stopArea1 = '''' \<and> oid_value (sau_ParentObjectId event) \<noteq> ''''
              then do {
                parentSA \<leftarrow> TransactionalStopAreas_FindByObjectId (tm_stopAreas tx) (mm_stopAreas model)
                              (sau_ParentObjectId event);
                Some (stopArea1\<lparr>sa_ParentId := (case parentSA of Some p \<Rightarrow> sa_id p | None \<Rightarrow> '''')\<rparr>) }
              else Some stopArea1);
           (let (g1, stopArea, stopAreas) =
                  TransactionalStopAreas_Save g (StopArea_Updated now stopArea2) (tm_stopAreas tx);
                (g2, model1) = TransactionalModel_Commit g1 (tx\<lparr>tm_stopAreas := stopAreas\<rparr>) model
            in if sau_Origin event \<noteq> ''''
               then (let (status, ok) = Origins_Origin (sa_Origins stopArea) (sau_Origin event)
                     in if \<not> status \<or> \<not> ok
                        then updateStatus (NewStatusUpdateEvent (sa_id stopArea) (sau_Origin event) True) g2 model1
                        else Some (g2, model1))
               else Some (g2, model1)) }) })"

definition newLine :: "(string \<Rightarrow> string) \<Rightarrow> LineUpdateEvent \<Rightarrow> Line \<Rightarrow> Line" where
  "newLine sha1_hex event line =
     Line_SetOrigin (lnu_Origin event)
       ((Line_SetObjectID (NewObjectID ''_default'' (HashValue sha1_hex (lnu_ObjectId event)))
          (Line_SetObjectID (lnu_ObjectId event) line))
        \<lparr>line_CollectGeneralMessages := True, line_Name := lnu_Name event\<rparr>)"

definition updateLine ::
  "gotime \<Rightarrow> (string \<Rightarrow> string) \<Rightarrow> LineUpdateEvent \<Rightarrow> uuid_gen \<Rightarrow> MemoryModel \<Rightarrow>
   (uuid_gen \<times> MemoryModel) option" where
  "updateLine now sha1_hex event g model =
     (let tx = NewTransactionalModel model
      in do {
        found \<leftarrow> TransactionalLines_FindByObjectId (tm_lines tx) (mm_lines model) (lnu_ObjectId event);
        (let line = (case found of
                       Some line \<Rightarrow> line
                     | None \<Rightarrow> newLine sha1_hex event (TransactionalLines_New (tm_lines tx)));
             (g1, _, lines) = TransactionalLines_Save g (Line_Updated now line) (tm_lines tx)
         in Some (TransactionalModel_Commit g1 (tx\<lparr>tm_lines := lines\<rparr>) model)) })"

text \<open>A new vehicle journey, and what every event writes into the journey, new or found.\<close>

definition newVehicleJourney ::
  "(string \<Rightarrow> string) \<Rightarrow> VehicleJourneyUpdateEvent \<Rightarrow> Line \<Rightarrow> VehicleJourney \<Rightarrow> VehicleJourney" where
  "newVehicleJourney sha1_hex event l vj =
     (VehicleJourney_SetObjectID (NewObjectID ''_default'' (HashValue sha1_hex (vju_ObjectId event)))
       (VehicleJourney_SetObjectID (vju_ObjectId event) vj))
     \<lparr>vj_Origin := vju_Origin event,
      vj_Name := mget_or '''' (VehicleJourneyUpdateEvent_Attributes event) ''VehicleJourneyName'',
      vj_LineId := line_id l,
      vj_Attributes := VehicleJourneyUpdateEvent_Attributes event,
      vj_References := VehicleJourneyUpdateEvent_References event\<rparr>"

definition updatedVehicleJourney :: "VehicleJourneyUpdateEvent \<Rightarrow> VehicleJourney \<Rightarrow> VehicleJourney" where
  "updatedVehicleJourney event vj1 =
     (let vj2 = vj1\<lparr>vj_References := References_SetObjectId ''OriginRef''
            (NewObjectID (oid_kind (vju_ObjectId event)) (vju_OriginRef event)) (vj_References vj1),
            vj_OriginName := vju_OriginName event\<rparr>;
          vj3 = vj2\<lparr>vj_References := References_SetObjectId ''DestinationRef''
            (NewObjectID (oid_kind (vju_ObjectId event)) (vju_DestinationRef event)) (vj_References vj2),
            vj_DestinationName := vju_DestinationName event\<rparr>;
          vj4 = (if vju_Direction event \<noteq> ''''
                 then vj3\<lparr>vj_Attributes := Attributes_Set ''DirectionName'' (vju_Direction event)
                        (vj_Attributes vj3)\<rparr>
                 else vj3)
      in vj4\<lparr>vj_Monitored := vju_Monitored event\<rparr>)"

definition updateVehicleJourney ::
  "(string \<Rightarrow> string) \<Rightarrow> VehicleJourneyUpdateEvent \<Rightarrow> uuid_gen \<Rightarrow> MemoryModel \<Rightarrow>
   (uuid_gen \<times> MemoryModel) option" where
  "updateVehicleJourney sha1_hex event g model =
     (let tx = NewTransactionalModel model;
          finish = (\<lambda>vj.
            (let (g1, _, vehicleJourneys) = TransactionalVehicleJourneys_Save g
                   (updatedVehicleJourney event vj) (tm_vehicleJourneys tx)
             in Some (TransactionalModel_Commit g1 (tx\<lparr>tm_vehicleJourneys := vehicleJourneys\<rparr>) model)))
      in do {
        found \<leftarrow> TransactionalVehicleJourneys_FindByObjectId (tm_vehicleJourneys tx)
                   (mm_vehicleJourneys model) (vju_ObjectId event);
        (case found of
           Some vj \<Rightarrow> finish vj
         | None \<Rightarrow> do {
             foundLine \<leftarrow> TransactionalLines_FindByObjectId (tm_lines tx) (mm_lines model)
                            (vju_LineObjectId event);
             (case foundLine of
                None \<Rightarrow> Some (g, model)
              | Some l \<Rightarrow>
                  finish (newVehicleJourney sha1_hex event l
                    (TransactionalVehicleJourneys_New (tm_vehicleJourneys tx)))) }) })"

text \<open>The part of the stop visit handler that records the line of the journey in the stop area and in
  its referent; it returns the handler's own copy of the stop area.\<close>

definition addLine ::
  "uuid_gen \<Rightarrow> MemoryModel \<Rightarrow> StopArea \<Rightarrow> Line option \<Rightarrow> TransactionalStopAreas \<Rightarrow>
   uuid_gen \<times> StopArea \<times> TransactionalStopAreas" where
  "addLine g model sa l stopAreas =
     (case l of
        None \<Rightarrow> (g, sa, stopAreas)
      | Some line \<Rightarrow>
          (let sa1 = sa\<lparr>sa_LineIds := StopAreaLineIds_Add (line_id line) (sa_LineIds sa)\<rparr>;
               (g1, stopAreas1) =
                 (case TransactionalStopAreas_Find stopAreas (mm_stopAreas model) (sa_ReferentId sa1) of
                    Some referent \<Rightarrow>
                      (case TransactionalStopAreas_Save g
                              (referent\<lparr>sa_LineIds := StopAreaLineIds_Add (line_id line) (sa_LineIds referent)\<rparr>)
                              stopAreas of
                         (g', _, stopAreas') \<Rightarrow> (g', stopAreas'))
                  | None \<Rightarrow> (g, stopAreas))
           in TransactionalStopAreas_Save g1 sa1 stopAreas1))"

text \<open>The stop visit as the handler saves it.\<close>

definition updatedStopVisit ::
  "gotime \<Rightarrow> (string \<Rightarrow> string) \<Rightarrow> StopVisitUpdateEvent \<Rightarrow> StopArea \<Rightarrow> VehicleJourney \<Rightarrow>
   StopVisit option \<Rightarrow> StopVisit \<Rightarrow> StopVisit" where
  "updatedStopVisit now sha1_hex event sa vj found newStopVisit =
     (let sv1 =
            (case found of
               Some sv \<Rightarrow> sv
             | None \<Rightarrow>
                 (StopVisit_SetObjectID (NewObjectID ''_default'' (HashValue sha1_hex (svu_ObjectId event)))
                   (StopVisit_SetObjectID (svu_ObjectId event) newStopVisit))
                 \<lparr>sv_StopAreaId := sa_id sa, sv_VehicleJourneyId := vj_id vj,
                  sv_Origin := svu_Origin event, sv_PassageOrder := svu_PassageOrder event,
                  sv_DataFrameRef := svu_DataFrameRef event,
                  sv_Attributes := StopVisitUpdateEvent_Attributes event,
                  sv_References := StopVisitUpdateEvent_References event\<rparr>);
          sv2 = (if \<not> IsZero (svu_RecordedAt event) then sv1\<lparr>sv_RecordedAt := svu_RecordedAt event\<rparr>
                 else if \<not> Schedules_Include (sv_Schedules sv1) (svu_Schedules event)
                 then sv1\<lparr>sv_RecordedAt := now\<rparr>
                 else sv1)
      in StopVisit_Collected now
           (sv2\<lparr>sv_Schedules := Schedules_Merge (sv_Schedules sv2) (svu_Schedules event),
                sv_DepartureStatus := svu_DepartureStatus event,
                sv_ArrivalStatus := svu_ArrivalStatus event,
                sv_VehicleAtStop := svu_VehicleAtStop event\<rparr>))"

text \<open>The status update in the middle runs, and commits, a transaction of its own before the
  handler's own transaction is committed.\<close>

definition updateStopVisit ::
  "gotime \<Rightarrow> (string \<Rightarrow> string) \<Rightarrow> StopVisitUpdateEvent \<Rightarrow> uuid_gen \<Rightarrow> MemoryModel \<Rightarrow>
   (uuid_gen \<times> MemoryModel) option" where
  "updateStopVisit now sha1_hex event g model =
     (let tx = NewTransactionalModel model
      in do {
        foundArea \<leftarrow> TransactionalStopAreas_FindByObjectId (tm_stopAreas tx) (mm_stopAreas model)
                       (svu_StopAreaObjectId event);
        (case foundArea of
           None \<Rightarrow> Some (g, model)
         | Some sa0 \<Rightarrow> do {
             foundJourney \<leftarrow> TransactionalVehicleJourneys_FindByObjectId (tm_vehicleJourneys tx)
                               (mm_vehicleJourneys model) (svu_VehicleJourneyObjectId event);
             (case foundJourney of
                None \<Rightarrow> Some (g, model)
              | Some vj \<Rightarrow>
                  (let (g1, sa, stopAreas) =
                         addLine g model sa0 (VehicleJourney_Line (mm_lines model) vj) (tm_stopAreas tx)
                   in do {
                     found \<leftarrow> TransactionalStopVisits_FindByObjectId (tm_stopVisits tx)
                                (mm_stopVisits model) (svu_ObjectId event);
                     (let sv = updatedStopVisit now sha1_hex event sa vj found
                                 (TransactionalStopVisits_New (tm_stopVisits tx));
                          (g2, vehicleJourneys) =
                            (if svu_Monitored event \<noteq> vj_Monitored vj
                             then (case TransactionalVehicleJourneys_Save g1
                                          (vj\<lparr>vj_Monitored := svu_Monitored event\<rparr>) (tm_vehicleJourneys tx) of
                                     (g', _, vjs) \<Rightarrow> (g', vjs))
                             else (g1, tm_vehicleJourneys tx))
                      in do {
                        (g3, model1) \<leftarrow>
                          (if svu_Origin event \<noteq> ''''
                           then (let (status, ok) = Origins_Origin (sa_Origins sa) (svu_Origin event)
                                 in if status \<noteq> svu_Monitored event \<or> \<not> ok
                                    then updateMonitoredStopArea (sa_id sa) (svu_Origin event)
                                           (svu_Monitored event) g2 model
                                    else Some (g2, model))
                           else Some (g2, model));
                        (let (g4, _, stopVisits) = TransactionalStopVisits_Save g3 sv (tm_stopVisits tx)
                         in Some (TransactionalModel_Commit g4
                              (tx\<lparr>tm_stopAreas := stopAreas, tm_vehicleJourneys := vehicleJourneys,
                                  tm_stopVisits := stopVisits\<rparr>) model1)) }) })) }) })"

text \<open>A journey that is not found is the zero value: it has no model, so no line.\<close>

definition updateVehicle ::
  "gotime \<Rightarrow> VehicleUpdateEvent \<Rightarrow> uuid_gen \<Rightarrow> MemoryModel \<Rightarrow> (uuid_gen \<times> MemoryModel) option" where
  "updateVehicle now event g model =
     (let tx = NewTransactionalModel model
      in do {
        foundJourney \<leftarrow> TransactionalVehicleJourneys_FindByObjectId (tm_vehicleJourneys tx)
                          (mm_vehicleJourneys model) (veu_VehicleJourneyObjectId event);
        (let vj = (case foundJourney of Some vj \<Rightarrow> vj | None \<Rightarrow> NewVehicleJourney NilModel);
             line = VehicleJourney_Line (mm_lines model) vj
         in do {
           found \<leftarrow> TransactionalVehicles_FindByObjectId (tm_vehicles tx) (mm_vehicles model)
                      (veu_ObjectId event);
           (let vehicle1 =
                  (case found of
                     Some vehicle \<Rightarrow> vehicle
                   | None \<Rightarrow> Vehicle_SetObjectID (veu_ObjectId event) (TransactionalVehicles_New (tm_vehicles tx)));
                vehicle2 = vehicle1\<lparr>veh_VehicleJourneyId := vj_id vj, veh_Longitude := veu_Longitude event,
                  veh_Latitude := veu_Latitude event, veh_Bearing := veu_Bearing event,
                  veh_RecordedAtTime := now\<rparr>;
                vehicle3 = (case line of Some l \<Rightarrow> vehicle2\<lparr>veh_LineId := line_id l\<rparr> | None \<Rightarrow> vehicle2);
                (g1, _, vehicles) = TransactionalVehicles_Save g vehicle3 (tm_vehicles tx)
            in Some (TransactionalModel_Commit g1 (tx\<lparr>tm_vehicles := vehicles\<rparr>) model)) }) })"

definition updateNotCollected ::
  "NotCollectedUpdateEvent \<Rightarrow> uuid_gen \<Rightarrow> MemoryModel \<Rightarrow> (uuid_gen \<times> MemoryModel) option" where
  "updateNotCollected event g model =
     (let tx = NewTransactionalModel model
      in do {
        found \<leftarrow> TransactionalStopVisits_FindByObjectId (tm_stopVisits tx) (mm_stopVisits model)
                   (ncu_ObjectId event);
        (case found of
           None \<Rightarrow> Some (g, model)
         | Some stopVisit \<Rightarrow>
             (let (g1, _, stopVisits) =
                    TransactionalStopVisits_Save g (StopVisit_NotCollected stopVisit) (tm_stopVisits tx)
              in Some (TransactionalModel_Commit g1 (tx\<lparr>tm_stopVisits := stopVisits\<rparr>) model))) })"

fun Update ::
  "gotime \<Rightarrow> (string \<Rightarrow> string) \<Rightarrow> UpdateEvent \<Rightarrow> uuid_gen \<Rightarrow> MemoryModel \<Rightarrow>
   (uuid_gen \<times> MemoryModel) option" where
  "Update now sha1_hex (STOP_AREA_EVENT event) g model = updateStopArea now event g model"
| "Update now sha1_hex (LINE_EVENT event) g model = updateLine now sha1_hex event g model"
| "Update now sha1_hex (VEHICLE_JOURNEY_EVENT event) g model = updateVehicleJourney sha1_hex event g model"
| "Update now sha1_hex (STOP_VISIT_EVENT event) g model = updateStopVisit now sha1_hex event g model"
| "Update now sha1_hex (VEHICLE_EVENT event) g model = updateVehicle now event g model"
| "Update now sha1_hex (STATUS_EVENT event) g model = updateStatus event g model"
| "Update now sha1_hex (NOT_COLLECTED_EVENT event) g model = updateNotCollected event g model"

section \<open>Situation updates\<close>

record SituationAttributes =
  sta_Format :: string
  sta_Channel :: string
  sta_References :: "Reference list"
  sta_LineSections :: "References list"
  sta_Messages :: "Message list"
  sta_ValidUntil :: gotime

record SituationUpdateEvent =
  siu_Origin :: string
  siu_id :: string
  siu_CreatedAt :: gotime
  siu_RecordedAt :: stamp
  siu_SituationObjectID :: ObjectID
  siu_Version :: int
  siu_ProducerRef :: string
  siu_SituationAttributes :: SituationAttributes

definition updatedSituation ::
  "(string \<Rightarrow> string) \<Rightarrow> SituationUpdateEvent \<Rightarrow> Situation option \<Rightarrow> Situation \<Rightarrow> Situation" where
  "updatedSituation sha1_hex event found newSituation =
     (let situation =
            (case found of
               Some situation \<Rightarrow> situation
             | None \<Rightarrow>
                 Situation_SetObjectID
                   (NewObjectID ''_default'' (HashValue sha1_hex (siu_SituationObjectID event)))
                   (Situation_SetObjectID (siu_SituationObjectID event)
                     (newSituation\<lparr>st_Origin := siu_Origin event\<rparr>)));
          attributes = siu_SituationAttributes event
      in situation\<lparr>st_RecordedAt := siu_RecordedAt event, st_Version := siu_Version event,
           st_ProducerRef := siu_ProducerRef event, st_References := sta_References attributes,
           st_LineSections := sta_LineSections attributes, st_Messages := sta_Messages attributes,
           st_ValidUntil := sta_ValidUntil attributes, st_Channel := sta_Channel attributes,
           st_Format := sta_Format attributes\<rparr>)"

text \<open>\<^verbatim>\<open>situation.Save()\<close> follows the model pointer of the situation, which is the memory model
  whether the situation was found or is new: the transaction is bypassed. An event with the time
  stamp already recorded ends the loop.\<close>

fun SituationUpdater_Update ::
  "(string \<Rightarrow> string) \<Rightarrow> TransactionalModel \<Rightarrow> SituationUpdateEvent list \<Rightarrow> uuid_gen \<Rightarrow> MemoryModel \<Rightarrow>
   uuid_gen \<times> MemoryModel" where
  "SituationUpdater_Update sha1_hex tx [] g model = (g, model)"
| "SituationUpdater_Update sha1_hex tx (event # events) g model =
     (let found = TransactionalSituations_FindByObjectId (tm_situations tx) (mm_situations model)
                    (siu_SituationObjectID event)
      in if (case found of Some situation \<Rightarrow> st_RecordedAt situation = siu_RecordedAt event | None \<Rightarrow> False)
         then (g, model)
         else (let (g1, _, situations) = MemorySituations_Save g
                     (updatedSituation sha1_hex event found (TransactionalSituations_New (tm_situations tx)))
                     (mm_situations model)
               in SituationUpdater_Update sha1_hex tx events g1
                    (MemoryModel_deliver (model\<lparr>mm_situations := situations\<rparr>))))"

definition UpdateSituation ::
  "(string \<Rightarrow> string) \<Rightarrow> SituationUpdateEvent list \<Rightarrow> uuid_gen \<Rightarrow> MemoryModel \<Rightarrow> uuid_gen \<times> MemoryModel" where
  "UpdateSituation sha1_hex events g model =
     (let tx = NewTransactionalModel model;
          (g1, model1) = SituationUpdater_Update sha1_hex tx events g model
      in TransactionalModel_Commit g1 tx model1)"

end
