(* ===== verification/UpdateProps.thy ===== *)
theory UpdateProps
  imports Updates
begin

text \<open>
  What the update handlers of \<open>Updates\<close> do to the model: each returns unless the stop area
  hierarchy is cyclic, keeps the model well-formed, and changes exactly the objects it is about.
\<close>

section \<open>Fresh transactions\<close>

lemma fresh_tx [simp]:
  "tm_lines (NewTransactionalModel m) = NewTransactionalLines TheModel"
  "tm_situations (NewTransactionalModel m) = NewTransactionalSituations TheModel"
  "tm_stopAreas (NewTransactionalModel m) = NewTransactionalStopAreas TheModel"
  "tm_stopVisits (NewTransactionalModel m) = NewTransactionalStopVisits TheModel"
  "tm_vehicleJourneys (NewTransactionalModel m) = NewTransactionalVehicleJourneys TheModel"
  "tm_operators (NewTransactionalModel m) = NewTransactionalOperators TheModel"
  "tm_vehicles (NewTransactionalModel m) = NewTransactionalVehicles TheModel"
  by (simp_all add: NewTransactionalModel_def)

lemma fresh_find_oid [simp]:
  "TransactionalLines_FindByObjectId (NewTransactionalLines r) lns x = MemoryLines_FindByObjectId lns x"
  "TransactionalSituations_FindByObjectId (NewTransactionalSituations r) sts x =
     MemorySituations_FindByObjectId sts x"
  "TransactionalStopAreas_FindByObjectId (NewTransactionalStopAreas r) sas x =
     MemoryStopAreas_FindByObjectId sas x"
  "TransactionalStopVisits_FindByObjectId (NewTransactionalStopVisits r) svs x =
     MemoryStopVisits_FindByObjectId svs x"
  "TransactionalVehicleJourneys_FindByObjectId (NewTransactionalVehicleJourneys r) vjs x =
     MemoryVehicleJourneys_FindByObjectId vjs x"
  "TransactionalVehicles_FindByObjectId (NewTransactionalVehicles r) ves x =
     MemoryVehicles_FindByObjectId ves x"
  by (simp_all add: TransactionalLines_FindByObjectId_def NewTransactionalLines_def
      TransactionalSituations_FindByObjectId_def NewTransactionalSituations_def
      TransactionalStopAreas_FindByObjectId_def NewTransactionalStopAreas_def
      TransactionalStopVisits_FindByObjectId_def NewTransactionalStopVisits_def
      TransactionalVehicleJourneys_FindByObjectId_def NewTransactionalVehicleJourneys_def
      TransactionalVehicles_FindByObjectId_def NewTransactionalVehicles_def)

lemma fresh_ascendants [simp]:
  "TransactionalStopAreas_FindAscendants (NewTransactionalStopAreas r) sas i =
     MemoryStopAreas_FindAscendants sas i"
  by (cases "MemoryStopAreas_FindAscendants sas i")
    (simp_all add: TransactionalStopAreas_FindAscendants_def NewTransactionalStopAreas_def mhas_def)

lemma fresh_new [simp]:
  "TransactionalLines_New (NewTransactionalLines r) = NewLine r"
  "TransactionalSituations_New (NewTransactionalSituations r) = NewSituation r"
  "TransactionalStopAreas_New (NewTransactionalStopAreas r) = NewStopArea r"
  "TransactionalStopVisits_New (NewTransactionalStopVisits r) = NewStopVisit r"
  "TransactionalVehicleJourneys_New (NewTransactionalVehicleJourneys r) = NewVehicleJourney r"
  "TransactionalVehicles_New (NewTransactionalVehicles r) = NewVehicle r"
  by (simp_all add: TransactionalLines_New_def NewTransactionalLines_def
      TransactionalSituations_New_def NewTransactionalSituations_def
      TransactionalStopAreas_New_def NewTransactionalStopAreas_def
      TransactionalStopVisits_New_def NewTransactionalStopVisits_def
      TransactionalVehicleJourneys_New_def NewTransactionalVehicleJourneys_def
      TransactionalVehicles_New_def NewTransactionalVehicles_def)

text \<open>A transaction that saved one object and nothing else has the effect of saving it in the memory
  manager.\<close>

lemmas fresh_commit_defs = TransactionalModel_Commit_def
  TransactionalLines_Commit_def TransactionalSituations_Commit_def TransactionalStopAreas_Commit_def
  TransactionalStopVisits_Commit_def TransactionalVehicleJourneys_Commit_def
  TransactionalOperators_Commit_def TransactionalVehicles_Commit_def
  NewTransactionalModel_def NewTransactionalLines_def NewTransactionalSituations_def
  NewTransactionalStopAreas_def NewTransactionalStopVisits_def NewTransactionalVehicleJourneys_def
  NewTransactionalOperators_def NewTransactionalVehicles_def

lemma commit_line:
  assumes "ug_ok g"
  shows "(case TransactionalLines_Save g e (NewTransactionalLines TheModel) of (g1, _, t) \<Rightarrow>
      TransactionalModel_Commit g1 ((NewTransactionalModel m)\<lparr>tm_lines := t\<rparr>) m) =
    (case MemoryLines_Save g e (mm_lines m) of (g1, _, s) \<Rightarrow>
      (g1, MemoryModel_deliver (m\<lparr>mm_lines := s\<rparr>)))"
  using ug_ok_fst [OF assms]
  by (cases "NewUUID g") (simp add: fresh_commit_defs TransactionalLines_Save_def MemoryLines_Save_eq Let_def)

lemma commit_stop_area:
  assumes "ug_ok g"
  shows "(case TransactionalStopAreas_Save g e (NewTransactionalStopAreas TheModel) of (g1, _, t) \<Rightarrow>
      TransactionalModel_Commit g1 ((NewTransactionalModel m)\<lparr>tm_stopAreas := t\<rparr>) m) =
    (case MemoryStopAreas_Save g e (mm_stopAreas m) of (g1, _, s) \<Rightarrow>
      (g1, MemoryModel_deliver (m\<lparr>mm_stopAreas := s\<rparr>)))"
  using ug_ok_fst [OF assms]
  by (cases "NewUUID g") (simp add: fresh_commit_defs TransactionalStopAreas_Save_def MemoryStopAreas_Save_eq Let_def)

lemma commit_stop_visit:
  assumes "ug_ok g"
  shows "(case TransactionalStopVisits_Save g e (NewTransactionalStopVisits TheModel) of (g1, _, t) \<Rightarrow>
      TransactionalModel_Commit g1 ((NewTransactionalModel m)\<lparr>tm_stopVisits := t\<rparr>) m) =
    (case MemoryStopVisits_Save g e (mm_stopVisits m) of (g1, _, s) \<Rightarrow>
      (g1, MemoryModel_deliver (m\<lparr>mm_stopVisits := s\<rparr>)))"
  using ug_ok_fst [OF assms]
  by (cases "NewUUID g") (simp add: fresh_commit_defs TransactionalStopVisits_Save_def MemoryStopVisits_Save_eq Let_def)

lemma commit_vehicle_journey:
  assumes "ug_ok g"
  shows "(case TransactionalVehicleJourneys_Save g e (NewTransactionalVehicleJourneys TheModel) of (g1, _, t) \<Rightarrow>
      TransactionalModel_Commit g1 ((NewTransactionalModel m)\<lparr>tm_vehicleJourneys := t\<rparr>) m) =
    (case MemoryVehicleJourneys_Save g e (mm_vehicleJourneys m) of (g1, _, s) \<Rightarrow>
      (g1, MemoryModel_deliver (m\<lparr>mm_vehicleJourneys := s\<rparr>)))"
  using ug_ok_fst [OF assms]
  by (cases "NewUUID g") (simp add: fresh_commit_defs TransactionalVehicleJourneys_Save_def MemoryVehicleJourneys_Save_eq Let_def)

lemma commit_vehicle:
  assumes "ug_ok g"
  shows "(case TransactionalVehicles_Save g e (NewTransactionalVehicles TheModel) of (g1, _, t) \<Rightarrow>
      TransactionalModel_Commit g1 ((NewTransactionalModel m)\<lparr>tm_vehicles := t\<rparr>) m) =
    (case MemoryVehicles_Save g e (mm_vehicles m) of (g1, _, s) \<Rightarrow>
      (g1, MemoryModel_deliver (m\<lparr>mm_vehicles := s\<rparr>)))"
  using ug_ok_fst [OF assms]
  by (cases "NewUUID g") (simp add: fresh_commit_defs TransactionalVehicles_Save_def MemoryVehicles_Save_eq Let_def)

section \<open>Lines\<close>

lemma deliver_frame [simp]:
  "MemoryModel_deliver (m\<lparr>mm_lines := lns\<rparr>) = (MemoryModel_deliver m)\<lparr>mm_lines := lns\<rparr>"
  "MemoryModel_deliver (m\<lparr>mm_vehicleJourneys := vjs\<rparr>) = (MemoryModel_deliver m)\<lparr>mm_vehicleJourneys := vjs\<rparr>"
  "MemoryModel_deliver (m\<lparr>mm_vehicles := ves\<rparr>) = (MemoryModel_deliver m)\<lparr>mm_vehicles := ves\<rparr>"
  by (simp_all add: MemoryModel_deliver_def broadcastSM_fold broadcastGM_fold Let_def)

lemma deliver_id:
  "msa_broadcastEvent (mm_stopAreas m) = Some [] \<Longrightarrow> msv_broadcastEvent (mm_stopVisits m) = Some [] \<Longrightarrow>
   mst_broadcastEvent (mm_situations m) = Some [] \<Longrightarrow> MemoryModel_deliver m = m"
  by (simp add: MemoryModel_deliver_def log_events_def)

lemma line_wf_newLine [simp]: "line_wf (newLine sha1_hex ev (NewLine r))"
  by (simp add: newLine_def)

lemma newLine_id [simp]: "line_id (newLine sha1_hex ev (NewLine r)) = []"
  by (simp add: newLine_def Line_SetOrigin_def Line_SetObjectID_def NewLine_def)

text \<open>The identifiers a new object is given: the event's own and the default one.\<close>

lemma set_both_objectids:
  "oid_kind x \<noteq> ''_default'' \<Longrightarrow>
   x \<in> set (mvals (Consumer_SetObjectID (NewObjectID ''_default'' h) (Consumer_SetObjectID x [])))"
  by (simp add: Consumer_SetObjectID_def NewObjectID_def)

lemma newLine_objectids:
  "oid_kind (lnu_ObjectId ev) \<noteq> ''_default'' \<Longrightarrow>
   lnu_ObjectId ev \<in> set (mvals (line_objectids (newLine sha1_hex ev (NewLine r))))"
  using set_both_objectids by (simp add: newLine_def Line_SetOrigin_def Line_SetObjectID_def NewLine_def)

lemma updateLine_eq:
  assumes "ug_ok g"
  shows "updateLine now sha1_hex ev g m =
    (case MemoryLines_FindByObjectId (mm_lines m) (lnu_ObjectId ev) of
       None \<Rightarrow> None
     | Some found \<Rightarrow>
         Some (case MemoryLines_Save g (Line_Updated now
                 (case found of Some line \<Rightarrow> line | None \<Rightarrow> newLine sha1_hex ev (NewLine TheModel))) (mm_lines m) of
                 (g1, _, s) \<Rightarrow> (g1, (MemoryModel_deliver m)\<lparr>mm_lines := s\<rparr>)))"
  using commit_line [OF assms]
  by (simp add: updateLine_def Let_def newLine_def split: option.split prod.split) (fastforce split: prod.splits)

text \<open>A line event creates the line when no line has its identifier, with the event's name and
  origin and a default identifier hashed from it, and otherwise only moves the time of collection of
  the line that has it; afterwards the identifier is found and no other line, nor any other part of the
  model, has changed.\<close>

theorem update_line:
  assumes "mm_inv m" and "ug_ok g" and "oid_kind (lnu_ObjectId ev) \<noteq> ''_default''"
  shows "\<exists>g' s line. updateLine now sha1_hex ev g m = Some (g', (MemoryModel_deliver m)\<lparr>mm_lines := s\<rparr>) \<and>
    lines_inv s \<and> ug_ok g' \<and> MemoryLines_FindByObjectId s (lnu_ObjectId ev) = Some (Some line) \<and>
    MemoryLines_Find s = (MemoryLines_Find (mm_lines m))(line_id line \<mapsto> line) \<and>
    (case MemoryLines_FindByObjectId (mm_lines m) (lnu_ObjectId ev) of
       Some (Some old) \<Rightarrow> line = old\<lparr>line_collectedAt := now, line_model := mln_model (mm_lines m)\<rparr>
     | _ \<Rightarrow> line = (newLine sha1_hex ev (NewLine TheModel))\<lparr>line_id := fst (NewUUID g), line_collectedAt := now,
                     line_model := mln_model (mm_lines m)\<rparr>)"
proof (rule mem_lines.find_oid_cases [OF mm_invD(4) [OF assms(1)], of "lnu_ObjectId ev"])
  let ?x = "lnu_ObjectId ev" and ?e = "Line_Updated now (newLine sha1_hex ev (NewLine TheModel))"
  note inv = mm_invD(4) [OF assms(1)]
  assume found: "MemoryLines_FindByObjectId (mm_lines m) ?x = Some None"
  have "?x \<in> set (mvals (line_objectids ?e))"
    using assms(3) by (simp add: newLine_objectids Line_Updated_def del: set_map)
  from mem_lines.upsert [OF inv assms(2) _ this] obtain g' line s where
    save: "MemoryLines_Save g ?e (mm_lines m) = (g', line, s)"
    and facts: "lines_inv s" "ug_ok g'" "MemoryLines_FindByObjectId s ?x = Some (Some line)"
      "MemoryLines_Find s = (MemoryLines_Find (mm_lines m))(line_id line \<mapsto> line)"
    by (metis line_wf_newLine line_wf_ops(2))
  from mem_lines.save_eq [OF save] have "line = (newLine sha1_hex ev (NewLine TheModel))\<lparr>line_id := fst (NewUUID g),
      line_collectedAt := now, line_model := mln_model (mm_lines m)\<rparr>"
    by (simp add: Line_Updated_def newLine_id)
  with facts show ?thesis unfolding updateLine_eq [OF assms(2)] found
    by (intro exI [of _ g'] exI [of _ s] exI [of _ line]) (simp add: save)
next
  let ?x = "lnu_ObjectId ev"
  note inv = mm_invD(4) [OF assms(1)]
  fix old
  assume found: "MemoryLines_FindByObjectId (mm_lines m) ?x = Some (Some old)"
    and old: "line_wf old" "line_id old \<noteq> []" "?x \<in> set (mvals (line_objectids old))"
  from old(3) have "?x \<in> set (mvals (line_objectids (Line_Updated now old)))" by (simp add: Line_Updated_def)
  moreover from old(1) have "line_wf (Line_Updated now old)" by simp
  ultimately obtain g' line s where
    save: "MemoryLines_Save g (Line_Updated now old) (mm_lines m) = (g', line, s)"
    and facts: "lines_inv s" "ug_ok g'" "MemoryLines_FindByObjectId s ?x = Some (Some line)"
      "MemoryLines_Find s = (MemoryLines_Find (mm_lines m))(line_id line \<mapsto> line)"
    using mem_lines.upsert [OF inv assms(2)] by metis
  from mem_lines.save_eq [OF save] old(2)
  have "line = old\<lparr>line_collectedAt := now, line_model := mln_model (mm_lines m)\<rparr>"
    by (simp add: Line_Updated_def)
  with facts show ?thesis unfolding updateLine_eq [OF assms(2)] found
    by (intro exI [of _ g'] exI [of _ s] exI [of _ line]) (simp add: save)
qed

definition example_line_event :: LineUpdateEvent where
  "example_line_event = \<lparr>lnu_Origin = ''p'', lnu_ObjectId = NewObjectID ''k'' ''l'', lnu_Name = ''n''\<rparr>"

theorem update_line_witness:
  "\<exists>g' s line. updateLine 7 (\<lambda>v. v) example_line_event (fake_gen True) (NewMemoryModel 0 None) =
     Some (g', (MemoryModel_deliver (NewMemoryModel 0 None))\<lparr>mm_lines := s\<rparr>) \<and>
     MemoryLines_FindByObjectId s (NewObjectID ''k'' ''l'') = Some (Some line)"
  using update_line [OF mm_inv_new [of 0 None] ug_ok_fake [of True], of example_line_event 7 "\<lambda>v. v"]
  by (simp add: example_line_event_def NewObjectID_def) blast

section \<open>Vehicle journeys\<close>

lemma mwf_fold_Attributes_Set [simp]: "mwf a \<Longrightarrow> mwf (fold (\<lambda>k. Attributes_Set k (h k)) ks a)"
  by (induction ks arbitrary: a) simp_all

lemma mwf_fold_SetObjectId [simp]: "mwf r \<Longrightarrow> mwf (fold (\<lambda>k. References_SetObjectId k (h k)) ks r)"
  by (induction ks arbitrary: r) simp_all

text \<open>The maps an event carries are proper maps.\<close>

definition vju_wf :: "VehicleJourneyUpdateEvent \<Rightarrow> bool" where
  "vju_wf ev \<longleftrightarrow> pred_option mwf (vju_attributes ev) \<and> pred_option mwf (vju_references ev)"

lemma vju_wf_maps [simp]:
  assumes "vju_wf ev"
  shows "mwf (VehicleJourneyUpdateEvent_Attributes ev)" and "mwf (VehicleJourneyUpdateEvent_References ev)"
  using assms
  by (auto simp: vju_wf_def VehicleJourneyUpdateEvent_Attributes_def VehicleJourneyUpdateEvent_References_def
      NewAttributes_def NewReferences_def simp del: fold_simps fold.simps split: option.splits)

lemma vehicle_journey_wf_updated [simp]:
  "vehicle_journey_wf vj \<Longrightarrow> vehicle_journey_wf (updatedVehicleJourney ev vj)"
  by (simp add: updatedVehicleJourney_def Let_def vehicle_journey_wf_def)

lemma vehicle_journey_wf_newVehicleJourney [simp]:
  "vju_wf ev \<Longrightarrow> vehicle_journey_wf (newVehicleJourney sha1_hex ev l (NewVehicleJourney r))"
  by (simp add: newVehicleJourney_def)

lemma updatedVehicleJourney_sel [simp]:
  "vj_id (updatedVehicleJourney ev vj) = vj_id vj"
  "vj_objectids (updatedVehicleJourney ev vj) = vj_objectids vj"
  "vj_LineId (updatedVehicleJourney ev vj) = vj_LineId vj"
  "vj_Monitored (updatedVehicleJourney ev vj) = vju_Monitored ev"
  by (simp_all add: updatedVehicleJourney_def Let_def)

lemma newVehicleJourney_sel [simp]:
  "vj_id (newVehicleJourney sha1_hex ev l vj) = vj_id vj"
  "vj_LineId (newVehicleJourney sha1_hex ev l vj) = line_id l"
  "vj_objectids (newVehicleJourney sha1_hex ev l vj) =
     Consumer_SetObjectID (NewObjectID ''_default'' (HashValue sha1_hex (vju_ObjectId ev)))
       (Consumer_SetObjectID (vju_ObjectId ev) (vj_objectids vj))"
  by (simp_all add: newVehicleJourney_def VehicleJourney_SetObjectID_def)

lemma NewVehicleJourney_sel [simp]:
  "vj_id (NewVehicleJourney r) = []" "vj_objectids (NewVehicleJourney r) = []"
  by (simp_all add: NewVehicleJourney_def)

lemma updateVehicleJourney_eq:
  fixes ev :: VehicleJourneyUpdateEvent and m :: MemoryModel and g :: uuid_gen
  assumes "ug_ok g"
  defines "finish \<equiv> \<lambda>vj. Some (case MemoryVehicleJourneys_Save g (updatedVehicleJourney ev vj)
    (mm_vehicleJourneys m) of (g1, _, s) \<Rightarrow> (g1, (MemoryModel_deliver m)\<lparr>mm_vehicleJourneys := s\<rparr>))"
  shows "updateVehicleJourney sha1_hex ev g m =
    do { found \<leftarrow> MemoryVehicleJourneys_FindByObjectId (mm_vehicleJourneys m) (vju_ObjectId ev);
         (case found of
            Some vj \<Rightarrow> finish vj
          | None \<Rightarrow> do {
              foundLine \<leftarrow> MemoryLines_FindByObjectId (mm_lines m) (vju_LineObjectId ev);
              (case foundLine of
                 None \<Rightarrow> Some (g, m)
               | Some l \<Rightarrow> finish (newVehicleJourney sha1_hex ev l (NewVehicleJourney TheModel))) }) }"
proof -
  have "(case TransactionalVehicleJourneys_Save g (updatedVehicleJourney ev vj)
      (NewTransactionalVehicleJourneys TheModel) of (g1, _, t) \<Rightarrow>
      Some (TransactionalModel_Commit g1 ((NewTransactionalModel m)\<lparr>tm_vehicleJourneys := t\<rparr>) m)) = finish vj" for vj
    using commit_vehicle_journey [OF assms(1), where e = "updatedVehicleJourney ev vj" and m = m]
    unfolding finish_def by (simp split: prod.splits)
  then show ?thesis by (simp add: updateVehicleJourney_def Let_def cong: option.case_cong)
qed

text \<open>The journey an event is about: the one that has its identifier, or a new one on its line.\<close>

definition vj_target ::
  "(string \<Rightarrow> string) \<Rightarrow> VehicleJourneyUpdateEvent \<Rightarrow> uuid_gen \<Rightarrow> MemoryModel \<Rightarrow> VehicleJourney option" where
  "vj_target sha1_hex ev g m =
     (case MemoryVehicleJourneys_FindByObjectId (mm_vehicleJourneys m) (vju_ObjectId ev) of
        Some (Some old) \<Rightarrow> Some old
      | _ \<Rightarrow>
          (case MemoryLines_FindByObjectId (mm_lines m) (vju_LineObjectId ev) of
             Some (Some l) \<Rightarrow> Some ((newVehicleJourney sha1_hex ev l (NewVehicleJourney TheModel))
                                    \<lparr>vj_id := fst (NewUUID g)\<rparr>)
           | _ \<Rightarrow> None))"

lemma updatedVehicleJourney_id:
  "updatedVehicleJourney ev (vj\<lparr>vj_id := i\<rparr>) = (updatedVehicleJourney ev vj)\<lparr>vj_id := i\<rparr>"
  by (simp add: updatedVehicleJourney_def Let_def)

lemma finish_vehicle_journey:
  assumes "mm_inv m" and "ug_ok g" and "vehicle_journey_wf vj0" and "x \<in> set (mvals (vj_objectids vj0))"
  shows "\<exists>g' s vj. MemoryVehicleJourneys_Save g (updatedVehicleJourney ev vj0) (mm_vehicleJourneys m) = (g', vj, s) \<and>
    vehiclejourneys_inv s \<and> ug_ok g' \<and> MemoryVehicleJourneys_FindByObjectId s x = Some (Some vj) \<and>
    MemoryVehicleJourneys_Find s = (MemoryVehicleJourneys_Find (mm_vehicleJourneys m))(vj_id vj \<mapsto> vj) \<and>
    vj = (updatedVehicleJourney ev (if vj_id vj0 = [] then vj0\<lparr>vj_id := fst (NewUUID g)\<rparr> else vj0))
           \<lparr>vj_model := mvj_model (mm_vehicleJourneys m)\<rparr>"
proof -
  from assms(3,4) have e: "vehicle_journey_wf (updatedVehicleJourney ev vj0)"
    "x \<in> set (mvals (vj_objectids (updatedVehicleJourney ev vj0)))" by simp_all
  from mem_vehiclejourneys.upsert [OF mm_invD(3) [OF assms(1)] assms(2) e] obtain g' vj s where
    save: "MemoryVehicleJourneys_Save g (updatedVehicleJourney ev vj0) (mm_vehicleJourneys m) = (g', vj, s)"
    and facts: "vehiclejourneys_inv s" "ug_ok g'"
      "MemoryVehicleJourneys_FindByObjectId s x = Some (Some vj)"
      "MemoryVehicleJourneys_Find s = (MemoryVehicleJourneys_Find (mm_vehicleJourneys m))(vj_id vj \<mapsto> vj)"
    by metis
  from mem_vehiclejourneys.save_eq [OF save]
  have "vj = (updatedVehicleJourney ev (if vj_id vj0 = [] then vj0\<lparr>vj_id := fst (NewUUID g)\<rparr> else vj0))
           \<lparr>vj_model := mvj_model (mm_vehicleJourneys m)\<rparr>"
    by (simp add: updatedVehicleJourney_id)
  with save facts show ?thesis by blast
qed

text \<open>C38. A vehicle journey event is dropped, without any effect, when neither the journey nor its line is
  known. Otherwise the journey is created on that line, or the known one is updated and stays on its own
  line; afterwards the event's identifier finds it, and no other journey, nor any other part of the model,
  has changed.\<close>

theorem update_vehicle_journey:
  assumes "mm_inv m" and "ug_ok g" and "vju_wf ev" and "oid_kind (vju_ObjectId ev) \<noteq> ''_default''"
  shows "case vj_target sha1_hex ev g m of
      None \<Rightarrow> updateVehicleJourney sha1_hex ev g m = Some (g, m)
    | Some vj0 \<Rightarrow>
        \<exists>g' s vj. updateVehicleJourney sha1_hex ev g m =
            Some (g', (MemoryModel_deliver m)\<lparr>mm_vehicleJourneys := s\<rparr>) \<and>
          vehiclejourneys_inv s \<and> ug_ok g' \<and>
          MemoryVehicleJourneys_FindByObjectId s (vju_ObjectId ev) = Some (Some vj) \<and>
          MemoryVehicleJourneys_Find s = (MemoryVehicleJourneys_Find (mm_vehicleJourneys m))(vj_id vj \<mapsto> vj) \<and>
          vj = (updatedVehicleJourney ev vj0)\<lparr>vj_model := mvj_model (mm_vehicleJourneys m)\<rparr>"
proof (rule mem_vehiclejourneys.find_oid_cases [OF mm_invD(3) [OF assms(1)], of "vju_ObjectId ev"])
  fix old
  assume found: "MemoryVehicleJourneys_FindByObjectId (mm_vehicleJourneys m) (vju_ObjectId ev) = Some (Some old)"
    and old: "vehicle_journey_wf old" "vj_id old \<noteq> []" "vju_ObjectId ev \<in> set (mvals (vj_objectids old))"
  from finish_vehicle_journey [OF assms(1,2) old(1,3), of ev] old(2) show ?thesis
    by (auto simp: vj_target_def updateVehicleJourney_eq [OF assms(2)] found)
next
  assume none: "MemoryVehicleJourneys_FindByObjectId (mm_vehicleJourneys m) (vju_ObjectId ev) = Some None"
  show ?thesis
  proof (rule mem_lines.find_oid_cases [OF mm_invD(4) [OF assms(1)], of "vju_LineObjectId ev"])
    assume "MemoryLines_FindByObjectId (mm_lines m) (vju_LineObjectId ev) = Some None"
    then show ?thesis by (simp add: vj_target_def updateVehicleJourney_eq [OF assms(2)] none)
  next
    fix l
    assume line: "MemoryLines_FindByObjectId (mm_lines m) (vju_LineObjectId ev) = Some (Some l)"
    let ?new = "newVehicleJourney sha1_hex ev l (NewVehicleJourney TheModel)"
    have new: "vehicle_journey_wf ?new" "vju_ObjectId ev \<in> set (mvals (vj_objectids ?new))"
      using assms(3) set_both_objectids [OF assms(4)] by simp_all
    from finish_vehicle_journey [OF assms(1,2) new, of ev] show ?thesis
      by (auto simp: vj_target_def updateVehicleJourney_eq [OF assms(2)] none line)
  qed
qed

definition example_line :: Line where
  "example_line = (Line_SetObjectID (NewObjectID ''k'' ''l'') (NewLine NilModel))\<lparr>line_id := ''l1''\<rparr>"

definition example_line_model :: MemoryModel where
  "example_line_model = (NewMemoryModel 0 None)\<lparr>mm_lines :=
     snd (snd (MemoryLines_Save (fake_gen True) example_line (mm_lines (NewMemoryModel 0 None))))\<rparr>"

lemma example_line_model:
  "mm_inv example_line_model"
  "MemoryLines_FindByObjectId (mm_lines example_line_model) (NewObjectID ''k'' ''l'') =
     Some (Some (example_line\<lparr>line_model := TheModel\<rparr>))"
proof -
  let ?s = "mm_lines (NewMemoryModel 0 None)"
  obtain g e s where save: "MemoryLines_Save (fake_gen True) example_line ?s = (g, e, s)"
    by (rule prod_cases3)
  have line: "line_wf example_line" "line_id example_line = ''l1''"
    "line_objectids example_line = [(''k'', NewObjectID ''k'' ''l'')]"
    by (simp_all add: example_line_def Line_SetObjectID_def Consumer_SetObjectID_def NewLine_def
        line_wf_def oids_wf_def mwf_def NewObjectID_def NewAttributes_def NewReferences_def)
  note inv = mm_invD(4) [OF mm_inv_new [of 0 None]]
  have e: "e = example_line\<lparr>line_model := TheModel\<rparr>"
    using mem_lines.save_eq [OF save] line by (simp add: NewMemoryModel_def)
  have m: "example_line_model = (NewMemoryModel 0 None)\<lparr>mm_lines := s\<rparr>"
    by (simp add: example_line_model_def save)
  from mem_lines.inv_save [OF inv line(1) ug_ok_fake save] show "mm_inv example_line_model"
    using mm_inv_new [of 0 None] unfolding m by (simp add: mm_inv_def)
  from mem_lines.find_oid_save [OF inv line(1) ug_ok_fake save, of "NewObjectID ''k'' ''l''"]
  show "MemoryLines_FindByObjectId (mm_lines example_line_model) (NewObjectID ''k'' ''l'') =
     Some (Some (example_line\<lparr>line_model := TheModel\<rparr>))"
    unfolding m e [symmetric] by (simp add: line)
qed

definition example_journey_event :: VehicleJourneyUpdateEvent where
  "example_journey_event =
     \<lparr>vju_Origin = ''p'', vju_ObjectId = NewObjectID ''k'' ''j'', vju_LineObjectId = NewObjectID ''k'' ''l'',
      vju_OriginRef = '''', vju_OriginName = '''', vju_DestinationRef = ''d'', vju_DestinationName = '''',
      vju_Direction = ''out'', vju_Monitored = True, vju_ObjectidKind = ''k'', vju_SiriXML = None,
      vju_attributes = None, vju_references = None\<rparr>"

theorem update_vehicle_journey_witness:
  "\<exists>g' s vj. updateVehicleJourney (\<lambda>v. v) example_journey_event (fake_gen True) example_line_model =
     Some (g', (MemoryModel_deliver example_line_model)\<lparr>mm_vehicleJourneys := s\<rparr>) \<and>
     MemoryVehicleJourneys_FindByObjectId s (NewObjectID ''k'' ''j'') = Some (Some vj) \<and> vj_LineId vj = ''l1''"
proof -
  let ?ev = example_journey_event
  have ev: "vju_wf ?ev" "oid_kind (vju_ObjectId ?ev) \<noteq> ''_default''"
    by (simp_all add: vju_wf_def example_journey_event_def NewObjectID_def)
  have "MemoryVehicleJourneys_FindByObjectId (mm_vehicleJourneys example_line_model) (vju_ObjectId ?ev) = Some None"
    by (simp add: example_line_model_def NewMemoryModel_def MemoryVehicleJourneys_FindByObjectId_def
        NewMemoryVehicleJourneys_def oix.find_empty)
  then obtain vj0 where target: "vj_target (\<lambda>v. v) ?ev (fake_gen True) example_line_model = Some vj0"
    and "vj_LineId vj0 = ''l1''"
    using example_line_model(2)
    by (simp add: vj_target_def example_journey_event_def newVehicleJourney_sel)
      (simp add: example_line_def newVehicleJourney_def)
  have oid: "vju_ObjectId ?ev = NewObjectID ''k'' ''j''" by (simp add: example_journey_event_def)
  obtain g' s vj where "updateVehicleJourney (\<lambda>v. v) ?ev (fake_gen True) example_line_model =
      Some (g', (MemoryModel_deliver example_line_model)\<lparr>mm_vehicleJourneys := s\<rparr>)"
    and "MemoryVehicleJourneys_FindByObjectId s (vju_ObjectId ?ev) = Some (Some vj)"
    and "vj = (updatedVehicleJourney ?ev vj0)\<lparr>vj_model := mvj_model (mm_vehicleJourneys example_line_model)\<rparr>"
    using update_vehicle_journey [OF example_line_model(1) ug_ok_fake [of True] ev, of "\<lambda>v. v"]
    unfolding target option.case by metis
  with \<open>vj_LineId vj0 = ''l1''\<close> show ?thesis unfolding oid
    by (intro exI [of _ g'] exI [of _ s] exI [of _ vj] conjI) simp_all
qed

section \<open>Vehicles\<close>

text \<open>The vehicle an event is about, and what is written into it.\<close>

definition updatedVehicle :: "gotime \<Rightarrow> VehicleUpdateEvent \<Rightarrow> MemoryModel \<Rightarrow> Vehicle \<Rightarrow> Vehicle" where
  "updatedVehicle now ev m vehicle =
     (let seen = (\<lambda>vjId. vehicle\<lparr>veh_VehicleJourneyId := vjId, veh_Longitude := veu_Longitude ev,
            veh_Latitude := veu_Latitude ev, veh_Bearing := veu_Bearing ev, veh_RecordedAtTime := now\<rparr>)
      in (case MemoryVehicleJourneys_FindByObjectId (mm_vehicleJourneys m) (veu_VehicleJourneyObjectId ev) of
            Some (Some vj) \<Rightarrow>
              (case VehicleJourney_Line (mm_lines m) vj of
                 Some l \<Rightarrow> (seen (vj_id vj))\<lparr>veh_LineId := line_id l\<rparr>
               | None \<Rightarrow> seen (vj_id vj))
          | _ \<Rightarrow> seen ''''))"

lemma updatedVehicle_simps [simp]:
  "vehicle_wf (updatedVehicle now ev m v) \<longleftrightarrow> vehicle_wf v"
  "veh_id (updatedVehicle now ev m v) = veh_id v"
  "veh_objectids (updatedVehicle now ev m v) = veh_objectids v"
  by (simp_all add: updatedVehicle_def vehicle_wf_def Let_def split: option.split)

lemma updateVehicle_eq:
  assumes "mm_inv m" and "ug_ok g"
  shows "updateVehicle now ev g m =
    do { found \<leftarrow> MemoryVehicles_FindByObjectId (mm_vehicles m) (veu_ObjectId ev);
         Some (case MemoryVehicles_Save g (updatedVehicle now ev m
                 (case found of Some v \<Rightarrow> v | None \<Rightarrow> Vehicle_SetObjectID (veu_ObjectId ev) (NewVehicle TheModel)))
                 (mm_vehicles m) of
                 (g1, _, s) \<Rightarrow> (g1, (MemoryModel_deliver m)\<lparr>mm_vehicles := s\<rparr>)) }"
proof -
  have commit: "(case TransactionalVehicles_Save g v (NewTransactionalVehicles TheModel) of (g1, _, t) \<Rightarrow>
      Some (TransactionalModel_Commit g1 ((NewTransactionalModel m)\<lparr>tm_vehicles := t\<rparr>) m)) =
      Some (case MemoryVehicles_Save g v (mm_vehicles m) of
        (g1, _, s) \<Rightarrow> (g1, (MemoryModel_deliver m)\<lparr>mm_vehicles := s\<rparr>))" for v
    using commit_vehicle [OF assms(2), where e = v and m = m] by (simp split: prod.splits)
  have zero: "VehicleJourney_Line (mm_lines m) (NewVehicleJourney NilModel) = None"
    "vj_id (NewVehicleJourney NilModel) = ''''"
    by (simp_all add: VehicleJourney_Line_def NewVehicleJourney_def)
  show ?thesis
  proof (rule mem_vehiclejourneys.find_oid_cases [OF mm_invD(3) [OF assms(1)], of "veu_VehicleJourneyObjectId ev"])
    assume "MemoryVehicleJourneys_FindByObjectId (mm_vehicleJourneys m) (veu_VehicleJourneyObjectId ev) = Some None"
    then show ?thesis by (simp add: updateVehicle_def Let_def commit zero updatedVehicle_def cong: option.case_cong)
  next
    fix vj
    assume "MemoryVehicleJourneys_FindByObjectId (mm_vehicleJourneys m) (veu_VehicleJourneyObjectId ev) = Some (Some vj)"
    then show ?thesis
      by (cases "VehicleJourney_Line (mm_lines m) vj")
        (simp_all add: updateVehicle_def Let_def commit updatedVehicle_def cong: option.case_cong)
  qed
qed

text \<open>A vehicle event always records the vehicle's position and time, on the known vehicle or on a new
  one. When its journey is known the vehicle is tied to it and to the journey's line; when it is not, the
  vehicle loses its journey but keeps its line. No other vehicle, nor any other part of the model,
  changes.\<close>

theorem update_vehicle:
  assumes "mm_inv m" and "ug_ok g"
  shows "\<exists>g' s v v0. updateVehicle now ev g m = Some (g', (MemoryModel_deliver m)\<lparr>mm_vehicles := s\<rparr>) \<and>
    vehicles_inv s \<and> ug_ok g' \<and> MemoryVehicles_FindByObjectId s (veu_ObjectId ev) = Some (Some v) \<and>
    MemoryVehicles_Find s = (MemoryVehicles_Find (mm_vehicles m))(veh_id v \<mapsto> v) \<and>
    v = (updatedVehicle now ev m v0)\<lparr>veh_model := mve_model (mm_vehicles m)\<rparr> \<and>
    (case MemoryVehicles_FindByObjectId (mm_vehicles m) (veu_ObjectId ev) of
       Some (Some old) \<Rightarrow> v0 = old
     | _ \<Rightarrow> v0 = (Vehicle_SetObjectID (veu_ObjectId ev) (NewVehicle TheModel))\<lparr>veh_id := fst (NewUUID g)\<rparr>)"
proof -
  note inv = mm_invD(5) [OF assms(1)]
  have save: "\<exists>g' s v. MemoryVehicles_Save g (updatedVehicle now ev m v0) (mm_vehicles m) = (g', v, s) \<and>
      vehicles_inv s \<and> ug_ok g' \<and> MemoryVehicles_FindByObjectId s (veu_ObjectId ev) = Some (Some v) \<and>
      MemoryVehicles_Find s = (MemoryVehicles_Find (mm_vehicles m))(veh_id v \<mapsto> v) \<and>
      v = (updatedVehicle now ev m (if veh_id v0 = [] then v0\<lparr>veh_id := fst (NewUUID g)\<rparr> else v0))
            \<lparr>veh_model := mve_model (mm_vehicles m)\<rparr>"
    if v0: "vehicle_wf v0" "veu_ObjectId ev \<in> set (mvals (veh_objectids v0))" for v0
  proof -
    from v0 have e: "vehicle_wf (updatedVehicle now ev m v0)"
      "veu_ObjectId ev \<in> set (mvals (veh_objectids (updatedVehicle now ev m v0)))" by simp_all
    from mem_vehicles.upsert [OF inv assms(2) e] obtain g' v s where
      save: "MemoryVehicles_Save g (updatedVehicle now ev m v0) (mm_vehicles m) = (g', v, s)"
      and facts: "vehicles_inv s" "ug_ok g'" "MemoryVehicles_FindByObjectId s (veu_ObjectId ev) = Some (Some v)"
        "MemoryVehicles_Find s = (MemoryVehicles_Find (mm_vehicles m))(veh_id v \<mapsto> v)"
      by metis
    have "updatedVehicle now ev m (v0\<lparr>veh_id := i\<rparr>) = (updatedVehicle now ev m v0)\<lparr>veh_id := i\<rparr>" for i
      by (simp add: updatedVehicle_def Let_def split: option.split)
    with mem_vehicles.save_eq [OF save] save facts show ?thesis by auto
  qed
  show ?thesis
  proof (rule mem_vehicles.find_oid_cases [OF inv, of "veu_ObjectId ev"])
    fix old
    assume found: "MemoryVehicles_FindByObjectId (mm_vehicles m) (veu_ObjectId ev) = Some (Some old)"
      and old: "vehicle_wf old" "veh_id old \<noteq> []" "veu_ObjectId ev \<in> set (mvals (veh_objectids old))"
    from save [OF old(1,3)] old(2) show ?thesis by (auto simp: updateVehicle_eq [OF assms] found)
  next
    assume none: "MemoryVehicles_FindByObjectId (mm_vehicles m) (veu_ObjectId ev) = Some None"
    let ?new = "Vehicle_SetObjectID (veu_ObjectId ev) (NewVehicle TheModel)"
    have new: "vehicle_wf ?new" "veu_ObjectId ev \<in> set (mvals (veh_objectids ?new))" "veh_id ?new = []"
      by simp (simp_all add: Vehicle_SetObjectID_def Consumer_SetObjectID_def NewVehicle_def)
    from save [OF new(1,2)] new(3) show ?thesis by (auto simp: updateVehicle_eq [OF assms] none)
  qed
qed

theorem update_vehicle_witness:
  "\<exists>g' s v. updateVehicle 7 \<lparr>veu_ObjectId = NewObjectID ''k'' ''v'',
       veu_VehicleJourneyObjectId = NewObjectID ''k'' ''j'', veu_Longitude = 1, veu_Latitude = 2, veu_Bearing = 3\<rparr>
     (fake_gen True) example_line_model = Some (g', (MemoryModel_deliver example_line_model)\<lparr>mm_vehicles := s\<rparr>) \<and>
     MemoryVehicles_FindByObjectId s (NewObjectID ''k'' ''v'') = Some (Some v)"
  using update_vehicle [OF example_line_model(1) ug_ok_fake [of True], of 7 "\<lparr>veu_ObjectId = NewObjectID ''k'' ''v'',
       veu_VehicleJourneyObjectId = NewObjectID ''k'' ''j'', veu_Longitude = 1, veu_Latitude = 2, veu_Bearing = 3\<rparr>"]
  by auto

section \<open>Visits no longer collected\<close>

lemma deliver_visits:
  "mm_stopVisits (MemoryModel_deliver (m\<lparr>mm_stopVisits := s\<rparr>)) =
     s\<lparr>msv_broadcastEvent := map_option (\<lambda>_. []) (msv_broadcastEvent s)\<rparr>"
  "mm_stopAreas (MemoryModel_deliver (m\<lparr>mm_stopVisits := s\<rparr>)) = mm_stopAreas (MemoryModel_deliver m)"
  "mm_vehicleJourneys (MemoryModel_deliver (m\<lparr>mm_stopVisits := s\<rparr>)) = mm_vehicleJourneys m"
  "mm_lines (MemoryModel_deliver (m\<lparr>mm_stopVisits := s\<rparr>)) = mm_lines m"
  "mm_vehicles (MemoryModel_deliver (m\<lparr>mm_stopVisits := s\<rparr>)) = mm_vehicles m"
  "mm_situations (MemoryModel_deliver (m\<lparr>mm_stopVisits := s\<rparr>)) = mm_situations (MemoryModel_deliver m)"
  "mm_operators (MemoryModel_deliver (m\<lparr>mm_stopVisits := s\<rparr>)) = mm_operators m"
  by simp_all

lemma updateNotCollected_eq:
  assumes "ug_ok g"
  shows "updateNotCollected ev g m =
    do { found \<leftarrow> MemoryStopVisits_FindByObjectId (mm_stopVisits m) (ncu_ObjectId ev);
         (case found of
            None \<Rightarrow> Some (g, m)
          | Some sv \<Rightarrow> Some (case MemoryStopVisits_Save g (StopVisit_NotCollected sv) (mm_stopVisits m) of
              (g1, _, s) \<Rightarrow> (g1, MemoryModel_deliver (m\<lparr>mm_stopVisits := s\<rparr>)))) }"
proof -
  have "(case TransactionalStopVisits_Save g v (NewTransactionalStopVisits TheModel) of (g1, _, t) \<Rightarrow>
      Some (TransactionalModel_Commit g1 ((NewTransactionalModel m)\<lparr>tm_stopVisits := t\<rparr>) m)) =
      Some (case MemoryStopVisits_Save g v (mm_stopVisits m) of
        (g1, _, s) \<Rightarrow> (g1, MemoryModel_deliver (m\<lparr>mm_stopVisits := s\<rparr>)))" for v
    using commit_stop_visit [OF assms, where e = v and m = m] by (simp split: prod.splits)
  then show ?thesis by (simp add: updateNotCollected_def Let_def cong: option.case_cong)
qed

text \<open>The event that a visit is no longer collected marks exactly that visit as not collected, arrival
  cancelled and departed, keeps everything else about it, and changes no other visit; for an unknown
  visit it does nothing. It generates no identifier.\<close>

theorem update_not_collected:
  assumes "mm_inv m" and "ug_ok g"
  shows "case MemoryStopVisits_FindByObjectId (mm_stopVisits m) (ncu_ObjectId ev) of
      Some (Some old) \<Rightarrow>
        \<exists>m'. updateNotCollected ev g m = Some (g, m') \<and> mm_inv m' \<and>
          MemoryStopVisits_Find (mm_stopVisits m') = (MemoryStopVisits_Find (mm_stopVisits m))
            (sv_id old \<mapsto> old\<lparr>sv_collected := False, sv_ArrivalStatus := ''cancelled'',
               sv_DepartureStatus := ''departed'', sv_model := msv_model (mm_stopVisits m)\<rparr>) \<and>
          mm_vehicleJourneys m' = mm_vehicleJourneys m \<and> mm_lines m' = mm_lines m \<and>
          mm_vehicles m' = mm_vehicles m \<and> mm_operators m' = mm_operators m \<and>
          MemoryStopAreas_Find (mm_stopAreas m') = MemoryStopAreas_Find (mm_stopAreas m) \<and>
          MemorySituations_Find (mm_situations m') = MemorySituations_Find (mm_situations m)
    | _ \<Rightarrow> updateNotCollected ev g m = Some (g, m)"
proof (rule mem_stopvisits.find_oid_cases [OF mm_invD(2) [OF assms(1)], of "ncu_ObjectId ev"])
  assume "MemoryStopVisits_FindByObjectId (mm_stopVisits m) (ncu_ObjectId ev) = Some None"
  then show ?thesis by (simp add: updateNotCollected_eq [OF assms(2)])
next
  fix old
  note inv = mm_invD(2) [OF assms(1)]
  assume found: "MemoryStopVisits_FindByObjectId (mm_stopVisits m) (ncu_ObjectId ev) = Some (Some old)"
    and old: "stop_visit_wf old" "sv_id old \<noteq> []" "ncu_ObjectId ev \<in> set (mvals (sv_objectids old))"
  let ?e = "StopVisit_NotCollected old"
  obtain g' sv s where save: "MemoryStopVisits_Save g ?e (mm_stopVisits m) = (g', sv, s)"
    by (rule prod_cases3)
  from old have e: "stop_visit_wf ?e" by simp
  have sv: "g' = g" "sv = old\<lparr>sv_collected := False, sv_ArrivalStatus := ''cancelled'',
       sv_DepartureStatus := ''departed'', sv_model := msv_model (mm_stopVisits m)\<rparr>"
    using mem_stopvisits.save_eq [OF save] old(2)
    by (simp_all add: StopVisit_NotCollected_def STOP_VISIT_ARRIVAL_CANCELLED_def STOP_VISIT_DEPARTURE_DEPARTED_def)
  have "MemoryStopVisits_Find s = (MemoryStopVisits_Find (mm_stopVisits m))(sv_id old \<mapsto> sv)"
    using mem_stopvisits.find_save [OF inv e assms(2) save] sv(2) by (simp add: fun_eq_iff)
  moreover have "mm_inv (MemoryModel_deliver (m\<lparr>mm_stopVisits := s\<rparr>))"
    using assms(1) mem_stopvisits.inv_save [OF inv e assms(2) save] by (simp add: mm_inv_def)
  ultimately show ?thesis
    unfolding updateNotCollected_eq [OF assms(2)] found
    by (simp add: save sv(1) find_log_eq) (simp add: sv(2))
qed

definition example_visit_model :: MemoryModel where
  "example_visit_model = (NewMemoryModel 0 None)\<lparr>mm_stopVisits :=
     snd (snd (MemoryStopVisits_Save (fake_gen True)
       (StopVisit_SetObjectID (NewObjectID ''k'' ''v'') (example_visit ''x'' 9))
       (mm_stopVisits (NewMemoryModel 0 None))))\<rparr>"

lemma example_visit_model:
  "mm_inv example_visit_model"
  "\<exists>sv. MemoryStopVisits_FindByObjectId (mm_stopVisits example_visit_model) (NewObjectID ''k'' ''v'') =
     Some (Some sv) \<and> sv_id sv = ''x''"
proof -
  let ?e = "StopVisit_SetObjectID (NewObjectID ''k'' ''v'') (example_visit ''x'' 9)"
  let ?x = "NewObjectID ''k'' ''v''"
  obtain g sv s where save: "MemoryStopVisits_Save (fake_gen True) ?e (mm_stopVisits (NewMemoryModel 0 None)) = (g, sv, s)"
    by (rule prod_cases3)
  note inv = mm_invD(2) [OF mm_inv_new [of 0 None]]
  have e: "stop_visit_wf ?e" "?x \<in> set (mvals (sv_objectids ?e))" "sv_id ?e = ''x''"
    by simp (simp_all add: StopVisit_SetObjectID_def Consumer_SetObjectID_def example_visit_def NewStopVisit_def)
  have m: "example_visit_model = (NewMemoryModel 0 None)\<lparr>mm_stopVisits := s\<rparr>"
    by (simp add: example_visit_model_def save)
  from mem_stopvisits.inv_save [OF inv e(1) ug_ok_fake save] show "mm_inv example_visit_model"
    using mm_inv_new [of 0 None] unfolding m by (simp add: mm_inv_def)
  from mem_stopvisits.find_oid_save [OF inv e(1) ug_ok_fake save e(2)] mem_stopvisits.save_eq [OF save] e(3)
  show "\<exists>sv. MemoryStopVisits_FindByObjectId (mm_stopVisits example_visit_model) ?x = Some (Some sv) \<and> sv_id sv = ''x''"
    by (simp add: m)
qed

theorem update_not_collected_witness:
  "\<exists>m' sv. updateNotCollected \<lparr>ncu_ObjectId = NewObjectID ''k'' ''v''\<rparr> (fake_gen True) example_visit_model =
     Some (fake_gen True, m') \<and> MemoryStopVisits_Find (mm_stopVisits m') ''x'' = Some sv \<and> \<not> sv_collected sv"
proof -
  obtain sv where sv: "MemoryStopVisits_FindByObjectId (mm_stopVisits example_visit_model)
      (ncu_ObjectId \<lparr>ncu_ObjectId = NewObjectID ''k'' ''v''\<rparr>) = Some (Some sv)" "sv_id sv = ''x''"
    using example_visit_model(2) by auto
  from update_not_collected [OF example_visit_model(1) ug_ok_fake [of True],
      of "\<lparr>ncu_ObjectId = NewObjectID ''k'' ''v''\<rparr>", unfolded sv option.case]
  show ?thesis by (auto simp: sv(2))
qed

section \<open>The status of a partner\<close>

lemma save_each_saved:
  "list_all (\<lambda>sa. sa_id sa \<noteq> []) es \<Longrightarrow>
   save_each g es t = (g, t\<lparr>tsa_saved := fold (\<lambda>sa. mput (sa_id sa) sa) es (tsa_saved t)\<rparr>)"
  unfolding save_each_def
  by (induction es arbitrary: t) (simp_all add: TransactionalStopAreas_Save_def)

lemma save_each_inv:
  assumes "tx_stopareas_inv t" and "list_all (\<lambda>sa. stop_area_wf sa \<and> sa_id sa \<noteq> []) es"
  shows "tx_stopareas_inv (snd (save_each g es t))"
proof -
  have "mwf (fold (\<lambda>sa. mput (sa_id sa) sa) es m) \<and> keyed sa_id (fold (\<lambda>sa. mput (sa_id sa) sa) es m) \<and>
      vals_ok (\<lambda>e. stop_area_wf e \<and> sa_id e \<noteq> []) (fold (\<lambda>sa. mput (sa_id sa) sa) es m)"
    if "mwf m" "keyed sa_id m" "vals_ok (\<lambda>e. stop_area_wf e \<and> sa_id e \<noteq> []) m" for m
    using that assms(2) by (induction es arbitrary: m) simp_all
  moreover have "list_all (\<lambda>sa. sa_id sa \<noteq> []) es" using assms(2) by (simp add: list_all_iff)
  ultimately show ?thesis using assms(1) by (simp add: save_each_saved tx_stopareas_inv_def)
qed

lemma mget_fold_mput_fun:
  "(\<And>e. e \<in> set es \<Longrightarrow> e = f (k e)) \<Longrightarrow>
   mget (fold (\<lambda>e. mput (k e) e) es m) i = (if i \<in> k ` set es then Some (f i) else mget m i)"
proof (induction es arbitrary: m)
  case (Cons e es)
  have "e = f (k e)" by (rule Cons.prems) simp
  with Cons show ?case by (auto simp: mget_mput)
qed simp

lemma committed_nothing [simp]: "committed [] [] seal old = old"
  by (simp add: committed_def mhas_def fun_eq_iff)

lemma tx_with_stop_areas [simp]:
  "tx_stopareas_inv t \<Longrightarrow> tm_inv ((NewTransactionalModel m)\<lparr>tm_stopAreas := t\<rparr>)"
  using tm_inv_new [of m] by (simp add: tm_inv_def)

lemma fresh_saved [simp]:
  "tln_saved (NewTransactionalLines r) = []" "tln_deleted (NewTransactionalLines r) = []"
  "tst_saved (NewTransactionalSituations r) = []" "tst_deleted (NewTransactionalSituations r) = []"
  "tsa_saved (NewTransactionalStopAreas r) = []" "tsa_deleted (NewTransactionalStopAreas r) = []"
  "tsv_saved (NewTransactionalStopVisits r) = []" "tsv_deleted (NewTransactionalStopVisits r) = []"
  "tvj_saved (NewTransactionalVehicleJourneys r) = []" "tvj_deleted (NewTransactionalVehicleJourneys r) = []"
  "top_saved (NewTransactionalOperators r) = []" "top_deleted (NewTransactionalOperators r) = []"
  "tve_saved (NewTransactionalVehicles r) = []" "tve_deleted (NewTransactionalVehicles r) = []"
  by (simp_all add: NewTransactionalLines_def NewTransactionalSituations_def NewTransactionalStopAreas_def
      NewTransactionalStopVisits_def NewTransactionalVehicleJourneys_def NewTransactionalOperators_def
      NewTransactionalVehicles_def)

text \<open>What a transaction on stop areas alone leaves as it was: the other objects, and the model the
  managers belong to.\<close>

definition same_but_stop_areas :: "MemoryModel \<Rightarrow> MemoryModel \<Rightarrow> bool" where
  "same_but_stop_areas m m' \<longleftrightarrow>
     MemoryStopVisits_Find (mm_stopVisits m') = MemoryStopVisits_Find (mm_stopVisits m) \<and>
     MemoryVehicleJourneys_Find (mm_vehicleJourneys m') = MemoryVehicleJourneys_Find (mm_vehicleJourneys m) \<and>
     MemoryLines_Find (mm_lines m') = MemoryLines_Find (mm_lines m) \<and>
     MemorySituations_Find (mm_situations m') = MemorySituations_Find (mm_situations m) \<and>
     MemoryOperators_Find (mm_operators m') = MemoryOperators_Find (mm_operators m) \<and>
     MemoryVehicles_Find (mm_vehicles m') = MemoryVehicles_Find (mm_vehicles m) \<and>
     msa_model (mm_stopAreas m') = msa_model (mm_stopAreas m) \<and>
     msv_model (mm_stopVisits m') = msv_model (mm_stopVisits m) \<and>
     mvj_model (mm_vehicleJourneys m') = mvj_model (mm_vehicleJourneys m)"

text \<open>The shared core of the two handlers that spread a partner's status.\<close>

definition spread ::
  "string \<Rightarrow> bool \<Rightarrow> MemoryModel \<Rightarrow> StopArea list \<Rightarrow> uuid_gen \<Rightarrow> uuid_gen \<times> MemoryModel" where
  "spread partner status m areas g =
     (let (g1, t) = save_each g (map (StopArea_SetPartnerStatus partner status) areas)
                      (NewTransactionalStopAreas TheModel)
      in TransactionalModel_Commit g1 ((NewTransactionalModel m)\<lparr>tm_stopAreas := t\<rparr>) m)"

lemma updateStatus_eq:
  "updateStatus ev g m = map_option (\<lambda>areas. spread (stu_Partner ev) (stu_Status ev) m areas g)
     (MemoryStopAreas_FindAscendants (mm_stopAreas m) (stu_StopAreaId ev))"
  "updateMonitoredStopArea i partner status g m = map_option (\<lambda>areas. spread partner status m areas g)
     (MemoryStopAreas_FindAscendants (mm_stopAreas m) i)"
  by (cases "MemoryStopAreas_FindAscendants (mm_stopAreas m) (stu_StopAreaId ev)")
    (cases "MemoryStopAreas_FindAscendants (mm_stopAreas m) i",
     simp_all add: updateStatus_def updateMonitoredStopArea_def spread_def Let_def split: prod.split)+

lemma StopArea_SetPartnerStatus_sel [simp]:
  "sa_id (StopArea_SetPartnerStatus p b sa) = sa_id sa"
  "sa_ParentId (StopArea_SetPartnerStatus p b sa) = sa_ParentId sa"
  "sa_ReferentId (StopArea_SetPartnerStatus p b sa) = sa_ReferentId sa"
  by (simp_all add: StopArea_SetPartnerStatus_def Let_def)

lemma spread_effect:
  assumes "mm_inv m" and "ug_ok g"
    and "list_all (\<lambda>a. MemoryStopAreas_Find (mm_stopAreas m) (sa_id a) = Some a) areas"
  shows "\<exists>m'. spread p b m areas g = (g, m') \<and> mm_inv m' \<and> same_but_stop_areas m m' \<and>
    MemoryStopAreas_Find (mm_stopAreas m') =
      (\<lambda>i. if i \<in> sa_id ` set areas
            then map_option (\<lambda>sa. (StopArea_SetPartnerStatus p b sa)\<lparr>sa_model := msa_model (mm_stopAreas m)\<rparr>)
                   (MemoryStopAreas_Find (mm_stopAreas m) i)
            else MemoryStopAreas_Find (mm_stopAreas m) i)"
proof -
  let ?es = "map (StopArea_SetPartnerStatus p b) areas" and ?t0 = "NewTransactionalStopAreas TheModel"
  let ?find = "MemoryStopAreas_Find (mm_stopAreas m)"
  note inv = mm_invD(1) [OF assms(1)]
  have es: "list_all (\<lambda>sa. stop_area_wf sa \<and> sa_id sa \<noteq> []) ?es"
    using assms(3) mem_stopareas.find_eid [OF inv] mem_stopareas.find_ewf [OF inv]
    by (auto simp: list_all_iff)
  define saved where "saved = fold (\<lambda>sa. mput (sa_id sa) sa) ?es []"
  have t: "save_each g ?es ?t0 = (g, ?t0\<lparr>tsa_saved := saved\<rparr>)"
    using save_each_saved [of ?es g ?t0] es by (simp add: saved_def list_all_iff)
  with save_each_inv [OF tx_stopareas_inv_new [of TheModel] es, where g = g]
  have "tm_inv ((NewTransactionalModel m)\<lparr>tm_stopAreas := ?t0\<lparr>tsa_saved := saved\<rparr>\<rparr>)" by simp
  note tm = this
  from commit_effect [OF assms(1) tm assms(2)] obtain m' where m':
    "TransactionalModel_Commit g ((NewTransactionalModel m)\<lparr>tm_stopAreas := ?t0\<lparr>tsa_saved := saved\<rparr>\<rparr>) m = (g, m')"
    "mm_inv m'" "same_but_stop_areas m m'"
    "MemoryStopAreas_Find (mm_stopAreas m') =
       committed saved [] (\<lambda>e. e\<lparr>sa_model := msa_model (mm_stopAreas m)\<rparr>) ?find"
    using commit_models [OF assms(1) tm assms(2)] by (auto simp: committed_model_def same_but_stop_areas_def)
  have "e = StopArea_SetPartnerStatus p b (the (?find (sa_id e)))" if "e \<in> set ?es" for e
    using that assms(3) by (auto simp: list_all_iff)
  then have saved_i: "mget saved i =
      (if i \<in> sa_id ` set areas then Some (StopArea_SetPartnerStatus p b (the (?find i))) else None)" for i
    using mget_fold_mput_fun [where f = "\<lambda>i. StopArea_SetPartnerStatus p b (the (?find i))" and k = sa_id
        and es = ?es and m = "[]" and i = i]
    by (simp only: saved_def list.set_map image_image StopArea_SetPartnerStatus_sel map_of.simps)
  have "MemoryStopAreas_Find (mm_stopAreas m') i =
      (if i \<in> sa_id ` set areas
       then map_option (\<lambda>sa. (StopArea_SetPartnerStatus p b sa)\<lparr>sa_model := msa_model (mm_stopAreas m)\<rparr>) (?find i)
       else ?find i)" for i
    using assms(3) unfolding m'(4) committed_def saved_i by (auto simp: list_all_iff mhas_def)
  with m'(1-3) t show ?thesis by (simp add: spread_def fun_eq_iff)
qed

lemma update_status_effect:
  assumes "mm_inv m" and "ug_ok g" and "MemoryStopAreas_Find (mm_stopAreas m) (stu_StopAreaId ev) \<noteq> None"
  shows "let up = (parent_edges (msa_byIdentifier (mm_stopAreas m)))\<^sup>* `` {stu_StopAreaId ev}
    in (case updateStatus ev g m of
      None \<Rightarrow> (\<exists>j \<in> up. (j, j) \<in> (parent_edges (msa_byIdentifier (mm_stopAreas m)))\<^sup>+)
    | Some (g', m') \<Rightarrow> g' = g \<and> mm_inv m' \<and> same_but_stop_areas m m' \<and>
        \<not> (\<exists>j \<in> up. (j, j) \<in> (parent_edges (msa_byIdentifier (mm_stopAreas m)))\<^sup>+) \<and>
        MemoryStopAreas_Find (mm_stopAreas m') =
          (\<lambda>i. if i \<in> up
                then map_option (\<lambda>sa. (StopArea_SetPartnerStatus (stu_Partner ev) (stu_Status ev) sa)
                                        \<lparr>sa_model := msa_model (mm_stopAreas m)\<rparr>)
                       (MemoryStopAreas_Find (mm_stopAreas m) i)
                else MemoryStopAreas_Find (mm_stopAreas m) i))"
proof -
  let ?e = "parent_edges (msa_byIdentifier (mm_stopAreas m))"
  from assms(3) obtain sa where sa: "MemoryStopAreas_Find (mm_stopAreas m) (stu_StopAreaId ev) = Some sa" by blast
  note asc = ascendants_spec [OF mm_invD(1) [OF assms(1)], of "stu_StopAreaId ev", unfolded sa option.case]
  show ?thesis
  proof (cases "MemoryStopAreas_FindAscendants (mm_stopAreas m) (stu_StopAreaId ev)")
    case None
    with asc show ?thesis by (auto simp: updateStatus_eq Let_def)
  next
    case (Some areas)
    from asc [unfolded Some option.case] have up: "sa_id ` set areas = ?e\<^sup>* `` {stu_StopAreaId ev}"
      and stored: "list_all (\<lambda>a. MemoryStopAreas_Find (mm_stopAreas m) (sa_id a) = Some a) areas"
      and acyclic: "\<not> (\<exists>j \<in> ?e\<^sup>* `` {stu_StopAreaId ev}. (j, j) \<in> ?e\<^sup>+)" by auto
    from spread_effect [OF assms(1,2) stored, of "stu_Partner ev" "stu_Status ev"] acyclic Some
    show ?thesis unfolding up Let_def by (auto simp: updateStatus_eq)
  qed
qed

lemma status_cycle:
  assumes "mm_inv m" and "ug_ok g" and "MemoryStopAreas_Find (mm_stopAreas m) (stu_StopAreaId ev) \<noteq> None"
    and "(j, j) \<in> (parent_edges (msa_byIdentifier (mm_stopAreas m)))\<^sup>+"
    and "(stu_StopAreaId ev, j) \<in> (parent_edges (msa_byIdentifier (mm_stopAreas m)))\<^sup>*"
  shows "updateStatus ev g m = None"
  using update_status_effect [OF assms(1-3)] assms(4,5)
  by (auto simp: Let_def split: option.splits prod.splits)

text \<open>C3. A status event reaches exactly the stop area it names and the areas above it through parents and
  referents: each of them has the partner's new status recorded and its monitoring recomputed, and no other
  stop area, nor any other object, changes. It is lost in an endless recursion, whatever the depth, exactly
  when one of these areas is above itself.\<close>

theorem update_status:
  assumes "mm_inv m" and "ug_ok g" and "MemoryStopAreas_Find (mm_stopAreas m) (stu_StopAreaId ev) \<noteq> None"
  shows "let up = (parent_edges (msa_byIdentifier (mm_stopAreas m)))\<^sup>* `` {stu_StopAreaId ev}
    in (case updateStatus ev g m of
      None \<Rightarrow> (\<exists>j \<in> up. (j, j) \<in> (parent_edges (msa_byIdentifier (mm_stopAreas m)))\<^sup>+)
    | Some (g', m') \<Rightarrow> g' = g \<and> mm_inv m' \<and> same_but_stop_areas m m' \<and>
        \<not> (\<exists>j \<in> up. (j, j) \<in> (parent_edges (msa_byIdentifier (mm_stopAreas m)))\<^sup>+) \<and>
        MemoryStopAreas_Find (mm_stopAreas m') =
          (\<lambda>i. if i \<in> up
                then map_option (\<lambda>sa. (StopArea_SetPartnerStatus (stu_Partner ev) (stu_Status ev) sa)
                                        \<lparr>sa_model := msa_model (mm_stopAreas m)\<rparr>)
                       (MemoryStopAreas_Find (mm_stopAreas m) i)
                else MemoryStopAreas_Find (mm_stopAreas m) i))"
  by (rule update_status_effect [OF assms])

definition example_area_model :: MemoryModel where
  "example_area_model = (NewMemoryModel 0 None)\<lparr>mm_stopAreas := example_areas\<rparr>"

lemma example_area_model_inv: "mm_inv example_area_model"
  using mm_inv_new [of 0 None] example_areas_inv by (simp add: mm_inv_def example_area_model_def)

theorem update_status_witness:
  "\<exists>m' sa. updateStatus (NewStatusUpdateEvent ''b'' ''p'' False) (fake_gen True) example_area_model =
     Some (fake_gen True, m') \<and> MemoryStopAreas_Find (mm_stopAreas m') ''b'' = Some sa \<and> \<not> sa_Monitored sa"
proof -
  let ?ev = "NewStatusUpdateEvent ''b'' ''p'' False" and ?m = example_area_model
  have b: "MemoryStopAreas_Find (mm_stopAreas ?m) (stu_StopAreaId ?ev) = Some example_area"
    "stu_StopAreaId ?ev = ''b''" "stu_Partner ?ev = ''p''" "stu_Status ?ev = False"
    by (simp_all add: example_area_model_def NewStatusUpdateEvent_def mem_stopareas.find_mget
        example_areas_inv example_areas_table)
  have "MemoryStopAreas_FindAscendants (mm_stopAreas ?m) ''b'' \<noteq> None"
    by (simp add: MemoryStopAreas_FindAscendants_def example_area_model_def
        example_areas_table example_area_def NewStopArea_def)
  then have "updateStatus ?ev (fake_gen True) ?m \<noteq> None" by (simp add: updateStatus_eq b)
  then obtain r where "updateStatus ?ev (fake_gen True) ?m = Some r" by blast
  moreover obtain g' m' where "r = (g', m')" by (rule prod.exhaust)
  ultimately have "updateStatus ?ev (fake_gen True) ?m = Some (g', m')" by simp
  with update_status [OF example_area_model_inv ug_ok_fake [of True], of ?ev] b
  show ?thesis
    by (auto simp: Let_def example_area_def StopArea_SetPartnerStatus_def NewStopArea_def NewStopAreaOrigins_def
        Origins_SetPartnerStatus_def)
qed

section \<open>Stop areas\<close>

lemma newStopArea_sel [simp]:
  "stop_area_wf sa \<Longrightarrow> stop_area_wf (newStopArea ev sa)"
  "sa_id (newStopArea ev sa) = sa_id sa" "sa_ParentId (newStopArea ev sa) = sa_ParentId sa"
  "sa_ReferentId (newStopArea ev sa) = sa_ReferentId sa"
  "sa_objectids (newStopArea ev sa) = Consumer_SetObjectID (sau_ObjectId ev) (sa_objectids sa)"
  by (simp_all add: newStopArea_def) (simp_all add: StopArea_SetObjectID_def)

lemma NewStopArea_sel [simp]:
  "sa_id (NewStopArea r) = []" "sa_ParentId (NewStopArea r) = []" "sa_ReferentId (NewStopArea r) = []"
  by (simp_all add: NewStopArea_def)

text \<open>The stop area as the event leaves it: the known one or a new one, attached to the parent the event
  names unless it already has a parent, and collected now.\<close>

definition updatedStopArea :: "gotime \<Rightarrow> StopAreaUpdateEvent \<Rightarrow> MemoryModel \<Rightarrow> StopArea" where
  "updatedStopArea now ev m =
     (let sa = (case MemoryStopAreas_FindByObjectId (mm_stopAreas m) (sau_ObjectId ev) of
                  Some (Some old) \<Rightarrow> old
                | _ \<Rightarrow> newStopArea ev (NewStopArea TheModel));
          parent = (case MemoryStopAreas_FindByObjectId (mm_stopAreas m) (sau_ParentObjectId ev) of
                      Some (Some p) \<Rightarrow> sa_id p | _ \<Rightarrow> '''')
      in StopArea_Updated now
           (if sa_ParentId sa = '''' \<and> oid_value (sau_ParentObjectId ev) \<noteq> ''''
            then sa\<lparr>sa_ParentId := parent\<rparr> else sa))"

lemma updateStopArea_eq:
  assumes "mm_inv m" and "ug_ok g"
  shows "updateStopArea now ev g m =
    (case MemoryStopAreas_Save g (updatedStopArea now ev m) (mm_stopAreas m) of
       (g1, sa, s) \<Rightarrow>
         (if sau_Origin ev \<noteq> '''' \<and> Origins_Origin (sa_Origins sa) (sau_Origin ev) \<noteq> (True, True)
          then updateStatus (NewStatusUpdateEvent (sa_id sa) (sau_Origin ev) True) g1
                 (MemoryModel_deliver (m\<lparr>mm_stopAreas := s\<rparr>))
          else Some (g1, MemoryModel_deliver (m\<lparr>mm_stopAreas := s\<rparr>))))"
proof -
  let ?e = "updatedStopArea now ev m"
  obtain g1 e1 t where save: "TransactionalStopAreas_Save g ?e (NewTransactionalStopAreas TheModel) = (g1, e1, t)"
    by (rule prod_cases3)
  obtain g2 e2 s where msave: "MemoryStopAreas_Save g ?e (mm_stopAreas m) = (g2, e2, s)" by (rule prod_cases3)
  have same: "sa_Origins e1 = sa_Origins e2" "sa_id e1 = sa_id e2"
    using save msave by (auto simp: TransactionalStopAreas_Save_def MemoryStopAreas_Save_eq Let_def
        split: if_splits prod.splits)
  from commit_stop_area [OF assms(2), where e = ?e and m = m]
  have commit: "TransactionalModel_Commit g1 ((NewTransactionalModel m)\<lparr>tm_stopAreas := t\<rparr>) m =
      (g2, MemoryModel_deliver (m\<lparr>mm_stopAreas := s\<rparr>))" by (simp add: save msave)
  have some_if: "(if P then Some a else Some b) = Some (if P then a else b)" for P and a b :: StopArea by simp
  obtain found parent where
    f: "MemoryStopAreas_FindByObjectId (mm_stopAreas m) (sau_ObjectId ev) = Some found"
      "MemoryStopAreas_FindByObjectId (mm_stopAreas m) (sau_ParentObjectId ev) = Some parent"
    using mem_stopareas.find_oid_no_crash [OF mm_invD(1) [OF assms(1)]] by blast
  have upd: "StopArea_Updated now
      (if sa_ParentId (case found of Some old \<Rightarrow> old | None \<Rightarrow> newStopArea ev (NewStopArea TheModel)) = '''' \<and>
          oid_value (sau_ParentObjectId ev) \<noteq> ''''
       then (case found of Some old \<Rightarrow> old | None \<Rightarrow> newStopArea ev (NewStopArea TheModel))
              \<lparr>sa_ParentId := (case parent of Some p \<Rightarrow> sa_id p | None \<Rightarrow> '''')\<rparr>
       else (case found of Some old \<Rightarrow> old | None \<Rightarrow> newStopArea ev (NewStopArea TheModel))) = ?e"
    by (simp add: updatedStopArea_def f Let_def split: option.split)
  have handler: "updateStopArea now ev g m =
      (if sau_Origin ev \<noteq> '''' then
         (case Origins_Origin (sa_Origins e1) (sau_Origin ev) of (status, ok) \<Rightarrow>
            if \<not> status \<or> \<not> ok
            then updateStatus (NewStatusUpdateEvent (sa_id e1) (sau_Origin ev) True) g2
                   (MemoryModel_deliver (m\<lparr>mm_stopAreas := s\<rparr>))
            else Some (g2, MemoryModel_deliver (m\<lparr>mm_stopAreas := s\<rparr>)))
       else Some (g2, MemoryModel_deliver (m\<lparr>mm_stopAreas := s\<rparr>)))"
    unfolding updateStopArea_def Let_def fresh_tx fresh_find_oid fresh_new f Option.bind.simps some_if
      upd save commit prod.case ..
  show ?thesis unfolding handler msave prod.case same by (auto split: prod.split)
qed

lemma update_stop_area_effect:
  assumes "mm_inv m" and "ug_ok g"
  shows "\<exists>g1 m1 sa. mm_inv m1 \<and> ug_ok g1 \<and> same_but_stop_areas m m1 \<and>
    MemoryStopAreas_FindByObjectId (mm_stopAreas m1) (sau_ObjectId ev) = Some (Some sa) \<and>
    MemoryStopAreas_Find (mm_stopAreas m1) = (MemoryStopAreas_Find (mm_stopAreas m))(sa_id sa \<mapsto> sa) \<and>
    sa = (let e = updatedStopArea now ev m
          in e\<lparr>sa_id := (if sa_id e = '''' then fst (NewUUID g) else sa_id e),
               sa_model := msa_model (mm_stopAreas m)\<rparr>) \<and>
    updateStopArea now ev g m =
      (if sau_Origin ev \<noteq> '''' \<and> Origins_Origin (sa_Origins sa) (sau_Origin ev) \<noteq> (True, True)
       then updateStatus (NewStatusUpdateEvent (sa_id sa) (sau_Origin ev) True) g1 m1
       else Some (g1, m1))"
proof -
  let ?e = "updatedStopArea now ev m" and ?x = "sau_ObjectId ev"
  note inv = mm_invD(1) [OF assms(1)]
  have e: "stop_area_wf ?e \<and> ?x \<in> set (mvals (sa_objectids ?e))"
  proof (rule mem_stopareas.find_oid_cases [OF inv, of ?x])
    assume "MemoryStopAreas_FindByObjectId (mm_stopAreas m) ?x = Some None"
    then show ?thesis by (simp add: updatedStopArea_def Let_def)
        (simp add: StopArea_Updated_def NewStopArea_def Consumer_SetObjectID_def)
  next
    fix old
    assume "MemoryStopAreas_FindByObjectId (mm_stopAreas m) ?x = Some (Some old)" "stop_area_wf old"
      "?x \<in> set (mvals (sa_objectids old))"
    then show ?thesis by (simp add: updatedStopArea_def Let_def) (simp add: StopArea_Updated_def)
  qed
  from mem_stopareas.upsert [OF inv assms(2), of ?e ?x] e obtain g1 sa s where
    save: "MemoryStopAreas_Save g ?e (mm_stopAreas m) = (g1, sa, s)"
    and facts: "stopareas_inv s" "ug_ok g1" "MemoryStopAreas_FindByObjectId s ?x = Some (Some sa)"
      "MemoryStopAreas_Find s = (MemoryStopAreas_Find (mm_stopAreas m))(sa_id sa \<mapsto> sa)"
    by metis
  let ?m1 = "MemoryModel_deliver (m\<lparr>mm_stopAreas := s\<rparr>)"
  have find: "MemoryStopAreas_FindByObjectId (s\<lparr>msa_broadcastEvent := b\<rparr>) ?x = MemoryStopAreas_FindByObjectId s ?x" for b
    by (simp add: MemoryStopAreas_FindByObjectId_def cong: option.case_cong)
  have "msa_model s = msa_model (mm_stopAreas m)"
    using save by (auto simp: MemoryStopAreas_Save_eq Let_def)
  then have "mm_inv ?m1" "same_but_stop_areas m ?m1"
    using assms(1) facts(1) by (simp_all add: mm_inv_def same_but_stop_areas_def find_log_eq)
  moreover have "sa = (let e = ?e in e\<lparr>sa_id := (if sa_id e = '''' then fst (NewUUID g) else sa_id e),
      sa_model := msa_model (mm_stopAreas m)\<rparr>)"
    using mem_stopareas.save_eq [OF save] by (simp add: Let_def)
  ultimately show ?thesis
    unfolding updateStopArea_eq [OF assms] save prod.case
    by (intro exI [of _ g1] exI [of _ ?m1] exI [of _ sa]) (simp add: facts find find_log_eq)
qed

text \<open>C2. A stop area event creates the area it names or updates the known one, gives it the parent the
  event names only if it has none, and stamps the time of collection; afterwards its identifier finds it and
  no other area has changed. When the event has an origin that the area does not have as up, the origin's
  status is then spread to the area and everything above it.\<close>

theorem update_stop_area:
  assumes "mm_inv m" and "ug_ok g"
  shows "\<exists>g1 m1 sa. mm_inv m1 \<and> ug_ok g1 \<and> same_but_stop_areas m m1 \<and>
    MemoryStopAreas_FindByObjectId (mm_stopAreas m1) (sau_ObjectId ev) = Some (Some sa) \<and>
    MemoryStopAreas_Find (mm_stopAreas m1) = (MemoryStopAreas_Find (mm_stopAreas m))(sa_id sa \<mapsto> sa) \<and>
    sa = (let e = updatedStopArea now ev m
          in e\<lparr>sa_id := (if sa_id e = '''' then fst (NewUUID g) else sa_id e),
               sa_model := msa_model (mm_stopAreas m)\<rparr>) \<and>
    updateStopArea now ev g m =
      (if sau_Origin ev \<noteq> '''' \<and> Origins_Origin (sa_Origins sa) (sau_Origin ev) \<noteq> (True, True)
       then updateStatus (NewStatusUpdateEvent (sa_id sa) (sau_Origin ev) True) g1 m1
       else Some (g1, m1))"
  by (rule update_stop_area_effect [OF assms])

definition example_stop_area_event :: "string \<Rightarrow> string \<Rightarrow> StopAreaUpdateEvent" where
  "example_stop_area_event v parent =
     \<lparr>sau_Origin = ''p'', sau_ObjectId = NewObjectID ''k'' v, sau_ParentObjectId = NewObjectID ''k'' parent,
      sau_Name = ''n'', sau_CollectedAlways = False, sau_Longitude = 1, sau_Latitude = 2\<rparr>"

theorem update_stop_area_witness:
  "\<exists>(m1::MemoryModel) sa. MemoryStopAreas_FindByObjectId (mm_stopAreas m1) (NewObjectID ''k'' ''a'') = Some (Some sa) \<and>
     MemoryStopAreas_Find (mm_stopAreas m1) = (MemoryStopAreas_Find (mm_stopAreas example_area_model))(sa_id sa \<mapsto> sa)"
proof -
  have e: "sau_ObjectId (example_stop_area_event v p) = NewObjectID ''k'' v" for v p
    by (simp add: example_stop_area_event_def)
  from update_stop_area [OF example_area_model_inv ug_ok_fake [of True],
      where ev = "example_stop_area_event ''a'' ''''" and now = 7]
  obtain m1 :: MemoryModel and sa where
    "MemoryStopAreas_FindByObjectId (mm_stopAreas m1) (NewObjectID ''k'' ''a'') = Some (Some sa)"
    "MemoryStopAreas_Find (mm_stopAreas m1) = (MemoryStopAreas_Find (mm_stopAreas example_area_model))(sa_id sa \<mapsto> sa)"
    unfolding e by blast
  then show ?thesis by (intro exI [of _ m1] exI [of _ sa] conjI)
qed

subsection \<open>The hierarchy\<close>

text \<open>The edges of the hierarchy, from what \<^verbatim>\<open>Find\<close> returns.\<close>

lemma parent_edges_find:
  assumes "stopareas_inv s"
  shows "(i, j) \<in> parent_edges (msa_byIdentifier s) \<longleftrightarrow>
    (\<exists>sa. MemoryStopAreas_Find s i = Some sa \<and> (sa_ParentId sa = j \<or> sa_ReferentId sa = j)) \<and>
    MemoryStopAreas_Find s j \<noteq> None"
  using mem_stopareas.find_eid [OF assms, of j]
  unfolding parent_edges_def MemoryStopAreas_Find_eq [OF assms] by auto

text \<open>C36. A parent that the event names is taken without looking at the hierarchy. Let the area of the event and
  the parent it names be known, the area have no parent, the named parent be the area itself or below it, and the
  origin of the event be neither empty nor already up at the area. Then the area is saved with that parent, which
  closes a cycle through it, and the origin's status is spread along the cycle: the program dies of endless
  recursion.\<close>

theorem stop_area_cycle:
  assumes "mm_inv m" and "ug_ok g"
    and "MemoryStopAreas_FindByObjectId (mm_stopAreas m) (sau_ObjectId ev) = Some (Some a)"
    and "MemoryStopAreas_FindByObjectId (mm_stopAreas m) (sau_ParentObjectId ev) = Some (Some b)"
    and "oid_value (sau_ParentObjectId ev) \<noteq> ''''" and "sa_ParentId a = ''''"
    and "(sa_id b, sa_id a) \<in> (parent_edges (msa_byIdentifier (mm_stopAreas m)))\<^sup>*"
    and "sau_Origin ev \<noteq> ''''" and "Origins_Origin (sa_Origins a) (sau_Origin ev) \<noteq> (True, True)"
  shows "\<exists>g1 m1 sa. MemoryStopAreas_Find (mm_stopAreas m1) = (MemoryStopAreas_Find (mm_stopAreas m))(sa_id a \<mapsto> sa) \<and>
    sa_ParentId sa = sa_id b \<and> (sa_id a, sa_id a) \<in> (parent_edges (msa_byIdentifier (mm_stopAreas m1)))\<^sup>+ \<and>
    updateStopArea now ev g m = updateStatus (NewStatusUpdateEvent (sa_id a) (sau_Origin ev) True) g1 m1 \<and>
    updateStopArea now ev g m = None"
proof -
  note inv = mm_invD(1) [OF assms(1)]
  from mem_stopareas.find_oid_sound [OF inv] assms(3,4)
  have a: "MemoryStopAreas_Find (mm_stopAreas m) (sa_id a) = Some a"
    and b: "MemoryStopAreas_Find (mm_stopAreas m) (sa_id b) = Some b" by blast+
  from mem_stopareas.find_eid [OF inv a] mem_stopareas.find_eid [OF inv b]
  have ids: "sa_id a \<noteq> []" "sa_id b \<noteq> []" by simp_all
  obtain g1 m1 sa where m1: "mm_inv m1" "ug_ok g1"
      "MemoryStopAreas_Find (mm_stopAreas m1) = (MemoryStopAreas_Find (mm_stopAreas m))(sa_id sa \<mapsto> sa)"
    and sa: "sa = (let e = updatedStopArea now ev m
          in e\<lparr>sa_id := (if sa_id e = '''' then fst (NewUUID g) else sa_id e),
               sa_model := msa_model (mm_stopAreas m)\<rparr>)"
    and upd: "updateStopArea now ev g m =
      (if sau_Origin ev \<noteq> '''' \<and> Origins_Origin (sa_Origins sa) (sau_Origin ev) \<noteq> (True, True)
       then updateStatus (NewStatusUpdateEvent (sa_id sa) (sau_Origin ev) True) g1 m1
       else Some (g1, m1))"
    using update_stop_area_effect [OF assms(1,2), where now = now and ev = ev] by blast
  have sa': "sa_id sa = sa_id a" "sa_ParentId sa = sa_id b" "sa_ReferentId sa = sa_ReferentId a"
    "sa_Origins sa = sa_Origins a"
    using sa ids assms(3-6) by (simp_all add: updatedStopArea_def Let_def StopArea_Updated_def)
  let ?e = "parent_edges (msa_byIdentifier (mm_stopAreas m))"
  let ?e1 = "parent_edges (msa_byIdentifier (mm_stopAreas m1))"
  note edges = parent_edges_find [OF inv] and edges1 = parent_edges_find [OF mm_invD(1) [OF m1(1)]]
  have "?e \<subseteq> ?e1"
  proof
    fix p assume p: "p \<in> ?e"
    obtain i j where ij: "p = (i, j)" by (rule prod.exhaust)
    from p have "j \<noteq> []" unfolding ij parent_edges_def by auto
    with p a assms(6) show "p \<in> ?e1"
      unfolding ij edges edges1 m1(3) sa'(1) by (auto simp: sa' split: if_splits)
  qed
  moreover have "(sa_id a, sa_id b) \<in> ?e1"
    unfolding edges1 m1(3) using b by (auto simp: sa')
  ultimately have cycle: "(sa_id a, sa_id a) \<in> ?e1\<^sup>+"
    using assms(7) rtrancl_mono [of ?e ?e1] by (meson rtrancl_into_trancl2 subsetD)
  have "updateStatus (NewStatusUpdateEvent (sa_id sa) (sau_Origin ev) True) g1 m1 = None"
  proof (rule status_cycle [OF m1(1,2)])
    show "MemoryStopAreas_Find (mm_stopAreas m1)
        (stu_StopAreaId (NewStatusUpdateEvent (sa_id sa) (sau_Origin ev) True)) \<noteq> None"
      by (simp add: NewStatusUpdateEvent_def m1(3))
    show "(sa_id a, sa_id a) \<in> ?e1\<^sup>+" by (rule cycle)
    show "(stu_StopAreaId (NewStatusUpdateEvent (sa_id sa) (sau_Origin ev) True), sa_id a) \<in> ?e1\<^sup>*"
      by (simp add: NewStatusUpdateEvent_def sa')
  qed
  then show ?thesis using assms(8,9) m1(3) cycle
    by (intro exI [of _ g1] exI [of _ m1] exI [of _ sa]) (simp add: upd sa')
qed

definition example_cycle_model :: MemoryModel where
  "example_cycle_model = (NewMemoryModel 0 None)\<lparr>mm_stopAreas :=
     snd (save_all MemoryStopAreas_Save
       [StopArea_SetObjectID (NewObjectID ''k'' ''a'') (example_area\<lparr>sa_id := ''a'', sa_ParentId := ''''\<rparr>),
        StopArea_SetObjectID (NewObjectID ''k'' ''b'') example_area] (fake_gen True, NewMemoryStopAreas))\<rparr>"

definition example_area_a :: StopArea where
  "example_area_a = StopArea_SetObjectID (NewObjectID ''k'' ''a'') (example_area\<lparr>sa_id := ''a'', sa_ParentId := ''''\<rparr>)"

definition example_area_b :: StopArea where
  "example_area_b = StopArea_SetObjectID (NewObjectID ''k'' ''b'') example_area"

lemma example_area_ab:
  "sa_id example_area_a = ''a''" "sa_id example_area_b = ''b''" "sa_ParentId example_area_b = ''a''"
  "sa_ParentId example_area_a = ''''" "sa_ReferentId example_area_a = ''''" "sa_ReferentId example_area_b = ''''"
  "sa_objectids example_area_a = [(''k'', NewObjectID ''k'' ''a'')]"
  "sa_objectids example_area_b = [(''k'', NewObjectID ''k'' ''b'')]"
  "sa_model example_area_a = NilModel" "sa_model example_area_b = NilModel"
  "sa_Origins example_area_a = []" "sa_Origins example_area_b = []"
  by (simp_all add: example_area_a_def example_area_b_def StopArea_SetObjectID_def example_area_def NewStopArea_def
      Consumer_SetObjectID_def NewObjectID_def NewStopAreaOrigins_def)

lemma example_area_ab_wf: "stop_area_wf example_area_a" "stop_area_wf example_area_b"
  by (simp_all add: example_area_a_def example_area_b_def example_area_def)

lemma example_cycle_model:
  "mm_inv example_cycle_model"
  "msa_byIdentifier (mm_stopAreas example_cycle_model) = [(''a'', example_area_a), (''b'', example_area_b)]"
  "MemoryStopAreas_FindByObjectId (mm_stopAreas example_cycle_model) (NewObjectID ''k'' ''a'') = Some (Some example_area_a)"
  "MemoryStopAreas_FindByObjectId (mm_stopAreas example_cycle_model) (NewObjectID ''k'' ''b'') = Some (Some example_area_b)"
proof -
  have "list_all stop_area_wf [example_area_a, example_area_b]" by (simp add: example_area_ab_wf)
  from mem_stopareas.save_all_inv [OF _ ug_ok_fake this, of NewMemoryStopAreas True]
  show "mm_inv example_cycle_model"
    using mm_inv_new [of 0 None]
    by (simp add: mm_inv_def example_cycle_model_def example_area_a_def example_area_b_def)
  have sealed: "example_area_a\<lparr>sa_model := NilModel\<rparr> = example_area_a"
    "example_area_b\<lparr>sa_model := NilModel\<rparr> = example_area_b"
    using example_area_ab(9,10) by simp_all
  have table: "msa_byIdentifier (mm_stopAreas example_cycle_model) = [(''a'', example_area_a), (''b'', example_area_b)]"
    "msa_byObjectId (mm_stopAreas example_cycle_model) =
       \<lparr>oix_byObjectid = [(NewObjectID ''k'' ''a'', ''a''), (NewObjectID ''k'' ''b'', ''b'')],
        oix_byIdentifier = [(''a'', [(''k'', NewObjectID ''k'' ''a'')]), (''b'', [(''k'', NewObjectID ''k'' ''b'')])]\<rparr>"
    unfolding example_cycle_model_def example_area_a_def [symmetric] example_area_b_def [symmetric]
    by (simp_all add: MemoryStopAreas_Save_eq Let_def example_area_ab sealed NewMemoryStopAreas_def
        ObjectIdIndex_Index_def NewObjectIdIndex_def mget_or_def)
      (simp_all add: NewObjectID_def)
  then show "msa_byIdentifier (mm_stopAreas example_cycle_model) = [(''a'', example_area_a), (''b'', example_area_b)]"
    by simp
  show "MemoryStopAreas_FindByObjectId (mm_stopAreas example_cycle_model) (NewObjectID ''k'' ''a'') = Some (Some example_area_a)"
    and "MemoryStopAreas_FindByObjectId (mm_stopAreas example_cycle_model) (NewObjectID ''k'' ''b'') = Some (Some example_area_b)"
    using example_area_ab_wf
    by (simp_all add: MemoryStopAreas_FindByObjectId_def table ObjectIdIndex_Find_def) (simp_all add: NewObjectID_def)
qed

theorem stop_area_cycle_witness:
  "updateStopArea 7 (example_stop_area_event ''a'' ''b'') (fake_gen True) example_cycle_model = None"
proof -
  let ?ev = "example_stop_area_event ''a'' ''b''"
  have found: "MemoryStopAreas_FindByObjectId (mm_stopAreas example_cycle_model) (sau_ObjectId ?ev) = Some (Some example_area_a)"
    "MemoryStopAreas_FindByObjectId (mm_stopAreas example_cycle_model) (sau_ParentObjectId ?ev) = Some (Some example_area_b)"
    by (simp_all add: example_cycle_model(3,4) example_stop_area_event_def)
  have named: "oid_value (sau_ParentObjectId ?ev) \<noteq> ''''" "sa_ParentId example_area_a = ''''" "sau_Origin ?ev \<noteq> ''''"
    by (simp_all add: example_area_ab example_stop_area_event_def NewObjectID_def)
  have "(''b'', ''a'') \<in> parent_edges (msa_byIdentifier (mm_stopAreas example_cycle_model))"
    unfolding example_cycle_model(2) parent_edges_def by (simp add: example_area_ab)
  then have below: "(sa_id example_area_b, sa_id example_area_a)
      \<in> (parent_edges (msa_byIdentifier (mm_stopAreas example_cycle_model)))\<^sup>*"
    by (simp add: example_area_ab)
  have origin: "Origins_Origin (sa_Origins example_area_a) (sau_Origin ?ev) \<noteq> (True, True)"
    by (simp add: example_area_ab Origins_Origin_def mhas_def)
  show ?thesis
    using stop_area_cycle [OF example_cycle_model(1) ug_ok_fake found named(1,2) below named(3) origin] by blast
qed

end
