(* ===== verification/VisitUpdates.thy ===== *)
theory VisitUpdates
  imports UpdateProps
begin

text \<open>
  The stop visit handler of \<open>Updates\<close>: when it drops an event, what it writes into the visit, the
  journey and the stop areas, and the status it loses on the way.
\<close>

section \<open>The parts of the handler\<close>

text \<open>The maps an event carries are proper maps.\<close>

definition svu_wf :: "StopVisitUpdateEvent \<Rightarrow> bool" where
  "svu_wf ev \<longleftrightarrow> pred_option mwf (svu_attributes ev) \<and> pred_option mwf (svu_references ev)"

lemma svu_wf_maps [simp]:
  assumes "svu_wf ev"
  shows "mwf (StopVisitUpdateEvent_Attributes ev)" and "mwf (StopVisitUpdateEvent_References ev)"
  using assms
  by (auto simp: svu_wf_def StopVisitUpdateEvent_Attributes_def StopVisitUpdateEvent_References_def
      NewAttributes_def NewReferences_def simp del: fold_simps fold.simps split: option.splits)

lemma NewStopVisit_sel [simp]:
  "sv_id (NewStopVisit r) = []" "sv_objectids (NewStopVisit r) = []"
  by (simp_all add: NewStopVisit_def)

lemma updatedStopVisit_found [simp]:
  "sv_id (updatedStopVisit now h ev sa vj (Some old) new) = sv_id old"
  "sv_objectids (updatedStopVisit now h ev sa vj (Some old) new) = sv_objectids old"
  "stop_visit_wf old \<Longrightarrow> stop_visit_wf (updatedStopVisit now h ev sa vj (Some old) new)"
  by (simp_all add: updatedStopVisit_def Let_def StopVisit_Collected_def stop_visit_wf_def)

lemma updatedStopVisit_new [simp]:
  "sv_id (updatedStopVisit now h ev sa vj None (NewStopVisit r)) = []"
  "svu_ObjectId ev \<in> set (mvals (sv_objectids (updatedStopVisit now h ev sa vj None (NewStopVisit r))))
     \<longleftrightarrow> svu_ObjectId ev \<in> set (mvals (Consumer_SetObjectID
           (NewObjectID ''_default'' (HashValue h (svu_ObjectId ev))) (Consumer_SetObjectID (svu_ObjectId ev) [])))"
  "svu_wf ev \<Longrightarrow> stop_visit_wf (updatedStopVisit now h ev sa vj None (NewStopVisit r))"
  by (simp_all add: updatedStopVisit_def Let_def StopVisit_Collected_def StopVisit_SetObjectID_def
      stop_visit_wf_def NewStopVisit_def NewAttributes_def NewReferences_def NewStopVisitSchedules_def)

text \<open>Only the identifier of the stop area goes into the visit.\<close>

lemma updatedStopVisit_area:
  "sa_id sa = sa_id sa' \<Longrightarrow> updatedStopVisit now h ev sa vj found new = updatedStopVisit now h ev sa' vj found new"
  by (cases found) (simp_all add: updatedStopVisit_def Let_def)

text \<open>A stop area with the line of the journey added to it, if there is one.\<close>

definition with_line :: "Line option \<Rightarrow> StopArea \<Rightarrow> StopArea" where
  "with_line l sa = (case l of None \<Rightarrow> sa
     | Some line \<Rightarrow> sa\<lparr>sa_LineIds := StopAreaLineIds_Add (line_id line) (sa_LineIds sa)\<rparr>)"

lemma with_line_sel [simp]:
  "sa_id (with_line l sa) = sa_id sa" "sa_ReferentId (with_line l sa) = sa_ReferentId sa"
  "sa_Origins (with_line l sa) = sa_Origins sa" "with_line None sa = sa"
  "stop_area_wf (with_line l sa) = stop_area_wf sa"
  by (simp_all add: with_line_def stop_area_wf_def split: option.split)

lemma addLine_effect:
  assumes "mm_inv m" and "MemoryStopAreas_Find (mm_stopAreas m) (sa_id sa) = Some sa"
  obtains saved where
    "addLine g m sa l (NewTransactionalStopAreas TheModel) =
       (g, with_line l sa, (NewTransactionalStopAreas TheModel)\<lparr>tsa_saved := saved\<rparr>)"
    "tx_stopareas_inv ((NewTransactionalStopAreas TheModel)\<lparr>tsa_saved := saved\<rparr>)"
    "\<forall>i. mget saved i =
       (if l = None then None
        else if i = sa_id sa then Some (with_line l sa)
        else if i = sa_ReferentId sa then map_option (with_line l) (MemoryStopAreas_Find (mm_stopAreas m) i)
        else None)"
proof (cases l)
  case None
  have t: "(NewTransactionalStopAreas TheModel)\<lparr>tsa_saved := []\<rparr> = NewTransactionalStopAreas TheModel"
    by (simp add: NewTransactionalStopAreas_def)
  then have "tx_stopareas_inv ((NewTransactionalStopAreas TheModel)\<lparr>tsa_saved := []\<rparr>)"
    using tx_stopareas_inv_new [of TheModel] by (simp only: t)
  with t None show thesis by (intro that [of "[]"]) (simp_all add: addLine_def)
next
  case (Some line)
  note inv = mm_invD(1) [OF assms(1)]
  let ?t0 = "NewTransactionalStopAreas TheModel" and ?find = "MemoryStopAreas_Find (mm_stopAreas m)"
  have find: "TransactionalStopAreas_Find ?t0 (mm_stopAreas m) i = ?find i" for i
    by (simp add: TransactionalStopAreas_Find_def NewTransactionalStopAreas_def)
  have sa: "sa_id sa \<noteq> []" "stop_area_wf sa"
    using mem_stopareas.find_eid [OF inv assms(2)] mem_stopareas.find_ewf [OF inv assms(2)] by simp_all
  have line: "with_line l x = x\<lparr>sa_LineIds := StopAreaLineIds_Add (line_id line) (sa_LineIds x)\<rparr>" for x
    by (simp add: with_line_def Some)
  show thesis
  proof (cases "?find (sa_ReferentId sa)")
    case None
    show thesis
    proof (rule that [of "[(sa_id sa, with_line l sa)]"])
      show "addLine g m sa l ?t0 = (g, with_line l sa, ?t0\<lparr>tsa_saved := [(sa_id sa, with_line l sa)]\<rparr>)"
        using sa None by (simp add: addLine_def \<open>l = Some line\<close> find line [symmetric] Let_def
            TransactionalStopAreas_Save_def)
      show "tx_stopareas_inv (?t0\<lparr>tsa_saved := [(sa_id sa, with_line l sa)]\<rparr>)"
        using sa by (simp add: tx_stopareas_inv_def NewTransactionalStopAreas_def mwf_def keyed_def vals_ok_def)
    qed (use None \<open>l = Some line\<close> in auto)
  next
    case (Some r)
    from mem_stopareas.find_eid [OF inv Some] mem_stopareas.find_ewf [OF inv Some]
    have r: "sa_id r = sa_ReferentId sa" "sa_id r \<noteq> []" "stop_area_wf r" by simp_all
    let ?saved = "mput (sa_id sa) (with_line l sa) [(sa_id r, with_line l r)]"
    show thesis
    proof (rule that [of ?saved])
      show "addLine g m sa l ?t0 = (g, with_line l sa, ?t0\<lparr>tsa_saved := ?saved\<rparr>)"
        using sa r Some by (simp add: addLine_def \<open>l = Some line\<close> find line [symmetric] Let_def
            TransactionalStopAreas_Save_def)
      have "tx_stopareas_inv (?t0\<lparr>tsa_saved := [(sa_id r, with_line l r)]\<rparr>)"
        using r by (simp add: tx_stopareas_inv_def NewTransactionalStopAreas_def mwf_def keyed_def vals_ok_def)
      then show "tx_stopareas_inv (?t0\<lparr>tsa_saved := ?saved\<rparr>)"
        using sa by (simp add: tx_stopareas_inv_def mwf_def)
      show "\<forall>i. mget ?saved i = (if l = None then None else if i = sa_id sa then Some (with_line l sa)
          else if i = sa_ReferentId sa then map_option (with_line l) (?find i) else None)"
        using Some r by (simp add: mget_mput \<open>l = Some line\<close>)
    qed
  qed
qed

text \<open>A commit saves the visits of the transaction in the manager of the model.\<close>

lemma commit_visits:
  assumes "mm_inv m" and "tm_inv t" and "ug_ok g" and "TransactionalModel_Commit g t m = (g', m')"
  shows "mm_stopVisits m' = (let s = snd (TransactionalStopVisits_Commit g (tm_stopVisits t) (mm_stopVisits m))
    in s\<lparr>msv_broadcastEvent := map_option (\<lambda>_. []) (msv_broadcastEvent s)\<rparr>)"
proof -
  from tx_stopareas.commit_committed [OF tm_invD(1) [OF assms(2)] mm_invD(1) [OF assms(1)] assms(3)]
  obtain s where "TransactionalStopAreas_Commit g (tm_stopAreas t) (mm_stopAreas m) = (g, s)" by blast
  with assms(4) show ?thesis
    by (auto simp: TransactionalModel_Commit_def Let_def split: prod.splits)
qed

lemma commit_one_visit:
  assumes "sv_id e \<noteq> []"
  shows "TransactionalStopVisits_Commit g ((NewTransactionalStopVisits TheModel)\<lparr>tsv_saved := [(sv_id e, e)]\<rparr>) s =
    (case MemoryStopVisits_Save g e s of (g1, _, s1) \<Rightarrow> (g1, s1))"
  by (simp add: TransactionalStopVisits_Commit_def NewTransactionalStopVisits_def split: prod.split)

section \<open>What the handler does\<close>

text \<open>The event tells something about the origin that the stop area does not have on record.\<close>

definition must_spread :: "StopVisitUpdateEvent \<Rightarrow> StopArea \<Rightarrow> bool" where
  "must_spread ev sa \<longleftrightarrow> svu_Origin ev \<noteq> '''' \<and>
     Origins_Origin (sa_Origins sa) (svu_Origin ev) \<noteq> (svu_Monitored ev, True)"

text \<open>The stop areas at and above one, and whether one of them is above itself.\<close>

definition areas_above :: "MemoryModel \<Rightarrow> StopAreaId \<Rightarrow> StopAreaId set" where
  "areas_above m i = (parent_edges (msa_byIdentifier (mm_stopAreas m)))\<^sup>* `` {i}"

definition cyclic_above :: "MemoryModel \<Rightarrow> StopAreaId \<Rightarrow> bool" where
  "cyclic_above m i \<longleftrightarrow>
     (\<exists>j \<in> areas_above m i. (j, j) \<in> (parent_edges (msa_byIdentifier (mm_stopAreas m)))\<^sup>+)"

lemma status_step:
  fixes ev :: StopVisitUpdateEvent and sa :: StopArea and m :: MemoryModel
  assumes "mm_inv m" and "ug_ok g" and "MemoryStopAreas_Find (mm_stopAreas m) (sa_id sa) = Some sa"
  defines "step \<equiv> (if must_spread ev sa
    then updateMonitoredStopArea (sa_id sa) (svu_Origin ev) (svu_Monitored ev) g m else Some (g, m))"
  shows "(step = None \<and> must_spread ev sa \<and> cyclic_above m (sa_id sa)) \<or>
    (\<exists>m1. step = Some (g, m1) \<and> mm_inv m1 \<and> same_but_stop_areas m m1 \<and>
       (must_spread ev sa \<longrightarrow> \<not> cyclic_above m (sa_id sa)) \<and>
       MemoryStopAreas_Find (mm_stopAreas m1) =
         (\<lambda>i. if must_spread ev sa \<and> i \<in> areas_above m (sa_id sa)
               then map_option (\<lambda>sa. (StopArea_SetPartnerStatus (svu_Origin ev) (svu_Monitored ev) sa)
                                       \<lparr>sa_model := msa_model (mm_stopAreas m)\<rparr>)
                      (MemoryStopAreas_Find (mm_stopAreas m) i)
               else MemoryStopAreas_Find (mm_stopAreas m) i))"
proof (cases "must_spread ev sa")
  case True
  let ?ev = "NewStatusUpdateEvent (sa_id sa) (svu_Origin ev) (svu_Monitored ev)"
  have sel: "stu_StopAreaId ?ev = sa_id sa" "stu_Partner ?ev = svu_Origin ev" "stu_Status ?ev = svu_Monitored ev"
    by (simp_all add: NewStatusUpdateEvent_def)
  have step: "step = updateStatus ?ev g m" using True by (simp add: step_def updateStatus_eq sel)
  have "MemoryStopAreas_Find (mm_stopAreas m) (stu_StopAreaId ?ev) \<noteq> None" by (simp add: sel assms(3))
  from update_status_effect [OF assms(1,2) this, unfolded Let_def sel, folded areas_above_def, folded cyclic_above_def]
  show ?thesis unfolding step using True by (auto split: option.splits)
next
  case False
  with assms(1) show ?thesis by (simp add: step_def same_but_stop_areas_def)
qed

text \<open>The handler once the stop area and the journey are found: the status step, then one commit.\<close>

lemma updateStopVisit_dropped:
  assumes "mm_inv m"
    and "\<not> (\<exists>sa vj. MemoryStopAreas_FindByObjectId (mm_stopAreas m) (svu_StopAreaObjectId ev) = Some (Some sa) \<and>
           MemoryVehicleJourneys_FindByObjectId (mm_vehicleJourneys m) (svu_VehicleJourneyObjectId ev) = Some (Some vj))"
  shows "updateStopVisit now h ev g m = Some (g, m)"
proof (rule mem_stopareas.find_oid_cases [OF mm_invD(1) [OF assms(1)], of "svu_StopAreaObjectId ev"])
  assume "MemoryStopAreas_FindByObjectId (mm_stopAreas m) (svu_StopAreaObjectId ev) = Some None"
  then show ?thesis by (simp add: updateStopVisit_def Let_def)
next
  fix sa
  assume sa: "MemoryStopAreas_FindByObjectId (mm_stopAreas m) (svu_StopAreaObjectId ev) = Some (Some sa)"
  show ?thesis
    using sa assms(2) mem_vehiclejourneys.find_oid_no_crash [OF mm_invD(3) [OF assms(1)], of "svu_VehicleJourneyObjectId ev"]
    by (cases "MemoryVehicleJourneys_FindByObjectId (mm_vehicleJourneys m) (svu_VehicleJourneyObjectId ev)")
      (auto simp: updateStopVisit_def Let_def split: option.splits)
qed

definition visit_journeys :: "StopVisitUpdateEvent \<Rightarrow> VehicleJourney \<Rightarrow> TransactionalVehicleJourneys" where
  "visit_journeys ev vj =
     (if svu_Monitored ev \<noteq> vj_Monitored vj
      then (NewTransactionalVehicleJourneys TheModel)\<lparr>tvj_saved := [(vj_id vj, vj\<lparr>vj_Monitored := svu_Monitored ev\<rparr>)]\<rparr>
      else NewTransactionalVehicleJourneys TheModel)"

lemma updateStopVisit_eq:
  assumes "mm_inv m" and "ug_ok g"
    and "MemoryStopAreas_FindByObjectId (mm_stopAreas m) (svu_StopAreaObjectId ev) = Some (Some sa)"
    and "MemoryVehicleJourneys_FindByObjectId (mm_vehicleJourneys m) (svu_VehicleJourneyObjectId ev) = Some (Some vj)"
    and "addLine g m sa (VehicleJourney_Line (mm_lines m) vj) (NewTransactionalStopAreas TheModel) = (g, sa', areas)"
    and "sa_id sa' = sa_id sa" and "sa_Origins sa' = sa_Origins sa"
    and "MemoryStopVisits_FindByObjectId (mm_stopVisits m) (svu_ObjectId ev) = Some found"
    and "vj_id vj \<noteq> []"
  shows "updateStopVisit now h ev g m =
    do { (g1, m1) \<leftarrow> (if must_spread ev sa
           then updateMonitoredStopArea (sa_id sa) (svu_Origin ev) (svu_Monitored ev) g m else Some (g, m));
         Some (case TransactionalStopVisits_Save g1
                 (updatedStopVisit now h ev sa vj found (NewStopVisit TheModel)) (NewTransactionalStopVisits TheModel) of
           (g2, _, visits) \<Rightarrow> TransactionalModel_Commit g2
             ((NewTransactionalModel m)\<lparr>tm_stopAreas := areas, tm_vehicleJourneys := visit_journeys ev vj,
                tm_stopVisits := visits\<rparr>) m1) }"
proof -
  have journeys: "(if svu_Monitored ev \<noteq> vj_Monitored vj
      then (case TransactionalVehicleJourneys_Save g (vj\<lparr>vj_Monitored := svu_Monitored ev\<rparr>)
              (NewTransactionalVehicleJourneys TheModel) of (g', _, vjs) \<Rightarrow> (g', vjs))
      else (g, NewTransactionalVehicleJourneys TheModel)) = (g, visit_journeys ev vj)"
    using assms(9) by (simp add: visit_journeys_def TransactionalVehicleJourneys_Save_def NewTransactionalVehicleJourneys_def)
  have visit: "updatedStopVisit now h ev sa' vj found new = updatedStopVisit now h ev sa vj found new" for new
    by (rule updatedStopVisit_area [OF assms(6)])
  have spread: "(if svu_Origin ev \<noteq> ''''
      then (let (status, ok) = Origins_Origin (sa_Origins sa) (svu_Origin ev)
            in if status \<noteq> svu_Monitored ev \<or> \<not> ok then x else y)
      else y) = (if must_spread ev sa then x else y)" for x y :: "(uuid_gen \<times> MemoryModel) option"
    by (cases "Origins_Origin (sa_Origins sa) (svu_Origin ev)") (simp add: must_spread_def)
  show ?thesis
    unfolding updateStopVisit_def Let_def [of "NewTransactionalModel m"] fresh_tx fresh_find_oid fresh_new
      assms(3,4,5,8) Option.bind.bind_lunit option.case Let_def [of "(g, sa', areas)"] prod.case
      journeys assms(6,7) visit Let_def [of "updatedStopVisit now h ev sa vj found x" for x]
      Let_def [of "(g, visit_journeys ev vj)"] spread
    by (simp add: Let_def prod.case_distrib [where h = Some])
qed

text \<open>What the handler leaves in the model. The visit is the one it computed, with an identifier if it
  had none; the journey has the event's monitoring; the stop areas are described by \<open>area_after\<close>.\<close>

definition area_after :: "StopVisitUpdateEvent \<Rightarrow> StopArea \<Rightarrow> Line option \<Rightarrow> MemoryModel \<Rightarrow> StopAreaId \<Rightarrow> StopArea option" where
  "area_after ev sa l m i =
     (let seal = (\<lambda>a. a\<lparr>sa_model := msa_model (mm_stopAreas m)\<rparr>);
          old = MemoryStopAreas_Find (mm_stopAreas m) i
      in if l \<noteq> None \<and> (i = sa_id sa \<or> i = sa_ReferentId sa) then map_option (seal \<circ> with_line l) old
         else if must_spread ev sa \<and> i \<in> areas_above m (sa_id sa)
         then map_option (seal \<circ> StopArea_SetPartnerStatus (svu_Origin ev) (svu_Monitored ev)) old
         else old)"

lemma stop_visit_effect:
  assumes inv: "mm_inv m" and g: "ug_ok g" and "svu_wf ev" and "oid_kind (svu_ObjectId ev) \<noteq> ''_default''"
    and sa: "MemoryStopAreas_FindByObjectId (mm_stopAreas m) (svu_StopAreaObjectId ev) = Some (Some sa)"
    and vj: "MemoryVehicleJourneys_FindByObjectId (mm_vehicleJourneys m) (svu_VehicleJourneyObjectId ev) = Some (Some vj)"
    and found: "MemoryStopVisits_FindByObjectId (mm_stopVisits m) (svu_ObjectId ev) = Some found"
  defines "l \<equiv> VehicleJourney_Line (mm_lines m) vj"
  shows "(updateStopVisit now h ev g m = None \<and> must_spread ev sa \<and> cyclic_above m (sa_id sa)) \<or>
    (\<exists>g' m' sv. updateStopVisit now h ev g m = Some (g', m') \<and> mm_inv m' \<and> ug_ok g' \<and>
       (must_spread ev sa \<longrightarrow> \<not> cyclic_above m (sa_id sa)) \<and>
       MemoryStopVisits_FindByObjectId (mm_stopVisits m') (svu_ObjectId ev) = Some (Some sv) \<and>
       sv = (let e = updatedStopVisit now h ev sa vj found (NewStopVisit TheModel)
             in e\<lparr>sv_id := (if sv_id e = '''' then fst (NewUUID g) else sv_id e),
                  sv_model := msv_model (mm_stopVisits m)\<rparr>) \<and>
       MemoryStopVisits_Find (mm_stopVisits m') = (MemoryStopVisits_Find (mm_stopVisits m))(sv_id sv \<mapsto> sv) \<and>
       MemoryVehicleJourneys_Find (mm_vehicleJourneys m') =
         (if svu_Monitored ev = vj_Monitored vj then MemoryVehicleJourneys_Find (mm_vehicleJourneys m)
          else (MemoryVehicleJourneys_Find (mm_vehicleJourneys m))(vj_id vj \<mapsto>
            vj\<lparr>vj_Monitored := svu_Monitored ev, vj_model := mvj_model (mm_vehicleJourneys m)\<rparr>)) \<and>
       MemoryStopAreas_Find (mm_stopAreas m') = area_after ev sa l m \<and>
       MemoryLines_Find (mm_lines m') = MemoryLines_Find (mm_lines m) \<and>
       MemorySituations_Find (mm_situations m') = MemorySituations_Find (mm_situations m) \<and>
       MemoryOperators_Find (mm_operators m') = MemoryOperators_Find (mm_operators m) \<and>
       MemoryVehicles_Find (mm_vehicles m') = MemoryVehicles_Find (mm_vehicles m))"
proof -
  note area_inv = mm_invD(1) [OF inv] and journey_inv = mm_invD(3) [OF inv] and visit_inv = mm_invD(2) [OF inv]
  let ?tx = "NewTransactionalModel m" and ?new = "NewStopVisit TheModel"
  let ?e = "updatedStopVisit now h ev sa vj found ?new" and ?x = "svu_ObjectId ev"
  define v where "v = ?e\<lparr>sv_id := (if sv_id ?e = '''' then fst (NewUUID g) else sv_id ?e)\<rparr>"
  define g1 where "g1 = (if sv_id ?e = '''' then snd (NewUUID g) else g)"
  from mem_stopareas.find_oid_sound [OF area_inv sa] have sa': "MemoryStopAreas_Find (mm_stopAreas m) (sa_id sa) = Some sa"
    by blast
  from mem_vehiclejourneys.find_oid_sound [OF journey_inv vj]
  have vj0: "MemoryVehicleJourneys_Find (mm_vehicleJourneys m) (vj_id vj) = Some vj" by blast
  from mem_vehiclejourneys.find_eid [OF journey_inv vj0] mem_vehiclejourneys.find_ewf [OF journey_inv vj0]
  have vj': "vj_id vj \<noteq> []" "vehicle_journey_wf vj" by simp_all
  have e: "stop_visit_wf ?e" "?x \<in> set (mvals (sv_objectids ?e))"
    unfolding atomize_conj
  proof (cases found)
    case None
    with assms(3) show "stop_visit_wf ?e \<and> ?x \<in> set (mvals (sv_objectids ?e))"
      by (simp only: updatedStopVisit_new set_both_objectids [OF assms(4)] simp_thms)
  next
    case (Some old)
    from mem_stopvisits.find_oid_sound [OF visit_inv found [unfolded Some]]
    have "MemoryStopVisits_Find (mm_stopVisits m) (sv_id old) = Some old" "?x \<in> set (mvals (sv_objectids old))" by blast+
    with mem_stopvisits.find_ewf [OF visit_inv] Some show "stop_visit_wf ?e \<and> ?x \<in> set (mvals (sv_objectids ?e))" by simp
  qed
  have v: "stop_visit_wf v" "sv_id v \<noteq> []" "?x \<in> set (mvals (sv_objectids v))" "ug_ok g1"
    using e ug_ok_fst [OF g] g by (auto simp: v_def g1_def)
  obtain saved where saved: "addLine g m sa l (NewTransactionalStopAreas TheModel) =
       (g, with_line l sa, (NewTransactionalStopAreas TheModel)\<lparr>tsa_saved := saved\<rparr>)"
    "tx_stopareas_inv ((NewTransactionalStopAreas TheModel)\<lparr>tsa_saved := saved\<rparr>)"
    "\<forall>i. mget saved i = (if l = None then None else if i = sa_id sa then Some (with_line l sa)
        else if i = sa_ReferentId sa then map_option (with_line l) (MemoryStopAreas_Find (mm_stopAreas m) i)
        else None)"
    by (rule addLine_effect [OF inv sa', where g = g and l = l]) (rule that)
  define t where "t = ?tx\<lparr>tm_stopAreas := (NewTransactionalStopAreas TheModel)\<lparr>tsa_saved := saved\<rparr>,
    tm_vehicleJourneys := visit_journeys ev vj,
    tm_stopVisits := (NewTransactionalStopVisits TheModel)\<lparr>tsv_saved := [(sv_id v, v)]\<rparr>\<rparr>"
  have t: "tm_inv t"
    using tm_inv_new [of m] saved(2) v vj'
    by (simp add: t_def tm_inv_def visit_journeys_def tx_vehiclejourneys_inv_def tx_stopvisits_inv_def
        mwf_def keyed_def vals_ok_def vehicle_journey_wf_def NewTransactionalVehicleJourneys_def)
  define step where "step = (if must_spread ev sa
    then updateMonitoredStopArea (sa_id sa) (svu_Origin ev) (svu_Monitored ev) g m else Some (g, m))"
  have "updateStopVisit now h ev g m = do { (g0, m1) \<leftarrow> step;
      Some (case TransactionalStopVisits_Save g0 ?e (NewTransactionalStopVisits TheModel) of
        (g2, _, visits) \<Rightarrow> TransactionalModel_Commit g2
          (?tx\<lparr>tm_stopAreas := (NewTransactionalStopAreas TheModel)\<lparr>tsa_saved := saved\<rparr>,
             tm_vehicleJourneys := visit_journeys ev vj, tm_stopVisits := visits\<rparr>) m1) }"
    unfolding step_def
    by (rule updateStopVisit_eq [OF inv g sa vj saved(1) [unfolded l_def] _ _ found vj'(1), folded l_def]) simp_all
  moreover have "TransactionalStopVisits_Save g ?e (NewTransactionalStopVisits TheModel) =
      (g1, v, (NewTransactionalStopVisits TheModel)\<lparr>tsv_saved := [(sv_id v, v)]\<rparr>)"
    by (simp add: TransactionalStopVisits_Save_def NewTransactionalStopVisits_def v_def g1_def Let_def
        split: prod.split)
  ultimately have upd: "updateStopVisit now h ev g m =
      do { (g0, m1) \<leftarrow> step; Some (TransactionalModel_Commit g1 t m1) }" if "\<And>g0 m1. step = Some (g0, m1) \<Longrightarrow> g0 = g"
    using that unfolding t_def by (cases step) auto
  from status_step [OF inv g sa', of ev, folded step_def]
  consider (cycle) "step = None" "must_spread ev sa" "cyclic_above m (sa_id sa)"
    | (go) m1 where "step = Some (g, m1)" "mm_inv m1" "same_but_stop_areas m m1"
      "must_spread ev sa \<longrightarrow> \<not> cyclic_above m (sa_id sa)"
      "MemoryStopAreas_Find (mm_stopAreas m1) =
         (\<lambda>i. if must_spread ev sa \<and> i \<in> areas_above m (sa_id sa)
               then map_option (\<lambda>sa. (StopArea_SetPartnerStatus (svu_Origin ev) (svu_Monitored ev) sa)
                                       \<lparr>sa_model := msa_model (mm_stopAreas m)\<rparr>)
                      (MemoryStopAreas_Find (mm_stopAreas m) i)
               else MemoryStopAreas_Find (mm_stopAreas m) i)" by blast
  then show ?thesis
  proof cases
    case cycle
    then show ?thesis using upd by simp
  next
    case go
    obtain m' where m': "TransactionalModel_Commit g1 t m1 = (g1, m')" "mm_inv m'" "committed_model t m1 m'"
      using commit_effect [OF go(2) t v(4)] by blast
    obtain g2 sv s where save: "MemoryStopVisits_Save g1 v (mm_stopVisits m1) = (g2, sv, s)"
      and s: "MemoryStopVisits_FindByObjectId s ?x = Some (Some sv)"
        "sv = v\<lparr>sv_model := msv_model (mm_stopVisits m1)\<rparr>"
      using mem_stopvisits.upsert [OF mm_invD(2) [OF go(2)] v(4,1,3)] v(2) by metis
    have visits: "MemoryStopVisits_FindByObjectId (mm_stopVisits m') ?x = Some (Some sv)"
      unfolding commit_visits [OF go(2) t v(4) m'(1)] using s(1)
      by (simp add: t_def commit_one_visit [OF v(2)] save Let_def MemoryStopVisits_FindByObjectId_def
          cong: option.case_cong)
    have upd': "updateStopVisit now h ev g m = Some (g1, m')" using upd go(1) m'(1) by simp
    note c = m'(3) [unfolded committed_model_def t_def]
    have "MemoryStopVisits_Find (mm_stopVisits m') = (MemoryStopVisits_Find (mm_stopVisits m))(sv_id sv \<mapsto> sv)"
      using c go(3) s(2) by (auto simp: committed_def same_but_stop_areas_def mhas_def fun_eq_iff)
    moreover have "MemoryVehicleJourneys_Find (mm_vehicleJourneys m') =
         (if svu_Monitored ev = vj_Monitored vj then MemoryVehicleJourneys_Find (mm_vehicleJourneys m)
          else (MemoryVehicleJourneys_Find (mm_vehicleJourneys m))(vj_id vj \<mapsto>
            vj\<lparr>vj_Monitored := svu_Monitored ev, vj_model := mvj_model (mm_vehicleJourneys m)\<rparr>))"
      using c go(3)
      by (auto simp: committed_def same_but_stop_areas_def visit_journeys_def mhas_def fun_eq_iff
          NewTransactionalVehicleJourneys_def)
    moreover have "MemoryStopAreas_Find (mm_stopAreas m') i = area_after ev sa l m i" for i
    proof -
      have "msa_model (mm_stopAreas m1) = msa_model (mm_stopAreas m)"
        using go(3) by (simp add: same_but_stop_areas_def)
      with c have "MemoryStopAreas_Find (mm_stopAreas m') i =
          committed saved [] (\<lambda>e. e\<lparr>sa_model := msa_model (mm_stopAreas m)\<rparr>) (MemoryStopAreas_Find (mm_stopAreas m1)) i"
        by simp
      then show ?thesis
        unfolding committed_def saved(3) [THEN spec, of i] go(5) area_after_def using sa'
        by (cases "MemoryStopAreas_Find (mm_stopAreas m) i") (auto simp: Let_def mhas_def)
    qed
    moreover have "MemoryLines_Find (mm_lines m') = MemoryLines_Find (mm_lines m)"
      "MemorySituations_Find (mm_situations m') = MemorySituations_Find (mm_situations m)"
      "MemoryOperators_Find (mm_operators m') = MemoryOperators_Find (mm_operators m)"
      "MemoryVehicles_Find (mm_vehicles m') = MemoryVehicles_Find (mm_vehicles m)"
      using c go(3) by (simp_all add: same_but_stop_areas_def)
    moreover have "sv = (let e = ?e in e\<lparr>sv_id := (if sv_id e = '''' then fst (NewUUID g) else sv_id e),
                  sv_model := msv_model (mm_stopVisits m)\<rparr>)"
      using s(2) go(3) by (simp add: v_def same_but_stop_areas_def Let_def)
    ultimately show ?thesis
      using upd' m'(2) v(4) go(4) visits by blast
  qed
qed

section \<open>Properties\<close>

text \<open>The areas above a stored one are stored.\<close>

lemma stored_above:
  assumes "mm_inv m" and "i \<in> areas_above m j" and "MemoryStopAreas_Find (mm_stopAreas m) j = Some sa"
  shows "MemoryStopAreas_Find (mm_stopAreas m) i \<noteq> None"
proof -
  from assms(2) have "(j, i) \<in> (parent_edges (msa_byIdentifier (mm_stopAreas m)))\<^sup>*" by (simp add: areas_above_def)
  then show ?thesis
    by (cases rule: rtranclE) (use assms(3) parent_edges_find [OF mm_invD(1) [OF assms(1)]] in auto)
qed

lemma visit_found:
  assumes "mm_inv m"
  obtains found where "MemoryStopVisits_FindByObjectId (mm_stopVisits m) x = Some found"
  using mem_stopvisits.find_oid_no_crash [OF mm_invD(2) [OF assms], of x] by blast

text \<open>C1. A stop visit event is dropped, without any effect, when its stop area or its journey is unknown.
  Otherwise, unless the search for the areas to spread the status to is lost in a cycle, the visit the event
  names is created or updated and is found under its identifier afterwards, the journey has the event's
  monitoring, and no other visit or journey, and no line, situation, operator or vehicle, has changed.\<close>

theorem update_stop_visit:
  assumes "mm_inv m" and "ug_ok g" and "svu_wf ev" and "oid_kind (svu_ObjectId ev) \<noteq> ''_default''"
  shows "case (MemoryStopAreas_FindByObjectId (mm_stopAreas m) (svu_StopAreaObjectId ev),
           MemoryVehicleJourneys_FindByObjectId (mm_vehicleJourneys m) (svu_VehicleJourneyObjectId ev)) of
      (Some (Some sa), Some (Some vj)) \<Rightarrow>
        (updateStopVisit now h ev g m = None \<and> must_spread ev sa \<and> cyclic_above m (sa_id sa)) \<or>
        (\<exists>g' m' sv found. updateStopVisit now h ev g m = Some (g', m') \<and> mm_inv m' \<and> ug_ok g' \<and>
           MemoryStopVisits_FindByObjectId (mm_stopVisits m) (svu_ObjectId ev) = Some found \<and>
           MemoryStopVisits_FindByObjectId (mm_stopVisits m') (svu_ObjectId ev) = Some (Some sv) \<and>
           sv = (let e = updatedStopVisit now h ev sa vj found (NewStopVisit TheModel)
                 in e\<lparr>sv_id := (if sv_id e = '''' then fst (NewUUID g) else sv_id e),
                      sv_model := msv_model (mm_stopVisits m)\<rparr>) \<and>
           MemoryStopVisits_Find (mm_stopVisits m') = (MemoryStopVisits_Find (mm_stopVisits m))(sv_id sv \<mapsto> sv) \<and>
           MemoryVehicleJourneys_Find (mm_vehicleJourneys m') =
             (if svu_Monitored ev = vj_Monitored vj then MemoryVehicleJourneys_Find (mm_vehicleJourneys m)
              else (MemoryVehicleJourneys_Find (mm_vehicleJourneys m))(vj_id vj \<mapsto>
                vj\<lparr>vj_Monitored := svu_Monitored ev, vj_model := mvj_model (mm_vehicleJourneys m)\<rparr>)) \<and>
           MemoryLines_Find (mm_lines m') = MemoryLines_Find (mm_lines m) \<and>
           MemorySituations_Find (mm_situations m') = MemorySituations_Find (mm_situations m) \<and>
           MemoryOperators_Find (mm_operators m') = MemoryOperators_Find (mm_operators m) \<and>
           MemoryVehicles_Find (mm_vehicles m') = MemoryVehicles_Find (mm_vehicles m))
    | _ \<Rightarrow> updateStopVisit now h ev g m = Some (g, m)"
proof (cases "\<exists>sa vj. MemoryStopAreas_FindByObjectId (mm_stopAreas m) (svu_StopAreaObjectId ev) = Some (Some sa) \<and>
    MemoryVehicleJourneys_FindByObjectId (mm_vehicleJourneys m) (svu_VehicleJourneyObjectId ev) = Some (Some vj)")
  case True
  then obtain sa vj where found:
    "MemoryStopAreas_FindByObjectId (mm_stopAreas m) (svu_StopAreaObjectId ev) = Some (Some sa)"
    "MemoryVehicleJourneys_FindByObjectId (mm_vehicleJourneys m) (svu_VehicleJourneyObjectId ev) = Some (Some vj)"
    by blast
  obtain v where v: "MemoryStopVisits_FindByObjectId (mm_stopVisits m) (svu_ObjectId ev) = Some v"
    by (rule visit_found [OF assms(1)])
  from stop_visit_effect [OF assms found v, of now h] v show ?thesis
    unfolding found prod.case option.case by blast
next
  case False
  with updateStopVisit_dropped [OF assms(1) False] show ?thesis by (auto split: option.splits)
qed

text \<open>C35. A stop visit event can lose the status it reports. The handler reads the stop area, spreads the
  partner's status to it and to the areas above it in a transaction of its own, and then, when the journey's
  line is known, saves the area as it had read it (and its referent, likewise): afterwards the area has the
  line, but its origins are what they were before the event, although the areas further up have the new
  status.\<close>

theorem stop_visit_loses_status:
  assumes "mm_inv m" and "ug_ok g" and "svu_wf ev" and "oid_kind (svu_ObjectId ev) \<noteq> ''_default''"
    and "MemoryStopAreas_FindByObjectId (mm_stopAreas m) (svu_StopAreaObjectId ev) = Some (Some sa)"
    and "MemoryVehicleJourneys_FindByObjectId (mm_vehicleJourneys m) (svu_VehicleJourneyObjectId ev) = Some (Some vj)"
    and "VehicleJourney_Line (mm_lines m) vj = Some line"
    and "updateStopVisit now h ev g m = Some (g', m')"
  shows "\<exists>sa'. MemoryStopAreas_Find (mm_stopAreas m') (sa_id sa) = Some sa' \<and>
      StopAreaLineIds_Contains (sa_LineIds sa') (line_id line) \<and> sa_Origins sa' = sa_Origins sa \<and>
      sa_Monitored sa' = sa_Monitored sa \<and>
      (must_spread ev sa \<longrightarrow>
        (\<forall>i \<in> areas_above m (sa_id sa) - {sa_id sa, sa_ReferentId sa}.
          map_option (\<lambda>a. Origins_Origin (sa_Origins a) (svu_Origin ev)) (MemoryStopAreas_Find (mm_stopAreas m') i) =
            Some (svu_Monitored ev, True)))"
proof -
  obtain found where found: "MemoryStopVisits_FindByObjectId (mm_stopVisits m) (svu_ObjectId ev) = Some found"
    by (rule visit_found [OF assms(1)])
  have find: "MemoryStopAreas_Find (mm_stopAreas m') = area_after ev sa (Some line) m"
    using stop_visit_effect [OF assms(1-6) found, of now h] assms(7,8) by auto
  have sa: "MemoryStopAreas_Find (mm_stopAreas m) (sa_id sa) = Some sa"
    using mem_stopareas.find_oid_sound [OF mm_invD(1) [OF assms(1)] assms(5)] by blast
  have lines: "StopAreaLineIds_Contains (StopAreaLineIds_Add l ls) l" for l ls
    by simp
  have status: "map_option (\<lambda>a. Origins_Origin (sa_Origins a) (svu_Origin ev)) (MemoryStopAreas_Find (mm_stopAreas m') i) =
      Some (svu_Monitored ev, True)"
    if "must_spread ev sa" "i \<in> areas_above m (sa_id sa) - {sa_id sa, sa_ReferentId sa}" for i
    using that stored_above [OF assms(1) _ sa, of i] unfolding find area_after_def Let_def
    by (auto simp: StopArea_SetPartnerStatus_def Origins_Origin_def mget_or_def mhas_def mget_SetPartnerStatus Let_def)
  show ?thesis
    by (rule exI [of _ "(with_line (Some line) sa)\<lparr>sa_model := msa_model (mm_stopAreas m)\<rparr>"])
      (use status in \<open>auto simp: find area_after_def sa with_line_def lines\<close>)
qed

section \<open>An example\<close>

definition example_world :: MemoryModel where
  "example_world = example_cycle_model
     \<lparr>mm_lines := snd (snd (MemoryLines_Save (fake_gen True) example_line (mm_lines example_cycle_model))),
      mm_vehicleJourneys := snd (snd (MemoryVehicleJourneys_Save (fake_gen True) example_journey
        (mm_vehicleJourneys example_cycle_model)))\<rparr>"

definition example_visit_event :: StopVisitUpdateEvent where
  "example_visit_event =
     \<lparr>svu_Origin = ''p'', svu_ObjectId = NewObjectID ''k'' ''v'', svu_StopAreaObjectId = NewObjectID ''k'' ''b'',
      svu_VehicleJourneyObjectId = NewObjectID ''k'' ''j'', svu_DataFrameRef = '''', svu_PassageOrder = 1,
      svu_Monitored = False, svu_VehicleAtStop = False, svu_Schedules = [], svu_DepartureStatus = ''onTime'',
      svu_ArrivalStatus = ''onTime'', svu_RecordedAt = 0, svu_ObjectidKind = ''k'', svu_SiriXML = None,
      svu_attributes = None, svu_references = None\<rparr>"

lemma example_visit_event:
  "svu_wf example_visit_event" "oid_kind (svu_ObjectId example_visit_event) \<noteq> ''_default''"
  "svu_StopAreaObjectId example_visit_event = NewObjectID ''k'' ''b''"
  "svu_VehicleJourneyObjectId example_visit_event = NewObjectID ''k'' ''j''"
  "svu_Origin example_visit_event = ''p''" "svu_Monitored example_visit_event = False"
  "must_spread example_visit_event example_area_b"
  by (simp_all add: example_visit_event_def svu_wf_def NewObjectID_def must_spread_def example_area_ab
      Origins_Origin_def mhas_def)

lemma example_world:
  "mm_inv example_world" "mm_stopAreas example_world = mm_stopAreas example_cycle_model"
  "MemoryVehicleJourneys_FindByObjectId (mm_vehicleJourneys example_world) (NewObjectID ''k'' ''j'') =
     Some (Some (example_journey\<lparr>vj_model := TheModel\<rparr>))"
  "VehicleJourney_Line (mm_lines example_world) (example_journey\<lparr>vj_model := TheModel\<rparr>) =
     Some (example_line\<lparr>line_model := TheModel\<rparr>)"
  "\<not> cyclic_above example_world ''b''" "''a'' \<in> areas_above example_world ''b''"
proof -
  let ?m = example_cycle_model
  have models: "mln_model (mm_lines ?m) = TheModel" "mvj_model (mm_vehicleJourneys ?m) = TheModel"
    by (simp_all add: example_cycle_model_def NewMemoryModel_def)
  note inv = mm_invD(3,4) [OF example_cycle_model(1)]
  obtain g l ls where sl: "MemoryLines_Save (fake_gen True) example_line (mm_lines ?m) = (g, l, ls)"
    by (rule prod_cases3)
  obtain g' j js where sj: "MemoryVehicleJourneys_Save (fake_gen True) example_journey (mm_vehicleJourneys ?m) = (g', j, js)"
    by (rule prod_cases3)
  have line: "line_wf example_line" "line_id example_line = ''l1''"
    by (simp_all add: example_line_def)
  have l: "l = example_line\<lparr>line_model := TheModel\<rparr>"
    using mem_lines.save_eq [OF sl] line by (simp add: models)
  have j: "j = example_journey\<lparr>vj_model := TheModel\<rparr>"
    using mem_vehiclejourneys.save_eq [OF sj] example_journey_wf by (simp add: models)
  have m: "example_world = ?m\<lparr>mm_lines := ls, mm_vehicleJourneys := js\<rparr>"
    by (simp add: example_world_def sl sj)
  show "mm_inv example_world"
    using example_cycle_model(1) mem_lines.inv_save [OF inv(2) line(1) ug_ok_fake sl]
      mem_vehiclejourneys.inv_save [OF inv(1) example_journey_wf(1) ug_ok_fake sj]
    by (simp add: m mm_inv_def)
  show areas: "mm_stopAreas example_world = mm_stopAreas ?m" by (simp add: m)
  show "MemoryVehicleJourneys_FindByObjectId (mm_vehicleJourneys example_world) (NewObjectID ''k'' ''j'') =
     Some (Some (example_journey\<lparr>vj_model := TheModel\<rparr>))"
    using mem_vehiclejourneys.find_oid_save [OF inv(1) example_journey_wf(1) ug_ok_fake sj example_journey_wf(4)]
    by (simp add: m j)
  show "VehicleJourney_Line (mm_lines example_world) (example_journey\<lparr>vj_model := TheModel\<rparr>) =
     Some (example_line\<lparr>line_model := TheModel\<rparr>)"
    using mem_lines.find_save [OF inv(2) line(1) ug_ok_fake sl, of "''l1''"] line
    by (simp add: m VehicleJourney_Line_def example_journey_wf(3) l)
  have edges: "parent_edges (msa_byIdentifier (mm_stopAreas example_world)) = {(''b'', ''a'')}"
    unfolding areas example_cycle_model(2) parent_edges_def
    by (auto simp: example_area_ab split: if_splits)
  have "acyclic {(''b'', ''a'')}" by (simp add: acyclic_insert) (simp add: acyclic_def)
  then show "\<not> cyclic_above example_world ''b''"
    unfolding cyclic_above_def edges by (simp add: acyclic_def)
  show "''a'' \<in> areas_above example_world ''b''" unfolding areas_above_def edges by blast
qed

lemma example_world_found:
  "MemoryStopAreas_FindByObjectId (mm_stopAreas example_world) (svu_StopAreaObjectId example_visit_event) =
     Some (Some example_area_b)"
  "MemoryVehicleJourneys_FindByObjectId (mm_vehicleJourneys example_world) (svu_VehicleJourneyObjectId example_visit_event) =
     Some (Some (example_journey\<lparr>vj_model := TheModel\<rparr>))"
  by (simp_all only: example_world example_visit_event example_cycle_model)

lemma example_visit_returns:
  obtains g' m' where "updateStopVisit 7 (\<lambda>v. v) example_visit_event (fake_gen True) example_world = Some (g', m')"
proof -
  note e = example_visit_event and w = example_world
  obtain found where "MemoryStopVisits_FindByObjectId (mm_stopVisits example_world) (svu_ObjectId example_visit_event) = Some found"
    by (rule visit_found [OF w(1)])
  from stop_visit_effect [OF w(1) ug_ok_fake [of True] e(1,2) example_world_found this, where now = 7 and h = "\<lambda>v. v"] w(5)
  show thesis unfolding example_area_ab(2) using that by blast
qed

theorem update_stop_visit_witness:
  "\<exists>g' m' sv. updateStopVisit 7 (\<lambda>v. v) example_visit_event (fake_gen True) example_world = Some (g', m') \<and>
     MemoryStopVisits_FindByObjectId (mm_stopVisits m') (svu_ObjectId example_visit_event) = Some (Some sv)"
proof -
  obtain g' m' where ret: "updateStopVisit 7 (\<lambda>v. v) example_visit_event (fake_gen True) example_world = Some (g', m')"
    by (rule example_visit_returns)
  from update_stop_visit [OF example_world(1) ug_ok_fake [of True] example_visit_event(1,2), where now = 7 and h = "\<lambda>v. v",
      unfolded example_world_found prod.case option.case ret]
  show ?thesis unfolding ret by auto
qed

theorem stop_visit_loses_status_witness:
  "\<exists>g' m' sa' a. updateStopVisit 7 (\<lambda>v. v) example_visit_event (fake_gen True) example_world = Some (g', m') \<and>
     MemoryStopAreas_Find (mm_stopAreas m') ''b'' = Some sa' \<and> sa_Origins sa' = [] \<and>
     MemoryStopAreas_Find (mm_stopAreas m') ''a'' = Some a \<and> Origins_Origin (sa_Origins a) ''p'' = (False, True)"
proof -
  obtain g' m' where ret: "updateStopVisit 7 (\<lambda>v. v) example_visit_event (fake_gen True) example_world = Some (g', m')"
    by (rule example_visit_returns)
  have a: "''a'' \<in> areas_above example_world ''b'' - {''b'', ''''}" using example_world(6) by simp
  from stop_visit_loses_status [OF example_world(1) ug_ok_fake example_visit_event(1,2) example_world_found
      example_world(4) ret, unfolded example_area_ab(2,6,12) example_visit_event(5,6)] a example_visit_event(7)
  obtain sa' where "MemoryStopAreas_Find (mm_stopAreas m') ''b'' = Some sa'" "sa_Origins sa' = []"
    "map_option (\<lambda>a. Origins_Origin (sa_Origins a) ''p'') (MemoryStopAreas_Find (mm_stopAreas m') ''a'') = Some (False, True)"
    by blast
  then show ?thesis unfolding ret by auto
qed

end
