(* ===== verification/GoStrings.thy ===== *)
theory GoStrings
  imports Prelude
begin

text \<open>
  The string functions of the Go library that the settings of partners rest on:
  \<^verbatim>\<open>strings.Split\<close>, \<^verbatim>\<open>TrimSpace\<close>, \<^verbatim>\<open>HasSuffix\<close>, \<^verbatim>\<open>NewReplacer\<close>, \<^verbatim>\<open>strconv.ParseBool\<close> and
  \<^verbatim>\<open>strconv.Atoi\<close>. Strings are ASCII: the white space beyond ASCII that \<^verbatim>\<open>TrimSpace\<close> also
  removes is left out.
\<close>

section \<open>Splitting and trimming\<close>

fun split_at :: "char \<Rightarrow> string \<Rightarrow> string list" where
  "split_at c [] = [[]]"
| "split_at c (x # xs) =
     (if x = c then [] # split_at c xs
      else (case split_at c xs of [] \<Rightarrow> [[x]] | w # ws \<Rightarrow> (x # w) # ws))"

definition is_space :: "char \<Rightarrow> bool" where
  "is_space c \<longleftrightarrow> c \<in> {CHR 0x09, CHR 0x0A, CHR 0x0B, CHR 0x0C, CHR 0x0D, CHR '' ''}"

definition TrimSpace :: "string \<Rightarrow> string" where
  "TrimSpace s = rev (dropWhile is_space (rev (dropWhile is_space s)))"

definition HasSuffix :: "string \<Rightarrow> string \<Rightarrow> bool" where
  "HasSuffix s suffix \<longleftrightarrow> length suffix \<le> length s \<and> drop (length s - length suffix) s = suffix"

lemma split_at_nonempty [simp]: "split_at c s \<noteq> []"
  by (induction s) (simp_all split: list.split)

lemma split_at_no_separator: "w \<in> set (split_at c s) \<Longrightarrow> c \<notin> set w"
  by (induction s arbitrary: w) (auto split: if_splits list.splits)

lemma split_at_single: "c \<notin> set s \<Longrightarrow> split_at c s = [s]"
  by (induction s) auto

lemma split_at_append: "split_at c (xs @ c # ys) = split_at c xs @ split_at c ys"
  by (induction xs) (auto split: list.splits)

text \<open>Joining the parts again: splitting loses nothing.\<close>

fun join_with :: "char \<Rightarrow> string list \<Rightarrow> string" where
  "join_with c [] = []"
| "join_with c [w] = w"
| "join_with c (w # ws) = w @ c # join_with c ws"

lemma join_split: "join_with c (split_at c s) = s"
proof (induction s)
  case (Cons x xs)
  obtain w ws where w: "split_at c xs = w # ws" by (cases "split_at c xs") simp_all
  with Cons show ?case by (cases ws) (auto simp: w)
qed simp

lemma TrimSpace_id: "s = [] \<or> (\<not> is_space (hd s) \<and> \<not> is_space (last s)) \<Longrightarrow> TrimSpace s = s"
proof (cases s)
  case (Cons x xs)
  assume "s = [] \<or> (\<not> is_space (hd s) \<and> \<not> is_space (last s))"
  with Cons have d: "dropWhile is_space s = s" and l: "\<not> is_space (last s)" by simp_all
  have "s = butlast s @ [last s]" using Cons by simp
  then have r: "rev s = last s # rev (butlast s)" by (metis rev_eq_Cons_iff rev_rev_ident)
  have "dropWhile is_space (rev s) = rev s" using l by (simp add: r)
  then show ?thesis by (simp add: TrimSpace_def d)
qed (simp add: TrimSpace_def)

lemma TrimSpace_ends: "TrimSpace s = [] \<or> (\<not> is_space (hd (TrimSpace s)) \<and> \<not> is_space (last (TrimSpace s)))"
proof (cases "TrimSpace s = []")
  case False
  let ?t = "dropWhile is_space s"
  from False have r: "dropWhile is_space (rev ?t) \<noteq> []" unfolding TrimSpace_def by blast
  then have "\<not> is_space (last (TrimSpace s))"
    using hd_dropWhile [OF r] r by (simp only: TrimSpace_def last_rev)
  moreover obtain ys where "rev ?t = ys @ dropWhile is_space (rev ?t)"
    by (metis takeWhile_dropWhile_id)
  then have "?t = TrimSpace s @ rev ys" unfolding TrimSpace_def by (metis rev_append rev_rev_ident)
  with False have h: "hd (TrimSpace s) = hd ?t" and n: "?t \<noteq> []" by (metis hd_append2, metis append_is_Nil_conv)
  have "\<not> is_space (hd (TrimSpace s))" unfolding h by (rule hd_dropWhile [OF n])
  ultimately show ?thesis by simp
qed simp

lemma TrimSpace_idem [simp]: "TrimSpace (TrimSpace s) = TrimSpace s"
  by (rule TrimSpace_id) (rule TrimSpace_ends)

lemma set_TrimSpace: "set (TrimSpace s) \<subseteq> set s"
  unfolding TrimSpace_def by (auto dest!: set_dropWhileD)

section \<open>Reading values\<close>

definition ParseBool :: "string \<Rightarrow> bool" where
  "ParseBool s \<longleftrightarrow> s \<in> {''1'', ''t'', ''T'', ''true'', ''TRUE'', ''True''}"

definition is_digit :: "char \<Rightarrow> bool" where
  "is_digit c \<longleftrightarrow> 48 \<le> (of_char c :: nat) \<and> (of_char c :: nat) \<le> 57"

definition digits_value :: "string \<Rightarrow> int" where
  "digits_value s = foldl (\<lambda>n c. n * 10 + (int (of_char c) - 48)) 0 s"

text \<open>The value and whether there was no error; a value out of range is the nearest 64-bit integer.\<close>

definition Atoi :: "string \<Rightarrow> int \<times> bool" where
  "Atoi s =
     (let (neg, digits) =
            (case s of [] \<Rightarrow> (False, [])
             | c # r \<Rightarrow> if c = CHR ''-'' then (True, r) else if c = CHR ''+'' then (False, r) else (False, s))
      in if digits = [] \<or> \<not> list_all is_digit digits then (0, False)
         else (let v = (if neg then - digits_value digits else digits_value digits)
               in if v > 2 ^ 63 - 1 then (2 ^ 63 - 1, False)
                  else if v < - (2 ^ 63) then (- (2 ^ 63), False)
                  else (v, True)))"

lemma digits_value_nonneg: "list_all is_digit s \<Longrightarrow> 0 \<le> digits_value s"
proof -
  have "list_all is_digit s \<Longrightarrow> 0 \<le> n \<Longrightarrow> 0 \<le> foldl (\<lambda>n c. n * 10 + (int (of_char c) - 48)) n s" for n
  proof (induction s arbitrary: n)
    case (Cons c s)
    then have "0 \<le> int (of_char c) - 48" by (simp add: is_digit_def)
    with Cons show ?case by simp
  qed simp
  then show "list_all is_digit s \<Longrightarrow> 0 \<le> digits_value s" by (simp add: digits_value_def)
qed

lemma Atoi_range: "- (2 ^ 63) \<le> fst (Atoi s) \<and> fst (Atoi s) \<le> 2 ^ 63 - 1"
  by (simp add: Atoi_def Let_def split: prod.split)

section \<open>Replacing\<close>

text \<open>At every position the first replaced string that occurs there is replaced and skipped; the counter
  is what is left to skip.\<close>

definition HasPrefix :: "string \<Rightarrow> string \<Rightarrow> bool" where
  "HasPrefix s prefix \<longleftrightarrow> take (length prefix) s = prefix"

fun Replacer_Replace :: "(string \<times> string) list \<Rightarrow> nat \<Rightarrow> string \<Rightarrow> string" where
  "Replacer_Replace ps k [] = []"
| "Replacer_Replace ps (Suc k) (c # s) = Replacer_Replace ps k s"
| "Replacer_Replace ps 0 (c # s) =
     (case first_some (\<lambda>(old, new). HasPrefix (c # s) old) ps of
        Some (old, new) \<Rightarrow> new @ Replacer_Replace ps (length old - 1) s
      | None \<Rightarrow> c # Replacer_Replace ps 0 s)"

lemma Replacer_skip: "Replacer_Replace ps k s = Replacer_Replace ps 0 (drop k s)"
proof (induction k arbitrary: s)
  case (Suc k)
  then show ?case by (cases s) simp_all
qed simp

lemma HasPrefix_append [simp]: "HasPrefix (p @ s) p"
  by (simp add: HasPrefix_def)

end
