(* ===== verification/LastStates.thy ===== *)
theory LastStates
  imports StopVisits Situations GoStrings "HOL-Library.Word"
begin

text \<open>
  What was last broadcast to a subscriber, and whether an object has changed enough since
  (\<^verbatim>\<open>core/last_states.go\<close>). The states point to their subscription only to read its option
  \<^verbatim>\<open>ChangeBeforeUpdates\<close>: the options of the subscription are an argument of \<^verbatim>\<open>Haschanged\<close>.
  Durations are 64-bit and wrap around.
\<close>

section \<open>Statuses\<close>

definition STOP_VISIT_DEPARTURE_CANCELLED :: StopVisitDepartureStatus where
  "STOP_VISIT_DEPARTURE_CANCELLED = ''cancelled''"

definition STOP_VISIT_DEPARTURE_NOREPORT :: StopVisitDepartureStatus where
  "STOP_VISIT_DEPARTURE_NOREPORT = ''noreport''"

definition STOP_VISIT_ARRIVAL_NOREPORT :: StopVisitArrivalStatus where
  "STOP_VISIT_ARRIVAL_NOREPORT = ''noreport''"

definition STOP_VISIT_ARRIVAL_MISSED :: StopVisitArrivalStatus where
  "STOP_VISIT_ARRIVAL_MISSED = ''missed''"

definition STOP_VISIT_ARRIVAL_NOT_EXPECTED :: StopVisitArrivalStatus where
  "STOP_VISIT_ARRIVAL_NOT_EXPECTED = ''notExpected''"

definition schedulesHandler_handleArrivalStatus :: "StopVisitArrivalStatus \<Rightarrow> StopVisitArrivalStatus \<Rightarrow> bool" where
  "schedulesHandler_handleArrivalStatus svAs ettlcAs =
     (if svAs = ettlcAs then False
      else if svAs = STOP_VISIT_ARRIVAL_MISSED \<or> svAs = STOP_VISIT_ARRIVAL_NOT_EXPECTED \<or>
              svAs = STOP_VISIT_ARRIVAL_CANCELLED \<or> svAs = STOP_VISIT_ARRIVAL_NOREPORT then True
      else False)"

definition schedulesHandler_handleDepartureStatus ::
  "StopVisitDepartureStatus \<Rightarrow> StopVisitDepartureStatus \<Rightarrow> bool" where
  "schedulesHandler_handleDepartureStatus svDs ettlcDs =
     (if svDs = ettlcDs then False
      else if svDs = STOP_VISIT_DEPARTURE_NOREPORT \<or> svDs = STOP_VISIT_DEPARTURE_CANCELLED \<or>
              svDs = STOP_VISIT_DEPARTURE_DEPARTED then True
      else False)"

section \<open>Durations\<close>

type_synonym duration = "64 word"

definition hour :: duration where "hour = 3600000000000"
definition minute :: duration where "minute = 60000000000"
definition second :: duration where "second = 1000000000"
definition millisecond :: duration where "millisecond = 1000000"

definition optionParser_parseDuration :: "string \<Rightarrow> duration" where
  "optionParser_parseDuration value =
     (if length value = 0 then 0
      else (let (parsed, ok) = Atoi value in if \<not> ok then 0 else word_of_int parsed))"

function pow_loop :: "duration \<Rightarrow> duration \<Rightarrow> int \<Rightarrow> duration" where
  "pow_loop p a b =
     (if b > 0 then pow_loop (if b mod 2 \<noteq> 0 then p * a else p) (a * a) (b div 2) else p)"
  by auto
termination by (relation "measure (\<lambda>(p, a, b). nat b)") auto

declare pow_loop.simps [simp del]

definition optionParser_durationPow :: "duration \<Rightarrow> int \<Rightarrow> duration" where
  "optionParser_durationPow a b = pow_loop 1 a b"

text \<open>The groups of the regular expression, each the longest run of digits before its letter, or nothing.\<close>

definition digits_group :: "char \<Rightarrow> string \<Rightarrow> string \<times> string" where
  "digits_group letter s =
     (let d = takeWhile is_digit s; r = dropWhile is_digit s
      in if d \<noteq> [] \<and> r \<noteq> [] \<and> hd r = letter then (d, tl r) else ([], s))"

text \<open>The seconds and their fraction of one to three digits.\<close>

definition seconds_group :: "string \<Rightarrow> string \<times> string" where
  "seconds_group s =
     (let d = takeWhile is_digit s; r = dropWhile is_digit s
      in if d = [] \<or> r = [] then ([], [])
         else if hd r = CHR ''S'' then (d, [])
         else if hd r = CHR ''.'' \<or> hd r = CHR '',''
              then (let f = takeWhile is_digit (tl r); q = dropWhile is_digit (tl r)
                    in if f \<noteq> [] \<and> length f \<le> 3 \<and> q \<noteq> [] \<and> hd q = CHR ''S'' then (d, f) else ([], []))
         else ([], []))"

definition option_groups :: "string \<Rightarrow> string list option" where
  "option_groups option =
     (case dropWhile (\<lambda>c. c \<noteq> CHR ''P'') (TrimSpace option) of
        [] \<Rightarrow> None
      | _ # s \<Rightarrow>
          (let (y, s1) = digits_group (CHR ''Y'') s;
               (mo, s2) = digits_group (CHR ''M'') s1;
               (d, s3) = digits_group (CHR ''D'') s2
           in case s3 of
                CHR ''T'' # t \<Rightarrow>
                  (let (h, t1) = digits_group (CHR ''H'') t;
                       (mi, t2) = digits_group (CHR ''M'') t1;
                       (se, fr) = seconds_group t2
                   in Some [y, mo, d, h, mi, se, fr])
              | _ \<Rightarrow> Some [y, mo, d, [], [], [], []]))"

definition optionParser_getOptionDuration :: "string \<Rightarrow> duration" where
  "optionParser_getOptionDuration option =
     (case option_groups option of
        None \<Rightarrow> 0
      | Some ms \<Rightarrow>
          (let years = optionParser_parseDuration (ms ! 0) * 24 * 365 * hour;
               months = optionParser_parseDuration (ms ! 1) * 30 * 24 * hour;
               days = optionParser_parseDuration (ms ! 2) * 24 * hour;
               hours = optionParser_parseDuration (ms ! 3) * hour;
               minutes = optionParser_parseDuration (ms ! 4) * minute;
               seconds = optionParser_parseDuration (ms ! 5) * second;
               rest = optionParser_parseDuration (ms ! 6) *
                        optionParser_durationPow 10 (3 - int (length (ms ! 6))) * millisecond
           in years + months + days + hours + minutes + seconds + rest))"

definition schedulesHandler_handleArrivalTime ::
  "StopVisitSchedule \<Rightarrow> StopVisitSchedule \<Rightarrow> duration \<Rightarrow> bool" where
  "schedulesHandler_handleArrivalTime sc lssc duration =
     (if IsZero (svs_arrivalTime sc) then False
      else if IsZero (svs_arrivalTime lssc) then True
      else \<not> (svs_arrivalTime sc < svs_arrivalTime lssc + sint duration \<and>
              svs_arrivalTime sc > svs_arrivalTime lssc + sint (- duration)))"

definition schedulesHandler_handleDepartedTime ::
  "StopVisitSchedule \<Rightarrow> StopVisitSchedule \<Rightarrow> duration \<Rightarrow> bool" where
  "schedulesHandler_handleDepartedTime sc lssc duration =
     (if IsZero (svs_departureTime sc) then False
      else if IsZero (svs_departureTime lssc) then True
      else \<not> (svs_departureTime sc < svs_departureTime lssc + sint duration \<and>
              svs_departureTime sc > svs_departureTime lssc + sint (- duration)))"

section \<open>Last states\<close>

record stopAreaLastChange =
  salc_origins :: StopAreaOrigins

record stopMonitoringLastChange =
  smlc_schedules :: StopVisitSchedules
  smlc_departureStatus :: StopVisitDepartureStatus
  smlc_arrivalStatus :: StopVisitArrivalStatus

record estimatedTimeTableLastChange =
  ettlc_schedules :: StopVisitSchedules
  ettlc_departureStatus :: StopVisitDepartureStatus
  ettlc_arrivalStatus :: StopVisitArrivalStatus
  ettlc_vehicleAtStop :: bool

record generalMessageLastChange =
  sglc_recordedAt :: stamp

datatype lastState =
    StopAreaState stopAreaLastChange
  | StopMonitoringState stopMonitoringLastChange
  | EstimatedTimeTableState estimatedTimeTableLastChange
  | GeneralMessageState generalMessageLastChange

text \<open>\<^verbatim>\<open>InitState\<close> is \<^verbatim>\<open>UpdateState\<close> after setting the subscription.\<close>

definition stopAreaLastChange_UpdateState :: "StopArea \<Rightarrow> stopAreaLastChange \<Rightarrow> stopAreaLastChange" where
  "stopAreaLastChange_UpdateState stopArea salc = salc\<lparr>salc_origins := Origins_Copy (sa_Origins stopArea)\<rparr>"

definition stopAreaLastChange_Haschanged :: "stopAreaLastChange \<Rightarrow> StopArea \<Rightarrow> string list \<times> bool" where
  "stopAreaLastChange_Haschanged salc stopArea =
     Origins_PartnersLost (salc_origins salc) (Some (sa_Origins stopArea))"

definition stopMonitoringLastChange_UpdateState ::
  "StopVisit \<Rightarrow> stopMonitoringLastChange \<Rightarrow> stopMonitoringLastChange" where
  "stopMonitoringLastChange_UpdateState stopVisit smlc =
     smlc\<lparr>smlc_schedules := Schedules_Copy (sv_Schedules stopVisit),
          smlc_arrivalStatus := sv_ArrivalStatus stopVisit,
          smlc_departureStatus := sv_DepartureStatus stopVisit\<rparr>"

definition ChangeBeforeUpdates :: string where
  "ChangeBeforeUpdates = ''ChangeBeforeUpdates''"

definition change_duration :: "string \<Rightarrow> duration" where
  "change_duration option =
     (let duration = optionParser_getOptionDuration option in if duration = 0 then minute else duration)"

fun times_changed ::
  "StopVisitScheduleType list \<Rightarrow> StopVisitSchedules \<Rightarrow> StopVisitSchedules \<Rightarrow> duration \<Rightarrow> bool" where
  "times_changed [] new old duration = False"
| "times_changed (kind # kinds) new old duration =
     (if schedulesHandler_handleArrivalTime (Schedules_Schedule new kind) (Schedules_Schedule old kind) duration \<or>
         schedulesHandler_handleDepartedTime (Schedules_Schedule new kind) (Schedules_Schedule old kind) duration
      then True else times_changed kinds new old duration)"

definition stopMonitoringLastChange_Haschanged ::
  "(string, string) gomap \<Rightarrow> stopMonitoringLastChange \<Rightarrow> StopVisit \<Rightarrow> bool" where
  "stopMonitoringLastChange_Haschanged options smlc stopVisit =
     (if smlc_departureStatus smlc = STOP_VISIT_DEPARTURE_DEPARTED \<or>
         smlc_departureStatus smlc = STOP_VISIT_DEPARTURE_CANCELLED \<or>
         smlc_arrivalStatus smlc = STOP_VISIT_ARRIVAL_CANCELLED then False
      else if schedulesHandler_handleArrivalStatus (sv_ArrivalStatus stopVisit) (smlc_arrivalStatus smlc) \<or>
              schedulesHandler_handleDepartureStatus (sv_DepartureStatus stopVisit) (smlc_departureStatus smlc)
           then True
      else (let option = mget_or '''' options ChangeBeforeUpdates
            in if option = '''' then True
               else times_changed [''actual'', ''expected'', ''aimed''] (sv_Schedules stopVisit)
                      (smlc_schedules smlc) (change_duration option)))"

definition estimatedTimeTableLastChange_UpdateState ::
  "StopVisit \<Rightarrow> estimatedTimeTableLastChange \<Rightarrow> estimatedTimeTableLastChange" where
  "estimatedTimeTableLastChange_UpdateState sv ettlc =
     ettlc\<lparr>ettlc_vehicleAtStop := sv_VehicleAtStop sv,
           ettlc_schedules := Schedules_Copy (sv_Schedules sv),
           ettlc_departureStatus := sv_DepartureStatus sv,
           ettlc_arrivalStatus := sv_ArrivalStatus sv\<rparr>"

definition estimatedTimeTableLastChange_Haschanged ::
  "(string, string) gomap \<Rightarrow> estimatedTimeTableLastChange \<Rightarrow> StopVisit \<Rightarrow> bool" where
  "estimatedTimeTableLastChange_Haschanged options ettlc stopVisit =
     (if ettlc_departureStatus ettlc = STOP_VISIT_DEPARTURE_DEPARTED \<or>
         ettlc_departureStatus ettlc = STOP_VISIT_DEPARTURE_CANCELLED \<or>
         ettlc_arrivalStatus ettlc = STOP_VISIT_ARRIVAL_CANCELLED then False
      else if schedulesHandler_handleArrivalStatus (sv_ArrivalStatus stopVisit) (ettlc_arrivalStatus ettlc) \<or>
              schedulesHandler_handleDepartureStatus (sv_DepartureStatus stopVisit) (ettlc_departureStatus ettlc)
           then True
      else if ettlc_vehicleAtStop ettlc \<noteq> sv_VehicleAtStop stopVisit \<and> sv_VehicleAtStop stopVisit then True
      else (let option = mget_or '''' options ChangeBeforeUpdates
            in if option = '''' then True
               else times_changed [''actual'', ''expected'', ''aimed''] (sv_Schedules stopVisit)
                      (ettlc_schedules ettlc) (change_duration option)))"

definition generalMessageLastChange_UpdateState ::
  "Situation \<Rightarrow> generalMessageLastChange \<Rightarrow> generalMessageLastChange" where
  "generalMessageLastChange_UpdateState situation sglc = sglc\<lparr>sglc_recordedAt := st_RecordedAt situation\<rparr>"

definition generalMessageLastChange_Haschanged :: "generalMessageLastChange \<Rightarrow> Situation \<Rightarrow> bool" where
  "generalMessageLastChange_Haschanged sglc situation \<longleftrightarrow>
     stamp_instant (st_RecordedAt situation) \<noteq> stamp_instant (sglc_recordedAt sglc)"

section \<open>When a visit has changed\<close>

text \<open>A time has moved when it is known now and was not, or is at least the tolerance away.\<close>

definition moved :: "int \<Rightarrow> gotime \<Rightarrow> gotime \<Rightarrow> bool" where
  "moved w old new \<longleftrightarrow> new \<noteq> 0 \<and> (old = 0 \<or> w \<le> \<bar>new - old\<bar>)"

lemma sint_minus:
  fixes d :: duration
  assumes "sint d \<noteq> - (2 ^ 63)"
  shows "sint (- d) = - sint d"
proof -
  have b: "- (2 ^ 63) \<le> sint d" "sint d < 2 ^ 63" using sint_ge [of d] sint_lt [of d] by simp_all
  have "sint (- d) = signed_take_bit 63 (- sint d)" using sint_word_minus [of d] by simp
  also have "\<dots> = - sint d" using assms b by (intro signed_take_bit_int_eq_self) simp_all
  finally show ?thesis .
qed

lemma sint_minus_pos: "0 < sint (d :: duration) \<Longrightarrow> sint (- d) = - sint d"
  by (rule sint_minus) auto

lemma sint_minus_neg:
  fixes d :: duration
  assumes "sint d \<le> 0"
  shows "sint d \<le> sint (- d)"
proof (cases "sint d = - (2 ^ 63)")
  case True
  with sint_ge [of "- d"] show ?thesis by simp
next
  case False
  with assms show ?thesis by (simp add: sint_minus)
qed

lemma window: "(t < t0 + sint (d :: duration) \<and> t > t0 + sint (- d)) \<longleftrightarrow> \<bar>t - t0\<bar> < sint d"
proof (cases "0 < sint d")
  case True
  then show ?thesis by (auto simp: sint_minus_pos)
next
  case False
  with sint_minus_neg [of d] show ?thesis by auto
qed

lemma handle_times:
  "schedulesHandler_handleArrivalTime sc lssc d \<longleftrightarrow> moved (sint d) (svs_arrivalTime lssc) (svs_arrivalTime sc)"
  "schedulesHandler_handleDepartedTime sc lssc d \<longleftrightarrow>
     moved (sint d) (svs_departureTime lssc) (svs_departureTime sc)"
  by (simp_all add: schedulesHandler_handleArrivalTime_def schedulesHandler_handleDepartedTime_def moved_def
      window not_less)

lemma times_changed_iff:
  "times_changed kinds new old d \<longleftrightarrow>
     (\<exists>kind \<in> set kinds.
        moved (sint d) (svs_arrivalTime (Schedules_Schedule old kind)) (svs_arrivalTime (Schedules_Schedule new kind)) \<or>
        moved (sint d) (svs_departureTime (Schedules_Schedule old kind))
          (svs_departureTime (Schedules_Schedule new kind)))"
  by (induction kinds) (auto simp: handle_times)

definition finished :: "StopVisit \<Rightarrow> bool" where
  "finished sv \<longleftrightarrow> sv_DepartureStatus sv \<in> {''departed'', ''cancelled''} \<or> sv_ArrivalStatus sv = ''cancelled''"

definition reported_status :: "StopVisit \<Rightarrow> StopVisit \<Rightarrow> bool" where
  "reported_status old new \<longleftrightarrow>
     sv_ArrivalStatus new \<noteq> sv_ArrivalStatus old \<and>
       sv_ArrivalStatus new \<in> {''missed'', ''notExpected'', ''cancelled'', ''noreport''} \<or>
     sv_DepartureStatus new \<noteq> sv_DepartureStatus old \<and>
       sv_DepartureStatus new \<in> {''noreport'', ''cancelled'', ''departed''}"

definition visit_moved :: "int \<Rightarrow> StopVisit \<Rightarrow> StopVisit \<Rightarrow> bool" where
  "visit_moved w old new \<longleftrightarrow>
     (\<exists>kind \<in> {''actual'', ''expected'', ''aimed''}.
        moved w (svs_arrivalTime (Schedules_Schedule (sv_Schedules old) kind))
          (svs_arrivalTime (Schedules_Schedule (sv_Schedules new) kind)) \<or>
        moved w (svs_departureTime (Schedules_Schedule (sv_Schedules old) kind))
          (svs_departureTime (Schedules_Schedule (sv_Schedules new) kind)))"

lemmas visit_status_defs =
  STOP_VISIT_DEPARTURE_DEPARTED_def STOP_VISIT_DEPARTURE_CANCELLED_def STOP_VISIT_DEPARTURE_NOREPORT_def
  STOP_VISIT_ARRIVAL_CANCELLED_def STOP_VISIT_ARRIVAL_MISSED_def STOP_VISIT_ARRIVAL_NOT_EXPECTED_def
  STOP_VISIT_ARRIVAL_NOREPORT_def

lemma handle_status:
  "schedulesHandler_handleArrivalStatus (sv_ArrivalStatus new) (sv_ArrivalStatus old) \<or>
   schedulesHandler_handleDepartureStatus (sv_DepartureStatus new) (sv_DepartureStatus old) \<longleftrightarrow>
   reported_status old new"
  unfolding schedulesHandler_handleArrivalStatus_def schedulesHandler_handleDepartureStatus_def
    reported_status_def visit_status_defs insert_iff empty_iff by argo

lemma times_changed_visit:
  "times_changed [''actual'', ''expected'', ''aimed''] (sv_Schedules new) (sv_Schedules old) d \<longleftrightarrow>
     visit_moved (sint d) old new"
  unfolding times_changed_iff visit_moved_def by (simp only: list.set)

definition changed_spec :: "(string, string) gomap \<Rightarrow> StopVisit \<Rightarrow> StopVisit \<Rightarrow> bool" where
  "changed_spec options old new \<longleftrightarrow>
     reported_status old new \<or> mget_or '''' options ChangeBeforeUpdates = '''' \<or>
     visit_moved (sint (change_duration (mget_or '''' options ChangeBeforeUpdates))) old new"

lemma stopMonitoring_changed:
  assumes "mwf (sv_Schedules old)"
  shows "stopMonitoringLastChange_Haschanged options (stopMonitoringLastChange_UpdateState old smlc) new \<longleftrightarrow>
     \<not> finished old \<and> changed_spec options old new"
  using assms handle_status [of new old] times_changed_visit [of new old]
  by (simp add: stopMonitoringLastChange_Haschanged_def stopMonitoringLastChange_UpdateState_def Let_def
      changed_spec_def finished_def visit_status_defs del: times_changed.simps list.inject)

lemma estimatedTimeTable_changed:
  assumes "mwf (sv_Schedules old)"
  shows "estimatedTimeTableLastChange_Haschanged options (estimatedTimeTableLastChange_UpdateState old ettlc) new \<longleftrightarrow>
     \<not> finished old \<and> (changed_spec options old new \<or> sv_VehicleAtStop new \<and> \<not> sv_VehicleAtStop old)"
proof -
  have fin: "sv_DepartureStatus old = STOP_VISIT_DEPARTURE_DEPARTED \<or>
      sv_DepartureStatus old = STOP_VISIT_DEPARTURE_CANCELLED \<or>
      sv_ArrivalStatus old = STOP_VISIT_ARRIVAL_CANCELLED \<longleftrightarrow> finished old"
    by (simp add: finished_def visit_status_defs)
  have at_stop: "sv_VehicleAtStop old \<noteq> sv_VehicleAtStop new \<and> sv_VehicleAtStop new \<longleftrightarrow>
      sv_VehicleAtStop new \<and> \<not> sv_VehicleAtStop old" by blast
  let ?e = "estimatedTimeTableLastChange_UpdateState old ettlc"
  have fields: "ettlc_schedules ?e = sv_Schedules old" "ettlc_departureStatus ?e = sv_DepartureStatus old"
    "ettlc_arrivalStatus ?e = sv_ArrivalStatus old" "ettlc_vehicleAtStop ?e = sv_VehicleAtStop old"
    using assms by (simp_all add: estimatedTimeTableLastChange_UpdateState_def)
  show ?thesis
    unfolding estimatedTimeTableLastChange_Haschanged_def Let_def changed_spec_def fields fin handle_status at_stop
      times_changed_visit by argo
qed

lemma option_examples:
  "change_duration ''PT2M'' = 2 * minute"
  "change_duration '' every PT1H30M15.5S'' = 5415500 * millisecond"
  "change_duration ''none'' = minute"
  "change_duration ''P300Y'' = - (8985944073709551616)"
  by code_simp+

text \<open>C32. A stop visit is broadcast again exactly when the one broadcast before was not finished and either a
  reportable status is new, the subscription sets no tolerance, or some time of the three schedules became
  known or moved by at least the tolerance; for estimated timetables also when the vehicle has come to the
  stop.\<close>

theorem visit_changed:
  assumes "mwf (sv_Schedules old)"
  shows "(stopMonitoringLastChange_Haschanged options (stopMonitoringLastChange_UpdateState old smlc) new \<longleftrightarrow>
      \<not> finished old \<and>
      (reported_status old new \<or> mget_or '''' options ChangeBeforeUpdates = '''' \<or>
       visit_moved (sint (change_duration (mget_or '''' options ChangeBeforeUpdates))) old new)) \<and>
    (estimatedTimeTableLastChange_Haschanged options (estimatedTimeTableLastChange_UpdateState old ettlc) new \<longleftrightarrow>
      stopMonitoringLastChange_Haschanged options (stopMonitoringLastChange_UpdateState old smlc) new \<or>
      \<not> finished old \<and> sv_VehicleAtStop new \<and> \<not> sv_VehicleAtStop old)"
  unfolding stopMonitoring_changed [OF assms] estimatedTimeTable_changed [OF assms] changed_spec_def by argo

definition example_state_visit :: "gotime \<Rightarrow> StopVisit" where
  "example_state_visit t = (NewStopVisit TheModel)\<lparr>sv_Schedules :=
     [(''aimed'', \<lparr>svs_kind = ''aimed'', svs_departureTime = 0, svs_arrivalTime = t\<rparr>)]\<rparr>"

lemma example_state_visit:
  "mwf (sv_Schedules (example_state_visit t))" "\<not> finished (example_state_visit t)"
  "svs_arrivalTime (Schedules_Schedule (sv_Schedules (example_state_visit t)) ''aimed'') = t"
  by (simp_all add: example_state_visit_def NewStopVisit_def finished_def Schedules_Schedule_def mwf_def)

lemma visit_moved_arrival:
  "moved w (svs_arrivalTime (Schedules_Schedule (sv_Schedules old) ''aimed''))
     (svs_arrivalTime (Schedules_Schedule (sv_Schedules new) ''aimed'')) \<Longrightarrow> visit_moved w old new"
  unfolding visit_moved_def by blast

theorem visit_changed_witness:
  "stopMonitoringLastChange_Haschanged [(ChangeBeforeUpdates, ''PT2M'')]
     (stopMonitoringLastChange_UpdateState (example_state_visit 1) \<lparr>smlc_schedules = [],
        smlc_departureStatus = '''', smlc_arrivalStatus = ''''\<rparr>) (example_state_visit (minutes 3))"
proof -
  have o: "mget_or '''' [(ChangeBeforeUpdates, ''PT2M'')] ChangeBeforeUpdates = ''PT2M''"
    by (simp add: mget_or_def)
  have d: "sint (change_duration ''PT2M'') = minutes 2" by code_simp
  have m: "visit_moved (minutes 2) (example_state_visit 1) (example_state_visit (minutes 3))"
    by (rule visit_moved_arrival) (simp add: example_state_visit(3) moved_def)
  from visit_changed [OF example_state_visit(1) [of 1], of "[(ChangeBeforeUpdates, ''PT2M'')]"]
    example_state_visit(2) m show ?thesis unfolding o d by blast
qed

lemma unmoved: "visit_moved w sv sv \<longleftrightarrow> w \<le> 0 \<and> visit_moved (- 1) sv sv"
  unfolding visit_moved_def moved_def by auto

text \<open>A tolerance of 300 years overflows to a negative duration: a visit with a known aimed arrival is then
  broadcast again although nothing in it has changed, which a tolerance of a year prevents.\<close>

theorem tolerance_overflow:
  assumes "mwf (sv_Schedules sv)" and "\<not> finished sv"
    and "svs_arrivalTime (Schedules_Schedule (sv_Schedules sv) ''aimed'') \<noteq> 0"
  shows "sint (change_duration ''P300Y'') < 0 \<and>
    stopMonitoringLastChange_Haschanged [(ChangeBeforeUpdates, ''P300Y'')]
      (stopMonitoringLastChange_UpdateState sv smlc) sv \<and>
    \<not> stopMonitoringLastChange_Haschanged [(ChangeBeforeUpdates, ''P1Y'')]
      (stopMonitoringLastChange_UpdateState sv smlc) sv"
proof -
  have neg: "sint (change_duration ''P300Y'') < 0" and pos: "0 < sint (change_duration ''P1Y'')" by code_simp+
  have "visit_moved (sint (change_duration ''P300Y'')) sv sv"
    using assms(3) neg by (intro visit_moved_arrival) (simp add: moved_def)
  moreover have "\<not> visit_moved (sint (change_duration ''P1Y'')) sv sv" using pos by (subst unmoved) simp
  moreover have "\<not> reported_status sv sv" by (simp add: reported_status_def)
  moreover have "mget_or '''' [(ChangeBeforeUpdates, d)] ChangeBeforeUpdates = d" for d by (simp add: mget_or_def)
  ultimately show ?thesis
    using neg assms(2) unfolding stopMonitoring_changed [OF assms(1)] changed_spec_def
    by (metis list.distinct(1))
qed

theorem tolerance_overflow_witness:
  "stopMonitoringLastChange_Haschanged [(ChangeBeforeUpdates, ''P300Y'')]
     (stopMonitoringLastChange_UpdateState (example_state_visit 7) \<lparr>smlc_schedules = [],
        smlc_departureStatus = '''', smlc_arrivalStatus = ''''\<rparr>) (example_state_visit 7)"
  using tolerance_overflow [OF example_state_visit(1,2) [of 7]] example_state_visit(3) [of 7] by simp

end
