(* ===== verification/Settings.thy ===== *)
theory Settings
  imports GoStrings Uuid
begin

text \<open>
  The settings of a partner (\<^verbatim>\<open>core/partner_settings.go\<close>), what is collected from it
  (\<^verbatim>\<open>core/collect_settings.go\<close>) and the formats of its identifiers
  (\<^verbatim>\<open>core/identifier_generator.go\<close>). The settings keep two caches beside the map of
  strings; the refinement below shows that they are never stale. Durations are nanoseconds, and reading
  one from a string (\<^verbatim>\<open>time.ParseDuration\<close>, 0 when it fails) is a parameter.
\<close>

section \<open>What is collected\<close>

type_synonym collection = "string list"

record CollectSettings =
  cos_UseDiscovered :: bool
  cos_includedSA :: collection
  cos_includedLines :: collection
  cos_excludedSA :: collection

definition collection_include :: "collection \<Rightarrow> string \<Rightarrow> bool" where
  "collection_include c s \<longleftrightarrow> list_ex (\<lambda>x. x = s) c"

text \<open>A map to empty structs is the list of its keys.\<close>

definition collection_isInMap :: "collection \<Rightarrow> string list \<Rightarrow> bool" where
  "collection_isInMap c m \<longleftrightarrow> list_ex (\<lambda>x. x \<in> set m) c"

definition CollectSettings_Empty :: "CollectSettings \<Rightarrow> bool" where
  "CollectSettings_Empty cs \<longleftrightarrow>
     length (cos_includedSA cs) = 0 \<and> length (cos_includedLines cs) = 0 \<and>
     length (cos_excludedSA cs) = 0 \<and> \<not> cos_UseDiscovered cs"

definition CollectSettings_IncludeStop :: "CollectSettings \<Rightarrow> string \<Rightarrow> bool" where
  "CollectSettings_IncludeStop cs s \<longleftrightarrow> collection_include (cos_includedSA cs) s"

definition CollectSettings_ExcludeStop :: "CollectSettings \<Rightarrow> string \<Rightarrow> bool" where
  "CollectSettings_ExcludeStop cs s \<longleftrightarrow> collection_include (cos_excludedSA cs) s"

definition CollectSettings_IncludeLine :: "CollectSettings \<Rightarrow> string \<Rightarrow> bool" where
  "CollectSettings_IncludeLine cs s =
     (if length (cos_includedLines cs) = 0 then False
      else if collection_include (cos_includedLines cs) s then True
      else False)"

definition CollectSettings_CanCollectLines :: "CollectSettings \<Rightarrow> string list \<Rightarrow> bool" where
  "CollectSettings_CanCollectLines cs lineIds =
     (if length (cos_includedLines cs) = 0 then False
      else collection_isInMap (cos_includedLines cs) lineIds)"

lemma collect_simps [simp]:
  "collection_include c s \<longleftrightarrow> s \<in> set c"
  "collection_isInMap c m \<longleftrightarrow> set c \<inter> set m \<noteq> {}"
  "CollectSettings_IncludeStop cs s \<longleftrightarrow> s \<in> set (cos_includedSA cs)"
  "CollectSettings_ExcludeStop cs s \<longleftrightarrow> s \<in> set (cos_excludedSA cs)"
  "CollectSettings_IncludeLine cs s \<longleftrightarrow> s \<in> set (cos_includedLines cs)"
  "CollectSettings_CanCollectLines cs m \<longleftrightarrow> set (cos_includedLines cs) \<inter> set m \<noteq> {}"
  by (auto simp: collection_include_def collection_isInMap_def list_ex_iff CollectSettings_IncludeStop_def
      CollectSettings_ExcludeStop_def CollectSettings_IncludeLine_def CollectSettings_CanCollectLines_def)

section \<open>Identifiers\<close>

definition MESSAGE_IDENTIFIER :: string where "MESSAGE_IDENTIFIER = ''message_identifier''"

definition RESPONSE_MESSAGE_IDENTIFIER :: string where "RESPONSE_MESSAGE_IDENTIFIER = ''response_message_identifier''"

definition DATA_FRAME_IDENTIFIER :: string where "DATA_FRAME_IDENTIFIER = ''data_frame_identifier''"

definition REFERENCE_IDENTIFIER :: string where "REFERENCE_IDENTIFIER = ''reference_identifier''"

definition REFERENCE_STOP_AREA_IDENTIFIER :: string where "REFERENCE_STOP_AREA_IDENTIFIER = ''reference_stop_area_identifier''"

definition SUBSCRIPTION_IDENTIFIER :: string where "SUBSCRIPTION_IDENTIFIER = ''subscription_identifier''"

lemmas identifier_names =
  MESSAGE_IDENTIFIER_def
  RESPONSE_MESSAGE_IDENTIFIER_def
  DATA_FRAME_IDENTIFIER_def
  REFERENCE_IDENTIFIER_def
  REFERENCE_STOP_AREA_IDENTIFIER_def
  SUBSCRIPTION_IDENTIFIER_def

definition defaultIdentifierGenerators :: "(string, string) gomap" where
  "defaultIdentifierGenerators =
     [(MESSAGE_IDENTIFIER, ''%{uuid}''),
      (RESPONSE_MESSAGE_IDENTIFIER, ''%{uuid}''),
      (DATA_FRAME_IDENTIFIER, ''%{id}''),
      (REFERENCE_IDENTIFIER, ''%{type}:%{id}''),
      (REFERENCE_STOP_AREA_IDENTIFIER, ''%{id}''),
      (SUBSCRIPTION_IDENTIFIER, ''%{id}'')]"

record IdentifierGenerator =
  ig_formatString :: string

record IdentifierAttributes =
  ia_Type :: string
  ia_Id :: string

definition DefaultIdentifierGenerator :: "string \<Rightarrow> string" where
  "DefaultIdentifierGenerator k = mget_or '''' defaultIdentifierGenerators k"

definition NewIdentifierGenerator :: "string \<Rightarrow> IdentifierGenerator" where
  "NewIdentifierGenerator formatString = \<lparr>ig_formatString = formatString\<rparr>"

text \<open>Every occurrence of \<^verbatim>\<open>%{uuid}\<close>, from the left and without overlaps, takes the next identifier
  of the generator; the counter is what is left to skip.\<close>

fun handleuuids :: "nat \<Rightarrow> string \<Rightarrow> uuid_gen \<Rightarrow> string \<times> uuid_gen" where
  "handleuuids k [] g = ([], g)"
| "handleuuids (Suc k) (c # s) g = handleuuids k s g"
| "handleuuids 0 (c # s) g =
     (if HasPrefix (c # s) ''%{uuid}''
      then (let (u, g1) = NewUUID g; (r, g2) = handleuuids 6 s g1 in (u @ r, g2))
      else (let (r, g1) = handleuuids 0 s g in (c # r, g1)))"

definition identifier_pairs :: "IdentifierAttributes \<Rightarrow> (string \<times> string) list" where
  "identifier_pairs attributes =
     [(''%{id}'', ia_Id attributes), (''%{type}'', ia_Type attributes),
      (''%{default}'', ia_Id attributes), (''%{objectid}'', ia_Id attributes)]"

definition IdentifierGenerator_NewIdentifier ::
  "IdentifierAttributes \<Rightarrow> IdentifierGenerator \<Rightarrow> uuid_gen \<Rightarrow> string \<times> uuid_gen" where
  "IdentifierGenerator_NewIdentifier attributes generator g =
     handleuuids 0 (Replacer_Replace (identifier_pairs attributes) 0 (ig_formatString generator)) g"

definition IdentifierGenerator_NewMessageIdentifier ::
  "IdentifierGenerator \<Rightarrow> uuid_gen \<Rightarrow> string \<times> uuid_gen" where
  "IdentifierGenerator_NewMessageIdentifier generator g = handleuuids 0 (ig_formatString generator) g"

section \<open>Settings\<close>

definition LOCAL_CREDENTIAL :: string where "LOCAL_CREDENTIAL = ''local_credential''"

definition LOCAL_CREDENTIALS :: string where "LOCAL_CREDENTIALS = ''local_credentials''"

definition LOCAL_URL :: string where "LOCAL_URL = ''local_url''"

definition REMOTE_CREDENTIAL :: string where "REMOTE_CREDENTIAL = ''remote_credential''"

definition REMOTE_OBJECTID_KIND :: string where "REMOTE_OBJECTID_KIND = ''remote_objectid_kind''"

definition VEHICLE_REMOTE_OBJECTID_KIND :: string where "VEHICLE_REMOTE_OBJECTID_KIND = ''vehicle_remote_objectid_kind''"

definition REMOTE_URL :: string where "REMOTE_URL = ''remote_url''"

definition COLLECT_PRIORITY :: string where "COLLECT_PRIORITY = ''collect.priority''"

definition COLLECT_INCLUDE_LINES :: string where "COLLECT_INCLUDE_LINES = ''collect.include_lines''"

definition COLLECT_INCLUDE_STOP_AREAS :: string where "COLLECT_INCLUDE_STOP_AREAS = ''collect.include_stop_areas''"

definition COLLECT_EXCLUDE_STOP_AREAS :: string where "COLLECT_EXCLUDE_STOP_AREAS = ''collect.exclude_stop_areas''"

definition COLLECT_USE_DISCOVERED_SA :: string where "COLLECT_USE_DISCOVERED_SA = ''collect.use_discovered_stop_areas''"

definition COLLECT_SUBSCRIPTIONS_PERSISTENT :: string where "COLLECT_SUBSCRIPTIONS_PERSISTENT = ''collect.subscriptions.persistent''"

definition COLLECT_FILTER_GENERAL_MESSAGES :: string where "COLLECT_FILTER_GENERAL_MESSAGES = ''collect.filter_general_messages''"

definition DISCOVERY_INTERVAL :: string where "DISCOVERY_INTERVAL = ''discovery_interval''"

definition BROADCAST_SUBSCRIPTIONS_PERSISTENT :: string where "BROADCAST_SUBSCRIPTIONS_PERSISTENT = ''broadcast.subscriptions.persistent''"

definition BROADCAST_REWRITE_JOURNEY_PATTERN_REF :: string where "BROADCAST_REWRITE_JOURNEY_PATTERN_REF = ''broadcast.rewrite_journey_pattern_ref''"

definition BROADCAST_NO_DESTINATIONREF_REWRITING_FROM :: string where "BROADCAST_NO_DESTINATIONREF_REWRITING_FROM = ''broadcast.no_destinationref_rewriting_from''"

definition BROADCAST_NO_DATAFRAMEREF_REWRITING_FROM :: string where "BROADCAST_NO_DATAFRAMEREF_REWRITING_FROM = ''broadcast.no_dataframeref_rewriting_from''"

definition BROADCAST_GZIP_GTFS :: string where "BROADCAST_GZIP_GTFS = ''broadcast.gzip_gtfs''"

definition BROADCAST_GTFS_CACHE_TIMEOUT :: string where "BROADCAST_GTFS_CACHE_TIMEOUT = ''broadcast.gtfs.cache_timeout''"

definition SUBSCRIPTIONS_MAXIMUM_RESOURCES :: string where "SUBSCRIPTIONS_MAXIMUM_RESOURCES = ''subscriptions.maximum_resources''"

definition LOGSTASH_LOG_DELIVERIES_IN_SM_COLLECT_NOTIFICATIONS :: string where "LOGSTASH_LOG_DELIVERIES_IN_SM_COLLECT_NOTIFICATIONS = ''logstash.log_deliveries_in_sm_collect_notifications''"

definition LOGSTASH_LOG_DELIVERIES_IN_SM_COLLECT_REQUESTS :: string where "LOGSTASH_LOG_DELIVERIES_IN_SM_COLLECT_REQUESTS = ''logstash.log_deliveries_in_sm_collect_requests''"

definition CACHE_TIMEOUT :: string where "CACHE_TIMEOUT = ''cache_timeout''"

lemmas setting_keys =
  LOCAL_CREDENTIAL_def
  LOCAL_CREDENTIALS_def
  LOCAL_URL_def
  REMOTE_CREDENTIAL_def
  REMOTE_OBJECTID_KIND_def
  VEHICLE_REMOTE_OBJECTID_KIND_def
  REMOTE_URL_def
  COLLECT_PRIORITY_def
  COLLECT_INCLUDE_LINES_def
  COLLECT_INCLUDE_STOP_AREAS_def
  COLLECT_EXCLUDE_STOP_AREAS_def
  COLLECT_USE_DISCOVERED_SA_def
  COLLECT_SUBSCRIPTIONS_PERSISTENT_def
  COLLECT_FILTER_GENERAL_MESSAGES_def
  DISCOVERY_INTERVAL_def
  BROADCAST_SUBSCRIPTIONS_PERSISTENT_def
  BROADCAST_REWRITE_JOURNEY_PATTERN_REF_def
  BROADCAST_NO_DESTINATIONREF_REWRITING_FROM_def
  BROADCAST_NO_DATAFRAMEREF_REWRITING_FROM_def
  BROADCAST_GZIP_GTFS_def
  BROADCAST_GTFS_CACHE_TIMEOUT_def
  SUBSCRIPTIONS_MAXIMUM_RESOURCES_def
  LOGSTASH_LOG_DELIVERIES_IN_SM_COLLECT_NOTIFICATIONS_def
  LOGSTASH_LOG_DELIVERIES_IN_SM_COLLECT_REQUESTS_def
  CACHE_TIMEOUT_def

record PartnerSettings =
  ps_s :: "(string, string) gomap"
  ps_cs :: "CollectSettings option"
  ps_g :: "(string, IdentifierGenerator) gomap"

definition NewPartnerSettings :: PartnerSettings where
  "NewPartnerSettings = \<lparr>ps_s = [], ps_cs = None, ps_g = []\<rparr>"

definition PartnerSettings_Setting :: "PartnerSettings \<Rightarrow> string \<Rightarrow> string" where
  "PartnerSettings_Setting s key = mget_or '''' (ps_s s) key"

definition trimedSlice :: "string \<Rightarrow> string list" where
  "trimedSlice s = (if s = '''' then [] else map TrimSpace (split_at (CHR '','') s))"

definition PartnerSettings_setCollectSettings :: "PartnerSettings \<Rightarrow> PartnerSettings" where
  "PartnerSettings_setCollectSettings s =
     s\<lparr>ps_cs := Some
        \<lparr>cos_UseDiscovered = mget_or '''' (ps_s s) COLLECT_USE_DISCOVERED_SA \<noteq> '''',
         cos_includedSA = trimedSlice (mget_or '''' (ps_s s) COLLECT_INCLUDE_STOP_AREAS),
         cos_includedLines = trimedSlice (mget_or '''' (ps_s s) COLLECT_INCLUDE_LINES),
         cos_excludedSA = trimedSlice (mget_or '''' (ps_s s) COLLECT_EXCLUDE_STOP_AREAS)\<rparr>\<rparr>"

definition PartnerSettings_refreshGenerators :: "PartnerSettings \<Rightarrow> PartnerSettings" where
  "PartnerSettings_refreshGenerators s = s\<lparr>ps_g := []\<rparr>"

definition PartnerSettings_reloadSettings :: "PartnerSettings \<Rightarrow> PartnerSettings" where
  "PartnerSettings_reloadSettings s =
     PartnerSettings_refreshGenerators (PartnerSettings_setCollectSettings s)"

definition PartnerSettings_SetSetting :: "string \<Rightarrow> string \<Rightarrow> PartnerSettings \<Rightarrow> PartnerSettings" where
  "PartnerSettings_SetSetting k v s = PartnerSettings_reloadSettings (s\<lparr>ps_s := mput k v (ps_s s)\<rparr>)"

definition PartnerSettings_SettingsDefinition :: "PartnerSettings \<Rightarrow> (string, string) gomap" where
  "PartnerSettings_SettingsDefinition s = fold (\<lambda>(k, v). mput k v) (ps_s s) []"

text \<open>A nil map changes nothing; the entries of another are added to those there are.\<close>

definition PartnerSettings_SetSettingsDefinition ::
  "(string, string) gomap option \<Rightarrow> PartnerSettings \<Rightarrow> PartnerSettings" where
  "PartnerSettings_SetSettingsDefinition m s =
     (case m of
        None \<Rightarrow> s
      | Some m \<Rightarrow> PartnerSettings_reloadSettings (s\<lparr>ps_s := fold (\<lambda>(k, v). mput k v) m (ps_s s)\<rparr>))"

definition PartnerSettings_Credentials :: "PartnerSettings \<Rightarrow> string" where
  "PartnerSettings_Credentials s =
     (if \<not> mhas (ps_s s) LOCAL_CREDENTIAL \<and> \<not> mhas (ps_s s) LOCAL_CREDENTIALS then ''''
      else mget_or '''' (ps_s s) LOCAL_CREDENTIAL @ '','' @ mget_or '''' (ps_s s) LOCAL_CREDENTIALS)"

definition PartnerSettings_RemoteObjectIDKind :: "PartnerSettings \<Rightarrow> string \<Rightarrow> string" where
  "PartnerSettings_RemoteObjectIDKind s connectorName =
     (let setting = mget_or '''' (ps_s s) (connectorName @ ''.'' @ REMOTE_OBJECTID_KIND)
      in if setting \<noteq> '''' then setting else mget_or '''' (ps_s s) REMOTE_OBJECTID_KIND)"

definition PartnerSettings_VehicleRemoteObjectIDKind :: "PartnerSettings \<Rightarrow> string \<Rightarrow> string" where
  "PartnerSettings_VehicleRemoteObjectIDKind s connectorName =
     (let setting = mget_or '''' (ps_s s) (connectorName @ ''.'' @ VEHICLE_REMOTE_OBJECTID_KIND)
      in if setting \<noteq> '''' then setting else mget_or '''' (ps_s s) REMOTE_OBJECTID_KIND)"

definition MIN_CACHE_LIFESPAN :: int where "MIN_CACHE_LIFESPAN = seconds 10"

definition DEFAULT_CACHE_LIFESPAN :: int where "DEFAULT_CACHE_LIFESPAN = seconds 60"

definition PartnerSettings_GtfsCacheTimeout :: "(string \<Rightarrow> int) \<Rightarrow> PartnerSettings \<Rightarrow> int" where
  "PartnerSettings_GtfsCacheTimeout parse_duration s =
     (let t = parse_duration (mget_or '''' (ps_s s) BROADCAST_GTFS_CACHE_TIMEOUT)
      in if t < MIN_CACHE_LIFESPAN then DEFAULT_CACHE_LIFESPAN else t)"

definition PartnerSettings_CacheTimeout :: "(string \<Rightarrow> int) \<Rightarrow> PartnerSettings \<Rightarrow> string \<Rightarrow> int" where
  "PartnerSettings_CacheTimeout parse_duration s connectorName =
     parse_duration (mget_or '''' (ps_s s) (connectorName @ ''.'' @ CACHE_TIMEOUT))"

definition PartnerSettings_ProducerRef :: "PartnerSettings \<Rightarrow> string" where
  "PartnerSettings_ProducerRef s =
     (let producerRef = mget_or '''' (ps_s s) REMOTE_CREDENTIAL
      in if producerRef = '''' then ''Ara'' else producerRef)"

definition PartnerSettings_Address :: "PartnerSettings \<Rightarrow> string" where
  "PartnerSettings_Address s = mget_or '''' (ps_s s) LOCAL_URL"

definition PartnerSettings_CollectPriority :: "PartnerSettings \<Rightarrow> int" where
  "PartnerSettings_CollectPriority s = fst (Atoi (mget_or '''' (ps_s s) COLLECT_PRIORITY))"

definition PartnerSettings_NoDestinationRefRewritingFrom :: "PartnerSettings \<Rightarrow> string list" where
  "PartnerSettings_NoDestinationRefRewritingFrom s =
     trimedSlice (mget_or '''' (ps_s s) BROADCAST_NO_DESTINATIONREF_REWRITING_FROM)"

definition PartnerSettings_NoDataFrameRefRewritingFrom :: "PartnerSettings \<Rightarrow> string list" where
  "PartnerSettings_NoDataFrameRefRewritingFrom s =
     trimedSlice (mget_or '''' (ps_s s) BROADCAST_NO_DATAFRAMEREF_REWRITING_FROM)"

definition PartnerSettings_RewriteJourneyPatternRef :: "PartnerSettings \<Rightarrow> bool" where
  "PartnerSettings_RewriteJourneyPatternRef s =
     ParseBool (mget_or '''' (ps_s s) BROADCAST_REWRITE_JOURNEY_PATTERN_REF)"

definition PartnerSettings_LogSubscriptionStopMonitoringDeliveries :: "PartnerSettings \<Rightarrow> bool" where
  "PartnerSettings_LogSubscriptionStopMonitoringDeliveries s =
     ParseBool (mget_or '''' (ps_s s) LOGSTASH_LOG_DELIVERIES_IN_SM_COLLECT_NOTIFICATIONS)"

definition PartnerSettings_LogRequestStopMonitoringDeliveries :: "PartnerSettings \<Rightarrow> bool" where
  "PartnerSettings_LogRequestStopMonitoringDeliveries s =
     ParseBool (mget_or '''' (ps_s s) LOGSTASH_LOG_DELIVERIES_IN_SM_COLLECT_REQUESTS)"

definition PartnerSettings_GzipGtfs :: "PartnerSettings \<Rightarrow> bool" where
  "PartnerSettings_GzipGtfs s = ParseBool (mget_or '''' (ps_s s) BROADCAST_GZIP_GTFS)"

definition PartnerSettings_DiscoveryInterval :: "(string \<Rightarrow> int) \<Rightarrow> PartnerSettings \<Rightarrow> int" where
  "PartnerSettings_DiscoveryInterval parse_duration s =
     (let d = parse_duration (mget_or '''' (ps_s s) DISCOVERY_INTERVAL);
          d1 = (if d = 0 then seconds 3600 else d)
      in - d1)"

text \<open>The settings of collection and the generators are kept when they are first asked for.\<close>

definition PartnerSettings_CollectSettings :: "PartnerSettings \<Rightarrow> CollectSettings option \<times> PartnerSettings" where
  "PartnerSettings_CollectSettings s =
     (let s1 = (if ps_cs s = None then PartnerSettings_setCollectSettings s else s)
      in (ps_cs s1, s1))"

definition PartnerSettings_idGeneratorFormat :: "PartnerSettings \<Rightarrow> string \<Rightarrow> string" where
  "PartnerSettings_idGeneratorFormat s generatorName =
     (let formatString = mget_or '''' (ps_s s) (''generators.'' @ generatorName)
      in if formatString = '''' then DefaultIdentifierGenerator generatorName else formatString)"

definition PartnerSettings_IdentifierGenerator ::
  "string \<Rightarrow> PartnerSettings \<Rightarrow> IdentifierGenerator \<times> PartnerSettings" where
  "PartnerSettings_IdentifierGenerator generatorName s =
     (case mget (ps_g s) generatorName of
        Some generator \<Rightarrow> (generator, s)
      | None \<Rightarrow>
          (let generator = NewIdentifierGenerator (PartnerSettings_idGeneratorFormat s generatorName)
           in (generator, s\<lparr>ps_g := mput generatorName generator (ps_g s)\<rparr>)))"

section \<open>The caches are never stale\<close>

definition collect_settings_of :: "(string, string) gomap \<Rightarrow> CollectSettings" where
  "collect_settings_of m =
     \<lparr>cos_UseDiscovered = mget_or '''' m COLLECT_USE_DISCOVERED_SA \<noteq> '''',
      cos_includedSA = trimedSlice (mget_or '''' m COLLECT_INCLUDE_STOP_AREAS),
      cos_includedLines = trimedSlice (mget_or '''' m COLLECT_INCLUDE_LINES),
      cos_excludedSA = trimedSlice (mget_or '''' m COLLECT_EXCLUDE_STOP_AREAS)\<rparr>"

definition settings_inv :: "PartnerSettings \<Rightarrow> bool" where
  "settings_inv s \<longleftrightarrow>
     (ps_cs s = None \<or> ps_cs s = Some (collect_settings_of (ps_s s))) \<and>
     (\<forall>name generator. mget (ps_g s) name = Some generator \<longrightarrow>
        ig_formatString generator = PartnerSettings_idGeneratorFormat s name)"

lemma idGeneratorFormat_caches [simp]:
  "PartnerSettings_idGeneratorFormat (s\<lparr>ps_g := g\<rparr>) name = PartnerSettings_idGeneratorFormat s name"
  "PartnerSettings_idGeneratorFormat (s\<lparr>ps_cs := c\<rparr>) name = PartnerSettings_idGeneratorFormat s name"
  by (simp_all add: PartnerSettings_idGeneratorFormat_def)

lemma reloadSettings_eq:
  "PartnerSettings_reloadSettings s = s\<lparr>ps_cs := Some (collect_settings_of (ps_s s)), ps_g := []\<rparr>"
  by (simp add: PartnerSettings_reloadSettings_def PartnerSettings_refreshGenerators_def
      PartnerSettings_setCollectSettings_def collect_settings_of_def)

lemma reloadSettings_inv [simp]: "settings_inv (PartnerSettings_reloadSettings s)"
  by (simp add: settings_inv_def reloadSettings_eq)

lemma settings_inv_new [simp]: "settings_inv NewPartnerSettings"
  by (simp add: settings_inv_def NewPartnerSettings_def)

lemma CollectSettings_eq:
  "settings_inv s \<Longrightarrow> PartnerSettings_CollectSettings s =
     (Some (collect_settings_of (ps_s s)), s\<lparr>ps_cs := Some (collect_settings_of (ps_s s))\<rparr>)"
  by (auto simp: PartnerSettings_CollectSettings_def PartnerSettings_setCollectSettings_def settings_inv_def
      collect_settings_of_def)

lemma IdentifierGenerator_eq:
  "settings_inv s \<Longrightarrow> fst (PartnerSettings_IdentifierGenerator name s) =
     NewIdentifierGenerator (PartnerSettings_idGeneratorFormat s name)"
  by (auto simp: PartnerSettings_IdentifierGenerator_def settings_inv_def NewIdentifierGenerator_def Let_def
      split: option.split intro: IdentifierGenerator.equality)

lemma IdentifierGenerator_settings [simp]:
  "ps_s (snd (PartnerSettings_IdentifierGenerator name s)) = ps_s s"
  by (simp add: PartnerSettings_IdentifierGenerator_def Let_def split: option.split)

lemma reloadSettings_settings [simp]: "ps_s (PartnerSettings_reloadSettings s) = ps_s s"
  by (simp add: reloadSettings_eq)

lemma CollectSettings_settings [simp]: "ps_s (snd (PartnerSettings_CollectSettings s)) = ps_s s"
  by (simp add: PartnerSettings_CollectSettings_def PartnerSettings_setCollectSettings_def Let_def)

lemma settings_inv_collect [simp, wf_intros]:
  "settings_inv s \<Longrightarrow> settings_inv (snd (PartnerSettings_CollectSettings s))"
  by (simp add: CollectSettings_eq) (simp add: settings_inv_def)

lemma settings_inv_generator [simp, wf_intros]:
  "settings_inv s \<Longrightarrow> settings_inv (snd (PartnerSettings_IdentifierGenerator name s))"
  by (auto simp: PartnerSettings_IdentifierGenerator_def settings_inv_def NewIdentifierGenerator_def Let_def
      gomap_simps split: option.split)

lemma settings_inv_set [simp, wf_intros]:
  "settings_inv (PartnerSettings_SetSetting k v s)"
  "settings_inv s \<Longrightarrow> settings_inv (PartnerSettings_SetSettingsDefinition m s)"
  by (simp_all add: PartnerSettings_SetSetting_def PartnerSettings_SetSettingsDefinition_def split: option.split)

datatype settings_op =
    SetSetting string string
  | SetSettingsDefinition "(string, string) gomap option"
  | AskCollectSettings
  | AskIdentifierGenerator string

fun settings_step :: "settings_op \<Rightarrow> PartnerSettings \<Rightarrow> PartnerSettings" where
  "settings_step (SetSetting k v) s = PartnerSettings_SetSetting k v s"
| "settings_step (SetSettingsDefinition m) s = PartnerSettings_SetSettingsDefinition m s"
| "settings_step AskCollectSettings s = snd (PartnerSettings_CollectSettings s)"
| "settings_step (AskIdentifierGenerator name) s = snd (PartnerSettings_IdentifierGenerator name s)"

text \<open>What the settings stand for: a function, written by two of the operations and read by the others.\<close>

fun settings_spec :: "settings_op \<Rightarrow> (string \<Rightarrow> string option) \<Rightarrow> string \<Rightarrow> string option" where
  "settings_spec (SetSetting k v) m = m(k \<mapsto> v)"
| "settings_spec (SetSettingsDefinition None) m = m"
| "settings_spec (SetSettingsDefinition (Some d)) m = m ++ map_of d"
| "settings_spec AskCollectSettings m = m"
| "settings_spec (AskIdentifierGenerator name) m = m"

fun settings_op_ok :: "settings_op \<Rightarrow> bool" where
  "settings_op_ok (SetSettingsDefinition (Some d)) = mwf d"
| "settings_op_ok _ = True"

lemma mget_overlay:
  "mwf d \<Longrightarrow> mget (fold (\<lambda>(k, v). mput k v) d m) k = (mget m ++ map_of d) k"
proof (induction d arbitrary: m)
  case (Cons p d)
  then show ?case
    by (cases p) (auto simp: mwf_Cons gomap_simps map_add_def split: option.splits)
qed simp

lemma settings_step_ok:
  "settings_op_ok x \<Longrightarrow> settings_inv s \<Longrightarrow>
     settings_inv (settings_step x s) \<and> mget (ps_s (settings_step x s)) = settings_spec x (mget (ps_s s))"
proof (cases x)
  case (SetSettingsDefinition m)
  assume "settings_op_ok x" "settings_inv s"
  with SetSettingsDefinition show ?thesis
    by (cases m) (simp_all add: fun_eq_iff PartnerSettings_SetSettingsDefinition_def reloadSettings_eq mget_overlay
        settings_inv_def)
qed (simp_all add: fun_eq_iff PartnerSettings_SetSetting_def gomap_simps)

lemma settings_history:
  "list_all settings_op_ok ops \<Longrightarrow> settings_inv s \<Longrightarrow>
     settings_inv (fold settings_step ops s) \<and>
     mget (ps_s (fold settings_step ops s)) = fold settings_spec ops (mget (ps_s s))"
proof (induction ops arbitrary: s)
  case (Cons x ops)
  from Cons.prems have x: "settings_op_ok x" and r: "list_all settings_op_ok ops" by simp_all
  from settings_step_ok [OF x Cons.prems(2)] Cons.IH [OF r] show ?case by simp
qed simp

definition setting_in :: "(string \<Rightarrow> string option) \<Rightarrow> string \<Rightarrow> string" where
  "setting_in m k = (case m k of None \<Rightarrow> '''' | Some v \<Rightarrow> v)"

lemma mget_or_setting: "mget_or '''' d k = setting_in (mget d) k"
  by (simp add: mget_or_def setting_in_def)

text \<open>C18. The settings behave as the map of strings that was written, although they answer from two caches:
  after any history of writes and questions, a setting is the last value written to it, what is collected
  is read from the settings in force, and so is the format of every identifier, with its default.\<close>

theorem settings_caches:
  fixes ops :: "settings_op list"
  defines "s \<equiv> fold settings_step ops NewPartnerSettings"
    and "m \<equiv> fold settings_spec ops (\<lambda>_. None)"
  assumes "list_all settings_op_ok ops"
  shows "PartnerSettings_Setting s k = setting_in m k \<and>
    fst (PartnerSettings_CollectSettings s) = Some
       \<lparr>cos_UseDiscovered = setting_in m COLLECT_USE_DISCOVERED_SA \<noteq> '''',
        cos_includedSA = trimedSlice (setting_in m COLLECT_INCLUDE_STOP_AREAS),
        cos_includedLines = trimedSlice (setting_in m COLLECT_INCLUDE_LINES),
        cos_excludedSA = trimedSlice (setting_in m COLLECT_EXCLUDE_STOP_AREAS)\<rparr> \<and>
    ig_formatString (fst (PartnerSettings_IdentifierGenerator name s)) =
      (if setting_in m (''generators.'' @ name) = '''' then DefaultIdentifierGenerator name
       else setting_in m (''generators.'' @ name))"
proof -
  have m0: "mget (ps_s NewPartnerSettings) = (\<lambda>_. None)" by (simp add: NewPartnerSettings_def)
  have inv: "settings_inv s" and m: "mget (ps_s s) = m"
    using settings_history [OF assms(3) settings_inv_new] by (simp_all add: s_def m_def m0)
  show ?thesis
    using inv by (simp add: CollectSettings_eq IdentifierGenerator_eq collect_settings_of_def mget_or_setting m
        PartnerSettings_Setting_def PartnerSettings_idGeneratorFormat_def NewIdentifierGenerator_def)
qed

definition example_settings :: "settings_op list" where
  "example_settings =
     [AskCollectSettings, SetSetting COLLECT_INCLUDE_STOP_AREAS ''a, b'', AskIdentifierGenerator ''x'',
      SetSettingsDefinition (Some [(''generators.x'', ''%{id}!'')])]"

theorem settings_caches_witness:
  "PartnerSettings_Setting (fold settings_step example_settings NewPartnerSettings) COLLECT_INCLUDE_STOP_AREAS
     = ''a, b''"
proof -
  have "list_all settings_op_ok example_settings" by code_simp
  from settings_caches [OF this, of COLLECT_INCLUDE_STOP_AREAS] show ?thesis
    by (simp add: example_settings_def setting_in_def setting_keys)
qed

section \<open>Identifiers\<close>

lemma handleuuids_plain: "CHR ''%'' \<notin> set s \<Longrightarrow> handleuuids 0 s g = (s, g)"
proof (induction s)
  case (Cons c s)
  then have "c \<noteq> CHR ''%''" "handleuuids 0 s g = (s, g)" by auto
  then show ?case by (simp add: HasPrefix_def)
qed simp

text \<open>The default format of subscription identifiers is the identifier itself.\<close>

lemma default_identifier:
  "CHR ''%'' \<notin> set (ia_Id a) \<Longrightarrow>
     IdentifierGenerator_NewIdentifier a (NewIdentifierGenerator ''%{id}'') g = (ia_Id a, g)"
  by (simp add: IdentifierGenerator_NewIdentifier_def NewIdentifierGenerator_def identifier_pairs_def HasPrefix_def
      handleuuids_plain eval_nat_numeral)

lemma format_example:
  "fst (IdentifierGenerator_NewIdentifier \<lparr>ia_Type = ''Tp'', ia_Id = ''iD''\<rparr>
      (NewIdentifierGenerator ''%{type}:%{uuid}:%{default}:%{id}:%{uuid}:%{objectid}'') \<lparr>ug_uuid = (\<lambda>n. if n = 0 then ''U0'' else ''U1''), ug_next = 0\<rparr>) =
   ''Tp:U0:iD:iD:U1:iD''"
  by code_simp

end
