(* ===== verification/Subscriptions.thy ===== *)
theory Subscriptions
  imports LastStates Settings
begin

text \<open>
  The subscriptions of a partner and their resources (\<^verbatim>\<open>core/subscription.go\<close>): those the partner
  asked for, which are broadcast to it, and those Ara asks of the partner, to collect from it.

  The manager stores pointers under the identifier of the subscription; a change through a pointer
  handed out is \<open>on_subscription\<close>, a change of the stored subscription with that identifier. The
  settings of the partner, which give identifiers their format, and the generator are arguments.
\<close>

type_synonym SubscriptionId = string

record SubscribedResource =
  sr_Reference :: Reference
  sr_RetryCount :: int
  sr_SubscribedAt :: gotime
  sr_SubscribedUntil :: gotime
  sr_lastStates :: "(string, lastState) gomap"
  sr_resourcesOptions :: "(string, string) gomap"

record Subscription =
  sub_id :: SubscriptionId
  sub_kind :: string
  sub_externalId :: string
  sub_resourcesByObjectID :: "(string, SubscribedResource) gomap"
  sub_subscriptionOptions :: "(string, string) gomap"

section \<open>Subscriptions and resources\<close>

definition NewResource :: "Reference \<Rightarrow> SubscribedResource" where
  "NewResource ref =
     \<lparr>sr_Reference = ref, sr_RetryCount = 0, sr_SubscribedAt = 0, sr_SubscribedUntil = 0,
      sr_lastStates = [], sr_resourcesOptions = []\<rparr>"

definition SubscribedResource_LastState :: "SubscribedResource \<Rightarrow> string \<Rightarrow> lastState option" where
  "SubscribedResource_LastState sr state = mget (sr_lastStates sr) state"

definition SubscribedResource_SetLastState ::
  "string \<Rightarrow> lastState \<Rightarrow> SubscribedResource \<Rightarrow> SubscribedResource" where
  "SubscribedResource_SetLastState s l sr = sr\<lparr>sr_lastStates := mput s l (sr_lastStates sr)\<rparr>"

definition Subscription_SubscriptionOption :: "Subscription \<Rightarrow> string \<Rightarrow> string" where
  "Subscription_SubscriptionOption subscription key = mget_or '''' (sub_subscriptionOptions subscription) key"

definition Subscription_SetSubscriptionOption :: "string \<Rightarrow> string \<Rightarrow> Subscription \<Rightarrow> Subscription" where
  "Subscription_SetSubscriptionOption key value subscription =
     subscription\<lparr>sub_subscriptionOptions := mput key value (sub_subscriptionOptions subscription)\<rparr>"

definition Subscription_SetKind :: "string \<Rightarrow> Subscription \<Rightarrow> Subscription" where
  "Subscription_SetKind kind subscription = subscription\<lparr>sub_kind := kind\<rparr>"

definition Subscription_SetExternalId :: "string \<Rightarrow> Subscription \<Rightarrow> Subscription" where
  "Subscription_SetExternalId externalId subscription = subscription\<lparr>sub_externalId := externalId\<rparr>"

definition Subscription_ResourcesByObjectIDCopy :: "Subscription \<Rightarrow> (string, SubscribedResource) gomap" where
  "Subscription_ResourcesByObjectIDCopy subscription =
     fold (\<lambda>(k, v). mput k v) (sub_resourcesByObjectID subscription) []"

definition Subscription_Resource :: "Subscription \<Rightarrow> ObjectID \<Rightarrow> SubscribedResource option" where
  "Subscription_Resource subscription obj = mget (sub_resourcesByObjectID subscription) (ObjectID_String obj)"

definition Subscription_UniqueResource :: "Subscription \<Rightarrow> SubscribedResource option" where
  "Subscription_UniqueResource subscription =
     (if length (sub_resourcesByObjectID subscription) \<noteq> 1 then None
      else fold (\<lambda>ressource r. Some ressource) (mvals (sub_resourcesByObjectID subscription)) None)"

text \<open>The instant that is passed is not used: the clock of the subscription is.\<close>

definition Subscription_Resources :: "gotime \<Rightarrow> gotime \<Rightarrow> Subscription \<Rightarrow> SubscribedResource list" where
  "Subscription_Resources clock_now now subscription =
     filter (\<lambda>ressource. sr_SubscribedUntil ressource > clock_now) (mvals (sub_resourcesByObjectID subscription))"

text \<open>Adding a resource whose reference has no identifier is a nil dereference.\<close>

definition Subscription_AddNewResource :: "SubscribedResource \<Rightarrow> Subscription \<Rightarrow> Subscription option" where
  "Subscription_AddNewResource resource subscription = do {
     obj \<leftarrow> ref_ObjectId (sr_Reference resource);
     Some (subscription\<lparr>sub_resourcesByObjectID :=
       mput (ObjectID_String obj) resource (sub_resourcesByObjectID subscription)\<rparr>) }"

definition Subscription_CreateAddNewResource ::
  "gotime \<Rightarrow> Reference \<Rightarrow> Subscription \<Rightarrow> (SubscribedResource \<times> Subscription) option" where
  "Subscription_CreateAddNewResource now reference subscription = do {
     obj \<leftarrow> ref_ObjectId reference;
     let resource = \<lparr>sr_Reference = reference, sr_RetryCount = 0, sr_SubscribedAt = 0,
                     sr_SubscribedUntil = now + minutes 2, sr_lastStates = [], sr_resourcesOptions = []\<rparr>;
     Some (resource, subscription\<lparr>sub_resourcesByObjectID :=
       mput (ObjectID_String obj) resource (sub_resourcesByObjectID subscription)\<rparr>) }"

definition Subscription_DeleteResource :: "string \<Rightarrow> Subscription \<Rightarrow> Subscription" where
  "Subscription_DeleteResource key subscription =
     subscription\<lparr>sub_resourcesByObjectID := mdel key (sub_resourcesByObjectID subscription)\<rparr>"

definition Subscription_ResourcesLen :: "Subscription \<Rightarrow> nat" where
  "Subscription_ResourcesLen subscription = length (sub_resourcesByObjectID subscription)"

record APISubscription =
  as_Kind :: string
  as_References :: "Reference list"

definition Subscription_SetDefinition :: "gotime \<Rightarrow> APISubscription \<Rightarrow> Subscription \<Rightarrow> Subscription option" where
  "Subscription_SetDefinition now apisub subscription =
     fold (\<lambda>ref acc. if ref_ObjectId ref \<noteq> None
             then do { s \<leftarrow> acc; (_, s1) \<leftarrow> Subscription_CreateAddNewResource now ref s; Some s1 }
             else acc)
       (as_References apisub) (Some (subscription\<lparr>sub_kind := as_Kind apisub\<rparr>))"

section \<open>The manager\<close>

type_synonym MemorySubscriptions = "(SubscriptionId, Subscription) gomap"

definition NewMemorySubscriptions :: MemorySubscriptions where
  "NewMemorySubscriptions = []"

definition on_subscription ::
  "SubscriptionId \<Rightarrow> (Subscription \<Rightarrow> Subscription) \<Rightarrow> MemorySubscriptions \<Rightarrow> MemorySubscriptions" where
  "on_subscription i f manager =
     (case mget manager i of None \<Rightarrow> manager | Some s \<Rightarrow> mput i (f s) manager)"

definition MemorySubscriptions_Save ::
  "Subscription \<Rightarrow> PartnerSettings \<Rightarrow> uuid_gen \<Rightarrow> MemorySubscriptions \<Rightarrow>
   Subscription \<times> PartnerSettings \<times> uuid_gen \<times> MemorySubscriptions" where
  "MemorySubscriptions_Save subscription settings g manager =
     (if sub_id subscription = ''''
      then (let (generator, settings1) = PartnerSettings_IdentifierGenerator SUBSCRIPTION_IDENTIFIER settings;
                (u, g1) = NewUUID g;
                (i, g2) = IdentifierGenerator_NewIdentifier \<lparr>ia_Type = '''', ia_Id = u\<rparr> generator g1;
                saved = subscription\<lparr>sub_id := i\<rparr>
            in (saved, settings1, g2, mput (sub_id saved) saved manager))
      else (subscription, settings, g, mput (sub_id subscription) subscription manager))"

definition MemorySubscriptions_New ::
  "string \<Rightarrow> PartnerSettings \<Rightarrow> uuid_gen \<Rightarrow> MemorySubscriptions \<Rightarrow>
   Subscription \<times> PartnerSettings \<times> uuid_gen \<times> MemorySubscriptions" where
  "MemorySubscriptions_New kind settings g manager =
     MemorySubscriptions_Save
       \<lparr>sub_id = '''', sub_kind = kind, sub_externalId = '''', sub_resourcesByObjectID = [],
        sub_subscriptionOptions = []\<rparr> settings g manager"

definition MemorySubscriptions_FindByKind :: "MemorySubscriptions \<Rightarrow> string \<Rightarrow> Subscription option" where
  "MemorySubscriptions_FindByKind manager kind = first_some (\<lambda>s. sub_kind s = kind) (mvals manager)"

definition MemorySubscriptions_FindSubscriptionsByKind ::
  "MemorySubscriptions \<Rightarrow> string \<Rightarrow> Subscription list" where
  "MemorySubscriptions_FindSubscriptionsByKind manager kind = filter (\<lambda>s. sub_kind s = kind) (mvals manager)"

definition MemorySubscriptions_FindBroadcastSubscriptions :: "MemorySubscriptions \<Rightarrow> Subscription list" where
  "MemorySubscriptions_FindBroadcastSubscriptions manager =
     filter (\<lambda>s. HasSuffix (sub_kind s) ''Broadcast'') (mvals manager)"

definition MemorySubscriptions_FindByExternalId :: "MemorySubscriptions \<Rightarrow> string \<Rightarrow> Subscription option" where
  "MemorySubscriptions_FindByExternalId manager externalId =
     first_some (\<lambda>s. sub_externalId s = externalId) (mvals manager)"

definition MemorySubscriptions_FindByResourceId ::
  "MemorySubscriptions \<Rightarrow> string \<Rightarrow> string \<Rightarrow> Subscription list" where
  "MemorySubscriptions_FindByResourceId manager i kind =
     filter (\<lambda>s. mhas (sub_resourcesByObjectID s) i \<and> sub_kind s = kind) (mvals manager)"

text \<open>The maximum a partner sets for the resources of a subscription: one means a subscription for each
  resource, zero, nothing or a negative number means no limit.\<close>

definition max_resources :: "PartnerSettings \<Rightarrow> int" where
  "max_resources settings = fst (Atoi (PartnerSettings_Setting settings SUBSCRIPTIONS_MAXIMUM_RESOURCES))"

definition MemorySubscriptions_FindOrCreateByKind ::
  "string \<Rightarrow> PartnerSettings \<Rightarrow> uuid_gen \<Rightarrow> MemorySubscriptions \<Rightarrow>
   Subscription \<times> PartnerSettings \<times> uuid_gen \<times> MemorySubscriptions" where
  "MemorySubscriptions_FindOrCreateByKind kind settings g manager =
     (let maxResource = max_resources settings
      in if maxResource = 1 then MemorySubscriptions_New kind settings g manager
         else (case first_some (\<lambda>s. sub_kind s = kind \<and>
                      (maxResource < 1 \<or> int (Subscription_ResourcesLen s) < maxResource)) (mvals manager) of
                 Some s \<Rightarrow> (s, settings, g, manager)
               | None \<Rightarrow> MemorySubscriptions_New kind settings g manager))"

definition MemorySubscriptions_Find :: "MemorySubscriptions \<Rightarrow> SubscriptionId \<Rightarrow> Subscription option" where
  "MemorySubscriptions_Find manager i = mget manager i"

definition MemorySubscriptions_FindAll :: "MemorySubscriptions \<Rightarrow> Subscription list" where
  "MemorySubscriptions_FindAll manager = (if length manager = 0 then [] else mvals manager)"

definition MemorySubscriptions_Delete :: "Subscription \<Rightarrow> MemorySubscriptions \<Rightarrow> MemorySubscriptions" where
  "MemorySubscriptions_Delete subscription manager = mdel (sub_id subscription) manager"

definition MemorySubscriptions_DeleteById :: "SubscriptionId \<Rightarrow> MemorySubscriptions \<Rightarrow> MemorySubscriptions" where
  "MemorySubscriptions_DeleteById i manager = mdel i manager"

definition MemorySubscriptions_CancelSubscriptions :: "MemorySubscriptions \<Rightarrow> MemorySubscriptions" where
  "MemorySubscriptions_CancelSubscriptions manager = fold mdel (mkeys manager) manager"

definition MemorySubscriptions_CancelBroadcastSubscriptions :: "MemorySubscriptions \<Rightarrow> MemorySubscriptions" where
  "MemorySubscriptions_CancelBroadcastSubscriptions manager =
     fold (\<lambda>(i, s) m. if sub_externalId s \<noteq> '''' then mdel i m else m) manager manager"

definition MemorySubscriptions_CancelCollectSubscriptions :: "MemorySubscriptions \<Rightarrow> MemorySubscriptions" where
  "MemorySubscriptions_CancelCollectSubscriptions manager =
     fold (\<lambda>(i, s) m. if sub_externalId s = '''' then mdel i m else m) manager manager"

section \<open>What the manager keeps\<close>

definition subs_inv :: "MemorySubscriptions \<Rightarrow> bool" where
  "subs_inv m \<longleftrightarrow> mwf m \<and> keyed sub_id m \<and> vals_ok (\<lambda>s. mwf (sub_resourcesByObjectID s)) m"

lemma subs_inv_new [simp]: "subs_inv NewMemorySubscriptions"
  by (simp add: subs_inv_def NewMemorySubscriptions_def)

lemma subs_inv_mget:
  "subs_inv m \<Longrightarrow> mget m i = Some s \<Longrightarrow> sub_id s = i \<and> mwf (sub_resourcesByObjectID s)"
  by (auto simp: subs_inv_def dest: keyed_mget vals_ok_mget)

lemma subs_inv_put [wf_intros]:
  "subs_inv m \<Longrightarrow> mwf (sub_resourcesByObjectID s) \<Longrightarrow> subs_inv (mput (sub_id s) s m)"
  by (simp add: subs_inv_def)

lemma subs_inv_del [simp, wf_intros]: "subs_inv m \<Longrightarrow> subs_inv (mdel i m)"
  by (simp add: subs_inv_def)

lemma subs_in_vals: "subs_inv m \<Longrightarrow> s \<in> set (mvals m) \<longleftrightarrow> mget m (sub_id s) = Some s"
  by (simp add: subs_inv_def keyed_vals_iff del: set_map)

lemma subs_inv_on [wf_intros]:
  assumes "subs_inv m"
    and "\<And>s. mwf (sub_resourcesByObjectID s) \<Longrightarrow> sub_id (f s) = sub_id s \<and> mwf (sub_resourcesByObjectID (f s))"
  shows "subs_inv (on_subscription i f m)"
proof (cases "mget m i")
  case (Some s)
  from subs_inv_mget [OF assms(1) Some] assms(2) [of s]
  have "sub_id (f s) = i" "mwf (sub_resourcesByObjectID (f s))" by simp_all
  with Some subs_inv_put [OF assms(1), of "f s"] show ?thesis by (simp add: on_subscription_def)
qed (use assms(1) in \<open>simp add: on_subscription_def\<close>)

lemma mget_on [gomap_simps]:
  "mget (on_subscription i f m) j = (if j = i then map_option f (mget m i) else mget m j)"
  by (simp add: on_subscription_def gomap_simps split: option.split)

text \<open>Saving changes one entry, and the settings only in their cache.\<close>

definition new_subscription_id :: "PartnerSettings \<Rightarrow> uuid_gen \<Rightarrow> SubscriptionId" where
  "new_subscription_id settings g = sub_id (fst (MemorySubscriptions_New '''' settings g []))"

lemma New_spec:
  assumes "MemorySubscriptions_New kind settings g m = (s, settings', g', m')"
  shows "sub_kind s = kind \<and> sub_externalId s = '''' \<and> sub_resourcesByObjectID s = [] \<and>
    sub_subscriptionOptions s = [] \<and> sub_id s = new_subscription_id settings g \<and> m' = mput (sub_id s) s m \<and> ps_s settings' = ps_s settings \<and>
    settings' = snd (PartnerSettings_IdentifierGenerator SUBSCRIPTION_IDENTIFIER settings)"
proof -
  obtain gen st where gen: "PartnerSettings_IdentifierGenerator SUBSCRIPTION_IDENTIFIER settings = (gen, st)"
    by (cases "PartnerSettings_IdentifierGenerator SUBSCRIPTION_IDENTIFIER settings") blast
  with IdentifierGenerator_settings [of SUBSCRIPTION_IDENTIFIER settings] have st: "ps_s st = ps_s settings" by simp
  from assms gen st show ?thesis
    by (auto simp: new_subscription_id_def MemorySubscriptions_New_def MemorySubscriptions_Save_def Let_def split: prod.splits)
qed

section \<open>Cancelling\<close>

lemma mget_fold_cancel:
  "mget (fold (\<lambda>(i, s) m. if P s then mdel i m else m) xs m) k =
     (if \<exists>s. (k, s) \<in> set xs \<and> P s then None else mget m k)"
  by (induction xs arbitrary: m) (auto simp: gomap_simps)

lemma mwf_fold_cancel: "mwf m \<Longrightarrow> mwf (fold (\<lambda>(i, s) m. if P s then mdel i m else m) xs m)"
  by (induction xs arbitrary: m) auto

lemma mget_cancel:
  assumes "mwf m"
  shows "mget (fold (\<lambda>(i, s) m. if P s then mdel i m else m) m m) k =
     (case mget m k of Some s \<Rightarrow> if P s then None else Some s | None \<Rightarrow> None)"
  using mwf_in_set [OF assms] by (auto simp: mget_fold_cancel split: option.split)

lemma CancelSubscriptions_empty [simp]: "MemorySubscriptions_CancelSubscriptions m = []"
proof -
  have "mget (MemorySubscriptions_CancelSubscriptions m) = (\<lambda>_. None)"
    by (auto simp: MemorySubscriptions_CancelSubscriptions_def mget_fold_mdel map_of_eq_None_iff fun_eq_iff)
  then show ?thesis by simp
qed

lemmas cancel_defs = MemorySubscriptions_CancelCollectSubscriptions_def
  MemorySubscriptions_CancelBroadcastSubscriptions_def

lemma cancel_keeps_inv [wf_intros]:
  assumes "subs_inv m"
  shows "subs_inv (fold (\<lambda>(i, s) m. if P s then mdel i m else m) xs m)"
  using assms by (induction xs arbitrary: m) (auto simp: split_beta)

text \<open>Cancelling what is collected and cancelling what is broadcast each delete exactly their own
  subscriptions, told apart by the external identifier, and together they delete all.\<close>

theorem subscriptions_cancel:
  assumes "subs_inv m"
  shows "(MemorySubscriptions_Find (MemorySubscriptions_CancelCollectSubscriptions m) i = Some s \<longleftrightarrow>
      MemorySubscriptions_Find m i = Some s \<and> sub_externalId s \<noteq> '''') \<and>
    (MemorySubscriptions_Find (MemorySubscriptions_CancelBroadcastSubscriptions m) i = Some s \<longleftrightarrow>
      MemorySubscriptions_Find m i = Some s \<and> sub_externalId s = '''') \<and>
    MemorySubscriptions_CancelBroadcastSubscriptions (MemorySubscriptions_CancelCollectSubscriptions m)
      = MemorySubscriptions_CancelSubscriptions m"
proof -
  have m: "mwf m" using assms by (simp add: subs_inv_def)
  have each: "MemorySubscriptions_Find (MemorySubscriptions_CancelCollectSubscriptions m) i = Some s \<longleftrightarrow>
      MemorySubscriptions_Find m i = Some s \<and> sub_externalId s \<noteq> ''''"
    "MemorySubscriptions_Find (MemorySubscriptions_CancelBroadcastSubscriptions m) i = Some s \<longleftrightarrow>
      MemorySubscriptions_Find m i = Some s \<and> sub_externalId s = ''''"
    by (auto simp: cancel_defs MemorySubscriptions_Find_def mget_cancel [OF m] split: option.splits if_splits)
  have m2: "mwf (MemorySubscriptions_CancelCollectSubscriptions m)"
    using m by (simp add: cancel_defs mwf_fold_cancel)
  have "mget (MemorySubscriptions_CancelBroadcastSubscriptions (MemorySubscriptions_CancelCollectSubscriptions m)) k
      = None" for k
    using mget_cancel [OF m2, of "\<lambda>s. sub_externalId s \<noteq> ''''" k] mget_cancel [OF m, of "\<lambda>s. sub_externalId s = ''''" k]
    by (auto simp add: cancel_defs split: option.splits if_splits)
  then have "mget (MemorySubscriptions_CancelBroadcastSubscriptions (MemorySubscriptions_CancelCollectSubscriptions m))
      = (\<lambda>_. None)" by (rule ext)
  then show ?thesis using each by simp
qed

definition example_subscription :: "string \<Rightarrow> string \<Rightarrow> Subscription" where
  "example_subscription i external =
     \<lparr>sub_id = i, sub_kind = ''StopMonitoringCollect'', sub_externalId = external, sub_resourcesByObjectID = [],
      sub_subscriptionOptions = []\<rparr>"

theorem subscriptions_cancel_witness:
  "MemorySubscriptions_Find (MemorySubscriptions_CancelCollectSubscriptions
     [(''a'', example_subscription ''a'' ''''), (''b'', example_subscription ''b'' ''x'')]) ''b''
   = Some (example_subscription ''b'' ''x'')"
proof -
  have "subs_inv [(''a'', example_subscription ''a'' ''''), (''b'', example_subscription ''b'' ''x'')]"
    by (simp add: subs_inv_def mwf_def example_subscription_def)
  from subscriptions_cancel [OF this, of "''b''" "example_subscription ''b'' ''x''"] show ?thesis
    by (simp add: MemorySubscriptions_Find_def example_subscription_def)
qed

section \<open>Finding or creating\<close>

definition has_room :: "PartnerSettings \<Rightarrow> Subscription \<Rightarrow> bool" where
  "has_room settings s \<longleftrightarrow> max_resources settings < 1 \<or> int (Subscription_ResourcesLen s) < max_resources settings"

lemma FindOrCreate_spec:
  assumes "subs_inv m" and "MemorySubscriptions_FindOrCreateByKind kind settings g m = (s, settings', g', m')"
  shows "sub_kind s = kind \<and> has_room settings s \<and> mget m' (sub_id s) = Some s \<and> subs_inv m' \<and>
    ps_s settings' = ps_s settings \<and>
    (m' = m \<and> settings' = settings \<and> g' = g \<or>
     sub_resourcesByObjectID s = [] \<and> sub_externalId s = '''' \<and> sub_id s = new_subscription_id settings g \<and>
       m' = mput (sub_id s) s m)"
proof (cases "max_resources settings \<noteq> 1 \<and> (\<exists>s \<in> set (mvals m). sub_kind s = kind \<and> has_room settings s)")
  case True
  then have "first_some (\<lambda>s. sub_kind s = kind \<and>
      (max_resources settings < 1 \<or> int (Subscription_ResourcesLen s) < max_resources settings)) (mvals m) \<noteq> None"
    unfolding first_some_None has_room_def by blast
  then obtain s1 where s1: "first_some (\<lambda>s. sub_kind s = kind \<and>
      (max_resources settings < 1 \<or> int (Subscription_ResourcesLen s) < max_resources settings)) (mvals m) = Some s1"
    by blast
  have "max_resources settings \<noteq> 1" using True by blast
  with s1 have "MemorySubscriptions_FindOrCreateByKind kind settings g m = (s1, settings, g, m)"
    by (simp only: MemorySubscriptions_FindOrCreateByKind_def Let_def if_False option.case)
  with assms(2) have eq: "s1 = s" "m' = m" "settings' = settings" "g' = g" by simp_all
  from first_some_Some [OF s1] eq have "s \<in> set (mvals m)" "sub_kind s = kind" "has_room settings s"
    by (simp_all add: has_room_def)
  with eq assms(1) show ?thesis by (simp add: subs_in_vals del: set_map)
next
  case False
  then have n: "max_resources settings \<noteq> 1 \<Longrightarrow> first_some (\<lambda>s. sub_kind s = kind \<and>
      (max_resources settings < 1 \<or> int (Subscription_ResourcesLen s) < max_resources settings)) (mvals m) = None"
    unfolding first_some_None has_room_def by blast
  have "MemorySubscriptions_New kind settings g m = (s, settings', g', m')"
    using assms(2) unfolding MemorySubscriptions_FindOrCreateByKind_def Let_def
    by (cases "max_resources settings = 1") (simp_all only: n simp_thms if_True if_False option.case not_False_eq_True)
  from New_spec [OF this] have s: "sub_kind s = kind" "sub_resourcesByObjectID s = []" "sub_externalId s = ''''"
    "m' = mput (sub_id s) s m" "ps_s settings' = ps_s settings" "sub_id s = new_subscription_id settings g"
    by simp_all
  moreover have "has_room settings s" using s(2) by (auto simp: has_room_def Subscription_ResourcesLen_def)
  moreover have "subs_inv m'" using subs_inv_put [OF assms(1), of s] calculation by simp
  ultimately show ?thesis by (simp add: gomap_simps)
qed

end
