(* ===== verification/Collectors.thy ===== *)
theory Collectors
  imports Subscriptions Model
begin

text \<open>
  How Ara subscribes to a partner to collect from it: a request for a stop area, a line or all messages
  becomes a resource of a subscription (\<^verbatim>\<open>core/siri_stop_monitoring_subscription_collector.go\<close>,
  \<^verbatim>\<open>core/siri_general_message_subscription_collector.go\<close>), the subscribers ask the partner for the resources
  that are not subscribed yet (\<^verbatim>\<open>core/siri_stop_monitoring_subscriber.go\<close>,
  \<^verbatim>\<open>core/siri_general_message_subscriber.go\<close>), and the guardian removes the resources whose time is over
  (\<^verbatim>\<open>core/partner_guardian.go\<close>). The partner, behind the SOAP client, is a parameter: it maps the entries
  of a request to an error or to its answers.
\<close>

section \<open>Asking for a resource\<close>

definition on_resource :: "string \<Rightarrow> (SubscribedResource \<Rightarrow> SubscribedResource) \<Rightarrow> Subscription \<Rightarrow> Subscription" where
  "on_resource key f s =
     (case mget (sub_resourcesByObjectID s) key of
        None \<Rightarrow> s
      | Some r \<Rightarrow> s\<lparr>sub_resourcesByObjectID := mput key (f r) (sub_resourcesByObjectID s)\<rparr>)"

definition StopMonitoringCollect :: string where "StopMonitoringCollect = ''StopMonitoringCollect''"

definition GeneralMessageCollect :: string where "GeneralMessageCollect = ''GeneralMessageCollect''"

text \<open>A resource that is subscribed already is kept for two more minutes.\<close>

fun extend_resources :: "gotime \<Rightarrow> ObjectID \<Rightarrow> Subscription list \<Rightarrow> MemorySubscriptions \<Rightarrow> MemorySubscriptions" where
  "extend_resources now obj [] m = m"
| "extend_resources now obj (s # ss) m =
     (case Subscription_Resource s obj of
        None \<Rightarrow> m
      | Some r \<Rightarrow> extend_resources now obj ss
          (if \<not> IsZero (sr_SubscribedAt r)
           then on_subscription (sub_id s)
                  (on_resource (ObjectID_String obj) (\<lambda>r. r\<lparr>sr_SubscribedUntil := now + minutes 2\<rparr>)) m
           else m))"

definition request_resource ::
  "string \<Rightarrow> string \<Rightarrow> gotime \<Rightarrow> ObjectID \<Rightarrow> PartnerSettings \<Rightarrow> uuid_gen \<Rightarrow> MemorySubscriptions \<Rightarrow>
   (PartnerSettings \<times> uuid_gen \<times> MemorySubscriptions) option" where
  "request_resource kind ref_type now obj settings g m =
     (let subscriptions = MemorySubscriptions_FindByResourceId m (ObjectID_String obj) kind
      in if length subscriptions > 0 then Some (settings, g, extend_resources now obj subscriptions m)
         else (let (s, settings1, g1, m1) = MemorySubscriptions_FindOrCreateByKind kind settings g m
               in do { (_, s1) \<leftarrow> Subscription_CreateAddNewResource now
                                    \<lparr>ref_ObjectId = Some obj, ref_Type = ref_type\<rparr> s;
                       Some (settings1, g1, on_subscription (sub_id s) (\<lambda>_. s1) m1) }))"

definition StopMonitoring_RequestStopAreaUpdate ::
  "gotime \<Rightarrow> StopAreaId \<Rightarrow> MemoryModel \<Rightarrow> PartnerSettings \<Rightarrow> uuid_gen \<Rightarrow> MemorySubscriptions \<Rightarrow>
   (PartnerSettings \<times> uuid_gen \<times> MemorySubscriptions) option" where
  "StopMonitoring_RequestStopAreaUpdate now stopAreaId model settings g m =
     (case TransactionalStopAreas_Find (tm_stopAreas (NewTransactionalModel model)) (mm_stopAreas model) stopAreaId of
        None \<Rightarrow> Some (settings, g, m)
      | Some stopArea \<Rightarrow>
          (case Consumer_ObjectID (sa_objectids stopArea) (PartnerSettings_Setting settings REMOTE_OBJECTID_KIND) of
             None \<Rightarrow> Some (settings, g, m)
           | Some obj \<Rightarrow> request_resource StopMonitoringCollect ''StopArea'' now obj settings g m))"

definition SITUATION_UPDATE_REQUEST_ALL :: string where "SITUATION_UPDATE_REQUEST_ALL = ''requestAll''"
definition SITUATION_UPDATE_REQUEST_LINE :: string where "SITUATION_UPDATE_REQUEST_LINE = ''requestLine''"
definition SITUATION_UPDATE_REQUEST_STOP_AREA :: string where
  "SITUATION_UPDATE_REQUEST_STOP_AREA = ''requestStopArea''"

definition GeneralMessage_RequestSituationUpdate ::
  "gotime \<Rightarrow> string \<Rightarrow> ObjectID \<Rightarrow> PartnerSettings \<Rightarrow> uuid_gen \<Rightarrow> MemorySubscriptions \<Rightarrow>
   (PartnerSettings \<times> uuid_gen \<times> MemorySubscriptions) option" where
  "GeneralMessage_RequestSituationUpdate now kind obj settings g m =
     request_resource GeneralMessageCollect
       (if kind = SITUATION_UPDATE_REQUEST_LINE then ''Line''
        else if kind = SITUATION_UPDATE_REQUEST_STOP_AREA then ''StopArea'' else '''')
       now obj settings g m"

definition GeneralMessage_RequestAllSituationsUpdate ::
  "gotime \<Rightarrow> PartnerSettings \<Rightarrow> uuid_gen \<Rightarrow> MemorySubscriptions \<Rightarrow>
   (PartnerSettings \<times> uuid_gen \<times> MemorySubscriptions) option" where
  "GeneralMessage_RequestAllSituationsUpdate now settings g m =
     GeneralMessage_RequestSituationUpdate now ''all'' (NewObjectID ''generalMessageCollect'' ''all'') settings g m"

section \<open>Subscribing at the partner\<close>

record resourceToRequest =
  rtr_subId :: SubscriptionId
  rtr_objectId :: ObjectID
  rtr_kind :: string

record subscription_entry =
  sen_MessageIdentifier :: string
  sen_SubscriptionIdentifier :: SubscriptionId
  sen_StopRefs :: "string list"
  sen_LineRefs :: "string list"

record ResponseStatus =
  rst_RequestMessageRef :: string
  rst_Status :: bool

text \<open>The SOAP client: \<^const>\<open>None\<close> is an error.\<close>

type_synonym soap_client = "subscription_entry list \<Rightarrow> ResponseStatus list option"

definition NewMessageIdentifier ::
  "PartnerSettings \<Rightarrow> uuid_gen \<Rightarrow> string \<times> PartnerSettings \<times> uuid_gen" where
  "NewMessageIdentifier settings g =
     (let (generator, settings1) = PartnerSettings_IdentifierGenerator MESSAGE_IDENTIFIER settings;
          (i, g1) = IdentifierGenerator_NewMessageIdentifier generator g
      in (i, settings1, g1))"

text \<open>The resources to ask for: not subscribed, and refused at most ten times. Each gets a message
  identifier; two that get the same one overwrite each other.\<close>

definition add_request ::
  "Subscription \<Rightarrow> SubscribedResource \<Rightarrow>
   ((string, resourceToRequest) gomap \<times> PartnerSettings \<times> uuid_gen) option \<Rightarrow>
   ((string, resourceToRequest) gomap \<times> PartnerSettings \<times> uuid_gen) option" where
  "add_request s r acc =
     (if sr_SubscribedAt r = 0 \<and> sr_RetryCount r \<le> 10
      then do {
        (requests, settings, g) \<leftarrow> acc;
        let (i, settings1, g1) = NewMessageIdentifier settings g;
        obj \<leftarrow> ref_ObjectId (sr_Reference r);
        Some (mput i \<lparr>rtr_subId = sub_id s, rtr_objectId = obj, rtr_kind = ref_Type (sr_Reference r)\<rparr> requests,
              settings1, g1) }
      else acc)"

definition resources_to_request ::
  "string \<Rightarrow> PartnerSettings \<Rightarrow> uuid_gen \<Rightarrow> MemorySubscriptions \<Rightarrow>
   ((string, resourceToRequest) gomap \<times> PartnerSettings \<times> uuid_gen) option" where
  "resources_to_request kind settings g m =
     fold (\<lambda>s. fold (add_request s) (mvals (Subscription_ResourcesByObjectIDCopy s)))
       (MemorySubscriptions_FindSubscriptionsByKind m kind) (Some ([], settings, g))"

definition increment_retry :: "resourceToRequest \<Rightarrow> MemorySubscriptions \<Rightarrow> MemorySubscriptions" where
  "increment_retry req =
     on_subscription (rtr_subId req)
       (on_resource (ObjectID_String (rtr_objectId req)) (\<lambda>r. r\<lparr>sr_RetryCount := sr_RetryCount r + 1\<rparr>))"

definition incrementRetryCountFromMap ::
  "(string, resourceToRequest) gomap \<Rightarrow> MemorySubscriptions \<Rightarrow> MemorySubscriptions" where
  "incrementRetryCountFromMap requests m = fold increment_retry (mvals requests) m"

definition subscribed :: "gotime \<Rightarrow> resourceToRequest \<Rightarrow> MemorySubscriptions \<Rightarrow> MemorySubscriptions" where
  "subscribed now req =
     on_subscription (rtr_subId req)
       (on_resource (ObjectID_String (rtr_objectId req)) (\<lambda>r. r\<lparr>sr_SubscribedAt := now, sr_RetryCount := 0\<rparr>))"

text \<open>An answer settles the request it refers to, once.\<close>

definition handle_status_response ::
  "gotime \<Rightarrow> ResponseStatus \<Rightarrow> (string, resourceToRequest) gomap \<times> MemorySubscriptions \<Rightarrow>
   (string, resourceToRequest) gomap \<times> MemorySubscriptions" where
  "handle_status_response now status st =
     (case st of (requests, m) \<Rightarrow>
        (case mget requests (rst_RequestMessageRef status) of
           None \<Rightarrow> (requests, m)
         | Some req \<Rightarrow> (mdel (rst_RequestMessageRef status) requests,
             if rst_Status status then subscribed now req m else increment_retry req m)))"

definition visit_subscriptions ::
  "(string \<Rightarrow> resourceToRequest \<Rightarrow> subscription_entry) \<Rightarrow> string \<Rightarrow> soap_client \<Rightarrow> gotime \<Rightarrow> PartnerSettings \<Rightarrow>
   uuid_gen \<Rightarrow> MemorySubscriptions \<Rightarrow> (PartnerSettings \<times> uuid_gen \<times> MemorySubscriptions) option" where
  "visit_subscriptions entry kind soap now settings g m = do {
     (requests, settings1, g1) \<leftarrow> resources_to_request kind settings g m;
     if requests = [] then Some (settings1, g1, m)
     else (let (_, settings2, g2) = NewMessageIdentifier settings1 g1
           in case soap (map (\<lambda>(i, req). entry i req) requests) of
                None \<Rightarrow> Some (settings2, g2, incrementRetryCountFromMap requests m)
              | Some statuses \<Rightarrow>
                  (let (left, m1) = fold (handle_status_response now) statuses (requests, m)
                   in Some (settings2, g2, incrementRetryCountFromMap left m1))) }"

definition sm_entry :: "string \<Rightarrow> resourceToRequest \<Rightarrow> subscription_entry" where
  "sm_entry i req =
     \<lparr>sen_MessageIdentifier = i, sen_SubscriptionIdentifier = rtr_subId req,
      sen_StopRefs = [oid_value (rtr_objectId req)], sen_LineRefs = []\<rparr>"

definition gm_entry :: "string \<Rightarrow> resourceToRequest \<Rightarrow> subscription_entry" where
  "gm_entry i req =
     \<lparr>sen_MessageIdentifier = i, sen_SubscriptionIdentifier = rtr_subId req,
      sen_StopRefs = (if rtr_kind req = ''StopArea'' then [oid_value (rtr_objectId req)] else []),
      sen_LineRefs = (if rtr_kind req = ''Line'' then [oid_value (rtr_objectId req)] else [])\<rparr>"

definition prepareSIRIStopMonitoringSubscriptionRequest ::
  "soap_client \<Rightarrow> gotime \<Rightarrow> PartnerSettings \<Rightarrow> uuid_gen \<Rightarrow> MemorySubscriptions \<Rightarrow>
   (PartnerSettings \<times> uuid_gen \<times> MemorySubscriptions) option" where
  "prepareSIRIStopMonitoringSubscriptionRequest = visit_subscriptions sm_entry StopMonitoringCollect"

definition prepareSIRIGeneralMessageSubscriptionRequest ::
  "soap_client \<Rightarrow> gotime \<Rightarrow> PartnerSettings \<Rightarrow> uuid_gen \<Rightarrow> MemorySubscriptions \<Rightarrow>
   (PartnerSettings \<times> uuid_gen \<times> MemorySubscriptions) option" where
  "prepareSIRIGeneralMessageSubscriptionRequest = visit_subscriptions gm_entry GeneralMessageCollect"

section \<open>The end of a resource\<close>

definition terminate_resources :: "gotime \<Rightarrow> Subscription \<Rightarrow> Subscription" where
  "terminate_resources now s =
     fold (\<lambda>(key, value) s.
             if \<not> sr_SubscribedUntil value < now \<or> IsZero (sr_SubscribedAt value) then s
             else Subscription_DeleteResource key s)
       (Subscription_ResourcesByObjectIDCopy s) s"

definition terminate_subscription :: "gotime \<Rightarrow> Subscription \<Rightarrow> MemorySubscriptions \<Rightarrow> MemorySubscriptions" where
  "terminate_subscription now s m =
     (let s1 = terminate_resources now s; m1 = on_subscription (sub_id s) (\<lambda>_. s1) m
      in if Subscription_ResourcesLen s1 = 0 then MemorySubscriptions_Delete s1 m1 else m1)"

definition checkSubscriptionsTerminatedTime :: "gotime \<Rightarrow> MemorySubscriptions \<Rightarrow> MemorySubscriptions" where
  "checkSubscriptionsTerminatedTime now m =
     fold (terminate_subscription now) (MemorySubscriptions_FindAll m) m"

section \<open>Reading the resources\<close>

definition resource_at :: "MemorySubscriptions \<Rightarrow> SubscriptionId \<Rightarrow> string \<Rightarrow> SubscribedResource option" where
  "resource_at m i key = (case mget m i of None \<Rightarrow> None | Some s \<Rightarrow> mget (sub_resourcesByObjectID s) key)"

definition kind_at :: "MemorySubscriptions \<Rightarrow> SubscriptionId \<Rightarrow> string option" where
  "kind_at m i = map_option sub_kind (mget m i)"

definition len_at :: "MemorySubscriptions \<Rightarrow> SubscriptionId \<Rightarrow> nat option" where
  "len_at m i = map_option Subscription_ResourcesLen (mget m i)"

text \<open>The resources are stored under their identifiers.\<close>

definition refs_ok :: "MemorySubscriptions \<Rightarrow> bool" where
  "refs_ok m \<longleftrightarrow> (\<forall>i key r. resource_at m i key = Some r \<longrightarrow>
     (\<exists>obj. ref_ObjectId (sr_Reference r) = Some obj \<and> ObjectID_String obj = key))"

definition collect_inv :: "MemorySubscriptions \<Rightarrow> bool" where
  "collect_inv m \<longleftrightarrow> subs_inv m \<and> refs_ok m"

lemma length_mput: "length (mput k v m) = (if k \<in> set (mkeys m) then length m else Suc (length m))"
  by (induction m) auto

lemma on_resource_fields [simp]:
  "sub_id (on_resource key f s) = sub_id s" "sub_kind (on_resource key f s) = sub_kind s"
  "Subscription_ResourcesLen (on_resource key f s) = Subscription_ResourcesLen s"
  "mwf (sub_resourcesByObjectID s) \<Longrightarrow> mwf (sub_resourcesByObjectID (on_resource key f s))"
  by (auto simp: on_resource_def Subscription_ResourcesLen_def length_mput map_of_eq_None_iff split: option.split)

lemma mget_on_resource [gomap_simps]:
  "mget (sub_resourcesByObjectID (on_resource k f s)) key =
     (if key = k then map_option f (mget (sub_resourcesByObjectID s) k) else mget (sub_resourcesByObjectID s) key)"
  by (simp add: on_resource_def gomap_simps split: option.split)

text \<open>A change of one resource is just that.\<close>

abbreviation touch ::
  "SubscriptionId \<Rightarrow> string \<Rightarrow> (SubscribedResource \<Rightarrow> SubscribedResource) \<Rightarrow> MemorySubscriptions \<Rightarrow> MemorySubscriptions" where
  "touch i k f \<equiv> on_subscription i (on_resource k f)"

lemma touch_at [simp]:
  "resource_at (touch j k f m) i key =
     (if i = j \<and> key = k then map_option f (resource_at m i key) else resource_at m i key)"
  "kind_at (touch j k f m) i = kind_at m i"
  "len_at (touch j k f m) i = len_at m i"
  by (auto simp: resource_at_def kind_at_def len_at_def gomap_simps option.map_comp o_def split: option.split)

lemma touch_inv [simp, wf_intros]:
  assumes "collect_inv m" and "\<And>r. sr_Reference (f r) = sr_Reference r"
  shows "collect_inv (touch i k f m)"
proof -
  have "subs_inv (touch i k f m)" using assms(1) by (intro subs_inv_on) (simp_all add: collect_inv_def)
  moreover have "refs_ok (touch i k f m)"
    using assms by (fastforce simp: refs_ok_def collect_inv_def)
  ultimately show ?thesis by (simp add: collect_inv_def)
qed

lemma increment_retry_touch:
  "increment_retry req = touch (rtr_subId req) (ObjectID_String (rtr_objectId req))
     (\<lambda>r. r\<lparr>sr_RetryCount := sr_RetryCount r + 1\<rparr>)"
  by (rule ext) (simp add: increment_retry_def)

lemma subscribed_touch:
  "subscribed now req = touch (rtr_subId req) (ObjectID_String (rtr_objectId req))
     (\<lambda>r. r\<lparr>sr_SubscribedAt := now, sr_RetryCount := 0\<rparr>)"
  by (rule ext) (simp add: subscribed_def)

lemma resource_at_stored:
  "collect_inv m \<Longrightarrow> s \<in> set (mvals m) \<Longrightarrow> resource_at m (sub_id s) key = mget (sub_resourcesByObjectID s) key"
  by (simp add: resource_at_def collect_inv_def subs_in_vals del: set_map)

section \<open>Visits\<close>

text \<open>A relation between the subscriptions before and after: identifiers and kinds stay, and so does
  every resource that is not among those asked for.\<close>

definition asked :: "(string, resourceToRequest) gomap \<Rightarrow> SubscriptionId \<Rightarrow> string \<Rightarrow> bool" where
  "asked requests i key \<longleftrightarrow>
     (\<exists>req \<in> set (mvals requests). rtr_subId req = i \<and> ObjectID_String (rtr_objectId req) = key)"

definition only_asked ::
  "(string, resourceToRequest) gomap \<Rightarrow> MemorySubscriptions \<Rightarrow> MemorySubscriptions \<Rightarrow> bool" where
  "only_asked requests m m' \<longleftrightarrow> collect_inv m' \<and>
     (\<forall>i key. (\<not> asked requests i key \<longrightarrow> resource_at m' i key = resource_at m i key) \<and>
       kind_at m' i = kind_at m i \<and> len_at m' i = len_at m i)"

lemma only_asked_refl: "collect_inv m \<Longrightarrow> only_asked requests m m"
  by (simp add: only_asked_def)

lemma only_asked_trans: "only_asked requests m1 m2 \<Longrightarrow> only_asked requests m2 m3 \<Longrightarrow> only_asked requests m1 m3"
  by (simp add: only_asked_def)

lemma only_asked_touch:
  assumes "collect_inv m" and "req \<in> set (mvals requests)" and "\<And>r. sr_Reference (f r) = sr_Reference r"
  shows "only_asked requests m (touch (rtr_subId req) (ObjectID_String (rtr_objectId req)) f m)"
  unfolding only_asked_def using touch_inv [OF assms(1,3)] assms(2) by (auto simp: asked_def)

lemma only_asked_increment:
  "collect_inv m \<Longrightarrow> set reqs \<subseteq> set (mvals requests) \<Longrightarrow> only_asked requests m (fold increment_retry reqs m)"
proof (induction reqs arbitrary: m)
  case (Cons req reqs)
  have "only_asked requests m (increment_retry req m)"
    using Cons.prems unfolding increment_retry_touch by (intro only_asked_touch) simp_all
  moreover from this have "only_asked requests (increment_retry req m) (fold increment_retry reqs (increment_retry req m))"
    using Cons by (simp add: only_asked_def)
  ultimately show ?case by (simp add: only_asked_trans)
qed (simp add: only_asked_refl)

lemma vals_mdel: "set (mvals (mdel k m)) \<subseteq> set (mvals m)"
  by (induction m) auto

lemma only_asked_answers:
  assumes "collect_inv m" and "set (mvals reqs) \<subseteq> set (mvals requests)"
    and "fold (handle_status_response now) statuses (reqs, m) = (left, m1)"
  shows "only_asked requests m m1 \<and> set (mvals left) \<subseteq> set (mvals requests)"
  using assms
proof (induction statuses arbitrary: reqs m)
  case Nil
  then show ?case by (simp add: only_asked_refl)
next
  case (Cons st statuses)
  obtain reqs1 m2 where s: "handle_status_response now st (reqs, m) = (reqs1, m2)" by fastforce
  have "only_asked requests m m2 \<and> set (mvals reqs1) \<subseteq> set (mvals requests)"
  proof (cases "mget reqs (rst_RequestMessageRef st)")
    case None
    with s Cons.prems show ?thesis by (simp add: handle_status_response_def only_asked_refl)
  next
    case (Some req)
    with Cons.prems(2) have req: "req \<in> set (mvals requests)" by (blast dest: mget_some_vals)
    from s Some have m2: "m2 = subscribed now req m \<or> m2 = increment_retry req m"
      and r: "reqs1 = mdel (rst_RequestMessageRef st) reqs"
      by (auto simp: handle_status_response_def split: if_splits)
    have "only_asked requests m (subscribed now req m)"
      unfolding subscribed_touch by (rule only_asked_touch [OF Cons.prems(1) req]) simp
    moreover have "only_asked requests m (increment_retry req m)"
      unfolding increment_retry_touch by (rule only_asked_touch [OF Cons.prems(1) req]) simp
    ultimately have "only_asked requests m m2" using m2 by (elim disjE) simp_all
    moreover have "set (mvals reqs1) \<subseteq> set (mvals requests)"
      unfolding r by (rule subset_trans [OF vals_mdel Cons.prems(2)])
    ultimately show ?thesis by (rule conjI)
  qed
  with Cons.IH [of m2 reqs1] Cons.prems(3) s show ?case by (simp add: only_asked_def)
qed

text \<open>The requests of a visit.\<close>

definition waiting :: "SubscribedResource \<Rightarrow> bool" where
  "waiting r \<longleftrightarrow> sr_SubscribedAt r = 0 \<and> sr_RetryCount r \<le> 10"

definition requests_ok ::
  "string \<Rightarrow> PartnerSettings \<Rightarrow> MemorySubscriptions \<Rightarrow>
   ((string, resourceToRequest) gomap \<times> PartnerSettings \<times> uuid_gen) option \<Rightarrow> bool" where
  "requests_ok kind settings m acc \<longleftrightarrow>
     (case acc of
        None \<Rightarrow> False
      | Some (requests, settings', g') \<Rightarrow> ps_s settings' = ps_s settings \<and> mwf requests \<and>
          vals_ok (\<lambda>req. kind_at m (rtr_subId req) = Some kind \<and>
            (\<exists>r. resource_at m (rtr_subId req) (ObjectID_String (rtr_objectId req)) = Some r \<and> waiting r)) requests)"

lemma NewMessageIdentifier_settings:
  "NewMessageIdentifier settings g = (i, settings1, g1) \<Longrightarrow> ps_s settings1 = ps_s settings"
proof -
  assume "NewMessageIdentifier settings g = (i, settings1, g1)"
  then have "settings1 = snd (PartnerSettings_IdentifierGenerator MESSAGE_IDENTIFIER settings)"
    by (auto simp: NewMessageIdentifier_def split: prod.splits)
  then show ?thesis by simp
qed

lemma add_request_ok:
  assumes "collect_inv m" and "s \<in> set (mvals m)" and "sub_kind s = kind"
    and "r \<in> set (mvals (sub_resourcesByObjectID s))" and "requests_ok kind settings m acc"
  shows "requests_ok kind settings m (add_request s r acc)"
proof (cases "waiting r")
  case True
  have s: "mget m (sub_id s) = Some s" using assms(1,2) by (simp add: collect_inv_def subs_in_vals del: set_map)
  with assms(1) have "mwf (sub_resourcesByObjectID s)" by (auto simp: collect_inv_def dest: subs_inv_mget)
  with assms(4) obtain key where key: "mget (sub_resourcesByObjectID s) key = Some r" by (rule mget_rangeE)
  then have at: "resource_at m (sub_id s) key = Some r" by (simp add: resource_at_def s)
  with assms(1) obtain obj where obj: "ref_ObjectId (sr_Reference r) = Some obj" "ObjectID_String obj = key"
    unfolding collect_inv_def refs_ok_def by blast
  obtain requests settings' g' where acc: "acc = Some (requests, settings', g')"
    using assms(5) by (cases acc) (auto simp: requests_ok_def)
  obtain i settings1 g1 where n: "NewMessageIdentifier settings' g' = (i, settings1, g1)"
    using prod_cases3 by blast
  from NewMessageIdentifier_settings [OF n] acc assms(5)
  have "ps_s settings1 = ps_s settings" by (simp add: requests_ok_def)
  with True acc n obj at s assms(3,5) show ?thesis
    by (simp add: add_request_def waiting_def requests_ok_def kind_at_def)
qed (use assms(5) in \<open>auto simp: add_request_def waiting_def\<close>)

lemma fold_requests_ok:
  "collect_inv m \<Longrightarrow> s \<in> set (mvals m) \<Longrightarrow> sub_kind s = kind \<Longrightarrow>
     set rs \<subseteq> set (mvals (sub_resourcesByObjectID s)) \<Longrightarrow> requests_ok kind settings m acc \<Longrightarrow>
     requests_ok kind settings m (fold (add_request s) rs acc)"
  by (induction rs arbitrary: acc) (simp_all add: add_request_ok del: set_map)

lemma ResourcesByObjectIDCopy_id:
  "collect_inv m \<Longrightarrow> s \<in> set (mvals m) \<Longrightarrow> Subscription_ResourcesByObjectIDCopy s = sub_resourcesByObjectID s"
  unfolding Subscription_ResourcesByObjectIDCopy_def
  by (rule fold_copy_id) (auto simp: collect_inv_def subs_in_vals dest: subs_inv_mget simp del: set_map)

lemma resources_to_request_ok:
  assumes "collect_inv m"
  shows "requests_ok kind settings m (resources_to_request kind settings g m)"
proof -
  have "set ss \<subseteq> set (MemorySubscriptions_FindSubscriptionsByKind m kind) \<Longrightarrow> requests_ok kind settings m acc \<Longrightarrow>
     requests_ok kind settings m (fold (\<lambda>s. fold (add_request s) (mvals (Subscription_ResourcesByObjectIDCopy s))) ss acc)"
    for ss acc
  proof (induction ss arbitrary: acc)
    case (Cons s ss)
    then have s: "s \<in> set (mvals m)" "sub_kind s = kind"
      by (auto simp: MemorySubscriptions_FindSubscriptionsByKind_def)
    have "requests_ok kind settings m (fold (add_request s) (mvals (Subscription_ResourcesByObjectIDCopy s)) acc)"
      unfolding ResourcesByObjectIDCopy_id [OF assms s(1)]
      by (rule fold_requests_ok [OF assms s]) (use Cons.prems in simp_all)
    with Cons show ?case by simp
  qed simp
  then show ?thesis unfolding resources_to_request_def by (simp add: requests_ok_def)
qed

text \<open>A visit returns, whatever the partner answers, and touches only waiting resources of its kind.\<close>

lemma visit_effect:
  assumes "collect_inv m"
  shows "\<exists>requests settings' g' m'.
    visit_subscriptions entry kind soap now settings g m = Some (settings', g', m') \<and>
    ps_s settings' = ps_s settings \<and> only_asked requests m m' \<and>
    (\<forall>i key. asked requests i key \<longrightarrow> kind_at m i = Some kind \<and> (\<exists>r. resource_at m i key = Some r \<and> waiting r))"
proof -
  obtain requests settings1 g1 where r: "resources_to_request kind settings g m = Some (requests, settings1, g1)"
    and st: "ps_s settings1 = ps_s settings"
    and ok: "vals_ok (\<lambda>req. kind_at m (rtr_subId req) = Some kind \<and>
            (\<exists>r. resource_at m (rtr_subId req) (ObjectID_String (rtr_objectId req)) = Some r \<and> waiting r)) requests"
    using resources_to_request_ok [OF assms, of kind settings g]
    by (auto simp: requests_ok_def split: option.splits)
  from ok have asked: "\<forall>i key. asked requests i key \<longrightarrow>
      kind_at m i = Some kind \<and> (\<exists>r. resource_at m i key = Some r \<and> waiting r)"
    unfolding asked_def vals_ok_vals by blast
  obtain mi settings2 g2 where n: "NewMessageIdentifier settings1 g1 = (mi, settings2, g2)"
    using prod_cases3 by blast
  with NewMessageIdentifier_settings [OF n] st have st2: "ps_s settings2 = ps_s settings" by simp
  have retried: "only_asked requests m (incrementRetryCountFromMap requests m)"
    unfolding incrementRetryCountFromMap_def by (rule only_asked_increment [OF assms]) simp
  show ?thesis
  proof (cases "requests = []")
    case True
    with r st asked only_asked_refl [OF assms] show ?thesis
      unfolding visit_subscriptions_def by (intro exI [of _ requests]) simp
  next
    case False
    show ?thesis
    proof (cases "soap (map (\<lambda>(i, req). entry i req) requests)")
      case None
      with r n False st2 asked retried show ?thesis
        unfolding visit_subscriptions_def by (intro exI [of _ requests]) simp
    next
      case (Some statuses)
      obtain left m1 where f: "fold (handle_status_response now) statuses (requests, m) = (left, m1)"
        by fastforce
      from only_asked_answers [OF assms _ f, of requests]
      have o1: "only_asked requests m m1" and l: "set (mvals left) \<subseteq> set (mvals requests)" by blast+
      have "collect_inv m1" using o1 by (simp add: only_asked_def)
      from only_asked_trans [OF o1 only_asked_increment [OF this l]]
      have "only_asked requests m (incrementRetryCountFromMap left m1)" by (simp add: incrementRetryCountFromMap_def)
      with r n False Some f st2 asked show ?thesis
        unfolding visit_subscriptions_def by (intro exI [of _ requests]) simp
    qed
  qed
qed

section \<open>Requests\<close>

definition extended :: "gotime \<Rightarrow> SubscribedResource \<Rightarrow> SubscribedResource" where
  "extended now r = (if sr_SubscribedAt r \<noteq> 0 then r\<lparr>sr_SubscribedUntil := now + minutes 2\<rparr> else r)"

lemma extend_resources_effect:
  assumes "collect_inv m" and "distinct (map sub_id ss)"
    and "\<And>s. s \<in> set ss \<Longrightarrow> Subscription_Resource s obj = resource_at m (sub_id s) (ObjectID_String obj) \<and>
           Subscription_Resource s obj \<noteq> None"
  shows "collect_inv (extend_resources now obj ss m) \<and>
    (\<forall>i key. resource_at (extend_resources now obj ss m) i key =
        (if key = ObjectID_String obj \<and> i \<in> sub_id ` set ss then map_option (extended now) (resource_at m i key)
         else resource_at m i key) \<and>
      kind_at (extend_resources now obj ss m) i = kind_at m i \<and> len_at (extend_resources now obj ss m) i = len_at m i)"
  using assms
proof (induction ss arbitrary: m)
  case (Cons s ss)
  obtain r where r: "Subscription_Resource s obj = Some r" "resource_at m (sub_id s) (ObjectID_String obj) = Some r"
    using Cons.prems(3) [of s] by fastforce
  define m1 where "m1 = (if \<not> IsZero (sr_SubscribedAt r)
    then touch (sub_id s) (ObjectID_String obj) (\<lambda>r. r\<lparr>sr_SubscribedUntil := now + minutes 2\<rparr>) m else m)"
  have inv: "collect_inv m1" using Cons.prems(1) by (simp add: m1_def)
  have at: "resource_at m1 i key = (if key = ObjectID_String obj \<and> i = sub_id s
      then map_option (extended now) (resource_at m i key) else resource_at m i key)"
    and k: "kind_at m1 i = kind_at m i" "len_at m1 i = len_at m i" for i key
    using r(2) by (auto simp: extended_def m1_def)
  have notin: "sub_id s \<notin> sub_id ` set ss" and dist: "distinct (map sub_id ss)" using Cons.prems(2) by simp_all
  have "Subscription_Resource t obj = resource_at m1 (sub_id t) (ObjectID_String obj) \<and> Subscription_Resource t obj \<noteq> None"
    if "t \<in> set ss" for t
  proof -
    have "sub_id t \<noteq> sub_id s" using that notin by (metis image_eqI)
    then have "resource_at m1 (sub_id t) (ObjectID_String obj) = resource_at m (sub_id t) (ObjectID_String obj)"
      unfolding at by simp
    then show ?thesis using Cons.prems(3) [of t] that by (simp only:) (meson list.set_intros(2))
  qed
  from Cons.IH [OF inv dist this] have ih: "collect_inv (extend_resources now obj ss m1)"
    "\<And>i key. resource_at (extend_resources now obj ss m1) i key =
        (if key = ObjectID_String obj \<and> i \<in> sub_id ` set ss then map_option (extended now) (resource_at m1 i key)
         else resource_at m1 i key)"
    "\<And>i. kind_at (extend_resources now obj ss m1) i = kind_at m1 i"
    "\<And>i. len_at (extend_resources now obj ss m1) i = len_at m1 i" by blast+
  have step: "extend_resources now obj (s # ss) m = extend_resources now obj ss m1" by (simp add: r(1) m1_def)
  show ?case unfolding step using ih notin by (simp add: at k)
qed simp

lemma FindByResourceId_stored:
  assumes "collect_inv m"
  shows "distinct (map sub_id (MemorySubscriptions_FindByResourceId m key kind))"
    and "s \<in> set (MemorySubscriptions_FindByResourceId m key kind) \<Longrightarrow>
      mget m (sub_id s) = Some s \<and> sub_kind s = kind \<and> mget (sub_resourcesByObjectID s) key \<noteq> None"
    and "i \<in> sub_id ` set (MemorySubscriptions_FindByResourceId m key kind) \<longleftrightarrow>
      kind_at m i = Some kind \<and> resource_at m i key \<noteq> None"
proof -
  have inv: "subs_inv m" using assms by (simp add: collect_inv_def)
  then have "map sub_id (mvals m) = mkeys m" "distinct (mkeys m)"
    by (auto simp: subs_inv_def mwf_def simp del: map_map intro: keyed_map)
  then show "distinct (map sub_id (MemorySubscriptions_FindByResourceId m key kind))"
    unfolding MemorySubscriptions_FindByResourceId_def by (intro distinct_map_filter) (simp only:)
  have in_iff: "s \<in> set (MemorySubscriptions_FindByResourceId m key kind) \<longleftrightarrow>
      mget m (sub_id s) = Some s \<and> sub_kind s = kind \<and> mget (sub_resourcesByObjectID s) key \<noteq> None" for s
    unfolding MemorySubscriptions_FindByResourceId_def
    using subs_in_vals [OF inv, of s] by (auto simp: mhas_def simp del: set_map)
  then show "s \<in> set (MemorySubscriptions_FindByResourceId m key kind) \<Longrightarrow>
      mget m (sub_id s) = Some s \<and> sub_kind s = kind \<and> mget (sub_resourcesByObjectID s) key \<noteq> None" by simp
  show "i \<in> sub_id ` set (MemorySubscriptions_FindByResourceId m key kind) \<longleftrightarrow>
      kind_at m i = Some kind \<and> resource_at m i key \<noteq> None"
  proof
    assume "i \<in> sub_id ` set (MemorySubscriptions_FindByResourceId m key kind)"
    then show "kind_at m i = Some kind \<and> resource_at m i key \<noteq> None"
      by (auto simp: in_iff kind_at_def resource_at_def)
  next
    assume a: "kind_at m i = Some kind \<and> resource_at m i key \<noteq> None"
    then obtain s where s: "mget m i = Some s" "sub_kind s = kind" "mget (sub_resourcesByObjectID s) key \<noteq> None"
      by (auto simp: kind_at_def resource_at_def)
    moreover have "sub_id s = i" using subs_inv_mget [OF inv s(1)] by simp
    ultimately have "s \<in> set (MemorySubscriptions_FindByResourceId m key kind)" by (simp add: in_iff)
    with \<open>sub_id s = i\<close> show "i \<in> sub_id ` set (MemorySubscriptions_FindByResourceId m key kind)" by blast
  qed
qed

text \<open>What a request does: extend the resource wherever it is, or add it to a subscription with room.\<close>

definition extends_only :: "string \<Rightarrow> gotime \<Rightarrow> string \<Rightarrow> MemorySubscriptions \<Rightarrow> MemorySubscriptions \<Rightarrow> bool" where
  "extends_only kind now k m m' \<longleftrightarrow>
     (\<forall>i key. resource_at m' i key =
        (if key = k \<and> kind_at m i = Some kind then map_option (extended now) (resource_at m i key)
         else resource_at m i key) \<and>
      kind_at m' i = kind_at m i \<and> len_at m' i = len_at m i)"

definition adds_resource ::
  "string \<Rightarrow> PartnerSettings \<Rightarrow> uuid_gen \<Rightarrow> string \<Rightarrow> SubscribedResource \<Rightarrow> MemorySubscriptions \<Rightarrow> Subscription \<Rightarrow>
   MemorySubscriptions \<Rightarrow> bool" where
  "adds_resource kind settings g k r m s m' \<longleftrightarrow>
     sub_kind s = kind \<and> has_room settings s \<and>
     (mget m (sub_id s) = Some s \<or>
      sub_resourcesByObjectID s = [] \<and> sub_id s = new_subscription_id settings g) \<and>
     m' = mput (sub_id s) (s\<lparr>sub_resourcesByObjectID := mput k r (sub_resourcesByObjectID s)\<rparr>) m"

lemma mput_mput: "mput k v (mput k w m) = mput k v m"
  by (induction m) auto

lemma request_effect:
  assumes "collect_inv m"
  shows "\<exists>settings' g' m'. request_resource kind ref_type now obj settings g m = Some (settings', g', m') \<and>
    ps_s settings' = ps_s settings \<and> collect_inv m' \<and>
    (extends_only kind now (ObjectID_String obj) m m' \<and>
       (\<exists>i. kind_at m i = Some kind \<and> resource_at m i (ObjectID_String obj) \<noteq> None) \<or>
     (\<nexists>i. kind_at m i = Some kind \<and> resource_at m i (ObjectID_String obj) \<noteq> None) \<and>
     (\<exists>s r. adds_resource kind settings g (ObjectID_String obj) r m s m' \<and>
        sr_SubscribedAt r = 0 \<and> sr_RetryCount r = 0))"
proof (cases "MemorySubscriptions_FindByResourceId m (ObjectID_String obj) kind")
  case Nil
  note F = FindByResourceId_stored [OF assms, where key = "ObjectID_String obj" and kind = kind]
  from Nil F(3) have none: "\<nexists>i. kind_at m i = Some kind \<and> resource_at m i (ObjectID_String obj) \<noteq> None" by force
  have inv: "subs_inv m" using assms by (simp add: collect_inv_def)
  obtain s settings1 g1 m1 where c: "MemorySubscriptions_FindOrCreateByKind kind settings g m = (s, settings1, g1, m1)"
    using prod_cases4 by blast
  note f = FindOrCreate_spec [OF inv c]
  let ?r = "\<lparr>sr_Reference = \<lparr>ref_ObjectId = Some obj, ref_Type = ref_type\<rparr>, sr_RetryCount = 0, sr_SubscribedAt = 0,
      sr_SubscribedUntil = now + minutes 2, sr_lastStates = [], sr_resourcesOptions = []\<rparr>"
  let ?s = "s\<lparr>sub_resourcesByObjectID := mput (ObjectID_String obj) ?r (sub_resourcesByObjectID s)\<rparr>"
  let ?m = "mput (sub_id s) ?s m"
  have m1: "on_subscription (sub_id s) (\<lambda>_. ?s) m1 = ?m"
    using f by (auto simp: on_subscription_def mput_mput)
  have req: "request_resource kind ref_type now obj settings g m = Some (settings1, g1, ?m)"
    unfolding request_resource_def using Nil c m1
    by (simp add: Subscription_CreateAddNewResource_def Let_def)
  have stored: "mget m (sub_id s) = Some s \<or>
      sub_resourcesByObjectID s = [] \<and> sub_id s = new_subscription_id settings g" using f by auto
  have s_ok: "mwf (sub_resourcesByObjectID s)"
    using stored inv by (auto dest: subs_inv_mget)
  then have "subs_inv ?m" using subs_inv_put [OF inv, of ?s] by simp
  moreover have "refs_ok ?m"
    using assms stored unfolding collect_inv_def refs_ok_def
    by (auto simp: resource_at_def gomap_simps split: if_splits) (metis option.simps(5))
  ultimately have "collect_inv ?m" by (simp add: collect_inv_def)
  moreover have "adds_resource kind settings g (ObjectID_String obj) ?r m s ?m"
    using f stored by (simp add: adds_resource_def)
  ultimately show ?thesis using req none f
    by (intro exI [of _ settings1] exI [of _ g1] exI [of _ ?m] conjI disjI2 exI [of _ s] exI [of _ ?r]) simp_all
next
  case (Cons t ts)
  let ?ss = "MemorySubscriptions_FindByResourceId m (ObjectID_String obj) kind"
  note F = FindByResourceId_stored [OF assms, where key = "ObjectID_String obj" and kind = kind]
  have "Subscription_Resource s obj = resource_at m (sub_id s) (ObjectID_String obj) \<and> Subscription_Resource s obj \<noteq> None"
    if "s \<in> set ?ss" for s using F(2) [OF that] by (simp add: Subscription_Resource_def resource_at_def)
  from extend_resources_effect [OF assms F(1) this, of now]
  have e: "collect_inv (extend_resources now obj ?ss m)"
    "extends_only kind now (ObjectID_String obj) m (extend_resources now obj ?ss m)"
    by (auto simp: extends_only_def F(3))
  moreover have "\<exists>i. kind_at m i = Some kind \<and> resource_at m i (ObjectID_String obj) \<noteq> None"
    using F(3) Cons by (metis image_eqI list.set_intros(1))
  moreover have "request_resource kind ref_type now obj settings g m = Some (settings, g, extend_resources now obj ?ss m)"
    unfolding request_resource_def using Cons by simp
  ultimately show ?thesis by blast
qed

section \<open>The end of resources\<close>

definition expired :: "gotime \<Rightarrow> SubscribedResource \<Rightarrow> bool" where
  "expired now r \<longleftrightarrow> sr_SubscribedUntil r < now \<and> sr_SubscribedAt r \<noteq> 0"

lemma fold_delete_resources:
  "fold (\<lambda>(key, value) s. if \<not> sr_SubscribedUntil value < now \<or> IsZero (sr_SubscribedAt value) then s
           else Subscription_DeleteResource key s) xs s =
   s\<lparr>sub_resourcesByObjectID :=
       fold (\<lambda>(k, r) m. if expired now r then mdel k m else m) xs (sub_resourcesByObjectID s)\<rparr>"
  by (induction xs arbitrary: s) (auto simp: Subscription_DeleteResource_def expired_def)

lemma length_fold_mdel:
  "length (fold (\<lambda>(k, r) m. if P r then mdel k m else m) xs m) \<le> length m"
proof (induction xs arbitrary: m)
  case (Cons x xs)
  then show ?case by (cases x) (auto intro: le_trans length_delete_le)
qed simp

lemma terminate_resources_fields:
  assumes "mwf (sub_resourcesByObjectID s)"
  shows "sub_id (terminate_resources now s) = sub_id s" "sub_kind (terminate_resources now s) = sub_kind s"
    "mget (sub_resourcesByObjectID (terminate_resources now s)) key =
      (case mget (sub_resourcesByObjectID s) key of
         Some r \<Rightarrow> if expired now r then None else Some r | None \<Rightarrow> None)"
    "mwf (sub_resourcesByObjectID (terminate_resources now s))"
    "Subscription_ResourcesLen (terminate_resources now s) \<le> Subscription_ResourcesLen s"
proof -
  have "terminate_resources now s = s\<lparr>sub_resourcesByObjectID :=
      fold (\<lambda>(k, r) m. if expired now r then mdel k m else m) (sub_resourcesByObjectID s) (sub_resourcesByObjectID s)\<rparr>"
    unfolding terminate_resources_def Subscription_ResourcesByObjectIDCopy_def fold_copy_id [OF assms]
      fold_delete_resources ..
  with assms show "sub_id (terminate_resources now s) = sub_id s" "sub_kind (terminate_resources now s) = sub_kind s"
    "mget (sub_resourcesByObjectID (terminate_resources now s)) key =
      (case mget (sub_resourcesByObjectID s) key of
         Some r \<Rightarrow> if expired now r then None else Some r | None \<Rightarrow> None)"
    "mwf (sub_resourcesByObjectID (terminate_resources now s))"
    "Subscription_ResourcesLen (terminate_resources now s) \<le> Subscription_ResourcesLen s"
    by (simp_all add: mget_cancel mwf_fold_cancel Subscription_ResourcesLen_def length_fold_mdel)
qed

definition terminated :: "gotime \<Rightarrow> Subscription \<Rightarrow> Subscription option" where
  "terminated now s =
     (let s1 = terminate_resources now s in if sub_resourcesByObjectID s1 = [] then None else Some s1)"

lemma terminate_subscription_at:
  assumes "mget m (sub_id s) = Some s" and "mwf (sub_resourcesByObjectID s)"
  shows "mget (terminate_subscription now s m) i = (if i = sub_id s then terminated now s else mget m i)"
  using assms terminate_resources_fields(1) [OF assms(2), of now]
  by (simp add: terminate_subscription_def terminated_def Let_def MemorySubscriptions_Delete_def
      Subscription_ResourcesLen_def gomap_simps)

lemma terminate_fold_at:
  assumes "distinct (map sub_id ss)"
    and "\<And>s. s \<in> set ss \<Longrightarrow> mget m (sub_id s) = Some s \<and> mwf (sub_resourcesByObjectID s)"
  shows "mget (fold (terminate_subscription now) ss m) i =
    (if i \<in> sub_id ` set ss then Option.bind (mget m i) (terminated now) else mget m i)"
  using assms
proof (induction ss arbitrary: m)
  case (Cons s ss)
  define m1 where "m1 = terminate_subscription now s m"
  have s: "mget m (sub_id s) = Some s" "mwf (sub_resourcesByObjectID s)" using Cons.prems(2) by simp_all
  have at: "mget m1 j = (if j = sub_id s then terminated now s else mget m j)" for j
    unfolding m1_def by (rule terminate_subscription_at [OF s])
  have notin: "sub_id s \<notin> sub_id ` set ss" and dist: "distinct (map sub_id ss)" using Cons.prems(1) by simp_all
  have "mget m1 (sub_id t) = Some t \<and> mwf (sub_resourcesByObjectID t)" if "t \<in> set ss" for t
  proof -
    have "sub_id t \<noteq> sub_id s" using that notin by (metis image_eqI)
    with Cons.prems(2) [of t] that show ?thesis by (simp add: at)
  qed
  from Cons.IH [OF dist this] have "mget (fold (terminate_subscription now) ss m1) i =
    (if i \<in> sub_id ` set ss then Option.bind (mget m1 i) (terminated now) else mget m1 i)" .
  then show ?case using notin s(1) by (auto simp: at m1_def [symmetric])
qed simp

lemma mwf_terminate: "mwf m \<Longrightarrow> mwf (fold (terminate_subscription now) ss m)"
proof (induction ss arbitrary: m)
  case (Cons s ss)
  have "mwf (terminate_subscription now s m)"
    using Cons.prems by (simp add: terminate_subscription_def Let_def MemorySubscriptions_Delete_def
        on_subscription_def split: option.split)
  with Cons show ?case by simp
qed simp

lemma terminate_at:
  assumes "collect_inv m"
  shows "mget (checkSubscriptionsTerminatedTime now m) i = Option.bind (mget m i) (terminated now)"
proof -
  have inv: "subs_inv m" using assms by (simp add: collect_inv_def)
  then have k: "map sub_id (mvals m) = mkeys m" "distinct (mkeys m)"
    by (auto simp: subs_inv_def mwf_def simp del: map_map intro: keyed_map)
  have stored: "mget m (sub_id s) = Some s \<and> mwf (sub_resourcesByObjectID s)" if "s \<in> set (mvals m)" for s
    using that subs_in_vals [OF inv] subs_inv_mget [OF inv] by blast
  have all: "MemorySubscriptions_FindAll m = mvals m" by (simp add: MemorySubscriptions_FindAll_def)
  have ids: "sub_id ` set (mvals m) = set (mkeys m)" using k(1) by (metis list.set_map)
  have "mget (fold (terminate_subscription now) (mvals m) m) i =
      (if i \<in> sub_id ` set (mvals m) then Option.bind (mget m i) (terminated now) else mget m i)"
    by (rule terminate_fold_at) (use k stored in \<open>simp_all only:\<close>)
  moreover have "i \<notin> set (mkeys m) \<Longrightarrow> mget m i = None" by (simp add: map_of_eq_None_iff)
  ultimately show ?thesis
    unfolding checkSubscriptionsTerminatedTime_def all ids by (metis bind.bind_lunit bind_eq_None_conv)
qed

lemma terminate_inv:
  assumes "collect_inv m"
  shows "collect_inv (checkSubscriptionsTerminatedTime now m)"
    and "resource_at (checkSubscriptionsTerminatedTime now m) i key =
      (case resource_at m i key of Some r \<Rightarrow> if expired now r then None else Some r | None \<Rightarrow> None)"
    and "kind_at (checkSubscriptionsTerminatedTime now m) i = Some kind \<Longrightarrow> kind_at m i = Some kind"
    and "resource_at (checkSubscriptionsTerminatedTime now m) i key \<noteq> None \<Longrightarrow>
      kind_at (checkSubscriptionsTerminatedTime now m) i = kind_at m i"
    and "len_at (checkSubscriptionsTerminatedTime now m) i = Some n \<Longrightarrow> \<exists>n0 \<ge> n. len_at m i = Some n0"
proof -
  let ?m = "checkSubscriptionsTerminatedTime now m"
  have inv: "subs_inv m" and refs: "refs_ok m" using assms by (simp_all add: collect_inv_def)
  have at: "mget ?m i = Option.bind (mget m i) (terminated now)" for i by (rule terminate_at [OF assms])
  have res: "resource_at ?m i key =
      (case resource_at m i key of Some r \<Rightarrow> if expired now r then None else Some r | None \<Rightarrow> None)" for i key
  proof (cases "mget m i")
    case (Some s)
    with inv have "mwf (sub_resourcesByObjectID s)" by (auto dest: subs_inv_mget)
    from terminate_resources_fields(3) [OF this, of now key] Some show ?thesis
      by (auto simp: resource_at_def at terminated_def Let_def split: option.splits if_splits)
  qed (simp add: resource_at_def at)
  have "subs_inv ?m"
    unfolding subs_inv_def
  proof (intro conjI)
    show "mwf ?m" using inv unfolding checkSubscriptionsTerminatedTime_def subs_inv_def by (simp add: mwf_terminate)
    then have get: "(i, s) \<in> set ?m \<Longrightarrow> \<exists>s0. mget m i = Some s0 \<and> s = terminate_resources now s0" for i s
      using at [of i] by (auto simp: mwf_in_set terminated_def Let_def bind_Some_iff split: if_splits)
    show "keyed sub_id ?m" unfolding keyed_def
      using get inv terminate_resources_fields(1) by (fastforce dest: subs_inv_mget)
    show "vals_ok (\<lambda>s. mwf (sub_resourcesByObjectID s)) ?m" unfolding vals_ok_def list_all_iff
      using get inv terminate_resources_fields(4) by (fastforce dest: subs_inv_mget)
  qed
  moreover have "refs_ok ?m"
    using refs unfolding refs_ok_def by (auto simp: res split: option.splits if_splits)
  ultimately show "collect_inv ?m" by (simp add: collect_inv_def)
  show "resource_at ?m i key =
      (case resource_at m i key of Some r \<Rightarrow> if expired now r then None else Some r | None \<Rightarrow> None)" by (rule res)
  have s: "mget ?m i = Some s1 \<Longrightarrow> \<exists>s. mget m i = Some s \<and> mwf (sub_resourcesByObjectID s) \<and>
      s1 = terminate_resources now s" for s1
    using inv at [of i] by (auto simp: terminated_def Let_def bind_Some_iff split: if_splits dest: subs_inv_mget)
  show "kind_at ?m i = Some kind \<Longrightarrow> kind_at m i = Some kind"
    using s terminate_resources_fields(2) by (fastforce simp: kind_at_def)
  then show "resource_at ?m i key \<noteq> None \<Longrightarrow> kind_at ?m i = kind_at m i"
    using s terminate_resources_fields(2) by (fastforce simp: kind_at_def resource_at_def split: option.splits)
  show "len_at ?m i = Some n \<Longrightarrow> \<exists>n0 \<ge> n. len_at m i = Some n0"
    using s terminate_resources_fields(5) by (fastforce simp: len_at_def)
qed

section \<open>The life of a resource\<close>

text \<open>What happens to the subscriptions of a partner that is collected from. The identifiers handed out are
  \<open>fresh\<close> when the next subscription does not take the place of another.\<close>

type_synonym collect_state = "PartnerSettings \<times> uuid_gen \<times> MemorySubscriptions"

inductive collect_step :: "collect_state \<Rightarrow> collect_state \<Rightarrow> bool" where
  stop_area_request:
    "StopMonitoring_RequestStopAreaUpdate now stopAreaId model settings g m = Some s' \<Longrightarrow>
     collect_step (settings, g, m) s'"
| situation_request:
    "GeneralMessage_RequestSituationUpdate now kind obj settings g m = Some s' \<Longrightarrow>
     collect_step (settings, g, m) s'"
| stop_monitoring_visit:
    "prepareSIRIStopMonitoringSubscriptionRequest soap now settings g m = Some s' \<Longrightarrow>
     collect_step (settings, g, m) s'"
| general_message_visit:
    "prepareSIRIGeneralMessageSubscriptionRequest soap now settings g m = Some s' \<Longrightarrow>
     collect_step (settings, g, m) s'"
| guardian_visit:
    "collect_step (settings, g, m) (settings, g, checkSubscriptionsTerminatedTime now m)"

definition fresh_state :: "collect_state \<Rightarrow> bool" where
  "fresh_state s = (case s of (settings, g, m) \<Rightarrow> mget m (new_subscription_id settings g) = None)"

definition fresh_step :: "collect_state \<Rightarrow> collect_state \<Rightarrow> bool" where
  "fresh_step s s' \<longleftrightarrow> fresh_state s \<and> collect_step s s'"

text \<open>The three things a step can do.\<close>

lemma collect_step_cases:
  assumes "collect_step (settings, g, m) (settings', g', m')" and "collect_inv m"
  shows "ps_s settings' = ps_s settings \<and> collect_inv m' \<and>
    ((\<exists>requests. only_asked requests m m' \<and>
       (\<forall>i key. asked requests i key \<longrightarrow> (\<exists>r. resource_at m i key = Some r \<and> waiting r))) \<or>
     (\<exists>kind now k. extends_only kind now k m m') \<or>
     (\<exists>kind k s r. (\<nexists>i. kind_at m i = Some kind \<and> resource_at m i k \<noteq> None) \<and>
        adds_resource kind settings g k r m s m') \<or>
     (\<exists>now. m' = checkSubscriptionsTerminatedTime now m))"
proof -
  have visit: "ps_s settings' = ps_s settings \<and> (\<exists>requests. only_asked requests m m' \<and>
       (\<forall>i key. asked requests i key \<longrightarrow> (\<exists>r. resource_at m i key = Some r \<and> waiting r)))"
    if "visit_subscriptions entry kind soap now settings g m = Some (settings', g', m')" for entry kind soap now
    using visit_effect [OF assms(2), of entry kind soap now settings g] that by (elim exE conjE) auto
  have request: "ps_s settings' = ps_s settings \<and> collect_inv m' \<and>
     ((\<exists>kind now k. extends_only kind now k m m') \<or>
     (\<exists>kind k s r. (\<nexists>i. kind_at m i = Some kind \<and> resource_at m i k \<noteq> None) \<and>
        adds_resource kind settings g k r m s m'))"
    if "request_resource kind ref_type now obj settings g m = Some (settings', g', m')" for kind ref_type now obj
    using request_effect [OF assms(2), of kind ref_type now obj settings g] that by (elim exE conjE) (simp, blast)
  from assms(1) show ?thesis
  proof (cases rule: collect_step.cases)
    case (stop_area_request now stopAreaId model)
    then consider "settings' = settings" "m' = m" | obj where
      "request_resource StopMonitoringCollect ''StopArea'' now obj settings g m = Some (settings', g', m')"
      by (auto simp: StopMonitoring_RequestStopAreaUpdate_def split: option.splits)
    then show ?thesis
    proof cases
      case 1
      with assms(2) show ?thesis using only_asked_refl [OF assms(2), of "[]"] by (auto simp: asked_def)
    next
      case 2
      from request [OF this] show ?thesis by blast
    qed
  next
    case (situation_request now kind obj)
    then show ?thesis using request unfolding GeneralMessage_RequestSituationUpdate_def by blast
  next
    case (stop_monitoring_visit soap now)
    from visit [OF this [unfolded prepareSIRIStopMonitoringSubscriptionRequest_def]] show ?thesis
      by (auto simp: only_asked_def)
  next
    case (general_message_visit soap now)
    from visit [OF this [unfolded prepareSIRIGeneralMessageSubscriptionRequest_def]] show ?thesis
      by (auto simp: only_asked_def)
  next
    case (guardian_visit now)
    then show ?thesis using terminate_inv(1) [OF assms(2)] by auto
  qed
qed

text \<open>A resource refused more than ten times and never accepted.\<close>

definition given_up_at :: "MemorySubscriptions \<Rightarrow> SubscriptionId \<Rightarrow> string \<Rightarrow> SubscribedResource \<Rightarrow> bool" where
  "given_up_at m i key r \<longleftrightarrow> resource_at m i key = Some r \<and> sr_SubscribedAt r = 0 \<and> 10 < sr_RetryCount r"

lemma given_up_step:
  assumes "collect_inv m" and "given_up_at m i key r" and "fresh_step (settings, g, m) (settings', g', m')"
  shows "collect_inv m' \<and> given_up_at m' i key r"
proof -
  have r: "resource_at m i key = Some r" "sr_SubscribedAt r = 0" "10 < sr_RetryCount r"
    using assms(2) by (simp_all add: given_up_at_def)
  have step: "collect_step (settings, g, m) (settings', g', m')" and
    fresh: "mget m (new_subscription_id settings g) = None"
    using assms(3) by (simp_all add: fresh_step_def fresh_state_def)
  note c = collect_step_cases [OF step assms(1)]
  then have inv: "collect_inv m'" by blast
  from c consider requests where "only_asked requests m m'"
      "\<forall>i key. asked requests i key \<longrightarrow> (\<exists>r. resource_at m i key = Some r \<and> waiting r)"
    | kind now k where "extends_only kind now k m m'"
    | kind k s r1 where "\<nexists>i. kind_at m i = Some kind \<and> resource_at m i k \<noteq> None"
        "adds_resource kind settings g k r1 m s m'"
    | now where "m' = checkSubscriptionsTerminatedTime now m" by blast
  then have "resource_at m' i key = Some r"
  proof cases
    case 1
    then have "asked requests i key \<Longrightarrow> \<exists>r'. resource_at m i key = Some r' \<and> waiting r'" by blast
    then have "\<not> asked requests i key" using r by (auto simp: waiting_def)
    with 1 r show ?thesis by (simp add: only_asked_def)
  next
    case 2
    then show ?thesis using r by (auto simp: extends_only_def extended_def)
  next
    case 3
    obtain t where t: "mget m i = Some t" "mget (sub_resourcesByObjectID t) key = Some r"
      using r(1) by (auto simp: resource_at_def split: option.splits)
    show ?thesis
    proof (cases "i = sub_id s")
      case True
      with 3(2) fresh t have s: "s = t" by (auto simp: adds_resource_def)
      with 3 t r True have "key \<noteq> k" by (auto simp: kind_at_def adds_resource_def)
      with 3(2) s t True show ?thesis by (simp add: adds_resource_def resource_at_def gomap_simps)
    next
      case False
      with 3(2) t show ?thesis by (simp add: adds_resource_def resource_at_def gomap_simps)
    qed
  next
    case 4
    then show ?thesis using terminate_inv(2) [OF assms(1), of now i key] r by (simp add: expired_def)
  qed
  with inv r show ?thesis by (simp add: given_up_at_def)
qed

text \<open>C30. A resource the partner has refused more than ten times is stuck: no request for it, no visit of a
  subscriber and no visit of the guardian ever changes it again, and the subscribers do not ask for it. The
  stop area or line is not collected by subscription any more until the subscriptions are cancelled.\<close>

theorem given_up_forever:
  assumes "collect_inv m" and "given_up_at m i key r" and "fresh_step\<^sup>*\<^sup>* (settings, g, m) (settings', g', m')"
    and "resources_to_request kind settings' g' m' = Some (requests, settings1, g1)"
  shows "resource_at m' i key = Some r \<and> \<not> asked requests i key"
proof -
  have "collect_inv (snd (snd s')) \<and> given_up_at (snd (snd s')) i key r"
    if "fresh_step\<^sup>*\<^sup>* s s'" "collect_inv (snd (snd s))" "given_up_at (snd (snd s)) i key r" for s s'
    using that
  proof (induction rule: rtranclp_induct)
    case (step y z)
    obtain sy gy my sz gz mz where eq: "y = (sy, gy, my)" "z = (sz, gz, mz)" using prod_cases3 by metis
    from step have "collect_inv my" "given_up_at my i key r" "fresh_step (sy, gy, my) (sz, gz, mz)"
      by (simp_all add: eq)
    from given_up_step [OF this] show ?case by (simp add: eq)
  qed simp
  from this [OF assms(3)] assms(1,2) have inv: "collect_inv m'" and up: "given_up_at m' i key r" by simp_all
  from resources_to_request_ok [OF inv, of kind settings' g'] assms(4)
  have "asked requests i key \<Longrightarrow> \<exists>r. resource_at m' i key = Some r \<and> waiting r"
    unfolding requests_ok_def asked_def vals_ok_vals by fastforce
  with up show ?thesis by (auto simp: given_up_at_def waiting_def)
qed

text \<open>The number of resources of the subscriptions of a kind.\<close>

definition bounded :: "string \<Rightarrow> PartnerSettings \<Rightarrow> MemorySubscriptions \<Rightarrow> bool" where
  "bounded kind settings m \<longleftrightarrow>
     (\<forall>i n. kind_at m i = Some kind \<longrightarrow> len_at m i = Some n \<longrightarrow> int n \<le> max_resources settings)"

lemma len_put:
  "Subscription_ResourcesLen (s\<lparr>sub_resourcesByObjectID := mput k r (sub_resourcesByObjectID s)\<rparr>)
     \<le> Suc (Subscription_ResourcesLen s)"
  by (simp add: Subscription_ResourcesLen_def length_mput)

lemma bounded_step:
  assumes "collect_inv m" and "1 \<le> max_resources settings" and "bounded kind settings m"
    and "collect_step (settings, g, m) (settings', g', m')"
  shows "bounded kind settings m'"
proof -
  from collect_step_cases [OF assms(4,1)] consider requests where "only_asked requests m m'"
    | kind now k where "extends_only kind now k m m'"
    | kind1 k s r where "adds_resource kind1 settings g k r m s m'"
    | now where "m' = checkSubscriptionsTerminatedTime now m" by blast
  then show ?thesis
  proof cases
    case 1
    with assms(3) show ?thesis by (simp add: bounded_def only_asked_def)
  next
    case 2
    with assms(3) show ?thesis by (simp add: bounded_def extends_only_def)
  next
    case 3
    let ?s = "s\<lparr>sub_resourcesByObjectID := mput k r (sub_resourcesByObjectID s)\<rparr>"
    have m': "m' = mput (sub_id s) ?s m" and "has_room settings s" using 3 by (simp_all add: adds_resource_def)
    then have "int (Subscription_ResourcesLen ?s) \<le> max_resources settings"
      using assms(2) len_put [of k r s] by (simp add: has_room_def)
    with assms(3) show ?thesis by (auto simp: bounded_def m' kind_at_def len_at_def gomap_simps)
  next
    case 4
    with assms(3) terminate_inv(3,5) [OF assms(1), of now] show ?thesis unfolding bounded_def
      by (metis dual_order.trans of_nat_le_iff)
  qed
qed

lemma max_resources_settings: "ps_s settings' = ps_s settings \<Longrightarrow> max_resources settings' = max_resources settings"
  by (simp add: max_resources_def PartnerSettings_Setting_def)

text \<open>C31. When a partner limits the resources of a subscription, collecting from it keeps the limit for every
  subscription of the kind, in every order of requests, answers and terminations.\<close>

theorem resources_bounded:
  assumes "collect_inv m" and "1 \<le> max_resources settings" and "bounded kind settings m"
    and "collect_step\<^sup>*\<^sup>* (settings, g, m) (settings', g', m')"
  shows "max_resources settings' = max_resources settings \<and>
    (MemorySubscriptions_Find m' i = Some s \<and> sub_kind s = kind \<longrightarrow>
       int (Subscription_ResourcesLen s) \<le> max_resources settings)"
proof -
  have "max_resources (fst z') = max_resources settings \<and> collect_inv (snd (snd z')) \<and>
      bounded kind settings (snd (snd z'))" if "collect_step\<^sup>*\<^sup>* (settings, g, m) z'" for z'
    using that
  proof (induction rule: rtranclp_induct)
    case base
    show ?case using assms by simp
  next
    case (step y z)
    obtain sy gy my sz gz mz where eq: "y = (sy, gy, my)" "z = (sz, gz, mz)" using prod_cases3 by metis
    from step have y: "collect_inv my" "max_resources sy = max_resources settings" "bounded kind sy my"
      "collect_step (sy, gy, my) (sz, gz, mz)" by (simp_all add: eq bounded_def)
    from collect_step_cases [OF y(4,1)] have "ps_s sz = ps_s sy" "collect_inv mz" by blast+
    moreover from bounded_step [OF y(1) _ y(3,4)] y(2) assms(2) have "bounded kind sy mz" by simp
    ultimately show ?case using y(2) max_resources_settings [of sz sy] by (simp add: eq bounded_def)
  qed
  from this [OF assms(4)] have "max_resources settings' = max_resources settings" and b: "bounded kind settings m'"
    by simp_all
  moreover have "int (Subscription_ResourcesLen s) \<le> max_resources settings"
    if "MemorySubscriptions_Find m' i = Some s" "sub_kind s = kind"
  proof -
    have "kind_at m' i = Some kind" "len_at m' i = Some (Subscription_ResourcesLen s)"
      using that by (simp_all add: kind_at_def len_at_def MemorySubscriptions_Find_def)
    with b show ?thesis by (simp add: bounded_def)
  qed
  ultimately show ?thesis by blast
qed

definition limit_settings :: PartnerSettings where
  "limit_settings = \<lparr>ps_s = [(SUBSCRIPTIONS_MAXIMUM_RESOURCES, ''2'')], ps_cs = None, ps_g = []\<rparr>"

definition collect_gen :: uuid_gen where
  "collect_gen = \<lparr>ug_uuid = (\<lambda>n. replicate (Suc n) (CHR ''u'')), ug_next = 0\<rparr>"

definition stuck_resource :: SubscribedResource where
  "stuck_resource = (NewResource (NewReference (NewObjectID ''k'' ''v'')))\<lparr>sr_RetryCount := 11\<rparr>"

definition stuck_subscriptions :: MemorySubscriptions where
  "stuck_subscriptions = [(''s'', (example_subscription ''s'' '''')\<lparr>sub_resourcesByObjectID := [(''k:v'', stuck_resource)]\<rparr>)]"

lemma stuck_inv: "collect_inv stuck_subscriptions"
  by (simp add: collect_inv_def subs_inv_def refs_ok_def resource_at_def stuck_subscriptions_def example_subscription_def
      mwf_def stuck_resource_def NewResource_def NewReference_def NewObjectID_def ObjectID_String_def split: option.split)

lemma stuck_given_up: "given_up_at stuck_subscriptions ''s'' ''k:v'' stuck_resource"
  by (simp add: given_up_at_def resource_at_def stuck_subscriptions_def stuck_resource_def NewResource_def)

lemma example_step:
  "collect_step (limit_settings, collect_gen, stuck_subscriptions)
     (the (GeneralMessage_RequestAllSituationsUpdate 5 limit_settings collect_gen stuck_subscriptions))"
proof -
  obtain s' where "GeneralMessage_RequestAllSituationsUpdate 5 limit_settings collect_gen stuck_subscriptions = Some s'"
    using request_effect [OF stuck_inv]
    unfolding GeneralMessage_RequestAllSituationsUpdate_def GeneralMessage_RequestSituationUpdate_def by blast
  then show ?thesis
    by (auto simp: GeneralMessage_RequestAllSituationsUpdate_def intro: situation_request)
qed

lemma new_id_example: "new_subscription_id limit_settings collect_gen = ''u''"
  by (code_simp)

definition example_state :: collect_state where
  "example_state = the (GeneralMessage_RequestAllSituationsUpdate 5 limit_settings collect_gen stuck_subscriptions)"

lemma example_state_parts:
  obtains st g m where "example_state = (st, g, m)" and "collect_step (limit_settings, collect_gen, stuck_subscriptions) (st, g, m)"
    and "collect_inv m"
proof -
  obtain st g m where e: "example_state = (st, g, m)" using prod_cases3 by blast
  with example_step have s: "collect_step (limit_settings, collect_gen, stuck_subscriptions) (st, g, m)"
    by (simp add: example_state_def)
  from collect_step_cases [OF s stuck_inv] have "collect_inv m" by blast
  with e s show thesis by (rule that)
qed

theorem given_up_forever_witness:
  "resource_at (snd (snd example_state)) ''s'' ''k:v'' = Some stuck_resource"
proof (rule example_state_parts)
  fix st g m
  assume e: "example_state = (st, g, m)" and s: "collect_step (limit_settings, collect_gen, stuck_subscriptions) (st, g, m)"
    and inv: "collect_inv m"
  have "fresh_state (limit_settings, collect_gen, stuck_subscriptions)"
    by (simp add: fresh_state_def new_id_example stuck_subscriptions_def)
  with s have steps: "fresh_step\<^sup>*\<^sup>* (limit_settings, collect_gen, stuck_subscriptions) (st, g, m)"
    by (simp add: fresh_step_def r_into_rtranclp)
  obtain requests st1 g1 where "resources_to_request StopMonitoringCollect st g m = Some (requests, st1, g1)"
    using resources_to_request_ok [OF inv, of StopMonitoringCollect st g] by (auto simp: requests_ok_def split: option.splits)
  from given_up_forever [OF stuck_inv stuck_given_up steps this] show ?thesis unfolding e by simp
qed

theorem resources_bounded_witness:
  "max_resources (fst example_state) = 2 \<and>
   (\<exists>s. MemorySubscriptions_Find (snd (snd example_state)) ''u'' = Some s \<and> int (Subscription_ResourcesLen s) \<le> 2)"
proof (rule example_state_parts)
  fix st g m
  assume e: "example_state = (st, g, m)" and s: "collect_step (limit_settings, collect_gen, stuck_subscriptions) (st, g, m)"
    and inv: "collect_inv m"
  have max: "max_resources limit_settings = 2" by code_simp
  have b: "bounded GeneralMessageCollect limit_settings stuck_subscriptions"
    by (simp add: bounded_def kind_at_def stuck_subscriptions_def example_subscription_def GeneralMessageCollect_def)
  have "map_option sub_kind (MemorySubscriptions_Find (snd (snd example_state)) ''u'') = Some GeneralMessageCollect"
    by code_simp
  then obtain t where t: "MemorySubscriptions_Find m ''u'' = Some t" "sub_kind t = GeneralMessageCollect" by (auto simp: e)
  have steps: "collect_step\<^sup>*\<^sup>* (limit_settings, collect_gen, stuck_subscriptions) (st, g, m)"
    using s by (rule r_into_rtranclp)
  have one: "1 \<le> max_resources limit_settings" by (simp add: max)
  from resources_bounded [OF stuck_inv one b steps, of "''u''" t] t show ?thesis unfolding e by (simp add: max)
qed

end
