(* ===== verification/Credentials.thy ===== *)
theory Credentials
  imports GoStrings
begin

text \<open>
  The index from local credentials to partners (\<^verbatim>\<open>core/local_credentials_index.go\<close>), by which the
  requests of partners are told apart: the state of the code, and its refinement of the map from partners
  to the credentials they were last indexed with.
\<close>

type_synonym PartnerId = string

record LocalCredentialsIndex =
  lci_byCredentials :: "(string, PartnerId) gomap"
  lci_byIdentifier :: "(PartnerId, string list) gomap"

definition NewLocalCredentialsIndex :: LocalCredentialsIndex where
  "NewLocalCredentialsIndex = \<lparr>lci_byCredentials = [], lci_byIdentifier = []\<rparr>"

definition splitCredentials :: "string \<Rightarrow> string list" where
  "splitCredentials c =
     (if c = '''' then ['''']
      else filter (\<lambda>s. s \<noteq> '''') (map TrimSpace (split_at (CHR '','') c)))"

definition difference :: "string list \<Rightarrow> string list \<Rightarrow> string list" where
  "difference a b = filter (\<lambda>x. x \<notin> set b) a"

definition LocalCredentialsIndex_Index ::
  "PartnerId \<Rightarrow> string \<Rightarrow> LocalCredentialsIndex \<Rightarrow> LocalCredentialsIndex" where
  "LocalCredentialsIndex_Index modelId localCredentials index =
     (let split = splitCredentials localCredentials;
          currentCredentials = mget_or [] (lci_byIdentifier index) modelId;
          obsoleteCredentials = difference currentCredentials split;
          byCredentials = fold mdel obsoleteCredentials (lci_byCredentials index)
      in \<lparr>lci_byCredentials = fold (\<lambda>c. mput c modelId) split byCredentials,
          lci_byIdentifier = mput modelId split (lci_byIdentifier index)\<rparr>)"

definition LocalCredentialsIndex_Find :: "LocalCredentialsIndex \<Rightarrow> string \<Rightarrow> PartnerId option" where
  "LocalCredentialsIndex_Find index c = mget (lci_byCredentials index) c"

definition LocalCredentialsIndex_Delete :: "PartnerId \<Rightarrow> LocalCredentialsIndex \<Rightarrow> LocalCredentialsIndex" where
  "LocalCredentialsIndex_Delete modelId index =
     (case mget (lci_byIdentifier index) modelId of
        None \<Rightarrow> index
      | Some currentCredentials \<Rightarrow>
          \<lparr>lci_byCredentials = fold mdel currentCredentials (lci_byCredentials index),
           lci_byIdentifier = mdel modelId (lci_byIdentifier index)\<rparr>)"

definition LocalCredentialsIndex_UniqCredentials ::
  "PartnerId \<Rightarrow> string \<Rightarrow> LocalCredentialsIndex \<Rightarrow> bool" where
  "LocalCredentialsIndex_UniqCredentials modelId localCredentials index \<longleftrightarrow>
     list_all (\<lambda>c. case mget (lci_byCredentials index) c of None \<Rightarrow> True | Some x \<Rightarrow> x = modelId)
       (splitCredentials localCredentials)"

section \<open>The credentials of a partner\<close>

lemma splitCredentials_empty [simp]: "splitCredentials '''' = ['''']"
  by (simp add: splitCredentials_def)

lemma in_splitCredentials:
  "c \<in> set (splitCredentials s) \<longleftrightarrow>
     (if s = '''' then c = '''' else c \<noteq> '''' \<and> (\<exists>w \<in> set (split_at (CHR '','') s). c = TrimSpace w))"
  by (auto simp: splitCredentials_def)

text \<open>The empty credential is that of the empty setting alone.\<close>

lemma empty_credential: "'''' \<in> set (splitCredentials s) \<longleftrightarrow> s = ''''"
  by (simp add: in_splitCredentials)

lemma splitCredentials_single:
  "s \<noteq> '''' \<Longrightarrow> CHR '','' \<notin> set s \<Longrightarrow> \<not> is_space (hd s) \<Longrightarrow> \<not> is_space (last s) \<Longrightarrow>
     splitCredentials s = [s]"
  by (simp add: splitCredentials_def split_at_single TrimSpace_id)

lemma set_difference [simp]: "set (difference a b) = set a - set b"
  by (auto simp: difference_def)

section \<open>The index as a map\<close>

lemma mget_fold_put_const:
  "mget (fold (\<lambda>c. mput c v) cs m) k = (if k \<in> set cs then Some v else mget m k)"
  by (induction cs arbitrary: m) (auto simp: gomap_simps)

definition credentials_of :: "LocalCredentialsIndex \<Rightarrow> PartnerId \<Rightarrow> string set" where
  "credentials_of index p = set (mget_or [] (lci_byIdentifier index) p)"

lemma Find_credentials_Index:
  "LocalCredentialsIndex_Find (LocalCredentialsIndex_Index p s index) c =
     (if c \<in> set (splitCredentials s) then Some p
      else if c \<in> credentials_of index p then None
      else LocalCredentialsIndex_Find index c)"
  by (auto simp: LocalCredentialsIndex_Find_def LocalCredentialsIndex_Index_def Let_def credentials_of_def
      mget_fold_put_const mget_fold_mdel)

lemma credentials_Index:
  "credentials_of (LocalCredentialsIndex_Index p s index) q =
     (if q = p then set (splitCredentials s) else credentials_of index q)"
  by (simp add: credentials_of_def LocalCredentialsIndex_Index_def Let_def mget_or_def gomap_simps)

lemma Find_credentials_Delete:
  "LocalCredentialsIndex_Find (LocalCredentialsIndex_Delete p index) c =
     (if c \<in> credentials_of index p then None else LocalCredentialsIndex_Find index c)"
  by (simp add: LocalCredentialsIndex_Find_def LocalCredentialsIndex_Delete_def credentials_of_def
      mget_or_def mget_fold_mdel split: option.split)

lemma credentials_Delete:
  "credentials_of (LocalCredentialsIndex_Delete p index) q =
     (if q = p then {} else credentials_of index q)"
  by (auto simp: credentials_of_def LocalCredentialsIndex_Delete_def mget_or_def gomap_simps
      split: option.split)

lemma UniqCredentials_iff:
  "LocalCredentialsIndex_UniqCredentials p s index \<longleftrightarrow>
     (\<forall>c \<in> set (splitCredentials s). LocalCredentialsIndex_Find index c \<in> {None, Some p})"
  unfolding LocalCredentialsIndex_UniqCredentials_def LocalCredentialsIndex_Find_def list_all_iff
  by (intro ball_cong refl) (simp split: option.split)

section \<open>Histories\<close>

datatype credentials_op = IndexCredentials PartnerId string | DeleteCredentials PartnerId

fun credentials_step :: "credentials_op \<Rightarrow> LocalCredentialsIndex \<Rightarrow> LocalCredentialsIndex" where
  "credentials_step (IndexCredentials p s) index = LocalCredentialsIndex_Index p s index"
| "credentials_step (DeleteCredentials p) index = LocalCredentialsIndex_Delete p index"

text \<open>What the index stands for: the setting each partner was last indexed with.\<close>

fun credentials_spec :: "credentials_op \<Rightarrow> (PartnerId \<Rightarrow> string option) \<Rightarrow> PartnerId \<Rightarrow> string option" where
  "credentials_spec (IndexCredentials p s) m = m(p \<mapsto> s)"
| "credentials_spec (DeleteCredentials p) m = m(p := None)"

definition holds_credential :: "(PartnerId \<Rightarrow> string option) \<Rightarrow> PartnerId \<Rightarrow> string \<Rightarrow> bool" where
  "holds_credential m p c \<longleftrightarrow> (\<exists>s. m p = Some s \<and> c \<in> set (splitCredentials s))"

text \<open>A history in which the credentials are tested before they are indexed.\<close>

fun tested :: "credentials_op list \<Rightarrow> LocalCredentialsIndex \<Rightarrow> bool" where
  "tested [] index = True"
| "tested (DeleteCredentials p # ops) index = tested ops (LocalCredentialsIndex_Delete p index)"
| "tested (IndexCredentials p s # ops) index =
     (LocalCredentialsIndex_UniqCredentials p s index \<and> tested ops (LocalCredentialsIndex_Index p s index))"

definition credentials_abs :: "LocalCredentialsIndex \<Rightarrow> (PartnerId \<Rightarrow> string option) \<Rightarrow> bool" where
  "credentials_abs index m \<longleftrightarrow> (\<forall>p. credentials_of index p = {c. holds_credential m p c})"

definition credentials_sound :: "LocalCredentialsIndex \<Rightarrow> bool" where
  "credentials_sound index \<longleftrightarrow>
     (\<forall>c p. LocalCredentialsIndex_Find index c = Some p \<longrightarrow> c \<in> credentials_of index p)"

definition credentials_complete :: "LocalCredentialsIndex \<Rightarrow> bool" where
  "credentials_complete index \<longleftrightarrow>
     (\<forall>c p. c \<in> credentials_of index p \<longrightarrow> LocalCredentialsIndex_Find index c = Some p)"

lemma credentials_abs_step:
  "credentials_abs index m \<Longrightarrow> credentials_abs (credentials_step x index) (credentials_spec x m)"
  by (cases x) (auto simp: credentials_abs_def credentials_Index credentials_Delete holds_credential_def)

lemma credentials_sound_step: "credentials_sound index \<Longrightarrow> credentials_sound (credentials_step x index)"
  by (cases x) (auto simp: credentials_sound_def credentials_Index credentials_Delete Find_credentials_Index Find_credentials_Delete
      split: if_splits)

lemma credentials_complete_index:
  assumes "credentials_complete index" and "LocalCredentialsIndex_UniqCredentials p s index"
  shows "credentials_complete (LocalCredentialsIndex_Index p s index)"
  unfolding credentials_complete_def
proof (intro allI impI)
  fix c q
  assume c: "c \<in> credentials_of (LocalCredentialsIndex_Index p s index) q"
  show "LocalCredentialsIndex_Find (LocalCredentialsIndex_Index p s index) c = Some q"
  proof (cases "q = p")
    case True
    with c show ?thesis by (simp add: credentials_Index Find_credentials_Index)
  next
    case False
    with c assms(1) have q: "LocalCredentialsIndex_Find index c = Some q"
      by (simp add: credentials_Index credentials_complete_def)
    with assms(2) False have "c \<notin> set (splitCredentials s)" by (auto simp: UniqCredentials_iff)
    moreover from assms(1) q False have "c \<notin> credentials_of index p"
      by (auto simp: credentials_complete_def)
    ultimately show ?thesis by (simp add: Find_credentials_Index q)
  qed
qed

lemma credentials_complete_delete:
  "credentials_complete index \<Longrightarrow> credentials_complete (LocalCredentialsIndex_Delete p index)"
  unfolding credentials_complete_def credentials_Delete Find_credentials_Delete by (metis empty_iff option.inject)

lemma credentials_history:
  "credentials_abs index m \<Longrightarrow> credentials_sound index \<Longrightarrow>
     credentials_abs (fold credentials_step ops index) (fold credentials_spec ops m) \<and>
     credentials_sound (fold credentials_step ops index)"
proof (induction ops arbitrary: index m)
  case (Cons x ops)
  from Cons.IH [OF credentials_abs_step credentials_sound_step, OF Cons.prems] show ?case by simp
qed simp

lemma tested_complete:
  "credentials_complete index \<Longrightarrow> tested ops index \<Longrightarrow> credentials_complete (fold credentials_step ops index)"
  by (induction ops index rule: tested.induct)
    (simp_all add: credentials_complete_index credentials_complete_delete)

lemma credentials_new:
  "credentials_abs NewLocalCredentialsIndex (\<lambda>_. None)" "credentials_sound NewLocalCredentialsIndex"
  "credentials_complete NewLocalCredentialsIndex"
  by (simp_all add: credentials_abs_def credentials_sound_def credentials_complete_def credentials_of_def
      holds_credential_def LocalCredentialsIndex_Find_def NewLocalCredentialsIndex_def mget_or_def)

text \<open>C22. A credential found in the index belongs to the partner it names, whatever the history; and when
  every indexing was preceded by the test \<^verbatim>\<open>UniqCredentials\<close>, the index finds exactly the holder of every
  credential, so no two partners share one.\<close>

theorem credentials_index:
  fixes ops :: "credentials_op list"
  defines "index \<equiv> fold credentials_step ops NewLocalCredentialsIndex"
    and "last_settings \<equiv> fold credentials_spec ops (\<lambda>_. None)"
  shows "(LocalCredentialsIndex_Find index c = Some p \<longrightarrow> holds_credential last_settings p c) \<and>
    (tested ops NewLocalCredentialsIndex \<longrightarrow>
       (LocalCredentialsIndex_Find index c = Some p \<longleftrightarrow> holds_credential last_settings p c))"
proof -
  have h: "credentials_abs index last_settings" "credentials_sound index"
    using credentials_history [OF credentials_new(1,2), of ops] by (simp_all add: index_def last_settings_def)
  then have iff: "c \<in> credentials_of index p \<longleftrightarrow> holds_credential last_settings p c"
    by (simp add: credentials_abs_def)
  have sound: "LocalCredentialsIndex_Find index c = Some p \<Longrightarrow> c \<in> credentials_of index p"
    using h(2) by (simp add: credentials_sound_def)
  have "credentials_complete index" if "tested ops NewLocalCredentialsIndex"
    using tested_complete [OF credentials_new(3) that] by (simp add: index_def)
  then have "LocalCredentialsIndex_Find index c = Some p"
    if "tested ops NewLocalCredentialsIndex" "c \<in> credentials_of index p"
    using that by (simp add: credentials_complete_def)
  with sound show ?thesis unfolding iff by metis
qed

definition example_credentials :: "credentials_op list" where
  "example_credentials =
     [IndexCredentials ''a'' ''x, y'', IndexCredentials ''b'' ''z'', IndexCredentials ''a'' ''y'']"

theorem credentials_index_witness:
  "LocalCredentialsIndex_Find (fold credentials_step example_credentials NewLocalCredentialsIndex) ''y''
     = Some ''a'' \<and>
   \<not> holds_credential (fold credentials_spec example_credentials (\<lambda>_. None)) ''b'' ''y''"
proof -
  have t: "tested example_credentials NewLocalCredentialsIndex" by code_simp
  have f: "LocalCredentialsIndex_Find (fold credentials_step example_credentials NewLocalCredentialsIndex)
      ''y'' = Some ''a''" by code_simp
  have "''a'' \<noteq> (''b'' :: string)" by simp
  with credentials_index [of example_credentials "''y''" "''b''"] t f show ?thesis by simp
qed

text \<open>Without the test an index forgets: a partner that takes over a credential loses it when the partner
  that had it before gives it up.\<close>

lemma credentials_untested:
  "let ops = [IndexCredentials ''a'' ''x'', IndexCredentials ''b'' ''x'', IndexCredentials ''a'' ''y'']
   in LocalCredentialsIndex_Find (fold credentials_step ops NewLocalCredentialsIndex) ''x'' = None"
  by code_simp

end
