(* ===== verification/Errors.thy ===== *)
theory Errors
  imports GoStrings
begin

text \<open>
  The error tables of the validations (\<^verbatim>\<open>core/errors.go\<close>): attributes to messages, with the
  errors on settings in a table of their own under \<^verbatim>\<open>Settings\<close>. A value that is neither is never
  stored, so it is left out.
\<close>

datatype error_value =
    Messages "string list"
  | Nested "(string \<times> error_value) list"

type_synonym Errors = "(string, error_value) gomap"

definition NewErrors :: Errors where
  "NewErrors = []"

definition Errors_Empty :: "Errors \<Rightarrow> bool" where
  "Errors_Empty errors \<longleftrightarrow> length errors = 0"

definition SETTINGS :: string where
  "SETTINGS = ''Settings''"

definition Errors_Get :: "Errors \<Rightarrow> string \<Rightarrow> string list" where
  "Errors_Get errors attribute =
     (case mget errors attribute of
        None \<Rightarrow> []
      | Some (Messages s) \<Rightarrow> s
      | Some (Nested _) \<Rightarrow> [])"

text \<open>The test writes an empty list for an attribute it does not know.\<close>

definition Errors_added :: "string \<Rightarrow> string \<Rightarrow> Errors \<Rightarrow> bool \<times> Errors" where
  "Errors_added attribute message errors =
     (case mget errors attribute of
        None \<Rightarrow> (False, mput attribute (Messages []) errors)
      | Some (Messages ms) \<Rightarrow> (message \<in> set ms, errors)
      | Some (Nested _) \<Rightarrow> (True, errors))"

definition Errors_Add :: "string \<Rightarrow> string \<Rightarrow> Errors \<Rightarrow> Errors" where
  "Errors_Add attribute message errors =
     (let (found, errors1) = Errors_added attribute message errors
      in if found then errors1
         else mput attribute (Messages (Errors_Get errors1 attribute @ [message])) errors1)"

definition Errors_GetSettingError :: "Errors \<Rightarrow> string \<Rightarrow> string list" where
  "Errors_GetSettingError errors attribute =
     (case mget errors SETTINGS of
        None \<Rightarrow> []
      | Some (Messages _) \<Rightarrow> []
      | Some (Nested s) \<Rightarrow> Errors_Get s attribute)"

text \<open>The type assertion crashes when the attribute \<^verbatim>\<open>Settings\<close> already has messages of its own.\<close>

definition Errors_AddSettingError :: "string \<Rightarrow> string \<Rightarrow> Errors \<Rightarrow> Errors option" where
  "Errors_AddSettingError attribute message errors =
     (case mget errors SETTINGS of
        None \<Rightarrow> Some (mput SETTINGS (Nested (Errors_Add attribute message NewErrors)) errors)
      | Some (Nested se) \<Rightarrow> Some (mput SETTINGS (Nested (Errors_Add attribute message se)) errors)
      | Some (Messages _) \<Rightarrow> None)"

definition Errors_getSettings :: "Errors \<Rightarrow> Errors option" where
  "Errors_getSettings errors =
     (case mget errors SETTINGS of
        None \<Rightarrow> Some NewErrors
      | Some (Nested s) \<Rightarrow> Some s
      | Some (Messages _) \<Rightarrow> None)"

section \<open>Reading after writing\<close>

definition plain_attribute :: "Errors \<Rightarrow> string \<Rightarrow> bool" where
  "plain_attribute errors attribute \<longleftrightarrow> (\<forall>s. mget errors attribute \<noteq> Some (Nested s))"

text \<open>A message is recorded once, after those before it.\<close>

lemma Get_Add:
  "Errors_Get (Errors_Add attribute message errors) a =
     (if a = attribute \<and> plain_attribute errors attribute
      then (if message \<in> set (Errors_Get errors a) then Errors_Get errors a
            else Errors_Get errors a @ [message])
      else Errors_Get errors a)"
  by (auto simp: Errors_Add_def Errors_added_def Errors_Get_def plain_attribute_def gomap_simps
      split: option.splits error_value.splits)

lemma Add_never_empty: "Errors_Add attribute message errors \<noteq> []"
proof -
  have "mget (Errors_Add attribute message errors) attribute \<noteq> None"
    by (simp add: Errors_Add_def Errors_added_def gomap_simps split: option.split error_value.split)
  then show ?thesis by (cases "Errors_Add attribute message errors") simp_all
qed

lemma Empty_Add [simp]: "\<not> Errors_Empty (Errors_Add attribute message errors)"
  using Add_never_empty by (simp add: Errors_Empty_def)

lemma AddSettingError_Some:
  "plain_attribute NewErrors a \<Longrightarrow> (\<nexists>ms. mget errors SETTINGS = Some (Messages ms)) \<Longrightarrow>
     \<exists>e. Errors_AddSettingError a message errors = Some e \<and> \<not> Errors_Empty e"
  by (auto simp: Errors_AddSettingError_def Errors_Empty_def update_nonempty
      split: option.splits error_value.splits)

lemma added_mwf [wf_intros]: "mwf errors \<Longrightarrow> mwf (Errors_Add a message errors)"
  by (auto simp: Errors_Add_def Errors_added_def split: option.splits error_value.splits)

end
