(* ===== verification/Cache.thy ===== *)
theory Cache
  imports Settings
begin

text \<open>
  The cache of computed answers (\<^verbatim>\<open>cache/cached_item.go\<close>, \<^verbatim>\<open>cache/cache_table.go\<close>): items that
  load their data on demand and drop it when their life span is over.

  A timer of the library is the instant it is due and whether it is still running: \<^verbatim>\<open>Stop\<close> ends it, and
  when it fires it expires its item once. Data is an optional value, \<^const>\<open>None\<close> for a nil interface; an
  interface that holds a nil slice is not nil. The loading functions read and change a world of their own,
  so that what they are called for is visible.
\<close>

section \<open>Items\<close>

record timer =
  tmr_deadline :: gotime
  tmr_running :: bool

definition AfterFunc :: "gotime \<Rightarrow> int \<Rightarrow> timer" where
  "AfterFunc now duration = \<lparr>tmr_deadline = now + duration, tmr_running = True\<rparr>"

definition Timer_Stop :: "timer option \<Rightarrow> timer option" where
  "Timer_Stop t = map_option (\<lambda>t. t\<lparr>tmr_running := False\<rparr>) t"

text \<open>Arguments of a variadic function: values, or a slice of arguments passed as one.\<close>

datatype 'v argument = Arg 'v | Args "'v argument list"

type_synonym ('d, 'w) load = "'w \<Rightarrow> ('d option \<times> string option) \<times> 'w"

record ('d, 'v, 'w) CachedItem =
  ci_key :: string
  ci_data :: "'d option"
  ci_lifeSpan :: int
  ci_createdAt :: gotime
  ci_cleanupTimer :: "timer option"
  ci_loadData :: "('v argument list \<Rightarrow> ('d, 'w) load) option"

definition NewCachedItem ::
  "gotime \<Rightarrow> string \<Rightarrow> int \<Rightarrow> 'd option \<Rightarrow> ('v argument list \<Rightarrow> ('d, 'w) load) option \<Rightarrow>
   ('d, 'v, 'w) CachedItem" where
  "NewCachedItem now key lifeSpan data loader =
     \<lparr>ci_key = key, ci_data = data,
      ci_lifeSpan = (if lifeSpan < MIN_CACHE_LIFESPAN then DEFAULT_CACHE_LIFESPAN else lifeSpan),
      ci_createdAt = now, ci_cleanupTimer = None, ci_loadData = loader\<rparr>"

definition CachedItem_SetDataLoader ::
  "('v argument list \<Rightarrow> ('d, 'w) load) option \<Rightarrow> ('d, 'v, 'w) CachedItem \<Rightarrow> ('d, 'v, 'w) CachedItem" where
  "CachedItem_SetDataLoader f item = item\<lparr>ci_loadData := f\<rparr>"

definition CachedItem_Stop :: "('d, 'v, 'w) CachedItem \<Rightarrow> ('d, 'v, 'w) CachedItem" where
  "CachedItem_Stop item = item\<lparr>ci_cleanupTimer := Timer_Stop (ci_cleanupTimer item)\<rparr>"

definition CachedItem_expire :: "('d, 'v, 'w) CachedItem \<Rightarrow> ('d, 'v, 'w) CachedItem" where
  "CachedItem_expire item =
     item\<lparr>ci_cleanupTimer := Timer_Stop (ci_cleanupTimer item), ci_data := None\<rparr>"

definition CachedItem_SetData :: "'d option \<Rightarrow> ('d, 'v, 'w) CachedItem \<Rightarrow> ('d, 'v, 'w) CachedItem" where
  "CachedItem_SetData data item = item\<lparr>ci_data := data\<rparr>"

text \<open>A fetch looks at the data under the read lock and, when there is none, again under the write lock:
  between the two another fetch may have loaded it. The results are the data and the error.\<close>

definition fetch_locked ::
  "('d, 'w) load option \<Rightarrow> gotime \<Rightarrow> ('d, 'v, 'w) CachedItem \<Rightarrow> 'w \<Rightarrow>
   ('d option \<times> string option) \<times> ('d, 'v, 'w) CachedItem \<times> 'w" where
  "fetch_locked f now item w =
     (case (ci_data item, f) of
        (None, Some load) \<Rightarrow>
          (let stopped = item\<lparr>ci_cleanupTimer := Timer_Stop (ci_cleanupTimer item)\<rparr>;
               ((data, err), w1) = load w;
               loaded = stopped\<lparr>ci_data := data\<rparr>
           in case err of
                Some e \<Rightarrow> ((None, Some e), loaded, w1)
              | None \<Rightarrow> ((data, None), loaded\<lparr>ci_cleanupTimer := Some (AfterFunc now (ci_lifeSpan loaded))\<rparr>, w1))
      | _ \<Rightarrow> ((ci_data item, None), item, w))"

definition CachedItem_Fetch ::
  "('d, 'w) load option \<Rightarrow> gotime \<Rightarrow> ('d, 'v, 'w) CachedItem \<Rightarrow> 'w \<Rightarrow>
   ('d option \<times> string option) \<times> ('d, 'v, 'w) CachedItem \<times> 'w" where
  "CachedItem_Fetch f now item w =
     (case ci_data item of
        Some d \<Rightarrow> ((Some d, None), item, w)
      | None \<Rightarrow> fetch_locked f now item w)"

text \<open>The arguments reach the loader as one slice.\<close>

definition CachedItem_Value ::
  "'v argument list \<Rightarrow> gotime \<Rightarrow> ('d, 'v, 'w) CachedItem \<Rightarrow> 'w \<Rightarrow>
   ('d option \<times> string option) \<times> ('d, 'v, 'w) CachedItem \<times> 'w" where
  "CachedItem_Value args now item w =
     CachedItem_Fetch (map_option (\<lambda>loadData. loadData [Args args]) (ci_loadData item)) now item w"

text \<open>The timer fires when it is running and due.\<close>

definition timer_fires :: "gotime \<Rightarrow> ('d, 'v, 'w) CachedItem \<Rightarrow> ('d, 'v, 'w) CachedItem" where
  "timer_fires now item =
     (case ci_cleanupTimer item of
        Some t \<Rightarrow> if tmr_running t \<and> tmr_deadline t \<le> now then CachedItem_expire item else item
      | None \<Rightarrow> item)"

section \<open>Tables\<close>

type_synonym ('d, 'v, 'w) CacheTable = "(string, ('d, 'v, 'w) CachedItem) gomap"

definition ErrNotFound :: "string \<Rightarrow> string" where
  "ErrNotFound e = ''Cannot find key '' @ e @ '' in cache table''"

definition NewCacheTable :: "('d, 'v, 'w) CacheTable" where
  "NewCacheTable = []"

definition CacheTable_Add ::
  "gotime \<Rightarrow> string \<Rightarrow> int \<Rightarrow> 'd option \<Rightarrow> ('d, 'v, 'w) CacheTable \<Rightarrow>
   ('d, 'v, 'w) CachedItem \<times> ('d, 'v, 'w) CacheTable" where
  "CacheTable_Add now key lifeSpan data table =
     (let item = NewCachedItem now key lifeSpan data None
      in (item, mput (ci_key item) item table))"

definition CacheTable_Delete ::
  "string \<Rightarrow> ('d, 'v, 'w) CacheTable \<Rightarrow>
   ('d, 'v, 'w) CachedItem option \<times> string option \<times> ('d, 'v, 'w) CacheTable" where
  "CacheTable_Delete key table =
     (case mget table key of
        None \<Rightarrow> (None, Some (ErrNotFound key), table)
      | Some r \<Rightarrow> (Some (CachedItem_Stop r), None, mdel key table))"

text \<open>The items removed are expired: they may still be held elsewhere.\<close>

definition CacheTable_Clear ::
  "('d, 'v, 'w) CacheTable \<Rightarrow> ('d, 'v, 'w) CachedItem list \<times> ('d, 'v, 'w) CacheTable" where
  "CacheTable_Clear table =
     (map CachedItem_expire (mvals table), fold mdel (mkeys table) table)"

definition CacheTable_Value ::
  "string \<Rightarrow> 'v argument list \<Rightarrow> gotime \<Rightarrow> ('d, 'v, 'w) CacheTable \<Rightarrow> 'w \<Rightarrow>
   ('d option \<times> string option) \<times> ('d, 'v, 'w) CacheTable \<times> 'w" where
  "CacheTable_Value key args now table w =
     (case mget table key of
        None \<Rightarrow> ((None, Some (ErrNotFound key)), table, w)
      | Some r \<Rightarrow> (let (res, item, w1) = CachedItem_Value [Args args] now r w
                   in (res, mput key item table, w1)))"

definition CacheTable_Fetch ::
  "string \<Rightarrow> ('d, 'w) load option \<Rightarrow> gotime \<Rightarrow> ('d, 'v, 'w) CacheTable \<Rightarrow> 'w \<Rightarrow>
   ('d option \<times> string option) \<times> ('d, 'v, 'w) CacheTable \<times> 'w" where
  "CacheTable_Fetch key f now table w =
     (case mget table key of
        None \<Rightarrow> ((None, Some (ErrNotFound key)), table, w)
      | Some r \<Rightarrow> (let (res, item, w1) = CachedItem_Fetch f now r w
                   in (res, mput key item table, w1)))"

section \<open>Loading once per life span\<close>

text \<open>Two fetches that both saw no data load it once.\<close>

lemma fetch_locked_twice:
  assumes "fetch_locked f now item w = ((Some d, None), item1, w1)"
  shows "fetch_locked f' now' item1 w1 = ((Some d, None), item1, w1)"
  using assms by (auto simp: fetch_locked_def Let_def split: option.splits prod.splits)

lemma Fetch_eq: "CachedItem_Fetch f now item w = fetch_locked f now item w"
  by (simp add: CachedItem_Fetch_def fetch_locked_def split: option.split)

datatype ('d, 'w) cache_op =
    FetchItem "('d, 'w) load option" gotime
  | FireTimer gotime
  | ExpireItem

fun cache_step ::
  "('d, 'w) cache_op \<Rightarrow> ('d, 'v, 'w) CachedItem \<times> 'w \<Rightarrow> ('d, 'v, 'w) CachedItem \<times> 'w" where
  "cache_step (FetchItem f now) (item, w) = snd (CachedItem_Fetch f now item w)"
| "cache_step (FireTimer now) (item, w) = (timer_fires now item, w)"
| "cache_step ExpireItem (item, w) = (CachedItem_expire item, w)"

text \<open>The data that a loader returns together with an error, and an item without a running timer.\<close>

fun op_failures :: "('d, 'w) cache_op \<Rightarrow> 'd set" where
  "op_failures (FetchItem (Some load) now) = {d. \<exists>w e w1. load w = ((Some d, Some e), w1)}"
| "op_failures _ = {}"

definition no_timer :: "('d, 'v, 'w) CachedItem \<Rightarrow> bool" where
  "no_timer item \<longleftrightarrow> (\<forall>t. ci_cleanupTimer item = Some t \<longrightarrow> \<not> tmr_running t)"

lemma no_timer_stopped: "no_timer (item\<lparr>ci_cleanupTimer := Timer_Stop t, ci_data := d\<rparr>)"
  by (auto simp: no_timer_def Timer_Stop_def)

lemma no_timer_fires: "no_timer item \<Longrightarrow> timer_fires now item = item"
  by (auto simp: no_timer_def timer_fires_def split: option.splits)

definition cache_inv :: "gotime set \<Rightarrow> 'd set \<Rightarrow> ('d, 'v, 'w) CachedItem \<Rightarrow> bool" where
  "cache_inv nows failures item \<longleftrightarrow> MIN_CACHE_LIFESPAN \<le> ci_lifeSpan item \<and>
     (\<forall>d. ci_data item = Some d \<longrightarrow>
        (\<exists>now \<in> nows. ci_cleanupTimer item = Some (AfterFunc now (ci_lifeSpan item))) \<or>
        d \<in> failures \<and> no_timer item)"

fun op_time :: "('d, 'w) cache_op \<Rightarrow> gotime set" where
  "op_time (FetchItem f now) = {now}"
| "op_time _ = {}"

lemma cache_inv_new: "cache_inv {} {} (NewCachedItem now key lifeSpan None loader)"
  by (simp add: cache_inv_def NewCachedItem_def MIN_CACHE_LIFESPAN_def DEFAULT_CACHE_LIFESPAN_def)

lemma cache_inv_mono: "cache_inv T D item \<Longrightarrow> T \<subseteq> T' \<Longrightarrow> D \<subseteq> D' \<Longrightarrow> cache_inv T' D' item"
  unfolding cache_inv_def by blast

lemma cache_inv_loaded:
  assumes "cache_inv T D item" and "load w = ((data, err), w1)" and "ci_data item = None"
  shows "cache_inv (insert now T) (D \<union> op_failures (FetchItem (Some load) now))
    (fst (snd (fetch_locked (Some load) now item w)))"
proof (cases err)
  case None
  with assms show ?thesis by (simp add: fetch_locked_def cache_inv_def)
next
  case (Some e)
  have "d \<in> op_failures (FetchItem (Some load) now)" if "data = Some d" for d
    using assms(2) Some that by auto
  with Some assms no_timer_stopped [where item = item] show ?thesis
    unfolding cache_inv_def fetch_locked_def by simp
qed

lemma cache_inv_fetch:
  assumes "cache_inv T D item"
  shows "cache_inv (insert now T) (D \<union> op_failures (FetchItem f now)) (fst (snd (fetch_locked f now item w)))"
proof (cases "ci_data item = None \<and> f \<noteq> None")
  case True
  then obtain load where f: "f = Some load" by blast
  obtain data err w1 where "load w = ((data, err), w1)" by (metis prod.collapse)
  from cache_inv_loaded [of T D item load w, OF assms this] True show ?thesis by (simp add: f)
next
  case False
  then have "fst (snd (fetch_locked f now item w)) = item" by (auto simp: fetch_locked_def split: option.split)
  with cache_inv_mono [OF assms] show ?thesis by (simp add: subset_insertI)
qed

lemma cache_inv_expire: "cache_inv T D item \<Longrightarrow> cache_inv T D (CachedItem_expire item)"
  by (simp add: cache_inv_def CachedItem_expire_def)

lemma cache_inv_step:
  assumes "cache_inv T D (fst s)"
  shows "cache_inv (T \<union> op_time x) (D \<union> op_failures x) (fst (cache_step x s))"
proof (cases x)
  case (FetchItem f now)
  with assms cache_inv_fetch [of T D "fst s" now f "snd s"] show ?thesis by (cases s) (simp add: Fetch_eq)
next
  case (FireTimer now)
  with assms show ?thesis
    by (cases s) (auto simp: timer_fires_def cache_inv_expire split: option.split)
qed (use assms in \<open>cases s, simp add: cache_inv_expire\<close>)

lemma cache_history:
  "cache_inv T D (fst s) \<Longrightarrow>
     cache_inv (T \<union> (\<Union>x \<in> set ops. op_time x)) (D \<union> (\<Union>x \<in> set ops. op_failures x)) (fst (fold cache_step ops s))"
proof (induction ops arbitrary: T D s)
  case (Cons x ops)
  from Cons.IH [OF cache_inv_step [OF Cons.prems, of x]] show ?case by (simp add: Un_assoc)
qed simp

lemma op_times: "(\<Union>x \<in> set ops. op_time x) = {now. \<exists>f. FetchItem f now \<in> set ops}" (is "?L = ?R")
proof
  have "\<exists>f. FetchItem f t \<in> set ops" if "x \<in> set ops" "t \<in> op_time x" for x t
  proof (cases x)
    case (FetchItem f now)
    with that have "FetchItem f t \<in> set ops" by simp
    then show ?thesis by blast
  qed (use that in simp_all)
  then show "?L \<subseteq> ?R" by blast
  show "?R \<subseteq> ?L" by force
qed

text \<open>C33. Data in the cache is there in one of two ways. Either it has a running timer, which one of the fetches
  started and which removes it one life span (of at least ten seconds) later: once that is over, it is not served
  any more. Or the loader of a fetch returned it together with an error: then no timer runs, and it stays however
  long one waits.\<close>

theorem cache_expires:
  fixes item :: "('d, 'v, 'w) CachedItem"
  assumes "fst (fold cache_step ops (NewCachedItem created key lifeSpan None loader, w)) = item"
    and "ci_data item = Some d"
  shows "MIN_CACHE_LIFESPAN \<le> ci_lifeSpan item \<and>
    ((\<exists>f t. FetchItem f t \<in> set ops \<and>
       (\<forall>now. ci_data (timer_fires now item) = (if t + ci_lifeSpan item \<le> now then None else Some d))) \<or>
     (\<exists>load t v e v1. FetchItem (Some load) t \<in> set ops \<and> load v = ((Some d, Some e), v1)) \<and>
       (\<forall>now. ci_data (timer_fires now item) = Some d))"
proof -
  have inv: "cache_inv ({} \<union> (\<Union>x \<in> set ops. op_time x)) ({} \<union> (\<Union>x \<in> set ops. op_failures x))
     (fst (fold cache_step ops (NewCachedItem created key lifeSpan None loader :: ('d, 'v, 'w) CachedItem, w)))"
    by (rule cache_history) (simp add: cache_inv_new)
  then have life: "MIN_CACHE_LIFESPAN \<le> ci_lifeSpan item"
    and "(\<exists>t \<in> {now. \<exists>f. FetchItem f now \<in> set ops}. ci_cleanupTimer item = Some (AfterFunc t (ci_lifeSpan item))) \<or>
      d \<in> (\<Union>x \<in> set ops. op_failures x) \<and> no_timer item"
    using assms(2) unfolding assms(1) op_times cache_inv_def Un_empty_left by blast+
  then show ?thesis
  proof (elim disjE)
    assume "\<exists>t \<in> {now. \<exists>f. FetchItem f now \<in> set ops}. ci_cleanupTimer item = Some (AfterFunc t (ci_lifeSpan item))"
    then obtain f t where "FetchItem f t \<in> set ops" "ci_cleanupTimer item = Some (AfterFunc t (ci_lifeSpan item))" by blast
    with assms(2) life show ?thesis
      by (intro conjI disjI1 exI [of _ f] exI [of _ t]) (auto simp: timer_fires_def AfterFunc_def CachedItem_expire_def)
  next
    assume failed: "d \<in> (\<Union>x \<in> set ops. op_failures x) \<and> no_timer item"
    then obtain x where x: "x \<in> set ops" "d \<in> op_failures x" by blast
    then obtain load t v e v1 where "x = FetchItem (Some load) t" "load v = ((Some d, Some e), v1)"
      by (cases x rule: op_failures.cases) auto
    with x(1) have "\<exists>load t v e v1. FetchItem (Some load) t \<in> set ops \<and> load v = ((Some d, Some e), v1)" by blast
    moreover have "\<forall>now. ci_data (timer_fires now item) = Some d" using failed assms(2) by (simp add: no_timer_fires)
    ultimately show ?thesis using life by blast
  qed
qed

text \<open>The one fetch of the program: the feed of the GTFS handler (\<^verbatim>\<open>api/gtfs_handler.go\<close>). The bytes it is
  marshalled to are put in an interface, which is not nil even when marshalling failed and there are none.\<close>

definition getFeed_loader :: "('w \<Rightarrow> ('d \<times> string option) \<times> 'w) \<Rightarrow> ('d, 'w) load" where
  "getFeed_loader getFeed = (\<lambda>w. let ((d, err), w1) = getFeed w in ((Some d, err), w1))"

fun cache_op_quiet :: "('d, 'w) cache_op \<Rightarrow> bool" where
  "cache_op_quiet ExpireItem = False"
| "cache_op_quiet _ = True"

lemma failed_fetch:
  assumes "ci_data item = None" and "getFeed w = ((d, Some e), w1)"
  shows "CachedItem_Fetch (Some (getFeed_loader getFeed)) now item w =
    ((None, Some e), item\<lparr>ci_cleanupTimer := Timer_Stop (ci_cleanupTimer item), ci_data := Some d\<rparr>, w1)"
  using assms by (simp add: Fetch_eq fetch_locked_def getFeed_loader_def)

lemma quiet_step:
  "ci_data (fst s) = Some d \<Longrightarrow> no_timer (fst s) \<Longrightarrow> cache_op_quiet x \<Longrightarrow> cache_step x s = s"
  by (cases x; cases s) (auto simp: CachedItem_Fetch_def timer_fires_def no_timer_def split: option.splits)

lemma quiet_history:
  "ci_data (fst s) = Some d \<Longrightarrow> no_timer (fst s) \<Longrightarrow> list_all cache_op_quiet ops \<Longrightarrow> fold cache_step ops s = s"
  by (induction ops arbitrary: s) (simp_all add: quiet_step)

text \<open>C34. A feed that could not be marshalled is reported once; after that its bytes are in the cache without a
  running timer, and every later fetch, whenever it comes, serves them as a success, until the cache is
  cleared.\<close>

theorem cache_keeps_failure:
  fixes item :: "('d, 'v, 'w) CachedItem"
  assumes "ci_data item = None" and "getFeed w = ((d, Some e), w1)" and "list_all cache_op_quiet ops"
  shows "fst (CachedItem_Fetch (Some (getFeed_loader getFeed)) now item w) = (None, Some e) \<and>
    (let (item', w') = fold cache_step ops (snd (CachedItem_Fetch (Some (getFeed_loader getFeed)) now item w))
     in CachedItem_Fetch f later item' w' = ((Some d, None), item', w'))"
proof -
  let ?i = "item\<lparr>ci_cleanupTimer := Timer_Stop (ci_cleanupTimer item), ci_data := Some d\<rparr>"
  have q: "fold cache_step ops (?i, w1) = (?i, w1)"
    using assms(3) by (intro quiet_history) (simp_all add: no_timer_stopped)
  have served: "CachedItem_Fetch f later ?i w1 = ((Some d, None), ?i, w1)"
    by (simp add: CachedItem_Fetch_def)
  show ?thesis unfolding failed_fetch [of item getFeed, OF assms(1,2)] by (simp add: q served)
qed

definition failing_feed :: "nat \<Rightarrow> (string \<times> string option) \<times> nat" where
  "failing_feed n = (('''', if n = 0 then Some ''marshal'' else None), Suc n)"

definition feed_item :: "(string, string, nat) CachedItem" where
  "feed_item = NewCachedItem 0 ''trip-updates'' 0 None None"

theorem cache_keeps_failure_witness:
  "fst (CachedItem_Fetch (Some (getFeed_loader failing_feed)) 5 feed_item 0) = (None, Some ''marshal'') \<and>
   (let (item, w) = fold cache_step [FireTimer 100]
           (snd (CachedItem_Fetch (Some (getFeed_loader failing_feed)) 5 feed_item 0))
    in CachedItem_Fetch (Some (getFeed_loader failing_feed)) 200 item w = ((Some '''', None), item, w))"
proof -
  have i: "ci_data feed_item = None" by (simp add: feed_item_def NewCachedItem_def)
  have l: "failing_feed 0 = (('''', Some ''marshal''), 1)" by (simp add: failing_feed_def)
  have q: "list_all cache_op_quiet [FireTimer 100]" by simp
  show ?thesis by (rule cache_keeps_failure [of feed_item failing_feed, OF i l q])
qed

definition good_feed :: "nat \<Rightarrow> (string option \<times> string option) \<times> nat" where
  "good_feed n = ((Some ''feed'', None), Suc n)"

theorem cache_expires_witness:
  "\<exists>item :: (string, string, nat) CachedItem.
     fst (fold cache_step [FetchItem (Some good_feed) 5] (feed_item, 0)) = item \<and>
     ci_data item = Some ''feed'' \<and> ci_data (timer_fires (seconds 61) item) = None"
proof -
  let ?ops = "[FetchItem (Some good_feed) 5]"
  let ?i = "fst (fold cache_step ?ops (feed_item, 0))"
  have life: "ci_lifeSpan ?i = seconds 60" and data: "ci_data ?i = Some ''feed''"
    by (simp_all add: Fetch_eq fetch_locked_def feed_item_def NewCachedItem_def good_feed_def
        MIN_CACHE_LIFESPAN_def DEFAULT_CACHE_LIFESPAN_def)
  from cache_expires [of ?ops 0 "''trip-updates''" 0 None 0 ?i "''feed''"] data
  have "(\<exists>f t. FetchItem f t \<in> set ?ops \<and>
      (\<forall>now. ci_data (timer_fires now ?i) = (if t + ci_lifeSpan ?i \<le> now then None else Some ''feed''))) \<or>
    (\<exists>load t v e v1. FetchItem (Some load) t \<in> set ?ops \<and> load v = ((Some ''feed'', Some e), v1))"
    by (auto simp: feed_item_def)
  then obtain t where "t = 5" "\<forall>now. ci_data (timer_fires now ?i) = (if t + ci_lifeSpan ?i \<le> now then None else Some ''feed'')"
    by (auto simp: good_feed_def)
  with life data show ?thesis by (intro exI [of _ ?i]) simp
qed

end
