(* ===== verification/Partners.thy ===== *)
theory Partners
  imports Credentials Errors Subscriptions Cache "HOL-Library.Char_ord" "HOL-Library.List_Lexorder"
begin

text \<open>
  Partners and their manager (\<^verbatim>\<open>core/partner.go\<close>), with the validation of their definitions, which is also
  that of the connectors' factories (\<^verbatim>\<open>core/connector.go\<close>). A connector is its type: what connectors do is
  not part of a partner. The manager stores pointers to partners by identifier; a partner changed through a
  pointer is put back under its identifier.
\<close>

section \<open>Statuses and connectors\<close>

type_synonym OperationnalStatus = string
type_synonym PartnerSlug = string

definition OPERATIONNAL_STATUS_UNKNOWN :: OperationnalStatus where "OPERATIONNAL_STATUS_UNKNOWN = ''unknown''"
definition OPERATIONNAL_STATUS_UP :: OperationnalStatus where "OPERATIONNAL_STATUS_UP = ''up''"
definition OPERATIONNAL_STATUS_DOWN :: OperationnalStatus where "OPERATIONNAL_STATUS_DOWN = ''down''"

lemmas operationnal_statuses =
  OPERATIONNAL_STATUS_UNKNOWN_def OPERATIONNAL_STATUS_UP_def OPERATIONNAL_STATUS_DOWN_def

definition PUSH_COLLECTOR :: string where "PUSH_COLLECTOR = ''push-collector''"
definition SIRI_STOP_POINTS_DISCOVERY_REQUEST_COLLECTOR :: string where
  "SIRI_STOP_POINTS_DISCOVERY_REQUEST_COLLECTOR = ''siri-stop-points-discovery-request-collector''"
definition SIRI_STOP_MONITORING_REQUEST_COLLECTOR :: string where
  "SIRI_STOP_MONITORING_REQUEST_COLLECTOR = ''siri-stop-monitoring-request-collector''"
definition TEST_STOP_MONITORING_REQUEST_COLLECTOR :: string where
  "TEST_STOP_MONITORING_REQUEST_COLLECTOR = ''test-stop-monitoring-request-collector''"
definition SIRI_STOP_MONITORING_SUBSCRIPTION_COLLECTOR :: string where
  "SIRI_STOP_MONITORING_SUBSCRIPTION_COLLECTOR = ''siri-stop-monitoring-subscription-collector''"
definition SIRI_STOP_MONITORING_SUBSCRIPTION_BROADCASTER :: string where
  "SIRI_STOP_MONITORING_SUBSCRIPTION_BROADCASTER = ''siri-stop-monitoring-subscription-broadcaster''"
definition SIRI_GENERAL_MESSAGE_REQUEST_COLLECTOR :: string where
  "SIRI_GENERAL_MESSAGE_REQUEST_COLLECTOR = ''siri-general-message-request-collector''"
definition SIRI_GENERAL_MESSAGE_SUBSCRIPTION_COLLECTOR :: string where
  "SIRI_GENERAL_MESSAGE_SUBSCRIPTION_COLLECTOR = ''siri-general-message-subscription-collector''"
definition SIRI_GENERAL_MESSAGE_SUBSCRIPTION_BROADCASTER :: string where
  "SIRI_GENERAL_MESSAGE_SUBSCRIPTION_BROADCASTER = ''siri-general-message-subscription-broadcaster''"
definition SIRI_ESTIMATED_TIMETABLE_SUBSCRIPTION_BROADCASTER :: string where
  "SIRI_ESTIMATED_TIMETABLE_SUBSCRIPTION_BROADCASTER = ''siri-estimated-timetable-subscription-broadcaster''"
definition SIRI_SUBSCRIPTION_REQUEST_DISPATCHER :: string where
  "SIRI_SUBSCRIPTION_REQUEST_DISPATCHER = ''siri-subscription-request-dispatcher''"
definition SIRI_CHECK_STATUS_CLIENT_TYPE :: string where
  "SIRI_CHECK_STATUS_CLIENT_TYPE = ''siri-check-status-client''"
definition TEST_CHECK_STATUS_CLIENT_TYPE :: string where
  "TEST_CHECK_STATUS_CLIENT_TYPE = ''test-check-status-client''"
definition GTFS_RT_TRIP_UPDATES_BROADCASTER :: string where
  "GTFS_RT_TRIP_UPDATES_BROADCASTER = ''gtfs-rt-trip-updates-broadcaster''"
definition GTFS_RT_VEHICLE_POSITIONS_BROADCASTER :: string where
  "GTFS_RT_VEHICLE_POSITIONS_BROADCASTER = ''gtfs-rt-vehicle-positions-broadcaster''"

lemmas connector_types =
  PUSH_COLLECTOR_def SIRI_STOP_POINTS_DISCOVERY_REQUEST_COLLECTOR_def SIRI_STOP_MONITORING_REQUEST_COLLECTOR_def
  TEST_STOP_MONITORING_REQUEST_COLLECTOR_def SIRI_STOP_MONITORING_SUBSCRIPTION_COLLECTOR_def
  SIRI_STOP_MONITORING_SUBSCRIPTION_BROADCASTER_def SIRI_GENERAL_MESSAGE_REQUEST_COLLECTOR_def
  SIRI_GENERAL_MESSAGE_SUBSCRIPTION_COLLECTOR_def SIRI_GENERAL_MESSAGE_SUBSCRIPTION_BROADCASTER_def
  SIRI_ESTIMATED_TIMETABLE_SUBSCRIPTION_BROADCASTER_def SIRI_SUBSCRIPTION_REQUEST_DISPATCHER_def
  SIRI_CHECK_STATUS_CLIENT_TYPE_def TEST_CHECK_STATUS_CLIENT_TYPE_def GTFS_RT_TRIP_UPDATES_BROADCASTER_def
  GTFS_RT_VEHICLE_POSITIONS_BROADCASTER_def

text \<open>What the factory of each connector type checks in a definition, in order.\<close>

datatype factory_check = RequireSetting string | RequireLocalCredentials | RefuseInvalidSlug

definition connector_factories :: "(string \<times> factory_check list) list" where
  "connector_factories =
     (let kind = RequireSetting REMOTE_OBJECTID_KIND; url = RequireSetting REMOTE_URL;
          credential = RequireSetting REMOTE_CREDENTIAL; local = RequireLocalCredentials;
          local_one = RequireSetting LOCAL_CREDENTIAL
      in [(PUSH_COLLECTOR, [kind, local]),
          (SIRI_STOP_POINTS_DISCOVERY_REQUEST_COLLECTOR, [kind, url, credential]),
          (''siri-stop-points-discovery-request-broadcaster'', [kind, local]),
          (''siri-lines-discovery-request-broadcaster'', [kind, local]),
          (''siri-service-request-broadcaster'', [kind, local]),
          (SIRI_STOP_MONITORING_REQUEST_COLLECTOR, [kind, url, credential]),
          (TEST_STOP_MONITORING_REQUEST_COLLECTOR, []),
          (''siri-stop-monitoring-request-broadcaster'', [kind, local]),
          (SIRI_STOP_MONITORING_SUBSCRIPTION_COLLECTOR, [kind, url, credential, local]),
          (SIRI_STOP_MONITORING_SUBSCRIPTION_BROADCASTER, [kind, url, credential, local_one]),
          (''siri-stop-monitoring-subscription-broadcaster-test'', []),
          (SIRI_GENERAL_MESSAGE_REQUEST_COLLECTOR, [kind, url, credential]),
          (''siri-general-message-request-broadcaster'', [kind, local]),
          (SIRI_GENERAL_MESSAGE_SUBSCRIPTION_COLLECTOR, [kind, url, credential, local]),
          (SIRI_GENERAL_MESSAGE_SUBSCRIPTION_BROADCASTER, [kind, url, credential, local_one]),
          (''siri-general-message-subscription-broadcaster-test'', []),
          (''siri-estimated-timetable-request-broadcaster'', [kind, local]),
          (SIRI_ESTIMATED_TIMETABLE_SUBSCRIPTION_BROADCASTER, [kind, url, credential, local_one]),
          (''siri-estimated-timetable-subscription-broadcaster-test'', []),
          (SIRI_CHECK_STATUS_CLIENT_TYPE, [url, credential]),
          (SIRI_SUBSCRIPTION_REQUEST_DISPATCHER, [kind, url, credential]),
          (TEST_CHECK_STATUS_CLIENT_TYPE, []),
          (''siri-check-status-server'', [local]),
          (''siri-lite-vehicle-monitoring-request-broadcaster'', [kind, local]),
          (GTFS_RT_TRIP_UPDATES_BROADCASTER, [kind]),
          (GTFS_RT_VEHICLE_POSITIONS_BROADCASTER, [kind]),
          (''test-validation-connector'', [RefuseInvalidSlug]),
          (''test-startable-connector-connector'', [])])"

definition NewConnectorFactory :: "string \<Rightarrow> factory_check list option" where
  "NewConnectorFactory connectorType = map_of connector_factories connectorType"

section \<open>Partners\<close>

record PartnerStatus =
  pst_OperationnalStatus :: OperationnalStatus
  pst_ServiceStartedAt :: stamp

record Partner =
  prt_settings :: PartnerSettings
  prt_id :: PartnerId
  prt_slug :: PartnerSlug
  prt_Name :: string
  prt_PartnerStatus :: PartnerStatus
  prt_ConnectorTypes :: "string list"
  prt_connectors :: "string list"
  prt_discoveredStopAreas :: "string list"
  prt_startedAt :: gotime
  prt_lastDiscovery :: gotime
  prt_lastPush :: gotime
  prt_subscriptions :: MemorySubscriptions
  prt_gtfsCache :: "(string, unit, unit) CacheTable"

record PartnerManager =
  pm_byId :: "(PartnerId, Partner) gomap"
  pm_localCredentialsIndex :: LocalCredentialsIndex

definition PartnerManager_New :: "PartnerSlug \<Rightarrow> Partner" where
  "PartnerManager_New slug =
     \<lparr>prt_settings = NewPartnerSettings, prt_id = '''', prt_slug = slug, prt_Name = '''',
      prt_PartnerStatus = \<lparr>pst_OperationnalStatus = OPERATIONNAL_STATUS_UNKNOWN, pst_ServiceStartedAt = zero_stamp\<rparr>,
      prt_ConnectorTypes = [], prt_connectors = [], prt_discoveredStopAreas = [], prt_startedAt = 0,
      prt_lastDiscovery = 0, prt_lastPush = 0, prt_subscriptions = NewMemorySubscriptions,
      prt_gtfsCache = NewCacheTable\<rparr>"

definition Partner_Setting :: "Partner \<Rightarrow> string \<Rightarrow> string" where
  "Partner_Setting partner key = PartnerSettings_Setting (prt_settings partner) key"

definition has_connector :: "Partner \<Rightarrow> string \<Rightarrow> bool" where
  "has_connector partner connectorType \<longleftrightarrow> connectorType \<in> set (prt_connectors partner)"

definition Partner_Stop :: "Partner \<Rightarrow> Partner" where
  "Partner_Stop partner =
     partner\<lparr>prt_subscriptions := MemorySubscriptions_CancelSubscriptions (prt_subscriptions partner),
             prt_gtfsCache := snd (CacheTable_Clear (prt_gtfsCache partner))\<rparr>"

definition Partner_Start :: "(string \<Rightarrow> int) \<Rightarrow> gotime \<Rightarrow> Partner \<Rightarrow> Partner" where
  "Partner_Start parse_duration now partner =
     (let to = PartnerSettings_GtfsCacheTimeout parse_duration (prt_settings partner);
          add = (\<lambda>key cache. snd (CacheTable_Add now key to None cache))
      in partner\<lparr>prt_startedAt := now, prt_lastDiscovery := 0, prt_lastPush := 0,
           prt_gtfsCache := add ''trip-updates,vehicle-position'' (add ''vehicle-positions''
             (add ''trip-updates'' (prt_gtfsCache partner)))\<rparr>)"

definition Partner_checkDiscovered :: "Partner \<Rightarrow> string \<Rightarrow> bool" where
  "Partner_checkDiscovered partner stopId \<longleftrightarrow> stopId \<in> set (prt_discoveredStopAreas partner)"

text \<open>The settings of collection are never nil: they are made when they are asked for.\<close>

definition Partner_CanCollect :: "Partner \<Rightarrow> string \<Rightarrow> string list \<Rightarrow> bool" where
  "Partner_CanCollect partner stopId lineIds =
     (case fst (PartnerSettings_CollectSettings (prt_settings partner)) of
        None \<Rightarrow> False
      | Some cs \<Rightarrow>
          if CollectSettings_Empty cs then True
          else if CollectSettings_ExcludeStop cs stopId then False
          else CollectSettings_IncludeStop cs stopId \<or> CollectSettings_CanCollectLines cs lineIds \<or>
               Partner_checkDiscovered partner stopId)"

definition Partner_CanCollectLine :: "Partner \<Rightarrow> string \<Rightarrow> bool" where
  "Partner_CanCollectLine partner lineId =
     (case fst (PartnerSettings_CollectSettings (prt_settings partner)) of
        None \<Rightarrow> False
      | Some cs \<Rightarrow> CollectSettings_IncludeLine cs lineId)"

definition Partner_RegisterDiscoveredStopAreas :: "string list \<Rightarrow> Partner \<Rightarrow> Partner" where
  "Partner_RegisterDiscoveredStopAreas stops partner =
     (case fst (PartnerSettings_CollectSettings (prt_settings partner)) of
        None \<Rightarrow> partner
      | Some cs \<Rightarrow>
          if \<not> cos_UseDiscovered cs then partner
          else partner\<lparr>prt_discoveredStopAreas := fold List.insert stops (prt_discoveredStopAreas partner)\<rparr>)"

section \<open>Connectors of a partner\<close>

definition Partner_hasSubscribers :: "Partner \<Rightarrow> bool" where
  "Partner_hasSubscribers partner =
     (if has_connector partner SIRI_STOP_MONITORING_SUBSCRIPTION_BROADCASTER then True
      else if has_connector partner SIRI_GENERAL_MESSAGE_SUBSCRIPTION_BROADCASTER then True
      else has_connector partner SIRI_ESTIMATED_TIMETABLE_SUBSCRIPTION_BROADCASTER)"

text \<open>\<^verbatim>\<open>sort.SearchStrings\<close>: the first position of a sorted list whose element is not smaller.\<close>

definition SearchStrings :: "string list \<Rightarrow> string \<Rightarrow> nat" where
  "SearchStrings a x = length (takeWhile (\<lambda>y. y < x) a)"

definition cleanConnector :: "string \<Rightarrow> Partner \<Rightarrow> Partner" where
  "cleanConnector connectorType partner =
     (if connectorType = SIRI_SUBSCRIPTION_REQUEST_DISPATCHER \<and> Partner_hasSubscribers partner then partner
      else (let found = SearchStrings (prt_ConnectorTypes partner) connectorType
            in if found = length (prt_ConnectorTypes partner) \<or> prt_ConnectorTypes partner ! found \<noteq> connectorType
               then partner\<lparr>prt_connectors := removeAll connectorType (prt_connectors partner)\<rparr>
               else partner))"

text \<open>The connectors are visited in the order of \<^verbatim>\<open>range\<close>, which is that of the list.\<close>

definition Partner_cleanConnectors :: "Partner \<Rightarrow> Partner" where
  "Partner_cleanConnectors partner =
     fold cleanConnector (prt_connectors partner)
       (partner\<lparr>prt_ConnectorTypes := sort (prt_ConnectorTypes partner)\<rparr>)"

definition Partner_CreateSubscriptionRequestDispatcher :: "Partner \<Rightarrow> Partner" where
  "Partner_CreateSubscriptionRequestDispatcher partner =
     partner\<lparr>prt_connectors := List.insert SIRI_SUBSCRIPTION_REQUEST_DISPATCHER (prt_connectors partner)\<rparr>"

text \<open>The subscription broadcasters need the dispatcher and make it with themselves.\<close>

definition subscription_broadcasters :: "string list" where
  "subscription_broadcasters =
     [SIRI_STOP_MONITORING_SUBSCRIPTION_BROADCASTER, SIRI_GENERAL_MESSAGE_SUBSCRIPTION_BROADCASTER,
      SIRI_ESTIMATED_TIMETABLE_SUBSCRIPTION_BROADCASTER]"

definition CreateConnector :: "string \<Rightarrow> Partner \<Rightarrow> Partner" where
  "CreateConnector connectorType partner =
     (if connectorType \<in> set subscription_broadcasters \<and>
         \<not> has_connector partner SIRI_SUBSCRIPTION_REQUEST_DISPATCHER
      then Partner_CreateSubscriptionRequestDispatcher partner else partner)"

definition add_connector :: "string \<Rightarrow> Partner \<Rightarrow> Partner" where
  "add_connector connectorType partner =
     (if has_connector partner connectorType then partner
      else (let created = CreateConnector connectorType partner
            in created\<lparr>prt_connectors := List.insert connectorType (prt_connectors created)\<rparr>))"

definition Partner_RefreshConnectors :: "Partner \<Rightarrow> Partner" where
  "Partner_RefreshConnectors partner =
     Partner_cleanConnectors
       (fold (\<lambda>connectorType p. if NewConnectorFactory connectorType = None then p else add_connector connectorType p)
          (prt_ConnectorTypes partner) partner)"

definition Partner_Connector :: "Partner \<Rightarrow> string \<Rightarrow> bool" where
  "Partner_Connector partner connectorType = has_connector partner connectorType"

text \<open>The connector that is used for a task, if any.\<close>

definition Partner_CheckStatusClient :: "Partner \<Rightarrow> string option" where
  "Partner_CheckStatusClient partner =
     (if has_connector partner SIRI_CHECK_STATUS_CLIENT_TYPE then Some SIRI_CHECK_STATUS_CLIENT_TYPE
      else if has_connector partner TEST_CHECK_STATUS_CLIENT_TYPE then Some TEST_CHECK_STATUS_CLIENT_TYPE
      else None)"

definition Partner_GtfsConnectors :: "Partner \<Rightarrow> string list \<times> bool" where
  "Partner_GtfsConnectors partner =
     (let ok1 = has_connector partner GTFS_RT_TRIP_UPDATES_BROADCASTER;
          ok2 = has_connector partner GTFS_RT_VEHICLE_POSITIONS_BROADCASTER
      in ((if ok1 then [GTFS_RT_TRIP_UPDATES_BROADCASTER] else []) @
          (if ok2 then [GTFS_RT_VEHICLE_POSITIONS_BROADCASTER] else []), ok1 \<or> ok2))"

definition Partner_GeneralMessageRequestCollector :: "Partner \<Rightarrow> string option" where
  "Partner_GeneralMessageRequestCollector partner =
     (if has_connector partner SIRI_GENERAL_MESSAGE_REQUEST_COLLECTOR
      then Some SIRI_GENERAL_MESSAGE_REQUEST_COLLECTOR else None)"

definition Partner_GeneralMessageSubscriptionCollector :: "Partner \<Rightarrow> string option" where
  "Partner_GeneralMessageSubscriptionCollector partner =
     (if has_connector partner SIRI_GENERAL_MESSAGE_SUBSCRIPTION_COLLECTOR
      then Some SIRI_GENERAL_MESSAGE_SUBSCRIPTION_COLLECTOR else None)"

definition Partner_StopMonitoringSubscriptionCollector :: "Partner \<Rightarrow> string option" where
  "Partner_StopMonitoringSubscriptionCollector partner =
     (if has_connector partner SIRI_STOP_MONITORING_SUBSCRIPTION_COLLECTOR
      then Some SIRI_STOP_MONITORING_SUBSCRIPTION_COLLECTOR else None)"

definition Partner_StopMonitoringRequestCollector :: "Partner \<Rightarrow> string option" where
  "Partner_StopMonitoringRequestCollector partner =
     (if has_connector partner SIRI_STOP_MONITORING_REQUEST_COLLECTOR
      then Some SIRI_STOP_MONITORING_REQUEST_COLLECTOR
      else if has_connector partner TEST_STOP_MONITORING_REQUEST_COLLECTOR
      then Some TEST_STOP_MONITORING_REQUEST_COLLECTOR else None)"

definition Partner_hasPushCollector :: "Partner \<Rightarrow> bool" where
  "Partner_hasPushCollector partner = has_connector partner PUSH_COLLECTOR"

end
