(* ===== verification/PartnerManagers.thy ===== *)
theory PartnerManagers
  imports Partners
begin

text \<open>
  Definitions of partners, their validation, the manager that stores partners (\<^verbatim>\<open>core/partner.go\<close>) and
  the operations of the API on them (\<^verbatim>\<open>api/partner_controller.go\<close>). \<^const>\<open>None\<close> as the result of an
  operation is a panic.
\<close>

section \<open>Definitions\<close>

record APIPartner =
  ap_Id :: PartnerId
  ap_Slug :: PartnerSlug
  ap_Name :: string
  ap_Settings :: "(string, string) gomap option"
  ap_ConnectorTypes :: "string list"
  ap_Errors :: Errors
  ap_factories :: "(string, factory_check list) gomap"

definition ap_setting :: "APIPartner \<Rightarrow> string \<Rightarrow> string option" where
  "ap_setting api setting = Option.bind (ap_Settings api) (\<lambda>m. mget m setting)"

definition Partner_Definition :: "Partner \<Rightarrow> APIPartner" where
  "Partner_Definition partner =
     \<lparr>ap_Id = prt_id partner, ap_Slug = prt_slug partner, ap_Name = prt_Name partner,
      ap_Settings = Some (PartnerSettings_SettingsDefinition (prt_settings partner)),
      ap_ConnectorTypes = prt_ConnectorTypes partner, ap_Errors = NewErrors, ap_factories = []\<rparr>"

definition Partner_SetDefinition :: "APIPartner \<Rightarrow> Partner \<Rightarrow> Partner" where
  "Partner_SetDefinition api partner =
     Partner_cleanConnectors
       (fold add_connector (mkeys (ap_factories api))
          (partner\<lparr>prt_id := ap_Id api, prt_slug := ap_Slug api, prt_Name := ap_Name api,
             prt_settings := PartnerSettings_SetSettingsDefinition (ap_Settings api) (prt_settings partner),
             prt_ConnectorTypes := ap_ConnectorTypes api,
             prt_PartnerStatus := (prt_PartnerStatus partner)\<lparr>pst_OperationnalStatus := OPERATIONNAL_STATUS_UNKNOWN\<rparr>\<rparr>))"

text \<open>A body of the API that could be read: its members, when they are there and of the right type.\<close>

record PartnerBody =
  pb_Id :: "PartnerId option"
  pb_Slug :: "PartnerSlug option"
  pb_Name :: "string option"
  pb_Settings :: "(string, string) gomap option"
  pb_ConnectorTypes :: "string list option"

definition given :: "'a option \<Rightarrow> 'a \<Rightarrow> 'a" where
  "given x y = (case x of None \<Rightarrow> y | Some z \<Rightarrow> z)"

definition APIPartner_UnmarshalJSON :: "PartnerBody \<Rightarrow> APIPartner \<Rightarrow> APIPartner" where
  "APIPartner_UnmarshalJSON body api =
     api\<lparr>ap_Id := given (pb_Id body) (ap_Id api), ap_Slug := given (pb_Slug body) (ap_Slug api),
         ap_Name := given (pb_Name body) (ap_Name api),
         ap_Settings := (if pb_Settings body = None then ap_Settings api else pb_Settings body),
         ap_ConnectorTypes := given (pb_ConnectorTypes body) (ap_ConnectorTypes api)\<rparr>"

text \<open>The definition shares the slice of connector types with the partner, and an array is decoded into the
  slice that is there: the partner sees the new elements in its own slice, whose length does not change.\<close>

definition decoded_in_place :: "string list \<Rightarrow> string list \<Rightarrow> string list" where
  "decoded_in_place old new = take (length old) new @ drop (length new) old"

definition unmarshal_shared :: "PartnerBody \<Rightarrow> Partner \<Rightarrow> Partner" where
  "unmarshal_shared body partner =
     partner\<lparr>prt_ConnectorTypes := decoded_in_place (prt_ConnectorTypes partner)
        (given (pb_ConnectorTypes body) (prt_ConnectorTypes partner))\<rparr>"

section \<open>Validation\<close>

definition ERROR_BLANK :: string where "ERROR_BLANK = ''Can't be empty''"
definition ERROR_SLUG_FORMAT :: string where
  "ERROR_SLUG_FORMAT = ''Invalid format: only lowercase alphanumeric characters and _''"
definition ERROR_UNIQUE :: string where "ERROR_UNIQUE = ''Is already in use''"

text \<open>\<^verbatim>\<open>^[a-z0-9-_]+$\<close>\<close>

definition slug_char :: "char \<Rightarrow> bool" where
  "slug_char c \<longleftrightarrow> (97 \<le> (of_char c :: nat) \<and> (of_char c :: nat) \<le> 122) \<or> is_digit c \<or> c = CHR ''-'' \<or> c = CHR ''_''"

definition slugRegexp :: "string \<Rightarrow> bool" where
  "slugRegexp s \<longleftrightarrow> s \<noteq> [] \<and> list_all slug_char s"

definition IsSettingDefined :: "string \<Rightarrow> APIPartner \<Rightarrow> bool" where
  "IsSettingDefined setting api \<longleftrightarrow> ap_setting api setting \<noteq> None"

definition add_setting_error :: "string \<Rightarrow> string \<Rightarrow> APIPartner \<Rightarrow> APIPartner option" where
  "add_setting_error setting message api =
     map_option (\<lambda>e. api\<lparr>ap_Errors := e\<rparr>) (Errors_AddSettingError setting message (ap_Errors api))"

definition ValidatePresenceOfSetting :: "string \<Rightarrow> APIPartner \<Rightarrow> APIPartner option" where
  "ValidatePresenceOfSetting setting api =
     (if \<not> IsSettingDefined setting api then add_setting_error setting ERROR_BLANK api else Some api)"

definition ValidatePresenceOfLocalCredentials :: "APIPartner \<Rightarrow> APIPartner option" where
  "ValidatePresenceOfLocalCredentials api =
     (if \<not> IsSettingDefined LOCAL_CREDENTIAL api \<and> \<not> IsSettingDefined LOCAL_CREDENTIALS api
      then add_setting_error LOCAL_CREDENTIAL ERROR_BLANK api else Some api)"

definition ValidatePresenceOfConnector :: "string \<Rightarrow> APIPartner \<Rightarrow> APIPartner" where
  "ValidatePresenceOfConnector connector api =
     (if connector \<in> set (ap_ConnectorTypes api) then api
      else api\<lparr>ap_Errors := Errors_Add (''Connector '' @ connector) ERROR_BLANK (ap_Errors api)\<rparr>)"

fun run_check :: "factory_check \<Rightarrow> APIPartner \<Rightarrow> APIPartner option" where
  "run_check (RequireSetting setting) api = ValidatePresenceOfSetting setting api"
| "run_check RequireLocalCredentials api = ValidatePresenceOfLocalCredentials api"
| "run_check RefuseInvalidSlug api =
     Some (if ap_Slug api = ''invalid_slug''
           then api\<lparr>ap_Errors := Errors_Add ''slug'' ''Invalid format'' (ap_Errors api)\<rparr> else api)"

definition APIPartner_setFactories :: "APIPartner \<Rightarrow> APIPartner" where
  "APIPartner_setFactories api =
     fold (\<lambda>connectorType api.
             case NewConnectorFactory connectorType of
               None \<Rightarrow> api
             | Some factory \<Rightarrow> api\<lparr>ap_factories := mput connectorType factory (ap_factories api)\<rparr>)
       (ap_ConnectorTypes api) api"

definition APIPartner_credentials :: "APIPartner \<Rightarrow> string" where
  "APIPartner_credentials api =
     given (ap_setting api LOCAL_CREDENTIAL) '''' @ '','' @ given (ap_setting api LOCAL_CREDENTIALS) ''''"

section \<open>The manager\<close>

definition NewPartnerManager :: PartnerManager where
  "NewPartnerManager = \<lparr>pm_byId = [], pm_localCredentialsIndex = NewLocalCredentialsIndex\<rparr>"

definition PartnerManager_UniqCredentials :: "PartnerManager \<Rightarrow> PartnerId \<Rightarrow> string \<Rightarrow> bool" where
  "PartnerManager_UniqCredentials manager modelId localCredentials =
     LocalCredentialsIndex_UniqCredentials modelId localCredentials (pm_localCredentialsIndex manager)"

definition PartnerManager_Find :: "PartnerManager \<Rightarrow> PartnerId \<Rightarrow> Partner option" where
  "PartnerManager_Find manager i = mget (pm_byId manager) i"

definition PartnerManager_FindBySetting :: "PartnerManager \<Rightarrow> string \<Rightarrow> string \<Rightarrow> Partner option" where
  "PartnerManager_FindBySetting manager setting v =
     first_some (\<lambda>partner. Partner_Setting partner setting = v) (mvals (pm_byId manager))"

definition PartnerManager_FindBySlug :: "PartnerManager \<Rightarrow> PartnerSlug \<Rightarrow> Partner option" where
  "PartnerManager_FindBySlug manager slug = first_some (\<lambda>partner. prt_slug partner = slug) (mvals (pm_byId manager))"

definition PartnerManager_FindByCredential :: "PartnerManager \<Rightarrow> string \<Rightarrow> Partner option" where
  "PartnerManager_FindByCredential manager c =
     (case LocalCredentialsIndex_Find (pm_localCredentialsIndex manager) c of
        None \<Rightarrow> None
      | Some i \<Rightarrow> mget (pm_byId manager) i)"

definition PartnerManager_FindAll :: "PartnerManager \<Rightarrow> Partner list" where
  "PartnerManager_FindAll manager = mvals (pm_byId manager)"

text \<open>Partners of the same priority come in the order of \<^verbatim>\<open>range\<close>.\<close>

definition PartnerManager_FindAllByCollectPriority :: "PartnerManager \<Rightarrow> Partner list" where
  "PartnerManager_FindAllByCollectPriority manager =
     sort_key (\<lambda>partner. - PartnerSettings_CollectPriority (prt_settings partner)) (PartnerManager_FindAll manager)"

definition PartnerManager_Save ::
  "Partner \<Rightarrow> uuid_gen \<Rightarrow> PartnerManager \<Rightarrow> Partner \<times> uuid_gen \<times> PartnerManager" where
  "PartnerManager_Save partner g manager =
     (let (saved, g1) = (if prt_id partner = '''' then (let (u, g1) = NewUUID g in (partner\<lparr>prt_id := u\<rparr>, g1))
                         else (partner, g))
      in (saved, g1, manager\<lparr>pm_byId := mput (prt_id saved) saved (pm_byId manager),
            pm_localCredentialsIndex := LocalCredentialsIndex_Index (prt_id saved)
              (PartnerSettings_Credentials (prt_settings saved)) (pm_localCredentialsIndex manager)\<rparr>))"

definition PartnerManager_Delete :: "Partner \<Rightarrow> PartnerManager \<Rightarrow> PartnerManager" where
  "PartnerManager_Delete partner manager =
     manager\<lparr>pm_localCredentialsIndex := LocalCredentialsIndex_Delete (prt_id partner) (pm_localCredentialsIndex manager),
             pm_byId := mdel (prt_id partner) (pm_byId manager)\<rparr>"

definition PartnerManager_IsEmpty :: "PartnerManager \<Rightarrow> bool" where
  "PartnerManager_IsEmpty manager \<longleftrightarrow> length (pm_byId manager) = 0"

text \<open>A partner that is changed through a pointer changes where it is stored.\<close>

definition on_partner :: "PartnerId \<Rightarrow> (Partner \<Rightarrow> Partner) \<Rightarrow> PartnerManager \<Rightarrow> PartnerManager" where
  "on_partner i f manager =
     (case mget (pm_byId manager) i of
        None \<Rightarrow> manager
      | Some partner \<Rightarrow> manager\<lparr>pm_byId := mput i (f partner) (pm_byId manager)\<rparr>)"

definition Partner_CancelSubscriptions :: "Partner \<Rightarrow> Partner" where
  "Partner_CancelSubscriptions partner =
     partner\<lparr>prt_subscriptions := MemorySubscriptions_CancelSubscriptions (prt_subscriptions partner)\<rparr>"

definition PartnerManager_CancelSubscriptions :: "PartnerManager \<Rightarrow> PartnerManager" where
  "PartnerManager_CancelSubscriptions manager =
     fold (\<lambda>i. on_partner i Partner_CancelSubscriptions) (mkeys (pm_byId manager)) manager"

definition PartnerManager_Start :: "(string \<Rightarrow> int) \<Rightarrow> gotime \<Rightarrow> PartnerManager \<Rightarrow> PartnerManager" where
  "PartnerManager_Start parse_duration now manager =
     fold (\<lambda>i. on_partner i (Partner_Start parse_duration now)) (mkeys (pm_byId manager)) manager"

definition PartnerManager_Stop :: "PartnerManager \<Rightarrow> PartnerManager" where
  "PartnerManager_Stop manager = fold (\<lambda>i. on_partner i Partner_Stop) (mkeys (pm_byId manager)) manager"

section \<open>Validation of a definition against the manager\<close>

definition check_slug :: "APIPartner \<Rightarrow> APIPartner" where
  "check_slug api =
     (if ap_Slug api = '''' then api\<lparr>ap_Errors := Errors_Add ''Slug'' ERROR_BLANK (ap_Errors api)\<rparr>
      else if \<not> slugRegexp (ap_Slug api)
      then api\<lparr>ap_Errors := Errors_Add ''Slug'' ERROR_SLUG_FORMAT (ap_Errors api)\<rparr>
      else api)"

definition check_unique_slug :: "Partner \<Rightarrow> APIPartner \<Rightarrow> APIPartner" where
  "check_unique_slug existingPartner api =
     (if prt_id existingPartner \<noteq> ap_Id api \<and> prt_slug existingPartner = ap_Slug api
      then api\<lparr>ap_Errors := Errors_Add ''Slug'' ERROR_UNIQUE (ap_Errors api)\<rparr> else api)"

definition run_checks :: "factory_check list \<Rightarrow> APIPartner \<Rightarrow> APIPartner option" where
  "run_checks checks api = fold (\<lambda>c acc. Option.bind acc (run_check c)) checks (Some api)"

definition check_credentials :: "PartnerManager \<Rightarrow> APIPartner \<Rightarrow> APIPartner option" where
  "check_credentials manager api =
     (if PartnerManager_UniqCredentials manager (ap_Id api) (APIPartner_credentials api) then Some api
      else do {
        api1 \<leftarrow> (if IsSettingDefined LOCAL_CREDENTIAL api then add_setting_error LOCAL_CREDENTIAL ERROR_UNIQUE api
                 else Some api);
        if IsSettingDefined LOCAL_CREDENTIALS api1 then add_setting_error LOCAL_CREDENTIALS ERROR_UNIQUE api1
        else Some api1 })"

definition APIPartner_Validate :: "PartnerManager \<Rightarrow> APIPartner \<Rightarrow> (bool \<times> APIPartner) option" where
  "APIPartner_Validate manager api = do {
     let api1 = APIPartner_setFactories (check_slug (api\<lparr>ap_Errors := NewErrors\<rparr>));
     api2 \<leftarrow> run_checks (concat (mvals (ap_factories api1))) api1;
     let api3 = fold check_unique_slug (PartnerManager_FindAll manager) api2;
     api4 \<leftarrow> check_credentials manager api3;
     Some (length (ap_Errors api4) = 0, api4) }"

section \<open>The API\<close>

datatype json_body = SyntaxError | WrongType PartnerBody | Parsed PartnerBody

datatype response =
    NotFound
  | BadRequest
  | Rejected Errors
  | Done Partner

definition PartnerController_findPartner :: "PartnerManager \<Rightarrow> string \<Rightarrow> Partner option" where
  "PartnerController_findPartner manager identifier =
     (case PartnerManager_FindBySlug manager identifier of
        Some partner \<Rightarrow> Some partner
      | None \<Rightarrow> PartnerManager_Find manager identifier)"

definition PartnerController_Delete :: "string \<Rightarrow> PartnerManager \<Rightarrow> response \<times> PartnerManager" where
  "PartnerController_Delete identifier manager =
     (case PartnerController_findPartner manager identifier of
        None \<Rightarrow> (NotFound, manager)
      | Some partner \<Rightarrow>
          (Done partner,
           PartnerManager_Delete (Partner_Stop partner) (on_partner (prt_id partner) Partner_Stop manager)))"

text \<open>A body of the wrong type is decoded as far as possible before the error is returned.\<close>

definition PartnerController_Update ::
  "(string \<Rightarrow> int) \<Rightarrow> gotime \<Rightarrow> string \<Rightarrow> json_body \<Rightarrow> uuid_gen \<Rightarrow> PartnerManager \<Rightarrow>
   (response \<times> uuid_gen \<times> PartnerManager) option" where
  "PartnerController_Update parse_duration now identifier json g manager =
     (case PartnerController_findPartner manager identifier of
        None \<Rightarrow> Some (NotFound, g, manager)
      | Some partner \<Rightarrow>
          (case json of
             SyntaxError \<Rightarrow> Some (BadRequest, g, manager)
           | WrongType body \<Rightarrow> Some (BadRequest, g, on_partner (prt_id partner) (unmarshal_shared body) manager)
           | Parsed body \<Rightarrow>
               (let api = APIPartner_UnmarshalJSON body (Partner_Definition partner);
                    partner1 = unmarshal_shared body partner;
                    manager1 = on_partner (prt_id partner) (unmarshal_shared body) manager
                in if ap_Id api \<noteq> prt_id partner1 then Some (BadRequest, g, manager1)
                   else do {
                     (valid, api1) \<leftarrow> APIPartner_Validate manager1 api;
                     if \<not> valid then Some (Rejected (ap_Errors api1), g, manager1)
                     else (let partner2 = Partner_SetDefinition api1 (Partner_Stop partner1);
                               (partner3, g1, manager2) = PartnerManager_Save partner2 g manager1;
                               partner4 = Partner_Start parse_duration now partner3
                           in Some (Done partner4, g1, on_partner (prt_id partner4) (\<lambda>_. partner4) manager2)) })))"

definition PartnerController_Create ::
  "(string \<Rightarrow> int) \<Rightarrow> gotime \<Rightarrow> json_body \<Rightarrow> uuid_gen \<Rightarrow> PartnerManager \<Rightarrow>
   (response \<times> uuid_gen \<times> PartnerManager) option" where
  "PartnerController_Create parse_duration now json g manager =
     (case json of
        SyntaxError \<Rightarrow> Some (BadRequest, g, manager)
      | WrongType body \<Rightarrow> Some (BadRequest, g, manager)
      | Parsed body \<Rightarrow>
          (let partner = PartnerManager_New '''';
               api = APIPartner_UnmarshalJSON body (Partner_Definition partner)
           in if ap_Id api \<noteq> '''' then Some (BadRequest, g, manager)
              else do {
                (valid, api1) \<leftarrow> APIPartner_Validate manager api;
                if \<not> valid then Some (Rejected (ap_Errors api1), g, manager)
                else (let partner1 = Partner_SetDefinition api1 partner;
                          (partner2, g1, manager1) = PartnerManager_Save partner1 g manager;
                          partner3 = Partner_Start parse_duration now partner2
                      in Some (Done partner3, g1, on_partner (prt_id partner3) (\<lambda>_. partner3) manager1)) }))"

end
