(* ===== verification/PartnerProps.thy ===== *)
theory PartnerProps
  imports PartnerManagers
begin

text \<open>
  What the operations on partners do: the connectors of a partner after a definition, the validation of
  definitions, and the invariant of the manager under the operations of the API.
\<close>

section \<open>Connectors\<close>

lemma search_sorted:
  assumes "sorted a"
  shows "(SearchStrings a x = length a \<or> a ! SearchStrings a x \<noteq> x) \<longleftrightarrow> x \<notin> set a"
  using assms
proof (induction a)
  case (Cons y a)
  show ?case
  proof (cases "y < x")
    case True
    with Cons show ?thesis by (auto simp: SearchStrings_def)
  next
    case False
    with Cons.prems show ?thesis by (auto simp: SearchStrings_def)
  qed
qed (simp add: SearchStrings_def)

lemma has_subscribers: "Partner_hasSubscribers p \<longleftrightarrow> (\<exists>t \<in> set subscription_broadcasters. has_connector p t)"
  by (auto simp: Partner_hasSubscribers_def subscription_broadcasters_def)

lemma dispatcher_not_broadcaster: "SIRI_SUBSCRIPTION_REQUEST_DISPATCHER \<notin> set subscription_broadcasters"
  by (simp add: subscription_broadcasters_def connector_types)

lemma cleanConnector_sel [simp]:
  "prt_ConnectorTypes (cleanConnector t p) = prt_ConnectorTypes p" "prt_id (cleanConnector t p) = prt_id p"
  "prt_slug (cleanConnector t p) = prt_slug p" "prt_settings (cleanConnector t p) = prt_settings p"
  by (simp_all add: cleanConnector_def Let_def)

lemma has_cleanConnector:
  assumes "sorted (prt_ConnectorTypes p)"
  shows "has_connector (cleanConnector t p) c \<longleftrightarrow>
    has_connector p c \<and>
    (c = t \<longrightarrow> t \<in> set (prt_ConnectorTypes p) \<or>
       t = SIRI_SUBSCRIPTION_REQUEST_DISPATCHER \<and> Partner_hasSubscribers p)"
  using search_sorted [OF assms, of t] by (auto simp: cleanConnector_def has_connector_def Let_def)

lemma fold_cleanConnector_sel [simp]:
  "prt_ConnectorTypes (fold cleanConnector ts p) = prt_ConnectorTypes p"
  "prt_id (fold cleanConnector ts p) = prt_id p"
  "prt_slug (fold cleanConnector ts p) = prt_slug p"
  "prt_settings (fold cleanConnector ts p) = prt_settings p"
  by (induction ts arbitrary: p) simp_all

lemma has_fold_clean:
  assumes "sorted (prt_ConnectorTypes p)" and "c \<noteq> SIRI_SUBSCRIPTION_REQUEST_DISPATCHER"
  shows "has_connector (fold cleanConnector ts p) c \<longleftrightarrow>
    has_connector p c \<and> (c \<in> set ts \<longrightarrow> c \<in> set (prt_ConnectorTypes p))"
  using assms
proof (induction ts arbitrary: p)
  case (Cons t ts)
  from Cons.IH [of "cleanConnector t p"] Cons.prems show ?case
    by (auto simp: has_cleanConnector)
qed simp

lemma dispatcher_kept:
  assumes "sorted (prt_ConnectorTypes p)" and "has_connector p SIRI_SUBSCRIPTION_REQUEST_DISPATCHER"
    and "SIRI_SUBSCRIPTION_REQUEST_DISPATCHER \<in> set (prt_ConnectorTypes p) \<or>
      (\<exists>b \<in> set subscription_broadcasters. has_connector p b \<and> b \<in> set (prt_ConnectorTypes p))"
  shows "has_connector (fold cleanConnector ts p) SIRI_SUBSCRIPTION_REQUEST_DISPATCHER"
  using assms
proof (induction ts arbitrary: p)
  case (Cons t ts)
  have "has_connector (cleanConnector t p) SIRI_SUBSCRIPTION_REQUEST_DISPATCHER"
    using Cons.prems by (auto simp: has_cleanConnector has_subscribers)
  moreover have "has_connector (cleanConnector t p) b"
    if "b \<in> set subscription_broadcasters" "has_connector p b" "b \<in> set (prt_ConnectorTypes p)" for b
    using that Cons.prems(1) by (auto simp: has_cleanConnector)
  ultimately show ?case using Cons.IH [of "cleanConnector t p"] Cons.prems(1,3) by auto
qed simp

lemma dispatcher_removed:
  assumes "sorted (prt_ConnectorTypes p)" and "SIRI_SUBSCRIPTION_REQUEST_DISPATCHER \<notin> set (prt_ConnectorTypes p)"
    and "\<not> Partner_hasSubscribers p" and "SIRI_SUBSCRIPTION_REQUEST_DISPATCHER \<in> set ts"
  shows "\<not> has_connector (fold cleanConnector ts p) SIRI_SUBSCRIPTION_REQUEST_DISPATCHER"
proof -
  have stays: "\<not> has_connector (fold cleanConnector ts p) c" if "\<not> has_connector p c" "sorted (prt_ConnectorTypes p)" for ts p c
    using that by (induction ts arbitrary: p) (simp_all add: has_cleanConnector)
  show ?thesis using assms
  proof (induction ts arbitrary: p)
    case (Cons t ts)
    show ?case
    proof (cases "t = SIRI_SUBSCRIPTION_REQUEST_DISPATCHER")
      case True
      with Cons.prems have "\<not> has_connector (cleanConnector t p) SIRI_SUBSCRIPTION_REQUEST_DISPATCHER"
        by (simp add: has_cleanConnector)
      from stays [OF this, of ts] Cons.prems(1) show ?thesis by simp
    next
      case False
      have "\<not> Partner_hasSubscribers (cleanConnector t p)"
        using Cons.prems by (auto simp: has_subscribers has_cleanConnector)
      with Cons False show ?thesis by simp
    qed
  qed simp
qed

lemma add_connector_sel [simp]:
  "prt_ConnectorTypes (add_connector t p) = prt_ConnectorTypes p" "prt_id (add_connector t p) = prt_id p"
  "prt_slug (add_connector t p) = prt_slug p" "prt_settings (add_connector t p) = prt_settings p"
  by (simp_all add: add_connector_def CreateConnector_def Partner_CreateSubscriptionRequestDispatcher_def Let_def)

lemma has_add_connector:
  "has_connector (add_connector t p) c \<longleftrightarrow>
     has_connector p c \<or> c = t \<or>
     c = SIRI_SUBSCRIPTION_REQUEST_DISPATCHER \<and> t \<in> set subscription_broadcasters \<and> \<not> has_connector p t"
  by (auto simp: add_connector_def CreateConnector_def Partner_CreateSubscriptionRequestDispatcher_def
      has_connector_def Let_def)

lemma fold_add_connector_sel [simp]:
  "prt_ConnectorTypes (fold add_connector ts p) = prt_ConnectorTypes p"
  "prt_id (fold add_connector ts p) = prt_id p"
  "prt_slug (fold add_connector ts p) = prt_slug p"
  "prt_settings (fold add_connector ts p) = prt_settings p"
  by (induction ts arbitrary: p) simp_all

lemma has_fold_add:
  "has_connector (fold add_connector ts p) c \<longleftrightarrow>
     has_connector p c \<or> c \<in> set ts \<or>
     c = SIRI_SUBSCRIPTION_REQUEST_DISPATCHER \<and> (\<exists>t \<in> set ts \<inter> set subscription_broadcasters. \<not> has_connector p t)"
proof (induction ts arbitrary: p)
  case (Cons t ts)
  show ?case using dispatcher_not_broadcaster by (auto simp: Cons.IH has_add_connector)
qed simp

lemma add_subset_connectors: "has_connector p c \<Longrightarrow> has_connector (fold add_connector ts p) c"
  by (simp add: has_fold_add)

text \<open>Known types only, and a dispatcher beside every subscription broadcaster.\<close>

definition connectors_inv :: "Partner \<Rightarrow> bool" where
  "connectors_inv p \<longleftrightarrow>
     (\<forall>t. has_connector p t \<longrightarrow> NewConnectorFactory t \<noteq> None) \<and>
     (Partner_hasSubscribers p \<longrightarrow> has_connector p SIRI_SUBSCRIPTION_REQUEST_DISPATCHER)"

lemma connectors_inv_new: "connectors_inv (PartnerManager_New slug)"
  by (simp add: connectors_inv_def has_subscribers has_connector_def PartnerManager_New_def)

lemma dispatcher_known: "NewConnectorFactory SIRI_SUBSCRIPTION_REQUEST_DISPATCHER \<noteq> None"
  by (simp add: NewConnectorFactory_def connector_factories_def connector_types Let_def)

lemma has_cleanConnectors:
  "c \<noteq> SIRI_SUBSCRIPTION_REQUEST_DISPATCHER \<Longrightarrow>
     has_connector (Partner_cleanConnectors p) c \<longleftrightarrow> has_connector p c \<and> c \<in> set (prt_ConnectorTypes p)"
  unfolding Partner_cleanConnectors_def
  by (subst has_fold_clean) (auto simp: has_connector_def)

lemma cleaned_dispatcher:
  assumes "has_connector p SIRI_SUBSCRIPTION_REQUEST_DISPATCHER"
  shows "SIRI_SUBSCRIPTION_REQUEST_DISPATCHER \<in> set (prt_ConnectorTypes p) \<or>
      (\<exists>b \<in> set subscription_broadcasters. has_connector p b \<and> b \<in> set (prt_ConnectorTypes p)) \<Longrightarrow>
      has_connector (Partner_cleanConnectors p) SIRI_SUBSCRIPTION_REQUEST_DISPATCHER"
    and "SIRI_SUBSCRIPTION_REQUEST_DISPATCHER \<notin> set (prt_ConnectorTypes p) \<Longrightarrow> \<not> Partner_hasSubscribers p \<Longrightarrow>
      \<not> has_connector (Partner_cleanConnectors p) SIRI_SUBSCRIPTION_REQUEST_DISPATCHER"
proof -
  let ?p = "p\<lparr>prt_ConnectorTypes := sort (prt_ConnectorTypes p)\<rparr>"
  have h: "has_connector ?p c = has_connector p c" for c by (simp add: has_connector_def)
  {
    assume "SIRI_SUBSCRIPTION_REQUEST_DISPATCHER \<in> set (prt_ConnectorTypes p) \<or>
      (\<exists>b \<in> set subscription_broadcasters. has_connector p b \<and> b \<in> set (prt_ConnectorTypes p))"
    with assms show "has_connector (Partner_cleanConnectors p) SIRI_SUBSCRIPTION_REQUEST_DISPATCHER"
      unfolding Partner_cleanConnectors_def by (intro dispatcher_kept) (simp_all add: h)
  next
    assume "SIRI_SUBSCRIPTION_REQUEST_DISPATCHER \<notin> set (prt_ConnectorTypes p)" "\<not> Partner_hasSubscribers p"
    with assms show "\<not> has_connector (Partner_cleanConnectors p) SIRI_SUBSCRIPTION_REQUEST_DISPATCHER"
      unfolding Partner_cleanConnectors_def
      by (intro dispatcher_removed) (simp_all add: h has_subscribers, simp add: has_connector_def)
  }
qed

lemma clean_no_more: "has_connector (Partner_cleanConnectors p) c \<Longrightarrow> has_connector p c"
proof -
  have one: "has_connector (cleanConnector t q) c \<Longrightarrow> has_connector q c" for t q
    unfolding cleanConnector_def has_connector_def Let_def by (simp split: if_splits)
  have "has_connector (fold cleanConnector ts q) c \<Longrightarrow> has_connector q c" for ts q
  proof (induction ts arbitrary: q)
    case (Cons t ts)
    then have "has_connector (cleanConnector t q) c" by simp
    then show ?case by (rule one)
  qed simp
  from this [of "prt_connectors p" "p\<lparr>prt_ConnectorTypes := sort (prt_ConnectorTypes p)\<rparr>"]
  show "has_connector (Partner_cleanConnectors p) c \<Longrightarrow> has_connector p c"
    by (simp add: Partner_cleanConnectors_def has_connector_def)
qed

section \<open>Validation\<close>

text \<open>A step of the validation changes the errors alone, never crashes, and leaves the definition without
  error exactly when it had none and passes the check.\<close>

definition errors_ok :: "APIPartner \<Rightarrow> bool" where
  "errors_ok api \<longleftrightarrow> (\<forall>ms. mget (ap_Errors api) SETTINGS \<noteq> Some (Messages ms))"

definition checked :: "bool \<Rightarrow> APIPartner \<Rightarrow> APIPartner \<Rightarrow> bool" where
  "checked ok a b \<longleftrightarrow> b = a\<lparr>ap_Errors := ap_Errors b\<rparr> \<and> errors_ok b \<and> (ap_Errors b = [] \<longleftrightarrow> ap_Errors a = [] \<and> ok)"

lemma checked_refl: "errors_ok a \<Longrightarrow> checked True a a"
  by (simp add: checked_def)

lemma checked_trans:
  assumes "checked P a b" and "checked Q b c"
  shows "checked (P \<and> Q) a c"
proof -
  have "c = a\<lparr>ap_Errors := ap_Errors c\<rparr>"
    using assms unfolding checked_def by (metis APIPartner.cases APIPartner.update_convs(6))
  with assms show ?thesis unfolding checked_def by blast
qed

lemma mget_Errors_Add: "a \<noteq> attribute \<Longrightarrow> mget (Errors_Add attribute message errors) a = mget errors a"
  by (simp add: Errors_Add_def Errors_added_def gomap_simps split: option.split error_value.split)

lemma checked_error:
  "errors_ok a \<Longrightarrow> attribute \<noteq> SETTINGS \<Longrightarrow>
     checked False a (a\<lparr>ap_Errors := Errors_Add attribute message (ap_Errors a)\<rparr>)"
  using Add_never_empty by (auto simp: checked_def errors_ok_def mget_Errors_Add)

lemma checked_setting_error:
  assumes "errors_ok a"
  shows "\<exists>b. add_setting_error setting message a = Some b \<and> checked False a b"
proof -
  have "\<exists>e. Errors_AddSettingError setting message (ap_Errors a) = Some e \<and> e \<noteq> [] \<and>
      (\<forall>ms. mget e SETTINGS \<noteq> Some (Messages ms))"
    using assms by (auto simp: Errors_AddSettingError_def errors_ok_def update_nonempty gomap_simps
        split: option.splits error_value.splits)
  then show ?thesis by (auto simp: add_setting_error_def checked_def errors_ok_def)
qed

fun check_ok :: "APIPartner \<Rightarrow> factory_check \<Rightarrow> bool" where
  "check_ok api (RequireSetting setting) = IsSettingDefined setting api"
| "check_ok api RequireLocalCredentials = (IsSettingDefined LOCAL_CREDENTIAL api \<or> IsSettingDefined LOCAL_CREDENTIALS api)"
| "check_ok api RefuseInvalidSlug = (ap_Slug api \<noteq> ''invalid_slug'')"

lemma checked_check:
  assumes "errors_ok a"
  shows "\<exists>b. run_check c a = Some b \<and> checked (check_ok a c) a b"
proof (cases c)
  case (RequireSetting setting)
  with checked_setting_error [OF assms] checked_refl [OF assms] show ?thesis
    by (cases "IsSettingDefined setting a") (simp_all add: ValidatePresenceOfSetting_def)
next
  case RequireLocalCredentials
  with checked_setting_error [OF assms] checked_refl [OF assms] show ?thesis
    by (cases "IsSettingDefined LOCAL_CREDENTIAL a \<or> IsSettingDefined LOCAL_CREDENTIALS a")
      (auto simp: ValidatePresenceOfLocalCredentials_def)
next
  case RefuseInvalidSlug
  with checked_error [OF assms, of "''slug''"] checked_refl [OF assms] show ?thesis
    by (simp add: SETTINGS_def)
qed

lemma check_ok_errors: "check_ok (a\<lparr>ap_Errors := e\<rparr>) c = check_ok a c"
  by (cases c) (simp_all add: IsSettingDefined_def ap_setting_def)

lemma checked_checks:
  "errors_ok a \<Longrightarrow> \<exists>b. run_checks cs a = Some b \<and> checked (\<forall>c \<in> set cs. check_ok a c) a b"
proof (induction cs arbitrary: a)
  case Nil
  then show ?case by (simp add: run_checks_def checked_refl)
next
  case (Cons c cs)
  obtain b where b: "run_check c a = Some b" "checked (check_ok a c) a b"
    using checked_check [OF Cons.prems] by blast
  then have ok: "errors_ok b" and eq: "b = a\<lparr>ap_Errors := ap_Errors b\<rparr>" by (simp_all only: checked_def)
  obtain d where d: "run_checks cs b = Some d" "checked (\<forall>c \<in> set cs. check_ok b c) b d"
    using Cons.IH [OF ok] by blast
  have "check_ok b c = check_ok a c" for c by (subst eq) (rule check_ok_errors)
  with checked_trans [OF b(2) d(2)] have "checked (\<forall>c \<in> set (c # cs). check_ok a c) a d" by simp
  moreover have "run_checks (c # cs) a = Some d" using b(1) d(1) by (simp add: run_checks_def)
  ultimately show ?case by blast
qed

lemma checked_slug: "errors_ok a \<Longrightarrow> checked (slugRegexp (ap_Slug a)) a (check_slug a)"
  using checked_error [of a "''Slug''"] checked_refl [of a]
  by (auto simp: check_slug_def SETTINGS_def slugRegexp_def)

lemma checked_unique_slug:
  "errors_ok a \<Longrightarrow> checked (\<not> (prt_id p \<noteq> ap_Id a \<and> prt_slug p = ap_Slug a)) a (check_unique_slug p a)"
  using checked_error [of a "''Slug''"] checked_refl [of a]
  by (auto simp: check_unique_slug_def SETTINGS_def)

lemma checked_unique_slugs:
  "errors_ok a \<Longrightarrow>
     checked (\<forall>p \<in> set ps. \<not> (prt_id p \<noteq> ap_Id a \<and> prt_slug p = ap_Slug a)) a (fold check_unique_slug ps a)"
proof (induction ps arbitrary: a)
  case (Cons p ps)
  let ?b = "check_unique_slug p a"
  have b: "checked (\<not> (prt_id p \<noteq> ap_Id a \<and> prt_slug p = ap_Slug a)) a ?b"
    by (rule checked_unique_slug [OF Cons.prems])
  then have ok: "errors_ok ?b" by (simp only: checked_def)
  have same: "ap_Id ?b = ap_Id a" "ap_Slug ?b = ap_Slug a" by (simp_all add: check_unique_slug_def)
  from checked_trans [OF b Cons.IH [OF ok]] show ?case unfolding same by simp
qed (simp add: checked_refl)

lemma no_credentials: "splitCredentials '','' = []"
  by (simp add: splitCredentials_def TrimSpace_def)

lemma checked_credentials:
  assumes "errors_ok a"
  shows "\<exists>b. check_credentials manager a = Some b \<and>
    checked (PartnerManager_UniqCredentials manager (ap_Id a) (APIPartner_credentials a)) a b"
proof (cases "PartnerManager_UniqCredentials manager (ap_Id a) (APIPartner_credentials a)")
  case True
  then show ?thesis using checked_refl [OF assms] by (simp add: check_credentials_def)
next
  case False
  have some: "IsSettingDefined LOCAL_CREDENTIAL a \<or> IsSettingDefined LOCAL_CREDENTIALS a"
  proof (rule ccontr)
    assume "\<not> ?thesis"
    then have "APIPartner_credentials a = '',''"
      by (simp add: APIPartner_credentials_def IsSettingDefined_def given_def)
    with False show False
      by (simp add: PartnerManager_UniqCredentials_def LocalCredentialsIndex_UniqCredentials_def no_credentials)
  qed
  obtain e where e: "add_setting_error LOCAL_CREDENTIAL ERROR_UNIQUE a = Some e" "checked False a e"
    using checked_setting_error [OF assms] by blast
  then have ok: "errors_ok e" and eq: "e = a\<lparr>ap_Errors := ap_Errors e\<rparr>" by (simp_all only: checked_def)
  obtain f where f: "add_setting_error LOCAL_CREDENTIALS ERROR_UNIQUE e = Some f" "checked False e f"
    using checked_setting_error [OF ok] by blast
  obtain h where h: "add_setting_error LOCAL_CREDENTIALS ERROR_UNIQUE a = Some h" "checked False a h"
    using checked_setting_error [OF assms] by blast
  have same: "IsSettingDefined s e = IsSettingDefined s a" for s
    by (subst eq) (simp add: IsSettingDefined_def ap_setting_def)
  from some False e(2) h(2) checked_trans [OF e(2) f(2)] show ?thesis
    by (cases "IsSettingDefined LOCAL_CREDENTIAL a"; cases "IsSettingDefined LOCAL_CREDENTIALS a")
      (simp_all add: check_credentials_def e(1) f(1) h(1) same)
qed

lemma fold_setFactories:
  "fold (\<lambda>connectorType api. case NewConnectorFactory connectorType of None \<Rightarrow> api
      | Some factory \<Rightarrow> api\<lparr>ap_factories := mput connectorType factory (ap_factories api)\<rparr>) ts api =
   api\<lparr>ap_factories := fold (\<lambda>t m. case NewConnectorFactory t of None \<Rightarrow> m | Some f \<Rightarrow> mput t f m) ts (ap_factories api)\<rparr>"
  by (induction ts arbitrary: api) (simp_all split: option.split)

definition factories_of :: "string list \<Rightarrow> (string, factory_check list) gomap" where
  "factories_of ts = fold (\<lambda>t m. case NewConnectorFactory t of None \<Rightarrow> m | Some f \<Rightarrow> mput t f m) ts []"

lemma setFactories_eq:
  "ap_factories api = [] \<Longrightarrow> APIPartner_setFactories api = api\<lparr>ap_factories := factories_of (ap_ConnectorTypes api)\<rparr>"
  by (simp add: APIPartner_setFactories_def fold_setFactories factories_of_def)

lemma mget_factories: "mget (factories_of ts) t = (if t \<in> set ts then NewConnectorFactory t else None)"
proof -
  have "mget (fold (\<lambda>t m. case NewConnectorFactory t of None \<Rightarrow> m | Some f \<Rightarrow> mput t f m) ts m) t =
      (if t \<in> set ts \<and> NewConnectorFactory t \<noteq> None then NewConnectorFactory t else mget m t)" for m
    by (induction ts arbitrary: m) (auto simp: gomap_simps split: option.splits)
  then show ?thesis by (auto simp: factories_of_def)
qed

lemma mwf_factories: "mwf (factories_of ts)"
proof -
  have "mwf m \<Longrightarrow> mwf (fold (\<lambda>t m. case NewConnectorFactory t of None \<Rightarrow> m | Some f \<Rightarrow> mput t f m) ts m)" for m
    by (induction ts arbitrary: m) (simp_all split: option.split)
  then show ?thesis by (simp add: factories_of_def)
qed

lemma keys_factories: "set (mkeys (factories_of ts)) = {t \<in> set ts. NewConnectorFactory t \<noteq> None}"
proof -
  have "t \<in> set (mkeys (factories_of ts)) \<longleftrightarrow> t \<in> set ts \<and> NewConnectorFactory t \<noteq> None" for t
    unfolding mhas_iff [symmetric] mhas_def by (simp add: mget_factories)
  then show ?thesis by blast
qed

text \<open>A definition is accepted exactly when its slug is well formed and not that of another partner, it has
  the settings its connectors need, and its credentials are not those of another partner. The result is the
  definition with its factories, and the validation does not crash.\<close>

definition valid_definition :: "PartnerManager \<Rightarrow> APIPartner \<Rightarrow> bool" where
  "valid_definition manager api \<longleftrightarrow>
     slugRegexp (ap_Slug api) \<and>
     (\<forall>t \<in> set (ap_ConnectorTypes api). \<forall>checks. NewConnectorFactory t = Some checks \<longrightarrow> (\<forall>c \<in> set checks. check_ok api c)) \<and>
     (\<forall>p \<in> set (PartnerManager_FindAll manager). \<not> (prt_id p \<noteq> ap_Id api \<and> prt_slug p = ap_Slug api)) \<and>
     PartnerManager_UniqCredentials manager (ap_Id api) (APIPartner_credentials api)"

lemma Validate_spec:
  assumes "ap_factories api = []"
  shows "\<exists>e. APIPartner_Validate manager api =
      Some (valid_definition manager api,
            api\<lparr>ap_Errors := e, ap_factories := factories_of (ap_ConnectorTypes api)\<rparr>)"
proof -
  let ?a = "api\<lparr>ap_Errors := NewErrors\<rparr>"
  let ?f = "factories_of (ap_ConnectorTypes api)"
  have "errors_ok ?a" by (simp add: errors_ok_def NewErrors_def)
  then have s: "checked (slugRegexp (ap_Slug api)) ?a (check_slug ?a)" using checked_slug [of ?a] by simp
  define e1 where "e1 = ap_Errors (check_slug ?a)"
  define b where "b = APIPartner_setFactories (check_slug ?a)"
  have eq: "check_slug ?a = api\<lparr>ap_Errors := e1\<rparr>" and ok1: "errors_ok (check_slug ?a)"
    and e1: "e1 = [] \<longleftrightarrow> slugRegexp (ap_Slug api)"
    using s unfolding checked_def e1_def by (simp_all add: NewErrors_def)
  have b: "b = api\<lparr>ap_Errors := e1, ap_factories := ?f\<rparr>" "errors_ok b"
    "ap_Errors b = [] \<longleftrightarrow> slugRegexp (ap_Slug api)"
    using ok1 e1 unfolding b_def eq by (simp_all add: setFactories_eq assms errors_ok_def)
  obtain c where c: "run_checks (concat (mvals ?f)) b = Some c"
    "checked (\<forall>x \<in> set (concat (mvals ?f)). check_ok b x) b c" using checked_checks [OF b(2)] by blast
  define d where "d = fold check_unique_slug (PartnerManager_FindAll manager) c"
  have d: "checked (\<forall>p \<in> set (PartnerManager_FindAll manager). \<not> (prt_id p \<noteq> ap_Id c \<and> prt_slug p = ap_Slug c)) c d"
    unfolding d_def using c(2) by (intro checked_unique_slugs) (simp only: checked_def)
  obtain h where h: "check_credentials manager d = Some h"
    "checked (PartnerManager_UniqCredentials manager (ap_Id d) (APIPartner_credentials d)) d h"
    using checked_credentials d unfolding checked_def by metis
  have "ap_factories b = ?f" using b(1) by simp
  then have v: "APIPartner_Validate manager api = Some (length (ap_Errors h) = 0, h)"
    using c(1) h(1) unfolding APIPartner_Validate_def b_def [symmetric] Let_def by (simp add: d_def [symmetric])
  have eqs: "c = b\<lparr>ap_Errors := ap_Errors c\<rparr>" "d = c\<lparr>ap_Errors := ap_Errors d\<rparr>" "h = d\<lparr>ap_Errors := ap_Errors h\<rparr>"
    using c(2) d h(2) by (simp_all only: checked_def)
  have sel: "ap_Id c = ap_Id api" "ap_Slug c = ap_Slug api" "ap_Id d = ap_Id api"
    "APIPartner_credentials d = APIPartner_credentials api"
    by (subst eqs(1), simp add: b(1), subst eqs(1), simp add: b(1), subst eqs(2), subst eqs(1), simp add: b(1),
        subst eqs(2), subst eqs(1), simp add: b(1) APIPartner_credentials_def ap_setting_def)
  have ok: "check_ok b x = check_ok api x" for x
    by (cases x) (simp_all add: b(1) IsSettingDefined_def ap_setting_def)
  have vals: "set (mvals ?f) = {f. \<exists>t \<in> set (ap_ConnectorTypes api). NewConnectorFactory t = Some f}"
    by (auto simp: mvals_iff [OF mwf_factories] mget_factories simp del: set_map split: if_splits)
  have h_eq: "h = api\<lparr>ap_Errors := ap_Errors h, ap_factories := ?f\<rparr>"
    by (subst eqs(3), subst eqs(2), subst eqs(1), simp add: b(1))
  have checks: "(\<forall>x \<in> set (concat (mvals ?f)). check_ok api x) \<longleftrightarrow>
      (\<forall>t \<in> set (ap_ConnectorTypes api). \<forall>checks. NewConnectorFactory t = Some checks \<longrightarrow> (\<forall>c \<in> set checks. check_ok api c))"
    unfolding set_concat vals by blast
  have "ap_Errors c = [] \<longleftrightarrow> ap_Errors b = [] \<and> (\<forall>x \<in> set (concat (mvals ?f)). check_ok api x)"
    using c(2) unfolding checked_def ok by (rule conjunct2 [OF conjunct2])
  moreover have "ap_Errors d = [] \<longleftrightarrow> ap_Errors c = [] \<and>
      (\<forall>p \<in> set (PartnerManager_FindAll manager). \<not> (prt_id p \<noteq> ap_Id api \<and> prt_slug p = ap_Slug api))"
    using d unfolding checked_def sel by (rule conjunct2 [OF conjunct2])
  moreover have "ap_Errors h = [] \<longleftrightarrow> ap_Errors d = [] \<and>
      PartnerManager_UniqCredentials manager (ap_Id api) (APIPartner_credentials api)"
    using h(2) unfolding checked_def sel by (rule conjunct2 [OF conjunct2])
  ultimately have iff: "length (ap_Errors h) = 0 \<longleftrightarrow> valid_definition manager api"
    unfolding valid_definition_def b(3) checks length_0_conv by (simp only: conj_assoc)
  show ?thesis
  proof
    show "APIPartner_Validate manager api =
        Some (valid_definition manager api, api\<lparr>ap_Errors := ap_Errors h, ap_factories := ?f\<rparr>)"
      using v unfolding iff h_eq [symmetric] .
  qed
qed

section \<open>The credentials of a partner\<close>

definition parts :: "string \<Rightarrow> string set" where
  "parts s = TrimSpace ` set (split_at (CHR '','') s)"

lemma split_pair:
  "c \<noteq> '''' \<Longrightarrow> c \<in> set (splitCredentials (a @ '','' @ b)) \<longleftrightarrow> c \<in> parts a \<or> c \<in> parts b"
  by (auto simp: in_splitCredentials parts_def split_at_append)

lemma parts_empty: "parts '''' = {''''}"
  by (simp add: parts_def TrimSpace_def)

lemma in_partner_credentials:
  "c \<noteq> '''' \<Longrightarrow> c \<in> set (splitCredentials (PartnerSettings_Credentials s)) \<longleftrightarrow>
     c \<in> parts (mget_or '''' (ps_s s) LOCAL_CREDENTIAL) \<or> c \<in> parts (mget_or '''' (ps_s s) LOCAL_CREDENTIALS)"
  by (cases "mhas (ps_s s) LOCAL_CREDENTIAL \<or> mhas (ps_s s) LOCAL_CREDENTIALS")
    (auto simp: PartnerSettings_Credentials_def split_pair [simplified] parts_empty mget_or_def mhas_def)

lemma in_api_credentials:
  "c \<noteq> '''' \<Longrightarrow> c \<in> set (splitCredentials (APIPartner_credentials api)) \<longleftrightarrow>
     c \<in> parts (given (ap_setting api LOCAL_CREDENTIAL) '''') \<or> c \<in> parts (given (ap_setting api LOCAL_CREDENTIALS) '''')"
  by (simp add: APIPartner_credentials_def split_pair [simplified])

text \<open>The settings of a definition are added to those there are: a credential of the result is one of the
  definition or one the partner had.\<close>

definition settings_ok :: "APIPartner \<Rightarrow> bool" where
  "settings_ok api \<longleftrightarrow> (\<forall>m. ap_Settings api = Some m \<longrightarrow> mwf m)"

lemma mget_SetSettingsDefinition:
  "settings_ok api \<Longrightarrow>
     mget (ps_s (PartnerSettings_SetSettingsDefinition (ap_Settings api) s)) k =
     (case ap_setting api k of None \<Rightarrow> mget (ps_s s) k | Some v \<Rightarrow> Some v)"
  by (auto simp: PartnerSettings_SetSettingsDefinition_def settings_ok_def ap_setting_def mget_overlay map_add_def
      split: option.split)

lemma merged_credentials:
  assumes "settings_ok api" and "c \<noteq> ''''"
    and "c \<in> set (splitCredentials (PartnerSettings_Credentials
           (PartnerSettings_SetSettingsDefinition (ap_Settings api) s)))"
  shows "c \<in> set (splitCredentials (APIPartner_credentials api)) \<or>
    c \<in> set (splitCredentials (PartnerSettings_Credentials s))"
  using assms(3) unfolding in_partner_credentials [OF assms(2)] in_api_credentials [OF assms(2)] mget_or_def
    mget_SetSettingsDefinition [OF assms(1)]
  by (auto simp: given_def split: option.splits)

section \<open>The invariant of the manager\<close>

definition stored_credentials :: "PartnerManager \<Rightarrow> PartnerId \<Rightarrow> string set" where
  "stored_credentials m i =
     (case mget (pm_byId m) i of None \<Rightarrow> {}
      | Some p \<Rightarrow> set (splitCredentials (PartnerSettings_Credentials (prt_settings p))))"

definition credentials_inv :: "PartnerManager \<Rightarrow> bool" where
  "credentials_inv m \<longleftrightarrow>
     credentials_sound (pm_localCredentialsIndex m) \<and>
     (\<forall>i. credentials_of (pm_localCredentialsIndex m) i = stored_credentials m i) \<and>
     (\<forall>c i. c \<noteq> '''' \<and> c \<in> stored_credentials m i \<longrightarrow>
        LocalCredentialsIndex_Find (pm_localCredentialsIndex m) c = Some i)"

definition slugs_inv :: "(PartnerId, Partner) gomap \<Rightarrow> bool" where
  "slugs_inv byId \<longleftrightarrow>
     mwf byId \<and> mget byId '''' = None \<and>
     (\<forall>i p. mget byId i = Some p \<longrightarrow> prt_id p = i \<and> slugRegexp (prt_slug p) \<and> connectors_inv p) \<and>
     (\<forall>i j p q. mget byId i = Some p \<and> mget byId j = Some q \<and> prt_slug p = prt_slug q \<longrightarrow> i = j)"

definition manager_inv :: "PartnerManager \<Rightarrow> bool" where
  "manager_inv m \<longleftrightarrow> slugs_inv (pm_byId m) \<and> credentials_inv m"

lemma manager_inv_new: "manager_inv NewPartnerManager"
  using credentials_new by (auto simp: manager_inv_def slugs_inv_def credentials_inv_def NewPartnerManager_def
      stored_credentials_def credentials_abs_def holds_credential_def)

text \<open>Changing what is not in an index.\<close>

definition same_definition :: "Partner \<Rightarrow> Partner \<Rightarrow> bool" where
  "same_definition p q \<longleftrightarrow>
     prt_id q = prt_id p \<and> prt_slug q = prt_slug p \<and> prt_settings q = prt_settings p \<and>
     prt_connectors q = prt_connectors p"

lemma connectors_inv_cong: "prt_connectors q = prt_connectors p \<Longrightarrow> connectors_inv q = connectors_inv p"
  by (simp add: connectors_inv_def has_subscribers has_connector_def)

lemma slugs_inv_stored:
  assumes "slugs_inv byId" and "mget byId i = Some p"
  shows "prt_id p = i" and "slugRegexp (prt_slug p)" and "connectors_inv p" and "i \<noteq> ''''"
    and "mget byId j = Some q \<Longrightarrow> j \<noteq> i \<Longrightarrow> prt_slug q \<noteq> prt_slug p"
proof -
  show "prt_id p = i" "slugRegexp (prt_slug p)" "connectors_inv p"
    using assms unfolding slugs_inv_def by simp_all
  show "i \<noteq> ''''" using assms unfolding slugs_inv_def by (cases "i = ''''") simp_all
  show "mget byId j = Some q \<Longrightarrow> j \<noteq> i \<Longrightarrow> prt_slug q \<noteq> prt_slug p"
    using assms unfolding slugs_inv_def by blast
qed

lemma slugs_inv_put:
  assumes inv: "slugs_inv byId" and p: "prt_id p = i" "i \<noteq> ''''" "slugRegexp (prt_slug p)" "connectors_inv p"
    and unique: "\<And>j q. mget byId j = Some q \<Longrightarrow> j \<noteq> i \<Longrightarrow> prt_slug q \<noteq> prt_slug p"
  shows "slugs_inv (mput i p byId)"
  unfolding slugs_inv_def
proof (intro conjI allI impI)
  show "mwf (mput i p byId)" using inv by (simp add: slugs_inv_def)
  show "mget (mput i p byId) '''' = None" using inv p(2) by (simp add: slugs_inv_def gomap_simps)
next
  fix j q
  assume q: "mget (mput i p byId) j = Some q"
  show "prt_id q = j" "slugRegexp (prt_slug q)" "connectors_inv q"
    using q p slugs_inv_stored(1-3) [OF inv, of j q] by (simp_all add: gomap_simps split: if_splits)
next
  fix j k q r
  assume h: "mget (mput i p byId) j = Some q \<and> mget (mput i p byId) k = Some r \<and> prt_slug q = prt_slug r"
  show "j = k"
  proof (rule ccontr)
    assume n: "j \<noteq> k"
    show False
      using h n unique [of k r] unique [of j q] slugs_inv_stored(5) [OF inv, of j q k r]
      by (simp add: gomap_simps split: if_splits)
  qed
qed

lemma put_same_definition:
  assumes "manager_inv m" and "mget (pm_byId m) i = Some p" and "same_definition p q"
  shows "manager_inv (m\<lparr>pm_byId := mput i q (pm_byId m)\<rparr>)"
proof -
  let ?m = "m\<lparr>pm_byId := mput i q (pm_byId m)\<rparr>"
  have "stored_credentials ?m = stored_credentials m"
    using assms(2,3) by (auto simp: fun_eq_iff stored_credentials_def gomap_simps same_definition_def)
  then have "credentials_inv ?m" using assms(1) by (simp add: manager_inv_def credentials_inv_def)
  moreover have "slugs_inv (mput i q (pm_byId m))"
  proof (rule slugs_inv_put)
    show inv: "slugs_inv (pm_byId m)" using assms(1) by (simp add: manager_inv_def)
    show "prt_id q = i" "i \<noteq> ''''" "slugRegexp (prt_slug q)" "connectors_inv q"
      using slugs_inv_stored(1-4) [OF inv assms(2)] connectors_inv_cong [of q p] assms(3)
      by (simp_all add: same_definition_def)
    show "mget (pm_byId m) j = Some r \<Longrightarrow> j \<noteq> i \<Longrightarrow> prt_slug r \<noteq> prt_slug q" for j r
      using slugs_inv_stored(5) [OF inv assms(2)] assms(3) by (simp add: same_definition_def)
  qed
  ultimately show ?thesis by (simp add: manager_inv_def)
qed

lemma on_partner_inv:
  assumes "manager_inv m" and "\<And>p. same_definition p (f p)"
  shows "manager_inv (on_partner i f m)"
  using put_same_definition [OF assms(1) _ assms(2)] assms(1) by (simp add: on_partner_def split: option.split)

lemma same_definition_ops [simp]:
  "same_definition p (unmarshal_shared body p)" "same_definition p (Partner_Stop p)"
  "same_definition p (Partner_Start parse_duration now p)" "same_definition p (Partner_CancelSubscriptions p)"
  by (simp_all add: same_definition_def unmarshal_shared_def Partner_Stop_def Partner_Start_def
      Partner_CancelSubscriptions_def Let_def)

lemma credentials_distinct:
  assumes "manager_inv m" and "c \<noteq> ''''" and "c \<in> stored_credentials m i" and "c \<in> stored_credentials m j"
  shows "i = j"
proof -
  have "LocalCredentialsIndex_Find (pm_localCredentialsIndex m) c = Some k" if "c \<in> stored_credentials m k" for k
    using assms(1,2) that by (simp add: manager_inv_def credentials_inv_def)
  from this [OF assms(3)] this [OF assms(4)] show ?thesis by simp
qed

lemma Save_eq:
  "prt_id p \<noteq> '''' \<Longrightarrow> PartnerManager_Save p g m =
     (p, g, m\<lparr>pm_byId := mput (prt_id p) p (pm_byId m), pm_localCredentialsIndex := LocalCredentialsIndex_Index (prt_id p)
        (PartnerSettings_Credentials (prt_settings p)) (pm_localCredentialsIndex m)\<rparr>)"
  by (simp add: PartnerManager_Save_def)

lemma save_credentials_inv:
  assumes inv: "credentials_inv m"
    and free: "\<And>c. c \<noteq> '''' \<Longrightarrow> c \<in> set (splitCredentials (PartnerSettings_Credentials (prt_settings p))) \<Longrightarrow>
      LocalCredentialsIndex_Find (pm_localCredentialsIndex m) c \<in> {None, Some i}"
  shows "credentials_inv (m\<lparr>pm_byId := mput i p (pm_byId m), pm_localCredentialsIndex := LocalCredentialsIndex_Index i
        (PartnerSettings_Credentials (prt_settings p)) (pm_localCredentialsIndex m)\<rparr>)"
proof -
  let ?idx = "pm_localCredentialsIndex m" and ?s = "PartnerSettings_Credentials (prt_settings p)"
  let ?m = "m\<lparr>pm_byId := mput i p (pm_byId m), pm_localCredentialsIndex := LocalCredentialsIndex_Index i ?s ?idx\<rparr>"
  have stored: "stored_credentials ?m j = (if j = i then set (splitCredentials ?s) else stored_credentials m j)" for j
    by (simp add: stored_credentials_def gomap_simps)
  have sound: "credentials_sound (LocalCredentialsIndex_Index i ?s ?idx)"
    using credentials_sound_step [of ?idx "IndexCredentials i ?s"] inv by (simp add: credentials_inv_def)
  have "LocalCredentialsIndex_Find (LocalCredentialsIndex_Index i ?s ?idx) c = Some j"
    if c: "c \<noteq> ''''" "c \<in> stored_credentials ?m j" for c j
  proof (cases "j = i")
    case True
    with c show ?thesis by (simp add: stored Find_credentials_Index)
  next
    case False
    with c have cj: "c \<in> stored_credentials m j" by (simp add: stored)
    with inv c(1) have f: "LocalCredentialsIndex_Find ?idx c = Some j" by (simp add: credentials_inv_def)
    with free [OF c(1)] False have "c \<notin> set (splitCredentials ?s)" by auto
    moreover have "c \<notin> credentials_of ?idx i"
    proof
      assume "c \<in> credentials_of ?idx i"
      with inv c(1) have "LocalCredentialsIndex_Find ?idx c = Some i" by (simp add: credentials_inv_def)
      with f False show False by simp
    qed
    ultimately show ?thesis by (simp add: Find_credentials_Index f)
  qed
  then show ?thesis using sound inv by (simp add: credentials_inv_def credentials_Index stored)
qed

lemma save_inv:
  assumes inv: "manager_inv m" and i: "prt_id p \<noteq> ''''" and slug: "slugRegexp (prt_slug p)" "connectors_inv p"
    and unique: "\<And>j q. mget (pm_byId m) j = Some q \<Longrightarrow> j \<noteq> prt_id p \<Longrightarrow> prt_slug q \<noteq> prt_slug p"
    and free: "\<And>c. c \<noteq> '''' \<Longrightarrow> c \<in> set (splitCredentials (PartnerSettings_Credentials (prt_settings p))) \<Longrightarrow>
      LocalCredentialsIndex_Find (pm_localCredentialsIndex m) c \<in> {None, Some (prt_id p)}"
  shows "manager_inv (snd (snd (PartnerManager_Save p g m)))"
proof -
  have "slugs_inv (mput (prt_id p) p (pm_byId m))"
    using inv i slug unique by (intro slugs_inv_put) (simp_all add: manager_inv_def)
  with save_credentials_inv [of m p "prt_id p"] inv free show ?thesis
    by (simp add: Save_eq [OF i] manager_inv_def)
qed

lemma delete_inv:
  assumes inv: "manager_inv m"
  shows "manager_inv (PartnerManager_Delete p m)"
proof -
  let ?i = "prt_id p" and ?idx = "pm_localCredentialsIndex m" and ?m = "PartnerManager_Delete p m"
  have stored: "stored_credentials ?m j = (if j = ?i then {} else stored_credentials m j)" for j
    by (simp add: stored_credentials_def PartnerManager_Delete_def gomap_simps)
  have idx: "pm_localCredentialsIndex ?m = LocalCredentialsIndex_Delete ?i ?idx"
    by (simp add: PartnerManager_Delete_def)
  have find: "LocalCredentialsIndex_Find (LocalCredentialsIndex_Delete ?i ?idx) c = Some j"
    if c: "c \<noteq> ''''" "c \<in> stored_credentials m j" "j \<noteq> ?i" for c j
    using inv c credentials_distinct [OF inv c(1,2), of ?i]
    unfolding manager_inv_def credentials_inv_def Find_credentials_Delete by auto
  have sound: "credentials_sound (LocalCredentialsIndex_Delete ?i ?idx)"
    using credentials_sound_step [of ?idx "DeleteCredentials ?i"] inv by (simp add: manager_inv_def credentials_inv_def)
  have "credentials_inv ?m"
    using inv sound find by (auto simp: manager_inv_def credentials_inv_def idx credentials_Delete stored)
  moreover have "slugs_inv (pm_byId ?m)"
    unfolding slugs_inv_def
  proof (intro conjI allI impI)
    have slugs: "slugs_inv (pm_byId m)" using inv by (simp add: manager_inv_def)
    have at: "mget (pm_byId ?m) j = Some q \<Longrightarrow> mget (pm_byId m) j = Some q" for j q
      by (simp add: PartnerManager_Delete_def gomap_simps split: if_splits)
    show "mwf (pm_byId ?m)" "mget (pm_byId ?m) '''' = None"
      using slugs by (simp_all add: slugs_inv_def PartnerManager_Delete_def gomap_simps)
    show "prt_id q = j" "slugRegexp (prt_slug q)" "connectors_inv q" if "mget (pm_byId ?m) j = Some q" for j q
      using slugs_inv_stored(1-3) [OF slugs at [OF that]] by simp_all
    show "j = k" if "mget (pm_byId ?m) j = Some q \<and> mget (pm_byId ?m) k = Some r \<and> prt_slug q = prt_slug r" for j k q r
    proof (rule ccontr)
      assume "j \<noteq> k"
      then have "k \<noteq> j" by simp
      with that slugs_inv_stored(5) [OF slugs at at, of j q k r] show False by simp
    qed
  qed
  ultimately show ?thesis by (simp add: manager_inv_def)
qed

section \<open>A new definition\<close>

lemma cleanConnectors_sel [simp]:
  "prt_id (Partner_cleanConnectors p) = prt_id p" "prt_slug (Partner_cleanConnectors p) = prt_slug p"
  "prt_settings (Partner_cleanConnectors p) = prt_settings p"
  by (simp_all add: Partner_cleanConnectors_def)

lemma SetDefinition_sel [simp]:
  "prt_id (Partner_SetDefinition api p) = ap_Id api" "prt_slug (Partner_SetDefinition api p) = ap_Slug api"
  "prt_settings (Partner_SetDefinition api p) =
     PartnerSettings_SetSettingsDefinition (ap_Settings api) (prt_settings p)"
  by (simp_all add: Partner_SetDefinition_def)

lemma SetDefinition_connectors:
  assumes inv: "connectors_inv p" and f: "ap_factories api = factories_of (ap_ConnectorTypes api)"
  shows "t \<noteq> SIRI_SUBSCRIPTION_REQUEST_DISPATCHER \<Longrightarrow>
      has_connector (Partner_SetDefinition api p) t \<longleftrightarrow> t \<in> set (ap_ConnectorTypes api) \<and> NewConnectorFactory t \<noteq> None"
    and "SIRI_SUBSCRIPTION_REQUEST_DISPATCHER \<in> set (ap_ConnectorTypes api) \<or>
      set subscription_broadcasters \<inter> set (ap_ConnectorTypes api) \<noteq> {} \<Longrightarrow>
      has_connector (Partner_SetDefinition api p) SIRI_SUBSCRIPTION_REQUEST_DISPATCHER"
    and "has_connector (Partner_SetDefinition api p) SIRI_SUBSCRIPTION_REQUEST_DISPATCHER \<Longrightarrow>
      SIRI_SUBSCRIPTION_REQUEST_DISPATCHER \<in> set (ap_ConnectorTypes api) \<or>
      set subscription_broadcasters \<inter> set (ap_ConnectorTypes api) \<noteq> {} \<or> Partner_hasSubscribers p"
proof -
  let ?D = "SIRI_SUBSCRIPTION_REQUEST_DISPATCHER" and ?T = "set (ap_ConnectorTypes api)"
  define q where "q = p\<lparr>prt_id := ap_Id api, prt_slug := ap_Slug api, prt_Name := ap_Name api,
      prt_settings := PartnerSettings_SetSettingsDefinition (ap_Settings api) (prt_settings p),
      prt_ConnectorTypes := ap_ConnectorTypes api,
      prt_PartnerStatus := (prt_PartnerStatus p)\<lparr>pst_OperationnalStatus := OPERATIONNAL_STATUS_UNKNOWN\<rparr>\<rparr>"
  define r where "r = fold add_connector (mkeys (ap_factories api)) q"
  have s: "Partner_SetDefinition api p = Partner_cleanConnectors r"
    by (simp add: Partner_SetDefinition_def r_def q_def)
  have q: "has_connector q c = has_connector p c" for c by (simp add: q_def has_connector_def)
  have types: "prt_ConnectorTypes r = ap_ConnectorTypes api" by (simp add: r_def q_def)
  have r: "has_connector r c \<longleftrightarrow> has_connector p c \<or> c \<in> ?T \<and> NewConnectorFactory c \<noteq> None \<or>
      c = ?D \<and> (\<exists>t \<in> ?T \<inter> set subscription_broadcasters. NewConnectorFactory t \<noteq> None \<and> \<not> has_connector p t)" for c
    unfolding r_def has_fold_add f q keys_factories by blast
  have "list_all (\<lambda>b. NewConnectorFactory b \<noteq> None) subscription_broadcasters" by code_simp
  then have known: "NewConnectorFactory b \<noteq> None" if "b \<in> set subscription_broadcasters" for b
    using that by (simp add: list_all_iff)
  show "has_connector (Partner_SetDefinition api p) t \<longleftrightarrow> t \<in> ?T \<and> NewConnectorFactory t \<noteq> None" if t: "t \<noteq> ?D"
  proof -
    have "has_connector p t \<Longrightarrow> NewConnectorFactory t \<noteq> None" using inv unfolding connectors_inv_def by simp
    then show ?thesis using t unfolding s has_cleanConnectors [OF t] r types by argo
  qed
  {
    assume h: "?D \<in> ?T \<or> set subscription_broadcasters \<inter> ?T \<noteq> {}"
    have kept: "has_connector r ?D" if b: "b \<in> set subscription_broadcasters" "b \<in> ?T" for b
    proof (cases "has_connector p b")
      case True
      with b inv have "has_connector p ?D" unfolding connectors_inv_def has_subscribers by blast
      then show ?thesis by (simp add: r)
    next
      case False
      with b known [OF b(1)] show ?thesis unfolding r by blast
    qed
    have "has_connector r ?D" if "?D \<in> ?T" using that dispatcher_known by (simp add: r)
    with kept h have "has_connector r ?D" by blast
    moreover have "has_connector r b" if "b \<in> set subscription_broadcasters" "b \<in> ?T" for b
      using that(2) known [OF that(1)] by (simp add: r)
    with h have "?D \<in> ?T \<or> (\<exists>b \<in> set subscription_broadcasters. has_connector r b \<and> b \<in> ?T)" by blast
    ultimately show "has_connector (Partner_SetDefinition api p) ?D"
      unfolding s by (intro cleaned_dispatcher(1)) (simp_all add: types)
  next
    assume d: "has_connector (Partner_SetDefinition api p) ?D"
    show "?D \<in> ?T \<or> set subscription_broadcasters \<inter> ?T \<noteq> {} \<or> Partner_hasSubscribers p"
    proof (rule ccontr)
      assume n: "\<not> ?thesis"
      then have "\<not> Partner_hasSubscribers r" using dispatcher_not_broadcaster unfolding has_subscribers r by blast
      moreover have "has_connector r ?D" using d unfolding s by (rule clean_no_more)
      ultimately show False using d n unfolding s by (simp add: cleaned_dispatcher(2) types)
    qed
  }
qed

lemma SetDefinition_inv:
  assumes "connectors_inv p" and "ap_factories api = factories_of (ap_ConnectorTypes api)"
  shows "connectors_inv (Partner_SetDefinition api p)"
  unfolding connectors_inv_def has_subscribers
proof (intro conjI allI impI)
  fix t
  assume "has_connector (Partner_SetDefinition api p) t"
  then show "NewConnectorFactory t \<noteq> None"
    using SetDefinition_connectors(1) [OF assms, of t] dispatcher_known by blast
next
  assume "\<exists>t \<in> set subscription_broadcasters. has_connector (Partner_SetDefinition api p) t"
  then obtain b where b: "b \<in> set subscription_broadcasters" "has_connector (Partner_SetDefinition api p) b" by blast
  then have "b \<noteq> SIRI_SUBSCRIPTION_REQUEST_DISPATCHER" using dispatcher_not_broadcaster by blast
  with b have "b \<in> set (ap_ConnectorTypes api)" using SetDefinition_connectors(1) [OF assms, of b] by simp
  with b(1) have "set subscription_broadcasters \<inter> set (ap_ConnectorTypes api) \<noteq> {}" by blast
  then show "has_connector (Partner_SetDefinition api p) SIRI_SUBSCRIPTION_REQUEST_DISPATCHER"
    by (intro SetDefinition_connectors(2) [OF assms]) simp
qed

end
