(* ===== verification/PartnerApi.thy ===== *)
theory PartnerApi
  imports PartnerProps
begin

text \<open>
  Histories of the API of partners (\<^verbatim>\<open>api/partner_controller.go\<close>): what every sequence of its
  operations keeps, and where it goes wrong.
\<close>

lemma findPartner_stored:
  assumes "manager_inv m" and "PartnerController_findPartner m identifier = Some p"
  shows "mget (pm_byId m) (prt_id p) = Some p"
proof -
  have inv: "slugs_inv (pm_byId m)" using assms(1) by (simp add: manager_inv_def)
  have "\<exists>i. mget (pm_byId m) i = Some p"
  proof (cases "PartnerManager_FindBySlug m identifier")
    case None
    with assms(2) show ?thesis by (auto simp: PartnerController_findPartner_def PartnerManager_Find_def)
  next
    case (Some q)
    with assms(2) have "first_some (\<lambda>partner. prt_slug partner = identifier) (mvals (pm_byId m)) = Some p"
      by (simp add: PartnerController_findPartner_def PartnerManager_FindBySlug_def)
    from first_some_Some [OF this] inv show ?thesis by (simp add: slugs_inv_def snd_image_iff)
  qed
  then show ?thesis using slugs_inv_stored(1) [OF inv] by blast
qed

lemma on_stored: "mget (pm_byId m) i = Some p \<Longrightarrow> on_partner i f m = m\<lparr>pm_byId := mput i (f p) (pm_byId m)\<rparr>"
  by (simp add: on_partner_def)

lemma restart_saved:
  assumes "manager_inv (snd (snd (PartnerManager_Save p g m)))" and "prt_id p \<noteq> ''''"
  shows "manager_inv (on_partner (prt_id p) (\<lambda>_. Partner_Start parse_duration now p)
           (snd (snd (PartnerManager_Save p g m))))"
proof -
  have "mget (pm_byId (snd (snd (PartnerManager_Save p g m)))) (prt_id p) = Some p"
    by (simp add: Save_eq [OF assms(2)] gomap_simps)
  from put_same_definition [OF assms(1) this same_definition_ops(3)] show ?thesis
    by (simp add: on_stored [OF \<open>mget _ _ = _\<close>])
qed

definition body_ok :: "json_body \<Rightarrow> bool" where
  "body_ok json \<longleftrightarrow> (\<forall>body m. json = Parsed body \<and> pb_Settings body = Some m \<longrightarrow> mwf m)"

lemma mwf_SettingsDefinition: "mwf (PartnerSettings_SettingsDefinition s)"
proof -
  have "mwf m \<Longrightarrow> mwf (fold (\<lambda>(k, v). mput k v) d m)" for d m :: "(string, string) gomap"
    by (induction d arbitrary: m) (simp_all add: split_beta)
  then show ?thesis by (simp add: PartnerSettings_SettingsDefinition_def)
qed

lemma unmarshalled:
  assumes "body_ok (Parsed body)"
  shows "settings_ok (APIPartner_UnmarshalJSON body (Partner_Definition p))"
    and "ap_factories (APIPartner_UnmarshalJSON body (Partner_Definition p)) = []"
  using assms mwf_SettingsDefinition
  by (auto simp: settings_ok_def APIPartner_UnmarshalJSON_def Partner_Definition_def body_ok_def)

lemma start_fields [simp]: "prt_id (Partner_Start parse_duration now p) = prt_id p"
  using same_definition_ops(3) by (simp add: same_definition_def)

text \<open>A valid definition can be saved: its credentials are free or its own.\<close>

lemma saved_definition:
  assumes inv: "manager_inv m" and valid: "valid_definition m api" and ok: "settings_ok api"
    and f: "ap_factories api = factories_of (ap_ConnectorTypes api)" and q: "connectors_inv q"
    and own: "\<And>c. c \<noteq> '''' \<Longrightarrow> c \<in> set (splitCredentials (PartnerSettings_Credentials (prt_settings q))) \<Longrightarrow>
      c \<in> stored_credentials m i"
    and i: "i \<noteq> ''''" "ap_Id api = i \<or> ap_Id api = ''''"
  shows "manager_inv (snd (snd (PartnerManager_Save (Partner_SetDefinition api q\<lparr>prt_id := i\<rparr>) g m)))"
proof (rule save_inv [OF inv])
  let ?p = "Partner_SetDefinition api q\<lparr>prt_id := i\<rparr>"
  have slugs: "slugs_inv (pm_byId m)" and index: "credentials_inv m" using inv by (simp_all add: manager_inv_def)
  show "prt_id ?p \<noteq> ''''" using i(1) by simp
  show "slugRegexp (prt_slug ?p)" using valid by (simp add: valid_definition_def)
  show "connectors_inv ?p" using SetDefinition_inv [OF q f] connectors_inv_cong [of ?p "Partner_SetDefinition api q"] by simp
  show "prt_slug r \<noteq> prt_slug ?p" if r: "mget (pm_byId m) j = Some r" "j \<noteq> prt_id ?p" for j r
  proof -
    have "prt_id r = j" "j \<noteq> ''''" using slugs_inv_stored(1,4) [OF slugs r(1)] by simp_all
    moreover from this have "r \<in> set (PartnerManager_FindAll m)"
      using mget_some_vals [OF r(1)] by (simp add: PartnerManager_FindAll_def)
    ultimately show ?thesis using valid r(2) i(2) unfolding valid_definition_def by force
  qed
  show "LocalCredentialsIndex_Find (pm_localCredentialsIndex m) c \<in> {None, Some (prt_id ?p)}"
    if c: "c \<noteq> ''''" "c \<in> set (splitCredentials (PartnerSettings_Credentials (prt_settings ?p)))" for c
  proof -
    from merged_credentials [OF ok c(1), of "prt_settings q"] c(2)
    consider "c \<in> set (splitCredentials (APIPartner_credentials api))" | "c \<in> stored_credentials m i"
      using own [OF c(1)] by auto
    then show ?thesis
    proof cases
      case 1
      with valid have "LocalCredentialsIndex_Find (pm_localCredentialsIndex m) c \<in> {None, Some (ap_Id api)}"
        by (simp add: valid_definition_def PartnerManager_UniqCredentials_def UniqCredentials_iff)
      moreover have "LocalCredentialsIndex_Find (pm_localCredentialsIndex m) c \<noteq> Some ''''"
      proof
        assume "LocalCredentialsIndex_Find (pm_localCredentialsIndex m) c = Some ''''"
        with index have "c \<in> credentials_of (pm_localCredentialsIndex m) ''''"
          unfolding credentials_inv_def credentials_sound_def by blast
        with index have "c \<in> stored_credentials m ''''" by (simp add: credentials_inv_def)
        with slugs show False by (simp add: stored_credentials_def slugs_inv_def)
      qed
      ultimately show ?thesis using i(2) by auto
    next
      case 2
      with index c(1) show ?thesis by (simp add: credentials_inv_def)
    qed
  qed
qed

lemma set_own_id: "ap_Id api = i \<Longrightarrow> Partner_SetDefinition api q\<lparr>prt_id := i\<rparr> = Partner_SetDefinition api q"
  using SetDefinition_sel(1) [of api q] by (cases "Partner_SetDefinition api q") simp

lemma valid_definition_cong:
  "valid_definition m (api\<lparr>ap_Errors := e, ap_factories := f\<rparr>) = valid_definition m api"
proof -
  have "check_ok (api\<lparr>ap_Errors := e, ap_factories := f\<rparr>) c = check_ok api c" for c
    by (cases c) (simp_all add: IsSettingDefined_def ap_setting_def)
  then show ?thesis by (simp add: valid_definition_def APIPartner_credentials_def ap_setting_def)
qed

section \<open>Each operation keeps the invariant\<close>

lemma Delete_inv: "manager_inv m \<Longrightarrow> manager_inv (snd (PartnerController_Delete identifier m))"
  by (simp add: PartnerController_Delete_def delete_inv on_partner_inv split: option.split)

lemma Update_inv:
  assumes inv: "manager_inv m" and ok: "body_ok json"
  shows "\<exists>r g' m'. PartnerController_Update parse_duration now identifier json g m = Some (r, g', m') \<and>
    manager_inv m' \<and> ug_uuid g' = ug_uuid g"
proof (cases "PartnerController_findPartner m identifier")
  case None
  with inv show ?thesis by (simp add: PartnerController_Update_def)
next
  case (Some p)
  let ?i = "prt_id p"
  have at: "mget (pm_byId m) ?i = Some p" by (rule findPartner_stored [OF inv Some])
  have i: "?i \<noteq> ''''" using inv slugs_inv_stored(4) [OF _ at] by (simp add: manager_inv_def)
  have shared: "manager_inv (on_partner ?i (unmarshal_shared body) m)" for body
    by (rule on_partner_inv [OF inv]) simp
  show ?thesis
  proof (cases json)
    case SyntaxError
    with Some inv show ?thesis by (simp add: PartnerController_Update_def)
  next
    case (WrongType body)
    with Some shared show ?thesis by (simp add: PartnerController_Update_def)
  next
    case (Parsed body)
    let ?api = "APIPartner_UnmarshalJSON body (Partner_Definition p)"
    let ?q = "unmarshal_shared body p" and ?m = "on_partner ?i (unmarshal_shared body) m"
    let ?f = "factories_of (ap_ConnectorTypes ?api)"
    have api: "settings_ok ?api" "ap_factories ?api = []" using unmarshalled ok Parsed by simp_all
    obtain e where v: "APIPartner_Validate ?m ?api =
        Some (valid_definition ?m ?api, ?api\<lparr>ap_Errors := e, ap_factories := ?f\<rparr>)"
      using Validate_spec [OF api(2)] by blast
    let ?v = "?api\<lparr>ap_Errors := e, ap_factories := ?f\<rparr>"
    let ?s = "Partner_SetDefinition ?v (Partner_Stop ?q)"
    have same: "same_definition p (Partner_Stop ?q)"
      using same_definition_ops(1,2) unfolding same_definition_def by simp
    have q_id: "prt_id ?q = ?i" using same_definition_ops(1) by (simp add: same_definition_def)
    show ?thesis
    proof (cases "ap_Id ?api = ?i \<and> valid_definition ?m ?api")
      case False
      define n where "n = ?m"
      have n: "manager_inv n" "APIPartner_Validate n ?api = Some (valid_definition n ?api, ?v)"
        using shared [of body] v by (simp_all only: n_def)
      have "PartnerController_Update parse_duration now identifier json g m =
          Some (if ap_Id ?api \<noteq> ?i then BadRequest else Rejected (ap_Errors ?v), g, n)"
        using False n(2) by (simp add: PartnerController_Update_def Some Parsed Let_def q_id n_def [symmetric])
      from this n(1) refl show ?thesis by (intro exI conjI)
    next
      case True
      have conn: "connectors_inv p" using inv slugs_inv_stored(3) [OF _ at] by (simp add: manager_inv_def)
      have stored: "stored_credentials ?m ?i = set (splitCredentials (PartnerSettings_Credentials (prt_settings p)))"
        using same_definition_ops(1) [of p body]
        by (simp add: stored_credentials_def on_stored [OF at] gomap_simps same_definition_def)
      have s: "?s\<lparr>prt_id := ?i\<rparr> = ?s" using True by (intro set_own_id) simp
      have "manager_inv (snd (snd (PartnerManager_Save (?s\<lparr>prt_id := ?i\<rparr>) g ?m)))"
      proof (rule saved_definition [OF shared _ _ _ _ _ i])
        show "valid_definition ?m ?v" using True by (simp add: valid_definition_cong)
        show "settings_ok ?v" using api(1) by (simp add: settings_ok_def)
        show "connectors_inv (Partner_Stop ?q)"
          using conn connectors_inv_cong [of "Partner_Stop ?q" p] same by (simp add: same_definition_def)
        show "c \<in> stored_credentials ?m ?i"
          if "c \<in> set (splitCredentials (PartnerSettings_Credentials (prt_settings (Partner_Stop ?q))))" for c
          using that same by (simp add: stored same_definition_def)
      qed (use True in simp_all)
      then have saved: "manager_inv (snd (snd (PartnerManager_Save ?s g ?m)))" by (simp add: s)
      have id: "prt_id ?s = ?i" using True by simp
      from restart_saved [OF saved, of parse_duration now] have
        "manager_inv (on_partner (prt_id ?s) (\<lambda>_. Partner_Start parse_duration now ?s) (snd (snd (PartnerManager_Save ?s g ?m))))"
        using i id by simp
      with True Some Parsed v q_id i id show ?thesis
        by (simp add: PartnerController_Update_def Let_def Save_eq [of ?s])
    qed
  qed
qed

lemma Save_new:
  "prt_id p = '''' \<Longrightarrow> fst (NewUUID g) \<noteq> '''' \<Longrightarrow>
     PartnerManager_Save p g m =
       (p\<lparr>prt_id := fst (NewUUID g)\<rparr>, snd (NewUUID g),
        snd (snd (PartnerManager_Save (p\<lparr>prt_id := fst (NewUUID g)\<rparr>) g' m)))"
  by (simp add: PartnerManager_Save_def Let_def split: prod.split)

lemma new_partner_credentials:
  "c \<in> set (splitCredentials (PartnerSettings_Credentials (prt_settings (PartnerManager_New slug)))) \<Longrightarrow> c = ''''"
  by (simp add: PartnerManager_New_def NewPartnerSettings_def PartnerSettings_Credentials_def mhas_def)

lemma Create_inv:
  assumes inv: "manager_inv m" and ok: "body_ok json" and ids: "\<And>n. ug_uuid g n \<noteq> ''''"
  shows "\<exists>r g' m'. PartnerController_Create parse_duration now json g m = Some (r, g', m') \<and>
    manager_inv m' \<and> ug_uuid g' = ug_uuid g"
proof (cases json)
  case SyntaxError
  with inv show ?thesis by (simp add: PartnerController_Create_def)
next
  case (WrongType body)
  with inv show ?thesis by (simp add: PartnerController_Create_def)
next
  case (Parsed body)
  let ?p = "PartnerManager_New ''''" and ?u = "fst (NewUUID g)"
  let ?api = "APIPartner_UnmarshalJSON body (Partner_Definition ?p)"
  have api: "settings_ok ?api" "ap_factories ?api = []" using unmarshalled ok Parsed by simp_all
  obtain e where v: "APIPartner_Validate m ?api = Some (valid_definition m ?api,
      ?api\<lparr>ap_Errors := e, ap_factories := factories_of (ap_ConnectorTypes ?api)\<rparr>)"
    using Validate_spec [OF api(2)] by blast
  let ?v = "?api\<lparr>ap_Errors := e, ap_factories := factories_of (ap_ConnectorTypes ?api)\<rparr>"
  have u: "?u \<noteq> ''''" using ids by (simp add: NewUUID_def)
  show ?thesis
  proof (cases "ap_Id ?api = '''' \<and> valid_definition m ?api")
    case False
    with Parsed inv v show ?thesis by (auto simp: PartnerController_Create_def Let_def)
  next
    case True
    define s where "s = Partner_SetDefinition ?v ?p\<lparr>prt_id := ?u\<rparr>"
    have saved: "manager_inv (snd (snd (PartnerManager_Save s g m)))"
      unfolding s_def
    proof (rule saved_definition [OF inv _ _ _ connectors_inv_new _ u])
      show "valid_definition m ?v" using True by (simp add: valid_definition_cong)
      show "settings_ok ?v" using api(1) by (simp add: settings_ok_def)
    qed (use True new_partner_credentials in auto)
    have id: "prt_id s = ?u" by (simp add: s_def)
    have started: "manager_inv (on_partner (prt_id s) (\<lambda>_. Partner_Start parse_duration now s)
        (snd (snd (PartnerManager_Save s g m))))"
      using restart_saved [OF saved] u id by simp
    have "prt_id (Partner_SetDefinition ?v ?p) = ''''" using True by simp
    from Save_new [OF this u, of m g] have save: "PartnerManager_Save (Partner_SetDefinition ?v ?p) g m =
        (s, snd (NewUUID g), snd (snd (PartnerManager_Save s g m)))" by (simp add: s_def)
    have "PartnerController_Create parse_duration now json g m =
        Some (Done (Partner_Start parse_duration now s), snd (NewUUID g),
          on_partner (prt_id s) (\<lambda>_. Partner_Start parse_duration now s) (snd (snd (PartnerManager_Save s g m))))"
      using True Parsed v by (simp add: PartnerController_Create_def Let_def save)
    with started show ?thesis by (simp add: NewUUID_def)
  qed
qed

section \<open>Histories\<close>

datatype api_op =
    CreatePartner gotime json_body
  | UpdatePartner gotime string json_body
  | DeletePartner string

fun api_op_ok :: "api_op \<Rightarrow> bool" where
  "api_op_ok (CreatePartner now json) = body_ok json"
| "api_op_ok (UpdatePartner now identifier json) = body_ok json"
| "api_op_ok (DeletePartner identifier) = True"

fun api_step :: "(string \<Rightarrow> int) \<Rightarrow> api_op \<Rightarrow> uuid_gen \<times> PartnerManager \<Rightarrow> (uuid_gen \<times> PartnerManager) option" where
  "api_step parse_duration (CreatePartner now json) (g, m) =
     map_option snd (PartnerController_Create parse_duration now json g m)"
| "api_step parse_duration (UpdatePartner now identifier json) (g, m) =
     map_option snd (PartnerController_Update parse_duration now identifier json g m)"
| "api_step parse_duration (DeletePartner identifier) (g, m) = Some (g, snd (PartnerController_Delete identifier m))"

fun api_run :: "(string \<Rightarrow> int) \<Rightarrow> api_op list \<Rightarrow> uuid_gen \<times> PartnerManager \<Rightarrow> (uuid_gen \<times> PartnerManager) option" where
  "api_run parse_duration [] s = Some s"
| "api_run parse_duration (x # xs) s = Option.bind (api_step parse_duration x s) (api_run parse_duration xs)"

lemma api_step_inv:
  assumes "manager_inv m" and "api_op_ok x" and "\<And>n. ug_uuid g n \<noteq> ''''"
  shows "\<exists>g' m'. api_step parse_duration x (g, m) = Some (g', m') \<and> manager_inv m' \<and> ug_uuid g' = ug_uuid g"
proof (cases x)
  case (CreatePartner now json)
  with Create_inv [OF assms(1) _ assms(3), of json parse_duration now] assms(2) show ?thesis by auto
next
  case (UpdatePartner now name json)
  with Update_inv [OF assms(1), of json parse_duration now name g] assms(2) show ?thesis by auto
next
  case (DeletePartner name)
  with Delete_inv [OF assms(1)] show ?thesis by simp
qed

lemma api_run_inv:
  "manager_inv m \<Longrightarrow> list_all api_op_ok ops \<Longrightarrow> (\<And>n. ug_uuid g n \<noteq> '''') \<Longrightarrow>
     \<exists>g' m'. api_run parse_duration ops (g, m) = Some (g', m') \<and> manager_inv m'"
proof (induction ops arbitrary: g m)
  case (Cons x ops)
  then obtain g1 m1 where s: "api_step parse_duration x (g, m) = Some (g1, m1)" "manager_inv m1" "ug_uuid g1 = ug_uuid g"
    using api_step_inv [of m x g parse_duration] by auto
  with Cons.IH [of m1 g1] Cons.prems show ?case by simp
qed simp

lemma FindAll_stored: "manager_inv m \<Longrightarrow> p \<in> set (PartnerManager_FindAll m) \<longleftrightarrow> mget (pm_byId m) (prt_id p) = Some p"
  unfolding PartnerManager_FindAll_def manager_inv_def slugs_inv_def
  using mvals_iff [of "pm_byId m" p] by (auto simp del: set_map)

lemma found_by_credential:
  assumes inv: "manager_inv m" and c: "c \<noteq> ''''"
  shows "PartnerManager_FindByCredential m c = Some p \<longleftrightarrow>
    p \<in> set (PartnerManager_FindAll m) \<and> c \<in> set (splitCredentials (PartnerSettings_Credentials (prt_settings p)))"
proof -
  have slugs: "slugs_inv (pm_byId m)" and index: "credentials_inv m" using inv by (simp_all add: manager_inv_def)
  have find: "LocalCredentialsIndex_Find (pm_localCredentialsIndex m) c = Some i \<longleftrightarrow> c \<in> stored_credentials m i" for i
  proof
    assume "LocalCredentialsIndex_Find (pm_localCredentialsIndex m) c = Some i"
    then have "c \<in> credentials_of (pm_localCredentialsIndex m) i"
      using index unfolding credentials_inv_def credentials_sound_def by blast
    then show "c \<in> stored_credentials m i" using index by (simp add: credentials_inv_def)
  qed (use index c in \<open>simp add: credentials_inv_def\<close>)
  have "PartnerManager_FindByCredential m c = Some p \<longleftrightarrow>
      (\<exists>i. c \<in> stored_credentials m i \<and> mget (pm_byId m) i = Some p)"
    unfolding PartnerManager_FindByCredential_def find [symmetric] by (simp split: option.split)
  also have "\<dots> \<longleftrightarrow> mget (pm_byId m) (prt_id p) = Some p \<and> c \<in> stored_credentials m (prt_id p)"
    using slugs_inv_stored(1) [OF slugs] by blast
  finally show ?thesis unfolding FindAll_stored [OF inv] by (auto simp: stored_credentials_def)
qed

lemma found_by_slug:
  assumes inv: "manager_inv m" and p: "p \<in> set (PartnerManager_FindAll m)"
  shows "PartnerManager_FindBySlug m (prt_slug p) = Some p"
  unfolding PartnerManager_FindBySlug_def
proof (rule first_some_unique)
  have slugs: "slugs_inv (pm_byId m)" using inv by (simp add: manager_inv_def)
  show "p \<in> set (mvals (pm_byId m))" using p by (simp add: PartnerManager_FindAll_def)
  fix q
  assume q: "q \<in> set (mvals (pm_byId m))" "prt_slug q = prt_slug p"
  then have q_at: "mget (pm_byId m) (prt_id q) = Some q"
    using FindAll_stored [OF inv, of q] by (simp add: PartnerManager_FindAll_def)
  have p_at: "mget (pm_byId m) (prt_id p) = Some p" using FindAll_stored [OF inv, of p] p by simp
  have "prt_id q = prt_id p" using slugs_inv_stored(5) [OF slugs p_at q_at] q(2) by blast
  with p_at q_at show "q = p" by simp
qed simp

text \<open>C5. Whatever partners are created, updated and deleted through the API, it never panics, every credential
  but the empty one finds exactly the partner whose settings hold it, and every slug the partner that has
  it. The generator of identifiers must not hand out the empty one.\<close>

theorem partners_api:
  assumes "list_all api_op_ok ops" and "\<And>n. ug_uuid g n \<noteq> ''''"
  shows "\<exists>g' m. api_run parse_duration ops (g, NewPartnerManager) = Some (g', m) \<and>
    (\<forall>c p. c \<noteq> '''' \<longrightarrow> (PartnerManager_FindByCredential m c = Some p \<longleftrightarrow>
       p \<in> set (PartnerManager_FindAll m) \<and>
       c \<in> set (splitCredentials (PartnerSettings_Credentials (prt_settings p))))) \<and>
    (\<forall>p \<in> set (PartnerManager_FindAll m). PartnerManager_FindBySlug m (prt_slug p) = Some p)"
proof -
  obtain g' m where "api_run parse_duration ops (g, NewPartnerManager) = Some (g', m)" and inv: "manager_inv m"
    using api_run_inv [OF manager_inv_new assms, of parse_duration] by auto
  then show ?thesis
    using found_by_credential [OF inv] found_by_slug [OF inv] by (intro exI conjI allI ballI impI)
qed

definition example_body :: "string \<Rightarrow> (string, string) gomap \<Rightarrow> string list \<Rightarrow> PartnerBody" where
  "example_body slug settings types =
     \<lparr>pb_Id = None, pb_Slug = Some slug, pb_Name = None, pb_Settings = Some settings, pb_ConnectorTypes = Some types\<rparr>"

definition example_api :: "api_op list" where
  "example_api =
     [CreatePartner 1 (Parsed (example_body ''a'' [(LOCAL_CREDENTIAL, ''x''), (REMOTE_OBJECTID_KIND, ''k'')] [GTFS_RT_TRIP_UPDATES_BROADCASTER])),
      CreatePartner 2 (Parsed (example_body ''b'' [(LOCAL_CREDENTIAL, ''y''), (REMOTE_OBJECTID_KIND, ''k'')]
                                 [GTFS_RT_TRIP_UPDATES_BROADCASTER])),
      UpdatePartner 3 ''b'' (Parsed (example_body ''c'' [(LOCAL_CREDENTIALS, ''z, t'')] []))]"

definition numbered :: uuid_gen where
  "numbered = \<lparr>ug_uuid = (\<lambda>n. ''id'' @ replicate n (CHR ''x'')), ug_next = 0\<rparr>"

theorem partners_api_witness:
  "\<exists>g' m p. api_run (\<lambda>_. 0) example_api (numbered, NewPartnerManager) = Some (g', m) \<and>
     PartnerManager_FindByCredential m ''t'' = Some p \<and> p \<in> set (PartnerManager_FindAll m) \<and> prt_slug p = ''c''"
proof -
  have ok: "list_all api_op_ok example_api"
    by (simp add: example_api_def example_body_def body_ok_def mwf_def LOCAL_CREDENTIAL_def REMOTE_OBJECTID_KIND_def)
  have ids: "ug_uuid numbered n \<noteq> ''''" for n by (simp add: numbered_def)
  obtain g' m where run: "api_run (\<lambda>_. 0) example_api (numbered, NewPartnerManager) = Some (g', m)"
    and find: "\<forall>c p. c \<noteq> '''' \<longrightarrow> (PartnerManager_FindByCredential m c = Some p \<longleftrightarrow>
       p \<in> set (PartnerManager_FindAll m) \<and>
       c \<in> set (splitCredentials (PartnerSettings_Credentials (prt_settings p))))"
    using partners_api [OF ok ids, of "\<lambda>_. 0"] by blast
  have "(case api_run (\<lambda>_. 0) example_api (numbered, NewPartnerManager) of None \<Rightarrow> False
      | Some (g', m) \<Rightarrow> map_option prt_slug (PartnerManager_FindByCredential m ''t'') = Some ''c'')" by code_simp
  then obtain p where "PartnerManager_FindByCredential m ''t'' = Some p" "prt_slug p = ''c''" by (auto simp: run)
  with run find show ?thesis by blast
qed

section \<open>Where it goes wrong\<close>

lemma Create_done:
  assumes created: "PartnerController_Create parse_duration now (Parsed body) g m = Some (Done p, g', m')"
    and ids: "\<And>n. ug_uuid g n \<noteq> ''''"
  obtains s where "p = Partner_Start parse_duration now s" "prt_id s \<noteq> ''''"
    "prt_settings s = PartnerSettings_SetSettingsDefinition (ap_Settings (APIPartner_UnmarshalJSON body
        (Partner_Definition (PartnerManager_New '''')))) NewPartnerSettings"
    "m' = on_partner (prt_id s) (\<lambda>_. p) (snd (snd (PartnerManager_Save s g m)))"
proof -
  let ?p = "PartnerManager_New ''''" and ?u = "fst (NewUUID g)"
  let ?api = "APIPartner_UnmarshalJSON body (Partner_Definition ?p)"
  have "ap_factories ?api = []" by (simp add: APIPartner_UnmarshalJSON_def Partner_Definition_def)
  from Validate_spec [OF this, of m] obtain e where v: "APIPartner_Validate m ?api =
    Some (valid_definition m ?api, ?api\<lparr>ap_Errors := e, ap_factories := factories_of (ap_ConnectorTypes ?api)\<rparr>)" by blast
  let ?v = "?api\<lparr>ap_Errors := e, ap_factories := factories_of (ap_ConnectorTypes ?api)\<rparr>"
  have u: "?u \<noteq> ''''" using ids by (simp add: NewUUID_def)
  have ok: "ap_Id ?api = ''''" "valid_definition m ?api"
    using created v by (simp_all add: PartnerController_Create_def Let_def split: if_splits)
  define s where "s = Partner_SetDefinition ?v ?p\<lparr>prt_id := ?u\<rparr>"
  have "prt_id (Partner_SetDefinition ?v ?p) = ''''" using ok by simp
  from Save_new [OF this u, of m g] have save: "PartnerManager_Save (Partner_SetDefinition ?v ?p) g m =
      (s, snd (NewUUID g), snd (snd (PartnerManager_Save s g m)))" by (simp add: s_def)
  have id: "prt_id s = ?u" by (simp add: s_def)
  have st: "prt_settings s = PartnerSettings_SetSettingsDefinition (ap_Settings ?api) NewPartnerSettings"
    by (simp add: s_def PartnerManager_New_def)
  have eqs: "p = Partner_Start parse_duration now s"
    "m' = on_partner (prt_id s) (\<lambda>_. p) (snd (snd (PartnerManager_Save s g m)))"
    using created ok v by (auto simp: PartnerController_Create_def Let_def save)
  show thesis using that [OF eqs(1) _ st eqs(2)] u id by simp
qed

text \<open>C29. A partner created without credentials is found by the empty credential, which a request without a
  credential has, and takes it over from every such partner before it.\<close>

theorem anonymous_partner:
  assumes "PartnerController_Create parse_duration now (Parsed body) g m = Some (Done p, g', m')"
    and "pb_Settings body = Some settings" and "mwf settings"
    and "mget settings LOCAL_CREDENTIAL = None" and "mget settings LOCAL_CREDENTIALS = None"
    and "\<And>n. ug_uuid g n \<noteq> ''''"
  shows "PartnerManager_FindByCredential m' '''' = Some p"
proof (rule Create_done [OF assms(1,6)])
  fix s
  assume p: "p = Partner_Start parse_duration now s" and i: "prt_id s \<noteq> ''''"
    and st: "prt_settings s = PartnerSettings_SetSettingsDefinition (ap_Settings (APIPartner_UnmarshalJSON body
        (Partner_Definition (PartnerManager_New '''')))) NewPartnerSettings"
    and m': "m' = on_partner (prt_id s) (\<lambda>_. p) (snd (snd (PartnerManager_Save s g m)))"
  have "prt_settings s = PartnerSettings_SetSettingsDefinition (Some settings) NewPartnerSettings"
    using st assms(2) by (simp add: APIPartner_UnmarshalJSON_def)
  then have "PartnerSettings_Credentials (prt_settings s) = ''''"
    using assms(3-5) by (simp add: PartnerSettings_Credentials_def PartnerSettings_SetSettingsDefinition_def mhas_def
        mget_overlay NewPartnerSettings_def map_add_def)
  then show ?thesis
    by (simp add: m' Save_eq [OF i] PartnerManager_FindByCredential_def on_partner_def gomap_simps Find_credentials_Index)
qed

definition anonymous_body :: PartnerBody where
  "anonymous_body = example_body ''a'' [(REMOTE_OBJECTID_KIND, ''k'')] [GTFS_RT_TRIP_UPDATES_BROADCASTER]"

theorem anonymous_partner_witness:
  "\<exists>p g m. PartnerController_Create (\<lambda>_. 0) 1 (Parsed anonymous_body) numbered NewPartnerManager = Some (Done p, g, m) \<and>
     prt_slug p = ''a'' \<and> PartnerManager_FindByCredential m '''' = Some p"
proof -
  have "(case PartnerController_Create (\<lambda>_. 0) 1 (Parsed anonymous_body) numbered NewPartnerManager of
      Some (Done p, _) \<Rightarrow> prt_slug p = ''a'' | _ \<Rightarrow> False)" by code_simp
  then obtain p g m where c: "PartnerController_Create (\<lambda>_. 0) 1 (Parsed anonymous_body) numbered NewPartnerManager
      = Some (Done p, g, m)" and slug: "prt_slug p = ''a''"
    by (auto split: option.splits response.splits)
  have s: "pb_Settings anonymous_body = Some [(REMOTE_OBJECTID_KIND, ''k'')]"
    by (simp add: anonymous_body_def example_body_def)
  have w: "mwf [(REMOTE_OBJECTID_KIND, ''k'')]" by (simp add: mwf_def)
  have n: "mget [(REMOTE_OBJECTID_KIND, ''k'')] LOCAL_CREDENTIAL = None"
    "mget [(REMOTE_OBJECTID_KIND, ''k'')] LOCAL_CREDENTIALS = None" by (simp_all add: setting_keys)
  have "ug_uuid numbered n \<noteq> ''''" for n by (simp add: numbered_def)
  from anonymous_partner [OF c s w n this] c slug show ?thesis by blast
qed

text \<open>C28. An update that is refused for its contents has still changed the connector types of the partner: its
  slice holds the new types over the old ones.\<close>

theorem rejected_update:
  assumes "list_all api_op_ok ops" and "\<And>n. ug_uuid g n \<noteq> ''''"
    and "api_run parse_duration ops (g, NewPartnerManager) = Some (g1, m)"
    and "PartnerController_findPartner m name = Some p" and "pb_ConnectorTypes body = Some types"
    and "PartnerController_Update parse_duration now name (Parsed body) g1 m = Some (Rejected e, g2, m')"
  shows "m' = m\<lparr>pm_byId := mput (prt_id p) (p\<lparr>prt_ConnectorTypes := take (length (prt_ConnectorTypes p)) types @
      drop (length types) (prt_ConnectorTypes p)\<rparr>) (pm_byId m)\<rparr>"
proof -
  have inv: "manager_inv m" using api_run_inv [OF manager_inv_new assms(1,2), of parse_duration] assms(3) by auto
  have at: "mget (pm_byId m) (prt_id p) = Some p" by (rule findPartner_stored [OF inv assms(4)])
  have "m' = on_partner (prt_id p) (unmarshal_shared body) m"
    using assms(6) by (auto simp: PartnerController_Update_def assms(4) Let_def bind_Some_iff split: if_splits prod.splits)
  then show ?thesis by (simp add: on_stored [OF at] unmarshal_shared_def decoded_in_place_def given_def assms(5))
qed

fun rejected :: "(response \<times> 'a) option \<Rightarrow> bool" where
  "rejected (Some (Rejected e, y)) = True"
| "rejected _ = False"

lemma rejectedD: "rejected x \<Longrightarrow> \<exists>e y. x = Some (Rejected e, y)"
  by (cases x rule: rejected.cases) simp_all

definition rejected_body :: PartnerBody where
  "rejected_body = example_body ''A!'' [] [''x'']"

definition two_partners :: "api_op list" where
  "two_partners = take 2 example_api"

theorem rejected_update_witness:
  "\<exists>g1 m e g2 m'. api_run (\<lambda>_. 0) two_partners (numbered, NewPartnerManager) = Some (g1, m) \<and>
     PartnerController_Update (\<lambda>_. 0) 5 ''b'' (Parsed rejected_body) g1 m = Some (Rejected e, g2, m') \<and>
     map_option prt_ConnectorTypes (PartnerManager_FindBySlug m ''b'') = Some [GTFS_RT_TRIP_UPDATES_BROADCASTER] \<and>
     map_option prt_ConnectorTypes (PartnerManager_Find m' ''idx'') = Some [''x'']"
proof -
  have ok: "list_all api_op_ok two_partners"
    by (simp add: two_partners_def example_api_def example_body_def body_ok_def mwf_def LOCAL_CREDENTIAL_def
        REMOTE_OBJECTID_KIND_def)
  have ids: "ug_uuid numbered n \<noteq> ''''" for n by (simp add: numbered_def)
  have "(case api_run (\<lambda>_. 0) two_partners (numbered, NewPartnerManager) of None \<Rightarrow> False
      | Some (g1, m) \<Rightarrow>
          rejected (PartnerController_Update (\<lambda>_. 0) 5 ''b'' (Parsed rejected_body) g1 m) \<and>
          map_option (\<lambda>p. (prt_id p, prt_ConnectorTypes p)) (PartnerController_findPartner m ''b'') =
            Some (''idx'', [GTFS_RT_TRIP_UPDATES_BROADCASTER]) \<and>
          map_option prt_ConnectorTypes (PartnerManager_FindBySlug m ''b'') = Some [GTFS_RT_TRIP_UPDATES_BROADCASTER])"
    by code_simp
  then obtain g1 m p where run: "api_run (\<lambda>_. 0) two_partners (numbered, NewPartnerManager) = Some (g1, m)"
    and rej: "rejected (PartnerController_Update (\<lambda>_. 0) 5 ''b'' (Parsed rejected_body) g1 m)"
    and p: "PartnerController_findPartner m ''b'' = Some p" "prt_id p = ''idx''"
      "prt_ConnectorTypes p = [GTFS_RT_TRIP_UPDATES_BROADCASTER]"
    and b: "map_option prt_ConnectorTypes (PartnerManager_FindBySlug m ''b'') = Some [GTFS_RT_TRIP_UPDATES_BROADCASTER]"
    by (auto split: option.splits)
  from rejectedD [OF rej] obtain e g2 m' where
    up: "PartnerController_Update (\<lambda>_. 0) 5 ''b'' (Parsed rejected_body) g1 m = Some (Rejected e, g2, m')" by auto
  have t: "pb_ConnectorTypes rejected_body = Some [''x'']" by (simp add: rejected_body_def example_body_def)
  from rejected_update [OF ok ids run p(1) t up] have "PartnerManager_Find m' ''idx'' = Some (p\<lparr>prt_ConnectorTypes := [''x'']\<rparr>)"
    by (simp add: PartnerManager_Find_def gomap_simps p(2,3))
  then have "map_option prt_ConnectorTypes (PartnerManager_Find m' ''idx'') = Some [''x'']" by simp
  with run up b show ?thesis by blast
qed

text \<open>C19. A partner is in order when its connectors are of types with a factory and it has the dispatcher of
  subscriptions if it has a subscription broadcaster. A valid definition leaves such a partner in order. Apart from
  the dispatcher, it then has a connector of exactly those types of the definition that have a factory. It has the
  dispatcher if the definition names it or a subscription broadcaster. If the definition names neither, it can
  still have the dispatcher, but only if it had a subscription broadcaster before.\<close>

theorem definition_connectors:
  assumes "connectors_inv p" and "APIPartner_Validate m (APIPartner_UnmarshalJSON body (Partner_Definition q)) = Some (True, api)"
  defines "new \<equiv> Partner_SetDefinition api p" and "types \<equiv> set (ap_ConnectorTypes api)"
  shows "connectors_inv new \<and>
    (\<forall>t. t \<noteq> SIRI_SUBSCRIPTION_REQUEST_DISPATCHER \<longrightarrow>
       (has_connector new t \<longleftrightarrow> t \<in> types \<and> NewConnectorFactory t \<noteq> None)) \<and>
    (SIRI_SUBSCRIPTION_REQUEST_DISPATCHER \<in> types \<or> set subscription_broadcasters \<inter> types \<noteq> {} \<longrightarrow>
       has_connector new SIRI_SUBSCRIPTION_REQUEST_DISPATCHER) \<and>
    (has_connector new SIRI_SUBSCRIPTION_REQUEST_DISPATCHER \<longrightarrow>
       SIRI_SUBSCRIPTION_REQUEST_DISPATCHER \<in> types \<or> set subscription_broadcasters \<inter> types \<noteq> {} \<or> Partner_hasSubscribers p)"
proof -
  have "ap_factories (APIPartner_UnmarshalJSON body (Partner_Definition q)) = []"
    by (simp add: APIPartner_UnmarshalJSON_def Partner_Definition_def)
  from Validate_spec [OF this, of m] assms(2) have f: "ap_factories api = factories_of (ap_ConnectorTypes api)" by auto
  show ?thesis
    unfolding new_def types_def
    using SetDefinition_inv [OF assms(1) f] SetDefinition_connectors [OF assms(1) f] by (intro conjI allI impI)
qed

theorem definition_connectors_witness:
  "\<exists>api. APIPartner_Validate NewPartnerManager (APIPartner_UnmarshalJSON
      (example_body ''a'' [(REMOTE_OBJECTID_KIND, ''k''), (REMOTE_URL, ''u''), (REMOTE_CREDENTIAL, ''r''), (LOCAL_CREDENTIAL, ''l'')]
         [SIRI_GENERAL_MESSAGE_SUBSCRIPTION_BROADCASTER])
      (Partner_Definition (PartnerManager_New ''''))) = Some (True, api) \<and>
    has_connector (Partner_SetDefinition api (PartnerManager_New '''')) SIRI_SUBSCRIPTION_REQUEST_DISPATCHER"
proof -
  let ?body = "example_body ''a'' [(REMOTE_OBJECTID_KIND, ''k''), (REMOTE_URL, ''u''), (REMOTE_CREDENTIAL, ''r''), (LOCAL_CREDENTIAL, ''l'')]
         [SIRI_GENERAL_MESSAGE_SUBSCRIPTION_BROADCASTER]"
  have "(case APIPartner_Validate NewPartnerManager (APIPartner_UnmarshalJSON ?body
      (Partner_Definition (PartnerManager_New ''''))) of None \<Rightarrow> False
      | Some (v, api) \<Rightarrow> v \<and> ap_ConnectorTypes api = [SIRI_GENERAL_MESSAGE_SUBSCRIPTION_BROADCASTER])" by code_simp
  then obtain api where v: "APIPartner_Validate NewPartnerManager (APIPartner_UnmarshalJSON ?body
      (Partner_Definition (PartnerManager_New ''''))) = Some (True, api)"
    and t: "ap_ConnectorTypes api = [SIRI_GENERAL_MESSAGE_SUBSCRIPTION_BROADCASTER]"
    by (auto split: option.splits)
  have "set subscription_broadcasters \<inter> set (ap_ConnectorTypes api) \<noteq> {}"
    by (simp add: t subscription_broadcasters_def)
  with definition_connectors [OF connectors_inv_new v, of "''''"] v show ?thesis by blast
qed

end
