(* ===== verification/BroadcastBuilders.thy ===== *)
theory BroadcastBuilders
  imports Model Settings LastStates
begin

text \<open>
  What is sent of a stop visit: \<^verbatim>\<open>core/broadcast_stop_monitoring_builder.go\<close> and the structures it fills
  (\<^verbatim>\<open>siri/siri_stop_monitoring_response.go\<close>). A builder reads the model through a transaction in which nothing is
  saved. It keeps the generators of the partner's settings and takes its identifiers from the one source of
  identifiers. The hash function and the text of the calendar day of an instant are parameters.

  A reference without an identifier is dereferenced in places; the result is then \<^const>\<open>None\<close>.
\<close>

record broadcast_env =
  be_now :: gotime
  be_sha1_hex :: "string \<Rightarrow> string"
  be_day :: "gotime \<Rightarrow> string"

section \<open>What is sent\<close>

record SIRICancelledStopVisit =
  csv_RecordedAtTime :: gotime
  csv_ItemRef :: string
  csv_MonitoringRef :: string
  csv_LineRef :: string
  csv_DataFrameRef :: string
  csv_DatedVehicleJourneyRef :: string
  csv_PublishedLineName :: string

record SIRIMonitoredStopVisit =
  msvo_ItemIdentifier :: string
  msvo_MonitoringRef :: string
  msvo_StopPointRef :: string
  msvo_StopPointName :: string
  msvo_DatedVehicleJourneyRef :: string
  msvo_LineRef :: string
  msvo_PublishedLineName :: string
  msvo_DepartureStatus :: string
  msvo_ArrivalStatus :: string
  msvo_VehicleJourneyName :: string
  msvo_OriginName :: string
  msvo_DestinationName :: string
  msvo_StopAreaObjectId :: string
  msvo_DataFrameRef :: string
  msvo_VehicleAtStop :: bool
  msvo_Monitored :: bool
  msvo_Order :: int
  msvo_AimedArrivalTime :: gotime
  msvo_ExpectedArrivalTime :: gotime
  msvo_ActualArrivalTime :: gotime
  msvo_RecordedAt :: gotime
  msvo_AimedDepartureTime :: gotime
  msvo_ExpectedDepartureTime :: gotime
  msvo_ActualDepartureTime :: gotime
  msvo_Attributes :: "(string, Attributes) gomap"
  msvo_References :: "(string, (string, string) gomap) gomap"

section \<open>Reading through a transaction in which nothing is saved\<close>

abbreviation read_area :: "MemoryModel \<Rightarrow> StopAreaId \<Rightarrow> StopArea option" where
  "read_area model \<equiv> TransactionalStopAreas_Find (tm_stopAreas (NewTransactionalModel model)) (mm_stopAreas model)"

abbreviation read_area_by_id :: "MemoryModel \<Rightarrow> ObjectID \<Rightarrow> StopArea option option" where
  "read_area_by_id model \<equiv> TransactionalStopAreas_FindByObjectId (tm_stopAreas (NewTransactionalModel model)) (mm_stopAreas model)"

abbreviation read_journey :: "MemoryModel \<Rightarrow> VehicleJourneyId \<Rightarrow> VehicleJourney option" where
  "read_journey model \<equiv>
     TransactionalVehicleJourneys_Find (tm_vehicleJourneys (NewTransactionalModel model)) (mm_vehicleJourneys model)"

abbreviation read_line :: "MemoryModel \<Rightarrow> LineId \<Rightarrow> Line option" where
  "read_line model \<equiv> TransactionalLines_Find (tm_lines (NewTransactionalModel model)) (mm_lines model)"

abbreviation read_line_by_id :: "MemoryModel \<Rightarrow> ObjectID \<Rightarrow> Line option option" where
  "read_line_by_id model \<equiv> TransactionalLines_FindByObjectId (tm_lines (NewTransactionalModel model)) (mm_lines model)"

abbreviation read_visit :: "MemoryModel \<Rightarrow> StopVisitId \<Rightarrow> StopVisit option" where
  "read_visit model \<equiv> TransactionalStopVisits_Find (tm_stopVisits (NewTransactionalModel model)) (mm_stopVisits model)"

abbreviation read_ascendants :: "MemoryModel \<Rightarrow> StopAreaId \<Rightarrow> string \<Rightarrow> ObjectID list option" where
  "read_ascendants model \<equiv>
     TransactionalStopAreas_FindAscendantsWithObjectIdKind (tm_stopAreas (NewTransactionalModel model)) (mm_stopAreas model)"

section \<open>The builder\<close>

record BroadcastStopMonitoringBuilder =
  bsm_StopVisitTypes :: string
  bsm_MonitoringRef :: string
  bsm_referenceGenerator :: IdentifierGenerator
  bsm_stopAreareferenceGenerator :: IdentifierGenerator
  bsm_dataFrameGenerator :: IdentifierGenerator
  bsm_remoteObjectidKind :: string
  bsm_noDestinationRefRewritingFrom :: "string list"
  bsm_noDataFrameRefRewritingFrom :: "string list"
  bsm_rewriteJourneyPatternRef :: bool

text \<open>The settings keep the generators that are asked of them for the first time.\<close>

definition NewBroadcastStopMonitoringBuilder ::
  "PartnerSettings \<Rightarrow> string \<Rightarrow> BroadcastStopMonitoringBuilder \<times> PartnerSettings" where
  "NewBroadcastStopMonitoringBuilder settings connector =
     (let (referenceGenerator, s1) = PartnerSettings_IdentifierGenerator REFERENCE_IDENTIFIER settings;
          (stopAreareferenceGenerator, s2) = PartnerSettings_IdentifierGenerator REFERENCE_STOP_AREA_IDENTIFIER s1;
          (dataFrameGenerator, s3) = PartnerSettings_IdentifierGenerator DATA_FRAME_IDENTIFIER s2
      in (\<lparr>bsm_StopVisitTypes = '''', bsm_MonitoringRef = '''', bsm_referenceGenerator = referenceGenerator,
           bsm_stopAreareferenceGenerator = stopAreareferenceGenerator, bsm_dataFrameGenerator = dataFrameGenerator,
           bsm_remoteObjectidKind = PartnerSettings_RemoteObjectIDKind s3 connector,
           bsm_noDestinationRefRewritingFrom = PartnerSettings_NoDestinationRefRewritingFrom s3,
           bsm_noDataFrameRefRewritingFrom = PartnerSettings_NoDataFrameRefRewritingFrom s3,
           bsm_rewriteJourneyPatternRef = PartnerSettings_RewriteJourneyPatternRef s3\<rparr>, s3))"

definition BroadcastStopMonitoringBuilder_stopPointRef ::
  "BroadcastStopMonitoringBuilder \<Rightarrow> MemoryModel \<Rightarrow> StopAreaId \<Rightarrow> (StopArea \<times> string) option option" where
  "BroadcastStopMonitoringBuilder_stopPointRef builder model stopAreaId =
     (case read_area model stopAreaId of
        None \<Rightarrow> Some None
      | Some stopPointRef \<Rightarrow>
          (case Consumer_ObjectID (sa_objectids stopPointRef) (bsm_remoteObjectidKind builder) of
             Some x \<Rightarrow> Some (Some (stopPointRef, oid_value x))
           | None \<Rightarrow> do {
               found \<leftarrow> StopArea_Referent (mm_stopAreas model) stopPointRef;
               Some (do { referent \<leftarrow> found;
                          x \<leftarrow> Consumer_ObjectID (sa_objectids referent) (bsm_remoteObjectidKind builder);
                          Some (referent, oid_value x) }) }))"

text \<open>The value of the identifier of the partner's kind, or one made from the default identifier.\<close>

definition reference_or_made ::
  "BroadcastStopMonitoringBuilder \<Rightarrow> string \<Rightarrow> ObjectIDs \<Rightarrow> uuid_gen \<Rightarrow> string option \<times> uuid_gen" where
  "reference_or_made builder refType ids g =
     (case Consumer_ObjectID ids (bsm_remoteObjectidKind builder) of
        Some x \<Rightarrow> (Some (oid_value x), g)
      | None \<Rightarrow>
          (case Consumer_ObjectID ids ''_default'' of
             None \<Rightarrow> (None, g)
           | Some defaultObjectID \<Rightarrow>
               (let (i, g1) = IdentifierGenerator_NewIdentifier \<lparr>ia_Type = refType, ia_Id = oid_value defaultObjectID\<rparr>
                      (bsm_referenceGenerator builder) g
                in (Some i, g1))))"

definition BroadcastStopMonitoringBuilder_getItemIdentifier ::
  "BroadcastStopMonitoringBuilder \<Rightarrow> StopVisit \<Rightarrow> uuid_gen \<Rightarrow> string option \<times> uuid_gen" where
  "BroadcastStopMonitoringBuilder_getItemIdentifier builder stopVisit =
     reference_or_made builder ''Item'' (sv_objectids stopVisit)"

definition BroadcastStopMonitoringBuilder_dataVehicleJourneyRef ::
  "BroadcastStopMonitoringBuilder \<Rightarrow> VehicleJourney \<Rightarrow> uuid_gen \<Rightarrow> string option \<times> uuid_gen" where
  "BroadcastStopMonitoringBuilder_dataVehicleJourneyRef builder vehicleJourney =
     reference_or_made builder ''VehicleJourney'' (vj_objectids vehicleJourney)"

definition BroadcastStopMonitoringBuilder_noDestinationRefRewrite :: "BroadcastStopMonitoringBuilder \<Rightarrow> string \<Rightarrow> bool" where
  "BroadcastStopMonitoringBuilder_noDestinationRefRewrite builder origin =
     list_ex (\<lambda>x. origin = TrimSpace x) (bsm_noDestinationRefRewritingFrom builder)"

definition BroadcastStopMonitoringBuilder_noDataFrameRefRewrite :: "BroadcastStopMonitoringBuilder \<Rightarrow> string \<Rightarrow> bool" where
  "BroadcastStopMonitoringBuilder_noDataFrameRefRewrite builder origin =
     list_ex (\<lambda>x. origin = TrimSpace x) (bsm_noDataFrameRefRewritingFrom builder)"

definition BroadcastStopMonitoringBuilder_dataFrameRef ::
  "broadcast_env \<Rightarrow> BroadcastStopMonitoringBuilder \<Rightarrow> MemoryModel \<Rightarrow> StopVisit \<Rightarrow> string \<Rightarrow> uuid_gen \<Rightarrow> string \<times> uuid_gen" where
  "BroadcastStopMonitoringBuilder_dataFrameRef be builder model sv origin g =
     (if sv_DataFrameRef sv \<noteq> '''' \<and> BroadcastStopMonitoringBuilder_noDataFrameRefRewrite builder origin
      then (sv_DataFrameRef sv, g)
      else IdentifierGenerator_NewIdentifier \<lparr>ia_Type = '''', ia_Id = be_day be (mm_date model)\<rparr>
             (bsm_dataFrameGenerator builder) g)"

text \<open>The identifier of a reference is changed through its pointer.\<close>

definition set_reference_value :: "string \<Rightarrow> string \<Rightarrow> References \<Rightarrow> References" where
  "set_reference_value key value references =
     (case mget references key of
        None \<Rightarrow> references
      | Some r \<Rightarrow> mput key (r\<lparr>ref_ObjectId := map_option (ObjectID_SetValue value) (ref_ObjectId r)\<rparr>) references)"

definition BroadcastStopMonitoringBuilder_resolveOperator ::
  "BroadcastStopMonitoringBuilder \<Rightarrow> MemoryModel \<Rightarrow> References \<Rightarrow> References option" where
  "BroadcastStopMonitoringBuilder_resolveOperator builder model references =
     (case References_Get references ''OperatorRef'' of
        None \<Rightarrow> Some references
      | Some operatorRef \<Rightarrow> do {
          x \<leftarrow> ref_ObjectId operatorRef;
          Some (case TransactionalOperators_FindByObjectId (tm_operators (NewTransactionalModel model)) (mm_operators model) x of
                  None \<Rightarrow> references
                | Some operator \<Rightarrow>
                    (case Consumer_ObjectID (opr_objectids operator) (bsm_remoteObjectidKind builder) of
                       None \<Rightarrow> references
                     | Some obj \<Rightarrow> set_reference_value ''OperatorRef'' (oid_value obj) references)) })"

definition BroadcastStopMonitoringBuilder_resolveStopAreaRef ::
  "broadcast_env \<Rightarrow> BroadcastStopMonitoringBuilder \<Rightarrow> MemoryModel \<Rightarrow> ObjectID \<Rightarrow> uuid_gen \<Rightarrow> (string \<times> uuid_gen) option" where
  "BroadcastStopMonitoringBuilder_resolveStopAreaRef be builder model x g = do {
     stopArea \<leftarrow> read_area_by_id model x;
     known \<leftarrow> (case stopArea of
                None \<Rightarrow> Some None
              | Some sa \<Rightarrow> StopArea_ReferentOrSelfObjectId (mm_stopAreas model) sa (bsm_remoteObjectidKind builder));
     Some (case known of
             Some obj \<Rightarrow> (oid_value obj, g)
           | None \<Rightarrow> IdentifierGenerator_NewIdentifier \<lparr>ia_Type = '''', ia_Id = HashValue (be_sha1_hex be) x\<rparr>
                       (bsm_stopAreareferenceGenerator builder) g) }"

text \<open>The two loops of the resolution of a journey's references.\<close>

definition resolve_made ::
  "broadcast_env \<Rightarrow> BroadcastStopMonitoringBuilder \<Rightarrow> string \<Rightarrow> References \<times> uuid_gen \<Rightarrow> (References \<times> uuid_gen) option" where
  "resolve_made be builder refType st =
     (case st of (references, g) \<Rightarrow>
        if refType = ''JourneyPatternRef'' \<and> \<not> bsm_rewriteJourneyPatternRef builder then Some (references, g)
        else (case References_Get references refType of
                None \<Rightarrow> Some (references, g)
              | Some reference \<Rightarrow> do {
                  sha1 \<leftarrow> Reference_GetSha1 (be_sha1_hex be) reference;
                  let (i, g1) = IdentifierGenerator_NewIdentifier
                        \<lparr>ia_Type = take (length refType - 3) refType, ia_Id = sha1\<rparr> (bsm_referenceGenerator builder) g;
                  Some (set_reference_value refType i references, g1) }))"

definition resolve_place ::
  "broadcast_env \<Rightarrow> BroadcastStopMonitoringBuilder \<Rightarrow> MemoryModel \<Rightarrow> string \<Rightarrow> string \<Rightarrow> References \<times> uuid_gen \<Rightarrow>
   (References \<times> uuid_gen) option" where
  "resolve_place be builder model origin refType st =
     (case st of (references, g) \<Rightarrow>
        (case Option.bind (References_Get references refType) ref_ObjectId of
           None \<Rightarrow> Some (references, g)
         | Some x \<Rightarrow>
             if refType = ''DestinationRef'' \<and> BroadcastStopMonitoringBuilder_noDestinationRefRewrite builder origin
             then Some (references, g)
             else do {
               (i, g1) \<leftarrow> BroadcastStopMonitoringBuilder_resolveStopAreaRef be builder model x g;
               Some (set_reference_value refType i references, g1) }))"

definition BroadcastStopMonitoringBuilder_resolveVJReferences ::
  "broadcast_env \<Rightarrow> BroadcastStopMonitoringBuilder \<Rightarrow> MemoryModel \<Rightarrow> string \<Rightarrow> References \<Rightarrow> uuid_gen \<Rightarrow>
   (References \<times> uuid_gen) option" where
  "BroadcastStopMonitoringBuilder_resolveVJReferences be builder model origin references g = do {
     made \<leftarrow> fold (\<lambda>refType acc. Option.bind acc (resolve_made be builder refType))
       [''RouteRef'', ''JourneyPatternRef'', ''DatedVehicleJourneyRef''] (Some (references, g));
     fold (\<lambda>refType acc. Option.bind acc (resolve_place be builder model origin refType))
       [''PlaceRef'', ''OriginRef'', ''DestinationRef''] (Some made) }"

text \<open>The journey and the line of a visit with the value of the line's identifier, the first things both kinds
  of messages need.\<close>

definition visit_line ::
  "BroadcastStopMonitoringBuilder \<Rightarrow> MemoryModel \<Rightarrow> StopVisit \<Rightarrow> (VehicleJourney \<times> Line \<times> string) option" where
  "visit_line builder model stopVisit = do {
     vehicleJourney \<leftarrow> read_journey model (sv_VehicleJourneyId stopVisit);
     line \<leftarrow> read_line model (vj_LineId vehicleJourney);
     lineObjectId \<leftarrow> Consumer_ObjectID (line_objectids line) (bsm_remoteObjectidKind builder);
     Some (vehicleJourney, line, oid_value lineObjectId) }"

text \<open>The two identifiers that are needed next; the first may have used the generator when the second is missing.\<close>

definition visit_identifiers ::
  "BroadcastStopMonitoringBuilder \<Rightarrow> StopVisit \<Rightarrow> VehicleJourney \<Rightarrow> uuid_gen \<Rightarrow> (string \<times> string) option \<times> uuid_gen" where
  "visit_identifiers builder stopVisit vehicleJourney g =
     (case BroadcastStopMonitoringBuilder_getItemIdentifier builder stopVisit g of
        (None, g1) \<Rightarrow> (None, g1)
      | (Some itemIdentifier, g1) \<Rightarrow>
          (case BroadcastStopMonitoringBuilder_dataVehicleJourneyRef builder vehicleJourney g1 of
             (None, g2) \<Rightarrow> (None, g2)
           | (Some dataVehicleJourneyRef, g2) \<Rightarrow> (Some (itemIdentifier, dataVehicleJourneyRef), g2)))"

definition BroadcastStopMonitoringBuilder_BuildCancelledStopVisit ::
  "broadcast_env \<Rightarrow> BroadcastStopMonitoringBuilder \<Rightarrow> MemoryModel \<Rightarrow> StopVisit \<Rightarrow> uuid_gen \<Rightarrow>
   SIRICancelledStopVisit option \<times> uuid_gen" where
  "BroadcastStopMonitoringBuilder_BuildCancelledStopVisit be builder model stopVisit g =
     (case visit_line builder model stopVisit of
        None \<Rightarrow> (None, g)
      | Some (vehicleJourney, line, lineRef) \<Rightarrow>
          (case visit_identifiers builder stopVisit vehicleJourney g of
             (None, g1) \<Rightarrow> (None, g1)
           | (Some (itemIdentifier, dataVehicleJourneyRef), g1) \<Rightarrow>
               (let (dataFrameRef, g2) = BroadcastStopMonitoringBuilder_dataFrameRef be builder model stopVisit
                      (vj_Origin vehicleJourney) g1
                in (Some \<lparr>csv_RecordedAtTime = sv_RecordedAt stopVisit, csv_ItemRef = itemIdentifier,
                      csv_MonitoringRef = bsm_MonitoringRef builder, csv_LineRef = lineRef,
                      csv_DataFrameRef = dataFrameRef, csv_DatedVehicleJourneyRef = dataVehicleJourneyRef,
                      csv_PublishedLineName = line_Name line\<rparr>, g2))))"

text \<open>The times that are sent: none of a cancelled arrival, or of a departure to a subscriber of arrivals; the actual
  time only of what is monitored.\<close>

definition arrival_times :: "BroadcastStopMonitoringBuilder \<Rightarrow> StopVisit \<Rightarrow> SIRIMonitoredStopVisit \<Rightarrow> SIRIMonitoredStopVisit" where
  "arrival_times builder stopVisit m =
     (if sv_ArrivalStatus stopVisit \<noteq> STOP_VISIT_ARRIVAL_CANCELLED \<and> bsm_StopVisitTypes builder \<noteq> ''departures''
      then (let time = (\<lambda>kind. svs_arrivalTime (Schedules_Schedule (sv_Schedules stopVisit) kind));
                m1 = m\<lparr>msvo_AimedArrivalTime := time STOP_VISIT_SCHEDULE_AIMED,
                       msvo_ExpectedArrivalTime := time STOP_VISIT_SCHEDULE_EXPECTED\<rparr>
            in if msvo_Monitored m then m1\<lparr>msvo_ActualArrivalTime := time STOP_VISIT_SCHEDULE_ACTUAL\<rparr> else m1)
      else m)"

definition departure_times :: "BroadcastStopMonitoringBuilder \<Rightarrow> StopVisit \<Rightarrow> SIRIMonitoredStopVisit \<Rightarrow> SIRIMonitoredStopVisit" where
  "departure_times builder stopVisit m =
     (if sv_DepartureStatus stopVisit \<noteq> STOP_VISIT_DEPARTURE_CANCELLED \<and> bsm_StopVisitTypes builder \<noteq> ''arrivals''
      then (let time = (\<lambda>kind. svs_departureTime (Schedules_Schedule (sv_Schedules stopVisit) kind));
                m1 = m\<lparr>msvo_AimedDepartureTime := time STOP_VISIT_SCHEDULE_AIMED,
                       msvo_ExpectedDepartureTime := time STOP_VISIT_SCHEDULE_EXPECTED\<rparr>
            in if msvo_Monitored m then m1\<lparr>msvo_ActualDepartureTime := time STOP_VISIT_SCHEDULE_ACTUAL\<rparr> else m1)
      else m)"

definition BroadcastStopMonitoringBuilder_BuildMonitoredStopVisit ::
  "broadcast_env \<Rightarrow> BroadcastStopMonitoringBuilder \<Rightarrow> MemoryModel \<Rightarrow> StopVisit \<Rightarrow> uuid_gen \<Rightarrow>
   (SIRIMonitoredStopVisit option \<times> uuid_gen) option" where
  "BroadcastStopMonitoringBuilder_BuildMonitoredStopVisit be builder model stopVisit g = do {
     stopPoint \<leftarrow> BroadcastStopMonitoringBuilder_stopPointRef builder model (sv_StopAreaId stopVisit);
     (case stopPoint of
        None \<Rightarrow> Some (None, g)
      | Some (stopPointRef, stopPointRefObjectId) \<Rightarrow>
          (case visit_line builder model stopVisit of
             None \<Rightarrow> Some (None, g)
           | Some (vehicleJourney, line, lineRef) \<Rightarrow>
               (case visit_identifiers builder stopVisit vehicleJourney g of
                  (None, g1) \<Rightarrow> Some (None, g1)
                | (Some (itemIdentifier, dataVehicleJourneyRef), g1) \<Rightarrow>
                    (let (dataFrameRef, g2) = BroadcastStopMonitoringBuilder_dataFrameRef be builder model stopVisit
                           (vj_Origin vehicleJourney) g1;
                         built = \<lparr>msvo_ItemIdentifier = itemIdentifier, msvo_MonitoringRef = bsm_MonitoringRef builder,
                           msvo_StopPointRef = stopPointRefObjectId, msvo_StopPointName = sa_Name stopPointRef,
                           msvo_DatedVehicleJourneyRef = dataVehicleJourneyRef, msvo_LineRef = lineRef,
                           msvo_PublishedLineName = line_Name line, msvo_DepartureStatus = sv_DepartureStatus stopVisit,
                           msvo_ArrivalStatus = sv_ArrivalStatus stopVisit, msvo_VehicleJourneyName = vj_Name vehicleJourney,
                           msvo_OriginName = vj_OriginName vehicleJourney,
                           msvo_DestinationName = vj_DestinationName vehicleJourney, msvo_StopAreaObjectId = '''',
                           msvo_DataFrameRef = dataFrameRef, msvo_VehicleAtStop = sv_VehicleAtStop stopVisit,
                           msvo_Monitored = vj_Monitored vehicleJourney \<and> sa_Monitored stopPointRef,
                           msvo_Order = sv_PassageOrder stopVisit, msvo_AimedArrivalTime = 0, msvo_ExpectedArrivalTime = 0,
                           msvo_ActualArrivalTime = 0, msvo_RecordedAt = sv_RecordedAt stopVisit,
                           msvo_AimedDepartureTime = 0, msvo_ExpectedDepartureTime = 0, msvo_ActualDepartureTime = 0,
                           msvo_Attributes = [], msvo_References = []\<rparr>;
                         timed = departure_times builder stopVisit (arrival_times builder stopVisit built)
                     in do {
                       (vehicleJourneyRefCopy, g3) \<leftarrow> BroadcastStopMonitoringBuilder_resolveVJReferences be builder model
                         (vj_Origin vehicleJourney) (References_Copy (vj_References vehicleJourney)) g2;
                       stopVisitRefCopy \<leftarrow> BroadcastStopMonitoringBuilder_resolveOperator builder model
                         (References_Copy (sv_References stopVisit));
                       stopVisitReferences \<leftarrow> References_GetSiriReferences stopVisitRefCopy;
                       vehicleJourneyReferences \<leftarrow> References_GetSiriReferences vehicleJourneyRefCopy;
                       Some (Some (timed\<lparr>
                         msvo_Attributes := [(''StopVisitAttributes'', sv_Attributes stopVisit),
                           (''VehicleJourneyAttributes'', vj_Attributes vehicleJourney)],
                         msvo_References := [(''StopVisitReferences'', stopVisitReferences),
                           (''VehicleJourney'', vehicleJourneyReferences)]\<rparr>), g3) })))) }"

end
