(* ===== verification/GoTime.thy ===== *)
theory GoTime
  imports GoStrings
begin

text \<open>
  \<^verbatim>\<open>time.Parse\<close> of the Go library (version 1.16) for the one layout the program parses with,
  \<^verbatim>\<open>2006-01-02T15:04:05Z07:00\<close>. Any error is \<^const>\<open>None\<close>. The instant counts nanoseconds from the first
  instant of the year 1, as \<^typ>\<open>gotime\<close> does everywhere; \<open>ParseStamp\<close> gives the location too.
\<close>

section \<open>Numbers\<close>

text \<open>\<^verbatim>\<open>getnum\<close> reads two digits, or one when the number may be short.\<close>

definition getnum :: "bool \<Rightarrow> string \<Rightarrow> (int \<times> string) option" where
  "getnum fixed s =
     (case s of
        [] \<Rightarrow> None
      | c # r \<Rightarrow>
          if \<not> is_digit c then None
          else (case r of
                  d # r' \<Rightarrow> if is_digit d then Some (digits_value [c, d], r')
                            else if fixed then None else Some (digits_value [c], r)
                | [] \<Rightarrow> if fixed then None else Some (digits_value [c], r)))"

text \<open>The package's own \<^verbatim>\<open>atoi\<close> takes a sign, and a sign alone for zero.\<close>

definition time_atoi :: "string \<Rightarrow> int option" where
  "time_atoi s =
     (let (neg, digits) = (case s of [] \<Rightarrow> (False, [])
                           | c # r \<Rightarrow> if c = CHR ''-'' then (True, r) else if c = CHR ''+'' then (False, r) else (False, s))
      in if list_all is_digit digits then Some (if neg then - digits_value digits else digits_value digits) else None)"

definition year_number :: "string \<Rightarrow> (int \<times> string) option" where
  "year_number s =
     (if length s \<ge> 4 \<and> list_all is_digit (take 4 s) then Some (digits_value (take 4 s), drop 4 s) else None)"

definition expect :: "char \<Rightarrow> string \<Rightarrow> string option" where
  "expect c s = (case s of [] \<Rightarrow> None | d # r \<Rightarrow> if d = c then Some r else None)"

section \<open>The calendar\<close>

definition leap_year :: "int \<Rightarrow> bool" where
  "leap_year y \<longleftrightarrow> y mod 4 = 0 \<and> (y mod 100 \<noteq> 0 \<or> y mod 400 = 0)"

definition days_in_month :: "int \<Rightarrow> int \<Rightarrow> int" where
  "days_in_month m y =
     (if m = 2 then (if leap_year y then 29 else 28) else if m \<in> {4, 6, 9, 11} then 30 else 31)"

text \<open>Days before a year, from the first of January of the year 1, and before a month.\<close>

definition days_before_year :: "int \<Rightarrow> int" where
  "days_before_year y = 365 * (y - 1) + (y - 1) div 4 - (y - 1) div 100 + (y - 1) div 400"

definition days_before_month :: "int \<Rightarrow> int \<Rightarrow> int" where
  "days_before_month m y = (\<Sum>k \<leftarrow> [1..m - 1]. days_in_month k y)"

definition UnixDate :: "int \<Rightarrow> int \<Rightarrow> int \<Rightarrow> int" where
  "UnixDate y m d = days_before_year y + days_before_month m y + (d - 1)"

section \<open>Parsing\<close>

text \<open>A fraction of a second may follow the seconds, although the layout has none.\<close>

definition fraction :: "string \<Rightarrow> (int \<times> string) option" where
  "fraction s =
     (case s of
        c # d # r \<Rightarrow>
          if c = CHR ''.'' \<and> is_digit d
          then (let digits = takeWhile is_digit (d # r); ns = digits_value digits
                in if ns < 10 ^ 9 then Some (ns * 10 ^ (9 - length digits), dropWhile is_digit (d # r)) else None)
          else Some (0, s)
      | _ \<Rightarrow> Some (0, s))"

text \<open>The zone at the end: \<^verbatim>\<open>Z\<close>, or an offset in seconds.\<close>

definition written_zone :: "string \<Rightarrow> int option option" where
  "written_zone s =
     (if s = ''Z'' then Some None
      else if length s = 6 \<and> s ! 3 = CHR '':'' \<and> (hd s = CHR ''+'' \<or> hd s = CHR ''-'')
      then do {
        hr \<leftarrow> time_atoi (take 2 (drop 1 s));
        mm \<leftarrow> time_atoi (drop 4 s);
        let offset = (hr * 60 + mm) * 60;
        Some (Some (if hd s = CHR ''-'' then - offset else offset)) }
      else None)"

definition ParseZoned :: "string \<Rightarrow> (gotime \<times> int option) option" where
  "ParseZoned s = do {
     (y, s) \<leftarrow> year_number s;
     s \<leftarrow> expect (CHR ''-'') s;
     (mo, s) \<leftarrow> getnum True s;
     s \<leftarrow> expect (CHR ''-'') s;
     (d, s) \<leftarrow> getnum True s;
     s \<leftarrow> expect (CHR ''T'') s;
     (h, s) \<leftarrow> getnum False s;
     s \<leftarrow> expect (CHR '':'') s;
     (mi, s) \<leftarrow> getnum True s;
     s \<leftarrow> expect (CHR '':'') s;
     (sec, s) \<leftarrow> getnum True s;
     (ns, s) \<leftarrow> fraction s;
     zone \<leftarrow> written_zone s;
     let offset = (case zone of None \<Rightarrow> 0 | Some offset \<Rightarrow> offset);
     if 1 \<le> mo \<and> mo \<le> 12 \<and> h < 24 \<and> mi < 60 \<and> sec < 60 \<and> 1 \<le> d \<and> d \<le> days_in_month mo y
     then Some (seconds (((UnixDate y mo d * 24 + h) * 60 + mi) * 60 + sec - offset) + ns, zone)
     else None }"

definition ParseTime :: "string \<Rightarrow> gotime option" where
  "ParseTime s = map_option fst (ParseZoned s)"

text \<open>An offset that the local zone does not have at that instant makes a zone of its own, at an address that is
  given here.\<close>

definition parsed_location :: "zone \<Rightarrow> nat \<Rightarrow> gotime \<Rightarrow> int option \<Rightarrow> location" where
  "parsed_location local a t written =
     (case written of
        None \<Rightarrow> UTC
      | Some offset \<Rightarrow> if fst (local t) = offset then Local else FixedZone a offset)"

definition ParseStamp :: "zone \<Rightarrow> nat \<Rightarrow> string \<Rightarrow> stamp option" where
  "ParseStamp local a s =
     map_option (\<lambda>(t, written). \<lparr>stamp_instant = t, stamp_location = parsed_location local a t written\<rparr>) (ParseZoned s)"

end
