(* ===== verification/SiriXml.thy ===== *)
theory SiriXml
  imports GoTime LastStates
begin

text \<open>
  Reading SIRI documents (\<^verbatim>\<open>siri/xml_structure.go\<close>). The XML library is a parameter: a node is of any type,
  and a \<open>gokogiri\<close> gives what the program asks of it: the nodes that an XPath finds below a node, in
  document order (\<^const>\<open>None\<close> is an error of the library), the text and an attribute of a node, its parent
  and its name.

  A structure is a node and the fields its methods have filled so far; most methods search the document
  once and then answer from their field. Substructures are made anew where the code keeps their pointers.
\<close>

record 'n gokogiri =
  gk_Search :: "'n \<Rightarrow> string \<Rightarrow> 'n list option"
  gk_Content :: "'n \<Rightarrow> string"
  gk_Attr :: "'n \<Rightarrow> string \<Rightarrow> string"
  gk_Parent :: "'n \<Rightarrow> 'n"
  gk_Name :: "'n \<Rightarrow> string"

record 'n XMLStructure =
  xml_node :: 'n
  xml_strings :: "(string, string) gomap"
  xml_times :: "(string, gotime) gomap"
  xml_stamps :: "(string, stamp) gomap"
  xml_ints :: "(string, int) gomap"
  xml_bools :: "(string, bool) gomap"
  xml_lists :: "(string, string list) gomap"

definition new_structure :: "'n \<Rightarrow> 'n XMLStructure" where
  "new_structure node =
     \<lparr>xml_node = node, xml_strings = [], xml_times = [], xml_stamps = [], xml_ints = [], xml_bools = [],
      xml_lists = []\<rparr>"

section \<open>Searching\<close>

text \<open>\<^verbatim>\<open>*[local-name()='%s']\<close>\<close>

definition local_name :: "string \<Rightarrow> string" where
  "local_name localName = ''*[local-name()='' @ [CHR 0x27] @ localName @ [CHR 0x27] @ '']''"

definition XMLStructure_findNodeWithNamespace :: "'n gokogiri \<Rightarrow> 'n \<Rightarrow> string \<Rightarrow> 'n option" where
  "XMLStructure_findNodeWithNamespace gk node localName =
     (case gk_Search gk node (''.//'' @ local_name localName) of
        None \<Rightarrow> None
      | Some [] \<Rightarrow> None
      | Some (n # _) \<Rightarrow> Some n)"

definition XMLStructure_findNode :: "'n gokogiri \<Rightarrow> 'n \<Rightarrow> string \<Rightarrow> 'n option" where
  "XMLStructure_findNode gk node localName =
     (case gk_Search gk node (''.//'' @ localName) of
        None \<Rightarrow> XMLStructure_findNodeWithNamespace gk node localName
      | Some [] \<Rightarrow> XMLStructure_findNodeWithNamespace gk node localName
      | Some (n # _) \<Rightarrow> Some n)"

definition XMLStructure_nodes :: "'n gokogiri \<Rightarrow> 'n \<Rightarrow> string \<Rightarrow> 'n list" where
  "XMLStructure_nodes gk node xpath = (case gk_Search gk node xpath of None \<Rightarrow> [] | Some nodes \<Rightarrow> nodes)"

definition XMLStructure_findNodes :: "'n gokogiri \<Rightarrow> 'n \<Rightarrow> string \<Rightarrow> 'n list" where
  "XMLStructure_findNodes gk node localName = XMLStructure_nodes gk node (''.//'' @ local_name localName)"

definition XMLStructure_findDirectChildrenNodes :: "'n gokogiri \<Rightarrow> 'n \<Rightarrow> string \<Rightarrow> 'n list" where
  "XMLStructure_findDirectChildrenNodes gk node localName = XMLStructure_nodes gk node (''./'' @ local_name localName)"

definition XMLStructure_findStringChildContent :: "'n gokogiri \<Rightarrow> 'n \<Rightarrow> string \<Rightarrow> string" where
  "XMLStructure_findStringChildContent gk node localName =
     (case XMLStructure_findNode gk node localName of None \<Rightarrow> '''' | Some n \<Rightarrow> TrimSpace (gk_Content gk n))"

definition XMLStructure_containSelfClosing :: "'n gokogiri \<Rightarrow> 'n \<Rightarrow> string \<Rightarrow> bool" where
  "XMLStructure_containSelfClosing gk node localName \<longleftrightarrow> XMLStructure_findNode gk node localName \<noteq> None"

definition XMLStructure_findTimeChildContent :: "'n gokogiri \<Rightarrow> 'n \<Rightarrow> string \<Rightarrow> gotime" where
  "XMLStructure_findTimeChildContent gk node localName =
     (case XMLStructure_findNode gk node localName of
        None \<Rightarrow> 0
      | Some n \<Rightarrow> (case ParseTime (TrimSpace (gk_Content gk n)) of None \<Rightarrow> 0 | Some t \<Rightarrow> t))"

text \<open>The same with the location, for the times that the program compares with \<^verbatim>\<open>==\<close>.\<close>

definition XMLStructure_findStampChildContent :: "zone \<Rightarrow> nat \<Rightarrow> 'n gokogiri \<Rightarrow> 'n \<Rightarrow> string \<Rightarrow> stamp" where
  "XMLStructure_findStampChildContent local a gk node localName =
     (case XMLStructure_findNode gk node localName of
        None \<Rightarrow> zero_stamp
      | Some n \<Rightarrow> (case ParseStamp local a (TrimSpace (gk_Content gk n)) of None \<Rightarrow> zero_stamp | Some t \<Rightarrow> t))"

text \<open>The groups of the regular expression of durations, each the longest run of digits before its letter, or
  nothing.\<close>

definition siri_parseDuration :: "string \<Rightarrow> duration" where
  "siri_parseDuration value =
     (if length value = 0 then 0
      else (let (parsed, ok) = Atoi value in if \<not> ok then 0 else word_of_int parsed))"

definition duration_groups :: "string \<Rightarrow> string list option" where
  "duration_groups value =
     (case dropWhile (\<lambda>c. c \<noteq> CHR ''P'') value of
        [] \<Rightarrow> None
      | _ # s \<Rightarrow>
          (let (y, s1) = digits_group (CHR ''Y'') s;
               (mo, s2) = digits_group (CHR ''M'') s1;
               (d, s3) = digits_group (CHR ''D'') s2
           in case s3 of
                CHR ''T'' # t \<Rightarrow>
                  (let (h, t1) = digits_group (CHR ''H'') t;
                       (mi, t2) = digits_group (CHR ''M'') t1;
                       (se, _) = digits_group (CHR ''S'') t2
                   in Some [y, mo, d, h, mi, se])
              | _ \<Rightarrow> Some [y, mo, d, [], [], []]))"

definition XMLStructure_findDurationChildContent :: "'n gokogiri \<Rightarrow> 'n \<Rightarrow> string \<Rightarrow> duration" where
  "XMLStructure_findDurationChildContent gk node localName =
     (case XMLStructure_findNode gk node localName of
        None \<Rightarrow> 0
      | Some n \<Rightarrow>
          (case duration_groups (TrimSpace (gk_Content gk n)) of
             None \<Rightarrow> 0
           | Some ms \<Rightarrow>
               siri_parseDuration (ms ! 0) * 24 * 365 * hour + siri_parseDuration (ms ! 1) * 30 * 24 * hour +
               siri_parseDuration (ms ! 2) * 24 * hour + siri_parseDuration (ms ! 3) * hour +
               siri_parseDuration (ms ! 4) * minute + siri_parseDuration (ms ! 5) * second))"

definition XMLStructure_findBoolChildContent :: "'n gokogiri \<Rightarrow> 'n \<Rightarrow> string \<Rightarrow> bool" where
  "XMLStructure_findBoolChildContent gk node localName =
     (case XMLStructure_findNode gk node localName of None \<Rightarrow> False | Some n \<Rightarrow> ParseBool (TrimSpace (gk_Content gk n)))"

definition XMLStructure_findIntChildContent :: "'n gokogiri \<Rightarrow> 'n \<Rightarrow> string \<Rightarrow> int" where
  "XMLStructure_findIntChildContent gk node localName =
     (case XMLStructure_findNode gk node localName of
        None \<Rightarrow> 0
      | Some n \<Rightarrow> (let (v, ok) = Atoi (TrimSpace (gk_Content gk n)) in if ok then v else 0))"

definition Bool_Parse :: "string \<Rightarrow> bool" where
  "Bool_Parse value \<longleftrightarrow> value = ''true'' \<or> value = ''TRUE'' \<or> value = ''1''"

section \<open>Fields that are filled when they are read\<close>

type_synonym ('n, 'a) reader = "'n gokogiri \<Rightarrow> 'n XMLStructure \<Rightarrow> 'a \<times> 'n XMLStructure"

text \<open>A field with its zero value counts as not filled.\<close>

definition read_string :: "string \<Rightarrow> string \<Rightarrow> ('n, string) reader" where
  "read_string field localName gk x =
     (if mget_or '''' (xml_strings x) field = ''''
      then (let v = XMLStructure_findStringChildContent gk (xml_node x) localName
            in (v, x\<lparr>xml_strings := mput field v (xml_strings x)\<rparr>))
      else (mget_or '''' (xml_strings x) field, x))"

definition read_time :: "string \<Rightarrow> string \<Rightarrow> ('n, gotime) reader" where
  "read_time field localName gk x =
     (if IsZero (mget_or 0 (xml_times x) field)
      then (let v = XMLStructure_findTimeChildContent gk (xml_node x) localName
            in (v, x\<lparr>xml_times := mput field v (xml_times x)\<rparr>))
      else (mget_or 0 (xml_times x) field, x))"

definition read_stamp :: "string \<Rightarrow> string \<Rightarrow> zone \<Rightarrow> nat \<Rightarrow> ('n, stamp) reader" where
  "read_stamp field localName local a gk x =
     (if IsZero (stamp_instant (mget_or zero_stamp (xml_stamps x) field))
      then (let v = XMLStructure_findStampChildContent local a gk (xml_node x) localName
            in (v, x\<lparr>xml_stamps := mput field v (xml_stamps x)\<rparr>))
      else (mget_or zero_stamp (xml_stamps x) field, x))"

definition read_int :: "string \<Rightarrow> string \<Rightarrow> ('n, int) reader" where
  "read_int field localName gk x =
     (if mget_or 0 (xml_ints x) field = 0
      then (let v = XMLStructure_findIntChildContent gk (xml_node x) localName
            in (v, x\<lparr>xml_ints := mput field v (xml_ints x)\<rparr>))
      else (mget_or 0 (xml_ints x) field, x))"

text \<open>A duration is kept as its signed number of nanoseconds.\<close>

definition read_duration :: "string \<Rightarrow> string \<Rightarrow> ('n, int) reader" where
  "read_duration field localName gk x =
     (if mget_or 0 (xml_ints x) field = 0
      then (let v = sint (XMLStructure_findDurationChildContent gk (xml_node x) localName)
            in (v, x\<lparr>xml_ints := mput field v (xml_ints x)\<rparr>))
      else (mget_or 0 (xml_ints x) field, x))"

text \<open>A \<^verbatim>\<open>Bool\<close> knows whether it is defined.\<close>

definition read_bool :: "string \<Rightarrow> ('n gokogiri \<Rightarrow> 'n \<Rightarrow> bool) \<Rightarrow> ('n, bool) reader" where
  "read_bool field value gk x =
     (case mget (xml_bools x) field of
        Some b \<Rightarrow> (b, x)
      | None \<Rightarrow> (value gk (xml_node x), x\<lparr>xml_bools := mput field (value gk (xml_node x)) (xml_bools x)\<rparr>))"

definition read_set_bool :: "string \<Rightarrow> string \<Rightarrow> ('n, bool) reader" where
  "read_set_bool field localName = read_bool field (\<lambda>gk node. XMLStructure_findBoolChildContent gk node localName)"

definition read_parsed_bool :: "string \<Rightarrow> string \<Rightarrow> ('n, bool) reader" where
  "read_parsed_bool field localName =
     read_bool field (\<lambda>gk node. Bool_Parse (XMLStructure_findStringChildContent gk node localName))"

definition read_texts ::
  "string \<Rightarrow> ('n gokogiri \<Rightarrow> 'n \<Rightarrow> string \<Rightarrow> 'n list) \<Rightarrow> string \<Rightarrow> ('n, string list) reader" where
  "read_texts field nodes localName gk x =
     (if length (mget_or [] (xml_lists x) field) = 0
      then (let v = map (\<lambda>n. TrimSpace (gk_Content gk n)) (nodes gk (xml_node x) localName)
            in (v, x\<lparr>xml_lists := mput field v (xml_lists x)\<rparr>))
      else (mget_or [] (xml_lists x) field, x))"

definition substructures :: "string \<Rightarrow> 'n gokogiri \<Rightarrow> 'n XMLStructure \<Rightarrow> 'n XMLStructure list" where
  "substructures localName gk x = map new_structure (XMLStructure_findNodes gk (xml_node x) localName)"

end
