(* ===== verification/SiriMessages.thy ===== *)
theory SiriMessages
  imports SiriXml
begin

text \<open>
  What the program reads in SIRI messages: one reader per method of the structures of \<^verbatim>\<open>siri/\<close>, file by
  file. A method of an embedded structure is that of the structures it is embedded in.
\<close>

section \<open>What the structures share\<close>

definition RequestXMLStructure_RequestorRef :: "('n, string) reader" where
  "RequestXMLStructure_RequestorRef = read_string ''requestorRef'' ''RequestorRef''"

definition LightRequestXMLStructure_MessageIdentifier :: "('n, string) reader" where
  "LightRequestXMLStructure_MessageIdentifier = read_string ''messageIdentifier'' ''MessageIdentifier''"

definition LightRequestXMLStructure_RequestTimestamp :: "('n, gotime) reader" where
  "LightRequestXMLStructure_RequestTimestamp = read_time ''requestTimestamp'' ''RequestTimestamp''"

definition ResponseXMLStructure_Address :: "('n, string) reader" where
  "ResponseXMLStructure_Address = read_string ''address'' ''Address''"

definition ResponseXMLStructure_ProducerRef :: "('n, string) reader" where
  "ResponseXMLStructure_ProducerRef = read_string ''producerRef'' ''ProducerRef''"

definition ResponseXMLStructure_ResponseMessageIdentifier :: "('n, string) reader" where
  "ResponseXMLStructure_ResponseMessageIdentifier = read_string ''responseMessageIdentifier'' ''ResponseMessageIdentifier''"

definition ResponseXMLStructure_RequestMessageRef :: "('n, string) reader" where
  "ResponseXMLStructure_RequestMessageRef = read_string ''requestMessageRef'' ''RequestMessageRef''"

definition ResponseXMLStructure_ResponseTimestamp :: "('n, gotime) reader" where
  "ResponseXMLStructure_ResponseTimestamp = read_time ''responseTimestamp'' ''ResponseTimestamp''"

definition ResponseXMLStructureWithStatus_Address :: "('n, string) reader" where
  "ResponseXMLStructureWithStatus_Address = read_string ''address'' ''Address''"

definition ResponseXMLStructureWithStatus_ProducerRef :: "('n, string) reader" where
  "ResponseXMLStructureWithStatus_ProducerRef = read_string ''producerRef'' ''ProducerRef''"

definition ResponseXMLStructureWithStatus_ResponseMessageIdentifier :: "('n, string) reader" where
  "ResponseXMLStructureWithStatus_ResponseMessageIdentifier = read_string ''responseMessageIdentifier'' ''ResponseMessageIdentifier''"

definition DeliveryXMLStructure_RequestMessageRef :: "('n, string) reader" where
  "DeliveryXMLStructure_RequestMessageRef = read_string ''requestMessageRef'' ''RequestMessageRef''"

definition LightDeliveryXMLStructure_ResponseTimestamp :: "('n, gotime) reader" where
  "LightDeliveryXMLStructure_ResponseTimestamp = read_time ''responseTimestamp'' ''ResponseTimestamp''"

definition SubscriptionDeliveryXMLStructure_RequestMessageRef :: "('n, string) reader" where
  "SubscriptionDeliveryXMLStructure_RequestMessageRef = read_string ''requestMessageRef'' ''RequestMessageRef''"

definition LightSubscriptionDeliveryXMLStructure_SubscriberRef :: "('n, string) reader" where
  "LightSubscriptionDeliveryXMLStructure_SubscriberRef = read_string ''subscriberRef'' ''SubscriberRef''"

definition LightSubscriptionDeliveryXMLStructure_SubscriptionRef :: "('n, string) reader" where
  "LightSubscriptionDeliveryXMLStructure_SubscriptionRef = read_string ''subscriptionRef'' ''SubscriptionRef''"

definition XMLStatus_Status :: "('n, bool) reader" where
  "XMLStatus_Status = read_set_bool ''status'' ''Status''"

text \<open>The type of an error is the name of the element around its text. When the number of an \<^verbatim>\<open>OtherError\<close> is not
  a number, the first reading fails, but has filled the field.\<close>

definition XMLStatus_ErrorType :: "('n, string) reader" where
  "XMLStatus_ErrorType gk x =
     (let (status, x1) = XMLStatus_Status gk x; cached = mget_or '''' (xml_strings x1) ''errorType''
      in if \<not> status \<and> cached = ''''
         then (case XMLStructure_findNode gk (xml_node x1) ''ErrorText'' of
                 None \<Rightarrow> (cached, x1)
               | Some n \<Rightarrow>
                   (let t = gk_Name gk (gk_Parent gk n);
                        x2 = x1\<lparr>xml_strings := mput ''errorText'' (TrimSpace (gk_Content gk n))
                                                 (mput ''errorType'' t (xml_strings x1))\<rparr>
                    in if t = ''OtherError''
                       then (let (number, ok) = Atoi (gk_Attr gk (gk_Parent gk n) ''number'')
                             in if \<not> ok then ('''', x2)
                                else (t, x2\<lparr>xml_ints := mput ''errorNumber'' number (xml_ints x2)\<rparr>))
                       else (t, x2)))
         else (cached, x1))"

text \<open>\<^const>\<open>None\<close> is the dereference of a missing node.\<close>

definition XMLStatus_ErrorNumber :: "'n gokogiri \<Rightarrow> 'n XMLStructure \<Rightarrow> (int \<times> 'n XMLStructure) option" where
  "XMLStatus_ErrorNumber gk x =
     (let (status, x1) = XMLStatus_Status gk x
      in if status then Some (mget_or 0 (xml_ints x1) ''errorNumber'', x1)
         else (let (t, x2) = XMLStatus_ErrorType gk x1; cached = mget_or 0 (xml_ints x2) ''errorNumber''
               in if t = ''OtherError'' \<and> cached = 0
                  then (case XMLStructure_findNode gk (xml_node x2) ''ErrorText'' of
                          None \<Rightarrow> None
                        | Some n \<Rightarrow>
                            (let (number, ok) = Atoi (gk_Attr gk (gk_Parent gk n) ''number'')
                             in Some (if \<not> ok then (-1, x2)
                                      else (number, x2\<lparr>xml_ints := mput ''errorNumber'' number (xml_ints x2)\<rparr>))))
                  else Some (cached, x2)))"

definition XMLStatus_ErrorText :: "('n, string) reader" where
  "XMLStatus_ErrorText gk x =
     (let (status, x1) = XMLStatus_Status gk x
      in if \<not> status then read_string ''errorText'' ''ErrorText'' gk x1
         else (mget_or '''' (xml_strings x1) ''errorText'', x1))"

definition XMLStatus_ErrorDescription :: "('n, string) reader" where
  "XMLStatus_ErrorDescription gk x =
     (let (status, x1) = XMLStatus_Status gk x
      in if \<not> status then read_string ''errorDescription'' ''Description'' gk x1
         else (mget_or '''' (xml_strings x1) ''errorDescription'', x1))"

section \<open>\<^verbatim>\<open>siri/xml_stop_monitoring_response.go\<close>\<close>

definition XMLStopMonitoringResponse_StopMonitoringDeliveries ::
  "'n gokogiri \<Rightarrow> 'n XMLStructure \<Rightarrow> 'n XMLStructure list" where
  "XMLStopMonitoringResponse_StopMonitoringDeliveries = substructures ''StopMonitoringDelivery''"

definition XMLStopMonitoringDelivery_MonitoringRef :: "('n, string) reader" where
  "XMLStopMonitoringDelivery_MonitoringRef = read_string ''monitoringRef'' ''MonitoringRef''"

definition XMLStopMonitoringDelivery_XMLMonitoredStopVisits ::
  "'n gokogiri \<Rightarrow> 'n XMLStructure \<Rightarrow> 'n XMLStructure list" where
  "XMLStopMonitoringDelivery_XMLMonitoredStopVisits = substructures ''MonitoredStopVisit''"

definition XMLStopMonitoringDelivery_XMLMonitoredStopVisitCancellations ::
  "'n gokogiri \<Rightarrow> 'n XMLStructure \<Rightarrow> 'n XMLStructure list" where
  "XMLStopMonitoringDelivery_XMLMonitoredStopVisitCancellations = substructures ''MonitoredStopVisitCancellation''"

definition XMLMonitoredStopVisitCancellation_ItemRef :: "('n, string) reader" where
  "XMLMonitoredStopVisitCancellation_ItemRef = read_string ''itemRef'' ''ItemRef''"

definition XMLMonitoredStopVisitCancellation_MonitoringRef :: "('n, string) reader" where
  "XMLMonitoredStopVisitCancellation_MonitoringRef = read_string ''monitoringRef'' ''MonitoringRef''"

definition XMLMonitoredStopVisit_ItemIdentifier :: "('n, string) reader" where
  "XMLMonitoredStopVisit_ItemIdentifier = read_string ''itemIdentifier'' ''ItemIdentifier''"

definition XMLMonitoredStopVisit_MonitoringRef :: "('n, string) reader" where
  "XMLMonitoredStopVisit_MonitoringRef = read_string ''monitoringRef'' ''MonitoringRef''"

definition XMLMonitoredStopVisit_StopPointRef :: "('n, string) reader" where
  "XMLMonitoredStopVisit_StopPointRef = read_string ''stopPointRef'' ''StopPointRef''"

definition XMLMonitoredStopVisit_StopPointName :: "('n, string) reader" where
  "XMLMonitoredStopVisit_StopPointName = read_string ''stopPointName'' ''StopPointName''"

definition XMLMonitoredStopVisit_DatedVehicleJourneyRef :: "('n, string) reader" where
  "XMLMonitoredStopVisit_DatedVehicleJourneyRef = read_string ''datedVehicleJourneyRef'' ''DatedVehicleJourneyRef''"

definition XMLMonitoredStopVisit_DataFrameRef :: "('n, string) reader" where
  "XMLMonitoredStopVisit_DataFrameRef = read_string ''dataFrameRef'' ''DataFrameRef''"

definition XMLMonitoredStopVisit_LineRef :: "('n, string) reader" where
  "XMLMonitoredStopVisit_LineRef = read_string ''lineRef'' ''LineRef''"

definition XMLMonitoredStopVisit_PublishedLineName :: "('n, string) reader" where
  "XMLMonitoredStopVisit_PublishedLineName = read_string ''publishedLineName'' ''PublishedLineName''"

definition XMLMonitoredStopVisit_DepartureStatus :: "('n, string) reader" where
  "XMLMonitoredStopVisit_DepartureStatus = read_string ''departureStatus'' ''DepartureStatus''"

definition XMLMonitoredStopVisit_ArrivalStatus :: "('n, string) reader" where
  "XMLMonitoredStopVisit_ArrivalStatus = read_string ''arrivalStatus'' ''ArrivalStatus''"

definition XMLMonitoredStopVisit_RecordedAt :: "('n, gotime) reader" where
  "XMLMonitoredStopVisit_RecordedAt = read_time ''recordedAt'' ''RecordedAtTime''"

definition XMLMonitoredStopVisit_Order :: "('n, int) reader" where
  "XMLMonitoredStopVisit_Order = read_int ''order'' ''Order''"

definition XMLMonitoredStopVisit_AimedArrivalTime :: "('n, gotime) reader" where
  "XMLMonitoredStopVisit_AimedArrivalTime = read_time ''aimedArrivalTime'' ''AimedArrivalTime''"

definition XMLMonitoredStopVisit_ExpectedArrivalTime :: "('n, gotime) reader" where
  "XMLMonitoredStopVisit_ExpectedArrivalTime = read_time ''expectedArrivalTime'' ''ExpectedArrivalTime''"

definition XMLMonitoredStopVisit_ActualArrivalTime :: "('n, gotime) reader" where
  "XMLMonitoredStopVisit_ActualArrivalTime = read_time ''actualArrivalTime'' ''ActualArrivalTime''"

definition XMLMonitoredStopVisit_AimedDepartureTime :: "('n, gotime) reader" where
  "XMLMonitoredStopVisit_AimedDepartureTime = read_time ''aimedDepartureTime'' ''AimedDepartureTime''"

definition XMLMonitoredStopVisit_ExpectedDepartureTime :: "('n, gotime) reader" where
  "XMLMonitoredStopVisit_ExpectedDepartureTime = read_time ''expectedDepartureTime'' ''ExpectedDepartureTime''"

definition XMLMonitoredStopVisit_ActualDepartureTime :: "('n, gotime) reader" where
  "XMLMonitoredStopVisit_ActualDepartureTime = read_time ''actualDepartureTime'' ''ActualDepartureTime''"

definition XMLMonitoredStopVisit_Delay :: "('n, string) reader" where
  "XMLMonitoredStopVisit_Delay = read_string ''delay'' ''Delay''"

definition XMLMonitoredStopVisit_ActualQuayName :: "('n, string) reader" where
  "XMLMonitoredStopVisit_ActualQuayName = read_string ''actualQuayName'' ''ActualQuayName''"

definition XMLMonitoredStopVisit_AimedHeadwayInterval :: "('n, string) reader" where
  "XMLMonitoredStopVisit_AimedHeadwayInterval = read_string ''aimedHeadwayInterval'' ''AimedHeadwayInterval''"

definition XMLMonitoredStopVisit_ArrivalPlatformName :: "('n, string) reader" where
  "XMLMonitoredStopVisit_ArrivalPlatformName = read_string ''arrivalPlatformName'' ''ArrivalPlatformName''"

definition XMLMonitoredStopVisit_ArrivalProximyTest :: "('n, string) reader" where
  "XMLMonitoredStopVisit_ArrivalProximyTest = read_string ''arrivalProximyTest'' ''ArrivalProximyTest''"

definition XMLMonitoredStopVisit_DepartureBoardingActivity :: "('n, string) reader" where
  "XMLMonitoredStopVisit_DepartureBoardingActivity = read_string ''departureBoardingActivity'' ''DepartureBoardingActivity''"

definition XMLMonitoredStopVisit_DeparturePlatformName :: "('n, string) reader" where
  "XMLMonitoredStopVisit_DeparturePlatformName = read_string ''departurePlatformName'' ''DeparturePlatformName''"

definition XMLMonitoredStopVisit_DestinationDisplay :: "('n, string) reader" where
  "XMLMonitoredStopVisit_DestinationDisplay = read_string ''destinationDisplay'' ''DestinationDisplay''"

definition XMLMonitoredStopVisit_DistanceFromStop :: "('n, string) reader" where
  "XMLMonitoredStopVisit_DistanceFromStop = read_string ''distanceFromStop'' ''DistanceFromStop''"

definition XMLMonitoredStopVisit_ExpectedHeadwayInterval :: "('n, string) reader" where
  "XMLMonitoredStopVisit_ExpectedHeadwayInterval = read_string ''expectedHeadwayInterval'' ''ExpectedHeadwayInterval''"

definition XMLMonitoredStopVisit_NumberOfStopsAway :: "('n, string) reader" where
  "XMLMonitoredStopVisit_NumberOfStopsAway = read_string ''numberOfStopsAway'' ''NumberOfStopsAway''"

definition XMLMonitoredStopVisit_PlatformTraversal :: "('n, string) reader" where
  "XMLMonitoredStopVisit_PlatformTraversal = read_string ''platformTraversal'' ''PlatformTraversal''"

definition XMLMonitoredStopVisit_DirectionName :: "('n, string) reader" where
  "XMLMonitoredStopVisit_DirectionName = read_string ''directionName'' ''DirectionName''"

definition XMLMonitoredStopVisit_DestinationName :: "('n, string) reader" where
  "XMLMonitoredStopVisit_DestinationName = read_string ''destinationName'' ''DestinationName''"

definition XMLMonitoredStopVisit_DirectionRef :: "('n, string) reader" where
  "XMLMonitoredStopVisit_DirectionRef = read_string ''directionRef'' ''DirectionRef''"

definition XMLMonitoredStopVisit_Bearing :: "('n, string) reader" where
  "XMLMonitoredStopVisit_Bearing = read_string ''bearing'' ''Bearing''"

definition XMLMonitoredStopVisit_InPanic :: "('n, string) reader" where
  "XMLMonitoredStopVisit_InPanic = read_string ''inPanic'' ''InPanic''"

definition XMLMonitoredStopVisit_SituationRef :: "('n, string) reader" where
  "XMLMonitoredStopVisit_SituationRef = read_string ''situationRef'' ''SituationRef''"

text \<open>This one answers from the field of another.\<close>

definition XMLMonitoredStopVisit_InCongestion :: "('n, string) reader" where
  "XMLMonitoredStopVisit_InCongestion gk x =
     (let (_, x1) = read_string ''inCongestion'' ''InCongestion'' gk x
      in (mget_or '''' (xml_strings x1) ''inPanic'', x1))"

definition XMLMonitoredStopVisit_HeadwayService :: "('n, string) reader" where
  "XMLMonitoredStopVisit_HeadwayService = read_string ''headwayService'' ''HeadwayService''"

definition XMLMonitoredStopVisit_FirstOrLastJourney :: "('n, string) reader" where
  "XMLMonitoredStopVisit_FirstOrLastJourney = read_string ''firstOrLastJourney'' ''FirstOrLastJourney''"

definition XMLMonitoredStopVisit_JourneyNote :: "('n, string) reader" where
  "XMLMonitoredStopVisit_JourneyNote = read_string ''journeyNote'' ''JourneyNote''"

definition XMLMonitoredStopVisit_JourneyPatternName :: "('n, string) reader" where
  "XMLMonitoredStopVisit_JourneyPatternName = read_string ''journeyPatternName'' ''JourneyPatternName''"

definition XMLMonitoredStopVisit_VehicleAtStop :: "('n, bool) reader" where
  "XMLMonitoredStopVisit_VehicleAtStop = read_parsed_bool ''vehicleAtStop'' ''VehicleAtStop''"

definition XMLMonitoredStopVisit_Monitored :: "('n, bool) reader" where
  "XMLMonitoredStopVisit_Monitored = read_parsed_bool ''monitored'' ''Monitored''"

definition XMLMonitoredStopVisit_MonitoringError :: "('n, string) reader" where
  "XMLMonitoredStopVisit_MonitoringError = read_string ''monitoringError'' ''MonitoringError''"

definition XMLMonitoredStopVisit_Occupancy :: "('n, string) reader" where
  "XMLMonitoredStopVisit_Occupancy = read_string ''occupancy'' ''Occupancy''"

definition XMLMonitoredStopVisit_OriginAimedDepartureTime :: "('n, string) reader" where
  "XMLMonitoredStopVisit_OriginAimedDepartureTime = read_string ''originAimedDepartureTime'' ''OriginAimedDepartureTime''"

definition XMLMonitoredStopVisit_DestinationAimedArrivalTime :: "('n, string) reader" where
  "XMLMonitoredStopVisit_DestinationAimedArrivalTime = read_string ''destinationAimedArrivalTime'' ''DestinationAimedArrivalTime''"

definition XMLMonitoredStopVisit_OriginName :: "('n, string) reader" where
  "XMLMonitoredStopVisit_OriginName = read_string ''originName'' ''OriginName''"

definition XMLMonitoredStopVisit_ProductCategoryRef :: "('n, string) reader" where
  "XMLMonitoredStopVisit_ProductCategoryRef = read_string ''productCategoryRef'' ''ProductCategoryRef''"

definition XMLMonitoredStopVisit_ServiceFeatureRef :: "('n, string) reader" where
  "XMLMonitoredStopVisit_ServiceFeatureRef = read_string ''serviceFeatureRef'' ''ServiceFeatureRef''"

definition XMLMonitoredStopVisit_TrainNumberRef :: "('n, string) reader" where
  "XMLMonitoredStopVisit_TrainNumberRef = read_string ''trainNumberRef'' ''TrainNumberRef''"

definition XMLMonitoredStopVisit_VehicleFeature :: "('n, string) reader" where
  "XMLMonitoredStopVisit_VehicleFeature = read_string ''vehicleFeature'' ''VehicleFeature''"

definition XMLMonitoredStopVisit_VehicleJourneyName :: "('n, string) reader" where
  "XMLMonitoredStopVisit_VehicleJourneyName = read_string ''vehicleJourneyName'' ''VehicleJourneyName''"

definition XMLMonitoredStopVisit_VehicleMode :: "('n, string) reader" where
  "XMLMonitoredStopVisit_VehicleMode = read_string ''vehicleMode'' ''VehicleMode''"

definition XMLMonitoredStopVisit_ViaPlaceName :: "('n, string) reader" where
  "XMLMonitoredStopVisit_ViaPlaceName = read_string ''viaPlaceName'' ''PlaceName''"

definition XMLMonitoredStopVisit_OriginRef :: "('n, string) reader" where
  "XMLMonitoredStopVisit_OriginRef = read_string ''originRef'' ''OriginRef''"

definition XMLMonitoredStopVisit_PlaceRef :: "('n, string) reader" where
  "XMLMonitoredStopVisit_PlaceRef = read_string ''placeRef'' ''PlaceRef''"

definition XMLMonitoredStopVisit_DestinationRef :: "('n, string) reader" where
  "XMLMonitoredStopVisit_DestinationRef = read_string ''destinationRef'' ''DestinationRef''"

definition XMLMonitoredStopVisit_JourneyPatternRef :: "('n, string) reader" where
  "XMLMonitoredStopVisit_JourneyPatternRef = read_string ''journeyPatternRef'' ''JourneyPatternRef''"

definition XMLMonitoredStopVisit_RouteRef :: "('n, string) reader" where
  "XMLMonitoredStopVisit_RouteRef = read_string ''routeRef'' ''RouteRef''"

definition XMLMonitoredStopVisit_OperatorRef :: "('n, string) reader" where
  "XMLMonitoredStopVisit_OperatorRef = read_string ''operatorRef'' ''OperatorRef''"

section \<open>\<^verbatim>\<open>siri/notify_stop_monitoring.go\<close>\<close>

definition XMLNotifyStopMonitoring_StopMonitoringDeliveries ::
  "'n gokogiri \<Rightarrow> 'n XMLStructure \<Rightarrow> 'n XMLStructure list" where
  "XMLNotifyStopMonitoring_StopMonitoringDeliveries = substructures ''StopMonitoringDelivery''"

definition XMLNotifyStopMonitoringDelivery_MonitoringRef :: "('n, string) reader" where
  "XMLNotifyStopMonitoringDelivery_MonitoringRef = read_string ''monitoringRef'' ''MonitoringRef''"

definition XMLNotifyStopMonitoringDelivery_XMLMonitoredStopVisits ::
  "'n gokogiri \<Rightarrow> 'n XMLStructure \<Rightarrow> 'n XMLStructure list" where
  "XMLNotifyStopMonitoringDelivery_XMLMonitoredStopVisits = substructures ''MonitoredStopVisit''"

definition XMLNotifyStopMonitoringDelivery_XMLMonitoredStopVisitCancellations ::
  "'n gokogiri \<Rightarrow> 'n XMLStructure \<Rightarrow> 'n XMLStructure list" where
  "XMLNotifyStopMonitoringDelivery_XMLMonitoredStopVisitCancellations = substructures ''MonitoredStopVisitCancellation''"

section \<open>\<^verbatim>\<open>siri/stop_monitoring_request.go\<close>\<close>

definition XMLGetStopMonitoring_RequestorRef :: "('n, string) reader" where
  "XMLGetStopMonitoring_RequestorRef = read_string ''requestorRef'' ''RequestorRef''"

definition LightXMLStopMonitoringRequest_MonitoringRef :: "('n, string) reader" where
  "LightXMLStopMonitoringRequest_MonitoringRef = read_string ''monitoringRef'' ''MonitoringRef''"

definition LightXMLStopMonitoringRequest_StopVisitTypes :: "('n, string) reader" where
  "LightXMLStopMonitoringRequest_StopVisitTypes = read_string ''stopVisitTypes'' ''StopVisitTypes''"

definition LightXMLStopMonitoringRequest_LineRef :: "('n, string) reader" where
  "LightXMLStopMonitoringRequest_LineRef = read_string ''lineRef'' ''LineRef''"

definition LightXMLStopMonitoringRequest_MaximumStopVisits :: "('n, int) reader" where
  "LightXMLStopMonitoringRequest_MaximumStopVisits = read_int ''maximumStopVisits'' ''MaximumStopVisits''"

definition XMLStopMonitoringRequest_PreviewInterval :: "('n, int) reader" where
  "XMLStopMonitoringRequest_PreviewInterval = read_duration ''previewInterval'' ''PreviewInterval''"

definition XMLStopMonitoringRequest_StartTime :: "('n, gotime) reader" where
  "XMLStopMonitoringRequest_StartTime = read_time ''startTime'' ''StartTime''"

section \<open>\<^verbatim>\<open>siri/general_message_request.go\<close>\<close>

definition XMLGetGeneralMessage_RequestorRef :: "('n, string) reader" where
  "XMLGetGeneralMessage_RequestorRef = read_string ''requestorRef'' ''RequestorRef''"

definition XMLGeneralMessageRequest_InfoChannelRef :: "('n, string list) reader" where
  "XMLGeneralMessageRequest_InfoChannelRef = read_texts ''infoChannelRef'' XMLStructure_findNodes ''InfoChannelRef''"

definition XMLGeneralMessageRequest_GroupOfLinesRef :: "('n, string list) reader" where
  "XMLGeneralMessageRequest_GroupOfLinesRef = read_texts ''groupOfLinesRef'' XMLStructure_findNodes ''GroupOfLinesRef''"

definition XMLGeneralMessageRequest_RouteRef :: "('n, string list) reader" where
  "XMLGeneralMessageRequest_RouteRef = read_texts ''routeRef'' XMLStructure_findNodes ''RouteRef''"

definition XMLGeneralMessageRequest_DestinationRef :: "('n, string list) reader" where
  "XMLGeneralMessageRequest_DestinationRef = read_texts ''destinationRef'' XMLStructure_findNodes ''DestinationRef''"

definition XMLGeneralMessageRequest_JourneyPatternRef :: "('n, string list) reader" where
  "XMLGeneralMessageRequest_JourneyPatternRef = read_texts ''journeyPatternRef'' XMLStructure_findNodes ''JourneyPatternRef''"

definition XMLGeneralMessageRequest_StopPointRef :: "('n, string list) reader" where
  "XMLGeneralMessageRequest_StopPointRef = read_texts ''stopPointRef'' XMLStructure_findNodes ''StopPointRef''"

definition XMLGeneralMessageRequest_LineRef :: "('n, string list) reader" where
  "XMLGeneralMessageRequest_LineRef = read_texts ''lineRef'' XMLStructure_findNodes ''LineRef''"

section \<open>\<^verbatim>\<open>siri/general_message_response.go\<close>\<close>

definition XMLGeneralMessageResponse_XMLGeneralMessages ::
  "'n gokogiri \<Rightarrow> 'n XMLStructure \<Rightarrow> 'n XMLStructure list" where
  "XMLGeneralMessageResponse_XMLGeneralMessages = substructures ''GeneralMessage''"

definition XMLGeneralMessageCancellation_InfoMessageIdentifier :: "('n, string) reader" where
  "XMLGeneralMessageCancellation_InfoMessageIdentifier = read_string ''infoMessageIdentifier'' ''InfoMessageIdentifier''"

definition XMLGeneralMessage_RecordedAtTime :: "zone \<Rightarrow> nat \<Rightarrow> ('n, stamp) reader" where
  "XMLGeneralMessage_RecordedAtTime = read_stamp ''recordedAtTime'' ''RecordedAtTime''"

definition XMLGeneralMessage_ValidUntilTime :: "('n, gotime) reader" where
  "XMLGeneralMessage_ValidUntilTime = read_time ''validUntilTime'' ''ValidUntilTime''"

definition XMLGeneralMessage_ItemIdentifier :: "('n, string) reader" where
  "XMLGeneralMessage_ItemIdentifier = read_string ''itemIdentifier'' ''ItemIdentifier''"

definition XMLGeneralMessage_InfoMessageIdentifier :: "('n, string) reader" where
  "XMLGeneralMessage_InfoMessageIdentifier = read_string ''infoMessageIdentifier'' ''InfoMessageIdentifier''"

definition XMLGeneralMessage_InfoMessageVersion :: "('n, int) reader" where
  "XMLGeneralMessage_InfoMessageVersion gk x =
     (let (v, x1) = read_int ''infoMessageVersion'' ''InfoMessageVersion'' gk x
      in if v = 0 then (1, x1\<lparr>xml_ints := mput ''infoMessageVersion'' 1 (xml_ints x1)\<rparr>) else (v, x1))"

definition XMLGeneralMessage_InfoChannelRef :: "('n, string) reader" where
  "XMLGeneralMessage_InfoChannelRef = read_string ''infoChannelRef'' ''InfoChannelRef''"

definition XMLGeneralMessage_FormatRef :: "('n, string) reader" where
  "XMLGeneralMessage_FormatRef gk x =
     (if mget_or '''' (xml_strings x) ''formatRef'' = ''''
      then (let v = gk_Attr gk (xml_node x) ''formatRef''
            in (v, x\<lparr>xml_strings := mput ''formatRef'' v (xml_strings x)\<rparr>))
      else (mget_or '''' (xml_strings x) ''formatRef'', x))"

text \<open>The content is a structure over the node, which may be none: then reading it crashes.\<close>

definition XMLGeneralMessage_Content :: "'n gokogiri \<Rightarrow> 'n XMLStructure \<Rightarrow> 'n XMLStructure option" where
  "XMLGeneralMessage_Content gk x = map_option new_structure (XMLStructure_findNode gk (xml_node x) ''Content'')"

definition IDFGeneralMessageStructure_GroupOfLinesRef :: "('n, string list) reader" where
  "IDFGeneralMessageStructure_GroupOfLinesRef = read_texts ''groupOfLinesRef'' XMLStructure_findNodes ''GroupOfLinesRef''"

definition IDFGeneralMessageStructure_RouteRef :: "('n, string list) reader" where
  "IDFGeneralMessageStructure_RouteRef = read_texts ''routeRef'' XMLStructure_findNodes ''RouteRef''"

definition IDFGeneralMessageStructure_DestinationRef :: "('n, string list) reader" where
  "IDFGeneralMessageStructure_DestinationRef = read_texts ''destinationRef'' XMLStructure_findNodes ''DestinationRef''"

definition IDFGeneralMessageStructure_JourneyPatternRef :: "('n, string list) reader" where
  "IDFGeneralMessageStructure_JourneyPatternRef = read_texts ''journeyPatternRef'' XMLStructure_findNodes ''JourneyPatternRef''"

definition IDFGeneralMessageStructure_StopPointRef :: "('n, string list) reader" where
  "IDFGeneralMessageStructure_StopPointRef = read_texts ''stopPointRef'' XMLStructure_findNodes ''StopPointRef''"

definition IDFGeneralMessageStructure_LineRef :: "('n, string list) reader" where
  "IDFGeneralMessageStructure_LineRef = read_texts ''lineRef'' XMLStructure_findDirectChildrenNodes ''LineRef''"

definition IDFGeneralMessageStructure_LineSections ::
  "'n gokogiri \<Rightarrow> 'n XMLStructure \<Rightarrow> 'n XMLStructure list" where
  "IDFGeneralMessageStructure_LineSections = substructures ''LineSection''"

definition IDFGeneralMessageStructure_Messages ::
  "'n gokogiri \<Rightarrow> 'n XMLStructure \<Rightarrow> 'n XMLStructure list" where
  "IDFGeneralMessageStructure_Messages = substructures ''Message''"

definition IDFLineSectionStructure_FirstStop :: "('n, string) reader" where
  "IDFLineSectionStructure_FirstStop = read_string ''firstStop'' ''FirstStop''"

definition IDFLineSectionStructure_LastStop :: "('n, string) reader" where
  "IDFLineSectionStructure_LastStop = read_string ''lastStop'' ''LastStop''"

definition IDFLineSectionStructure_LineRef :: "('n, string) reader" where
  "IDFLineSectionStructure_LineRef = read_string ''lineRef'' ''LineRef''"

definition XMLMessage_MessageText :: "('n, string) reader" where
  "XMLMessage_MessageText = read_string ''messageText'' ''MessageText''"

definition XMLMessage_MessageType :: "('n, string) reader" where
  "XMLMessage_MessageType = read_string ''messageType'' ''MessageType''"

definition XMLMessage_NumberOfLines :: "('n, int) reader" where
  "XMLMessage_NumberOfLines = read_int ''numberOfLines'' ''NumberOfLines''"

definition XMLMessage_NumberOfCharPerLine :: "('n, int) reader" where
  "XMLMessage_NumberOfCharPerLine = read_int ''numberOfCharPerLine'' ''NumberOfCharPerLine''"

section \<open>\<^verbatim>\<open>siri/notify_general_message.go\<close>\<close>

definition XMLNotifyGeneralMessage_GeneralMessagesDeliveries ::
  "'n gokogiri \<Rightarrow> 'n XMLStructure \<Rightarrow> 'n XMLStructure list" where
  "XMLNotifyGeneralMessage_GeneralMessagesDeliveries = substructures ''GeneralMessageDelivery''"

definition XMLGeneralMessageDelivery_XMLGeneralMessages ::
  "'n gokogiri \<Rightarrow> 'n XMLStructure \<Rightarrow> 'n XMLStructure list" where
  "XMLGeneralMessageDelivery_XMLGeneralMessages = substructures ''GeneralMessage''"

definition XMLGeneralMessageDelivery_XMLGeneralMessagesCancellations ::
  "'n gokogiri \<Rightarrow> 'n XMLStructure \<Rightarrow> 'n XMLStructure list" where
  "XMLGeneralMessageDelivery_XMLGeneralMessagesCancellations = substructures ''GeneralMessageCancellation''"

section \<open>\<^verbatim>\<open>siri/estimated_timetable_request.go\<close>\<close>

definition XMLEstimatedTimetableRequest_Lines :: "('n, string list) reader" where
  "XMLEstimatedTimetableRequest_Lines = read_texts ''lines'' XMLStructure_findNodes ''LineRef''"

definition XMLGetEstimatedTimetable_RequestorRef :: "('n, string) reader" where
  "XMLGetEstimatedTimetable_RequestorRef = read_string ''requestorRef'' ''RequestorRef''"

definition XMLEstimatedTimetableRequest_PreviewInterval :: "('n, int) reader" where
  "XMLEstimatedTimetableRequest_PreviewInterval = read_duration ''previewInterval'' ''PreviewInterval''"

definition XMLEstimatedTimetableRequest_StartTime :: "('n, gotime) reader" where
  "XMLEstimatedTimetableRequest_StartTime = read_time ''startTime'' ''StartTime''"

section \<open>\<^verbatim>\<open>siri/siri_service_request.go\<close>\<close>

definition XMLSiriServiceRequest_StopMonitoringRequests ::
  "'n gokogiri \<Rightarrow> 'n XMLStructure \<Rightarrow> 'n XMLStructure list" where
  "XMLSiriServiceRequest_StopMonitoringRequests = substructures ''StopMonitoringRequest''"

definition XMLSiriServiceRequest_GeneralMessageRequests ::
  "'n gokogiri \<Rightarrow> 'n XMLStructure \<Rightarrow> 'n XMLStructure list" where
  "XMLSiriServiceRequest_GeneralMessageRequests = substructures ''GeneralMessageRequest''"

definition XMLSiriServiceRequest_EstimatedTimetableRequests ::
  "'n gokogiri \<Rightarrow> 'n XMLStructure \<Rightarrow> 'n XMLStructure list" where
  "XMLSiriServiceRequest_EstimatedTimetableRequests = substructures ''EstimatedTimetableRequest''"

section \<open>\<^verbatim>\<open>siri/subscription_request.go\<close>\<close>

definition XMLSubscriptionRequest_XMLSubscriptionSMEntries ::
  "'n gokogiri \<Rightarrow> 'n XMLStructure \<Rightarrow> 'n XMLStructure list" where
  "XMLSubscriptionRequest_XMLSubscriptionSMEntries = substructures ''StopMonitoringSubscriptionRequest''"

definition XMLSubscriptionRequest_XMLSubscriptionETTEntries ::
  "'n gokogiri \<Rightarrow> 'n XMLStructure \<Rightarrow> 'n XMLStructure list" where
  "XMLSubscriptionRequest_XMLSubscriptionETTEntries = substructures ''EstimatedTimetableSubscriptionRequest''"

definition XMLSubscriptionRequest_XMLSubscriptionGMEntries ::
  "'n gokogiri \<Rightarrow> 'n XMLStructure \<Rightarrow> 'n XMLStructure list" where
  "XMLSubscriptionRequest_XMLSubscriptionGMEntries = substructures ''GeneralMessageSubscriptionRequest''"

definition XMLSubscriptionRequest_ConsumerAddress :: "('n, string) reader" where
  "XMLSubscriptionRequest_ConsumerAddress = read_string ''consumerAddress'' ''ConsumerAddress''"

definition XMLSubscriptionRequest_ChangeBeforeUpdates :: "('n, string) reader" where
  "XMLSubscriptionRequest_ChangeBeforeUpdates = read_string ''changeBeforeUpdates'' ''ChangeBeforeUpdates''"

definition XMLSubscriptionRequest_IncrementalUpdates :: "('n, string) reader" where
  "XMLSubscriptionRequest_IncrementalUpdates = read_string ''incrementalUpdates'' ''IncrementalUpdates''"

section \<open>\<^verbatim>\<open>siri/stop_monitoring_subscription_request.go\<close>\<close>

definition XMLStopMonitoringSubscriptionRequestEntry_SubscriberRef :: "('n, string) reader" where
  "XMLStopMonitoringSubscriptionRequestEntry_SubscriberRef = read_string ''subscriberRef'' ''SubscriberRef''"

definition XMLStopMonitoringSubscriptionRequestEntry_SubscriptionIdentifier :: "('n, string) reader" where
  "XMLStopMonitoringSubscriptionRequestEntry_SubscriptionIdentifier = read_string ''subscriptionIdentifier'' ''SubscriptionIdentifier''"

definition XMLStopMonitoringSubscriptionRequestEntry_InitialTerminationTime :: "('n, gotime) reader" where
  "XMLStopMonitoringSubscriptionRequestEntry_InitialTerminationTime = read_time ''initialTerminationTime'' ''InitialTerminationTime''"

section \<open>\<^verbatim>\<open>siri/general_message_subscription_request.go\<close>\<close>

definition XMLGeneralMessageSubscriptionRequestEntry_SubscriberRef :: "('n, string) reader" where
  "XMLGeneralMessageSubscriptionRequestEntry_SubscriberRef = read_string ''subscriberRef'' ''SubscriberRef''"

definition XMLGeneralMessageSubscriptionRequestEntry_SubscriptionIdentifier :: "('n, string) reader" where
  "XMLGeneralMessageSubscriptionRequestEntry_SubscriptionIdentifier = read_string ''subscriptionIdentifier'' ''SubscriptionIdentifier''"

definition XMLGeneralMessageSubscriptionRequestEntry_InitialTerminationTime :: "('n, gotime) reader" where
  "XMLGeneralMessageSubscriptionRequestEntry_InitialTerminationTime = read_time ''initialTerminationTime'' ''InitialTerminationTime''"

section \<open>\<^verbatim>\<open>siri/estimated_timetable_subscription_request.go\<close>\<close>

definition XMLEstimatedTimetableSubscriptionRequestEntry_SubscriberRef :: "('n, string) reader" where
  "XMLEstimatedTimetableSubscriptionRequestEntry_SubscriberRef = read_string ''subscriberRef'' ''SubscriberRef''"

definition XMLEstimatedTimetableSubscriptionRequestEntry_SubscriptionIdentifier :: "('n, string) reader" where
  "XMLEstimatedTimetableSubscriptionRequestEntry_SubscriptionIdentifier = read_string ''subscriptionRef'' ''SubscriptionIdentifier''"

definition XMLEstimatedTimetableSubscriptionRequestEntry_InitialTerminationTime :: "('n, gotime) reader" where
  "XMLEstimatedTimetableSubscriptionRequestEntry_InitialTerminationTime = read_time ''initialTerminationTime'' ''InitialTerminationTime''"

section \<open>\<^verbatim>\<open>siri/subscription_response.go\<close>\<close>

definition XMLSubscriptionResponse_ResponseStatus ::
  "'n gokogiri \<Rightarrow> 'n XMLStructure \<Rightarrow> 'n XMLStructure list" where
  "XMLSubscriptionResponse_ResponseStatus = substructures ''ResponseStatus''"

definition XMLSubscriptionResponse_Address :: "('n, string) reader" where
  "XMLSubscriptionResponse_Address = read_string ''address'' ''Address''"

definition XMLSubscriptionResponse_ResponderRef :: "('n, string) reader" where
  "XMLSubscriptionResponse_ResponderRef = read_string ''responderRef'' ''ResponderRef''"

definition XMLSubscriptionResponse_RequestMessageRef :: "('n, string) reader" where
  "XMLSubscriptionResponse_RequestMessageRef = read_string ''requestMessageRef'' ''RequestMessageRef''"

definition XMLSubscriptionResponse_ServiceStartedTime :: "('n, gotime) reader" where
  "XMLSubscriptionResponse_ServiceStartedTime = read_time ''serviceStartedTime'' ''ServiceStartedTime''"

definition XMLSubscriptionResponse_ResponseTimestamp :: "('n, gotime) reader" where
  "XMLSubscriptionResponse_ResponseTimestamp = read_time ''responseTimestamp'' ''ResponseTimestamp''"

definition XMLSubscriptionResponse_ResponseMessageIdentifier :: "('n, string) reader" where
  "XMLSubscriptionResponse_ResponseMessageIdentifier = read_string ''responseMessageIdentifier'' ''ResponseMessageIdentifier''"

definition XMLResponseStatus_ValidUntil :: "('n, gotime) reader" where
  "XMLResponseStatus_ValidUntil = read_time ''validUntil'' ''ValidUntil''"

section \<open>\<^verbatim>\<open>siri/delete_subscription_request.go\<close>\<close>

definition XMLDeleteSubscriptionRequest_SubscriptionRef :: "('n, string) reader" where
  "XMLDeleteSubscriptionRequest_SubscriptionRef = read_string ''subscriptionRef'' ''SubscriptionRef''"

definition XMLDeleteSubscriptionRequest_CancelAll :: "('n, bool) reader" where
  "XMLDeleteSubscriptionRequest_CancelAll =
     read_bool ''cancelAll'' (\<lambda>gk node. XMLStructure_containSelfClosing gk node ''All'')"

section \<open>\<^verbatim>\<open>siri/delete_subscription_response.go\<close>\<close>

definition XMLDeleteSubscriptionResponse_ResponderRef :: "('n, string) reader" where
  "XMLDeleteSubscriptionResponse_ResponderRef = read_string ''responderRef'' ''ResponderRef''"

definition XMLDeleteSubscriptionResponse_RequestMessageRef :: "('n, string) reader" where
  "XMLDeleteSubscriptionResponse_RequestMessageRef = read_string ''requestMessageRef'' ''RequestMessageRef''"

definition XMLDeleteSubscriptionResponse_ResponseTimestamp :: "('n, gotime) reader" where
  "XMLDeleteSubscriptionResponse_ResponseTimestamp = read_time ''responseTimestamp'' ''ResponseTimestamp''"

definition XMLDeleteSubscriptionResponse_ResponseStatus ::
  "'n gokogiri \<Rightarrow> 'n XMLStructure \<Rightarrow> 'n XMLStructure list" where
  "XMLDeleteSubscriptionResponse_ResponseStatus = substructures ''TerminationResponseStatus''"

section \<open>\<^verbatim>\<open>siri/subscription_terminated_notification.go\<close>\<close>

definition XMLSubscriptionTerminatedNotification_ProducerRef :: "('n, string) reader" where
  "XMLSubscriptionTerminatedNotification_ProducerRef = read_string ''producerRef'' ''ProducerRef''"

section \<open>\<^verbatim>\<open>siri/notify_subscription_terminated.go\<close>\<close>

definition XMLNotifySubscriptionTerminated_SubscriberRef :: "('n, string) reader" where
  "XMLNotifySubscriptionTerminated_SubscriberRef = read_string ''subscriberRef'' ''SubscriberRef''"

definition XMLNotifySubscriptionTerminated_SubscriptionRef :: "('n, string) reader" where
  "XMLNotifySubscriptionTerminated_SubscriptionRef = read_string ''subscriptionRef'' ''SubscriptionRef''"

section \<open>\<^verbatim>\<open>siri/check_status_response.go\<close>\<close>

definition XMLCheckStatusResponse_ServiceStartedTime :: "zone \<Rightarrow> nat \<Rightarrow> ('n, stamp) reader" where
  "XMLCheckStatusResponse_ServiceStartedTime = read_stamp ''serviceStartedTime'' ''ServiceStartedTime''"

section \<open>\<^verbatim>\<open>siri/xml_stop_points_discovery_response.go\<close>\<close>

definition XMLStopPointsDiscoveryResponse_AnnotatedStopPointRefs ::
  "'n gokogiri \<Rightarrow> 'n XMLStructure \<Rightarrow> 'n XMLStructure list" where
  "XMLStopPointsDiscoveryResponse_AnnotatedStopPointRefs = substructures ''AnnotatedStopPointRef''"

definition XMLAnnotatedStopPointRef_StopPointRef :: "('n, string) reader" where
  "XMLAnnotatedStopPointRef_StopPointRef = read_string ''stopPointRef'' ''StopPointRef''"

definition XMLAnnotatedStopPointRef_StopName :: "('n, string) reader" where
  "XMLAnnotatedStopPointRef_StopName = read_string ''stopName'' ''StopName''"

definition XMLAnnotatedStopPointRef_LineRefs :: "('n, string list) reader" where
  "XMLAnnotatedStopPointRef_LineRefs = read_texts ''lineRefs'' XMLStructure_findNodes ''LineRef''"

definition XMLAnnotatedStopPointRef_Monitored :: "('n, bool) reader" where
  "XMLAnnotatedStopPointRef_Monitored = read_parsed_bool ''monitored'' ''Monitored''"

end
