(* ===== verification/Builders.thy ===== *)
theory Builders
  imports SiriMessages Updates
begin

text \<open>
  From SIRI documents to update events: the builder of the events of stop monitoring
  (\<^verbatim>\<open>core/stop_monitoring_update_event_builder.go\<close>) and that of general messages
  (\<^verbatim>\<open>core/general_message_update_event_builder.go\<close>).

  The builders read each structure from its fresh state: in which order the fields are read makes no
  difference to what the builders read.
\<close>

abbreviation read_of :: "('n, 'a) reader \<Rightarrow> 'n gokogiri \<Rightarrow> 'n XMLStructure \<Rightarrow> 'a" where
  "read_of r gk x \<equiv> fst (r gk x)"

section \<open>Stop monitoring\<close>

text \<open>What an event keeps of its document: the methods that it calls by name. The attributes of a journey are
  read in a fixed order, \<^verbatim>\<open>InPanic\<close> before \<^verbatim>\<open>InCongestion\<close>.\<close>

definition visit_methods :: "(string \<times> ('n, string) reader) list" where
  "visit_methods =
     [(''Delay'', XMLMonitoredStopVisit_Delay), (''Bearing'', XMLMonitoredStopVisit_Bearing),
      (''InPanic'', XMLMonitoredStopVisit_InPanic),
      (''InCongestion'', \<lambda>gk x. XMLMonitoredStopVisit_InCongestion gk (snd (XMLMonitoredStopVisit_InPanic gk x))),
      (''SituationRef'', XMLMonitoredStopVisit_SituationRef), (''DirectionName'', XMLMonitoredStopVisit_DirectionName),
      (''FirstOrLastJourney'', XMLMonitoredStopVisit_FirstOrLastJourney),
      (''HeadwayService'', XMLMonitoredStopVisit_HeadwayService), (''JourneyNote'', XMLMonitoredStopVisit_JourneyNote),
      (''JourneyPatternName'', XMLMonitoredStopVisit_JourneyPatternName),
      (''MonitoringError'', XMLMonitoredStopVisit_MonitoringError), (''Occupancy'', XMLMonitoredStopVisit_Occupancy),
      (''OriginAimedDepartureTime'', XMLMonitoredStopVisit_OriginAimedDepartureTime),
      (''DestinationAimedArrivalTime'', XMLMonitoredStopVisit_DestinationAimedArrivalTime),
      (''ProductCategoryRef'', XMLMonitoredStopVisit_ProductCategoryRef),
      (''ServiceFeatureRef'', XMLMonitoredStopVisit_ServiceFeatureRef),
      (''TrainNumberRef'', XMLMonitoredStopVisit_TrainNumberRef),
      (''VehicleFeature'', XMLMonitoredStopVisit_VehicleFeature), (''VehicleMode'', XMLMonitoredStopVisit_VehicleMode),
      (''ViaPlaceName'', XMLMonitoredStopVisit_ViaPlaceName),
      (''VehicleJourneyName'', XMLMonitoredStopVisit_VehicleJourneyName),
      (''DirectionRef'', XMLMonitoredStopVisit_DirectionRef), (''DestinationName'', XMLMonitoredStopVisit_DestinationName),
      (''OriginName'', XMLMonitoredStopVisit_OriginName), (''PlaceRef'', XMLMonitoredStopVisit_PlaceRef),
      (''JourneyPatternRef'', XMLMonitoredStopVisit_JourneyPatternRef), (''RouteRef'', XMLMonitoredStopVisit_RouteRef),
      (''DestinationRef'', XMLMonitoredStopVisit_DestinationRef), (''OriginRef'', XMLMonitoredStopVisit_OriginRef),
      (''ActualQuayName'', XMLMonitoredStopVisit_ActualQuayName),
      (''AimedHeadwayInterval'', XMLMonitoredStopVisit_AimedHeadwayInterval),
      (''ArrivalPlatformName'', XMLMonitoredStopVisit_ArrivalPlatformName),
      (''ArrivalProximyTest'', XMLMonitoredStopVisit_ArrivalProximyTest),
      (''DepartureBoardingActivity'', XMLMonitoredStopVisit_DepartureBoardingActivity),
      (''DeparturePlatformName'', XMLMonitoredStopVisit_DeparturePlatformName),
      (''DestinationDisplay'', XMLMonitoredStopVisit_DestinationDisplay),
      (''DistanceFromStop'', XMLMonitoredStopVisit_DistanceFromStop),
      (''ExpectedHeadwayInterval'', XMLMonitoredStopVisit_ExpectedHeadwayInterval),
      (''NumberOfStopsAway'', XMLMonitoredStopVisit_NumberOfStopsAway),
      (''PlatformTraversal'', XMLMonitoredStopVisit_PlatformTraversal),
      (''OperatorRef'', XMLMonitoredStopVisit_OperatorRef)]"

definition visit_texts :: "'n gokogiri \<Rightarrow> 'n XMLStructure \<Rightarrow> XMLMonitoredStopVisit" where
  "visit_texts gk x name = (case map_of visit_methods name of None \<Rightarrow> '''' | Some r \<Rightarrow> read_of r gk x)"

record StopMonitoringUpdateEvents =
  smu_StopAreas :: "(string, StopAreaUpdateEvent) gomap"
  smu_Lines :: "(string, LineUpdateEvent) gomap"
  smu_VehicleJourneys :: "(string, VehicleJourneyUpdateEvent) gomap"
  smu_StopVisits :: "(string, (string, StopVisitUpdateEvent) gomap) gomap"
  smu_Cancellations :: "NotCollectedUpdateEvent list"
  smu_MonitoringRefs :: "string list"

definition newStopMonitoringUpdateEvents :: StopMonitoringUpdateEvents where
  "newStopMonitoringUpdateEvents =
     \<lparr>smu_StopAreas = [], smu_Lines = [], smu_VehicleJourneys = [], smu_StopVisits = [], smu_Cancellations = [],
      smu_MonitoringRefs = []\<rparr>"

record StopMonitoringUpdateEventBuilder =
  smb_originStopAreaObjectId :: ObjectID
  smb_origin :: string
  smb_remoteObjectidKind :: string

text \<open>The builder knows its partner by the origin its slug gives and the kind of identifiers its settings give.\<close>

definition built_stop_area ::
  "StopMonitoringUpdateEventBuilder \<Rightarrow> 'n gokogiri \<Rightarrow> 'n XMLStructure \<Rightarrow> StopAreaUpdateEvent" where
  "built_stop_area builder gk x =
     (let obj = NewObjectID (smb_remoteObjectidKind builder) (read_of XMLMonitoredStopVisit_StopPointRef gk x);
          origin_area = smb_originStopAreaObjectId builder
      in \<lparr>sau_Origin = smb_origin builder, sau_ObjectId = obj,
          sau_ParentObjectId =
            (if oid_value origin_area \<noteq> '''' \<and> ObjectID_String obj \<noteq> ObjectID_String origin_area
             then origin_area else NewObjectID '''' ''''),
          sau_Name = read_of XMLMonitoredStopVisit_StopPointName gk x, sau_CollectedAlways = False,
          sau_Longitude = 0, sau_Latitude = 0\<rparr>)"

definition built_line ::
  "StopMonitoringUpdateEventBuilder \<Rightarrow> 'n gokogiri \<Rightarrow> 'n XMLStructure \<Rightarrow> LineUpdateEvent" where
  "built_line builder gk x =
     \<lparr>lnu_Origin = smb_origin builder,
      lnu_ObjectId = NewObjectID (smb_remoteObjectidKind builder) (read_of XMLMonitoredStopVisit_LineRef gk x),
      lnu_Name = read_of XMLMonitoredStopVisit_PublishedLineName gk x\<rparr>"

definition built_vehicle_journey ::
  "StopMonitoringUpdateEventBuilder \<Rightarrow> 'n gokogiri \<Rightarrow> 'n XMLStructure \<Rightarrow> VehicleJourneyUpdateEvent" where
  "built_vehicle_journey builder gk x =
     \<lparr>vju_Origin = smb_origin builder,
      vju_ObjectId = NewObjectID (smb_remoteObjectidKind builder) (read_of XMLMonitoredStopVisit_DatedVehicleJourneyRef gk x),
      vju_LineObjectId = NewObjectID (smb_remoteObjectidKind builder) (read_of XMLMonitoredStopVisit_LineRef gk x),
      vju_OriginRef = read_of XMLMonitoredStopVisit_OriginRef gk x,
      vju_OriginName = read_of XMLMonitoredStopVisit_OriginName gk x,
      vju_DestinationRef = read_of XMLMonitoredStopVisit_DestinationRef gk x,
      vju_DestinationName = read_of XMLMonitoredStopVisit_DestinationName gk x,
      vju_Direction = '''', vju_Monitored = read_of XMLMonitoredStopVisit_Monitored gk x,
      vju_ObjectidKind = smb_remoteObjectidKind builder, vju_SiriXML = Some (visit_texts gk x),
      vju_attributes = None, vju_references = None\<rparr>"

definition add_schedule ::
  "StopVisitScheduleType \<Rightarrow> gotime \<Rightarrow> gotime \<Rightarrow> StopVisitSchedules \<Rightarrow> StopVisitSchedules" where
  "add_schedule kind departureTime arrivalTime schedules =
     (if \<not> IsZero departureTime \<or> \<not> IsZero arrivalTime
      then Schedules_SetSchedule kind departureTime arrivalTime schedules else schedules)"

definition built_stop_visit ::
  "StopMonitoringUpdateEventBuilder \<Rightarrow> 'n gokogiri \<Rightarrow> 'n XMLStructure \<Rightarrow> StopVisitUpdateEvent" where
  "built_stop_visit builder gk x =
     (let kind = smb_remoteObjectidKind builder
      in \<lparr>svu_Origin = smb_origin builder,
          svu_ObjectId = NewObjectID kind (read_of XMLMonitoredStopVisit_ItemIdentifier gk x),
          svu_StopAreaObjectId = NewObjectID kind (read_of XMLMonitoredStopVisit_StopPointRef gk x),
          svu_VehicleJourneyObjectId = NewObjectID kind (read_of XMLMonitoredStopVisit_DatedVehicleJourneyRef gk x),
          svu_DataFrameRef = read_of XMLMonitoredStopVisit_DataFrameRef gk x,
          svu_PassageOrder = read_of XMLMonitoredStopVisit_Order gk x,
          svu_Monitored = read_of XMLMonitoredStopVisit_Monitored gk x,
          svu_VehicleAtStop = read_of XMLMonitoredStopVisit_VehicleAtStop gk x,
          svu_Schedules =
            add_schedule STOP_VISIT_SCHEDULE_ACTUAL (read_of XMLMonitoredStopVisit_ActualDepartureTime gk x)
              (read_of XMLMonitoredStopVisit_ActualArrivalTime gk x)
              (add_schedule STOP_VISIT_SCHEDULE_EXPECTED (read_of XMLMonitoredStopVisit_ExpectedDepartureTime gk x)
                (read_of XMLMonitoredStopVisit_ExpectedArrivalTime gk x)
                (add_schedule STOP_VISIT_SCHEDULE_AIMED (read_of XMLMonitoredStopVisit_AimedDepartureTime gk x)
                  (read_of XMLMonitoredStopVisit_AimedArrivalTime gk x) NewStopVisitSchedules)),
          svu_DepartureStatus = read_of XMLMonitoredStopVisit_DepartureStatus gk x,
          svu_ArrivalStatus = read_of XMLMonitoredStopVisit_ArrivalStatus gk x,
          svu_RecordedAt = read_of XMLMonitoredStopVisit_RecordedAt gk x,
          svu_ObjectidKind = kind, svu_SiriXML = Some (visit_texts gk x),
          svu_attributes = None, svu_references = None\<rparr>)"

text \<open>The first stop visit with an identifier decides each event; the others with it are left out.\<close>

definition put_new :: "string \<Rightarrow> 'v \<Rightarrow> (string, 'v) gomap \<Rightarrow> (string, 'v) gomap" where
  "put_new key v m = (if mhas m key then m else mput key v m)"

definition buildUpdateEvents ::
  "StopMonitoringUpdateEventBuilder \<Rightarrow> 'n gokogiri \<Rightarrow> 'n XMLStructure \<Rightarrow> StopMonitoringUpdateEvents \<Rightarrow>
   StopMonitoringUpdateEvents" where
  "buildUpdateEvents builder gk x events =
     (let stop = read_of XMLMonitoredStopVisit_StopPointRef gk x;
          visits = mget_or [] (smu_StopVisits events) stop;
          item = read_of XMLMonitoredStopVisit_ItemIdentifier gk x
      in events\<lparr>smu_StopAreas := put_new stop (built_stop_area builder gk x) (smu_StopAreas events),
           smu_MonitoringRefs :=
             (if mhas (smu_StopAreas events) stop then smu_MonitoringRefs events
              else List.insert stop (smu_MonitoringRefs events)),
           smu_Lines := put_new (read_of XMLMonitoredStopVisit_LineRef gk x) (built_line builder gk x) (smu_Lines events),
           smu_VehicleJourneys := put_new (read_of XMLMonitoredStopVisit_DatedVehicleJourneyRef gk x)
             (built_vehicle_journey builder gk x) (smu_VehicleJourneys events),
           smu_StopVisits :=
             (if mhas visits item then smu_StopVisits events
              else mput stop (mput item (built_stop_visit builder gk x) visits) (smu_StopVisits events))\<rparr>)"

definition SetUpdateEvents ::
  "StopMonitoringUpdateEventBuilder \<Rightarrow> 'n gokogiri \<Rightarrow> 'n XMLStructure list \<Rightarrow> StopMonitoringUpdateEvents \<Rightarrow>
   StopMonitoringUpdateEvents" where
  "SetUpdateEvents builder gk stopVisits events = fold (buildUpdateEvents builder gk) stopVisits events"

definition SetStopVisitCancellationEvents ::
  "StopMonitoringUpdateEventBuilder \<Rightarrow> 'n gokogiri \<Rightarrow> 'n XMLStructure \<Rightarrow> StopMonitoringUpdateEvents \<Rightarrow>
   StopMonitoringUpdateEvents" where
  "SetStopVisitCancellationEvents builder gk delivery events =
     fold (\<lambda>x events.
             events\<lparr>smu_MonitoringRefs := List.insert (read_of XMLMonitoredStopVisitCancellation_MonitoringRef gk x)
                                                   (smu_MonitoringRefs events),
                    smu_Cancellations := smu_Cancellations events @
                      [\<lparr>ncu_ObjectId = NewObjectID (smb_remoteObjectidKind builder)
                                         (read_of XMLMonitoredStopVisitCancellation_ItemRef gk x)\<rparr>]\<rparr>)
       (XMLNotifyStopMonitoringDelivery_XMLMonitoredStopVisitCancellations gk delivery) events"

text \<open>The events in the order in which they are sent: each map in the order of \<^verbatim>\<open>range\<close>.\<close>

definition update_events :: "StopMonitoringUpdateEvents \<Rightarrow> UpdateEvent list" where
  "update_events events =
     map STOP_AREA_EVENT (mvals (smu_StopAreas events)) @ map LINE_EVENT (mvals (smu_Lines events)) @
     map VEHICLE_JOURNEY_EVENT (mvals (smu_VehicleJourneys events)) @
     map STOP_VISIT_EVENT (concat (map mvals (mvals (smu_StopVisits events))))"

section \<open>General messages\<close>

definition references_to :: "string \<Rightarrow> string \<Rightarrow> string list \<Rightarrow> Reference list" where
  "references_to remoteObjectidKind ref_type values =
     map (\<lambda>v. \<lparr>ref_ObjectId = Some (NewObjectID remoteObjectidKind v), ref_Type = ref_type\<rparr>) values"

text \<open>References are \<^verbatim>\<open>Set\<close> with an identifier: this does not crash.\<close>

definition handleLineSection :: "string \<Rightarrow> 'n gokogiri \<Rightarrow> 'n XMLStructure \<Rightarrow> References option" where
  "handleLineSection remoteObjectidKind gk x =
     (let reference = (\<lambda>v. NewReference (NewObjectID remoteObjectidKind v))
      in do { r1 \<leftarrow> References_Set ''LineRef'' (reference (read_of IDFLineSectionStructure_LineRef gk x)) NewReferences;
              r2 \<leftarrow> References_Set ''FirstStop'' (reference (read_of IDFLineSectionStructure_FirstStop gk x)) r1;
              References_Set ''LastStop'' (reference (read_of IDFLineSectionStructure_LastStop gk x)) r2 })"

definition setReferences ::
  "string \<Rightarrow> 'n gokogiri \<Rightarrow> 'n XMLStructure \<Rightarrow> SituationAttributes \<Rightarrow> SituationAttributes option" where
  "setReferences remoteObjectidKind gk content attributes = do {
     sections \<leftarrow> those (map (handleLineSection remoteObjectidKind gk) (IDFGeneralMessageStructure_LineSections gk content));
     Some (attributes\<lparr>sta_References := sta_References attributes @
         references_to remoteObjectidKind ''LineRef'' (read_of IDFGeneralMessageStructure_LineRef gk content) @
         references_to remoteObjectidKind ''StopPointRef'' (read_of IDFGeneralMessageStructure_StopPointRef gk content) @
         references_to remoteObjectidKind ''JourneyPatternRef'' (read_of IDFGeneralMessageStructure_JourneyPatternRef gk content) @
         references_to remoteObjectidKind ''DestinationRef'' (read_of IDFGeneralMessageStructure_DestinationRef gk content) @
         references_to remoteObjectidKind ''RouteRef'' (read_of IDFGeneralMessageStructure_RouteRef gk content) @
         references_to remoteObjectidKind ''GroupOfLinesRef'' (read_of IDFGeneralMessageStructure_GroupOfLinesRef gk content),
       sta_LineSections := sta_LineSections attributes @ sections\<rparr>) }"

definition built_message :: "'n gokogiri \<Rightarrow> 'n XMLStructure \<Rightarrow> Message" where
  "built_message gk x =
     \<lparr>msg_Content = read_of XMLMessage_MessageText gk x, msg_Type = read_of XMLMessage_MessageType gk x,
      msg_NumberOfLines = read_of XMLMessage_NumberOfLines gk x,
      msg_NumberOfCharPerLine = read_of XMLMessage_NumberOfCharPerLine gk x\<rparr>"

text \<open>The content of a message is never nil, so the test for it does nothing; a message without content crashes
  when its content is searched. A zone allocated for the time of the message is at the address that counts the
  identifiers taken before: each event takes one, so no two events have the same.\<close>

definition buildGeneralMessageUpdateEvent ::
  "string \<Rightarrow> string \<Rightarrow> gotime \<Rightarrow> zone \<Rightarrow> 'n gokogiri \<Rightarrow> string \<Rightarrow> 'n XMLStructure \<Rightarrow>
   uuid_gen \<times> SituationUpdateEvent list \<Rightarrow> (uuid_gen \<times> SituationUpdateEvent list) option" where
  "buildGeneralMessageUpdateEvent slug remoteObjectidKind now local gk producerRef x st =
     (case st of (g, events) \<Rightarrow> do {
        let (u, g1) = NewUUID g;
        content \<leftarrow> XMLGeneralMessage_Content gk x;
        attributes \<leftarrow> setReferences remoteObjectidKind gk content
          \<lparr>sta_Format = read_of XMLGeneralMessage_FormatRef gk x, sta_Channel = read_of XMLGeneralMessage_InfoChannelRef gk x,
           sta_References = [], sta_LineSections = [],
           sta_Messages = map (built_message gk) (IDFGeneralMessageStructure_Messages gk content),
           sta_ValidUntil = read_of XMLGeneralMessage_ValidUntilTime gk x\<rparr>;
        Some (g1, events @ [\<lparr>siu_Origin = slug, siu_id = u, siu_CreatedAt = now,
          siu_RecordedAt = read_of (XMLGeneralMessage_RecordedAtTime local (ug_next g)) gk x,
          siu_SituationObjectID = NewObjectID remoteObjectidKind (read_of XMLGeneralMessage_InfoMessageIdentifier gk x),
          siu_Version = read_of XMLGeneralMessage_InfoMessageVersion gk x, siu_ProducerRef = producerRef,
          siu_SituationAttributes = attributes\<rparr>]) })"

definition build_messages ::
  "string \<Rightarrow> string \<Rightarrow> gotime \<Rightarrow> zone \<Rightarrow> 'n gokogiri \<Rightarrow> string \<Rightarrow> 'n XMLStructure list \<Rightarrow>
   uuid_gen \<times> SituationUpdateEvent list \<Rightarrow> (uuid_gen \<times> SituationUpdateEvent list) option" where
  "build_messages slug remoteObjectidKind now local gk producerRef xs st =
     fold (\<lambda>x acc. Option.bind acc (buildGeneralMessageUpdateEvent slug remoteObjectidKind now local gk producerRef x))
       xs (Some st)"

definition SetGeneralMessageDeliveryUpdateEvents ::
  "string \<Rightarrow> string \<Rightarrow> gotime \<Rightarrow> zone \<Rightarrow> 'n gokogiri \<Rightarrow> string \<Rightarrow> 'n XMLStructure \<Rightarrow>
   uuid_gen \<times> SituationUpdateEvent list \<Rightarrow> (uuid_gen \<times> SituationUpdateEvent list) option" where
  "SetGeneralMessageDeliveryUpdateEvents slug remoteObjectidKind now local gk producerRef delivery st =
     build_messages slug remoteObjectidKind now local gk producerRef
       (XMLGeneralMessageDelivery_XMLGeneralMessages gk delivery) st"

definition SetGeneralMessageResponseUpdateEvents ::
  "string \<Rightarrow> string \<Rightarrow> gotime \<Rightarrow> zone \<Rightarrow> 'n gokogiri \<Rightarrow> 'n XMLStructure \<Rightarrow>
   uuid_gen \<times> SituationUpdateEvent list \<Rightarrow> (uuid_gen \<times> SituationUpdateEvent list) option" where
  "SetGeneralMessageResponseUpdateEvents slug remoteObjectidKind now local gk response st =
     build_messages slug remoteObjectidKind now local gk
       (read_of ResponseXMLStructureWithStatus_ProducerRef gk response)
       (XMLGeneralMessageResponse_XMLGeneralMessages gk response) st"

end
