(* ===== verification/Referentials.thy ===== *)
theory Referentials
  imports PartnerManagers Updates
begin

text \<open>
  Referentials and their manager (\<^verbatim>\<open>core/referential.go\<close>): a referential owns a model, its partners, the
  managers of collection and broadcast and the guardians, and plans the time at which its model is reloaded.
  Its controller is that of \<^verbatim>\<open>api/referential_controller.go\<close>.

  What runs in a goroutine is known by its stop channel. Closing a channel twice is a crash: \<^const>\<open>None\<close>.
  A pointer to the referential, which the update subscribers and the guardians hold, is not part of them.
\<close>

section \<open>What a referential runs\<close>

datatype stop_channel = NilStop | OpenStop | ClosedStop

definition close_stop :: "stop_channel \<Rightarrow> stop_channel option" where
  "close_stop c = (case c of NilStop \<Rightarrow> Some NilStop | OpenStop \<Rightarrow> Some ClosedStop | ClosedStop \<Rightarrow> None)"

text \<open>The subscribers of collected events; each is the update manager of the referential, or its manager of
  situations.\<close>

datatype UpdateSubscriber = UpdateManager_Update
datatype SituationUpdateSubscriber = SituationUpdateManager_UpdateSituation

record CollectManager =
  cm_SituationUpdateSubscribers :: "SituationUpdateSubscriber list"
  cm_UpdateSubscribers :: "UpdateSubscriber list"

definition NewCollectManager :: CollectManager where
  "NewCollectManager = \<lparr>cm_SituationUpdateSubscribers = [], cm_UpdateSubscribers = []\<rparr>"

definition CollectManager_HandleUpdateEvent :: "UpdateSubscriber \<Rightarrow> CollectManager \<Rightarrow> CollectManager" where
  "CollectManager_HandleUpdateEvent subscriber manager =
     manager\<lparr>cm_UpdateSubscribers := cm_UpdateSubscribers manager @ [subscriber]\<rparr>"

definition CollectManager_HandleSituationUpdateEvent ::
  "SituationUpdateSubscriber \<Rightarrow> CollectManager \<Rightarrow> CollectManager" where
  "CollectManager_HandleSituationUpdateEvent subscriber manager =
     manager\<lparr>cm_SituationUpdateSubscribers := cm_SituationUpdateSubscribers manager @ [subscriber]\<rparr>"

record BroadcastManager =
  bm_smbEventChan :: "StopMonitoringBroadcastEvent gochan"
  bm_gmbEventChan :: "GeneralMessageBroadcastEvent gochan"
  bm_stop :: stop_channel

definition NewBroadcastManager :: BroadcastManager where
  "NewBroadcastManager =
     \<lparr>bm_smbEventChan = Some (2000, []), bm_gmbEventChan = Some (2000, []), bm_stop = NilStop\<rparr>"

definition BroadcastManager_Start :: "BroadcastManager \<Rightarrow> BroadcastManager" where
  "BroadcastManager_Start manager = manager\<lparr>bm_stop := OpenStop\<rparr>"

definition BroadcastManager_Stop :: "BroadcastManager \<Rightarrow> BroadcastManager option" where
  "BroadcastManager_Stop manager = map_option (\<lambda>c. manager\<lparr>bm_stop := c\<rparr>) (close_stop (bm_stop manager))"

section \<open>Referentials\<close>

type_synonym ReferentialId = string
type_synonym ReferentialSlug = string

definition REFERENTIAL_SETTING_MODEL_RELOAD_AT :: string where
  "REFERENTIAL_SETTING_MODEL_RELOAD_AT = ''model.reload_at''"

text \<open>The time of the last request for all messages (\<open>rf_gmTimer\<close>) is that of the model guardian.\<close>

record Referential =
  rf_id :: ReferentialId
  rf_slug :: ReferentialSlug
  rf_Name :: string
  rf_Settings :: "(string, string) gomap"
  rf_OrganisationId :: string
  rf_collectManager :: CollectManager
  rf_broacasterManager :: BroadcastManager
  rf_model :: MemoryModel
  rf_modelGuardian :: stop_channel
  rf_gmTimer :: gotime
  rf_partners :: PartnerManager
  rf_partnersGuardian :: stop_channel
  rf_startedAt :: gotime
  rf_nextReloadAt :: gotime
  rf_Tokens :: "string list"

definition Referential_Setting :: "Referential \<Rightarrow> string \<Rightarrow> string" where
  "Referential_Setting referential key = mget_or '''' (rf_Settings referential) key"

text \<open>What the referential needs of its surroundings: the clock, the time zone of its location, the parser of
  durations and the loaders of the database.\<close>

record surroundings =
  now_of :: gotime
  zone_of :: zone
  parse_duration_of :: "string \<Rightarrow> int"
  loadStopAreas_of :: "string \<Rightarrow> MemoryStopAreas \<Rightarrow> MemoryStopAreas"
  loadLines_of :: "string \<Rightarrow> MemoryLines \<Rightarrow> MemoryLines"
  loadOperators_of :: "string \<Rightarrow> MemoryOperators \<Rightarrow> MemoryOperators"
  loadVehicleJourneys_of :: "string \<Rightarrow> MemoryVehicleJourneys \<Rightarrow> MemoryVehicleJourneys"

subsection \<open>When the model is reloaded\<close>

abbreviation hours :: "int \<Rightarrow> int" where
  "hours n \<equiv> minutes (60 * n)"

text \<open>What a clock in the zone shows: the time since the beginning of the year 1 that it counts, and the part of it
  that belongs to the day.\<close>

definition wall_clock :: "zone \<Rightarrow> gotime \<Rightarrow> int" where
  "wall_clock zone t = t + seconds (fst (zone t))"

definition time_of_day :: "zone \<Rightarrow> gotime \<Rightarrow> int" where
  "time_of_day zone t = wall_clock zone t mod hours 24"

definition Time_Hour :: "zone \<Rightarrow> gotime \<Rightarrow> int" where
  "Time_Hour zone t = time_of_day zone t div hours 1"

definition Time_Minute :: "zone \<Rightarrow> gotime \<Rightarrow> int" where
  "Time_Minute zone t = time_of_day zone t mod hours 1 div minutes 1"

text \<open>\<^verbatim>\<open>time.Date\<close> of the Go library (version 1.16) on the day of a time, or \<open>day\<close> days later: hours and minutes out
  of their range are carried. The offset is first looked up as if the wall clock were UTC, and again at the edge
  that the result has passed.\<close>

definition Time_Date :: "zone \<Rightarrow> gotime \<Rightarrow> int \<Rightarrow> int \<Rightarrow> int \<Rightarrow> gotime" where
  "Time_Date zone t day h m =
     (let unix = wall_clock zone t - time_of_day zone t + hours 24 * day + hours h + minutes m;
          (offset, since, until) = zone unix;
          utc = unix - seconds offset
      in if offset = 0 then unix
         else unix - seconds (if utc < since then fst (zone (since - seconds 1))
                              else if until \<le> utc then fst (zone until) else offset))"

definition reload_clock :: "string \<Rightarrow> int \<times> int" where
  "reload_clock reloadHour =
     (if length reloadHour = 5 then (fst (Atoi (take 2 reloadHour)), fst (Atoi (drop 3 reloadHour))) else (4, 0))"

definition Referential_setNextReloadAt :: "surroundings \<Rightarrow> Referential \<Rightarrow> Referential" where
  "Referential_setNextReloadAt env referential =
     (let (h, m) = reload_clock (Referential_Setting referential REFERENTIAL_SETTING_MODEL_RELOAD_AT);
          now = now_of env; zone = zone_of env;
          day = (if Time_Hour zone now > h \<or> (Time_Hour zone now = h \<and> Time_Minute zone now \<ge> m)
                 then 1 else 0)
      in referential\<lparr>rf_nextReloadAt := Time_Date zone now day h m\<rparr>)"

subsection \<open>Life\<close>

definition Referential_Start :: "surroundings \<Rightarrow> Referential \<Rightarrow> Referential" where
  "Referential_Start env referential =
     (let broadcaster = NewBroadcastManager
      in referential\<lparr>rf_startedAt := now_of env,
           rf_partners := PartnerManager_Start (parse_duration_of env) (now_of env) (rf_partners referential),
           rf_partnersGuardian := OpenStop, rf_modelGuardian := OpenStop,
           rf_gmTimer := now_of env,
           rf_model := MemoryModel_SetBroadcastGMChan (bm_gmbEventChan broadcaster)
             (MemoryModel_SetBroadcastSMChan (bm_smbEventChan broadcaster) (rf_model referential)),
           rf_broacasterManager := BroadcastManager_Start broadcaster\<rparr>)"

definition Referential_Stop :: "Referential \<Rightarrow> Referential option" where
  "Referential_Stop referential = do {
     partnersGuardian \<leftarrow> close_stop (rf_partnersGuardian referential);
     modelGuardian \<leftarrow> close_stop (rf_modelGuardian referential);
     broadcaster \<leftarrow> BroadcastManager_Stop (rf_broacasterManager referential);
     Some (referential\<lparr>rf_partnersGuardian := partnersGuardian,
       rf_partners := PartnerManager_Stop (rf_partners referential),
       rf_modelGuardian := modelGuardian, rf_broacasterManager := broadcaster\<rparr>) }"

definition Referential_ReloadModel :: "surroundings \<Rightarrow> Referential \<Rightarrow> Referential option" where
  "Referential_ReloadModel env referential = do {
     stopped \<leftarrow> Referential_Stop referential;
     let reloaded = stopped\<lparr>rf_model := MemoryModel_Reload (now_of env) (loadStopAreas_of env) (loadLines_of env)
           (loadOperators_of env) (loadVehicleJourneys_of env) (rf_slug stopped) (rf_model stopped)\<rparr>;
     Some (Referential_Start env (Referential_setNextReloadAt env reloaded)) }"

text \<open>The guardian of the model reloads it when the time has come, and then ends: \<open>Start\<close> has started
  another.\<close>

definition ModelGuardian_checkReloadModel :: "surroundings \<Rightarrow> Referential \<Rightarrow> (bool \<times> Referential) option" where
  "ModelGuardian_checkReloadModel env referential =
     (if now_of env > rf_nextReloadAt referential
      then map_option (Pair True) (Referential_ReloadModel env referential)
      else Some (False, referential))"

section \<open>Definitions\<close>

record APIReferential =
  ar_id :: ReferentialId
  ar_OrganisationId :: string
  ar_Slug :: ReferentialSlug
  ar_Name :: string
  ar_Errors :: Errors
  ar_Settings :: "(string, string) gomap"
  ar_Tokens :: "string list"

definition Referential_Definition :: "Referential \<Rightarrow> APIReferential" where
  "Referential_Definition referential =
     \<lparr>ar_id = rf_id referential, ar_OrganisationId = rf_OrganisationId referential, ar_Slug = rf_slug referential,
      ar_Name = rf_Name referential, ar_Errors = NewErrors,
      ar_Settings = fold (\<lambda>(k, v). mput k v) (rf_Settings referential) [],
      ar_Tokens = rf_Tokens referential\<rparr>"

definition Referential_SetDefinition :: "surroundings \<Rightarrow> APIReferential \<Rightarrow> Referential \<Rightarrow> Referential" where
  "Referential_SetDefinition env api referential =
     (let initialReloadAt = Referential_Setting referential REFERENTIAL_SETTING_MODEL_RELOAD_AT;
          defined = referential\<lparr>rf_OrganisationId := ar_OrganisationId api, rf_slug := ar_Slug api,
            rf_Name := ar_Name api, rf_Settings := ar_Settings api, rf_Tokens := ar_Tokens api\<rparr>
      in if initialReloadAt \<noteq> Referential_Setting defined REFERENTIAL_SETTING_MODEL_RELOAD_AT
         then Referential_setNextReloadAt env defined else defined)"

text \<open>A JSON body is the members it has. Members of the settings are added to those there are, and \<^verbatim>\<open>null\<close> (the inner
  \<^const>\<open>None\<close>) leaves none; for the other members \<^verbatim>\<open>null\<close> is no member, or no tokens.\<close>

record ReferentialBody =
  rb_OrganisationId :: "string option"
  rb_Slug :: "ReferentialSlug option"
  rb_Name :: "string option"
  rb_Settings :: "(string, string) gomap option option"
  rb_Tokens :: "string list option"

definition APIReferential_Unmarshal :: "ReferentialBody \<Rightarrow> APIReferential \<Rightarrow> APIReferential" where
  "APIReferential_Unmarshal body api =
     api\<lparr>ar_OrganisationId := given (rb_OrganisationId body) (ar_OrganisationId api),
         ar_Slug := given (rb_Slug body) (ar_Slug api), ar_Name := given (rb_Name body) (ar_Name api),
         ar_Settings := (case rb_Settings body of
             None \<Rightarrow> ar_Settings api
           | Some None \<Rightarrow> []
           | Some (Some members) \<Rightarrow> fold (\<lambda>(k, v). mput k v) members (ar_Settings api)),
         ar_Tokens := given (rb_Tokens body) (ar_Tokens api)\<rparr>"

text \<open>The definition shares the slice of tokens with the referential, and the tokens are decoded into it.\<close>

definition tokens_shared :: "ReferentialBody \<Rightarrow> Referential \<Rightarrow> Referential" where
  "tokens_shared body referential =
     referential\<lparr>rf_Tokens := decoded_in_place (rf_Tokens referential) (given (rb_Tokens body) (rf_Tokens referential))\<rparr>"

section \<open>The manager\<close>

type_synonym MemoryReferentials = "(ReferentialId, Referential) gomap"

definition NewMemoryReferentials :: MemoryReferentials where
  "NewMemoryReferentials = []"

definition MemoryReferentials_New :: "surroundings \<Rightarrow> ReferentialSlug \<Rightarrow> Referential" where
  "MemoryReferentials_New env slug =
     (let broadcaster = NewBroadcastManager
      in Referential_setNextReloadAt env
           \<lparr>rf_id = '''', rf_slug = slug, rf_Name = '''', rf_Settings = [], rf_OrganisationId = '''',
            rf_collectManager = NewCollectManager, rf_broacasterManager = broadcaster,
            rf_model = MemoryModel_SetBroadcastGMChan (bm_gmbEventChan broadcaster)
              (MemoryModel_SetBroadcastSMChan (bm_smbEventChan broadcaster) (NewMemoryModel (now_of env) (Some slug))),
            rf_modelGuardian = NilStop, rf_gmTimer = 0, rf_partners = NewPartnerManager, rf_partnersGuardian = NilStop,
            rf_startedAt = 0, rf_nextReloadAt = 0, rf_Tokens = []\<rparr>)"

definition MemoryReferentials_Find :: "MemoryReferentials \<Rightarrow> ReferentialId \<Rightarrow> Referential option" where
  "MemoryReferentials_Find manager i = mget manager i"

definition MemoryReferentials_FindBySlug :: "MemoryReferentials \<Rightarrow> ReferentialSlug \<Rightarrow> Referential option" where
  "MemoryReferentials_FindBySlug manager slug = first_some (\<lambda>referential. rf_slug referential = slug) (mvals manager)"

definition MemoryReferentials_FindAll :: "MemoryReferentials \<Rightarrow> Referential list" where
  "MemoryReferentials_FindAll manager = mvals manager"

definition MemoryReferentials_Save ::
  "Referential \<Rightarrow> uuid_gen \<Rightarrow> MemoryReferentials \<Rightarrow> Referential \<times> uuid_gen \<times> MemoryReferentials" where
  "MemoryReferentials_Save referential g manager =
     (let (named, g1) = (if rf_id referential = ''''
                         then (let (u, g1) = NewUUID g in (referential\<lparr>rf_id := u\<rparr>, g1)) else (referential, g));
          saved = named\<lparr>rf_model := MemoryModel_SetReferential (rf_slug named) (rf_model named),
            rf_collectManager := CollectManager_HandleUpdateEvent UpdateManager_Update
              (CollectManager_HandleSituationUpdateEvent SituationUpdateManager_UpdateSituation
                (rf_collectManager named))\<rparr>
      in (saved, g1, mput (rf_id saved) saved manager))"

definition MemoryReferentials_Delete :: "Referential \<Rightarrow> MemoryReferentials \<Rightarrow> MemoryReferentials" where
  "MemoryReferentials_Delete referential manager = mdel (rf_id referential) manager"

text \<open>A referential that is changed through a pointer changes where it is stored.\<close>

definition on_referential ::
  "ReferentialId \<Rightarrow> (Referential \<Rightarrow> Referential) \<Rightarrow> MemoryReferentials \<Rightarrow> MemoryReferentials" where
  "on_referential i f manager =
     (case mget manager i of None \<Rightarrow> manager | Some referential \<Rightarrow> mput i (f referential) manager)"

definition MemoryReferentials_Start :: "surroundings \<Rightarrow> MemoryReferentials \<Rightarrow> MemoryReferentials" where
  "MemoryReferentials_Start env manager = fold (\<lambda>i. on_referential i (Referential_Start env)) (mkeys manager) manager"

definition check_referential_slug :: "APIReferential \<Rightarrow> APIReferential" where
  "check_referential_slug api =
     (if ar_Slug api = '''' then api\<lparr>ar_Errors := Errors_Add ''Slug'' ERROR_BLANK (ar_Errors api)\<rparr>
      else if \<not> slugRegexp (ar_Slug api)
      then api\<lparr>ar_Errors := Errors_Add ''Slug'' ERROR_SLUG_FORMAT (ar_Errors api)\<rparr> else api)"

definition check_other_referential :: "Referential \<Rightarrow> APIReferential \<Rightarrow> APIReferential" where
  "check_other_referential existing api =
     (if rf_id existing \<noteq> ar_id api \<and> ar_Slug api = rf_slug existing
      then api\<lparr>ar_Errors := Errors_Add ''Slug'' ERROR_UNIQUE (ar_Errors api)\<rparr> else api)"

definition APIReferential_Validate :: "MemoryReferentials \<Rightarrow> APIReferential \<Rightarrow> bool \<times> APIReferential" where
  "APIReferential_Validate manager api =
     (let api1 = check_referential_slug (api\<lparr>ar_Errors := NewErrors\<rparr>);
          api2 = fold check_other_referential (MemoryReferentials_FindAll manager) api1
      in (length (ar_Errors api2) = 0, api2))"

section \<open>The API\<close>

datatype referential_json =
    MalformedJson
  | MistypedJson ReferentialBody
  | ReferentialJson ReferentialBody

datatype referential_response =
    ReferentialNotFound
  | InvalidRequest
  | InvalidDefinition Errors
  | ReferentialDone Referential

definition ReferentialController_findReferential :: "MemoryReferentials \<Rightarrow> string \<Rightarrow> Referential option" where
  "ReferentialController_findReferential manager key =
     (case MemoryReferentials_FindBySlug manager key of
        Some referential \<Rightarrow> Some referential
      | None \<Rightarrow> MemoryReferentials_Find manager key)"

definition ReferentialController_Delete ::
  "string \<Rightarrow> MemoryReferentials \<Rightarrow> (referential_response \<times> MemoryReferentials) option" where
  "ReferentialController_Delete key manager =
     (case ReferentialController_findReferential manager key of
        None \<Rightarrow> Some (ReferentialNotFound, manager)
      | Some referential \<Rightarrow> do {
          stopped \<leftarrow> Referential_Stop referential;
          Some (ReferentialDone referential, MemoryReferentials_Delete stopped manager) })"

text \<open>Saving and starting: what is returned is the pointer that is stored.\<close>

definition save_and_start ::
  "surroundings \<Rightarrow> Referential \<Rightarrow> uuid_gen \<Rightarrow> MemoryReferentials \<Rightarrow>
   referential_response \<times> uuid_gen \<times> MemoryReferentials" where
  "save_and_start env referential g manager =
     (let (saved, g1, manager1) = MemoryReferentials_Save referential g manager;
          started = Referential_Start env saved
      in (ReferentialDone started, g1, mput (rf_id started) started manager1))"

definition ReferentialController_Update ::
  "surroundings \<Rightarrow> string \<Rightarrow> referential_json \<Rightarrow> uuid_gen \<Rightarrow> MemoryReferentials \<Rightarrow>
   (referential_response \<times> uuid_gen \<times> MemoryReferentials) option" where
  "ReferentialController_Update env key json g manager =
     (case ReferentialController_findReferential manager key of
        None \<Rightarrow> Some (ReferentialNotFound, g, manager)
      | Some referential \<Rightarrow>
          (case json of
             MalformedJson \<Rightarrow> Some (InvalidRequest, g, manager)
           | MistypedJson body \<Rightarrow> Some (InvalidRequest, g, on_referential (rf_id referential) (tokens_shared body) manager)
           | ReferentialJson body \<Rightarrow>
               (let api = APIReferential_Unmarshal body (Referential_Definition referential);
                    referential1 = tokens_shared body referential;
                    manager1 = on_referential (rf_id referential) (tokens_shared body) manager;
                    (valid, api1) = APIReferential_Validate manager1 api
                in if \<not> valid then Some (InvalidDefinition (ar_Errors api1), g, manager1)
                   else do {
                     stopped \<leftarrow> Referential_Stop referential1;
                     Some (save_and_start env (Referential_SetDefinition env api1 stopped) g manager1) })))"

definition ReferentialController_Create ::
  "surroundings \<Rightarrow> referential_json \<Rightarrow> uuid_gen \<Rightarrow> MemoryReferentials \<Rightarrow>
   referential_response \<times> uuid_gen \<times> MemoryReferentials" where
  "ReferentialController_Create env json g manager =
     (case json of
        MalformedJson \<Rightarrow> (InvalidRequest, g, manager)
      | MistypedJson body \<Rightarrow> (InvalidRequest, g, manager)
      | ReferentialJson body \<Rightarrow>
          (let referential = MemoryReferentials_New env '''';
               api = APIReferential_Unmarshal body (Referential_Definition referential);
               (valid, api1) = APIReferential_Validate manager api
           in if \<not> valid then (InvalidDefinition (ar_Errors api1), g, manager)
              else save_and_start env (Referential_SetDefinition env api1 referential) g manager))"

definition ReferentialController_reload ::
  "surroundings \<Rightarrow> string \<Rightarrow> MemoryReferentials \<Rightarrow> (referential_response \<times> MemoryReferentials) option" where
  "ReferentialController_reload env key manager =
     (case ReferentialController_findReferential manager key of
        None \<Rightarrow> Some (ReferentialNotFound, manager)
      | Some referential \<Rightarrow> do {
          reloaded \<leftarrow> Referential_ReloadModel env referential;
          Some (ReferentialDone reloaded, on_referential (rf_id referential) (\<lambda>_. reloaded) manager) })"

end
