(* ===== verification/Collecting.thy ===== *)
theory Collecting
  imports Builders Collectors Referentials
begin

text \<open>
  Collecting: the manager that hands collected events to the model and chooses the partner to ask
  (\<^verbatim>\<open>core/collect_manager.go\<close>), the connectors that ask (\<^verbatim>\<open>core/siri_stop_monitoring_request_collector.go\<close>,
  \<^verbatim>\<open>core/siri_general_message_request_collector.go\<close>), and what the subscription collectors do with a
  notification.

  An operation takes and returns the generator of identifiers and the referential; \<^const>\<open>None\<close> is a crash. The
  outside is a record: the clock, the hash function, the XML library, and the SOAP client of each partner,
  which answers a request with a document or an error. What is logged is left out.
\<close>

record SIRIGetStopMonitoringRequest =
  gsm_RequestorRef :: string
  gsm_MessageIdentifier :: string
  gsm_MonitoringRef :: string
  gsm_RequestTimestamp :: gotime
  gsm_StopVisitTypes :: string

record SIRIGetGeneralMessageRequest =
  ggm_RequestorRef :: string
  ggm_MessageIdentifier :: string
  ggm_RequestTimestamp :: gotime
  ggm_LineRef :: "string list"
  ggm_StopPointRef :: "string list"
  ggm_XsdInWsdl :: bool

record 'n remote =
  rm_now :: gotime
  rm_zone :: zone
  rm_sha1_hex :: "string \<Rightarrow> string"
  rm_gk :: "'n gokogiri"
  rm_StopMonitoring :: "PartnerId \<Rightarrow> SIRIGetStopMonitoringRequest \<Rightarrow> 'n option"
  rm_SituationMonitoring :: "PartnerId \<Rightarrow> SIRIGetGeneralMessageRequest \<Rightarrow> 'n option"

type_synonym world = "uuid_gen \<times> Referential"

section \<open>Broadcasting to the model\<close>

definition CollectManager_BroadcastUpdateEvent :: "'n remote \<Rightarrow> UpdateEvent \<Rightarrow> world \<Rightarrow> world option" where
  "CollectManager_BroadcastUpdateEvent rm event s =
     fold (\<lambda>subscriber acc. do {
             (g, r) \<leftarrow> acc;
             (g1, model) \<leftarrow> Update (rm_now rm) (rm_sha1_hex rm) event g (rf_model r);
             Some (g1, r\<lparr>rf_model := model\<rparr>) })
       (cm_UpdateSubscribers (rf_collectManager (snd s))) (Some s)"

definition CollectManager_BroadcastSituationUpdateEvent ::
  "'n remote \<Rightarrow> SituationUpdateEvent list \<Rightarrow> world \<Rightarrow> world" where
  "CollectManager_BroadcastSituationUpdateEvent rm events s =
     fold (\<lambda>subscriber (g, r). (let (g1, model) = UpdateSituation (rm_sha1_hex rm) events g (rf_model r)
                                in (g1, r\<lparr>rf_model := model\<rparr>)))
       (cm_SituationUpdateSubscribers (rf_collectManager (snd s))) s"

definition broadcastUpdateEvents :: "'n remote \<Rightarrow> UpdateEvent list \<Rightarrow> world \<Rightarrow> world option" where
  "broadcastUpdateEvents rm events s =
     fold (\<lambda>event acc. Option.bind acc (CollectManager_BroadcastUpdateEvent rm event)) events (Some s)"

definition CollectManager_HandlePartnerStatusChange ::
  "'n remote \<Rightarrow> string \<Rightarrow> bool \<Rightarrow> world \<Rightarrow> world option" where
  "CollectManager_HandlePartnerStatusChange rm partner status s =
     broadcastUpdateEvents rm
       (map (\<lambda>stopAreaId. STATUS_EVENT (NewStatusUpdateEvent stopAreaId partner status))
         (MemoryStopAreas_FindByOrigin (mm_stopAreas (rf_model (snd s))) partner)) s"

section \<open>Partners of a referential\<close>

definition partner_at :: "Referential \<Rightarrow> PartnerId \<Rightarrow> Partner option" where
  "partner_at r i = mget (pm_byId (rf_partners r)) i"

definition change_partner :: "PartnerId \<Rightarrow> (Partner \<Rightarrow> Partner) \<Rightarrow> Referential \<Rightarrow> Referential" where
  "change_partner i f r = r\<lparr>rf_partners := on_partner i f (rf_partners r)\<rparr>"

text \<open>A message identifier, from the generator that the settings of the partner keep.\<close>

definition new_message_identifier :: "Partner \<Rightarrow> world \<Rightarrow> string \<times> world" where
  "new_message_identifier partner s =
     (case s of (g, r) \<Rightarrow>
        (let (i, settings, g1) = NewMessageIdentifier (prt_settings partner) g
         in (i, g1, change_partner (prt_id partner) (\<lambda>p. p\<lparr>prt_settings := settings\<rparr>) r)))"

section \<open>Stop monitoring by request\<close>

definition broadcastNotCollectedEvents ::
  "'n remote \<Rightarrow> (string, StopVisitUpdateEvent) gomap \<Rightarrow> ObjectID list \<Rightarrow> world \<Rightarrow> world option" where
  "broadcastNotCollectedEvents rm events collected s =
     broadcastUpdateEvents rm
       (map (\<lambda>obj. NOT_COLLECTED_EVENT \<lparr>ncu_ObjectId = obj\<rparr>) (filter (\<lambda>obj. \<not> mhas events (oid_value obj)) collected)) s"

text \<open>The loop over the stop points of the response. The list of monitored stop visits is not emptied between
  two of them.\<close>

fun not_collected ::
  "'n remote \<Rightarrow> string \<Rightarrow> string \<Rightarrow> (string \<times> (string, StopVisitUpdateEvent) gomap) list \<Rightarrow> ObjectID list \<Rightarrow>
   world \<Rightarrow> world option" where
  "not_collected rm kind slug [] monitored s = Some s"
| "not_collected rm kind slug ((stopPointRef, events) # rest) monitored s =
     (let model = rf_model (snd s); tx = NewTransactionalModel model
      in do {
        found \<leftarrow> TransactionalStopAreas_FindByObjectId (tm_stopAreas tx) (mm_stopAreas model) (NewObjectID kind stopPointRef);
        (case found of
           None \<Rightarrow> not_collected rm kind slug rest monitored s
         | Some sa \<Rightarrow>
             (let monitored1 = monitored @ List.map_filter (\<lambda>sv. Consumer_ObjectID (sv_objectids sv) kind)
                    (TransactionalStopVisits_FindMonitoredByOriginByStopAreaId (tm_stopVisits tx) (mm_stopVisits model)
                      (sa_id sa) slug)
              in do {
                s1 \<leftarrow> broadcastNotCollectedEvents rm events monitored1 s;
                not_collected rm kind slug rest monitored1 s1 })) })"

definition response_events ::
  "'n gokogiri \<Rightarrow> StopMonitoringUpdateEventBuilder \<Rightarrow> 'n XMLStructure \<Rightarrow> StopMonitoringUpdateEvents" where
  "response_events gk builder response =
     fold (\<lambda>delivery events.
             if \<not> read_of XMLStatus_Status gk delivery then events
             else SetUpdateEvents builder gk (XMLStopMonitoringDelivery_XMLMonitoredStopVisits gk delivery) events)
       (XMLStopMonitoringResponse_StopMonitoringDeliveries gk response) newStopMonitoringUpdateEvents"

definition SIRIStopMonitoringRequestCollector_RequestStopAreaUpdate ::
  "'n remote \<Rightarrow> Partner \<Rightarrow> StopAreaId \<Rightarrow> world \<Rightarrow> world option" where
  "SIRIStopMonitoringRequestCollector_RequestStopAreaUpdate rm partner stopAreaId s =
     (let model = rf_model (snd s); kind = Partner_Setting partner REMOTE_OBJECTID_KIND
      in case TransactionalStopAreas_Find (tm_stopAreas (NewTransactionalModel model)) (mm_stopAreas model) stopAreaId of
           None \<Rightarrow> Some s
         | Some stopArea \<Rightarrow>
             (case Consumer_ObjectID (sa_objectids stopArea) kind of
                None \<Rightarrow> Some s
              | Some objectid \<Rightarrow>
                  (let (i, s1) = new_message_identifier partner s;
                       request = \<lparr>gsm_RequestorRef = PartnerSettings_ProducerRef (prt_settings partner),
                                  gsm_MessageIdentifier = i, gsm_MonitoringRef = oid_value objectid,
                                  gsm_RequestTimestamp = rm_now rm, gsm_StopVisitTypes = ''all''\<rparr>
                   in case rm_StopMonitoring rm (prt_id partner) request of
                        None \<Rightarrow> Some s1
                      | Some document \<Rightarrow>
                          (let events = response_events (rm_gk rm)
                                 \<lparr>smb_originStopAreaObjectId = objectid, smb_origin = prt_slug partner,
                                  smb_remoteObjectidKind = kind\<rparr> (new_structure document)
                           in do {
                             s2 \<leftarrow> broadcastUpdateEvents rm (update_events events) s1;
                             not_collected rm kind (prt_slug partner) (smu_StopVisits events) [] s2 }))))"

section \<open>General messages by request\<close>

definition GENEREAL_MESSAGE_REQUEST_2 :: string where
  "GENEREAL_MESSAGE_REQUEST_2 = ''generalMessageRequest.version2.2''"

definition SIRIGeneralMessageRequestCollector_RequestSituationUpdate ::
  "'n remote \<Rightarrow> Partner \<Rightarrow> string \<Rightarrow> string \<Rightarrow> world \<Rightarrow> world option" where
  "SIRIGeneralMessageRequestCollector_RequestSituationUpdate rm partner kind requestedId s =
     (let (i, s1) = new_message_identifier partner s;
          request = \<lparr>ggm_RequestorRef = PartnerSettings_ProducerRef (prt_settings partner),
                     ggm_MessageIdentifier = i, ggm_RequestTimestamp = rm_now rm,
                     ggm_LineRef = (if kind = SITUATION_UPDATE_REQUEST_LINE then [requestedId] else []),
                     ggm_StopPointRef = (if kind = SITUATION_UPDATE_REQUEST_STOP_AREA then [requestedId] else []),
                     ggm_XsdInWsdl = ParseBool (Partner_Setting partner GENEREAL_MESSAGE_REQUEST_2)\<rparr>
      in case rm_SituationMonitoring rm (prt_id partner) request of
           None \<Rightarrow> Some s1
         | Some document \<Rightarrow> do {
             (g, events) \<leftarrow> SetGeneralMessageResponseUpdateEvents (prt_slug partner)
               (Partner_Setting partner REMOTE_OBJECTID_KIND) (rm_now rm) (rm_zone rm) (rm_gk rm) (new_structure document) (fst s1, []);
             Some (CollectManager_BroadcastSituationUpdateEvent rm events (g, snd s1)) })"

section \<open>The subscription collectors in a referential\<close>

text \<open>A subscription collector works on the settings and the subscriptions of its partner.\<close>

definition with_subscriptions ::
  "Partner \<Rightarrow> (PartnerSettings \<Rightarrow> uuid_gen \<Rightarrow> MemorySubscriptions \<Rightarrow>
     (PartnerSettings \<times> uuid_gen \<times> MemorySubscriptions) option) \<Rightarrow> world \<Rightarrow> world option" where
  "with_subscriptions partner f s =
     (case s of (g, r) \<Rightarrow> do {
        (settings, g1, subscriptions) \<leftarrow> f (prt_settings partner) g (prt_subscriptions partner);
        Some (g1, change_partner (prt_id partner)
                    (\<lambda>p. p\<lparr>prt_settings := settings, prt_subscriptions := subscriptions\<rparr>) r) })"

definition RequestStopAreaUpdate :: "'n remote \<Rightarrow> Partner \<Rightarrow> string \<Rightarrow> StopAreaId \<Rightarrow> world \<Rightarrow> world option" where
  "RequestStopAreaUpdate rm partner connectorType stopAreaId s =
     (if connectorType = SIRI_STOP_MONITORING_SUBSCRIPTION_COLLECTOR
      then with_subscriptions partner (StopMonitoring_RequestStopAreaUpdate (rm_now rm) stopAreaId (rf_model (snd s))) s
      else if connectorType = SIRI_STOP_MONITORING_REQUEST_COLLECTOR
      then SIRIStopMonitoringRequestCollector_RequestStopAreaUpdate rm partner stopAreaId s
      else Some s)"

section \<open>Choosing a partner\<close>

text \<open>The identifiers of the lines of a stop area, each once.\<close>

definition line_values :: "MemoryModel \<Rightarrow> StopArea \<Rightarrow> string \<Rightarrow> string list" where
  "line_values model stopArea kind =
     remdups (List.map_filter (\<lambda>lineId.
        Option.bind (MemoryLines_Find (mm_lines model) lineId)
          (\<lambda>line. map_option oid_value (Consumer_ObjectID (line_objectids line) kind))) (sa_LineIds stopArea))"

definition can_update_stop_area :: "MemoryModel \<Rightarrow> StopArea \<Rightarrow> Partner \<Rightarrow> bool" where
  "can_update_stop_area model stopArea partner =
     (let subscriptionCollector = Partner_StopMonitoringSubscriptionCollector partner;
          requestCollector = Partner_StopMonitoringRequestCollector partner
      in if subscriptionCollector = None \<and> requestCollector = None then False
         else if pst_OperationnalStatus (prt_PartnerStatus partner) \<noteq> OPERATIONNAL_STATUS_UP \<and>
           (\<not> ParseBool (Partner_Setting partner COLLECT_SUBSCRIPTIONS_PERSISTENT) \<or> subscriptionCollector = None)
         then False
         else (case Consumer_ObjectID (sa_objectids stopArea) (Partner_Setting partner REMOTE_OBJECTID_KIND) of
                 None \<Rightarrow> False
               | Some stopAreaObjectID \<Rightarrow>
                   Partner_CanCollect partner (oid_value stopAreaObjectID)
                     (line_values model stopArea (Partner_Setting partner REMOTE_OBJECTID_KIND))))"

text \<open>The loop goes on to the next partner wherever the code has \<^verbatim>\<open>continue\<close> and ends with the first that can
  collect the stop area.\<close>

definition CollectManager_UpdateStopArea :: "'n remote \<Rightarrow> StopAreaId \<Rightarrow> world \<Rightarrow> world option" where
  "CollectManager_UpdateStopArea rm stopAreaId s =
     (let model = rf_model (snd s)
      in case MemoryStopAreas_Find (mm_stopAreas model) stopAreaId of
           None \<Rightarrow> Some s
         | Some stopArea \<Rightarrow>
             (case first_some (can_update_stop_area model stopArea)
                     (PartnerManager_FindAllByCollectPriority (rf_partners (snd s))) of
                None \<Rightarrow> Some s
              | Some partner \<Rightarrow>
                  (case Partner_StopMonitoringSubscriptionCollector partner of
                     Some connectorType \<Rightarrow> RequestStopAreaUpdate rm partner connectorType stopAreaId s
                   | None \<Rightarrow>
                       (case Partner_StopMonitoringRequestCollector partner of
                          Some connectorType \<Rightarrow> RequestStopAreaUpdate rm partner connectorType stopAreaId s
                        | None \<Rightarrow> Some s))))"

text \<open>Situations are requested the same way: by the subscription collector where the partner has one.\<close>

definition general_message_collectors :: "Partner \<Rightarrow> bool" where
  "general_message_collectors partner \<longleftrightarrow>
     Partner_GeneralMessageRequestCollector partner \<noteq> None \<or>
     Partner_GeneralMessageSubscriptionCollector partner \<noteq> None"

definition request_situations :: "'n remote \<Rightarrow> Partner \<Rightarrow> string \<Rightarrow> ObjectID \<Rightarrow> world \<Rightarrow> world option" where
  "request_situations rm partner kind objectid s =
     (if Partner_GeneralMessageSubscriptionCollector partner \<noteq> None
      then with_subscriptions partner (GeneralMessage_RequestSituationUpdate (rm_now rm) kind objectid) s
      else SIRIGeneralMessageRequestCollector_RequestSituationUpdate rm partner kind (oid_value objectid) s)"

text \<open>All situations are asked to every partner that is up and has no filter. The list of partners is taken
  once, and each is read again when its turn comes.\<close>

definition wants_all_situations :: "Partner \<Rightarrow> bool" where
  "wants_all_situations partner \<longleftrightarrow>
     pst_OperationnalStatus (prt_PartnerStatus partner) = OPERATIONNAL_STATUS_UP \<and>
     \<not> ParseBool (Partner_Setting partner COLLECT_FILTER_GENERAL_MESSAGES) \<and> general_message_collectors partner"

definition request_all :: "'n remote \<Rightarrow> Partner \<Rightarrow> world \<Rightarrow> world option" where
  "request_all rm partner s =
     (if Partner_GeneralMessageSubscriptionCollector partner \<noteq> None
      then with_subscriptions partner (GeneralMessage_RequestAllSituationsUpdate (rm_now rm)) s
      else SIRIGeneralMessageRequestCollector_RequestSituationUpdate rm partner SITUATION_UPDATE_REQUEST_ALL '''' s)"

definition CollectManager_requestAllSituations :: "'n remote \<Rightarrow> world \<Rightarrow> world option" where
  "CollectManager_requestAllSituations rm s =
     fold (\<lambda>i acc. do {
             s1 \<leftarrow> acc;
             (case partner_at (snd s1) i of
                Some partner \<Rightarrow> if wants_all_situations partner then request_all rm partner s1 else Some s1
              | None \<Rightarrow> Some s1) })
       (map prt_id (PartnerManager_FindAllByCollectPriority (rf_partners (snd s)))) (Some s)"

definition filters_situations :: "Partner \<Rightarrow> bool" where
  "filters_situations partner \<longleftrightarrow>
     pst_OperationnalStatus (prt_PartnerStatus partner) = OPERATIONNAL_STATUS_UP \<and>
     ParseBool (Partner_Setting partner COLLECT_FILTER_GENERAL_MESSAGES) \<and> general_message_collectors partner"

definition can_request_line :: "Line \<Rightarrow> Partner \<Rightarrow> bool" where
  "can_request_line line partner \<longleftrightarrow>
     filters_situations partner \<and>
     (case Consumer_ObjectID (line_objectids line) (Partner_Setting partner REMOTE_OBJECTID_KIND) of
        None \<Rightarrow> False
      | Some lineObjectID \<Rightarrow> Partner_CanCollectLine partner (oid_value lineObjectID))"

definition CollectManager_requestLineFilteredSituation :: "'n remote \<Rightarrow> LineId \<Rightarrow> world \<Rightarrow> world option" where
  "CollectManager_requestLineFilteredSituation rm requestedId s =
     (case MemoryLines_Find (mm_lines (rf_model (snd s))) requestedId of
        None \<Rightarrow> Some s
      | Some line \<Rightarrow>
          (case first_some (can_request_line line) (PartnerManager_FindAllByCollectPriority (rf_partners (snd s))) of
             None \<Rightarrow> Some s
           | Some partner \<Rightarrow>
               (case Consumer_ObjectID (line_objectids line) (Partner_Setting partner REMOTE_OBJECTID_KIND) of
                  None \<Rightarrow> Some s
                | Some lineObjectID \<Rightarrow> request_situations rm partner SITUATION_UPDATE_REQUEST_LINE lineObjectID s)))"

definition can_request_stop_area :: "MemoryModel \<Rightarrow> StopArea \<Rightarrow> Partner \<Rightarrow> bool" where
  "can_request_stop_area model stopArea partner \<longleftrightarrow>
     filters_situations partner \<and>
     (case Consumer_ObjectID (sa_objectids stopArea) (Partner_Setting partner REMOTE_OBJECTID_KIND) of
        None \<Rightarrow> False
      | Some stopAreaObjectID \<Rightarrow>
          Partner_CanCollect partner (oid_value stopAreaObjectID)
            (line_values model stopArea (Partner_Setting partner REMOTE_OBJECTID_KIND)))"

definition CollectManager_requestStopAreaFilteredSituation ::
  "'n remote \<Rightarrow> StopAreaId \<Rightarrow> world \<Rightarrow> world option" where
  "CollectManager_requestStopAreaFilteredSituation rm requestedId s =
     (let model = rf_model (snd s)
      in case MemoryStopAreas_Find (mm_stopAreas model) requestedId of
           None \<Rightarrow> Some s
         | Some stopArea \<Rightarrow>
             (case first_some (can_request_stop_area model stopArea)
                     (PartnerManager_FindAllByCollectPriority (rf_partners (snd s))) of
                None \<Rightarrow> Some s
              | Some partner \<Rightarrow>
                  (case Consumer_ObjectID (sa_objectids stopArea) (Partner_Setting partner REMOTE_OBJECTID_KIND) of
                     None \<Rightarrow> Some s
                   | Some stopAreaObjectID \<Rightarrow>
                       request_situations rm partner SITUATION_UPDATE_REQUEST_STOP_AREA stopAreaObjectID s)))"

definition CollectManager_UpdateSituation :: "'n remote \<Rightarrow> string \<Rightarrow> string \<Rightarrow> world \<Rightarrow> world option" where
  "CollectManager_UpdateSituation rm kind requestedId s =
     (if kind = SITUATION_UPDATE_REQUEST_ALL then CollectManager_requestAllSituations rm s
      else if kind = SITUATION_UPDATE_REQUEST_LINE then CollectManager_requestLineFilteredSituation rm requestedId s
      else if kind = SITUATION_UPDATE_REQUEST_STOP_AREA
      then CollectManager_requestStopAreaFilteredSituation rm requestedId s
      else Some s)"

end
