(* ===== verification/Broadcasters.thy ===== *)
theory Broadcasters
  imports BroadcastBuilders Collecting
begin

text \<open>
  Broadcasting stop visits to the partners that subscribed: the connector that takes events of the model and
  requests for subscriptions (\<^verbatim>\<open>core/siri_stop_monitoring_subscription_broadcaster.go\<close>), and the routine that builds
  the notifications (\<^verbatim>\<open>core/stop_monitoring_broadcaster.go\<close>).

  The state of the connector is a record beside the partner, whose subscriptions it reads and changes; subscriptions
  and resources are pointers, changed where they are stored. A notification is a value that is sent: what the client
  does with it has no effect on the program. What is logged is left out. \<^const>\<open>None\<close> is a crash: a failed
  assertion of a type, a nil dereference or a recursion without end.
\<close>

section \<open>Texts\<close>

text \<open>\<^verbatim>\<open>strconv.Itoa\<close>, and \<^verbatim>\<open>strings.SplitN(s, ":", 2)\<close>.\<close>

fun nat_text :: "nat \<Rightarrow> string" where
  "nat_text n = (if n < 10 then [char_of (48 + n)] else nat_text (n div 10) @ [char_of (48 + n mod 10)])"

declare nat_text.simps [simp del]

definition Itoa :: "int \<Rightarrow> string" where
  "Itoa i = (if i < 0 then CHR ''-'' # nat_text (nat (- i)) else nat_text (nat i))"

definition quoted :: "string \<Rightarrow> string" where
  "quoted s = CHR 0x27 # s @ [CHR 0x27]"

definition split_colon :: "string \<Rightarrow> (string \<times> string) option" where
  "split_colon s =
     (case dropWhile (\<lambda>c. c \<noteq> CHR '':'') s of
        [] \<Rightarrow> None
      | _ # r \<Rightarrow> Some (takeWhile (\<lambda>c. c \<noteq> CHR '':'') s, r))"

section \<open>The connector\<close>

record SIRIStopMonitoringSubscriptionBroadcaster =
  smsb_toBroadcast :: "(SubscriptionId, StopVisitId list) gomap"
  smsb_notMonitored :: "(SubscriptionId, (string, unit) gomap) gomap"

definition newSIRIStopMonitoringSubscriptionBroadcaster :: SIRIStopMonitoringSubscriptionBroadcaster where
  "newSIRIStopMonitoringSubscriptionBroadcaster = \<lparr>smsb_toBroadcast = [], smsb_notMonitored = []\<rparr>"

definition StopMonitoringBroadcast :: string where "StopMonitoringBroadcast = ''StopMonitoringBroadcast''"

text \<open>What an event changes: the subscriptions of the partner and the connector.\<close>

type_synonym sm_state = "MemorySubscriptions \<times> SIRIStopMonitoringSubscriptionBroadcaster"

definition remote_kind :: "Partner \<Rightarrow> string" where
  "remote_kind partner = PartnerSettings_RemoteObjectIDKind (prt_settings partner) SIRI_STOP_MONITORING_SUBSCRIPTION_BROADCASTER"

definition SIRIStopMonitoringSubscriptionBroadcaster_addStopVisit ::
  "SubscriptionId list \<Rightarrow> StopVisitId \<Rightarrow> SIRIStopMonitoringSubscriptionBroadcaster \<Rightarrow> SIRIStopMonitoringSubscriptionBroadcaster" where
  "SIRIStopMonitoringSubscriptionBroadcaster_addStopVisit subsIds svId connector =
     connector\<lparr>smsb_toBroadcast :=
       fold (\<lambda>subId m. mput subId (mget_or [] m subId @ [svId]) m) subsIds (smsb_toBroadcast connector)\<rparr>"

text \<open>The line a subscription is limited to: none, an unknown one (the empty identifier) or a known one.\<close>

definition SIRIStopMonitoringSubscriptionBroadcaster_lineRef :: "MemoryModel \<Rightarrow> Subscription \<Rightarrow> LineId option option" where
  "SIRIStopMonitoringSubscriptionBroadcaster_lineRef model sub =
     (let lineRef = Subscription_SubscriptionOption sub ''LineRef''
      in if lineRef = '''' then Some None
         else (case split_colon lineRef of
                 None \<Rightarrow> Some None
               | Some (kind, value) \<Rightarrow> do {
                   line \<leftarrow> read_line_by_id model (NewObjectID kind value);
                   Some (Some (case line of None \<Rightarrow> '''' | Some l \<Rightarrow> line_id l)) }))"

definition visit_state :: "StopVisit \<Rightarrow> lastState" where
  "visit_state sv = StopMonitoringState (stopMonitoringLastChange_UpdateState sv
     \<lparr>smlc_schedules = [], smlc_departureStatus = '''', smlc_arrivalStatus = ''''\<rparr>)"

definition set_last_state ::
  "SubscriptionId \<Rightarrow> ObjectID \<Rightarrow> string \<Rightarrow> lastState \<Rightarrow> MemorySubscriptions \<Rightarrow> MemorySubscriptions" where
  "set_last_state i obj key l =
     on_subscription i (on_resource (ObjectID_String obj) (SubscribedResource_SetLastState key l))"

text \<open>The line of the visit's journey; a journey that is not known has the zero value.\<close>

definition journey_line :: "MemoryModel \<Rightarrow> StopVisit \<Rightarrow> LineId" where
  "journey_line model sv = (case read_journey model (sv_VehicleJourneyId sv) of None \<Rightarrow> '''' | Some vj \<Rightarrow> vj_LineId vj)"

text \<open>One subscription, found for one identifier: whether the visit is to be broadcast to it.\<close>

definition check_subscription ::
  "gotime \<Rightarrow> MemoryModel \<Rightarrow> StopVisit \<Rightarrow> ObjectID \<Rightarrow> SubscriptionId \<Rightarrow>
   MemorySubscriptions \<times> SubscriptionId list \<Rightarrow> (MemorySubscriptions \<times> SubscriptionId list) option" where
  "check_subscription now model sv obj i st =
     (case st of (subs, ids) \<Rightarrow>
        (case Option.bind (mget subs i) (\<lambda>sub. map_option (Pair sub) (Subscription_Resource sub obj)) of
           None \<Rightarrow> Some (subs, ids)
         | Some (sub, resource) \<Rightarrow>
             if sr_SubscribedUntil resource < now then Some (subs, ids)
             else do {
               lineRef \<leftarrow> SIRIStopMonitoringSubscriptionBroadcaster_lineRef model sub;
               if lineRef \<noteq> None \<and> lineRef \<noteq> Some (journey_line model sv) then Some (subs, ids)
               else (case SubscribedResource_LastState resource (sv_id sv) of
                       None \<Rightarrow> Some (set_last_state i obj (sv_id sv) (visit_state sv) subs, ids @ [i])
                     | Some (StopMonitoringState l) \<Rightarrow>
                         if stopMonitoringLastChange_Haschanged (sub_subscriptionOptions sub) l sv
                         then Some (subs, ids @ [i]) else Some (subs, ids)
                     | Some _ \<Rightarrow> None) }))"

definition check_identifier ::
  "gotime \<Rightarrow> MemoryModel \<Rightarrow> StopVisit \<Rightarrow> ObjectID \<Rightarrow>
   MemorySubscriptions \<times> SubscriptionId list \<Rightarrow> (MemorySubscriptions \<times> SubscriptionId list) option" where
  "check_identifier now model sv obj st =
     fold (\<lambda>i acc. Option.bind acc (check_subscription now model sv obj i))
       (map sub_id (MemorySubscriptions_FindByResourceId (fst st) (ObjectID_String obj) StopMonitoringBroadcast)) (Some st)"

definition SIRIStopMonitoringSubscriptionBroadcaster_checkEvent ::
  "gotime \<Rightarrow> Partner \<Rightarrow> MemoryModel \<Rightarrow> StopVisit \<Rightarrow> MemorySubscriptions \<Rightarrow>
   (MemorySubscriptions \<times> SubscriptionId list) option" where
  "SIRIStopMonitoringSubscriptionBroadcaster_checkEvent now partner model sv subs =
     (if sv_Origin sv = prt_slug partner then Some (subs, [])
      else do {
        ascendants \<leftarrow> read_ascendants model (sv_StopAreaId sv) (remote_kind partner);
        fold (\<lambda>obj acc. Option.bind acc (check_identifier now model sv obj)) ascendants (Some (subs, [])) })"

definition handle_visit ::
  "gotime \<Rightarrow> Partner \<Rightarrow> MemoryModel \<Rightarrow> StopVisit \<Rightarrow> sm_state \<Rightarrow> sm_state option" where
  "handle_visit now partner model sv st =
     (case st of (subs, connector) \<Rightarrow> do {
        (subs1, subsIds) \<leftarrow> SIRIStopMonitoringSubscriptionBroadcaster_checkEvent now partner model sv subs;
        Some (subs1, if length subsIds \<noteq> 0
          then SIRIStopMonitoringSubscriptionBroadcaster_addStopVisit subsIds (sv_id sv) connector else connector) })"

text \<open>The partners that a stop area has lost since the last time are noted for each subscription to it.\<close>

definition note_lost ::
  "string \<Rightarrow> SubscriptionId \<Rightarrow> string list \<Rightarrow> SIRIStopMonitoringSubscriptionBroadcaster \<Rightarrow> SIRIStopMonitoringSubscriptionBroadcaster" where
  "note_lost slug i partners connector =
     connector\<lparr>smsb_notMonitored := mput i
       (fold (\<lambda>partner nm. if partner \<noteq> slug then mput partner () nm else nm) partners
         (mget_or [] (smsb_notMonitored connector) i)) (smsb_notMonitored connector)\<rparr>"

definition area_state :: "StopArea \<Rightarrow> lastState" where
  "area_state stopArea = StopAreaState (stopAreaLastChange_UpdateState stopArea \<lparr>salc_origins = []\<rparr>)"

definition check_area_subscription ::
  "gotime \<Rightarrow> Partner \<Rightarrow> StopArea \<Rightarrow> ObjectID \<Rightarrow> SubscriptionId \<Rightarrow> sm_state \<Rightarrow> sm_state option" where
  "check_area_subscription now partner stopArea obj i st =
     (case st of (subs, connector) \<Rightarrow>
        (case Option.bind (mget subs i) (\<lambda>sub. Subscription_Resource sub obj) of
           None \<Rightarrow> Some (subs, connector)
         | Some resource \<Rightarrow>
             if sr_SubscribedUntil resource < now then Some (subs, connector)
             else (case SubscribedResource_LastState resource (sa_id stopArea) of
                     None \<Rightarrow> Some (set_last_state i obj (sa_id stopArea) (area_state stopArea) subs, connector)
                   | Some (StopAreaState l) \<Rightarrow>
                       (let (partners, changed) = stopAreaLastChange_Haschanged l stopArea
                        in Some (set_last_state i obj (sa_id stopArea)
                               (StopAreaState (stopAreaLastChange_UpdateState stopArea l)) subs,
                             if changed then note_lost (prt_slug partner) i partners connector else connector))
                   | Some _ \<Rightarrow> None)))"

definition SIRIStopMonitoringSubscriptionBroadcaster_checkStopAreaEvent ::
  "gotime \<Rightarrow> Partner \<Rightarrow> StopArea \<Rightarrow> sm_state \<Rightarrow> sm_state option" where
  "SIRIStopMonitoringSubscriptionBroadcaster_checkStopAreaEvent now partner stopArea st =
     (case Consumer_ObjectID (sa_objectids stopArea) (remote_kind partner) of
        None \<Rightarrow> Some st
      | Some obj \<Rightarrow>
          fold (\<lambda>i acc. Option.bind acc (check_area_subscription now partner stopArea obj i))
            (map sub_id (MemorySubscriptions_FindByResourceId (fst st) (ObjectID_String obj) StopMonitoringBroadcast)) (Some st))"

definition SIRIStopMonitoringSubscriptionBroadcaster_HandleStopMonitoringBroadcastEvent ::
  "gotime \<Rightarrow> Partner \<Rightarrow> MemoryModel \<Rightarrow> StopMonitoringBroadcastEvent \<Rightarrow> sm_state \<Rightarrow> sm_state option" where
  "SIRIStopMonitoringSubscriptionBroadcaster_HandleStopMonitoringBroadcastEvent now partner model event st =
     (if sme_ModelType event = ''StopVisit'' then
        (case read_visit model (sme_ModelId event) of
           None \<Rightarrow> Some st
         | Some sv \<Rightarrow> handle_visit now partner model sv st)
      else if sme_ModelType event = ''VehicleJourney'' then do {
        svs \<leftarrow> TransactionalStopVisits_FindFollowingByVehicleJourneyId now (tm_stopVisits (NewTransactionalModel model))
          (mm_stopVisits model) (sme_ModelId event);
        fold (\<lambda>sv acc. Option.bind acc (handle_visit now partner model sv)) svs (Some st) }
      else if sme_ModelType event = ''StopArea'' then
        (case read_area model (sme_ModelId event) of
           None \<Rightarrow> Some st
         | Some sa \<Rightarrow> SIRIStopMonitoringSubscriptionBroadcaster_checkStopAreaEvent now partner sa st)
      else Some st)"

section \<open>Requests for subscriptions\<close>

record SIRIResponseStatus =
  rst_RequestMessageRef :: string
  rst_SubscriberRef :: string
  rst_SubscriptionRef :: string
  rst_Status :: bool
  rst_ErrorType :: string
  rst_ErrorNumber :: int
  rst_ErrorText :: string
  rst_ResponseTimestamp :: gotime
  rst_ValidUntil :: gotime

definition SIRIStopMonitoringSubscriptionBroadcaster_fillOptions ::
  "'n gokogiri \<Rightarrow> 'n XMLStructure \<Rightarrow> 'n XMLStructure \<Rightarrow> Subscription \<Rightarrow> Subscription" where
  "SIRIStopMonitoringSubscriptionBroadcaster_fillOptions gk request sm s =
     (let changeBeforeUpdates = read_of XMLSubscriptionRequest_ChangeBeforeUpdates gk request
      in Subscription_SetSubscriptionOption ''MessageIdentifier'' (read_of LightRequestXMLStructure_MessageIdentifier gk request)
           (Subscription_SetSubscriptionOption ''ChangeBeforeUpdates'' (if changeBeforeUpdates = '''' then ''PT1M'' else changeBeforeUpdates)
             (Subscription_SetSubscriptionOption ''MaximumStopVisits'' (Itoa (read_of LightXMLStopMonitoringRequest_MaximumStopVisits gk sm))
               (Subscription_SetSubscriptionOption ''IncrementalUpdates'' (read_of XMLSubscriptionRequest_IncrementalUpdates gk request)
                 (Subscription_SetSubscriptionOption ''StopVisitTypes'' (read_of LightXMLStopMonitoringRequest_StopVisitTypes gk sm) s)))))"

text \<open>A visit of a stop area that has been subscribed to: its state is kept and it is to be broadcast, unless it is
  known to the resource or on another line than the subscription's.\<close>

definition add_following_visit ::
  "MemoryModel \<Rightarrow> SubscriptionId \<Rightarrow> ObjectID \<Rightarrow> StopVisit \<Rightarrow> sm_state \<Rightarrow> sm_state option" where
  "add_following_visit model i obj sv st =
     (case st of (subs, connector) \<Rightarrow>
        (case Option.bind (mget subs i) (\<lambda>sub. map_option (Pair sub) (Subscription_Resource sub obj)) of
           None \<Rightarrow> Some (subs, connector)
         | Some (sub, res) \<Rightarrow>
             if SubscribedResource_LastState res (sv_id sv) \<noteq> None then Some (subs, connector)
             else do {
               lineRef \<leftarrow> SIRIStopMonitoringSubscriptionBroadcaster_lineRef model sub;
               if lineRef \<noteq> None \<and> lineRef \<noteq> Some (journey_line model sv) then Some (subs, connector)
               else Some (set_last_state i obj (sv_id sv) (visit_state sv) subs,
                      SIRIStopMonitoringSubscriptionBroadcaster_addStopVisit [i] (sv_id sv) connector) }))"

definition SIRIStopMonitoringSubscriptionBroadcaster_addStopAreaStopVisits ::
  "gotime \<Rightarrow> MemoryModel \<Rightarrow> StopAreaId \<Rightarrow> SubscriptionId \<Rightarrow> ObjectID \<Rightarrow> sm_state \<Rightarrow> sm_state option" where
  "SIRIStopMonitoringSubscriptionBroadcaster_addStopAreaStopVisits now model saId i obj st = do {
     family \<leftarrow> TransactionalStopAreas_FindFamily (tm_stopAreas (NewTransactionalModel model)) (mm_stopAreas model) saId;
     svs \<leftarrow> those (map (TransactionalStopVisits_FindFollowingByStopAreaId now (tm_stopVisits (NewTransactionalModel model))
       (mm_stopVisits model)) family);
     fold (\<lambda>sv acc. Option.bind acc (add_following_visit model i obj sv)) (concat svs) (Some st) }"

text \<open>The subscription with the external identifier of the entry, or a new one.\<close>

definition subscription_for ::
  "string \<Rightarrow> string \<Rightarrow> PartnerSettings \<times> uuid_gen \<Rightarrow> MemorySubscriptions \<Rightarrow>
   SubscriptionId \<times> (PartnerSettings \<times> uuid_gen) \<times> MemorySubscriptions" where
  "subscription_for kind externalId sg subs =
     (case MemorySubscriptions_FindByExternalId subs externalId of
        Some sub \<Rightarrow> (sub_id sub, sg, subs)
      | None \<Rightarrow>
          (let (sub, settings, g, subs1) = MemorySubscriptions_New kind (fst sg) (snd sg) subs
           in (sub_id sub, (settings, g), on_subscription (sub_id sub) (Subscription_SetExternalId externalId) subs1)))"

text \<open>The new resource of the subscription, from now until the time that is asked for.\<close>

definition add_broadcast_resource :: "gotime \<Rightarrow> gotime \<Rightarrow> ObjectID \<Rightarrow> string \<Rightarrow> Subscription \<Rightarrow> Subscription" where
  "add_broadcast_resource now until obj refType sub =
     (case Subscription_CreateAddNewResource now \<lparr>ref_ObjectId = Some obj, ref_Type = refType\<rparr> sub of
        None \<Rightarrow> sub
      | Some (_, sub1) \<Rightarrow> on_resource (ObjectID_String obj) (\<lambda>r. r\<lparr>sr_SubscribedAt := now, sr_SubscribedUntil := until\<rparr>) sub1)"

type_synonym sm_request_state = "(PartnerSettings \<times> uuid_gen) \<times> sm_state"

definition handle_sm_entry ::
  "gotime \<Rightarrow> 'n gokogiri \<Rightarrow> Partner \<Rightarrow> MemoryModel \<Rightarrow> 'n XMLStructure \<Rightarrow> 'n XMLStructure \<Rightarrow> sm_request_state \<Rightarrow>
   (SIRIResponseStatus \<times> sm_request_state) option" where
  "handle_sm_entry now gk partner model request sm st =
     (case st of (sg, subs, connector) \<Rightarrow>
        (let rs = \<lparr>rst_RequestMessageRef = read_of LightRequestXMLStructure_MessageIdentifier gk sm,
                   rst_SubscriberRef = read_of XMLStopMonitoringSubscriptionRequestEntry_SubscriberRef gk sm,
                   rst_SubscriptionRef = read_of XMLStopMonitoringSubscriptionRequestEntry_SubscriptionIdentifier gk sm,
                   rst_Status = False, rst_ErrorType = '''', rst_ErrorNumber = 0, rst_ErrorText = '''',
                   rst_ResponseTimestamp = now, rst_ValidUntil = 0\<rparr>;
             obj = NewObjectID (remote_kind partner) (read_of LightXMLStopMonitoringRequest_MonitoringRef gk sm);
             until = read_of XMLStopMonitoringSubscriptionRequestEntry_InitialTerminationTime gk sm
         in do {
           found \<leftarrow> read_area_by_id model obj;
           (case found of
              None \<Rightarrow> Some (rs\<lparr>rst_ErrorType := ''InvalidDataReferencesError'',
                        rst_ErrorText := ''StopArea not found: '' @ quoted (oid_value obj)\<rparr>, st)
            | Some sa \<Rightarrow>
                (let (i, sg1, subs1) = subscription_for StopMonitoringBroadcast
                       (read_of XMLStopMonitoringSubscriptionRequestEntry_SubscriptionIdentifier gk sm) sg subs;
                     lineRef = read_of LightXMLStopMonitoringRequest_LineRef gk sm;
                     subs2 = on_subscription i (\<lambda>sub.
                       (let sub1 = SIRIStopMonitoringSubscriptionBroadcaster_fillOptions gk request sm
                              (add_broadcast_resource now until obj ''StopArea'' sub)
                        in if lineRef \<noteq> ''''
                           then Subscription_SetSubscriptionOption ''LineRef'' (remote_kind partner @ '':'' @ lineRef) sub1
                           else sub1)) subs1;
                     subs3 = set_last_state i obj (sa_id sa) (area_state sa) subs2
                 in do {
                   st1 \<leftarrow> SIRIStopMonitoringSubscriptionBroadcaster_addStopAreaStopVisits now model (sa_id sa) i obj (subs3, connector);
                   Some (rs\<lparr>rst_Status := True, rst_ValidUntil := until\<rparr>, sg1, st1) })) }))"

definition SIRIStopMonitoringSubscriptionBroadcaster_HandleSubscriptionRequest ::
  "gotime \<Rightarrow> 'n gokogiri \<Rightarrow> Partner \<Rightarrow> MemoryModel \<Rightarrow> 'n XMLStructure \<Rightarrow> sm_request_state \<Rightarrow>
   (SIRIResponseStatus list \<times> sm_request_state) option" where
  "SIRIStopMonitoringSubscriptionBroadcaster_HandleSubscriptionRequest now gk partner model request st =
     fold (\<lambda>sm acc. do {
         (resps, st1) \<leftarrow> acc;
         (rs, st2) \<leftarrow> handle_sm_entry now gk partner model request sm st1;
         Some (resps @ [rs], st2) })
       (XMLSubscriptionRequest_XMLSubscriptionSMEntries gk request) (Some ([], st))"

section \<open>Notifications\<close>

record SIRINotifyStopMonitoringDelivery =
  nsd_MonitoringRef :: string
  nsd_RequestMessageRef :: string
  nsd_SubscriberRef :: string
  nsd_SubscriptionIdentifier :: string
  nsd_ResponseTimestamp :: gotime
  nsd_Status :: bool
  nsd_ErrorType :: string
  nsd_ErrorNumber :: int
  nsd_ErrorText :: string
  nsd_MonitoredStopVisits :: "SIRIMonitoredStopVisit list"
  nsd_CancelledStopVisits :: "SIRICancelledStopVisit list"

record SIRINotifyStopMonitoring =
  nsm_Address :: string
  nsm_ProducerRef :: string
  nsm_RequestMessageRef :: string
  nsm_ResponseMessageIdentifier :: string
  nsm_ResponseTimestamp :: gotime
  nsm_Deliveries :: "SIRINotifyStopMonitoringDelivery list"

definition new_response_identifier :: "PartnerSettings \<times> uuid_gen \<Rightarrow> string \<times> PartnerSettings \<times> uuid_gen" where
  "new_response_identifier sg =
     (let (generator, settings) = PartnerSettings_IdentifierGenerator RESPONSE_MESSAGE_IDENTIFIER (fst sg);
          (i, g) = IdentifierGenerator_NewMessageIdentifier generator (snd sg)
      in (i, settings, g))"

definition new_notification ::
  "broadcast_env \<Rightarrow> Subscription \<Rightarrow> PartnerSettings \<times> uuid_gen \<Rightarrow> SIRINotifyStopMonitoring \<times> PartnerSettings \<times> uuid_gen" where
  "new_notification be sub sg =
     (let (i, sg1) = new_response_identifier sg
      in (\<lparr>nsm_Address = PartnerSettings_Address (fst sg), nsm_ProducerRef = PartnerSettings_ProducerRef (fst sg),
           nsm_RequestMessageRef = Subscription_SubscriptionOption sub ''MessageIdentifier'',
           nsm_ResponseMessageIdentifier = i, nsm_ResponseTimestamp = be_now be, nsm_Deliveries = []\<rparr>, sg1))"

definition new_delivery :: "broadcast_env \<Rightarrow> PartnerSettings \<Rightarrow> Subscription \<Rightarrow> string \<Rightarrow> SIRINotifyStopMonitoringDelivery" where
  "new_delivery be settings sub monitoringRef =
     \<lparr>nsd_MonitoringRef = monitoringRef, nsd_RequestMessageRef = Subscription_SubscriptionOption sub ''MessageIdentifier'',
      nsd_SubscriberRef = PartnerSettings_Setting settings LOCAL_CREDENTIAL,
      nsd_SubscriptionIdentifier = sub_externalId sub, nsd_ResponseTimestamp = be_now be, nsd_Status = True,
      nsd_ErrorType = '''', nsd_ErrorNumber = 0, nsd_ErrorText = '''', nsd_MonitoredStopVisits = [],
      nsd_CancelledStopVisits = []\<rparr>"

text \<open>The lost partners: one notification for each, none for a subscription that is gone.\<close>

definition not_monitored_notification ::
  "broadcast_env \<Rightarrow> Subscription \<Rightarrow> string \<Rightarrow> PartnerSettings \<times> uuid_gen \<Rightarrow> SIRINotifyStopMonitoring \<times> PartnerSettings \<times> uuid_gen" where
  "not_monitored_notification be sub producer sg =
     (let (notification, sg1) = new_notification be sub sg
      in (notification\<lparr>nsm_Deliveries := [(new_delivery be (fst sg1) sub '''')\<lparr>nsd_Status := False,
             nsd_ErrorType := ''OtherError'', nsd_ErrorNumber := 1,
             nsd_ErrorText := ''Erreur [PRODUCER_UNAVAILABLE] : '' @ producer @ '' indisponible''\<rparr>]\<rparr>, sg1))"

type_synonym sm_broadcast_state =
  "SIRINotifyStopMonitoring list \<times> (PartnerSettings \<times> uuid_gen) \<times> MemorySubscriptions \<times> SIRIStopMonitoringSubscriptionBroadcaster"

definition SMBroadcaster_prepareNotMonitored :: "broadcast_env \<Rightarrow> sm_broadcast_state \<Rightarrow> sm_broadcast_state" where
  "SMBroadcaster_prepareNotMonitored be st =
     (case st of (sent, sg, subs, connector) \<Rightarrow>
        (let (sent1, sg1) = fold (\<lambda>(subId, producers) acc.
               (case mget subs subId of
                  None \<Rightarrow> acc
                | Some sub \<Rightarrow> fold (\<lambda>producer (sent, sg).
                    (let (n, sg1) = not_monitored_notification be sub producer sg in (sent @ [n], sg1)))
                    (mkeys producers) acc))
             (smsb_notMonitored connector) (sent, sg)
         in (sent1, sg1, subs, connector\<lparr>smsb_notMonitored := []\<rparr>)))"

fun first_resource :: "Subscription \<Rightarrow> ObjectID list \<Rightarrow> (ObjectID \<times> SubscribedResource) option" where
  "first_resource sub [] = None"
| "first_resource sub (obj # objs) =
     (case Subscription_Resource sub obj of Some r \<Rightarrow> Some (obj, r) | None \<Rightarrow> first_resource sub objs)"

text \<open>The first of the stop area and those above it that the subscription has a resource for.\<close>

definition SMBroadcaster_findResource ::
  "Partner \<Rightarrow> MemoryModel \<Rightarrow> StopAreaId \<Rightarrow> Subscription \<Rightarrow> (ObjectID \<times> SubscribedResource) option option" where
  "SMBroadcaster_findResource partner model stopAreaId sub =
     map_option (first_resource sub) (read_ascendants model stopAreaId (remote_kind partner))"

text \<open>What was built of a visit: nothing, a visit that is over, or one that is not.\<close>

definition SMBroadcaster_handledStopVisitAppend ::
  "broadcast_env \<Rightarrow> BroadcastStopMonitoringBuilder \<Rightarrow> MemoryModel \<Rightarrow> StopVisit \<Rightarrow> SIRINotifyStopMonitoringDelivery \<Rightarrow> uuid_gen \<Rightarrow>
   (SIRINotifyStopMonitoringDelivery option \<times> uuid_gen) option" where
  "SMBroadcaster_handledStopVisitAppend be builder model stopVisit delivery g =
     (if sv_ArrivalStatus stopVisit = STOP_VISIT_ARRIVAL_CANCELLED \<or>
         sv_DepartureStatus stopVisit = STOP_VISIT_DEPARTURE_CANCELLED \<or>
         sv_DepartureStatus stopVisit = STOP_VISIT_DEPARTURE_DEPARTED
      then (let (built, g1) = BroadcastStopMonitoringBuilder_BuildCancelledStopVisit be builder model stopVisit g
            in Some (map_option (\<lambda>c. delivery\<lparr>nsd_CancelledStopVisits := nsd_CancelledStopVisits delivery @ [c]\<rparr>) built, g1))
      else do {
        (built, g1) \<leftarrow> BroadcastStopMonitoringBuilder_BuildMonitoredStopVisit be builder model stopVisit g;
        Some (map_option (\<lambda>m. delivery\<lparr>nsd_MonitoredStopVisits := nsd_MonitoredStopVisits delivery @ [m]\<rparr>) built, g1) })"

type_synonym sm_delivery_state =
  "StopVisitId list \<times> (string, SIRINotifyStopMonitoringDelivery) gomap \<times> MemorySubscriptions \<times> uuid_gen"

text \<open>One visit of the list of a subscription: those handled already are passed over, and the state that is kept of
  a visit is brought up to date when it has been put into a delivery. A delivery is made for it in any case.\<close>

definition notify_visit ::
  "broadcast_env \<Rightarrow> Partner \<Rightarrow> MemoryModel \<Rightarrow> BroadcastStopMonitoringBuilder \<Rightarrow> SubscriptionId \<Rightarrow> StopVisitId \<Rightarrow>
   sm_delivery_state \<Rightarrow> sm_delivery_state option" where
  "notify_visit be partner model builder i stopVisitId st =
     (case st of (handled, deliveries, subs, g) \<Rightarrow>
        if stopVisitId \<in> set handled then Some st
        else (case (read_visit model stopVisitId, mget subs i) of
                (Some stopVisit, Some sub) \<Rightarrow> do {
                  found \<leftarrow> SMBroadcaster_findResource partner model (sv_StopAreaId stopVisit) sub;
                  (case found of
                     None \<Rightarrow> Some st
                   | Some (obj, resource) \<Rightarrow>
                       (let monitoringRef = oid_value obj;
                            delivery = mget_or (new_delivery be (prt_settings partner) sub monitoringRef) deliveries monitoringRef
                        in do {
                          (appended, g1) \<leftarrow> SMBroadcaster_handledStopVisitAppend be (builder\<lparr>bsm_MonitoringRef := monitoringRef\<rparr>)
                            model stopVisit delivery g;
                          Some (case appended of
                            None \<Rightarrow> (handled, mput monitoringRef delivery deliveries, subs, g1)
                          | Some delivery1 \<Rightarrow> (handled @ [stopVisitId], mput monitoringRef delivery1 deliveries,
                              (case SubscribedResource_LastState resource stopVisitId of
                                 Some (StopMonitoringState l) \<Rightarrow> set_last_state i obj stopVisitId
                                   (StopMonitoringState (stopMonitoringLastChange_UpdateState stopVisit l)) subs
                               | _ \<Rightarrow> subs), g1)) })) }
              | _ \<Rightarrow> Some st))"

definition notify_subscription ::
  "broadcast_env \<Rightarrow> Partner \<Rightarrow> MemoryModel \<Rightarrow> SubscriptionId \<times> StopVisitId list \<Rightarrow>
   SIRINotifyStopMonitoring list \<times> (PartnerSettings \<times> uuid_gen) \<times> MemorySubscriptions \<Rightarrow>
   (SIRINotifyStopMonitoring list \<times> (PartnerSettings \<times> uuid_gen) \<times> MemorySubscriptions) option" where
  "notify_subscription be partner model entry st =
     (case (entry, st) of ((i, stopVisits), (sent, (settings, g), subs)) \<Rightarrow>
        (case mget subs i of
           None \<Rightarrow> Some st
         | Some sub \<Rightarrow>
             (let (builder, settings1) = NewBroadcastStopMonitoringBuilder settings SIRI_STOP_MONITORING_SUBSCRIPTION_BROADCASTER;
                  (notification, settings2, g2) = new_notification be sub (settings1, g)
              in do {
                (_, deliveries, subs1, g3) \<leftarrow> fold (\<lambda>v acc. Option.bind acc (notify_visit be partner model
                    (builder\<lparr>bsm_StopVisitTypes := Subscription_SubscriptionOption sub ''StopVisitTypes''\<rparr>) i v))
                  stopVisits (Some ([], [], subs, g2));
                let full = filter (\<lambda>d. length (nsd_MonitoredStopVisits d) \<noteq> 0 \<or> length (nsd_CancelledStopVisits d) \<noteq> 0)
                      (mvals deliveries);
                Some (if length full \<noteq> 0 then sent @ [notification\<lparr>nsm_Deliveries := full\<rparr>] else sent,
                  (settings2, g3), subs1) })))"

definition SMBroadcaster_prepareSIRIStopMonitoringNotify ::
  "broadcast_env \<Rightarrow> Partner \<Rightarrow> MemoryModel \<Rightarrow> sm_broadcast_state \<Rightarrow> sm_broadcast_state option" where
  "SMBroadcaster_prepareSIRIStopMonitoringNotify be partner model st =
     (case st of (sent, sg, subs, connector) \<Rightarrow> do {
        (sent1, sg1, subs1) \<leftarrow> fold (\<lambda>entry acc. Option.bind acc (notify_subscription be partner model entry))
          (smsb_toBroadcast connector) (Some (sent, sg, subs));
        Some (sent1, sg1, subs1, connector\<lparr>smsb_toBroadcast := []\<rparr>) })"

definition StopMonitoringBroadcaster_visit ::
  "broadcast_env \<Rightarrow> Partner \<Rightarrow> MemoryModel \<Rightarrow> sm_broadcast_state \<Rightarrow> sm_broadcast_state option" where
  "StopMonitoringBroadcaster_visit be partner model st =
     map_option (SMBroadcaster_prepareNotMonitored be) (SMBroadcaster_prepareSIRIStopMonitoringNotify be partner model st)"

section \<open>The dispatcher of requests about subscriptions\<close>

record SIRITerminationResponseStatus =
  trs_SubscriberRef :: string
  trs_SubscriptionRef :: string
  trs_ResponseTimestamp :: gotime
  trs_Status :: bool
  trs_ErrorType :: string
  trs_ErrorNumber :: string
  trs_ErrorText :: string

record SIRIDeleteSubscriptionResponse =
  dsr_ResponderRef :: string
  dsr_RequestMessageRef :: string
  dsr_ResponseTimestamp :: gotime
  dsr_ResponseStatus :: "SIRITerminationResponseStatus list"

definition SIRISubscriptionRequestDispatcher_CancelSubscription ::
  "gotime \<Rightarrow> 'n gokogiri \<Rightarrow> 'n XMLStructure \<Rightarrow> Partner \<Rightarrow> SIRIDeleteSubscriptionResponse \<times> Partner" where
  "SIRISubscriptionRequestDispatcher_CancelSubscription now gk r partner =
     (let resp = \<lparr>dsr_ResponderRef = PartnerSettings_ProducerRef (prt_settings partner),
            dsr_RequestMessageRef = read_of LightRequestXMLStructure_MessageIdentifier gk r,
            dsr_ResponseTimestamp = now, dsr_ResponseStatus = []\<rparr>;
          status = (\<lambda>ref ok. \<lparr>trs_SubscriberRef = read_of RequestXMLStructure_RequestorRef gk r, trs_SubscriptionRef = ref,
            trs_ResponseTimestamp = now, trs_Status = ok, trs_ErrorType = '''', trs_ErrorNumber = '''', trs_ErrorText = ''''\<rparr>);
          subs = prt_subscriptions partner;
          ref = read_of XMLDeleteSubscriptionRequest_SubscriptionRef gk r
      in if read_of XMLDeleteSubscriptionRequest_CancelAll gk r
         then (resp\<lparr>dsr_ResponseStatus :=
                 map (\<lambda>sub. status (sub_externalId sub) True) (MemorySubscriptions_FindBroadcastSubscriptions subs)\<rparr>,
               partner\<lparr>prt_subscriptions := MemorySubscriptions_CancelBroadcastSubscriptions subs\<rparr>)
         else (case MemorySubscriptions_FindByExternalId subs ref of
                 None \<Rightarrow> (resp\<lparr>dsr_ResponseStatus := [(status ref False)\<lparr>trs_ErrorType := ''InvalidDataReferencesError'',
                            trs_ErrorText := ''Subscription not found: '' @ quoted ref\<rparr>]\<rparr>, partner)
               | Some sub \<Rightarrow> (resp\<lparr>dsr_ResponseStatus := [status ref True]\<rparr>,
                            partner\<lparr>prt_subscriptions := MemorySubscriptions_Delete sub subs\<rparr>)))"

definition SIRISubscriptionRequestDispatcher_HandleSubscriptionTerminatedNotification ::
  "'n gokogiri \<Rightarrow> 'n XMLStructure \<Rightarrow> Partner \<Rightarrow> Partner" where
  "SIRISubscriptionRequestDispatcher_HandleSubscriptionTerminatedNotification gk response partner =
     partner\<lparr>prt_subscriptions := MemorySubscriptions_DeleteById
       (read_of LightSubscriptionDeliveryXMLStructure_SubscriptionRef gk response) (prt_subscriptions partner)\<rparr>"

definition SIRISubscriptionRequestDispatcher_HandleNotifySubscriptionTerminated ::
  "'n gokogiri \<Rightarrow> 'n XMLStructure \<Rightarrow> Partner \<Rightarrow> Partner" where
  "SIRISubscriptionRequestDispatcher_HandleNotifySubscriptionTerminated gk r partner =
     partner\<lparr>prt_subscriptions := MemorySubscriptions_DeleteById
       (read_of XMLNotifySubscriptionTerminated_SubscriptionRef gk r) (prt_subscriptions partner)\<rparr>"

end
