(* ===== verification/MessageBroadcasts.thy ===== *)
theory MessageBroadcasts
  imports Broadcasters
begin

text \<open>
  Broadcasting messages: what is sent of a situation (\<^verbatim>\<open>core/broadcast_general_message_builder.go\<close>, with the
  structures of \<^verbatim>\<open>siri/general_message_response.go\<close> and \<^verbatim>\<open>siri/notify_general_message.go\<close>), the connector
  (\<^verbatim>\<open>core/siri_general_message_subscription_broadcaster.go\<close>) and the routine that builds the notifications
  (\<^verbatim>\<open>core/general_message_broadcaster.go\<close>). The conventions are those of \<open>Broadcasters\<close>.
\<close>

section \<open>What is sent\<close>

record SIRIReference =
  sref_Kind :: string
  sref_Id :: string

record SIRILineSection =
  slns_FirstStop :: string
  slns_LastStop :: string
  slns_LineRef :: string

record SIRIMessage =
  smsg_Content :: string
  smsg_Type :: string
  smsg_NumberOfLines :: int
  smsg_NumberOfCharPerLine :: int

record SIRIGeneralMessage =
  sgm_RecordedAtTime :: stamp
  sgm_ValidUntilTime :: gotime
  sgm_ItemIdentifier :: string
  sgm_InfoMessageIdentifier :: string
  sgm_FormatRef :: string
  sgm_InfoMessageVersion :: int
  sgm_InfoChannelRef :: string
  sgm_References :: "SIRIReference list"
  sgm_LineSections :: "SIRILineSection list"
  sgm_Messages :: "SIRIMessage list"

record SIRINotifyGeneralMessage =
  ngm_Address :: string
  ngm_ProducerRef :: string
  ngm_RequestMessageRef :: string
  ngm_ResponseMessageIdentifier :: string
  ngm_SubscriberRef :: string
  ngm_SubscriptionIdentifier :: string
  ngm_ResponseTimestamp :: gotime
  ngm_Status :: bool
  ngm_ErrorType :: string
  ngm_ErrorNumber :: int
  ngm_ErrorText :: string
  ngm_GeneralMessages :: "SIRIGeneralMessage list"

section \<open>The builder\<close>

record BroadcastGeneralMessageBuilder =
  bgm_slug :: string
  bgm_referenceGenerator :: IdentifierGenerator
  bgm_remoteObjectidKind :: string
  bgm_lineRef :: "(string, unit) gomap"
  bgm_stopPointRef :: "(string, unit) gomap"
  bgm_InfoChannelRef :: "string list"

definition NewBroadcastGeneralMessageBuilder ::
  "string \<Rightarrow> PartnerSettings \<Rightarrow> string \<Rightarrow> BroadcastGeneralMessageBuilder \<times> PartnerSettings" where
  "NewBroadcastGeneralMessageBuilder slug settings connector =
     (let (referenceGenerator, settings1) = PartnerSettings_IdentifierGenerator REFERENCE_IDENTIFIER settings
      in (\<lparr>bgm_slug = slug, bgm_referenceGenerator = referenceGenerator,
           bgm_remoteObjectidKind = PartnerSettings_RemoteObjectIDKind settings1 connector,
           bgm_lineRef = [], bgm_stopPointRef = [], bgm_InfoChannelRef = []\<rparr>, settings1))"

definition put_refs :: "string list \<Rightarrow> (string, unit) gomap \<Rightarrow> (string, unit) gomap" where
  "put_refs refs m = (if refs = [] \<or> refs = [''''] then m else fold (\<lambda>r. mput r ()) refs m)"

definition BroadcastGeneralMessageBuilder_SetLineRef ::
  "string list \<Rightarrow> BroadcastGeneralMessageBuilder \<Rightarrow> BroadcastGeneralMessageBuilder" where
  "BroadcastGeneralMessageBuilder_SetLineRef lineRef builder = builder\<lparr>bgm_lineRef := put_refs lineRef (bgm_lineRef builder)\<rparr>"

definition BroadcastGeneralMessageBuilder_SetStopPointRef ::
  "string list \<Rightarrow> BroadcastGeneralMessageBuilder \<Rightarrow> BroadcastGeneralMessageBuilder" where
  "BroadcastGeneralMessageBuilder_SetStopPointRef stopPointRef builder =
     builder\<lparr>bgm_stopPointRef := put_refs stopPointRef (bgm_stopPointRef builder)\<rparr>"

definition BroadcastGeneralMessageBuilder_checkInfoChannelRef :: "string list \<Rightarrow> string \<Rightarrow> bool" where
  "BroadcastGeneralMessageBuilder_checkInfoChannelRef requestChannels channel \<longleftrightarrow>
     requestChannels = [''''] \<or> requestChannels = [] \<or> channel \<in> set requestChannels"

definition BroadcastGeneralMessageBuilder_resolveLineRef ::
  "BroadcastGeneralMessageBuilder \<Rightarrow> MemoryModel \<Rightarrow> Reference \<Rightarrow> string option option" where
  "BroadcastGeneralMessageBuilder_resolveLineRef builder model reference = do {
     x \<leftarrow> ref_ObjectId reference;
     line \<leftarrow> read_line_by_id model x;
     Some (do { l \<leftarrow> line;
                lineObjectId \<leftarrow> Consumer_ObjectID (line_objectids l) (bgm_remoteObjectidKind builder);
                Some (oid_value lineObjectId) }) }"

definition BroadcastGeneralMessageBuilder_resolveStopAreaRef ::
  "BroadcastGeneralMessageBuilder \<Rightarrow> MemoryModel \<Rightarrow> Reference \<Rightarrow> string option option" where
  "BroadcastGeneralMessageBuilder_resolveStopAreaRef builder model reference = do {
     x \<leftarrow> ref_ObjectId reference;
     stopArea \<leftarrow> read_area_by_id model x;
     (case stopArea of
        None \<Rightarrow> Some None
      | Some sa \<Rightarrow> map_option (map_option oid_value)
          (StopArea_ReferentOrSelfObjectId (mm_stopAreas model) sa (bgm_remoteObjectidKind builder))) }"

text \<open>The kind of an identifier that is made is the type without its last three letters; a type of fewer is a panic.\<close>

definition BroadcastGeneralMessageBuilder_resolveReference ::
  "broadcast_env \<Rightarrow> BroadcastGeneralMessageBuilder \<Rightarrow> MemoryModel \<Rightarrow> Reference \<Rightarrow> uuid_gen \<Rightarrow> (string option \<times> uuid_gen) option" where
  "BroadcastGeneralMessageBuilder_resolveReference be builder model reference g =
     (let kind = ref_Type reference
      in if kind = ''LineRef''
         then map_option (\<lambda>r. (r, g)) (BroadcastGeneralMessageBuilder_resolveLineRef builder model reference)
         else if kind \<in> {''StopPointRef'', ''DestinationRef'', ''FirstStop'', ''LastStop''}
         then map_option (\<lambda>r. (r, g)) (BroadcastGeneralMessageBuilder_resolveStopAreaRef builder model reference)
         else if length kind < 3 then None
         else do {
           sha1 \<leftarrow> Reference_GetSha1 (be_sha1_hex be) reference;
           let (i, g1) = IdentifierGenerator_NewIdentifier \<lparr>ia_Type = take (length kind - 3) kind, ia_Id = sha1\<rparr>
                 (bgm_referenceGenerator builder) g;
           Some (Some i, g1) })"

text \<open>A section with a reference that cannot be resolved is left out.\<close>

fun resolve_section ::
  "broadcast_env \<Rightarrow> BroadcastGeneralMessageBuilder \<Rightarrow> MemoryModel \<Rightarrow> (string \<times> Reference) list \<Rightarrow> uuid_gen \<Rightarrow>
   ((string, string) gomap option \<times> uuid_gen) option" where
  "resolve_section be builder model [] g = Some (Some [], g)"
| "resolve_section be builder model ((kind, reference) # refs) g = do {
     (ref, g1) \<leftarrow> BroadcastGeneralMessageBuilder_resolveReference be builder model reference g;
     (case ref of
        None \<Rightarrow> Some (None, g1)
      | Some r \<Rightarrow> do {
          (rest, g2) \<leftarrow> resolve_section be builder model refs g1;
          Some (map_option (mput kind r) rest, g2) }) }"

definition BroadcastGeneralMessageBuilder_handleLineSection ::
  "broadcast_env \<Rightarrow> BroadcastGeneralMessageBuilder \<Rightarrow> MemoryModel \<Rightarrow> References \<Rightarrow> uuid_gen \<Rightarrow>
   (SIRILineSection option \<times> uuid_gen) option" where
  "BroadcastGeneralMessageBuilder_handleLineSection be builder model lineSection g = do {
     (lineSectionMap, g1) \<leftarrow> resolve_section be builder model lineSection g;
     Some (map_option (\<lambda>m. \<lparr>slns_FirstStop = mget_or '''' m ''FirstStop'', slns_LastStop = mget_or '''' m ''LastStop'',
       slns_LineRef = mget_or '''' m ''LineRef''\<rparr>) lineSectionMap, g1) }"

definition BroadcastGeneralMessageBuilder_checkFilter :: "BroadcastGeneralMessageBuilder \<Rightarrow> SIRIReference list \<Rightarrow> bool" where
  "BroadcastGeneralMessageBuilder_checkFilter builder references =
     (if length (bgm_lineRef builder) = 0 \<and> length (bgm_stopPointRef builder) = 0 then True
      else list_ex (\<lambda>reference.
        sref_Kind reference = ''LineRef'' \<and> mhas (bgm_lineRef builder) (sref_Id reference) \<or>
        sref_Kind reference = ''StopPointRef'' \<and> mhas (bgm_stopPointRef builder) (sref_Id reference)) references)"

definition add_reference ::
  "broadcast_env \<Rightarrow> BroadcastGeneralMessageBuilder \<Rightarrow> MemoryModel \<Rightarrow> Reference \<Rightarrow> SIRIReference list \<times> uuid_gen \<Rightarrow>
   (SIRIReference list \<times> uuid_gen) option" where
  "add_reference be builder model reference st =
     (case st of (refs, g) \<Rightarrow> do {
        (i, g1) \<leftarrow> BroadcastGeneralMessageBuilder_resolveReference be builder model reference g;
        Some (case i of None \<Rightarrow> refs | Some x \<Rightarrow> refs @ [\<lparr>sref_Kind = ref_Type reference, sref_Id = x\<rparr>], g1) })"

definition add_section ::
  "broadcast_env \<Rightarrow> BroadcastGeneralMessageBuilder \<Rightarrow> MemoryModel \<Rightarrow> References \<Rightarrow> SIRILineSection list \<times> uuid_gen \<Rightarrow>
   (SIRILineSection list \<times> uuid_gen) option" where
  "add_section be builder model lineSection st =
     (case st of (sections, g) \<Rightarrow> do {
        (section1, g1) \<leftarrow> BroadcastGeneralMessageBuilder_handleLineSection be builder model lineSection g;
        Some (case section1 of None \<Rightarrow> sections | Some x \<Rightarrow> sections @ [x], g1) })"

text \<open>The identifier of the message: the one of the partner's kind, or one made from the default identifier.\<close>

definition message_identifier ::
  "BroadcastGeneralMessageBuilder \<Rightarrow> Situation \<Rightarrow> uuid_gen \<Rightarrow> string option \<times> uuid_gen" where
  "message_identifier builder situation g =
     (case Consumer_ObjectID (st_objectids situation) (bgm_remoteObjectidKind builder) of
        Some x \<Rightarrow> (Some (oid_value x), g)
      | None \<Rightarrow>
          (case Consumer_ObjectID (st_objectids situation) ''_default'' of
             None \<Rightarrow> (None, g)
           | Some x \<Rightarrow> (let (i, g1) = IdentifierGenerator_NewIdentifier \<lparr>ia_Type = ''InfoMessage'', ia_Id = oid_value x\<rparr>
                             (bgm_referenceGenerator builder) g in (Some i, g1))))"

definition BroadcastGeneralMessageBuilder_BuildGeneralMessage ::
  "broadcast_env \<Rightarrow> BroadcastGeneralMessageBuilder \<Rightarrow> MemoryModel \<Rightarrow> Situation \<Rightarrow> uuid_gen \<Rightarrow>
   (SIRIGeneralMessage option \<times> uuid_gen) option" where
  "BroadcastGeneralMessageBuilder_BuildGeneralMessage be builder model situation g =
     (if st_Origin situation = bgm_slug builder \<or> st_Channel situation = ''Commercial'' \<or> st_ValidUntil situation < be_now be
      then Some (None, g)
      else if \<not> BroadcastGeneralMessageBuilder_checkInfoChannelRef (bgm_InfoChannelRef builder) (st_Channel situation)
      then Some (None, g)
      else (case message_identifier builder situation g of
              (None, g1) \<Rightarrow> Some (None, g1)
            | (Some infoMessageIdentifier, g1) \<Rightarrow>
                (let (u, g2) = NewUUID g1;
                     (item, g3) = IdentifierGenerator_NewIdentifier \<lparr>ia_Type = ''Item'', ia_Id = u\<rparr> (bgm_referenceGenerator builder) g2
                 in do {
                   (refs, g4) \<leftarrow> fold (\<lambda>r acc. Option.bind acc (add_reference be builder model r))
                     (st_References situation) (Some ([], g3));
                   if \<not> BroadcastGeneralMessageBuilder_checkFilter builder refs then Some (None, g4)
                   else do {
                     (sections, g5) \<leftarrow> fold (\<lambda>r acc. Option.bind acc (add_section be builder model r))
                       (st_LineSections situation) (Some ([], g4));
                     if length refs = 0 \<and> length sections = 0 then Some (None, g5)
                     else Some (Some \<lparr>sgm_RecordedAtTime = st_RecordedAt situation, sgm_ValidUntilTime = st_ValidUntil situation,
                       sgm_ItemIdentifier = item, sgm_InfoMessageIdentifier = infoMessageIdentifier, sgm_FormatRef = ''STIF-IDF'',
                       sgm_InfoMessageVersion = st_Version situation, sgm_InfoChannelRef = st_Channel situation,
                       sgm_References = refs, sgm_LineSections = sections,
                       sgm_Messages = map (\<lambda>m. \<lparr>smsg_Content = msg_Content m, smsg_Type = msg_Type m,
                         smsg_NumberOfLines = msg_NumberOfLines m, smsg_NumberOfCharPerLine = msg_NumberOfCharPerLine m\<rparr>)
                         (st_Messages situation)\<rparr>, g5) } })))"

section \<open>The connector\<close>

text \<open>Its state is what is to be broadcast; a subscription has one resource, for all situations.\<close>

record SIRIGeneralMessageSubscriptionBroadcaster =
  gmsb_toBroadcast :: "(SubscriptionId, SituationId list) gomap"

definition newSIRIGeneralMessageSubscriptionBroadcaster :: SIRIGeneralMessageSubscriptionBroadcaster where
  "newSIRIGeneralMessageSubscriptionBroadcaster = \<lparr>gmsb_toBroadcast = []\<rparr>"

definition GeneralMessageBroadcast :: string where "GeneralMessageBroadcast = ''GeneralMessageBroadcast''"

definition situation_resource :: ObjectID where
  "situation_resource = NewObjectID ''SituationResource'' ''Situation''"

type_synonym gm_state = "MemorySubscriptions \<times> SIRIGeneralMessageSubscriptionBroadcaster"

definition SIRIGeneralMessageSubscriptionBroadcaster_addSituation ::
  "SubscriptionId \<Rightarrow> SituationId \<Rightarrow> SIRIGeneralMessageSubscriptionBroadcaster \<Rightarrow> SIRIGeneralMessageSubscriptionBroadcaster" where
  "SIRIGeneralMessageSubscriptionBroadcaster_addSituation subId svId connector =
     connector\<lparr>gmsb_toBroadcast := mput subId (mget_or [] (gmsb_toBroadcast connector) subId @ [svId]) (gmsb_toBroadcast connector)\<rparr>"

definition message_state :: "Situation \<Rightarrow> lastState" where
  "message_state situation = GeneralMessageState (generalMessageLastChange_UpdateState situation \<lparr>sglc_recordedAt = zero_stamp\<rparr>)"

definition check_situation :: "gotime \<Rightarrow> Situation \<Rightarrow> SubscriptionId \<Rightarrow> gm_state \<Rightarrow> gm_state option" where
  "check_situation now situation i st =
     (case st of (subs, connector) \<Rightarrow>
        (case Option.bind (mget subs i) (\<lambda>sub. Subscription_Resource sub situation_resource) of
           None \<Rightarrow> Some st
         | Some resource \<Rightarrow>
             if sr_SubscribedUntil resource < now then Some st
             else (case SubscribedResource_LastState resource (st_id situation) of
                     None \<Rightarrow> Some (set_last_state i situation_resource (st_id situation) (message_state situation) subs,
                       SIRIGeneralMessageSubscriptionBroadcaster_addSituation i (st_id situation) connector)
                   | Some (GeneralMessageState l) \<Rightarrow>
                       Some (subs, if generalMessageLastChange_Haschanged l situation
                         then SIRIGeneralMessageSubscriptionBroadcaster_addSituation i (st_id situation) connector else connector)
                   | Some _ \<Rightarrow> None)))"

definition SIRIGeneralMessageSubscriptionBroadcaster_checkEvent ::
  "gotime \<Rightarrow> Partner \<Rightarrow> MemoryModel \<Rightarrow> SituationId \<Rightarrow> gm_state \<Rightarrow> gm_state option" where
  "SIRIGeneralMessageSubscriptionBroadcaster_checkEvent now partner model sId st =
     (case TransactionalSituations_Find (tm_situations (NewTransactionalModel model)) (mm_situations model) sId of
        None \<Rightarrow> Some st
      | Some situation \<Rightarrow>
          if st_Origin situation = prt_slug partner then Some st
          else fold (\<lambda>i acc. Option.bind acc (check_situation now situation i))
                 (map sub_id (MemorySubscriptions_FindSubscriptionsByKind (fst st) GeneralMessageBroadcast)) (Some st))"

definition SIRIGeneralMessageSubscriptionBroadcaster_HandleGeneralMessageBroadcastEvent ::
  "gotime \<Rightarrow> Partner \<Rightarrow> MemoryModel \<Rightarrow> GeneralMessageBroadcastEvent \<Rightarrow> gm_state \<Rightarrow> gm_state option" where
  "SIRIGeneralMessageSubscriptionBroadcaster_HandleGeneralMessageBroadcastEvent now partner model event =
     SIRIGeneralMessageSubscriptionBroadcaster_checkEvent now partner model (gme_SituationId event)"

definition SIRIGeneralMessageSubscriptionBroadcaster_addSituations ::
  "gotime \<Rightarrow> MemoryModel \<Rightarrow> SubscriptionId \<Rightarrow> gm_state \<Rightarrow> gm_state" where
  "SIRIGeneralMessageSubscriptionBroadcaster_addSituations now model i st =
     fold (\<lambda>situation (subs, connector).
        if st_ValidUntil situation < now then (subs, connector)
        else (set_last_state i situation_resource (st_id situation) (message_state situation) subs,
              SIRIGeneralMessageSubscriptionBroadcaster_addSituation i (st_id situation) connector))
       (MemorySituations_FindAll (mm_situations model)) st"

text \<open>An entry of a request; a subscription that has its resource keeps it as it is.\<close>

definition gm_options :: "'n gokogiri \<Rightarrow> 'n XMLStructure \<Rightarrow> Subscription \<Rightarrow> Subscription" where
  "gm_options gk gm sub =
     Subscription_SetSubscriptionOption ''MessageIdentifier'' (read_of LightRequestXMLStructure_MessageIdentifier gk gm)
       (Subscription_SetSubscriptionOption ''StopPointRef'' (join_with (CHR '','') (read_of XMLGeneralMessageRequest_StopPointRef gk gm))
         (Subscription_SetSubscriptionOption ''LineRef'' (join_with (CHR '','') (read_of XMLGeneralMessageRequest_LineRef gk gm))
           (Subscription_SetSubscriptionOption ''InfoChannelRef''
             (join_with (CHR '','') (read_of XMLGeneralMessageRequest_InfoChannelRef gk gm)) sub)))"

definition gm_resource :: "gotime \<Rightarrow> gotime \<Rightarrow> Subscription \<Rightarrow> Subscription" where
  "gm_resource now until sub =
     (if Subscription_Resource sub situation_resource = None
      then add_broadcast_resource now until situation_resource ''Situation'' sub else sub)"

type_synonym gm_request_state = "(PartnerSettings \<times> uuid_gen) \<times> gm_state"

definition handle_gm_entry ::
  "gotime \<Rightarrow> 'n gokogiri \<Rightarrow> MemoryModel \<Rightarrow> 'n XMLStructure \<Rightarrow> gm_request_state \<Rightarrow> SIRIResponseStatus \<times> gm_request_state" where
  "handle_gm_entry now gk model gm st =
     (case st of (sg, subs, connector) \<Rightarrow>
        (let until = read_of XMLGeneralMessageSubscriptionRequestEntry_InitialTerminationTime gk gm;
             ref = read_of XMLGeneralMessageSubscriptionRequestEntry_SubscriptionIdentifier gk gm;
             rs = \<lparr>rst_RequestMessageRef = read_of LightRequestXMLStructure_MessageIdentifier gk gm,
                   rst_SubscriberRef = read_of XMLGeneralMessageSubscriptionRequestEntry_SubscriberRef gk gm,
                   rst_SubscriptionRef = ref, rst_Status = True, rst_ErrorType = '''', rst_ErrorNumber = 0,
                   rst_ErrorText = '''', rst_ResponseTimestamp = now, rst_ValidUntil = until\<rparr>;
             (i, sg1, subs1) = subscription_for GeneralMessageBroadcast ref sg subs;
             subs2 = on_subscription i (\<lambda>sub. gm_resource now until (gm_options gk gm sub)) subs1
         in (rs, sg1, SIRIGeneralMessageSubscriptionBroadcaster_addSituations now model i (subs2, connector))))"

definition SIRIGeneralMessageSubscriptionBroadcaster_HandleSubscriptionRequest ::
  "gotime \<Rightarrow> 'n gokogiri \<Rightarrow> MemoryModel \<Rightarrow> 'n XMLStructure \<Rightarrow> gm_request_state \<Rightarrow> SIRIResponseStatus list \<times> gm_request_state" where
  "SIRIGeneralMessageSubscriptionBroadcaster_HandleSubscriptionRequest now gk model request st =
     fold (\<lambda>gm (resps, st1). (let (rs, st2) = handle_gm_entry now gk model gm st1 in (resps @ [rs], st2)))
       (XMLSubscriptionRequest_XMLSubscriptionGMEntries gk request) ([], st)"

section \<open>Notifications\<close>

type_synonym gm_broadcast_state =
  "SIRINotifyGeneralMessage list \<times> (PartnerSettings \<times> uuid_gen) \<times> MemorySubscriptions \<times> SIRIGeneralMessageSubscriptionBroadcaster"

definition gm_builder :: "Subscription \<Rightarrow> BroadcastGeneralMessageBuilder \<Rightarrow> BroadcastGeneralMessageBuilder" where
  "gm_builder sub builder =
     (let lineRef = Subscription_SubscriptionOption sub ''LineRef'';
          stopPointRef = Subscription_SubscriptionOption sub ''StopPointRef'';
          b1 = builder\<lparr>bgm_InfoChannelRef := split_at (CHR '','') (Subscription_SubscriptionOption sub ''InfoChannelRef'')\<rparr>;
          b2 = (if lineRef \<noteq> '''' then BroadcastGeneralMessageBuilder_SetLineRef (split_at (CHR '','') lineRef) b1 else b1)
      in if stopPointRef \<noteq> '''' then BroadcastGeneralMessageBuilder_SetStopPointRef (split_at (CHR '','') stopPointRef) b2 else b2)"

definition add_message ::
  "broadcast_env \<Rightarrow> BroadcastGeneralMessageBuilder \<Rightarrow> MemoryModel \<Rightarrow> SituationId \<Rightarrow> SIRIGeneralMessage list \<times> uuid_gen \<Rightarrow>
   (SIRIGeneralMessage list \<times> uuid_gen) option" where
  "add_message be builder model situationId st =
     (case st of (messages, g) \<Rightarrow>
        (case TransactionalSituations_Find (tm_situations (NewTransactionalModel model)) (mm_situations model) situationId of
           None \<Rightarrow> Some st
         | Some situation \<Rightarrow> do {
             (built, g1) \<leftarrow> BroadcastGeneralMessageBuilder_BuildGeneralMessage be builder model situation g;
             Some (case built of None \<Rightarrow> messages | Some m \<Rightarrow> messages @ [m], g1) }))"

definition notify_situations ::
  "broadcast_env \<Rightarrow> Partner \<Rightarrow> MemoryModel \<Rightarrow> MemorySubscriptions \<Rightarrow> SubscriptionId \<times> SituationId list \<Rightarrow>
   SIRINotifyGeneralMessage list \<times> PartnerSettings \<times> uuid_gen \<Rightarrow>
   (SIRINotifyGeneralMessage list \<times> PartnerSettings \<times> uuid_gen) option" where
  "notify_situations be partner model subs entry st =
     (case (entry, st) of ((i, situationIds), (sent, settings, g)) \<Rightarrow>
        (case mget subs i of
           None \<Rightarrow> Some st
         | Some sub \<Rightarrow>
             (let (rmi, settings1, g1) = new_response_identifier (settings, g);
                  (builder, settings2) = NewBroadcastGeneralMessageBuilder (prt_slug partner) settings1
                    SIRI_GENERAL_MESSAGE_SUBSCRIPTION_BROADCASTER
              in do {
                (messages, g2) \<leftarrow> fold (\<lambda>x acc. Option.bind acc (add_message be (gm_builder sub builder) model x))
                  situationIds (Some ([], g1));
                Some (if length messages \<noteq> 0
                  then sent @ [\<lparr>ngm_Address = PartnerSettings_Address settings, ngm_ProducerRef = PartnerSettings_ProducerRef settings,
                    ngm_RequestMessageRef = Subscription_SubscriptionOption sub ''MessageIdentifier'',
                    ngm_ResponseMessageIdentifier = rmi, ngm_SubscriberRef = PartnerSettings_Setting settings LOCAL_CREDENTIAL,
                    ngm_SubscriptionIdentifier = sub_externalId sub, ngm_ResponseTimestamp = be_now be, ngm_Status = True,
                    ngm_ErrorType = '''', ngm_ErrorNumber = 0, ngm_ErrorText = '''', ngm_GeneralMessages = messages\<rparr>]
                  else sent, settings2, g2) })))"

definition GMBroadcaster_prepareSIRIGeneralMessageNotify ::
  "broadcast_env \<Rightarrow> Partner \<Rightarrow> MemoryModel \<Rightarrow> gm_broadcast_state \<Rightarrow> gm_broadcast_state option" where
  "GMBroadcaster_prepareSIRIGeneralMessageNotify be partner model st =
     (case st of (sent, sg, subs, connector) \<Rightarrow> do {
        (sent1, sg1) \<leftarrow> fold (\<lambda>entry acc. Option.bind acc (notify_situations be partner model subs entry))
          (gmsb_toBroadcast connector) (Some (sent, sg));
        Some (sent1, sg1, subs, connector\<lparr>gmsb_toBroadcast := []\<rparr>) })"

end
