(* ===== verification/EstimatedTimetables.thy ===== *)
theory EstimatedTimetables
  imports Broadcasters
begin

text \<open>
  Broadcasting estimated timetables: the connector (\<^verbatim>\<open>core/siri_estimated_timetable_subscription_broadcaster.go\<close>)
  and the routine that builds the notifications (\<^verbatim>\<open>core/estimated_timetable_broadcaster.go\<close>, with the structures of
  \<^verbatim>\<open>siri/estimated_timetable_response.go\<close> and \<^verbatim>\<open>siri/notify_estimated_timetable_response.go\<close>). The conventions are
  those of \<open>Broadcasters\<close>. The map of lost partners is nil until the first visit of the routine; a nil map can be
  read, but writing to it is a panic.
\<close>

section \<open>What is sent\<close>

record SIRIEstimatedCall =
  sec_ArrivalStatus :: string
  sec_DepartureStatus :: string
  sec_StopPointRef :: string
  sec_StopPointName :: string
  sec_DestinationDisplay :: string
  sec_VehicleAtStop :: bool
  sec_Order :: int
  sec_AimedArrivalTime :: gotime
  sec_ExpectedArrivalTime :: gotime
  sec_AimedDepartureTime :: gotime
  sec_ExpectedDepartureTime :: gotime

record SIRIEstimatedVehicleJourney =
  sej_LineRef :: string
  sej_DatedVehicleJourneyRef :: string
  sej_Attributes :: Attributes
  sej_References :: "(string, string) gomap"
  sej_EstimatedCalls :: "SIRIEstimatedCall list"

record SIRIEstimatedJourneyVersionFrame =
  sjf_RecordedAtTime :: gotime
  sjf_EstimatedVehicleJourneys :: "SIRIEstimatedVehicleJourney list"

record SIRINotifyEstimatedTimeTable =
  net_Address :: string
  net_RequestMessageRef :: string
  net_ProducerRef :: string
  net_ResponseMessageIdentifier :: string
  net_SubscriberRef :: string
  net_SubscriptionIdentifier :: string
  net_ResponseTimestamp :: gotime
  net_Status :: bool
  net_ErrorType :: string
  net_ErrorNumber :: int
  net_ErrorText :: string
  net_EstimatedJourneyVersionFrames :: "SIRIEstimatedJourneyVersionFrame list"

section \<open>The connector\<close>

record SIRIEstimatedTimeTableSubscriptionBroadcaster =
  ettsb_toBroadcast :: "(SubscriptionId, StopVisitId list) gomap"
  ettsb_notMonitored :: "(SubscriptionId, (string, unit) gomap) gomap option"

definition newSIRIEstimatedTimeTableSubscriptionBroadcaster :: SIRIEstimatedTimeTableSubscriptionBroadcaster where
  "newSIRIEstimatedTimeTableSubscriptionBroadcaster = \<lparr>ettsb_toBroadcast = [], ettsb_notMonitored = None\<rparr>"

definition EstimatedTimeTableBroadcast :: string where "EstimatedTimeTableBroadcast = ''EstimatedTimeTableBroadcast''"

definition SIRI_ESTIMATED_TIMETABLE_REQUEST_BROADCASTER :: string where
  "SIRI_ESTIMATED_TIMETABLE_REQUEST_BROADCASTER = ''siri-estimated-timetable-request-broadcaster''"

type_synonym ett_state = "MemorySubscriptions \<times> SIRIEstimatedTimeTableSubscriptionBroadcaster"

definition ett_line_kind :: "Partner \<Rightarrow> string" where
  "ett_line_kind partner = PartnerSettings_RemoteObjectIDKind (prt_settings partner) SIRI_ESTIMATED_TIMETABLE_SUBSCRIPTION_BROADCASTER"

text \<open>The stop areas and operators are named in the kind of another connector, the one that answers requests.\<close>

definition ett_stop_kind :: "Partner \<Rightarrow> string" where
  "ett_stop_kind partner = PartnerSettings_RemoteObjectIDKind (prt_settings partner) SIRI_ESTIMATED_TIMETABLE_REQUEST_BROADCASTER"

definition SIRIEstimatedTimeTableSubscriptionBroadcaster_addStopVisit ::
  "SubscriptionId \<Rightarrow> StopVisitId \<Rightarrow> SIRIEstimatedTimeTableSubscriptionBroadcaster \<Rightarrow> SIRIEstimatedTimeTableSubscriptionBroadcaster" where
  "SIRIEstimatedTimeTableSubscriptionBroadcaster_addStopVisit subId svId connector =
     connector\<lparr>ettsb_toBroadcast := mput subId (mget_or [] (ettsb_toBroadcast connector) subId @ [svId]) (ettsb_toBroadcast connector)\<rparr>"

definition timetable_state :: "StopVisit \<Rightarrow> lastState" where
  "timetable_state sv = EstimatedTimeTableState (estimatedTimeTableLastChange_UpdateState sv
     \<lparr>ettlc_schedules = [], ettlc_departureStatus = '''', ettlc_arrivalStatus = '''', ettlc_vehicleAtStop = False\<rparr>)"

definition check_timetable_subscription ::
  "gotime \<Rightarrow> StopVisit \<Rightarrow> ObjectID \<Rightarrow> SubscriptionId \<Rightarrow> ett_state \<Rightarrow> ett_state option" where
  "check_timetable_subscription now sv lineObj i st =
     (case st of (subs, connector) \<Rightarrow>
        (case Option.bind (mget subs i) (\<lambda>sub. map_option (Pair sub) (Subscription_Resource sub lineObj)) of
           None \<Rightarrow> Some st
         | Some (sub, r) \<Rightarrow>
             if sr_SubscribedUntil r < now then Some st
             else (case SubscribedResource_LastState r (sv_id sv) of
                     None \<Rightarrow> Some (set_last_state i lineObj (sv_id sv) (timetable_state sv) subs,
                       SIRIEstimatedTimeTableSubscriptionBroadcaster_addStopVisit i (sv_id sv) connector)
                   | Some (EstimatedTimeTableState l) \<Rightarrow>
                       Some (subs, if estimatedTimeTableLastChange_Haschanged (sub_subscriptionOptions sub) l sv
                         then SIRIEstimatedTimeTableSubscriptionBroadcaster_addStopVisit i (sv_id sv) connector else connector)
                   | Some _ \<Rightarrow> None)))"

definition SIRIEstimatedTimeTableSubscriptionBroadcaster_checkEvent ::
  "gotime \<Rightarrow> Partner \<Rightarrow> MemoryModel \<Rightarrow> StopVisitId \<Rightarrow> ett_state \<Rightarrow> ett_state option" where
  "SIRIEstimatedTimeTableSubscriptionBroadcaster_checkEvent now partner model svId st =
     (case (do { sv \<leftarrow> MemoryStopVisits_Find (mm_stopVisits model) svId;
                 vj \<leftarrow> MemoryVehicleJourneys_Find (mm_vehicleJourneys model) (sv_VehicleJourneyId sv);
                 line \<leftarrow> MemoryLines_Find (mm_lines model) (vj_LineId vj);
                 lineObj \<leftarrow> Consumer_ObjectID (line_objectids line) (ett_line_kind partner);
                 Some (sv, lineObj) }) of
        None \<Rightarrow> Some st
      | Some (sv, lineObj) \<Rightarrow>
          fold (\<lambda>i acc. Option.bind acc (check_timetable_subscription now sv lineObj i))
            (map sub_id (MemorySubscriptions_FindByResourceId (fst st) (ObjectID_String lineObj) EstimatedTimeTableBroadcast))
            (Some st))"

definition note_lost_timetable ::
  "SubscriptionId \<Rightarrow> string list \<Rightarrow> SIRIEstimatedTimeTableSubscriptionBroadcaster \<Rightarrow>
   SIRIEstimatedTimeTableSubscriptionBroadcaster option" where
  "note_lost_timetable i partners connector = do {
     lost \<leftarrow> ettsb_notMonitored connector;
     Some (connector\<lparr>ettsb_notMonitored := Some (mput i
       (fold (\<lambda>partner nm. mput partner () nm) partners (mget_or [] lost i)) lost)\<rparr>) }"

definition check_timetable_area ::
  "gotime \<Rightarrow> StopArea \<Rightarrow> ObjectID \<Rightarrow> SubscriptionId \<Rightarrow> ett_state \<Rightarrow> ett_state option" where
  "check_timetable_area now stopArea obj i st =
     (case st of (subs, connector) \<Rightarrow>
        (case Option.bind (mget subs i) (\<lambda>sub. Subscription_Resource sub obj) of
           None \<Rightarrow> Some st
         | Some resource \<Rightarrow>
             if sr_SubscribedUntil resource < now then Some st
             else (case SubscribedResource_LastState resource (sa_id stopArea) of
                     None \<Rightarrow> Some (set_last_state i obj (sa_id stopArea) (area_state stopArea) subs, connector)
                   | Some (StopAreaState l) \<Rightarrow>
                       (let (partners, changed) = stopAreaLastChange_Haschanged l stopArea
                        in do {
                          connector1 \<leftarrow> (if changed then note_lost_timetable i partners connector else Some connector);
                          Some (set_last_state i obj (sa_id stopArea)
                            (StopAreaState (stopAreaLastChange_UpdateState stopArea l)) subs, connector1) })
                   | Some _ \<Rightarrow> None)))"

definition SIRIEstimatedTimeTableSubscriptionBroadcaster_checkStopAreaEvent ::
  "gotime \<Rightarrow> Partner \<Rightarrow> StopArea \<Rightarrow> ett_state \<Rightarrow> ett_state option" where
  "SIRIEstimatedTimeTableSubscriptionBroadcaster_checkStopAreaEvent now partner stopArea st =
     (case Consumer_ObjectID (sa_objectids stopArea) (ett_line_kind partner) of
        None \<Rightarrow> Some st
      | Some obj \<Rightarrow>
          fold (\<lambda>i acc. Option.bind acc (check_timetable_area now stopArea obj i))
            (map sub_id (MemorySubscriptions_FindByResourceId (fst st) (ObjectID_String obj) EstimatedTimeTableBroadcast))
            (Some st))"

definition SIRIEstimatedTimeTableSubscriptionBroadcaster_HandleBroadcastEvent ::
  "gotime \<Rightarrow> Partner \<Rightarrow> MemoryModel \<Rightarrow> StopMonitoringBroadcastEvent \<Rightarrow> ett_state \<Rightarrow> ett_state option" where
  "SIRIEstimatedTimeTableSubscriptionBroadcaster_HandleBroadcastEvent now partner model event st =
     (if sme_ModelType event = ''StopVisit''
      then SIRIEstimatedTimeTableSubscriptionBroadcaster_checkEvent now partner model (sme_ModelId event) st
      else if sme_ModelType event = ''StopArea''
      then (case read_area model (sme_ModelId event) of
              None \<Rightarrow> Some st
            | Some sa \<Rightarrow> SIRIEstimatedTimeTableSubscriptionBroadcaster_checkStopAreaEvent now partner sa st)
      else Some st)"

section \<open>Requests for subscriptions\<close>

text \<open>The lines of an entry: a resource for each that is known, and the identifiers of those that are not.\<close>

definition SIRIEstimatedTimeTableSubscriptionBroadcaster_checkLines ::
  "gotime \<Rightarrow> Partner \<Rightarrow> MemoryModel \<Rightarrow> gotime \<Rightarrow> string list \<Rightarrow> (SubscribedResource list \<times> string list) option" where
  "SIRIEstimatedTimeTableSubscriptionBroadcaster_checkLines now partner model until lines =
     fold (\<lambda>lineId acc. do {
         (resources, lineIds) \<leftarrow> acc;
         let obj = NewObjectID (ett_line_kind partner) lineId;
         line \<leftarrow> MemoryLines_FindByObjectId (mm_lines model) obj;
         Some (case line of
             None \<Rightarrow> (resources, lineIds @ [lineId])
           | Some _ \<Rightarrow> (resources @ [(NewResource \<lparr>ref_ObjectId = Some obj, ref_Type = ''Line''\<rparr>)
               \<lparr>sr_SubscribedAt := now, sr_SubscribedUntil := until\<rparr>], lineIds)) })
       lines (Some ([], []))"

text \<open>The state of every stop area of the line is kept in the resource, and all its following visits are to be
  broadcast, whatever their line.\<close>

definition SIRIEstimatedTimeTableSubscriptionBroadcaster_addLineStopVisits ::
  "gotime \<Rightarrow> MemoryModel \<Rightarrow> SubscriptionId \<Rightarrow> LineId \<Rightarrow> SubscribedResource \<times> SIRIEstimatedTimeTableSubscriptionBroadcaster \<Rightarrow>
   (SubscribedResource \<times> SIRIEstimatedTimeTableSubscriptionBroadcaster) option" where
  "SIRIEstimatedTimeTableSubscriptionBroadcaster_addLineStopVisits now model i lineId st =
     fold (\<lambda>sa acc. do {
         (res, connector) \<leftarrow> acc;
         svs \<leftarrow> TransactionalStopVisits_FindFollowingByStopAreaId now (tm_stopVisits (NewTransactionalModel model))
           (mm_stopVisits model) (sa_id sa);
         Some (SubscribedResource_SetLastState (sa_id sa) (area_state sa) res,
           fold (\<lambda>sv. SIRIEstimatedTimeTableSubscriptionBroadcaster_addStopVisit i (sv_id sv)) svs connector) })
       (TransactionalStopAreas_FindByLineId (tm_stopAreas (NewTransactionalModel model)) (mm_stopAreas model) lineId) (Some st)"

definition SIRIEstimatedTimeTableSubscriptionBroadcaster_fillOptions ::
  "'n gokogiri \<Rightarrow> 'n XMLStructure \<Rightarrow> Subscription \<Rightarrow> Subscription" where
  "SIRIEstimatedTimeTableSubscriptionBroadcaster_fillOptions gk request s =
     (let changeBeforeUpdates = read_of XMLSubscriptionRequest_ChangeBeforeUpdates gk request
      in Subscription_SetSubscriptionOption ''MessageIdentifier'' (read_of LightRequestXMLStructure_MessageIdentifier gk request)
           (Subscription_SetSubscriptionOption ''ChangeBeforeUpdates''
             (if changeBeforeUpdates = '''' then ''PT1M'' else changeBeforeUpdates) s))"

text \<open>The subscription with the identifier of the entry keeps its options; a new one takes those of the request.\<close>

definition timetable_subscription ::
  "'n gokogiri \<Rightarrow> 'n XMLStructure \<Rightarrow> string \<Rightarrow> PartnerSettings \<times> uuid_gen \<Rightarrow> MemorySubscriptions \<Rightarrow>
   SubscriptionId \<times> (PartnerSettings \<times> uuid_gen) \<times> MemorySubscriptions" where
  "timetable_subscription gk request externalId sg subs =
     (let (i, sg1, subs1) = subscription_for EstimatedTimeTableBroadcast externalId sg subs
      in (i, sg1, if MemorySubscriptions_FindByExternalId subs externalId = None
            then on_subscription i (SIRIEstimatedTimeTableSubscriptionBroadcaster_fillOptions gk request) subs1 else subs1))"

definition add_line_resource ::
  "gotime \<Rightarrow> MemoryModel \<Rightarrow> SubscriptionId \<Rightarrow> SubscribedResource \<Rightarrow> ett_state \<Rightarrow> ett_state option" where
  "add_line_resource now model i r st =
     (case st of (subs, connector) \<Rightarrow> do {
        obj \<leftarrow> ref_ObjectId (sr_Reference r);
        line \<leftarrow> MemoryLines_FindByObjectId (mm_lines model) obj;
        (case line of
           None \<Rightarrow> Some st
         | Some l \<Rightarrow> do {
             (r1, connector1) \<leftarrow> SIRIEstimatedTimeTableSubscriptionBroadcaster_addLineStopVisits now model i (line_id l) (r, connector);
             Some (on_subscription i (\<lambda>sub. case Subscription_AddNewResource r1 sub of None \<Rightarrow> sub | Some s \<Rightarrow> s) subs,
               connector1) }) })"

type_synonym ett_request_state = "(PartnerSettings \<times> uuid_gen) \<times> ett_state"

definition handle_ett_entry ::
  "gotime \<Rightarrow> 'n gokogiri \<Rightarrow> Partner \<Rightarrow> MemoryModel \<Rightarrow> 'n XMLStructure \<Rightarrow> 'n XMLStructure \<Rightarrow> ett_request_state \<Rightarrow>
   (SIRIResponseStatus \<times> ett_request_state) option" where
  "handle_ett_entry now gk partner model request ett st =
     (case st of (sg, subs, connector) \<Rightarrow>
        (let ref = read_of XMLEstimatedTimetableSubscriptionRequestEntry_SubscriptionIdentifier gk ett;
             until = read_of XMLEstimatedTimetableSubscriptionRequestEntry_InitialTerminationTime gk ett;
             rs = \<lparr>rst_RequestMessageRef = read_of LightRequestXMLStructure_MessageIdentifier gk ett,
                   rst_SubscriberRef = read_of XMLEstimatedTimetableSubscriptionRequestEntry_SubscriberRef gk ett,
                   rst_SubscriptionRef = ref, rst_Status = False, rst_ErrorType = '''', rst_ErrorNumber = 0,
                   rst_ErrorText = '''', rst_ResponseTimestamp = now, rst_ValidUntil = 0\<rparr>
         in do {
           (resources, lineIds) \<leftarrow> SIRIEstimatedTimeTableSubscriptionBroadcaster_checkLines now partner model until
             (read_of XMLEstimatedTimetableRequest_Lines gk ett);
           if length lineIds \<noteq> 0
           then Some (rs\<lparr>rst_ErrorType := ''InvalidDataReferencesError'',
                  rst_ErrorText := ''Unknown Line(s) '' @ join_with (CHR '','') lineIds\<rparr>, st)
           else (let (i, sg1, subs1) = timetable_subscription gk request ref sg subs
                 in do {
                   st1 \<leftarrow> fold (\<lambda>r acc. Option.bind acc (add_line_resource now model i r)) resources (Some (subs1, connector));
                   Some (rs\<lparr>rst_Status := True, rst_ValidUntil := until\<rparr>, sg1, st1) }) }))"

definition SIRIEstimatedTimeTableSubscriptionBroadcaster_HandleSubscriptionRequest ::
  "gotime \<Rightarrow> 'n gokogiri \<Rightarrow> Partner \<Rightarrow> MemoryModel \<Rightarrow> 'n XMLStructure \<Rightarrow> ett_request_state \<Rightarrow>
   (SIRIResponseStatus list \<times> ett_request_state) option" where
  "SIRIEstimatedTimeTableSubscriptionBroadcaster_HandleSubscriptionRequest now gk partner model request st =
     fold (\<lambda>ett acc. do {
         (resps, st1) \<leftarrow> acc;
         (rs, st2) \<leftarrow> handle_ett_entry now gk partner model request ett st1;
         Some (resps @ [rs], st2) })
       (XMLSubscriptionRequest_XMLSubscriptionETTEntries gk request) (Some ([], st))"

section \<open>Notifications\<close>

type_synonym ett_broadcast_state =
  "SIRINotifyEstimatedTimeTable list \<times> (PartnerSettings \<times> uuid_gen) \<times> MemorySubscriptions \<times>
   SIRIEstimatedTimeTableSubscriptionBroadcaster"

definition new_timetable_delivery ::
  "broadcast_env \<Rightarrow> Subscription \<Rightarrow> PartnerSettings \<times> uuid_gen \<Rightarrow>
   SIRINotifyEstimatedTimeTable \<times> PartnerSettings \<times> uuid_gen" where
  "new_timetable_delivery be sub sg =
     (let (i, sg1) = new_response_identifier sg
      in (\<lparr>net_Address = PartnerSettings_Address (fst sg), net_RequestMessageRef = Subscription_SubscriptionOption sub ''MessageIdentifier'',
           net_ProducerRef = PartnerSettings_ProducerRef (fst sg), net_ResponseMessageIdentifier = i,
           net_SubscriberRef = PartnerSettings_Setting (fst sg) LOCAL_CREDENTIAL, net_SubscriptionIdentifier = sub_externalId sub,
           net_ResponseTimestamp = be_now be, net_Status = True, net_ErrorType = '''', net_ErrorNumber = 0,
           net_ErrorText = '''', net_EstimatedJourneyVersionFrames = []\<rparr>, sg1))"

definition ETTBroadcaster_prepareNotMonitored :: "broadcast_env \<Rightarrow> ett_broadcast_state \<Rightarrow> ett_broadcast_state" where
  "ETTBroadcaster_prepareNotMonitored be st =
     (case st of (sent, sg, subs, connector) \<Rightarrow>
        (let (sent1, sg1) = fold (\<lambda>(subId, producers) acc.
               (case mget subs subId of
                  None \<Rightarrow> acc
                | Some sub \<Rightarrow> fold (\<lambda>producer (sent, sg).
                    (let (delivery, sg1) = new_timetable_delivery be sub sg
                     in (sent @ [delivery\<lparr>net_Status := False, net_ErrorType := ''OtherError'', net_ErrorNumber := 1,
                           net_ErrorText := ''Erreur [PRODUCER_UNAVAILABLE] : '' @ producer @ '' indisponible''\<rparr>], sg1)))
                    (mkeys producers) acc))
             (case ettsb_notMonitored connector of None \<Rightarrow> [] | Some lost \<Rightarrow> lost) (sent, sg)
         in (sent1, sg1, subs, connector\<lparr>ettsb_notMonitored := Some []\<rparr>)))"

definition SIRIEstimatedTimeTableSubscriptionBroadcaster_stopPointRef ::
  "Partner \<Rightarrow> MemoryModel \<Rightarrow> StopAreaId \<Rightarrow> (StopArea \<times> string) option option" where
  "SIRIEstimatedTimeTableSubscriptionBroadcaster_stopPointRef partner model stopAreaId =
     (case read_area model stopAreaId of
        None \<Rightarrow> Some None
      | Some stopPointRef \<Rightarrow>
          (case Consumer_ObjectID (sa_objectids stopPointRef) (ett_stop_kind partner) of
             Some x \<Rightarrow> Some (Some (stopPointRef, oid_value x))
           | None \<Rightarrow> do {
               found \<leftarrow> StopArea_Referent (mm_stopAreas model) stopPointRef;
               Some (do { referent \<leftarrow> found;
                          x \<leftarrow> Consumer_ObjectID (sa_objectids referent) (ett_stop_kind partner);
                          Some (referent, oid_value x) }) }))"

text \<open>Unlike in the builder of monitored visits, the names of the origins are not trimmed.\<close>

definition SIRIEstimatedTimeTableSubscriptionBroadcaster_noDestinationRefRewrite :: "Partner \<Rightarrow> string \<Rightarrow> bool" where
  "SIRIEstimatedTimeTableSubscriptionBroadcaster_noDestinationRefRewrite partner origin =
     list_ex (\<lambda>x. origin = x) (PartnerSettings_NoDestinationRefRewritingFrom (prt_settings partner))"

definition journey_reference ::
  "broadcast_env \<Rightarrow> Partner \<Rightarrow> MemoryModel \<Rightarrow> VehicleJourney \<Rightarrow> string \<Rightarrow>
   (string, string) gomap \<times> PartnerSettings \<times> uuid_gen \<Rightarrow> ((string, string) gomap \<times> PartnerSettings \<times> uuid_gen) option" where
  "journey_reference be partner model vehicleJourney refType st =
     (case st of (references, settings, g) \<Rightarrow>
        (case Option.bind (References_Get (vj_References vehicleJourney) refType) ref_ObjectId of
           None \<Rightarrow> Some st
         | Some x \<Rightarrow>
             if refType = ''DestinationRef'' \<and>
                SIRIEstimatedTimeTableSubscriptionBroadcaster_noDestinationRefRewrite partner (vj_Origin vehicleJourney)
             then Some (mput refType (oid_value x) references, settings, g)
             else do {
               stopArea \<leftarrow> read_area_by_id model x;
               known \<leftarrow> (case stopArea of
                          None \<Rightarrow> Some None
                        | Some sa \<Rightarrow> StopArea_ReferentOrSelfObjectId (mm_stopAreas model) sa (ett_stop_kind partner));
               Some (case known of
                   Some obj \<Rightarrow> (mput refType (oid_value obj) references, settings, g)
                 | None \<Rightarrow>
                     (let (generator, settings1) = PartnerSettings_IdentifierGenerator REFERENCE_STOP_AREA_IDENTIFIER settings;
                          (i, g1) = IdentifierGenerator_NewIdentifier \<lparr>ia_Type = '''', ia_Id = HashValue (be_sha1_hex be) x\<rparr>
                            generator g
                      in (mput refType i references, settings1, g1))) }))"

definition operator_reference :: "Partner \<Rightarrow> MemoryModel \<Rightarrow> StopVisit \<Rightarrow> (string, string) gomap \<Rightarrow> (string, string) gomap" where
  "operator_reference partner model stopVisit references =
     (case Option.bind (StopVisit_Reference stopVisit ''OperatorRef'') ref_ObjectId of
        None \<Rightarrow> references
      | Some x \<Rightarrow>
          mput ''OperatorRef''
            (case TransactionalOperators_FindByObjectId (tm_operators (NewTransactionalModel model)) (mm_operators model) x of
               None \<Rightarrow> oid_value x
             | Some operator \<Rightarrow>
                 (case Consumer_ObjectID (opr_objectids operator) (ett_stop_kind partner) of
                    None \<Rightarrow> oid_value x
                  | Some obj \<Rightarrow> oid_value obj)) references)"

definition SIRIEstimatedTimeTableSubscriptionBroadcaster_getEstimatedVehicleJourneyReferences ::
  "broadcast_env \<Rightarrow> Partner \<Rightarrow> MemoryModel \<Rightarrow> VehicleJourney \<Rightarrow> StopVisit \<Rightarrow> PartnerSettings \<times> uuid_gen \<Rightarrow>
   ((string, string) gomap \<times> PartnerSettings \<times> uuid_gen) option" where
  "SIRIEstimatedTimeTableSubscriptionBroadcaster_getEstimatedVehicleJourneyReferences be partner model vehicleJourney stopVisit sg = do {
     (references, sg1) \<leftarrow> fold (\<lambda>refType acc. Option.bind acc (journey_reference be partner model vehicleJourney refType))
       [''OriginRef'', ''DestinationRef''] (Some ([], sg));
     Some (operator_reference partner model stopVisit references, sg1) }"

text \<open>
  What is being built for a subscription. The frame of a line and the journey of an identifier are pointers, which
  the maps \<^verbatim>\<open>lines\<close> and \<^verbatim>\<open>vehicleJourneys\<close> hold beside the delivery: here the frames name the journeys, in the
  order in which they were made.
\<close>

record timetable =
  tt_processed :: "StopVisitId list"
  tt_lines :: "(LineId, VehicleJourneyId list) gomap"
  tt_vehicleJourneys :: "(VehicleJourneyId, SIRIEstimatedVehicleJourney) gomap"

definition timetable_frames :: "gotime \<Rightarrow> timetable \<Rightarrow> SIRIEstimatedJourneyVersionFrame list" where
  "timetable_frames currentTime t =
     map (\<lambda>ids. \<lparr>sjf_RecordedAtTime = currentTime,
       sjf_EstimatedVehicleJourneys = List.map_filter (mget (tt_vehicleJourneys t)) ids\<rparr>) (mvals (tt_lines t))"

definition estimated_call :: "StopVisit \<Rightarrow> StopArea \<Rightarrow> string \<Rightarrow> SIRIEstimatedCall" where
  "estimated_call stopVisit stopArea stopAreaId =
     (let schedule = Schedules_Schedule (sv_Schedules stopVisit)
      in \<lparr>sec_ArrivalStatus = sv_ArrivalStatus stopVisit, sec_DepartureStatus = sv_DepartureStatus stopVisit,
          sec_StopPointRef = stopAreaId, sec_StopPointName = sa_Name stopArea,
          sec_DestinationDisplay = mget_or '''' (sv_Attributes stopVisit) ''DestinationDisplay'',
          sec_VehicleAtStop = sv_VehicleAtStop stopVisit, sec_Order = sv_PassageOrder stopVisit,
          sec_AimedArrivalTime = svs_arrivalTime (schedule STOP_VISIT_SCHEDULE_AIMED),
          sec_ExpectedArrivalTime = svs_arrivalTime (schedule STOP_VISIT_SCHEDULE_EXPECTED),
          sec_AimedDepartureTime = svs_departureTime (schedule STOP_VISIT_SCHEDULE_AIMED),
          sec_ExpectedDepartureTime = svs_departureTime (schedule STOP_VISIT_SCHEDULE_EXPECTED)\<rparr>)"

type_synonym ett_delivery_state = "timetable \<times> (PartnerSettings \<times> uuid_gen) \<times> MemorySubscriptions"

text \<open>The journey of a visit, made when it is not there: nothing is made of one without an identifier of the
  partner's kind and without a default one.\<close>

definition dated_journey_ref ::
  "Partner \<Rightarrow> VehicleJourney \<Rightarrow> PartnerSettings \<times> uuid_gen \<Rightarrow> string option \<times> PartnerSettings \<times> uuid_gen" where
  "dated_journey_ref partner vehicleJourney sg =
     (case Consumer_ObjectID (vj_objectids vehicleJourney) (ett_line_kind partner) of
        Some x \<Rightarrow> (Some (oid_value x), sg)
      | None \<Rightarrow>
          (case Consumer_ObjectID (vj_objectids vehicleJourney) ''_default'' of
             None \<Rightarrow> (None, sg)
           | Some x \<Rightarrow>
               (let (generator, settings) = PartnerSettings_IdentifierGenerator REFERENCE_IDENTIFIER (fst sg);
                    (i, g) = IdentifierGenerator_NewIdentifier \<lparr>ia_Type = ''VehicleJourney'', ia_Id = oid_value x\<rparr>
                      generator (snd sg)
                in (Some i, settings, g))))"

definition timetable_journey ::
  "broadcast_env \<Rightarrow> Partner \<Rightarrow> MemoryModel \<Rightarrow> StopVisit \<Rightarrow> VehicleJourney \<Rightarrow> LineId \<Rightarrow> string \<Rightarrow>
   timetable \<times> PartnerSettings \<times> uuid_gen \<Rightarrow> (bool \<times> timetable \<times> PartnerSettings \<times> uuid_gen) option" where
  "timetable_journey be partner model stopVisit vehicleJourney lineId lineRef st =
     (case st of (t, sg) \<Rightarrow>
        let t1 = (if mhas (tt_lines t) lineId then t else t\<lparr>tt_lines := mput lineId [] (tt_lines t)\<rparr>)
        in if mhas (tt_vehicleJourneys t1) (vj_id vehicleJourney) then Some (True, t1, sg)
           else (case dated_journey_ref partner vehicleJourney sg of
                   (None, sg1) \<Rightarrow> Some (False, t1, sg1)
                 | (Some datedVehicleJourneyRef, sg1) \<Rightarrow> do {
                     (references, sg2) \<leftarrow> SIRIEstimatedTimeTableSubscriptionBroadcaster_getEstimatedVehicleJourneyReferences
                       be partner model vehicleJourney stopVisit sg1;
                     Some (True, t1\<lparr>
                       tt_lines := mput lineId (mget_or [] (tt_lines t1) lineId @ [vj_id vehicleJourney]) (tt_lines t1),
                       tt_vehicleJourneys := mput (vj_id vehicleJourney)
                         \<lparr>sej_LineRef = lineRef, sej_DatedVehicleJourneyRef = datedVehicleJourneyRef,
                          sej_Attributes = vj_Attributes vehicleJourney, sej_References = references,
                          sej_EstimatedCalls = []\<rparr> (tt_vehicleJourneys t1)\<rparr>, sg2) }))"

definition add_call :: "StopVisitId \<Rightarrow> VehicleJourneyId \<Rightarrow> SIRIEstimatedCall \<Rightarrow> timetable \<Rightarrow> timetable" where
  "add_call stopVisitId i call t =
     t\<lparr>tt_processed := tt_processed t @ [stopVisitId],
       tt_vehicleJourneys := (case mget (tt_vehicleJourneys t) i of
           None \<Rightarrow> tt_vehicleJourneys t
         | Some journey \<Rightarrow> mput i (journey\<lparr>sej_EstimatedCalls := sej_EstimatedCalls journey @ [call]\<rparr>) (tt_vehicleJourneys t))\<rparr>"

text \<open>The state that is kept of a visit is brought up to date, or made when there is none.\<close>

definition update_timetable_state ::
  "SubscriptionId \<Rightarrow> ObjectID \<Rightarrow> SubscribedResource \<Rightarrow> StopVisit \<Rightarrow> MemorySubscriptions \<Rightarrow> MemorySubscriptions option" where
  "update_timetable_state i obj resource stopVisit subs =
     (case SubscribedResource_LastState resource (sv_id stopVisit) of
        None \<Rightarrow> Some (set_last_state i obj (sv_id stopVisit) (timetable_state stopVisit) subs)
      | Some (EstimatedTimeTableState l) \<Rightarrow> Some (set_last_state i obj (sv_id stopVisit)
          (EstimatedTimeTableState (estimatedTimeTableLastChange_UpdateState stopVisit l)) subs)
      | Some _ \<Rightarrow> None)"

text \<open>
  The line of a visit's journey that the subscription has a resource for. A visit without it is passed over, but a
  journey that is not known ends the whole routine: the first component is whether it goes on.
\<close>

definition timetable_resource ::
  "Partner \<Rightarrow> MemoryModel \<Rightarrow> VehicleJourney \<Rightarrow> Subscription \<Rightarrow> (LineId \<times> ObjectID \<times> SubscribedResource) option" where
  "timetable_resource partner model vehicleJourney sub = do {
     line \<leftarrow> read_line model (vj_LineId vehicleJourney);
     obj \<leftarrow> Consumer_ObjectID (line_objectids line) (ett_line_kind partner);
     resource \<leftarrow> Subscription_Resource sub obj;
     Some (line_id line, obj, resource) }"

definition timetable_visit ::
  "broadcast_env \<Rightarrow> Partner \<Rightarrow> MemoryModel \<Rightarrow> SubscriptionId \<Rightarrow> StopVisitId \<Rightarrow> ett_delivery_state \<Rightarrow>
   (bool \<times> ett_delivery_state) option" where
  "timetable_visit be partner model i stopVisitId st =
     (case st of (t, sg, subs) \<Rightarrow>
        if stopVisitId \<in> set (tt_processed t) then Some (True, st)
        else (case read_visit model stopVisitId of
          None \<Rightarrow> Some (True, st)
        | Some stopVisit \<Rightarrow> do {
            place \<leftarrow> SIRIEstimatedTimeTableSubscriptionBroadcaster_stopPointRef partner model (sv_StopAreaId stopVisit);
            (case place of
               None \<Rightarrow> Some (True, st)
             | Some (stopArea, stopAreaId) \<Rightarrow>
                 (case read_journey model (sv_VehicleJourneyId stopVisit) of
                    None \<Rightarrow> Some (False, st)
                  | Some vehicleJourney \<Rightarrow>
                      (case Option.bind (mget subs i) (timetable_resource partner model vehicleJourney) of
                         None \<Rightarrow> Some (True, st)
                       | Some (lineId, obj, resource) \<Rightarrow> do {
                           (made, t1, sg1) \<leftarrow> timetable_journey be partner model stopVisit vehicleJourney lineId (oid_value obj) (t, sg);
                           if \<not> made then Some (True, t1, sg1, subs)
                           else do {
                             subs1 \<leftarrow> update_timetable_state i obj resource stopVisit subs;
                             Some (True, add_call stopVisitId (vj_id vehicleJourney)
                               (estimated_call stopVisit stopArea stopAreaId) t1, sg1, subs1) } }))) }))"

fun timetable_visits ::
  "broadcast_env \<Rightarrow> Partner \<Rightarrow> MemoryModel \<Rightarrow> SubscriptionId \<Rightarrow> StopVisitId list \<Rightarrow> ett_delivery_state \<Rightarrow>
   (bool \<times> ett_delivery_state) option" where
  "timetable_visits be partner model i [] st = Some (True, st)"
| "timetable_visits be partner model i (v # vs) st = do {
     (goes_on, st1) \<leftarrow> timetable_visit be partner model i v st;
     if goes_on then timetable_visits be partner model i vs st1 else Some (False, st1) }"

text \<open>A delivery is sent for every subscription that is known, also when nothing is in it.\<close>

fun timetable_events ::
  "broadcast_env \<Rightarrow> Partner \<Rightarrow> MemoryModel \<Rightarrow> (SubscriptionId, StopVisitId list) gomap \<Rightarrow>
   SIRINotifyEstimatedTimeTable list \<times> (PartnerSettings \<times> uuid_gen) \<times> MemorySubscriptions \<Rightarrow>
   (SIRINotifyEstimatedTimeTable list \<times> (PartnerSettings \<times> uuid_gen) \<times> MemorySubscriptions) option" where
  "timetable_events be partner model [] st = Some st"
| "timetable_events be partner model ((i, stopVisits) # events) (sent, sg, subs) =
     (case mget subs i of
        None \<Rightarrow> timetable_events be partner model events (sent, sg, subs)
      | Some sub \<Rightarrow>
          (let (delivery, sg1) = new_timetable_delivery be sub sg
           in do {
             (goes_on, t, sg2, subs1) \<leftarrow> timetable_visits be partner model i stopVisits
               (\<lparr>tt_processed = [], tt_lines = [], tt_vehicleJourneys = []\<rparr>, sg1, subs);
             if goes_on
             then timetable_events be partner model events
               (sent @ [delivery\<lparr>net_EstimatedJourneyVersionFrames := timetable_frames (be_now be) t\<rparr>], sg2, subs1)
             else Some (sent, sg2, subs1) }))"

definition ETTBroadcaster_prepareSIRIEstimatedTimeTable ::
  "broadcast_env \<Rightarrow> Partner \<Rightarrow> MemoryModel \<Rightarrow> ett_broadcast_state \<Rightarrow> ett_broadcast_state option" where
  "ETTBroadcaster_prepareSIRIEstimatedTimeTable be partner model st =
     (case st of (sent, sg, subs, connector) \<Rightarrow> do {
        (sent1, sg1, subs1) \<leftarrow> timetable_events be partner model (ettsb_toBroadcast connector) (sent, sg, subs);
        Some (sent1, sg1, subs1, connector\<lparr>ettsb_toBroadcast := []\<rparr>) })"

text \<open>A tick of the routine of the connector.\<close>

definition EstimatedTimeTableBroadcaster_visit ::
  "broadcast_env \<Rightarrow> Partner \<Rightarrow> MemoryModel \<Rightarrow> ett_broadcast_state \<Rightarrow> ett_broadcast_state option" where
  "EstimatedTimeTableBroadcaster_visit be partner model st =
     map_option (ETTBroadcaster_prepareNotMonitored be) (ETTBroadcaster_prepareSIRIEstimatedTimeTable be partner model st)"

end
