(* ===== verification/Dispatching.thy ===== *)
theory Dispatching
  imports MessageBroadcasts EstimatedTimetables Referentials
begin

text \<open>
  How events and requests reach the broadcasters of a partner: the dispatcher of requests for subscriptions
  (\<^verbatim>\<open>core/siri_subscription_request_dispatcher.go\<close>), and the manager that hands the events of the model to the
  connectors of all partners (\<^verbatim>\<open>core/broadcast_manager.go\<close>).

  A partner that broadcasts is the partner with the states of its three broadcasters and the events that its test
  connectors have taken; which of them it has is said by the connectors of the partner. A step of the manager's
  routine takes the head of one of its two channels.
\<close>

record broadcasting =
  bp_partner :: Partner
  bp_sm :: SIRIStopMonitoringSubscriptionBroadcaster
  bp_ett :: SIRIEstimatedTimeTableSubscriptionBroadcaster
  bp_gm :: SIRIGeneralMessageSubscriptionBroadcaster
  bp_smEvents :: "StopMonitoringBroadcastEvent list"
  bp_ettEvents :: "StopMonitoringBroadcastEvent list"
  bp_gmEvents :: "GeneralMessageBroadcastEvent list"

definition TEST_STOP_MONITORING_SUBSCRIPTION_BROADCASTER :: string where
  "TEST_STOP_MONITORING_SUBSCRIPTION_BROADCASTER = ''siri-stop-monitoring-subscription-broadcaster-test''"

definition TEST_GENERAL_MESSAGE_SUBSCRIPTION_BROADCASTER :: string where
  "TEST_GENERAL_MESSAGE_SUBSCRIPTION_BROADCASTER = ''siri-general-message-subscription-broadcaster-test''"

definition TEST_ESTIMATED_TIMETABLE_SUBSCRIPTION_BROADCASTER :: string where
  "TEST_ESTIMATED_TIMETABLE_SUBSCRIPTION_BROADCASTER = ''siri-estimated-timetable-subscription-broadcaster-test''"

abbreviation bp_subs :: "broadcasting \<Rightarrow> MemorySubscriptions" where
  "bp_subs b \<equiv> prt_subscriptions (bp_partner b)"

text \<open>The settings and the subscriptions of the partner after an operation.\<close>

definition keep_settings :: "PartnerSettings \<Rightarrow> broadcasting \<Rightarrow> broadcasting" where
  "keep_settings settings b = b\<lparr>bp_partner := (bp_partner b)\<lparr>prt_settings := settings\<rparr>\<rparr>"

definition keep_subs :: "MemorySubscriptions \<Rightarrow> broadcasting \<Rightarrow> broadcasting" where
  "keep_subs subs b = b\<lparr>bp_partner := (bp_partner b)\<lparr>prt_subscriptions := subs\<rparr>\<rparr>"

section \<open>Requests for subscriptions\<close>

record SIRISubscriptionResponse =
  ssr_Address :: string
  ssr_ResponderRef :: string
  ssr_RequestMessageRef :: string
  ssr_ResponseTimestamp :: gotime
  ssr_ServiceStartedTime :: gotime
  ssr_ResponseStatus :: "SIRIResponseStatus list"

text \<open>The entries for general messages come first, then those for stop monitoring, then those for timetables: the
  first kind that there is is answered, and the entries of the others are passed over.\<close>

definition SIRISubscriptionRequestDispatcher_Dispatch ::
  "gotime \<Rightarrow> 'n gokogiri \<Rightarrow> gotime \<Rightarrow> MemoryModel \<Rightarrow> 'n XMLStructure \<Rightarrow> broadcasting \<times> uuid_gen \<Rightarrow>
   ((string + SIRISubscriptionResponse) \<times> broadcasting \<times> uuid_gen) option" where
  "SIRISubscriptionRequestDispatcher_Dispatch now gk startedAt model request st =
     (case st of (b, g) \<Rightarrow>
        (let partner = bp_partner b; settings = prt_settings partner; subs = prt_subscriptions partner;
             response = (\<lambda>status. Inr \<lparr>ssr_Address = PartnerSettings_Address settings,
               ssr_ResponderRef = PartnerSettings_ProducerRef settings,
               ssr_RequestMessageRef = read_of LightRequestXMLStructure_MessageIdentifier gk request,
               ssr_ResponseTimestamp = now, ssr_ServiceStartedTime = startedAt, ssr_ResponseStatus = status\<rparr>)
         in if length (XMLSubscriptionRequest_XMLSubscriptionGMEntries gk request) > 0
            then (if Partner_Connector partner SIRI_GENERAL_MESSAGE_SUBSCRIPTION_BROADCASTER
                  then (let (resps, (settings1, g1), subs1, connector) =
                          SIRIGeneralMessageSubscriptionBroadcaster_HandleSubscriptionRequest now gk model request
                            ((settings, g), subs, bp_gm b)
                        in Some (response resps, (keep_subs subs1 (keep_settings settings1 b))\<lparr>bp_gm := connector\<rparr>, g1))
                  else Some (Inl ''no GeneralMessageSubscriptionBroadcaster Connector'', st))
            else if length (XMLSubscriptionRequest_XMLSubscriptionSMEntries gk request) > 0
            then (if Partner_Connector partner SIRI_STOP_MONITORING_SUBSCRIPTION_BROADCASTER
                  then do {
                    (resps, (settings1, g1), subs1, connector) \<leftarrow>
                      SIRIStopMonitoringSubscriptionBroadcaster_HandleSubscriptionRequest now gk partner model request
                        ((settings, g), subs, bp_sm b);
                    Some (response resps, (keep_subs subs1 (keep_settings settings1 b))\<lparr>bp_sm := connector\<rparr>, g1) }
                  else Some (Inl ''no StopMonitoringSubscriptionBroadcaster Connector'', st))
            else if length (XMLSubscriptionRequest_XMLSubscriptionETTEntries gk request) > 0
            then (if Partner_Connector partner SIRI_ESTIMATED_TIMETABLE_SUBSCRIPTION_BROADCASTER
                  then do {
                    (resps, (settings1, g1), subs1, connector) \<leftarrow>
                      SIRIEstimatedTimeTableSubscriptionBroadcaster_HandleSubscriptionRequest now gk partner model request
                        ((settings, g), subs, bp_ett b);
                    Some (response resps, (keep_subs subs1 (keep_settings settings1 b))\<lparr>bp_ett := connector\<rparr>, g1) }
                  else Some (Inl ''no EstimatedTimeTableSubscriptionBroadcaster Connector'', st))
            else Some (Inl ''subscription not supported'', st)))"

section \<open>The routines of the broadcasters\<close>

text \<open>A tick of each: what is sent, and the partner after it.\<close>

definition sm_tick :: "broadcast_env \<Rightarrow> MemoryModel \<Rightarrow> broadcasting \<times> uuid_gen \<Rightarrow>
    (SIRINotifyStopMonitoring list \<times> broadcasting \<times> uuid_gen) option" where
  "sm_tick be model st =
     (case st of (b, g) \<Rightarrow> do {
        (sent, (settings, g1), subs, connector) \<leftarrow> StopMonitoringBroadcaster_visit be (bp_partner b) model
          ([], (prt_settings (bp_partner b), g), bp_subs b, bp_sm b);
        Some (sent, (keep_subs subs (keep_settings settings b))\<lparr>bp_sm := connector\<rparr>, g1) })"

definition ett_tick :: "broadcast_env \<Rightarrow> MemoryModel \<Rightarrow> broadcasting \<times> uuid_gen \<Rightarrow>
    (SIRINotifyEstimatedTimeTable list \<times> broadcasting \<times> uuid_gen) option" where
  "ett_tick be model st =
     (case st of (b, g) \<Rightarrow> do {
        (sent, (settings, g1), subs, connector) \<leftarrow> EstimatedTimeTableBroadcaster_visit be (bp_partner b) model
          ([], (prt_settings (bp_partner b), g), bp_subs b, bp_ett b);
        Some (sent, (keep_subs subs (keep_settings settings b))\<lparr>bp_ett := connector\<rparr>, g1) })"

definition gm_tick :: "broadcast_env \<Rightarrow> MemoryModel \<Rightarrow> broadcasting \<times> uuid_gen \<Rightarrow>
    (SIRINotifyGeneralMessage list \<times> broadcasting \<times> uuid_gen) option" where
  "gm_tick be model st =
     (case st of (b, g) \<Rightarrow> do {
        (sent, (settings, g1), subs, connector) \<leftarrow> GMBroadcaster_prepareSIRIGeneralMessageNotify be (bp_partner b) model
          ([], (prt_settings (bp_partner b), g), bp_subs b, bp_gm b);
        Some (sent, (keep_subs subs (keep_settings settings b))\<lparr>bp_gm := connector\<rparr>, g1) })"

section \<open>The manager of the broadcasts\<close>

definition has_one_of :: "string list \<Rightarrow> broadcasting \<Rightarrow> bool" where
  "has_one_of connectorTypes b = list_ex (Partner_Connector (bp_partner b)) connectorTypes"

definition BroadcastManager_GetPartnersWithConnector :: "string list \<Rightarrow> broadcasting list \<Rightarrow> broadcasting list" where
  "BroadcastManager_GetPartnersWithConnector connectorTypes partners = filter (has_one_of connectorTypes) partners"

text \<open>The handlers change the partners where they are: each partner by itself, those without a connector not at all.\<close>

definition smsb_event :: "gotime \<Rightarrow> MemoryModel \<Rightarrow> StopMonitoringBroadcastEvent \<Rightarrow> broadcasting \<Rightarrow> broadcasting option" where
  "smsb_event now model event b =
     (if Partner_Connector (bp_partner b) SIRI_STOP_MONITORING_SUBSCRIPTION_BROADCASTER
      then do {
        (subs, connector) \<leftarrow> SIRIStopMonitoringSubscriptionBroadcaster_HandleStopMonitoringBroadcastEvent now (bp_partner b)
          model event (bp_subs b, bp_sm b);
        Some ((keep_subs subs b)\<lparr>bp_sm := connector\<rparr>) }
      else if Partner_Connector (bp_partner b) TEST_STOP_MONITORING_SUBSCRIPTION_BROADCASTER
      then Some (b\<lparr>bp_smEvents := bp_smEvents b @ [event]\<rparr>)
      else Some b)"

definition ettsb_event :: "gotime \<Rightarrow> MemoryModel \<Rightarrow> StopMonitoringBroadcastEvent \<Rightarrow> broadcasting \<Rightarrow> broadcasting option" where
  "ettsb_event now model event b =
     (if Partner_Connector (bp_partner b) SIRI_ESTIMATED_TIMETABLE_SUBSCRIPTION_BROADCASTER
      then do {
        (subs, connector) \<leftarrow> SIRIEstimatedTimeTableSubscriptionBroadcaster_HandleBroadcastEvent now (bp_partner b)
          model event (bp_subs b, bp_ett b);
        Some ((keep_subs subs b)\<lparr>bp_ett := connector\<rparr>) }
      else if Partner_Connector (bp_partner b) TEST_ESTIMATED_TIMETABLE_SUBSCRIPTION_BROADCASTER
      then Some (b\<lparr>bp_ettEvents := bp_ettEvents b @ [event]\<rparr>)
      else Some b)"

definition gmsb_event :: "gotime \<Rightarrow> MemoryModel \<Rightarrow> GeneralMessageBroadcastEvent \<Rightarrow> broadcasting \<Rightarrow> broadcasting option" where
  "gmsb_event now model event b =
     (if Partner_Connector (bp_partner b) SIRI_GENERAL_MESSAGE_SUBSCRIPTION_BROADCASTER
      then do {
        (subs, connector) \<leftarrow> SIRIGeneralMessageSubscriptionBroadcaster_HandleGeneralMessageBroadcastEvent now (bp_partner b)
          model event (bp_subs b, bp_gm b);
        Some ((keep_subs subs b)\<lparr>bp_gm := connector\<rparr>) }
      else if Partner_Connector (bp_partner b) TEST_GENERAL_MESSAGE_SUBSCRIPTION_BROADCASTER
      then Some (b\<lparr>bp_gmEvents := bp_gmEvents b @ [event]\<rparr>)
      else Some b)"

definition BroadcastManager_smsbEvent_handler ::
  "gotime \<Rightarrow> MemoryModel \<Rightarrow> StopMonitoringBroadcastEvent \<Rightarrow> broadcasting list \<Rightarrow> broadcasting list option" where
  "BroadcastManager_smsbEvent_handler now model event partners =
     those (map (\<lambda>b. if has_one_of [SIRI_STOP_MONITORING_SUBSCRIPTION_BROADCASTER, TEST_STOP_MONITORING_SUBSCRIPTION_BROADCASTER] b
                     then smsb_event now model event b else Some b) partners)"

definition BroadcastManager_ettsbEvent_handler ::
  "gotime \<Rightarrow> MemoryModel \<Rightarrow> StopMonitoringBroadcastEvent \<Rightarrow> broadcasting list \<Rightarrow> broadcasting list option" where
  "BroadcastManager_ettsbEvent_handler now model event partners =
     those (map (\<lambda>b. if has_one_of [SIRI_ESTIMATED_TIMETABLE_SUBSCRIPTION_BROADCASTER,
                          TEST_ESTIMATED_TIMETABLE_SUBSCRIPTION_BROADCASTER] b
                     then ettsb_event now model event b else Some b) partners)"

definition BroadcastManager_gmsbEvent_handler ::
  "gotime \<Rightarrow> MemoryModel \<Rightarrow> GeneralMessageBroadcastEvent \<Rightarrow> broadcasting list \<Rightarrow> broadcasting list option" where
  "BroadcastManager_gmsbEvent_handler now model event partners =
     those (map (\<lambda>b. if has_one_of [SIRI_GENERAL_MESSAGE_SUBSCRIPTION_BROADCASTER, TEST_GENERAL_MESSAGE_SUBSCRIPTION_BROADCASTER] b
                     then gmsb_event now model event b else Some b) partners)"

text \<open>A step of the routine, at an instant and with the model as it is then, on the channels that the manager of the
  referential keeps: when both have an event, either may be taken. A crash is no step.\<close>

inductive BroadcastManager_run ::
  "gotime \<Rightarrow> MemoryModel \<Rightarrow> BroadcastManager \<times> broadcasting list \<Rightarrow> BroadcastManager \<times> broadcasting list \<Rightarrow> bool" where
  stop_monitoring: "bm_smbEventChan manager = Some (n, event # events) \<Longrightarrow>
     BroadcastManager_smsbEvent_handler now model event partners = Some partners1 \<Longrightarrow>
     BroadcastManager_ettsbEvent_handler now model event partners1 = Some partners2 \<Longrightarrow>
     BroadcastManager_run now model (manager, partners) (manager\<lparr>bm_smbEventChan := Some (n, events)\<rparr>, partners2)"
| general_message: "bm_gmbEventChan manager = Some (n, event # events) \<Longrightarrow>
     BroadcastManager_gmsbEvent_handler now model event partners = Some partners1 \<Longrightarrow>
     BroadcastManager_run now model (manager, partners) (manager\<lparr>bm_gmbEventChan := Some (n, events)\<rparr>, partners1)"

inductive_cases BroadcastManager_runE: "BroadcastManager_run now model st st1"

end
