(* ===== verification/BroadcastProps.thy ===== *)
theory BroadcastProps
  imports Dispatching UpdateProps
begin

text \<open>
  Properties of the broadcasters: which visits an event puts into the queues, and what the ticks of the routines make
  of the queues.
\<close>

section \<open>Reading a transaction in which nothing is saved\<close>

lemma fresh_reads [simp]:
  "TransactionalLines_Find (NewTransactionalLines r) lns i = MemoryLines_Find lns i"
  "TransactionalStopAreas_Find (NewTransactionalStopAreas r) sas i = MemoryStopAreas_Find sas i"
  "TransactionalStopVisits_Find (NewTransactionalStopVisits r) svs i = MemoryStopVisits_Find svs i"
  "TransactionalVehicleJourneys_Find (NewTransactionalVehicleJourneys r) vjs i = MemoryVehicleJourneys_Find vjs i"
  by (simp_all add: TransactionalLines_Find_def NewTransactionalLines_def TransactionalStopAreas_Find_def
      NewTransactionalStopAreas_def TransactionalStopVisits_Find_def NewTransactionalStopVisits_def
      TransactionalVehicleJourneys_Find_def NewTransactionalVehicleJourneys_def)

lemma fresh_read_ascendants [simp]:
  "TransactionalStopAreas_FindAscendantsWithObjectIdKind (NewTransactionalStopAreas r) sas i kind =
     MemoryStopAreas_FindAscendantsWithObjectIdKind sas i kind"
  by (cases "MemoryStopAreas_FindAscendantsWithObjectIdKind sas i kind")
    (simp_all add: TransactionalStopAreas_FindAscendantsWithObjectIdKind_def NewTransactionalStopAreas_def
      TransactionalStopAreas_findByObjectIdInDeleted_def)

section \<open>Subscriptions that differ in the states they keep\<close>

text \<open>An event changes subscriptions where they are stored, and only the states of one resource.\<close>

definition same_but :: "string \<Rightarrow> Subscription \<Rightarrow> Subscription \<Rightarrow> bool" where
  "same_but k s t \<longleftrightarrow>
     sub_id t = sub_id s \<and> sub_kind t = sub_kind s \<and> sub_externalId t = sub_externalId s \<and>
     sub_subscriptionOptions t = sub_subscriptionOptions s \<and>
     (\<forall>j. (mget (sub_resourcesByObjectID t) j = None) = (mget (sub_resourcesByObjectID s) j = None)) \<and>
     (\<forall>j. j \<noteq> k \<longrightarrow> mget (sub_resourcesByObjectID t) j = mget (sub_resourcesByObjectID s) j)"

lemma same_but_refl [simp]: "same_but k s s"
  by (simp add: same_but_def)

lemma same_but_trans: "same_but k s t \<Longrightarrow> same_but k t u \<Longrightarrow> same_but k s u"
  by (simp add: same_but_def)

lemma same_but_state: "same_but k s (on_resource k (SubscribedResource_SetLastState key l) s)"
  by (auto simp: same_but_def on_resource_def gomap_simps split: option.splits)

definition subs_same_but :: "string \<Rightarrow> MemorySubscriptions \<Rightarrow> MemorySubscriptions \<Rightarrow> bool" where
  "subs_same_but k subs subs1 \<longleftrightarrow> mkeys subs1 = mkeys subs \<and> (\<forall>i. rel_option (same_but k) (mget subs i) (mget subs1 i))"

lemma subs_same_but_refl [simp]: "subs_same_but k subs subs"
  by (simp add: subs_same_but_def option.rel_refl)

lemma subs_same_but_trans:
  assumes "subs_same_but k a b" and "subs_same_but k b c"
  shows "subs_same_but k a c"
proof -
  have "rel_option (same_but k) (mget a i) (mget c i)" for i
    using assms same_but_trans [of k] by (auto simp: subs_same_but_def option_rel_Some1 option_rel_Some2 elim!: option.rel_cases
        dest!: spec [of _ i])
  with assms show ?thesis by (simp add: subs_same_but_def)
qed

lemma mkeys_mput: "mget m k \<noteq> None \<Longrightarrow> mkeys (mput k v m) = mkeys m"
  by (induction m) (auto split: if_splits)

lemma mkeys_on: "mkeys (on_subscription i f m) = mkeys m"
  by (auto simp: on_subscription_def intro: mkeys_mput split: option.splits)

lemma subs_same_but_state: "subs_same_but (ObjectID_String obj) subs (set_last_state i obj key l subs)"
proof -
  have "rel_option (same_but (ObjectID_String obj)) (mget subs j)
      (mget (set_last_state i obj key l subs) j)" for j
    by (simp add: set_last_state_def mget_on same_but_state option.rel_refl option.rel_map)
  then show ?thesis by (simp add: subs_same_but_def set_last_state_def mkeys_on)
qed

section \<open>Which visits are queued\<close>

text \<open>A subscription is on the line of a visit when it names no line, or the line of the visit's journey.\<close>

definition on_line :: "MemoryModel \<Rightarrow> StopVisit \<Rightarrow> Subscription \<Rightarrow> bool" where
  "on_line model sv sub =
     (case SIRIStopMonitoringSubscriptionBroadcaster_lineRef model sub of
        None \<Rightarrow> False
      | Some None \<Rightarrow> True
      | Some (Some line) \<Rightarrow> line = journey_line model sv)"

text \<open>A subscription wants a visit under an identifier when its resource is still in force, it is on the line, and
  the visit is new to it or has changed since.\<close>

definition wants :: "gotime \<Rightarrow> MemoryModel \<Rightarrow> StopVisit \<Rightarrow> ObjectID \<Rightarrow> Subscription \<Rightarrow> bool" where
  "wants now model sv obj sub =
     (case Subscription_Resource sub obj of
        None \<Rightarrow> False
      | Some r \<Rightarrow> now \<le> sr_SubscribedUntil r \<and> on_line model sv sub \<and>
          (case SubscribedResource_LastState r (sv_id sv) of
             None \<Rightarrow> True
           | Some (StopMonitoringState l) \<Rightarrow> stopMonitoringLastChange_Haschanged (sub_subscriptionOptions sub) l sv
           | Some _ \<Rightarrow> False))"

definition wanting :: "gotime \<Rightarrow> MemoryModel \<Rightarrow> StopVisit \<Rightarrow> MemorySubscriptions \<Rightarrow> ObjectID \<Rightarrow> SubscriptionId \<Rightarrow> bool" where
  "wanting now model sv subs obj i = (case mget subs i of None \<Rightarrow> False | Some s \<Rightarrow> wants now model sv obj s)"

lemma lineRef_options:
  "sub_subscriptionOptions t = sub_subscriptionOptions s \<Longrightarrow>
   SIRIStopMonitoringSubscriptionBroadcaster_lineRef model t = SIRIStopMonitoringSubscriptionBroadcaster_lineRef model s"
  by (simp add: SIRIStopMonitoringSubscriptionBroadcaster_lineRef_def Subscription_SubscriptionOption_def)

lemma wants_same_but:
  assumes "same_but k s t" and "ObjectID_String obj \<noteq> k"
  shows "wants now model sv obj t = wants now model sv obj s"
proof -
  from assms have o: "sub_subscriptionOptions t = sub_subscriptionOptions s"
    and r: "Subscription_Resource t obj = Subscription_Resource s obj"
    by (simp_all add: same_but_def Subscription_Resource_def)
  from lineRef_options [OF o, of model] have "on_line model sv t = on_line model sv s" by (simp add: on_line_def)
  with o r show ?thesis unfolding wants_def by (simp only:)
qed

lemma wanting_same_but:
  assumes "subs_same_but k subs subs1" and "ObjectID_String obj \<noteq> k"
  shows "wanting now model sv subs1 obj i = wanting now model sv subs obj i"
proof -
  have "rel_option (same_but k) (mget subs i) (mget subs1 i)" using assms(1) by (simp add: subs_same_but_def)
  then show ?thesis using wants_same_but [OF _ assms(2)] by (cases rule: option.rel_cases) (simp_all add: wanting_def)
qed

lemma check_subscription_spec:
  assumes "check_subscription now model sv obj i (subs, ids) = Some (subs1, ids1)"
  shows "ids1 = ids @ (if wanting now model sv subs obj i then [i] else []) \<and>
    subs_same_but (ObjectID_String obj) subs subs1 \<and> (\<forall>j. j \<noteq> i \<longrightarrow> mget subs1 j = mget subs j)"
proof (cases "Option.bind (mget subs i) (\<lambda>sub. map_option (Pair sub) (Subscription_Resource sub obj))")
  case None
  then have "\<not> wanting now model sv subs obj i"
    by (auto simp: wanting_def wants_def bind_eq_None_conv split: option.splits)
  with None assms show ?thesis by (simp add: check_subscription_def)
next
  case (Some p)
  obtain sub r where p: "p = (sub, r)" by (cases p)
  with Some have at: "mget subs i = Some sub" "Subscription_Resource sub obj = Some r"
    by (auto simp: bind_Some_iff)
  show ?thesis
    using assms Some p at subs_same_but_state [of obj subs i "sv_id sv" "visit_state sv"]
    by (auto simp: check_subscription_def wanting_def wants_def on_line_def bind_Some_iff set_last_state_def mget_on
        split: option.splits if_splits lastState.splits)
qed

lemma fold_bind_None: "fold (\<lambda>x acc. Option.bind acc (f x)) xs None = None"
  by (induction xs) simp_all

lemma check_subscriptions_spec:
  assumes "fold (\<lambda>i acc. Option.bind acc (check_subscription now model sv obj i)) is (Some (subs, ids)) = Some (subs1, ids1)"
    and "distinct is"
  shows "ids1 = ids @ filter (wanting now model sv subs obj) is \<and> subs_same_but (ObjectID_String obj) subs subs1 \<and>
    (\<forall>j. j \<notin> set is \<longrightarrow> mget subs1 j = mget subs j)"
  using assms
proof (induction "is" arbitrary: subs ids)
  case Nil
  then show ?case by simp
next
  case (Cons i "is")
  obtain subs2 ids2 where one: "check_subscription now model sv obj i (subs, ids) = Some (subs2, ids2)"
    using Cons.prems(1) by (cases "check_subscription now model sv obj i (subs, ids)") (auto simp: fold_bind_None)
  note first = check_subscription_spec [OF one]
  have rest: "ids1 = ids2 @ filter (wanting now model sv subs2 obj) is \<and>
      subs_same_but (ObjectID_String obj) subs2 subs1 \<and> (\<forall>j. j \<notin> set is \<longrightarrow> mget subs1 j = mget subs2 j)"
    using Cons.prems one by (intro Cons.IH) simp_all
  have "wanting now model sv subs2 obj j = wanting now model sv subs obj j" if "j \<in> set is" for j
    using first Cons.prems(2) that by (auto simp: wanting_def)
  then have "filter (wanting now model sv subs2 obj) is = filter (wanting now model sv subs obj) is"
    by (rule filter_cong [OF refl])
  with first rest subs_same_but_trans show ?case by auto
qed

text \<open>The subscriptions that have a resource for an identifier, as the manager visits them.\<close>

definition broadcast_to :: "string \<Rightarrow> MemorySubscriptions \<Rightarrow> ObjectID \<Rightarrow> SubscriptionId list" where
  "broadcast_to kind subs obj = map sub_id (MemorySubscriptions_FindByResourceId subs (ObjectID_String obj) kind)"

lemma broadcast_to_keys:
  assumes "subs_inv subs"
  shows "broadcast_to kind subs obj = filter (\<lambda>i. case mget subs i of None \<Rightarrow> False
    | Some s \<Rightarrow> mhas (sub_resourcesByObjectID s) (ObjectID_String obj) \<and> sub_kind s = kind) (mkeys subs)"
proof -
  have "map sub_id (filter P (map snd xs)) = filter (\<lambda>i. case mget subs i of None \<Rightarrow> False | Some s \<Rightarrow> P s) (map fst xs)"
    if "set xs \<subseteq> set subs" for P :: "Subscription \<Rightarrow> bool" and xs
    using that
  proof (induction xs)
    case (Cons p xs)
    obtain i s where p: "p = (i, s)" by (cases p)
    with Cons.prems have "(i, s) \<in> set subs" by simp
    with assms have "mget subs i = Some s" by (simp add: subs_inv_def mwf_def)
    with subs_inv_mget [OF assms] have "mget subs i = Some s" "sub_id s = i" by blast+
    with Cons p show ?case by simp
  qed simp
  from this [OF order_refl] show ?thesis
    by (simp add: broadcast_to_def MemorySubscriptions_FindByResourceId_def)
qed

lemma distinct_broadcast_to: "subs_inv subs \<Longrightarrow> distinct (broadcast_to kind subs obj)"
  by (simp add: broadcast_to_keys subs_inv_def mwf_def)

lemma broadcast_to_same_but:
  assumes "subs_same_but k subs subs1" and "subs_inv subs" and "subs_inv subs1"
  shows "broadcast_to kind subs1 obj = broadcast_to kind subs obj"
proof -
  have "(case mget subs1 i of None \<Rightarrow> False
      | Some s \<Rightarrow> mhas (sub_resourcesByObjectID s) (ObjectID_String obj) \<and> sub_kind s = kind) =
    (case mget subs i of None \<Rightarrow> False
      | Some s \<Rightarrow> mhas (sub_resourcesByObjectID s) (ObjectID_String obj) \<and> sub_kind s = kind)" for i
  proof -
    have "rel_option (same_but k) (mget subs i) (mget subs1 i)" using assms(1) by (simp add: subs_same_but_def)
    then show ?thesis by (cases rule: option.rel_cases) (simp_all add: same_but_def mhas_def)
  qed
  with assms show ?thesis by (simp add: broadcast_to_keys subs_same_but_def)
qed

lemma subs_inv_state [wf_intros]: "subs_inv subs \<Longrightarrow> subs_inv (set_last_state i obj key l subs)"
  unfolding set_last_state_def
  by (rule subs_inv_on) (simp_all add: on_resource_def split: option.split)

lemma check_subscription_inv:
  "check_subscription now model sv obj i (subs, ids) = Some (subs1, ids1) \<Longrightarrow> subs_inv subs \<Longrightarrow> subs_inv subs1"
  by (auto simp: check_subscription_def bind_Some_iff subs_inv_state split: option.splits if_splits lastState.splits)

text \<open>The subscriptions that want a visit, for each identifier of the stop area and of those above it.\<close>

definition queued_for :: "gotime \<Rightarrow> MemoryModel \<Rightarrow> StopVisit \<Rightarrow> MemorySubscriptions \<Rightarrow> ObjectID list \<Rightarrow> SubscriptionId list" where
  "queued_for now model sv subs objs =
     concat (map (\<lambda>obj. filter (wanting now model sv subs obj) (broadcast_to StopMonitoringBroadcast subs obj)) objs)"

lemma fold_option_inv:
  assumes "fold (\<lambda>x acc. Option.bind acc (f x)) xs (Some st) = Some st1" and "P st"
    and "\<And>x s t. f x s = Some t \<Longrightarrow> P s \<Longrightarrow> P t"
  shows "P st1"
  using assms(1,2)
proof (induction xs arbitrary: st)
  case (Cons x xs)
  obtain t where t: "f x st = Some t" using Cons.prems(1) by (cases "f x st") (auto simp: fold_bind_None)
  with Cons.prems assms(3) [OF t] show ?case by (intro Cons.IH [of t]) simp_all
qed simp

lemma check_identifier_spec:
  assumes "check_identifier now model sv obj (subs, ids) = Some (subs1, ids1)" and "subs_inv subs"
  shows "ids1 = ids @ filter (wanting now model sv subs obj) (broadcast_to StopMonitoringBroadcast subs obj) \<and>
    subs_same_but (ObjectID_String obj) subs subs1 \<and> subs_inv subs1"
proof -
  have run: "fold (\<lambda>i acc. Option.bind acc (check_subscription now model sv obj i))
      (broadcast_to StopMonitoringBroadcast subs obj) (Some (subs, ids)) = Some (subs1, ids1)"
    using assms(1) by (simp add: check_identifier_def broadcast_to_def)
  have "subs_inv (fst (subs1, ids1))"
    using fold_option_inv [OF run, of "\<lambda>st. subs_inv (fst st)"] assms(2) check_subscription_inv [of now model sv obj]
    by fastforce
  with check_subscriptions_spec [OF run distinct_broadcast_to [OF assms(2)]] show ?thesis by simp
qed

lemma queued_for_same_but:
  assumes "subs_same_but k subs subs1" and "subs_inv subs" and "subs_inv subs1"
    and "k \<notin> set (map ObjectID_String objs)"
  shows "queued_for now model sv subs1 objs = queued_for now model sv subs objs"
proof -
  have "filter (wanting now model sv subs1 obj) (broadcast_to StopMonitoringBroadcast subs1 obj) =
      filter (wanting now model sv subs obj) (broadcast_to StopMonitoringBroadcast subs obj)" if "obj \<in> set objs" for obj
  proof -
    have "ObjectID_String obj \<noteq> k" using that assms(4) by auto
    then show ?thesis
      unfolding broadcast_to_same_but [OF assms(1-3)] using wanting_same_but [OF assms(1)] by (intro filter_cong) simp_all
  qed
  then show ?thesis unfolding queued_for_def by (simp cong: map_cong)
qed

lemma check_identifiers_spec:
  assumes "fold (\<lambda>obj acc. Option.bind acc (check_identifier now model sv obj)) objs (Some (subs, ids)) = Some (subs1, ids1)"
    and "distinct (map ObjectID_String objs)" and "subs_inv subs"
  shows "ids1 = ids @ queued_for now model sv subs objs \<and> subs_inv subs1"
  using assms
proof (induction objs arbitrary: subs ids)
  case Nil
  then show ?case by (simp add: queued_for_def)
next
  case (Cons obj objs)
  obtain subs2 ids2 where one: "check_identifier now model sv obj (subs, ids) = Some (subs2, ids2)"
    using Cons.prems(1) by (cases "check_identifier now model sv obj (subs, ids)") (auto simp: fold_bind_None)
  from check_identifier_spec [OF one Cons.prems(3)]
  have first: "ids2 = ids @ filter (wanting now model sv subs obj) (broadcast_to StopMonitoringBroadcast subs obj)"
    "subs_same_but (ObjectID_String obj) subs subs2" "subs_inv subs2" by simp_all
  have "ids1 = ids2 @ queued_for now model sv subs2 objs \<and> subs_inv subs1"
    using Cons.prems one first by (intro Cons.IH) simp_all
  moreover have "queued_for now model sv subs2 objs = queued_for now model sv subs objs"
    using queued_for_same_but [OF first(2) Cons.prems(3) first(3)] Cons.prems(2) by simp
  ultimately show ?case using first(1) by (simp add: queued_for_def)
qed

text \<open>Checking a visit crashes on a state of another kind that is kept under its identifier, and where the search of
  the line of a subscription does.\<close>

definition visit_kept :: "StopVisit \<Rightarrow> SubscribedResource \<Rightarrow> bool" where
  "visit_kept sv r = (case SubscribedResource_LastState r (sv_id sv) of
     None \<Rightarrow> True | Some (StopMonitoringState _) \<Rightarrow> True | Some _ \<Rightarrow> False)"

definition checkable_sub :: "MemoryModel \<Rightarrow> StopVisit \<Rightarrow> Subscription \<Rightarrow> bool" where
  "checkable_sub model sv s \<longleftrightarrow> SIRIStopMonitoringSubscriptionBroadcaster_lineRef model s \<noteq> None \<and>
     vals_ok (visit_kept sv) (sub_resourcesByObjectID s)"

definition checkable :: "MemoryModel \<Rightarrow> StopVisit \<Rightarrow> MemorySubscriptions \<Rightarrow> bool" where
  "checkable model sv subs = vals_ok (checkable_sub model sv) subs"

lemma checkable_state:
  assumes "checkable model sv subs"
  shows "checkable model sv (set_last_state i obj (sv_id sv) (visit_state sv) subs)"
proof -
  let ?k = "ObjectID_String obj" and ?f = "SubscribedResource_SetLastState (sv_id sv) (visit_state sv)"
  have new: "visit_kept sv (?f r)" for r
    by (simp add: visit_kept_def SubscribedResource_SetLastState_def SubscribedResource_LastState_def gomap_simps
        visit_state_def)
  have "checkable_sub model sv (on_resource ?k ?f s)" if "checkable_sub model sv s" for s
    using that new lineRef_options [of "on_resource ?k ?f s" s model]
    by (auto simp: checkable_sub_def on_resource_def split: option.splits)
  with assms show ?thesis
    by (auto simp: checkable_def set_last_state_def on_subscription_def intro!: vals_ok_mput dest: vals_ok_mget
        split: option.splits)
qed

lemma check_subscription_total:
  assumes "checkable model sv subs"
  shows "\<exists>subs1 ids1. check_subscription now model sv obj i (subs, ids) = Some (subs1, ids1) \<and> checkable model sv subs1"
proof (cases "Option.bind (mget subs i) (\<lambda>sub. map_option (Pair sub) (Subscription_Resource sub obj))")
  case None
  with assms show ?thesis by (simp add: check_subscription_def)
next
  case (Some p)
  obtain sub r where p: "p = (sub, r)" by (cases p)
  with Some have at: "mget subs i = Some sub" "Subscription_Resource sub obj = Some r"
    by (auto simp: bind_Some_iff)
  from assms at(1) have "checkable_sub model sv sub" by (auto simp: checkable_def dest: vals_ok_mget)
  with at(2) have "visit_kept sv r" and "SIRIStopMonitoringSubscriptionBroadcaster_lineRef model sub \<noteq> None"
    by (auto simp: checkable_sub_def Subscription_Resource_def dest: vals_ok_mget)
  with Some p assms checkable_state [OF assms] show ?thesis
    by (auto simp: check_subscription_def visit_kept_def split: option.splits lastState.splits)
qed

lemma fold_option_total:
  assumes "P st" and "\<And>x s. P s \<Longrightarrow> \<exists>t. f x s = Some t \<and> P t"
  shows "\<exists>t. fold (\<lambda>x acc. Option.bind acc (f x)) xs (Some st) = Some t \<and> P t"
  using assms(1)
proof (induction xs arbitrary: st)
  case (Cons x xs)
  from assms(2) [OF Cons.prems, of x] obtain t where "f x st = Some t" "P t" by blast
  with Cons.IH [of t] show ?case by simp
qed simp

lemma check_identifier_total:
  assumes "checkable model sv (fst st)"
  shows "\<exists>t. check_identifier now model sv obj st = Some t \<and> checkable model sv (fst t)"
  unfolding check_identifier_def
proof (rule fold_option_total)
  show "\<exists>t. check_subscription now model sv obj i s = Some t \<and> checkable model sv (fst t)"
    if "checkable model sv (fst s)" for i s
    using check_subscription_total [OF that, of now obj i "snd s"] by fastforce
qed (rule assms)

lemma checkEvent_queues:
  assumes "subs_inv subs" and "checkable model sv subs"
    and "read_ascendants model (sv_StopAreaId sv) (remote_kind partner) = Some objs" and "distinct (map ObjectID_String objs)"
  shows "\<exists>subs1. SIRIStopMonitoringSubscriptionBroadcaster_checkEvent now partner model sv subs = Some (subs1,
    if sv_Origin sv = prt_slug partner then [] else queued_for now model sv subs objs) \<and> subs_inv subs1"
proof (cases "sv_Origin sv = prt_slug partner")
  case True
  with assms(1) show ?thesis by (simp add: SIRIStopMonitoringSubscriptionBroadcaster_checkEvent_def)
next
  case False
  have "\<exists>t. fold (\<lambda>obj acc. Option.bind acc (check_identifier now model sv obj)) objs (Some (subs, [])) = Some t \<and>
      checkable model sv (fst t)"
    by (rule fold_option_total) (use assms(2) check_identifier_total in auto)
  then obtain subs1 ids where
    run: "fold (\<lambda>obj acc. Option.bind acc (check_identifier now model sv obj)) objs (Some (subs, [])) = Some (subs1, ids)"
    by auto
  with check_identifiers_spec [OF run assms(4,1)] False assms(3) show ?thesis
    by (simp add: SIRIStopMonitoringSubscriptionBroadcaster_checkEvent_def)
qed

text \<open>C7. When the ascendants of the visit's stop area are found, with distinct identifiers, the lines that subscriptions name
  can be looked up, and what resources keep under the visit's identifier are states of a visit, checking a visit
  (checkEvent) does not fail, and lists exactly the subscriptions that want it: for each identifier of the stop area and
  of those above it, in order, those with a resource for it that is in force, on the line of the visit, and to which the
  visit is new or has changed; none when the visit comes from the partner itself.\<close>

theorem visit_event_queues:
  assumes "subs_inv subs" and "checkable model sv subs"
    and "read_ascendants model (sv_StopAreaId sv) (remote_kind partner) = Some objs" and "distinct (map ObjectID_String objs)"
  shows "\<exists>subs1. SIRIStopMonitoringSubscriptionBroadcaster_checkEvent now partner model sv subs = Some (subs1,
    if sv_Origin sv = prt_slug partner then []
    else concat (map (\<lambda>obj. filter (wanting now model sv subs obj) (broadcast_to StopMonitoringBroadcast subs obj)) objs))"
  using checkEvent_queues [OF assms, of now] unfolding queued_for_def by blast

section \<open>A visit is queued once\<close>

text \<open>A subscription tolerates changes when it has a positive tolerance; what it keeps of a visit is nothing, or the
  visit as it is.\<close>

definition tolerant :: "Subscription \<Rightarrow> bool" where
  "tolerant s \<longleftrightarrow> mget_or '''' (sub_subscriptionOptions s) ChangeBeforeUpdates \<noteq> '''' \<and>
     0 < sint (change_duration (mget_or '''' (sub_subscriptionOptions s) ChangeBeforeUpdates))"

definition kept_as :: "StopVisit \<Rightarrow> SubscribedResource \<Rightarrow> bool" where
  "kept_as sv r \<longleftrightarrow> SubscribedResource_LastState r (sv_id sv) \<in> {None, Some (visit_state sv)}"

definition keeps_visit :: "StopVisit \<Rightarrow> MemorySubscriptions \<Rightarrow> bool" where
  "keeps_visit sv subs = vals_ok (\<lambda>s. tolerant s \<and> vals_ok (kept_as sv) (sub_resourcesByObjectID s)) subs"

lemma unchanged_visit:
  assumes "mwf (sv_Schedules sv)" and "tolerant s"
  shows "\<not> stopMonitoringLastChange_Haschanged (sub_subscriptionOptions s)
    (stopMonitoringLastChange_UpdateState sv smlc) sv"
proof -
  have "\<not> reported_status sv sv" by (simp add: reported_status_def)
  moreover have "\<not> visit_moved w sv sv" if "0 < w" for w using that by (subst unmoved) simp
  ultimately show ?thesis
    using assms(2) unfolding stopMonitoring_changed [OF assms(1)] changed_spec_def tolerant_def by blast
qed

lemma keeps_visit_state:
  assumes "keeps_visit sv subs"
  shows "keeps_visit sv (set_last_state i obj (sv_id sv) (visit_state sv) subs)"
proof -
  let ?f = "SubscribedResource_SetLastState (sv_id sv) (visit_state sv)"
  have new: "kept_as sv (?f r)" for r
    by (simp add: kept_as_def SubscribedResource_SetLastState_def SubscribedResource_LastState_def gomap_simps)
  have "tolerant (on_resource (ObjectID_String obj) ?f s) \<and>
      vals_ok (kept_as sv) (sub_resourcesByObjectID (on_resource (ObjectID_String obj) ?f s))"
    if "tolerant s \<and> vals_ok (kept_as sv) (sub_resourcesByObjectID s)" for s
    using that new by (auto simp: on_resource_def tolerant_def split: option.splits)
  with assms show ?thesis
    by (auto simp: keeps_visit_def set_last_state_def on_subscription_def intro!: vals_ok_mput dest: vals_ok_mget
        split: option.splits)
qed

lemma wants_kept:
  assumes "mwf (sv_Schedules sv)" and "keeps_visit sv subs" and "mget subs i = Some s"
  shows "wants now model sv obj s \<longleftrightarrow> (\<exists>r. Subscription_Resource s obj = Some r \<and> now \<le> sr_SubscribedUntil r \<and>
    on_line model sv s \<and> SubscribedResource_LastState r (sv_id sv) = None)"
proof (cases "Subscription_Resource s obj")
  case (Some r)
  from assms(2,3) have s: "tolerant s" "vals_ok (kept_as sv) (sub_resourcesByObjectID s)"
    by (auto simp: keeps_visit_def dest: vals_ok_mget)
  with Some have "kept_as sv r" by (auto simp: Subscription_Resource_def dest: vals_ok_mget)
  with Some unchanged_visit [OF assms(1) s(1)] show ?thesis
    by (auto simp: wants_def kept_as_def visit_state_def)
qed (simp add: wants_def)

lemma check_subscription_quiet:
  assumes "check_subscription now model sv obj i (subs, ids) = Some (subs1, ids1)"
    and "mwf (sv_Schedules sv)" and "keeps_visit sv subs" and "now \<le> later"
  shows "keeps_visit sv subs1 \<and> \<not> wanting later model sv subs1 obj i"
proof (cases "Option.bind (mget subs i) (\<lambda>sub. map_option (Pair sub) (Subscription_Resource sub obj))")
  case None
  then have "\<not> wanting later model sv subs obj i"
    by (auto simp: wanting_def wants_def bind_eq_None_conv split: option.splits)
  with None assms show ?thesis by (simp add: check_subscription_def)
next
  case (Some p)
  obtain sub r where p: "p = (sub, r)" by (cases p)
  with Some have at: "mget subs i = Some sub" "Subscription_Resource sub obj = Some r"
    by (auto simp: bind_Some_iff)
  show ?thesis
  proof (cases "wants now model sv obj sub")
    case True
    with at wants_kept [OF assms(2,3) at(1), of now model obj]
    have st: "now \<le> sr_SubscribedUntil r" "on_line model sv sub" "SubscribedResource_LastState r (sv_id sv) = None" by auto
    let ?subs = "set_last_state i obj (sv_id sv) (visit_state sv) subs"
    have "subs1 = ?subs"
      using assms(1) Some p st by (auto simp: check_subscription_def on_line_def bind_Some_iff split: option.splits if_splits)
    moreover have "keeps_visit sv ?subs" by (rule keeps_visit_state [OF assms(3)])
    moreover from this have "\<not> wanting later model sv ?subs obj i"
      using wants_kept [OF assms(2), of ?subs i] at
      by (auto simp: wanting_def set_last_state_def mget_on on_resource_def Subscription_Resource_def
          SubscribedResource_SetLastState_def SubscribedResource_LastState_def gomap_simps)
    ultimately show ?thesis by simp
  next
    case False
    with at wants_kept [OF assms(2,3) at(1)] assms(4) have l: "\<not> wanting later model sv subs obj i"
      by (fastforce simp: wanting_def)
    have "subs1 = subs"
      using assms(1) Some p False at
      by (auto simp: check_subscription_def wants_def on_line_def bind_Some_iff split: option.splits if_splits lastState.splits)
    with l assms(3) show ?thesis by simp
  qed
qed

lemma check_subscriptions_quiet:
  assumes "fold (\<lambda>i acc. Option.bind acc (check_subscription now model sv obj i)) is (Some (subs, ids)) = Some (subs1, ids1)"
    and "distinct is" and "mwf (sv_Schedules sv)" and "keeps_visit sv subs" and "now \<le> later"
  shows "keeps_visit sv subs1 \<and> (\<forall>i \<in> set is. \<not> wanting later model sv subs1 obj i)"
  using assms(1,2,4)
proof (induction "is" arbitrary: subs ids)
  case Nil
  then show ?case by simp
next
  case (Cons i "is")
  obtain subs2 ids2 where one: "check_subscription now model sv obj i (subs, ids) = Some (subs2, ids2)"
    using Cons.prems(1) by (cases "check_subscription now model sv obj i (subs, ids)") (auto simp: fold_bind_None)
  note quiet = check_subscription_quiet [OF one assms(3) Cons.prems(3) assms(5)]
  have run: "fold (\<lambda>i acc. Option.bind acc (check_subscription now model sv obj i)) is (Some (subs2, ids2)) = Some (subs1, ids1)"
    using Cons.prems(1) one by simp
  have "mget subs1 i = mget subs2 i"
    using check_subscriptions_spec [OF run] Cons.prems(2) by simp
  then have "wanting later model sv subs1 obj i = wanting later model sv subs2 obj i" by (simp add: wanting_def)
  with quiet Cons.IH [OF run] Cons.prems(2) show ?case by simp
qed

lemma check_identifier_quiet:
  assumes "check_identifier now model sv obj (subs, ids) = Some (subs1, ids1)"
    and "subs_inv subs" and "mwf (sv_Schedules sv)" and "keeps_visit sv subs" and "now \<le> later"
  shows "keeps_visit sv subs1 \<and> queued_for later model sv subs1 [obj] = []"
proof -
  have run: "fold (\<lambda>i acc. Option.bind acc (check_subscription now model sv obj i))
      (broadcast_to StopMonitoringBroadcast subs obj) (Some (subs, ids)) = Some (subs1, ids1)"
    using assms(1) by (simp add: check_identifier_def broadcast_to_def)
  from check_identifier_spec [OF assms(1,2)]
  have "broadcast_to StopMonitoringBroadcast subs1 obj = broadcast_to StopMonitoringBroadcast subs obj"
    using broadcast_to_same_but [of "ObjectID_String obj" subs subs1] assms(2) by blast
  with check_subscriptions_quiet [OF run distinct_broadcast_to [OF assms(2)] assms(3-5)] show ?thesis
    by (simp add: queued_for_def filter_empty_conv)
qed

lemma queued_for_empty: "queued_for now model sv subs objs = [] \<longleftrightarrow> (\<forall>obj \<in> set objs. queued_for now model sv subs [obj] = [])"
  by (auto simp: queued_for_def)

lemma check_identifiers_quiet:
  assumes "fold (\<lambda>obj acc. Option.bind acc (check_identifier now model sv obj)) objs (Some (subs, ids)) = Some (subs1, ids1)"
    and "distinct (map ObjectID_String objs)" and "subs_inv subs"
    and "mwf (sv_Schedules sv)" and "keeps_visit sv subs" and "now \<le> later"
  shows "keeps_visit sv subs1 \<and> queued_for later model sv subs1 objs = [] \<and>
    (\<forall>k. ObjectID_String k \<notin> set (map ObjectID_String objs) \<longrightarrow>
      queued_for later model sv subs1 [k] = queued_for later model sv subs [k])"
  using assms(1-3,5)
proof (induction objs arbitrary: subs ids)
  case Nil
  then show ?case by (simp add: queued_for_def)
next
  case (Cons obj objs)
  obtain subs2 ids2 where one: "check_identifier now model sv obj (subs, ids) = Some (subs2, ids2)"
    using Cons.prems(1) by (cases "check_identifier now model sv obj (subs, ids)") (auto simp: fold_bind_None)
  from check_identifier_spec [OF one Cons.prems(3)]
  have first: "subs_same_but (ObjectID_String obj) subs subs2" "subs_inv subs2" by simp_all
  note quiet = check_identifier_quiet [OF one Cons.prems(3) assms(4) Cons.prems(4) assms(6)]
  have rest: "keeps_visit sv subs1 \<and> queued_for later model sv subs1 objs = [] \<and>
      (\<forall>k. ObjectID_String k \<notin> set (map ObjectID_String objs) \<longrightarrow>
        queued_for later model sv subs1 [k] = queued_for later model sv subs2 [k])"
    using Cons.prems one first quiet by (intro Cons.IH [of subs2 ids2]) simp_all
  have "queued_for later model sv subs1 [obj] = []" using rest quiet Cons.prems(2) by simp
  moreover have "queued_for later model sv subs2 [k] = queued_for later model sv subs [k]"
    if "ObjectID_String k \<noteq> ObjectID_String obj" for k
    using queued_for_same_but [OF first(1) Cons.prems(3) first(2), of "[k]"] that by simp
  ultimately show ?case using rest queued_for_empty [of later model sv subs1 objs]
      queued_for_empty [of later model sv subs1 "obj # objs"] by simp
qed

lemma keeps_checkable:
  assumes "keeps_visit sv subs" and "\<And>s. s \<in> set (mvals subs) \<Longrightarrow> SIRIStopMonitoringSubscriptionBroadcaster_lineRef model s \<noteq> None"
  shows "checkable model sv subs"
proof -
  have "visit_kept sv r" if "kept_as sv r" for r
    using that by (auto simp: kept_as_def visit_kept_def visit_state_def)
  with assms show ?thesis
    by (auto simp: keeps_visit_def checkable_def checkable_sub_def vals_ok_def list_all_iff)
qed

text \<open>When nobody wants a visit, checking it changes nothing.\<close>

lemma check_subscription_idle:
  assumes "checkable model sv subs" and "\<not> wanting now model sv subs obj i"
  shows "check_subscription now model sv obj i (subs, ids) = Some (subs, ids)"
proof -
  from check_subscription_total [OF assms(1), of now obj i ids] obtain subs1 ids1 where
    r: "check_subscription now model sv obj i (subs, ids) = Some (subs1, ids1)" by blast
  with check_subscription_spec [OF r] assms(2) have "ids1 = ids" by simp
  moreover have "subs1 = subs"
    using r assms(2) unfolding wanting_def
    by (auto simp: check_subscription_def wants_def on_line_def bind_Some_iff
        split: option.splits if_splits lastState.splits)
  ultimately show ?thesis using r by simp
qed

lemma check_identifier_idle:
  assumes "checkable model sv subs" and "queued_for now model sv subs [obj] = []"
  shows "check_identifier now model sv obj (subs, ids) = Some (subs, ids)"
proof -
  have "fold (\<lambda>i acc. Option.bind acc (check_subscription now model sv obj i)) is (Some (subs, ids)) = Some (subs, ids)"
    if "\<forall>i \<in> set is. \<not> wanting now model sv subs obj i" for "is"
    using that by (induction "is") (simp_all add: check_subscription_idle [OF assms(1)])
  with assms(2) show ?thesis
    by (simp add: check_identifier_def broadcast_to_def [symmetric] queued_for_def filter_empty_conv)
qed

lemma check_identifiers_idle:
  assumes "checkable model sv subs" and "queued_for now model sv subs objs = []"
  shows "fold (\<lambda>obj acc. Option.bind acc (check_identifier now model sv obj)) objs (Some (subs, ids)) = Some (subs, ids)"
  using assms(2) by (induction objs) (auto simp: queued_for_def check_identifier_idle [OF assms(1)])

lemma check_identifier_checkable:
  assumes "check_identifier now model sv obj st = Some t" and "checkable model sv (fst st)"
  shows "checkable model sv (fst t)"
  using check_identifier_total [OF assms(2), of now obj] assms(1) by simp

lemma second_event_idle:
  assumes "subs_inv subs" and "keeps_visit sv subs" and "checkable model sv subs" and "mwf (sv_Schedules sv)" and "now \<le> later"
    and "read_ascendants model (sv_StopAreaId sv) (remote_kind partner) = Some objs" and "distinct (map ObjectID_String objs)"
    and "SIRIStopMonitoringSubscriptionBroadcaster_checkEvent now partner model sv subs = Some (subs1, ids)"
  shows "SIRIStopMonitoringSubscriptionBroadcaster_checkEvent later partner model sv subs1 = Some (subs1, [])"
proof (cases "sv_Origin sv = prt_slug partner")
  case True
  then show ?thesis by (simp add: SIRIStopMonitoringSubscriptionBroadcaster_checkEvent_def)
next
  case False
  with assms(6,8) have run: "fold (\<lambda>obj acc. Option.bind acc (check_identifier now model sv obj)) objs (Some (subs, []))
      = Some (subs1, ids)"
    by (simp add: SIRIStopMonitoringSubscriptionBroadcaster_checkEvent_def)
  have "checkable model sv (fst (subs1, ids))"
    by (rule fold_option_inv [OF run, where P = "\<lambda>st. checkable model sv (fst st)"])
      (use assms(3) check_identifier_checkable in auto)
  with False assms(6) check_identifiers_idle check_identifiers_quiet [OF run assms(7,1,4,2,5)] show ?thesis
    by (simp add: SIRIStopMonitoringSubscriptionBroadcaster_checkEvent_def)
qed

text \<open>Checking a visit reads of the model the lines that the subscriptions name, the line of the visit's journey, and
  the stop areas above.\<close>

definition same_lines :: "MemoryModel \<Rightarrow> MemoryModel \<Rightarrow> MemorySubscriptions \<Rightarrow> bool" where
  "same_lines model model1 subs = vals_ok (\<lambda>s. SIRIStopMonitoringSubscriptionBroadcaster_lineRef model1 s =
     SIRIStopMonitoringSubscriptionBroadcaster_lineRef model s) subs"

lemma same_lines_state:
  assumes "same_lines model model1 subs"
  shows "same_lines model model1 (set_last_state i obj k l subs)"
proof -
  let ?P = "\<lambda>s. SIRIStopMonitoringSubscriptionBroadcaster_lineRef model1 s = SIRIStopMonitoringSubscriptionBroadcaster_lineRef model s"
    and ?f = "on_resource (ObjectID_String obj) (SubscribedResource_SetLastState k l)"
  have "?P (?f s) = ?P s" for s
  proof -
    have "sub_subscriptionOptions (?f s) = sub_subscriptionOptions s" using same_but_state by (simp add: same_but_def)
    then show ?thesis by (simp only: lineRef_options [of "?f s" s])
  qed
  with assms show ?thesis
    by (auto simp: same_lines_def set_last_state_def on_subscription_def intro!: vals_ok_mput dest: vals_ok_mget
        split: option.splits)
qed

lemma check_subscription_lines:
  assumes "check_subscription now model sv obj i st = Some t" and "same_lines m m1 (fst st)"
  shows "same_lines m m1 (fst t)"
  using assms by (auto simp: check_subscription_def bind_Some_iff intro: same_lines_state
      split: prod.splits option.splits if_splits lastState.splits)

lemma check_identifier_lines:
  "check_identifier now model sv obj st = Some t \<Longrightarrow> same_lines m m1 (fst st) \<Longrightarrow> same_lines m m1 (fst t)"
  unfolding check_identifier_def by (erule fold_option_inv) (auto intro: check_subscription_lines)

lemma fold_option_cong:
  assumes "P st" and "\<And>x s. P s \<Longrightarrow> f x s = g x s" and "\<And>x s t. f x s = Some t \<Longrightarrow> P s \<Longrightarrow> P t"
  shows "fold (\<lambda>x acc. Option.bind acc (g x)) xs (Some st) = fold (\<lambda>x acc. Option.bind acc (f x)) xs (Some st)"
  using assms(1)
proof (induction xs arbitrary: st)
  case (Cons x xs)
  from assms(2) [OF Cons.prems, of x] have eq: "g x st = f x st" by simp
  show ?case
  proof (cases "f x st")
    case (Some t)
    from Cons.IH [OF assms(3) [OF Some Cons.prems]] eq Some show ?thesis by simp
  qed (simp add: eq fold_bind_None)
qed simp

lemma check_subscription_same:
  assumes "same_lines model model1 (fst st)" and "journey_line model1 sv = journey_line model sv"
  shows "check_subscription now model sv obj i st = check_subscription now model1 sv obj i st"
proof -
  obtain subs ids where st: "st = (subs, ids)" by (rule prod.exhaust)
  have "SIRIStopMonitoringSubscriptionBroadcaster_lineRef model1 s = SIRIStopMonitoringSubscriptionBroadcaster_lineRef model s"
    if "mget subs i = Some s" for s
    using assms(1) that by (auto simp: same_lines_def st dest: vals_ok_mget)
  then show ?thesis
    by (cases "mget subs i"; cases "Subscription_Resource (the (mget subs i)) obj")
      (simp_all add: check_subscription_def st assms(2))
qed

lemma checkEvent_same:
  assumes "same_lines model model1 subs" and "journey_line model1 sv = journey_line model sv"
    and "read_ascendants model1 (sv_StopAreaId sv) (remote_kind partner) = read_ascendants model (sv_StopAreaId sv) (remote_kind partner)"
  shows "SIRIStopMonitoringSubscriptionBroadcaster_checkEvent now partner model1 sv subs =
    SIRIStopMonitoringSubscriptionBroadcaster_checkEvent now partner model sv subs"
proof -
  have one: "check_identifier now model sv obj st = check_identifier now model1 sv obj st"
    if "same_lines model model1 (fst st)" for obj st
    unfolding check_identifier_def
    by (rule fold_option_cong [where P = "\<lambda>st. same_lines model model1 (fst st)", symmetric])
      (use that check_subscription_same [OF _ assms(2)] check_subscription_lines in auto)
  have "fold (\<lambda>obj acc. Option.bind acc (check_identifier now model1 sv obj)) objs (Some (subs, [])) =
      fold (\<lambda>obj acc. Option.bind acc (check_identifier now model sv obj)) objs (Some (subs, []))" for objs
    by (rule fold_option_cong [where P = "\<lambda>st. same_lines model model1 (fst st)"])
      (use assms(1) one check_identifier_lines in auto)
  with assms(3) show ?thesis by (simp add: SIRIStopMonitoringSubscriptionBroadcaster_checkEvent_def)
qed

lemma checkEvent_lines:
  assumes "SIRIStopMonitoringSubscriptionBroadcaster_checkEvent now partner model sv subs = Some (subs1, ids)"
    and "same_lines m m1 subs"
  shows "same_lines m m1 subs1"
proof (cases "sv_Origin sv = prt_slug partner")
  case True
  with assms show ?thesis by (simp add: SIRIStopMonitoringSubscriptionBroadcaster_checkEvent_def)
next
  case False
  with assms(1) obtain objs where
    run: "fold (\<lambda>obj acc. Option.bind acc (check_identifier now model sv obj)) objs (Some (subs, [])) = Some (subs1, ids)"
    by (auto simp: SIRIStopMonitoringSubscriptionBroadcaster_checkEvent_def bind_Some_iff)
  from fold_option_inv [OF run, of "\<lambda>st. same_lines m m1 (fst st)"] assms(2) check_identifier_lines show ?thesis by fastforce
qed

text \<open>A model with a stop area, a line, a journey and a visit; the identifiers of the line are given.\<close>

definition bc_area :: StopArea where
  "bc_area = (NewStopArea TheModel)\<lparr>sa_id := ''a'', sa_objectids := [(''k'', NewObjectID ''k'' ''a'')]\<rparr>"

definition bc_line :: "ObjectIDs \<Rightarrow> Line" where
  "bc_line ids = (NewLine TheModel)\<lparr>line_id := ''l'', line_objectids := ids\<rparr>"

definition bc_journey :: VehicleJourney where
  "bc_journey = (NewVehicleJourney TheModel)\<lparr>vj_id := ''j'', vj_LineId := ''l'', vj_objectids := [(''k'', NewObjectID ''k'' ''j'')]\<rparr>"

definition bc_visit :: "string \<Rightarrow> VehicleJourneyId \<Rightarrow> StopVisit" where
  "bc_visit i j = (NewStopVisit TheModel)\<lparr>sv_id := i, sv_StopAreaId := ''a'', sv_VehicleJourneyId := j,
     sv_objectids := [(''k'', NewObjectID ''k'' i)]\<rparr>"

definition bc_model :: "ObjectIDs \<Rightarrow> MemoryModel" where
  "bc_model ids = (NewMemoryModel 0 None)\<lparr>
     mm_stopAreas := NewMemoryStopAreas\<lparr>msa_byIdentifier := [(''a'', bc_area)]\<rparr>,
     mm_lines := NewMemoryLines\<lparr>mln_byIdentifier := [(''l'', bc_line ids)]\<rparr>,
     mm_vehicleJourneys := NewMemoryVehicleJourneys\<lparr>mvj_byIdentifier := [(''j'', bc_journey)]\<rparr>,
     mm_stopVisits := NewMemoryStopVisits\<lparr>msv_byIdentifier := [(''v'', bc_visit ''v'' ''j''), (''w'', bc_visit ''w'' ''gone''),
       (''c'', (bc_visit ''c'' ''j'')\<lparr>sv_ArrivalStatus := STOP_VISIT_ARRIVAL_CANCELLED\<rparr>)]\<rparr>\<rparr>"

lemma bc_wf:
  "stop_area_wf bc_area" "oids_wf ids \<Longrightarrow> line_wf (bc_line ids)" "vehicle_journey_wf bc_journey" "stop_visit_wf (bc_visit i j)"
  by (simp_all add: bc_area_def bc_line_def bc_journey_def bc_visit_def stop_area_wf_def line_wf_def vehicle_journey_wf_def
      stop_visit_wf_def NewStopArea_def NewLine_def NewVehicleJourney_def NewStopVisit_def NewAttributes_def NewReferences_def
      NewStopVisitSchedules_def NewStopAreaOrigins_def oids_wf_def mwf_def NewObjectID_def)

lemma bc_reads:
  assumes "oids_wf ids"
  shows "MemoryStopAreas_Find (mm_stopAreas (bc_model ids)) i = (if i = ''a'' then Some bc_area else None)"
    "MemoryLines_Find (mm_lines (bc_model ids)) i = (if i = ''l'' then Some (bc_line ids) else None)"
    "MemoryVehicleJourneys_Find (mm_vehicleJourneys (bc_model ids)) i = (if i = ''j'' then Some bc_journey else None)"
    "MemoryStopVisits_Find (mm_stopVisits (bc_model ids)) i =
       (if i = ''v'' then Some (bc_visit ''v'' ''j'') else if i = ''w'' then Some (bc_visit ''w'' ''gone'')
        else if i = ''c'' then Some ((bc_visit ''c'' ''j'')\<lparr>sv_ArrivalStatus := STOP_VISIT_ARRIVAL_CANCELLED\<rparr>) else None)"
  using bc_wf assms bc_wf(4) [of "''c''" "''j''", unfolded stop_visit_wf_def]
  by (simp_all add: bc_model_def MemoryStopAreas_Find_def MemoryLines_Find_def MemoryVehicleJourneys_Find_def
      MemoryStopVisits_Find_def stop_visit_wf_def StopVisit_copy_def)

lemma bc_parts:
  "sa_objectids bc_area = [(''k'', NewObjectID ''k'' ''a'')]" "line_id (bc_line ids) = ''l''" "line_objectids (bc_line ids) = ids"
  "vj_LineId bc_journey = ''l''" "sv_StopAreaId (bc_visit i j) = ''a''" "sv_VehicleJourneyId (bc_visit i j) = j"
  "sv_id (bc_visit i j) = i" "sv_Origin (bc_visit i j) = ''''" "mwf (sv_Schedules (bc_visit i j))"
  by (simp_all add: bc_area_def bc_line_def bc_journey_def bc_visit_def NewStopVisit_def NewStopVisitSchedules_def mwf_def)

lemma bc_ascendants:
  "MemoryStopAreas_FindAscendantsWithObjectIdKind (mm_stopAreas (bc_model ids)) ''a'' ''k'' = Some [NewObjectID ''k'' ''a'']"
proof -
  have "mm_stopAreas (bc_model ids) = NewMemoryStopAreas\<lparr>msa_byIdentifier := [(''a'', bc_area)]\<rparr>" by (simp add: bc_model_def)
  moreover have "MemoryStopAreas_FindAscendantsWithObjectIdKind (NewMemoryStopAreas\<lparr>msa_byIdentifier := [(''a'', bc_area)]\<rparr>)
      ''a'' ''k'' = Some [NewObjectID ''k'' ''a'']" by code_simp
  ultimately show ?thesis by simp
qed

text \<open>A partner with a subscription to the stop area, which tolerates a minute.\<close>

definition bc_resource :: "(string, lastState) gomap \<Rightarrow> SubscribedResource" where
  "bc_resource states = (NewResource \<lparr>ref_ObjectId = Some (NewObjectID ''k'' ''a''), ref_Type = ''StopArea''\<rparr>)
     \<lparr>sr_SubscribedUntil := 100, sr_lastStates := states\<rparr>"

definition bc_sub :: "string \<Rightarrow> string \<Rightarrow> string \<Rightarrow> Subscription" where
  "bc_sub i kind value = \<lparr>sub_id = i, sub_kind = kind, sub_externalId = ''x'' @ i,
     sub_resourcesByObjectID = [(ObjectID_String (NewObjectID ''k'' value), bc_resource [])],
     sub_subscriptionOptions = [(ChangeBeforeUpdates, ''PT1M'')]\<rparr>"

definition bc_partner :: Partner where
  "bc_partner = (PartnerManager_New ''p'')\<lparr>prt_settings := NewPartnerSettings\<lparr>ps_s := [(REMOTE_OBJECTID_KIND, ''k'')]\<rparr>\<rparr>"

lemma bc_partner: "remote_kind bc_partner = ''k''" "ett_line_kind bc_partner = ''k''" "ett_stop_kind bc_partner = ''k''"
  "prt_slug bc_partner = ''p''"
  by code_simp+

abbreviation bc_subs :: MemorySubscriptions where
  "bc_subs \<equiv> [(''s'', bc_sub ''s'' StopMonitoringBroadcast ''a'')]"

lemma bc_subs:
  "subs_inv bc_subs" "keeps_visit sv bc_subs" "s \<in> set (mvals bc_subs) \<Longrightarrow> SIRIStopMonitoringSubscriptionBroadcaster_lineRef model s = Some None"
proof -
  show "subs_inv bc_subs" by (simp add: subs_inv_def mwf_def bc_sub_def)
  have "tolerant (bc_sub i kind v)" for i kind v
  proof -
    have "sub_subscriptionOptions (bc_sub i kind v) = [(ChangeBeforeUpdates, ''PT1M'')]" by (simp add: bc_sub_def)
    moreover have "mget_or '''' [(ChangeBeforeUpdates, ''PT1M'')] ChangeBeforeUpdates = ''PT1M''" by (simp add: mget_or_def)
    moreover have "0 < sint (change_duration ''PT1M'')" by code_simp
    ultimately show ?thesis by (simp add: tolerant_def)
  qed
  then show "keeps_visit sv bc_subs"
    by (simp add: keeps_visit_def bc_sub_def bc_resource_def kept_as_def SubscribedResource_LastState_def)
  have "Subscription_SubscriptionOption (bc_sub i kind v) ''LineRef'' = ''''" for i kind v
    by (simp add: bc_sub_def Subscription_SubscriptionOption_def mget_or_def ChangeBeforeUpdates_def)
  then show "s \<in> set (mvals bc_subs) \<Longrightarrow> SIRIStopMonitoringSubscriptionBroadcaster_lineRef model s = Some None"
    by (auto simp: SIRIStopMonitoringSubscriptionBroadcaster_lineRef_def)
qed

lemma bc_queued: "queued_for 5 (bc_model ids) (bc_visit i j) bc_subs [NewObjectID ''k'' ''a''] = [''s'']"
proof -
  have "wanting 5 (bc_model ids) (bc_visit i j) bc_subs (NewObjectID ''k'' ''a'') ''s''"
    using bc_subs(3) [of "bc_sub ''s'' StopMonitoringBroadcast ''a''" "bc_model ids"]
    by (simp add: wanting_def wants_def on_line_def Subscription_Resource_def bc_sub_def bc_resource_def
        SubscribedResource_LastState_def)
  moreover have "broadcast_to StopMonitoringBroadcast bc_subs (NewObjectID ''k'' ''a'') = [''s'']"
    by (simp add: broadcast_to_def MemorySubscriptions_FindByResourceId_def bc_sub_def mhas_def)
  ultimately show ?thesis by (simp add: queued_for_def)
qed

theorem visit_event_queues_witness:
  "\<exists>subs1. SIRIStopMonitoringSubscriptionBroadcaster_checkEvent 5 bc_partner (bc_model []) (bc_visit ''v'' ''j'') bc_subs =
    Some (subs1, [''s''])"
proof -
  have up: "read_ascendants (bc_model []) (sv_StopAreaId (bc_visit ''v'' ''j'')) (remote_kind bc_partner) =
      Some [NewObjectID ''k'' ''a'']"
    by (simp add: bc_parts bc_partner bc_ascendants)
  have ok: "checkable (bc_model []) (bc_visit ''v'' ''j'') bc_subs"
    by (rule keeps_checkable [OF bc_subs(2)]) (simp add: bc_subs(3))
  show ?thesis
    using visit_event_queues [OF bc_subs(1) ok up, of 5] bc_queued [of "[]" "''v''" "''j''"]
    by (simp add: bc_parts bc_partner queued_for_def)
qed

end
