(* ===== verification/BroadcastTicks.thy ===== *)
theory BroadcastTicks
  imports BroadcastProps
begin

text \<open>
  What the ticks of the routine for stop monitoring make of the queues: what is sent of a list of visits, and what becomes
  of a visit that cannot be built.
\<close>

section \<open>Visits that cannot be built\<close>

text \<open>The builder of a tick has the kind of identifiers of the partner.\<close>

lemma RemoteObjectIDKind_settings:
  "ps_s s = ps_s t \<Longrightarrow> PartnerSettings_RemoteObjectIDKind s c = PartnerSettings_RemoteObjectIDKind t c"
  by (simp add: PartnerSettings_RemoteObjectIDKind_def Let_def)

lemma new_builder:
  assumes "NewBroadcastStopMonitoringBuilder settings connector = (builder, settings1)"
  shows "ps_s settings1 = ps_s settings \<and> bsm_remoteObjectidKind builder = PartnerSettings_RemoteObjectIDKind settings connector"
proof -
  obtain g1 s1 where 1: "PartnerSettings_IdentifierGenerator REFERENCE_IDENTIFIER settings = (g1, s1)" by (rule prod.exhaust)
  obtain g2 s2 where 2: "PartnerSettings_IdentifierGenerator REFERENCE_STOP_AREA_IDENTIFIER s1 = (g2, s2)" by (rule prod.exhaust)
  obtain g3 s3 where 3: "PartnerSettings_IdentifierGenerator DATA_FRAME_IDENTIFIER s2 = (g3, s3)" by (rule prod.exhaust)
  have ps: "ps_s s3 = ps_s settings"
    using IdentifierGenerator_settings [of REFERENCE_IDENTIFIER settings]
      IdentifierGenerator_settings [of REFERENCE_STOP_AREA_IDENTIFIER s1]
      IdentifierGenerator_settings [of DATA_FRAME_IDENTIFIER s2] by (simp add: 1 2 3)
  with assms RemoteObjectIDKind_settings [OF ps] show ?thesis
    by (auto simp: NewBroadcastStopMonitoringBuilder_def 1 2 3 Let_def)
qed

lemma new_response_settings:
  assumes "new_response_identifier sg = (i, settings, g)"
  shows "ps_s settings = ps_s (fst sg)"
proof -
  obtain gen s where gen: "PartnerSettings_IdentifierGenerator RESPONSE_MESSAGE_IDENTIFIER (fst sg) = (gen, s)" by (rule prod.exhaust)
  with IdentifierGenerator_settings [of RESPONSE_MESSAGE_IDENTIFIER "fst sg"] assms show ?thesis
    by (auto simp: new_response_identifier_def Let_def split: prod.splits)
qed

lemma new_notification_settings:
  assumes "new_notification be sub sg = (n, settings, g)"
  shows "ps_s settings = ps_s (fst sg)"
proof -
  obtain i s1 g1 where r: "new_response_identifier sg = (i, s1, g1)" by (rule prod_cases3)
  with assms new_response_settings [OF r] show ?thesis by (simp add: new_notification_def Let_def)
qed

text \<open>A visit whose stop area is known to the partner, but whose journey is on no line that the partner knows.\<close>

definition unbuildable :: "Partner \<Rightarrow> MemoryModel \<Rightarrow> StopVisit \<Rightarrow> bool" where
  "unbuildable partner model sv \<longleftrightarrow>
     (\<exists>sa x. read_area model (sv_StopAreaId sv) = Some sa \<and> Consumer_ObjectID (sa_objectids sa) (remote_kind partner) = Some x) \<and>
     (\<forall>vj line. read_journey model (sv_VehicleJourneyId sv) = Some vj \<longrightarrow> read_line model (vj_LineId vj) = Some line \<longrightarrow>
        Consumer_ObjectID (line_objectids line) (remote_kind partner) = None)"

lemma unbuildable_append:
  assumes "unbuildable partner model sv" and "bsm_remoteObjectidKind builder = remote_kind partner"
  shows "SMBroadcaster_handledStopVisitAppend be builder model sv delivery g = Some (None, g)"
proof -
  have no_line: "visit_line builder model sv = None"
    using assms by (cases "read_journey model (sv_VehicleJourneyId sv)";
        cases "read_line model (vj_LineId (the (read_journey model (sv_VehicleJourneyId sv))))")
      (auto simp: unbuildable_def visit_line_def)
  obtain p where "BroadcastStopMonitoringBuilder_stopPointRef builder model (sv_StopAreaId sv) = Some (Some p)"
    using assms by (auto simp: unbuildable_def BroadcastStopMonitoringBuilder_stopPointRef_def)
  then have "BroadcastStopMonitoringBuilder_BuildMonitoredStopVisit be builder model sv g = Some (None, g)"
    by (cases p) (simp add: BroadcastStopMonitoringBuilder_BuildMonitoredStopVisit_def no_line)
  moreover have "BroadcastStopMonitoringBuilder_BuildCancelledStopVisit be builder model sv g = (None, g)"
    by (simp add: BroadcastStopMonitoringBuilder_BuildCancelledStopVisit_def no_line)
  ultimately show ?thesis by (simp add: SMBroadcaster_handledStopVisitAppend_def)
qed

definition empty_delivery :: "SIRINotifyStopMonitoringDelivery \<Rightarrow> bool" where
  "empty_delivery d \<longleftrightarrow> nsd_MonitoredStopVisits d = [] \<and> nsd_CancelledStopVisits d = []"

lemma empty_or_new: "vals_ok empty_delivery ds \<Longrightarrow> empty_delivery (mget_or (new_delivery be s sub r) ds k)"
  by (auto simp: mget_or_def new_delivery_def empty_delivery_def dest: vals_ok_mget split: option.splits)

lemma notify_unbuildable:
  assumes "unbuildable partner model sv" and "read_visit model v = Some sv" and "bsm_remoteObjectidKind builder = remote_kind partner"
    and "read_ascendants model (sv_StopAreaId sv) (remote_kind partner) = Some objs" and "vals_ok empty_delivery ds"
  shows "\<exists>ds1. notify_visit be partner model builder i v (handled, ds, subs, g) = Some (handled, ds1, subs, g) \<and>
    vals_ok empty_delivery ds1"
proof (cases "v \<in> set handled")
  case False
  show ?thesis
  proof (cases "mget subs i")
    case None
    with False assms(2,5) show ?thesis by (simp add: notify_visit_def)
  next
    case (Some sub)
    show ?thesis
    proof (cases "first_resource sub objs")
      case None
      with False Some assms(2,4,5) show ?thesis by (simp add: notify_visit_def SMBroadcaster_findResource_def)
    next
      case (Some p)
      obtain obj r where p: "p = (obj, r)" by (rule prod.exhaust)
      let ?b = "builder\<lparr>bsm_MonitoringRef := oid_value obj\<rparr>"
      have "bsm_remoteObjectidKind ?b = remote_kind partner" using assms(3) by simp
      note built = unbuildable_append [OF assms(1) this]
      from False Some \<open>mget subs i = Some sub\<close> assms(2,4,5) built p show ?thesis
        by (simp add: notify_visit_def SMBroadcaster_findResource_def Let_def empty_or_new)
    qed
  qed
qed (use assms(5) in \<open>simp add: notify_visit_def\<close>)

lemma notify_all_unbuildable:
  assumes "unbuildable partner model sv" and "read_visit model v = Some sv" and "bsm_remoteObjectidKind builder = remote_kind partner"
    and "read_ascendants model (sv_StopAreaId sv) (remote_kind partner) = Some objs" and "vals_ok empty_delivery ds"
    and "set vs \<subseteq> {v}"
  shows "\<exists>ds1. fold (\<lambda>v acc. Option.bind acc (notify_visit be partner model builder i v)) vs (Some (handled, ds, subs, g)) =
      Some (handled, ds1, subs, g) \<and> vals_ok empty_delivery ds1"
  using assms(5,6)
proof (induction vs arbitrary: ds)
  case (Cons w vs)
  then have w: "w = v" by simp
  from notify_unbuildable [OF assms(1-4) Cons.prems(1), of be i handled subs g] obtain ds1 where
    "notify_visit be partner model builder i v (handled, ds, subs, g) = Some (handled, ds1, subs, g)" "vals_ok empty_delivery ds1"
    by blast
  with Cons.IH [of ds1] Cons.prems(2) w show ?case by simp
qed simp

lemma notify_subscription_unbuildable:
  assumes "unbuildable partner model sv" and "read_visit model v = Some sv" and "ps_s settings = ps_s (prt_settings partner)"
    and "read_ascendants model (sv_StopAreaId sv) (remote_kind partner) = Some objs" and "set vs \<subseteq> {v}"
  shows "\<exists>settings1 g1. notify_subscription be partner model (i, vs) (sent, (settings, g), subs) =
      Some (sent, (settings1, g1), subs) \<and> ps_s settings1 = ps_s (prt_settings partner)"
proof (cases "mget subs i")
  case None
  with assms(3) show ?thesis by (simp add: notify_subscription_def)
next
  case (Some sub)
  obtain builder s1 where b: "NewBroadcastStopMonitoringBuilder settings SIRI_STOP_MONITORING_SUBSCRIPTION_BROADCASTER = (builder, s1)"
    by (rule prod.exhaust)
  obtain n s2 g2 where n: "new_notification be sub (s1, g) = (n, s2, g2)" by (rule prod_cases3)
  let ?b = "builder\<lparr>bsm_StopVisitTypes := Subscription_SubscriptionOption sub ''StopVisitTypes''\<rparr>"
  have kind: "bsm_remoteObjectidKind ?b = remote_kind partner"
    using new_builder [OF b] RemoteObjectIDKind_settings [OF assms(3)] by (simp add: remote_kind_def)
  from notify_all_unbuildable [OF assms(1,2) kind assms(4) vals_ok_Nil assms(5)] obtain ds1 where
    run: "fold (\<lambda>v acc. Option.bind acc (notify_visit be partner model ?b i v)) vs (Some ([], [], subs, g2)) =
      Some ([], ds1, subs, g2)" "vals_ok empty_delivery ds1" by blast
  have none: "filter (\<lambda>d. length (nsd_MonitoredStopVisits d) \<noteq> 0 \<or> length (nsd_CancelledStopVisits d) \<noteq> 0) (mvals ds1) = []"
    using run(2) by (auto simp: vals_ok_vals empty_delivery_def filter_empty_conv simp del: set_map)
  have "ps_s s2 = ps_s (prt_settings partner)"
    using new_notification_settings [OF n] new_builder [OF b] assms(3) by simp
  then show ?thesis
    using Some b n run(1) none by (simp add: notify_subscription_def Let_def)
qed

lemma notify_queue_unbuildable:
  assumes "unbuildable partner model sv" and "read_visit model v = Some sv" and "ps_s settings = ps_s (prt_settings partner)"
    and "read_ascendants model (sv_StopAreaId sv) (remote_kind partner) = Some objs" and "\<forall>(i, vs) \<in> set queue. set vs \<subseteq> {v}"
  shows "\<exists>settings1 g1. fold (\<lambda>entry acc. Option.bind acc (notify_subscription be partner model entry)) queue
      (Some (sent, (settings, g), subs)) = Some (sent, (settings1, g1), subs)"
  using assms(3,5)
proof (induction queue arbitrary: settings g)
  case (Cons p queue)
  obtain i vs where p: "p = (i, vs)" by (rule prod.exhaust)
  with Cons.prems have "set vs \<subseteq> {v}" by simp
  from notify_subscription_unbuildable [OF assms(1,2) Cons.prems(1) assms(4) this, of be i sent g subs] obtain settings1 g1 where
    "notify_subscription be partner model (i, vs) (sent, (settings, g), subs) = Some (sent, (settings1, g1), subs)"
    "ps_s settings1 = ps_s (prt_settings partner)" by blast
  with Cons.IH [of settings1 g1] Cons.prems(2) p show ?case by simp
qed simp

text \<open>What an event about a visit puts into empty queues.\<close>

lemma queue_of_visit:
  "\<forall>(i, vs) \<in> set (smsb_toBroadcast (SIRIStopMonitoringSubscriptionBroadcaster_addStopVisit ids v
      newSIRIStopMonitoringSubscriptionBroadcaster)). set vs \<subseteq> {v}"
proof -
  have "vals_ok (\<lambda>vs. set vs \<subseteq> {v}) (fold (\<lambda>i m. mput i (mget_or [] m i @ [v]) m) ids m)"
    if "vals_ok (\<lambda>vs. set vs \<subseteq> {v}) m" for m :: "(SubscriptionId, StopVisitId list) gomap"
    using that
  proof (induction ids arbitrary: m)
    case (Cons i ids)
    have "set (mget_or [] m i) \<subseteq> {v}"
      using vals_ok_mget [OF Cons.prems] by (cases "mget m i") (auto simp: mget_or_def)
    then have "vals_ok (\<lambda>vs. set vs \<subseteq> {v}) (mput i (mget_or [] m i @ [v]) m)"
      using Cons.prems by (intro vals_ok_mput) simp_all
    with Cons.IH show ?case by simp
  qed simp
  from this [OF vals_ok_Nil] show ?thesis
    by (simp add: vals_ok_def list_all_iff split_beta SIRIStopMonitoringSubscriptionBroadcaster_addStopVisit_def
        newSIRIStopMonitoringSubscriptionBroadcaster_def)
qed

definition about_visit :: "StopVisitId \<Rightarrow> StopMonitoringBroadcastEvent" where
  "about_visit v = \<lparr>sme_SubscriptionId = '''', sme_ModelId = v, sme_ModelType = ''StopVisit''\<rparr>"

lemma handle_visit_event:
  assumes "read_visit model v = Some sv"
  shows "SIRIStopMonitoringSubscriptionBroadcaster_HandleStopMonitoringBroadcastEvent now partner model (about_visit v) st =
    handle_visit now partner model sv st"
  using assms by (simp add: SIRIStopMonitoringSubscriptionBroadcaster_HandleStopMonitoringBroadcastEvent_def about_visit_def)

lemma no_lost_partners:
  "SMBroadcaster_prepareNotMonitored be (sent, sg, subs, newSIRIStopMonitoringSubscriptionBroadcaster) =
    (sent, sg, subs, newSIRIStopMonitoringSubscriptionBroadcaster)"
  by (simp add: SMBroadcaster_prepareNotMonitored_def newSIRIStopMonitoringSubscriptionBroadcaster_def)


section \<open>What is sent of the visits of a queue\<close>

definition delivered_items :: "SIRINotifyStopMonitoringDelivery \<Rightarrow> nat" where
  "delivered_items d = length (nsd_MonitoredStopVisits d) + length (nsd_CancelledStopVisits d)"

definition delivered_total :: "(string, SIRINotifyStopMonitoringDelivery) gomap \<Rightarrow> nat" where
  "delivered_total ds = sum_list (map delivered_items (mvals ds))"

lemma delivered_total_mput:
  "mwf ds \<Longrightarrow> delivered_total (mput k d ds) + (case mget ds k of None \<Rightarrow> 0 | Some old \<Rightarrow> delivered_items old) =
     delivered_total ds + delivered_items d"
  by (induction ds) (auto simp: delivered_total_def mwf_Cons split: option.splits)

text \<open>A delivery for a subscription: its references are those of the subscription, and it is filed under what is monitored.\<close>

definition delivery_for :: "Subscription \<Rightarrow> string \<Rightarrow> SIRINotifyStopMonitoringDelivery \<Rightarrow> bool" where
  "delivery_for sub k d \<longleftrightarrow> nsd_MonitoringRef d = k \<and> nsd_SubscriptionIdentifier d = sub_externalId sub \<and> nsd_Status d"

lemma appended_delivery:
  assumes "SMBroadcaster_handledStopVisitAppend be builder model sv d g = Some (Some d1, g1)"
  shows "delivered_items d1 = Suc (delivered_items d) \<and> delivery_for sub k d1 = delivery_for sub k d"
  using assms
  by (auto simp: SMBroadcaster_handledStopVisitAppend_def delivered_items_def delivery_for_def bind_Some_iff
      split: if_splits prod.splits)

definition notified :: "StopVisitId list \<Rightarrow> Subscription \<Rightarrow> SubscriptionId \<Rightarrow> sm_delivery_state \<Rightarrow> bool" where
  "notified vs sub i st = (case st of (handled, ds, subs, g) \<Rightarrow>
     distinct handled \<and> set handled \<subseteq> set vs \<and> mwf ds \<and> (\<forall>(k, d) \<in> set ds. delivery_for sub k d) \<and>
     delivered_total ds = length handled \<and> (\<exists>s. mget subs i = Some s \<and> sub_externalId s = sub_externalId sub))"

lemma notified_delivery:
  assumes "notified vs sub i (handled, ds, subs, g)" and "mget subs i = Some s"
  shows "delivery_for sub k (mget_or (new_delivery be st s k) ds k) \<and>
    delivered_items (mget_or (new_delivery be st s k) ds k) =
      (case mget ds k of None \<Rightarrow> 0 | Some old \<Rightarrow> delivered_items old)"
  using assms mget_in_set [of ds k]
  by (auto simp: notified_def mget_or_def new_delivery_def delivery_for_def delivered_items_def split: option.splits)

lemma notified_put:
  assumes "notified vs sub i (handled, ds, subs, g)" and "delivery_for sub k d"
    and "delivered_items d = (case mget ds k of None \<Rightarrow> 0 | Some old \<Rightarrow> delivered_items old) + n"
    and "distinct new" and "set new \<inter> set handled = {}" and "length new = n" and "set new \<subseteq> set vs"
    and "\<exists>s. mget subs1 i = Some s \<and> sub_externalId s = sub_externalId sub"
  shows "notified vs sub i (handled @ new, mput k d ds, subs1, g1)"
proof -
  have wf: "mwf ds" and all: "\<forall>(k, d) \<in> set ds. delivery_for sub k d" using assms(1) by (simp_all add: notified_def)
  have "delivered_total (mput k d ds) = length (handled @ new)"
    using delivered_total_mput [OF wf, of k d] assms(1,3,6) by (simp add: notified_def)
  moreover have "\<forall>(j, e) \<in> set (mput k d ds). delivery_for sub j e"
    using all assms(2) mwf_mput [OF wf, of k d] by (auto simp: mwf_in_set wf gomap_simps split: if_splits)
  ultimately show ?thesis using assms wf by (auto simp: notified_def)
qed

lemma set_last_state_external:
  assumes "\<exists>s. mget subs i = Some s \<and> sub_externalId s = x"
  shows "\<exists>s. mget (set_last_state i obj k l subs) i = Some s \<and> sub_externalId s = x"
proof -
  from assms obtain s where s: "mget subs i = Some s" "sub_externalId s = x" by blast
  then have "mget (set_last_state i obj k l subs) i =
      Some (on_resource (ObjectID_String obj) (SubscribedResource_SetLastState k l) s)"
    by (simp add: set_last_state_def mget_on)
  with s same_but_state [of "ObjectID_String obj" s k l] show ?thesis by (simp add: same_but_def)
qed

lemma notify_visit_notified:
  assumes "notify_visit be partner model builder i v st = Some st1" and "notified vs sub i st" and "v \<in> set vs"
  shows "notified vs sub i st1"
proof -
  obtain handled ds subs g where st: "st = (handled, ds, subs, g)" by (cases st)
  show ?thesis
  proof (cases "v \<in> set handled \<or> read_visit model v = None")
    case True
    with assms(1,2) show ?thesis by (auto simp: st notify_visit_def split: if_splits option.splits)
  next
    case False
    then obtain sv where sv: "v \<notin> set handled" "read_visit model v = Some sv" by auto
    obtain s where s: "mget subs i = Some s" "sub_externalId s = sub_externalId sub" using assms(2) by (auto simp: st notified_def)
    from assms(1) sv s obtain found where f: "SMBroadcaster_findResource partner model (sv_StopAreaId sv) s = Some found"
      by (auto simp: st notify_visit_def bind_Some_iff)
    show ?thesis
    proof (cases found)
      case None
      with assms(1,2) sv s f show ?thesis by (simp add: st notify_visit_def)
    next
      case (Some p)
      obtain obj r where p: "p = (obj, r)" by (rule prod.exhaust)
      let ?k = "oid_value obj" and ?d = "mget_or (new_delivery be (prt_settings partner) s (oid_value obj)) ds (oid_value obj)"
      have d: "delivery_for sub ?k ?d" "delivered_items ?d = (case mget ds ?k of None \<Rightarrow> 0 | Some old \<Rightarrow> delivered_items old)"
        using notified_delivery [OF assms(2) [unfolded st] s(1)] by blast+
      from assms(1) sv s f Some p obtain built g1 where
        b: "SMBroadcaster_handledStopVisitAppend be (builder\<lparr>bsm_MonitoringRef := ?k\<rparr>) model sv ?d g = Some (built, g1)"
        by (auto simp: st notify_visit_def bind_Some_iff Let_def)
      show ?thesis
      proof (cases built)
        case None
        have "notified vs sub i (handled @ [], mput ?k ?d ds, subs, g1)"
          by (rule notified_put [OF assms(2) [unfolded st] d(1)]) (use d(2) s in auto)
        with assms(1) sv s f Some p b None show ?thesis by (simp add: st notify_visit_def Let_def)
      next
        case (Some d1)
        from appended_delivery [OF b [unfolded Some], of sub ?k] d have
          d1: "delivery_for sub ?k d1"
            "delivered_items d1 = (case mget ds ?k of None \<Rightarrow> 0 | Some old \<Rightarrow> delivered_items old) + 1" by simp_all
        let ?subs = "case SubscribedResource_LastState r v of
            Some (StopMonitoringState l) \<Rightarrow> set_last_state i obj v
              (StopMonitoringState (stopMonitoringLastChange_UpdateState sv l)) subs
          | _ \<Rightarrow> subs"
        have "\<exists>s. mget ?subs i = Some s \<and> sub_externalId s = sub_externalId sub"
          using s by (auto intro!: set_last_state_external split: option.splits lastState.splits)
        then have "notified vs sub i (handled @ [v], mput ?k d1 ds, ?subs, g1)"
          by (intro notified_put [OF assms(2) [unfolded st] d1]) (use sv assms(3) in auto)
        with assms(1) sv s f \<open>found = Some p\<close> p b Some show ?thesis by (simp add: st notify_visit_def Let_def)
      qed
    qed
  qed
qed

lemma notify_visits_notified:
  assumes "fold (\<lambda>v acc. Option.bind acc (notify_visit be partner model builder i v)) ws (Some st) = Some st1"
    and "notified vs sub i st" and "set ws \<subseteq> set vs"
  shows "notified vs sub i st1"
  using assms
proof (induction ws arbitrary: st)
  case (Cons w ws)
  obtain st2 where one: "notify_visit be partner model builder i w st = Some st2"
    using Cons.prems(1) by (cases "notify_visit be partner model builder i w st") (auto simp: fold_bind_None)
  have "notified vs sub i st2" by (rule notify_visit_notified [OF one Cons.prems(2)]) (use Cons.prems(3) in simp)
  with Cons one show ?case by simp
qed simp

lemma sum_full: "sum_list (map delivered_items (filter (\<lambda>d. delivered_items d \<noteq> 0) ds)) = sum_list (map delivered_items ds)"
  by (induction ds) auto

text \<open>C23. When the notification of a subscription that exists does not crash, the visits of its queue make at most one
  notification, with at least one delivery and at most one for each thing monitored; each delivery is for that
  subscription and none is empty, and together they hold no more visits than there are different ones in the queue.\<close>

theorem notification_of_queue:
  assumes "notify_subscription be partner model (i, vs) (sent, sg, subs) = Some (sent1, sg1, subs1)"
    and "mget subs i = Some sub"
  shows "sent1 = sent \<or> (\<exists>n. sent1 = sent @ [n] \<and> nsm_Deliveries n \<noteq> [] \<and>
    distinct (map nsd_MonitoringRef (nsm_Deliveries n)) \<and>
    (\<forall>d \<in> set (nsm_Deliveries n). delivered_items d \<noteq> 0 \<and> nsd_Status d \<and> nsd_SubscriptionIdentifier d = sub_externalId sub) \<and>
    sum_list (map delivered_items (nsm_Deliveries n)) \<le> card (set vs))"
proof -
  obtain settings g where sg: "sg = (settings, g)" by (rule prod.exhaust)
  obtain builder s1 where b: "NewBroadcastStopMonitoringBuilder settings SIRI_STOP_MONITORING_SUBSCRIPTION_BROADCASTER = (builder, s1)"
    by (rule prod.exhaust)
  obtain n s2 g2 where n: "new_notification be sub (s1, g) = (n, s2, g2)" by (rule prod_cases3)
  let ?b = "builder\<lparr>bsm_StopVisitTypes := Subscription_SubscriptionOption sub ''StopVisitTypes''\<rparr>"
  obtain handled ds g3 where
    run: "fold (\<lambda>v acc. Option.bind acc (notify_visit be partner model ?b i v)) vs (Some ([], [], subs, g2)) =
      Some (handled, ds, subs1, g3)" and
    sent1: "sent1 = (if filter (\<lambda>d. delivered_items d \<noteq> 0) (mvals ds) \<noteq> []
      then sent @ [n\<lparr>nsm_Deliveries := filter (\<lambda>d. delivered_items d \<noteq> 0) (mvals ds)\<rparr>] else sent)"
    using assms b n by (auto simp: sg notify_subscription_def Let_def bind_Some_iff delivered_items_def split: if_splits)
  have "notified vs sub i (handled, ds, subs1, g3)"
    by (rule notify_visits_notified [OF run]) (use assms(2) in \<open>simp_all add: notified_def delivered_total_def\<close>)
  then have wf: "mwf ds" and all: "\<And>k d. (k, d) \<in> set ds \<Longrightarrow> delivery_for sub k d"
    and total: "sum_list (map delivered_items (mvals ds)) = length handled"
    and handled: "distinct handled" "set handled \<subseteq> set vs"
    by (auto simp: notified_def delivered_total_def)
  have "length handled \<le> card (set vs)"
    using handled distinct_card [of handled] card_mono [of "set vs" "set handled"] by simp
  moreover have "map nsd_MonitoringRef (mvals ds) = mkeys ds" using all by (auto simp: delivery_for_def)
  then have "distinct (map nsd_MonitoringRef (mvals ds))" using wf by (simp only: mwf_def)
  then have "distinct (map nsd_MonitoringRef (filter (\<lambda>d. delivered_items d \<noteq> 0) (mvals ds)))"
    by (rule distinct_map_filter)
  moreover have "nsd_Status d \<and> nsd_SubscriptionIdentifier d = sub_externalId sub" if "d \<in> set (mvals ds)" for d
    using that all by (force simp: delivery_for_def)
  ultimately show ?thesis
    using sent1 sum_full [of "mvals ds"] total by (simp del: set_map)
qed

text \<open>A visit that is over, twice in a queue.\<close>

definition bc_ids :: ObjectIDs where
  "bc_ids = [(''k'', NewObjectID ''k'' ''l'')]"

definition bc_over :: StopVisit where
  "bc_over = (bc_visit ''c'' ''j'')\<lparr>sv_ArrivalStatus := STOP_VISIT_ARRIVAL_CANCELLED\<rparr>"

definition bc_env :: broadcast_env where
  "bc_env = \<lparr>be_now = 7, be_sha1_hex = (\<lambda>x. x), be_day = (\<lambda>_. ''day'')\<rparr>"

lemma bc_over:
  "sv_StopAreaId bc_over = ''a''" "sv_VehicleJourneyId bc_over = ''j''" "sv_ArrivalStatus bc_over = STOP_VISIT_ARRIVAL_CANCELLED"
  "sv_objectids bc_over = [(''k'', NewObjectID ''k'' ''c'')]" "vj_objectids bc_journey = [(''k'', NewObjectID ''k'' ''j'')]"
  by (simp_all add: bc_over_def bc_visit_def bc_journey_def)

lemma bc_ids: "oids_wf bc_ids" "oids_wf []" "Consumer_ObjectID bc_ids ''k'' = Some (NewObjectID ''k'' ''l'')"
  by (simp_all add: bc_ids_def oids_wf_def mwf_def NewObjectID_def Consumer_ObjectID_def)

lemma bc_append:
  assumes "bsm_remoteObjectidKind builder = ''k''"
  shows "\<exists>d1 g1. SMBroadcaster_handledStopVisitAppend be builder (bc_model bc_ids) bc_over d g = Some (Some d1, g1)"
proof -
  have line: "visit_line builder (bc_model bc_ids) bc_over = Some (bc_journey, bc_line bc_ids, ''l'')"
    using assms bc_ids by (simp add: visit_line_def bc_over bc_reads bc_parts) (simp add: NewObjectID_def)
  have ids: "visit_identifiers builder bc_over bc_journey g = (Some (''c'', ''j''), g)"
    using assms by (simp add: visit_identifiers_def BroadcastStopMonitoringBuilder_getItemIdentifier_def
        BroadcastStopMonitoringBuilder_dataVehicleJourneyRef_def reference_or_made_def bc_over Consumer_ObjectID_def)
      (simp add: NewObjectID_def)
  obtain r g1 where "BroadcastStopMonitoringBuilder_dataFrameRef be builder (bc_model bc_ids) bc_over (vj_Origin bc_journey) g = (r, g1)"
    by (rule prod.exhaust)
  then show ?thesis
    by (simp add: SMBroadcaster_handledStopVisitAppend_def bc_over BroadcastStopMonitoringBuilder_BuildCancelledStopVisit_def line ids)
qed

lemma bc_find:
  "SMBroadcaster_findResource bc_partner (bc_model ids) ''a'' (bc_sub i kind ''a'') = Some (Some (NewObjectID ''k'' ''a'', bc_resource []))"
  by (simp add: SMBroadcaster_findResource_def bc_partner bc_ascendants Subscription_Resource_def bc_sub_def)

lemma bc_notify:
  "\<exists>n settings g subs1. notify_subscription bc_env bc_partner (bc_model bc_ids) (''s'', [''c'', ''c''])
     ([], (prt_settings bc_partner, fake_gen True), bc_subs) = Some ([n], (settings, g), subs1)"
proof -
  let ?sub = "bc_sub ''s'' StopMonitoringBroadcast ''a''"
  obtain builder s1 where b: "NewBroadcastStopMonitoringBuilder (prt_settings bc_partner)
      SIRI_STOP_MONITORING_SUBSCRIPTION_BROADCASTER = (builder, s1)" by (rule prod.exhaust)
  obtain n s2 g2 where n: "new_notification bc_env ?sub (s1, fake_gen True) = (n, s2, g2)" by (rule prod_cases3)
  let ?b = "builder\<lparr>bsm_StopVisitTypes := Subscription_SubscriptionOption ?sub ''StopVisitTypes''\<rparr>"
  let ?d = "new_delivery bc_env (prt_settings bc_partner) ?sub ''a''"
  have kind: "bsm_remoteObjectidKind builder = ''k''" using new_builder [OF b] bc_partner by (simp add: remote_kind_def)
  obtain d1 g3 where d1: "SMBroadcaster_handledStopVisitAppend bc_env (?b\<lparr>bsm_MonitoringRef := ''a''\<rparr>) (bc_model bc_ids) bc_over ?d g2 =
      Some (Some d1, g3)" using bc_append [of "?b\<lparr>bsm_MonitoringRef := ''a''\<rparr>" bc_env ?d g2] kind by auto
  have items: "delivered_items d1 \<noteq> 0" using appended_delivery [OF d1] by simp
  have visit: "MemoryStopVisits_Find (mm_stopVisits (bc_model bc_ids)) ''c'' = Some bc_over" using bc_ids by (simp add: bc_reads bc_over_def)
  have val: "oid_value (NewObjectID ''k'' ''a'') = ''a''" by (simp add: NewObjectID_def)
  obtain subs1 where one: "notify_visit bc_env bc_partner (bc_model bc_ids) ?b ''s'' ''c'' ([], [], bc_subs, g2) =
      Some ([''c''], [(''a'', d1)], subs1, g3)"
    using d1 by (simp add: notify_visit_def visit bc_over bc_find val mget_or_def Let_def)
  have "notify_visit bc_env bc_partner (bc_model bc_ids) ?b ''s'' ''c'' ([''c''], [(''a'', d1)], subs1, g3) =
      Some ([''c''], [(''a'', d1)], subs1, g3)" by (simp add: notify_visit_def)
  with one b n items show ?thesis by (simp add: notify_subscription_def delivered_items_def)
qed

theorem notification_of_queue_witness:
  "\<exists>n settings g subs1. notify_subscription bc_env bc_partner (bc_model bc_ids) (''s'', [''c'', ''c''])
     ([], (prt_settings bc_partner, fake_gen True), bc_subs) = Some ([n], (settings, g), subs1) \<and>
     nsm_Deliveries n \<noteq> [] \<and> sum_list (map delivered_items (nsm_Deliveries n)) \<le> 1"
proof -
  from bc_notify obtain n settings g subs1 where n: "notify_subscription bc_env bc_partner (bc_model bc_ids) (''s'', [''c'', ''c''])
     ([], (prt_settings bc_partner, fake_gen True), bc_subs) = Some ([n], (settings, g), subs1)" by blast
  from notification_of_queue [OF n] show ?thesis using n by simp
qed


end
