(* ===== verification/TimetableProps.thy ===== *)
theory TimetableProps
  imports BroadcastTicks
begin

text \<open>
  Properties of the broadcasting of estimated timetables: one delivery for each subscription that is known, unless a
  visit of an unknown journey is met, and the map of lost partners before the first tick.
\<close>

section \<open>What a tick keeps of the subscriptions\<close>

definition external_ids :: "MemorySubscriptions \<Rightarrow> SubscriptionId \<Rightarrow> string option" where
  "external_ids subs i = map_option sub_externalId (mget subs i)"

lemma external_ids_state: "external_ids (set_last_state i obj k l subs) = external_ids subs"
proof
  fix j
  show "external_ids (set_last_state i obj k l subs) j = external_ids subs j"
  proof -
    have "sub_externalId (on_resource key f s) = sub_externalId s" for key f s
      by (simp add: on_resource_def split: option.split)
    then show ?thesis
      by (cases "mget subs j"; cases "j = i") (simp_all add: external_ids_def set_last_state_def mget_on)
  qed
qed

lemma update_timetable_external:
  "update_timetable_state i obj r sv subs = Some subs1 \<Longrightarrow> external_ids subs1 = external_ids subs"
  by (auto simp: update_timetable_state_def external_ids_state split: option.splits lastState.splits)

text \<open>A visit whose stop area can be named, of a journey that is not known.\<close>

definition lacks_journey :: "Partner \<Rightarrow> MemoryModel \<Rightarrow> StopVisitId \<Rightarrow> bool" where
  "lacks_journey partner model v \<longleftrightarrow> (\<exists>sv place. read_visit model v = Some sv \<and>
     SIRIEstimatedTimeTableSubscriptionBroadcaster_stopPointRef partner model (sv_StopAreaId sv) = Some (Some place) \<and>
     read_journey model (sv_VehicleJourneyId sv) = None)"

lemma timetable_journey_processed:
  assumes "timetable_journey be partner model sv vj l r (t, sg) = Some (made, t1, sg1)"
  shows "tt_processed t1 = tt_processed t"
  using assms
  by (auto simp: timetable_journey_def Let_def bind_Some_iff split: if_splits option.splits prod.splits)

text \<open>A visit ends the routine exactly when it lacks its journey; otherwise it leaves the external identifiers as
  they are, and is all that can be added to what has been processed.\<close>

lemma timetable_visit_spec:
  assumes "timetable_visit be partner model i v (t, sg, subs) = Some (goes_on, t1, sg1, subs1)"
  shows "goes_on \<longleftrightarrow> v \<in> set (tt_processed t) \<or> \<not> lacks_journey partner model v"
    and "external_ids subs1 = external_ids subs"
    and "set (tt_processed t1) \<subseteq> insert v (set (tt_processed t))"
    and "lacks_journey partner model v \<Longrightarrow> tt_processed t1 = tt_processed t"
proof -
  have "(goes_on \<longleftrightarrow> v \<in> set (tt_processed t) \<or> \<not> lacks_journey partner model v) \<and>
    external_ids subs1 = external_ids subs \<and> set (tt_processed t1) \<subseteq> insert v (set (tt_processed t)) \<and>
    (lacks_journey partner model v \<longrightarrow> tt_processed t1 = tt_processed t)"
  proof (cases "v \<in> set (tt_processed t) \<or> read_visit model v = None")
    case True
    with assms show ?thesis by (auto simp: timetable_visit_def lacks_journey_def split: if_splits option.splits)
  next
    case False
    then obtain sv where sv: "v \<notin> set (tt_processed t)" "read_visit model v = Some sv" by auto
    from assms sv obtain place where
      place: "SIRIEstimatedTimeTableSubscriptionBroadcaster_stopPointRef partner model (sv_StopAreaId sv) = Some place"
      by (auto simp: timetable_visit_def bind_Some_iff)
    show ?thesis
    proof (cases "place = None \<or> read_journey model (sv_VehicleJourneyId sv) = None")
      case True
      with assms sv place show ?thesis
        by (auto simp: timetable_visit_def lacks_journey_def split: option.splits)
    next
      case False
      then obtain sa said vj where some: "place = Some (sa, said)" "read_journey model (sv_VehicleJourneyId sv) = Some vj"
        by (cases place) auto
      have "\<not> lacks_journey partner model v" using sv some by (auto simp: lacks_journey_def)
      with assms sv place some show ?thesis
        by (auto simp: timetable_visit_def bind_Some_iff add_call_def
            dest!: timetable_journey_processed update_timetable_external split: option.splits if_splits)
    qed
  qed
  then show "goes_on \<longleftrightarrow> v \<in> set (tt_processed t) \<or> \<not> lacks_journey partner model v"
    "external_ids subs1 = external_ids subs" "set (tt_processed t1) \<subseteq> insert v (set (tt_processed t))"
    "lacks_journey partner model v \<Longrightarrow> tt_processed t1 = tt_processed t" by blast+
qed

definition none_lacking :: "Partner \<Rightarrow> MemoryModel \<Rightarrow> timetable \<Rightarrow> bool" where
  "none_lacking partner model t \<longleftrightarrow> (\<forall>v \<in> set (tt_processed t). \<not> lacks_journey partner model v)"

lemma timetable_visit_none_lacking:
  assumes "timetable_visit be partner model i v (t, sg, subs) = Some (goes_on, t1, sg1, subs1)" and "none_lacking partner model t"
  shows "none_lacking partner model t1 \<and> (goes_on \<longleftrightarrow> \<not> lacks_journey partner model v)"
  using timetable_visit_spec [OF assms(1)] assms(2) unfolding none_lacking_def by (metis insertE subsetD)

lemma timetable_visits_spec:
  assumes "timetable_visits be partner model i vs (t, sg, subs) = Some (goes_on, t1, sg1, subs1)" and "none_lacking partner model t"
  shows "(goes_on \<longleftrightarrow> (\<forall>v \<in> set vs. \<not> lacks_journey partner model v)) \<and> external_ids subs1 = external_ids subs"
  using assms
proof (induction vs arbitrary: t sg subs)
  case (Cons v vs)
  obtain on t2 sg2 subs2 where one: "timetable_visit be partner model i v (t, sg, subs) = Some (on, t2, sg2, subs2)"
    using Cons.prems(1) by (auto simp: bind_Some_iff)
  note step = timetable_visit_none_lacking [OF one Cons.prems(2)] timetable_visit_spec(2) [OF one]
  show ?case
  proof (cases on)
    case True
    with Cons.prems(1) one have "timetable_visits be partner model i vs (t2, sg2, subs2) = Some (goes_on, t1, sg1, subs1)" by simp
    with Cons.IH [of t2 sg2 subs2] step True show ?thesis by simp
  next
    case False
    with Cons.prems(1) one step show ?thesis by auto
  qed
qed simp

section \<open>The deliveries of a tick\<close>

text \<open>An entry of the queue that can be gone through: its subscription is not known, or all its visits have their journeys.\<close>

definition passable :: "Partner \<Rightarrow> MemoryModel \<Rightarrow> MemorySubscriptions \<Rightarrow> SubscriptionId \<times> StopVisitId list \<Rightarrow> bool" where
  "passable partner model subs entry \<longleftrightarrow>
     external_ids subs (fst entry) = None \<or> (\<forall>v \<in> set (snd entry). \<not> lacks_journey partner model v)"

lemma passable_external: "external_ids subs1 = external_ids subs \<Longrightarrow> passable partner model subs1 = passable partner model subs"
  by (simp add: passable_def fun_eq_iff)

lemma timetable_events_spec:
  assumes "timetable_events be partner model events (sent, sg, subs) = Some (sent1, sg1, subs1)"
  shows "\<exists>ds. sent1 = sent @ ds \<and> list_all net_Status ds \<and>
    map net_SubscriptionIdentifier ds =
      List.map_filter (\<lambda>entry. external_ids subs (fst entry)) (takeWhile (passable partner model subs) events)"
  using assms
proof (induction events arbitrary: sent sg subs)
  case Nil
  then show ?case by (simp add: map_filter_def)
next
  case (Cons p events)
  obtain i vs where p: "p = (i, vs)" by (rule prod.exhaust)
  show ?case
  proof (cases "mget subs i")
    case None
    with Cons.prems p have "timetable_events be partner model events (sent, sg, subs) = Some (sent1, sg1, subs1)" by simp
    from Cons.IH [OF this] None p show ?thesis by (simp add: passable_def external_ids_def map_filter_simps)
  next
    case (Some sub)
    obtain d settings2 g2 where d: "new_timetable_delivery be sub sg = (d, settings2, g2)" by (rule prod_cases3)
    have fields: "net_Status d" "net_SubscriptionIdentifier d = sub_externalId sub"
      using d by (auto simp: new_timetable_delivery_def split: prod.splits)
    let ?t = "\<lparr>tt_processed = [], tt_lines = [], tt_vehicleJourneys = []\<rparr>"
    from Cons.prems Some p d obtain on t sg3 subs3 where
      run: "timetable_visits be partner model i vs (?t, (settings2, g2), subs) = Some (on, t, sg3, subs3)"
      by (auto simp: bind_Some_iff Let_def)
    have spec: "on \<longleftrightarrow> (\<forall>v \<in> set vs. \<not> lacks_journey partner model v)" "external_ids subs3 = external_ids subs"
      using timetable_visits_spec [OF run] by (simp_all add: none_lacking_def)
    show ?thesis
    proof (cases on)
      case True
      let ?d = "d\<lparr>net_EstimatedJourneyVersionFrames := timetable_frames (be_now be) t\<rparr>"
      from Cons.prems Some p d run True
      have "timetable_events be partner model events (sent @ [?d], sg3, subs3) = Some (sent1, sg1, subs1)" by simp
      from Cons.IH [OF this] obtain ds where ds: "sent1 = (sent @ [?d]) @ ds" "list_all net_Status ds"
        "map net_SubscriptionIdentifier ds =
          List.map_filter (\<lambda>entry. external_ids subs (fst entry)) (takeWhile (passable partner model subs) events)"
        unfolding spec(2) passable_external [OF spec(2)] by blast
      have "passable partner model subs p" using True spec(1) p by (simp add: passable_def)
      moreover have "external_ids subs (fst p) = Some (sub_externalId sub)" using Some p by (simp add: external_ids_def)
      ultimately show ?thesis using ds fields by (intro exI [of _ "?d # ds"]) (simp add: map_filter_simps)
    next
      case False
      have "\<not> passable partner model subs p" using False spec(1) p Some by (simp add: passable_def external_ids_def)
      moreover have "sent1 = sent" using Cons.prems Some p d run False by simp
      ultimately show ?thesis by (simp add: map_filter_def)
    qed
  qed
qed

lemma timetable_events_external:
  assumes "timetable_events be partner model events (sent, sg, subs) = Some (sent1, sg1, subs1)"
  shows "external_ids subs1 = external_ids subs"
  using assms
proof (induction events arbitrary: sent sg subs)
  case (Cons p events)
  obtain i vs where p: "p = (i, vs)" by (rule prod.exhaust)
  show ?case
  proof (cases "mget subs i")
    case None
    with Cons p show ?thesis by simp
  next
    case (Some sub)
    obtain d settings2 g2 where d: "new_timetable_delivery be sub sg = (d, settings2, g2)" by (rule prod_cases3)
    from Cons.prems Some p d obtain on t sg3 subs3 where
      run: "timetable_visits be partner model i vs (\<lparr>tt_processed = [], tt_lines = [], tt_vehicleJourneys = []\<rparr>,
        (settings2, g2), subs) = Some (on, t, sg3, subs3)"
      by (auto simp: bind_Some_iff Let_def)
    have "external_ids subs3 = external_ids subs" using timetable_visits_spec [OF run] by (simp add: none_lacking_def)
    moreover have "external_ids subs1 = external_ids subs3"
      using Cons.IH Cons.prems Some p d run by (cases on) auto
    ultimately show ?thesis by simp
  qed
qed simp

text \<open>C16. When the tick does not crash, it empties the queue and sends one delivery for each subscription that is known, in
  the order in which the queue's map is visited and even when there is nothing in it, up to the first known subscription
  with a visit that is stored, whose stop area can be named, and whose journey is not stored: that one and all that
  follow it get no delivery, though their visits have left the queue.\<close>

theorem timetable_deliveries:
  assumes "ETTBroadcaster_prepareSIRIEstimatedTimeTable be partner model (sent, sg, subs, connector) =
    Some (sent1, sg1, subs1, connector1)"
  shows "connector1 = connector\<lparr>ettsb_toBroadcast := []\<rparr> \<and> external_ids subs1 = external_ids subs \<and>
    (\<exists>ds. sent1 = sent @ ds \<and> list_all net_Status ds \<and>
      map net_SubscriptionIdentifier ds = List.map_filter (\<lambda>entry. external_ids subs (fst entry))
        (takeWhile (passable partner model subs) (ettsb_toBroadcast connector)))"
proof -
  from assms have run: "timetable_events be partner model (ettsb_toBroadcast connector) (sent, sg, subs) = Some (sent1, sg1, subs1)"
    and c: "connector1 = connector\<lparr>ettsb_toBroadcast := []\<rparr>"
    by (auto simp: ETTBroadcaster_prepareSIRIEstimatedTimeTable_def bind_Some_iff)
  with timetable_events_spec [OF run] timetable_events_external [OF run] show ?thesis by blast
qed

abbreviation bc_lines :: MemorySubscriptions where
  "bc_lines \<equiv> [(''s'', bc_sub ''s'' EstimatedTimeTableBroadcast ''l''), (''t'', bc_sub ''t'' EstimatedTimeTableBroadcast ''l''),
     (''u'', bc_sub ''u'' EstimatedTimeTableBroadcast ''l'')]"

definition bc_queue :: SIRIEstimatedTimeTableSubscriptionBroadcaster where
  "bc_queue = \<lparr>ettsb_toBroadcast = [(''t'', []), (''s'', [''w'']), (''u'', [])], ettsb_notMonitored = None\<rparr>"

lemma bc_lacking:
  "read_visit (bc_model bc_ids) ''w'' = Some (bc_visit ''w'' ''gone'')"
  "SIRIEstimatedTimeTableSubscriptionBroadcaster_stopPointRef bc_partner (bc_model bc_ids) ''a'' = Some (Some (bc_area, ''a''))"
  "read_journey (bc_model bc_ids) ''gone'' = None"
  "lacks_journey bc_partner (bc_model bc_ids) ''w''"
proof -
  show v: "read_visit (bc_model bc_ids) ''w'' = Some (bc_visit ''w'' ''gone'')" using bc_ids(1) by (simp add: bc_reads)
  show p: "SIRIEstimatedTimeTableSubscriptionBroadcaster_stopPointRef bc_partner (bc_model bc_ids) ''a'' = Some (Some (bc_area, ''a''))"
    using bc_ids(1) by (simp add: SIRIEstimatedTimeTableSubscriptionBroadcaster_stopPointRef_def bc_reads bc_partner bc_parts
        Consumer_ObjectID_def) (simp add: NewObjectID_def)
  show j: "read_journey (bc_model bc_ids) ''gone'' = None" using bc_ids(1) by (simp add: bc_reads)
  show "lacks_journey bc_partner (bc_model bc_ids) ''w''" unfolding lacks_journey_def
    by (rule exI [of _ "bc_visit ''w'' ''gone''"], rule exI [of _ "(bc_area, ''a'')"]) (use v p j in \<open>simp add: bc_parts\<close>)
qed

theorem timetable_deliveries_witness:
  "\<exists>d sg. ETTBroadcaster_prepareSIRIEstimatedTimeTable bc_env bc_partner (bc_model bc_ids)
      ([], (prt_settings bc_partner, fake_gen True), bc_lines, bc_queue) =
    Some ([d], sg, bc_lines, bc_queue\<lparr>ettsb_toBroadcast := []\<rparr>) \<and> net_SubscriptionIdentifier d = ''xt''"
proof -
  let ?s = "bc_sub ''s'' EstimatedTimeTableBroadcast ''l''" and ?t = "bc_sub ''t'' EstimatedTimeTableBroadcast ''l''"
  obtain d1 s1 g1 where d1: "new_timetable_delivery bc_env ?t (prt_settings bc_partner, fake_gen True) = (d1, s1, g1)"
    by (rule prod_cases3)
  obtain d2 s2 g2 where d2: "new_timetable_delivery bc_env ?s (s1, g1) = (d2, s2, g2)" by (rule prod_cases3)
  let ?d = "d1\<lparr>net_EstimatedJourneyVersionFrames := []\<rparr>"
  have "timetable_visit bc_env bc_partner (bc_model bc_ids) ''s'' ''w''
      (\<lparr>tt_processed = [], tt_lines = [], tt_vehicleJourneys = []\<rparr>, (s2, g2), bc_lines) =
    Some (False, \<lparr>tt_processed = [], tt_lines = [], tt_vehicleJourneys = []\<rparr>, (s2, g2), bc_lines)"
    using bc_lacking(1-3) by (simp add: timetable_visit_def bc_parts)
  then have run: "ETTBroadcaster_prepareSIRIEstimatedTimeTable bc_env bc_partner (bc_model bc_ids)
      ([], (prt_settings bc_partner, fake_gen True), bc_lines, bc_queue) =
    Some ([?d], (s2, g2), bc_lines, bc_queue\<lparr>ettsb_toBroadcast := []\<rparr>)"
    using d1 d2 by (simp add: ETTBroadcaster_prepareSIRIEstimatedTimeTable_def bc_queue_def timetable_frames_def)
  have queue: "takeWhile (passable bc_partner (bc_model bc_ids) bc_lines) (ettsb_toBroadcast bc_queue) = [(''t'', [])]"
    using bc_lacking(4) by (simp add: bc_queue_def passable_def external_ids_def)
  have "external_ids bc_lines ''t'' = Some ''xt''" by (simp add: external_ids_def bc_sub_def)
  with timetable_deliveries [OF run] have "net_SubscriptionIdentifier ?d = ''xt''"
    unfolding queue by (simp add: map_filter_simps)
  with run show ?thesis by blast
qed

end
