(* ===== verification/Guardians.thy ===== *)
theory Guardians
  imports Collecting
begin

text \<open>
  What a referential does by itself: the guardian of its model (\<^verbatim>\<open>core/model_guardian.go\<close>) refreshes the stop
  areas and lines that are due, simulates the visits that are not collected and asks for situations; the guardian
  of its partners (\<^verbatim>\<open>core/partner_guardian.go\<close>) checks their status, ends their subscriptions and discovers their
  stop areas.

  A guardian recovers from a panic and ends its task; here the task is \<^const>\<open>None\<close>, and what it had done is not
  followed. The random numbers are a function of the object they are drawn for.
\<close>

section \<open>Simulation of the visits that are not collected\<close>

definition STOP_VISIT_ARRIVAL_ONTIME :: StopVisitArrivalStatus where "STOP_VISIT_ARRIVAL_ONTIME = ''onTime''"
definition STOP_VISIT_ARRIVAL_EARLY :: StopVisitArrivalStatus where "STOP_VISIT_ARRIVAL_EARLY = ''early''"
definition STOP_VISIT_ARRIVAL_DELAYED :: StopVisitArrivalStatus where "STOP_VISIT_ARRIVAL_DELAYED = ''delayed''"
definition STOP_VISIT_DEPARTURE_ONTIME :: StopVisitDepartureStatus where "STOP_VISIT_DEPARTURE_ONTIME = ''onTime''"
definition STOP_VISIT_DEPARTURE_EARLY :: StopVisitDepartureStatus where "STOP_VISIT_DEPARTURE_EARLY = ''early''"
definition STOP_VISIT_DEPARTURE_DELAYED :: StopVisitDepartureStatus where "STOP_VISIT_DEPARTURE_DELAYED = ''delayed''"

definition simulator_ArrivalTime :: "StopVisit \<Rightarrow> gotime" where
  "simulator_ArrivalTime stopVisit =
     Schedules_ArrivalTimeFromKind (sv_Schedules stopVisit) (Some [''expected'', ''aimed''])"

definition simulator_DepartureTime :: "StopVisit \<Rightarrow> gotime" where
  "simulator_DepartureTime stopVisit =
     Schedules_DepartureTimeFromKind (sv_Schedules stopVisit) (Some [''expected'', ''aimed''])"

definition CanArrive :: "StopVisit \<Rightarrow> bool" where
  "CanArrive stopVisit \<longleftrightarrow> sv_ArrivalStatus stopVisit \<in>
     {STOP_VISIT_ARRIVAL_ONTIME, STOP_VISIT_ARRIVAL_EARLY, STOP_VISIT_ARRIVAL_DELAYED}"

definition CanDepart :: "StopVisit \<Rightarrow> bool" where
  "CanDepart stopVisit \<longleftrightarrow> sv_DepartureStatus stopVisit \<in>
     {STOP_VISIT_DEPARTURE_ONTIME, STOP_VISIT_DEPARTURE_EARLY, STOP_VISIT_DEPARTURE_DELAYED}"

definition simulateArrival :: "gotime \<Rightarrow> StopVisit \<Rightarrow> bool \<times> StopVisit" where
  "simulateArrival now stopVisit =
     (if now > simulator_ArrivalTime stopVisit \<and> CanArrive stopVisit
      then (let arrived = stopVisit\<lparr>sv_ArrivalStatus := STOP_VISIT_ARRIVAL_CANCELLED,
                  sv_Schedules := Schedules_SetArrivalTime STOP_VISIT_SCHEDULE_ACTUAL (simulator_ArrivalTime stopVisit)
                    (sv_Schedules stopVisit)\<rparr>
            in (True, if \<not> now > simulator_DepartureTime arrived then arrived\<lparr>sv_VehicleAtStop := True\<rparr> else arrived))
      else (False, stopVisit))"

definition simulateDeparture :: "gotime \<Rightarrow> StopVisit \<Rightarrow> bool \<times> StopVisit" where
  "simulateDeparture now stopVisit =
     (if now > simulator_DepartureTime stopVisit \<and> CanDepart stopVisit
      then (True, stopVisit\<lparr>sv_DepartureStatus := STOP_VISIT_DEPARTURE_CANCELLED,
              sv_Schedules := Schedules_SetDepartureTime STOP_VISIT_SCHEDULE_ACTUAL (simulator_DepartureTime stopVisit)
                (sv_Schedules stopVisit),
              sv_VehicleAtStop := False\<rparr>)
      else (False, stopVisit))"

definition ActualAttributesSimulator_Simulate :: "gotime \<Rightarrow> StopVisit \<Rightarrow> bool \<times> StopVisit" where
  "ActualAttributesSimulator_Simulate now stopVisit =
     (if sv_collected stopVisit then (False, stopVisit)
      else (case simulateArrival now stopVisit of
              (True, arrived) \<Rightarrow> (True, arrived)
            | (False, same) \<Rightarrow> simulateDeparture now same))"

text \<open>The copy is found through the outer transaction and saved through its own pointer to the model; the inner
  transaction has nothing to commit.\<close>

definition simulate_visit :: "gotime \<Rightarrow> StopVisit \<Rightarrow> uuid_gen \<times> MemoryModel \<Rightarrow> (uuid_gen \<times> MemoryModel) option" where
  "simulate_visit now stopVisit st =
     (case st of (g, model) \<Rightarrow>
        if sv_collected stopVisit then Some (g, model)
        else
          (let tx = NewTransactionalModel model;
               found = (case TransactionalStopVisits_Find (tm_stopVisits tx) (mm_stopVisits model) (sv_id stopVisit) of
                          Some visit \<Rightarrow> visit
                        | None \<Rightarrow> (NewStopVisit NilModel));
               (changed, visit) = ActualAttributesSimulator_Simulate now found
           in if \<not> changed then Some (g, model)
              else (case sv_model visit of
                      NilModel \<Rightarrow> None
                    | TheModel \<Rightarrow>
                        (let (g1, _, stopVisits) = MemoryStopVisits_Save g visit (mm_stopVisits model)
                         in Some (TransactionalModel_Commit g1 tx
                              (MemoryModel_deliver (model\<lparr>mm_stopVisits := stopVisits\<rparr>)))))))"

definition simulateActualAttributes :: "gotime \<Rightarrow> world \<Rightarrow> world option" where
  "simulateActualAttributes now s =
     (case s of (g, r) \<Rightarrow> do {
        (g1, model) \<leftarrow> fold (\<lambda>stopVisit acc. Option.bind acc (simulate_visit now stopVisit))
          (TransactionalStopVisits_FindAll (tm_stopVisits (NewTransactionalModel (rf_model r))) (mm_stopVisits (rf_model r)))
          (Some (g, rf_model r));
        Some (g1, r\<lparr>rf_model := model\<rparr>) })"

section \<open>Refreshing stop areas and lines\<close>

text \<open>The time until the next collect: between 40 and 60 seconds.\<close>

definition next_collect_in :: "(string \<Rightarrow> int) \<Rightarrow> string \<Rightarrow> int" where
  "next_collect_in rand_20 i = seconds (rand_20 i + 40)"

definition must_refresh :: "gotime \<Rightarrow> MemoryModel \<Rightarrow> StopArea \<Rightarrow> bool option" where
  "must_refresh now model stopArea =
     do { skipped \<leftarrow> (if sa_ParentId stopArea \<noteq> ''''
                      then map_option (\<lambda>parent. case parent of Some p \<Rightarrow> \<not> sa_CollectChildren p | None \<Rightarrow> False)
                             (StopArea_Parent (mm_stopAreas model) stopArea)
                      else Some False);
          Some (\<not> skipped \<and> (sa_CollectedAlways stopArea \<or> sa_CollectedUntil stopArea > now) \<and>
            sa_nextCollectAt stopArea < now) }"

definition plan_stop_area ::
  "(string \<Rightarrow> int) \<Rightarrow> gotime \<Rightarrow> StopArea \<Rightarrow> uuid_gen \<times> MemoryModel \<Rightarrow> (uuid_gen \<times> MemoryModel) option" where
  "plan_stop_area rand_20 now stopArea st =
     (case st of (g, model) \<Rightarrow>
        (let tx = NewTransactionalModel model
         in case TransactionalStopAreas_Find (tm_stopAreas tx) (mm_stopAreas model) (sa_id stopArea) of
              None \<Rightarrow> None
            | Some found \<Rightarrow>
                (case sa_model found of
                   NilModel \<Rightarrow> None
                 | TheModel \<Rightarrow>
                     (let (g1, _, stopAreas) = MemoryStopAreas_Save g
                            (StopArea_NextCollect (now + next_collect_in rand_20 (sa_id stopArea)) found) (mm_stopAreas model)
                      in Some (TransactionalModel_Commit g1 tx
                           (MemoryModel_deliver (model\<lparr>mm_stopAreas := stopAreas\<rparr>)))))))"

text \<open>Every request has an identifier of its own, which is only logged.\<close>

definition new_request :: "world \<Rightarrow> world" where
  "new_request s = (snd (NewUUID (fst s)), snd s)"

definition refresh_stop_area :: "'n remote \<Rightarrow> (string \<Rightarrow> int) \<Rightarrow> StopArea \<Rightarrow> world \<Rightarrow> world option" where
  "refresh_stop_area rm rand_20 stopArea s = do {
     due \<leftarrow> must_refresh (rm_now rm) (rf_model (snd s)) stopArea;
     if \<not> due then Some s
     else do {
       (g, model) \<leftarrow> plan_stop_area rand_20 (rm_now rm) stopArea (fst s, rf_model (snd s));
       s1 \<leftarrow> CollectManager_UpdateStopArea rm (sa_id stopArea) (new_request (g, (snd s)\<lparr>rf_model := model\<rparr>));
       if sa_CollectGeneralMessages stopArea
       then CollectManager_UpdateSituation rm SITUATION_UPDATE_REQUEST_STOP_AREA (sa_id stopArea) (new_request s1)
       else Some s1 } }"

definition refreshStopAreas :: "'n remote \<Rightarrow> (string \<Rightarrow> int) \<Rightarrow> world \<Rightarrow> world option" where
  "refreshStopAreas rm rand_20 s =
     fold (\<lambda>stopArea acc. Option.bind acc (refresh_stop_area rm rand_20 stopArea))
       (TransactionalStopAreas_FindAll (tm_stopAreas (NewTransactionalModel (rf_model (snd s)))) (mm_stopAreas (rf_model (snd s))))
       (Some s)"

definition plan_line ::
  "(string \<Rightarrow> int) \<Rightarrow> gotime \<Rightarrow> Line \<Rightarrow> uuid_gen \<times> MemoryModel \<Rightarrow> (uuid_gen \<times> MemoryModel) option" where
  "plan_line rand_20 now line st =
     (case st of (g, model) \<Rightarrow>
        (let tx = NewTransactionalModel model
         in case TransactionalLines_Find (tm_lines tx) (mm_lines model) (line_id line) of
              None \<Rightarrow> None
            | Some found \<Rightarrow>
                (case line_model found of
                   NilModel \<Rightarrow> None
                 | TheModel \<Rightarrow>
                     (let (g1, _, lines) = MemoryLines_Save g
                            (Line_NextCollect (now + next_collect_in rand_20 (line_id line)) found) (mm_lines model)
                      in Some (TransactionalModel_Commit g1 tx (model\<lparr>mm_lines := lines\<rparr>))))))"

definition refresh_line :: "'n remote \<Rightarrow> (string \<Rightarrow> int) \<Rightarrow> Line \<Rightarrow> world \<Rightarrow> world option" where
  "refresh_line rm rand_20 line s =
     (if \<not> line_CollectGeneralMessages line \<or> \<not> line_nextCollectAt line < rm_now rm then Some s
      else do {
        (g, model) \<leftarrow> plan_line rand_20 (rm_now rm) line (fst s, rf_model (snd s));
        CollectManager_UpdateSituation rm SITUATION_UPDATE_REQUEST_LINE (line_id line)
          (new_request (g, (snd s)\<lparr>rf_model := model\<rparr>)) })"

definition refreshLines :: "'n remote \<Rightarrow> (string \<Rightarrow> int) \<Rightarrow> world \<Rightarrow> world option" where
  "refreshLines rm rand_20 s =
     fold (\<lambda>line acc. Option.bind acc (refresh_line rm rand_20 line))
       (TransactionalLines_FindAll (tm_lines (NewTransactionalModel (rf_model (snd s)))) (mm_lines (rf_model (snd s))))
       (Some s)"

definition requestSituations :: "'n remote \<Rightarrow> world \<Rightarrow> world option" where
  "requestSituations rm s =
     (if rm_now rm < rf_gmTimer (snd s) + minutes 1 then Some s
      else CollectManager_UpdateSituation rm SITUATION_UPDATE_REQUEST_ALL ''''
             (new_request (fst s, (snd s)\<lparr>rf_gmTimer := rf_gmTimer (snd s) + minutes 1\<rparr>)))"

text \<open>One visit of the guardian; the result says whether it has reloaded the model, and ended.\<close>

definition ModelGuardian_visit ::
  "surroundings \<Rightarrow> 'n remote \<Rightarrow> (string \<Rightarrow> int) \<Rightarrow> world \<Rightarrow> (bool \<times> world) option" where
  "ModelGuardian_visit env rm rand_20 s = do {
     (reloaded, r) \<leftarrow> ModelGuardian_checkReloadModel env (snd s);
     if reloaded then Some (True, fst s, r)
     else do {
       s1 \<leftarrow> refreshStopAreas rm rand_20 (fst s, r);
       s2 \<leftarrow> refreshLines rm rand_20 s1;
       s3 \<leftarrow> simulateActualAttributes (rm_now rm) s2;
       s4 \<leftarrow> requestSituations rm s3;
       Some (False, s4) } }"

section \<open>The status of partners\<close>

record SIRICheckStatusRequest =
  csr_MessageIdentifier :: string
  csr_RequestorRef :: string
  csr_RequestTimestamp :: gotime

record SIRIStopPointsDiscoveryRequest =
  spd_MessageIdentifier :: string
  spd_RequestorRef :: string
  spd_RequestTimestamp :: gotime

text \<open>The answers of the partners, and the status that a test client holds.\<close>

record 'n answers =
  an_CheckStatus :: "PartnerId \<Rightarrow> SIRICheckStatusRequest \<Rightarrow> 'n option"
  an_StopDiscovery :: "PartnerId \<Rightarrow> SIRIStopPointsDiscoveryRequest \<Rightarrow> 'n option"
  an_test_status :: "PartnerId \<Rightarrow> PartnerStatus"

text \<open>A zone allocated for the time of the answer is at another address than that of the time the partner holds,
  which is in use: these two are compared.\<close>

definition free_address :: "stamp \<Rightarrow> nat" where
  "free_address held = (case stamp_location held of FixedZone a _ \<Rightarrow> Suc a | _ \<Rightarrow> 0)"

definition SIRICheckStatusClient_Status ::
  "'n remote \<Rightarrow> 'n answers \<Rightarrow> Partner \<Rightarrow> world \<Rightarrow> PartnerStatus \<times> world" where
  "SIRICheckStatusClient_Status rm an partner s =
     (let (i, s1) = new_message_identifier partner s;
          request = \<lparr>csr_MessageIdentifier = i, csr_RequestorRef = PartnerSettings_ProducerRef (prt_settings partner),
                     csr_RequestTimestamp = rm_now rm\<rparr>
      in case an_CheckStatus an (prt_id partner) request of
           None \<Rightarrow> (\<lparr>pst_OperationnalStatus = OPERATIONNAL_STATUS_UNKNOWN, pst_ServiceStartedAt = zero_stamp\<rparr>, s1)
         | Some document \<Rightarrow>
             (let response = new_structure document
              in (\<lparr>pst_OperationnalStatus = (if read_of XMLStatus_Status (rm_gk rm) response
                     then OPERATIONNAL_STATUS_UP else OPERATIONNAL_STATUS_DOWN),
                   pst_ServiceStartedAt = read_of
                     (XMLCheckStatusResponse_ServiceStartedTime (rm_zone rm)
                       (free_address (pst_ServiceStartedAt (prt_PartnerStatus partner)))) (rm_gk rm) response\<rparr>, s1)))"

definition Partner_checkPushStatus :: "gotime \<Rightarrow> Partner \<Rightarrow> PartnerStatus" where
  "Partner_checkPushStatus now partner =
     \<lparr>pst_OperationnalStatus =
        (if prt_lastPush partner < now - minutes 5 then OPERATIONNAL_STATUS_DOWN else OPERATIONNAL_STATUS_UP),
      pst_ServiceStartedAt = zero_stamp\<rparr>"

definition Partner_CheckStatus ::
  "'n remote \<Rightarrow> 'n answers \<Rightarrow> Partner \<Rightarrow> world \<Rightarrow> PartnerStatus \<times> world" where
  "Partner_CheckStatus rm an partner s =
     (case Partner_CheckStatusClient partner of
        None \<Rightarrow>
          (if \<not> Partner_hasPushCollector partner
           then (\<lparr>pst_OperationnalStatus = OPERATIONNAL_STATUS_UNKNOWN, pst_ServiceStartedAt = zero_stamp\<rparr>, s)
           else (Partner_checkPushStatus (rm_now rm) partner, s))
      | Some client \<Rightarrow>
          (if client = SIRI_CHECK_STATUS_CLIENT_TYPE then SIRICheckStatusClient_Status rm an partner s
           else (an_test_status an (prt_id partner), s)))"

text \<open>What the guardian makes of a status, for the partner itself.\<close>

definition take_status :: "PartnerStatus \<Rightarrow> Partner \<Rightarrow> bool \<times> Partner" where
  "take_status status partner =
     (if pst_OperationnalStatus status = OPERATIONNAL_STATUS_UP \<and>
         pst_ServiceStartedAt status \<noteq> pst_ServiceStartedAt (prt_PartnerStatus partner)
      then (False, partner\<lparr>prt_PartnerStatus := status,
              prt_subscriptions := MemorySubscriptions_CancelSubscriptions (prt_subscriptions partner),
              prt_lastDiscovery := 0\<rparr>)
      else if pst_OperationnalStatus status = OPERATIONNAL_STATUS_UNKNOWN \<or>
              pst_OperationnalStatus status = OPERATIONNAL_STATUS_DOWN
      then (let collectPersistent = ParseBool (Partner_Setting partner COLLECT_SUBSCRIPTIONS_PERSISTENT);
                broadcastPersistent = ParseBool (Partner_Setting partner BROADCAST_SUBSCRIPTIONS_PERSISTENT);
                subscriptions1 = (if \<not> collectPersistent
                  then MemorySubscriptions_CancelCollectSubscriptions (prt_subscriptions partner)
                  else prt_subscriptions partner);
                subscriptions2 = (if \<not> broadcastPersistent
                  then MemorySubscriptions_CancelBroadcastSubscriptions subscriptions1 else subscriptions1)
            in (collectPersistent \<or> broadcastPersistent,
                partner\<lparr>prt_PartnerStatus := (prt_PartnerStatus partner)\<lparr>pst_OperationnalStatus := pst_OperationnalStatus status\<rparr>,
                  prt_lastDiscovery := 0, prt_subscriptions := subscriptions2\<rparr>))
      else (True, partner\<lparr>prt_PartnerStatus := status\<rparr>))"

definition checkPartnerStatus :: "'n remote \<Rightarrow> 'n answers \<Rightarrow> PartnerId \<Rightarrow> world \<Rightarrow> (bool \<times> world) option" where
  "checkPartnerStatus rm an i s =
     (case partner_at (snd s) i of
        None \<Rightarrow> Some (False, s)
      | Some partner \<Rightarrow>
          (let (status, s1) = Partner_CheckStatus rm an partner s
           in do {
             s2 \<leftarrow> (if pst_OperationnalStatus status \<noteq> pst_OperationnalStatus (prt_PartnerStatus partner)
                    then CollectManager_HandlePartnerStatusChange rm (prt_slug partner)
                           (pst_OperationnalStatus status = OPERATIONNAL_STATUS_UP) s1
                    else Some s1);
             Some (fst (take_status status partner), fst s2, change_partner i (\<lambda>p. snd (take_status status p)) (snd s2)) }))"

section \<open>Discovery\<close>

definition SIRIStopPointsDiscoveryRequestCollector_RequestStopPoints ::
  "'n remote \<Rightarrow> 'n answers \<Rightarrow> Partner \<Rightarrow> world \<Rightarrow> world option" where
  "SIRIStopPointsDiscoveryRequestCollector_RequestStopPoints rm an partner s =
     (let (i, s1) = new_message_identifier partner s;
          request = \<lparr>spd_MessageIdentifier = i, spd_RequestorRef = PartnerSettings_ProducerRef (prt_settings partner),
                     spd_RequestTimestamp = rm_now rm\<rparr>
      in case an_StopDiscovery an (prt_id partner) request of
           None \<Rightarrow> Some s1
         | Some document \<Rightarrow>
             (let response = new_structure document; gk = rm_gk rm;
                  stops = XMLStopPointsDiscoveryResponse_AnnotatedStopPointRefs gk response
              in if \<not> read_of XMLStatus_Status gk response then Some s1
                 else do {
                   s2 \<leftarrow> broadcastUpdateEvents rm
                     (map (\<lambda>x. STOP_AREA_EVENT
                        \<lparr>sau_Origin = prt_slug partner,
                         sau_ObjectId = NewObjectID (Partner_Setting partner REMOTE_OBJECTID_KIND)
                           (read_of XMLAnnotatedStopPointRef_StopPointRef gk x),
                         sau_ParentObjectId = NewObjectID '''' '''', sau_Name = read_of XMLAnnotatedStopPointRef_StopName gk x,
                         sau_CollectedAlways = True, sau_Longitude = 0, sau_Latitude = 0\<rparr>) stops) s1;
                   Some (fst s2, change_partner (prt_id partner)
                     (Partner_RegisterDiscoveredStopAreas (map (read_of XMLAnnotatedStopPointRef_StopPointRef gk) stops))
                     (snd s2)) }))"

definition Partner_Discover :: "'n remote \<Rightarrow> 'n answers \<Rightarrow> PartnerId \<Rightarrow> world \<Rightarrow> world option" where
  "Partner_Discover rm an i s =
     (let s1 = (fst s, change_partner i (\<lambda>p. p\<lparr>prt_lastDiscovery := rm_now rm\<rparr>) (snd s))
      in case partner_at (snd s1) i of
           None \<Rightarrow> Some s1
         | Some partner \<Rightarrow>
             (if has_connector partner SIRI_STOP_POINTS_DISCOVERY_REQUEST_COLLECTOR
              then SIRIStopPointsDiscoveryRequestCollector_RequestStopPoints rm an partner s1 else Some s1))"

definition checkPartnerDiscovery ::
  "(string \<Rightarrow> int) \<Rightarrow> 'n remote \<Rightarrow> 'n answers \<Rightarrow> PartnerId \<Rightarrow> world \<Rightarrow> world option" where
  "checkPartnerDiscovery parse_duration rm an i s =
     (case partner_at (snd s) i of
        None \<Rightarrow> Some s
      | Some partner \<Rightarrow>
          (if pst_OperationnalStatus (prt_PartnerStatus partner) \<noteq> OPERATIONNAL_STATUS_UP then Some s
           else if IsZero (prt_lastDiscovery partner) \<or>
             prt_lastDiscovery partner < rm_now rm + PartnerSettings_DiscoveryInterval parse_duration (prt_settings partner)
           then Partner_Discover rm an i s
           else Some s))"

definition routineWork ::
  "(string \<Rightarrow> int) \<Rightarrow> 'n remote \<Rightarrow> 'n answers \<Rightarrow> PartnerId \<Rightarrow> world \<Rightarrow> world option" where
  "routineWork parse_duration rm an i s = do {
     (kept, s1) \<leftarrow> checkPartnerStatus rm an i s;
     checkPartnerDiscovery parse_duration rm an i
       (if kept then (fst s1, change_partner i (\<lambda>p. p\<lparr>prt_subscriptions :=
           checkSubscriptionsTerminatedTime (rm_now rm) (prt_subscriptions p)\<rparr>) (snd s1))
        else s1) }"

definition PartnersGuardian_visit ::
  "(string \<Rightarrow> int) \<Rightarrow> 'n remote \<Rightarrow> 'n answers \<Rightarrow> world \<Rightarrow> world option" where
  "PartnersGuardian_visit parse_duration rm an s =
     fold (\<lambda>i acc. Option.bind acc (routineWork parse_duration rm an i))
       (map prt_id (PartnerManager_FindAll (rf_partners (snd s)))) (Some s)"

end
