(* ===== verification/Notifications.thy ===== *)
theory Notifications
  imports Collecting
begin

text \<open>
  What the subscription collectors do with a notification (\<^verbatim>\<open>core/siri_stop_monitoring_subscription_collector.go\<close>,
  \<^verbatim>\<open>core/siri_general_message_subscription_collector.go\<close>): the deliveries of an unknown subscription are passed
  over and the subscription is cancelled at the partner, those of a subscription of another kind are passed over,
  the others are turned into events. A handler returns the requests for cancellation it has sent; their answers
  are only logged.
\<close>

record SIRIDeleteSubscriptionRequest =
  dsr_RequestorRef :: string
  dsr_RequestTimestamp :: gotime
  dsr_MessageIdentifier :: string
  dsr_SubscriptionRef :: string

definition cancelSubscription ::
  "'n remote \<Rightarrow> PartnerId \<Rightarrow> string \<Rightarrow> SIRIDeleteSubscriptionRequest list \<times> world \<Rightarrow>
   SIRIDeleteSubscriptionRequest list \<times> world" where
  "cancelSubscription rm i subId sent_s =
     (case sent_s of (sent, s) \<Rightarrow>
        (case partner_at (snd s) i of
           None \<Rightarrow> (sent, s)
         | Some partner \<Rightarrow>
             (let (m, s1) = new_message_identifier partner s
              in (sent @ [\<lparr>dsr_RequestorRef = PartnerSettings_ProducerRef (prt_settings partner),
                          dsr_RequestTimestamp = rm_now rm, dsr_MessageIdentifier = m, dsr_SubscriptionRef = subId\<rparr>],
                  s1))))"

text \<open>The subscription of a delivery, if it is one of the kind: \<open>Inl\<close> is a reference to no subscription.\<close>

definition delivery_subscription ::
  "'n gokogiri \<Rightarrow> string \<Rightarrow> Partner \<Rightarrow> 'n XMLStructure \<Rightarrow> string + Subscription option" where
  "delivery_subscription gk kind partner delivery =
     (let subscriptionId = read_of LightSubscriptionDeliveryXMLStructure_SubscriptionRef gk delivery
      in case MemorySubscriptions_Find (prt_subscriptions partner) subscriptionId of
           None \<Rightarrow> Inl subscriptionId
         | Some subscription \<Rightarrow> Inr (if sub_kind subscription = kind then Some subscription else None))"

section \<open>Stop monitoring\<close>

definition origin_stop_area ::
  "'n gokogiri \<Rightarrow> Partner \<Rightarrow> Subscription \<Rightarrow> 'n XMLStructure \<Rightarrow> ObjectID option" where
  "origin_stop_area gk partner subscription delivery =
     (case Subscription_UniqueResource subscription of
        Some resource \<Rightarrow> ref_ObjectId (sr_Reference resource)
      | None \<Rightarrow>
          (let monitoringRef = read_of XMLNotifyStopMonitoringDelivery_MonitoringRef gk delivery
           in Some (if monitoringRef \<noteq> ''''
                    then NewObjectID (Partner_Setting partner REMOTE_OBJECTID_KIND) monitoringRef
                    else NewObjectID '''' '''')))"

definition delivery_events ::
  "'n gokogiri \<Rightarrow> Partner \<Rightarrow> ObjectID \<Rightarrow> 'n XMLStructure \<Rightarrow> StopMonitoringUpdateEvents" where
  "delivery_events gk partner origin delivery =
     (let builder = \<lparr>smb_originStopAreaObjectId = origin, smb_origin = prt_slug partner,
                     smb_remoteObjectidKind = Partner_Setting partner REMOTE_OBJECTID_KIND\<rparr>
      in SetStopVisitCancellationEvents builder gk delivery
           (SetUpdateEvents builder gk (XMLNotifyStopMonitoringDelivery_XMLMonitoredStopVisits gk delivery)
             newStopMonitoringUpdateEvents))"

definition notified_events :: "StopMonitoringUpdateEvents \<Rightarrow> UpdateEvent list" where
  "notified_events events = update_events events @ map NOT_COLLECTED_EVENT (smu_Cancellations events)"

fun notify_stop_monitoring ::
  "'n remote \<Rightarrow> Partner \<Rightarrow> 'n XMLStructure list \<Rightarrow> string list \<Rightarrow> world \<Rightarrow> (string list \<times> world) option" where
  "notify_stop_monitoring rm partner [] subToDelete s = Some (subToDelete, s)"
| "notify_stop_monitoring rm partner (delivery # deliveries) subToDelete s =
     (case delivery_subscription (rm_gk rm) StopMonitoringCollect partner delivery of
        Inl subscriptionId \<Rightarrow> notify_stop_monitoring rm partner deliveries (List.insert subscriptionId subToDelete) s
      | Inr None \<Rightarrow> notify_stop_monitoring rm partner deliveries subToDelete s
      | Inr (Some subscription) \<Rightarrow> do {
          origin \<leftarrow> origin_stop_area (rm_gk rm) partner subscription delivery;
          s1 \<leftarrow> broadcastUpdateEvents rm (notified_events (delivery_events (rm_gk rm) partner origin delivery)) s;
          notify_stop_monitoring rm partner deliveries subToDelete s1 })"

definition HandleNotifyStopMonitoring ::
  "'n remote \<Rightarrow> Partner \<Rightarrow> 'n XMLStructure \<Rightarrow> world \<Rightarrow> (SIRIDeleteSubscriptionRequest list \<times> world) option" where
  "HandleNotifyStopMonitoring rm partner notify s = do {
     (subToDelete, s1) \<leftarrow> notify_stop_monitoring rm partner
       (XMLNotifyStopMonitoring_StopMonitoringDeliveries (rm_gk rm) notify) [] s;
     Some (fold (cancelSubscription rm (prt_id partner)) subToDelete ([], s1)) }"

section \<open>General messages\<close>

definition cancelGeneralMessage :: "'n gokogiri \<Rightarrow> Partner \<Rightarrow> 'n XMLStructure \<Rightarrow> world \<Rightarrow> world" where
  "cancelGeneralMessage gk partner delivery s =
     (case s of (g, r) \<Rightarrow>
        (let model = rf_model r; tx = NewTransactionalModel model;
             cancellations = XMLGeneralMessageDelivery_XMLGeneralMessagesCancellations gk delivery;
             situations = fold (\<lambda>cancellation situations.
               (case TransactionalSituations_FindByObjectId situations (mm_situations model)
                       (NewObjectID (Partner_Setting partner REMOTE_OBJECTID_KIND)
                         (read_of XMLGeneralMessageCancellation_InfoMessageIdentifier gk cancellation)) of
                  None \<Rightarrow> situations
                | Some situation \<Rightarrow> TransactionalSituations_Delete situation situations))
               cancellations (tm_situations tx)
         in if cancellations = [] then s
            else (let (g1, model1) = TransactionalModel_Commit g (tx\<lparr>tm_situations := situations\<rparr>) model
                  in (g1, r\<lparr>rf_model := model1\<rparr>))))"

text \<open>The events of all deliveries up to this one are sent.\<close>

fun notify_general_message ::
  "'n remote \<Rightarrow> Partner \<Rightarrow> string \<Rightarrow> 'n XMLStructure list \<Rightarrow> SituationUpdateEvent list \<Rightarrow> string list \<Rightarrow> world \<Rightarrow>
   (string list \<times> world) option" where
  "notify_general_message rm partner producerRef [] events subToDelete s = Some (subToDelete, s)"
| "notify_general_message rm partner producerRef (delivery # deliveries) events subToDelete s =
     (case delivery_subscription (rm_gk rm) GeneralMessageCollect partner delivery of
        Inl subscriptionId \<Rightarrow>
          notify_general_message rm partner producerRef deliveries events (List.insert subscriptionId subToDelete) s
      | Inr None \<Rightarrow> notify_general_message rm partner producerRef deliveries events subToDelete s
      | Inr (Some subscription) \<Rightarrow> do {
          let (g, r) = cancelGeneralMessage (rm_gk rm) partner delivery s;
          (g1, events1) \<leftarrow> SetGeneralMessageDeliveryUpdateEvents (prt_slug partner)
            (Partner_Setting partner REMOTE_OBJECTID_KIND) (rm_now rm) (rm_zone rm) (rm_gk rm) producerRef delivery (g, events);
          notify_general_message rm partner producerRef deliveries events1 subToDelete
            (CollectManager_BroadcastSituationUpdateEvent rm events1 (g1, r)) })"

definition HandleNotifyGeneralMessage ::
  "'n remote \<Rightarrow> Partner \<Rightarrow> 'n XMLStructure \<Rightarrow> world \<Rightarrow> (SIRIDeleteSubscriptionRequest list \<times> world) option" where
  "HandleNotifyGeneralMessage rm partner notify s = do {
     (subToDelete, s1) \<leftarrow> notify_general_message rm partner (read_of ResponseXMLStructure_ProducerRef (rm_gk rm) notify)
       (XMLNotifyGeneralMessage_GeneralMessagesDeliveries (rm_gk rm) notify) [] [] s;
     Some (fold (cancelSubscription rm (prt_id partner)) subToDelete ([], s1)) }"

end
