(* ===== verification/SiriReads.thy ===== *)
theory SiriReads
  imports SiriMessages
begin

text \<open>
  The fields of a stop visit that is read: in which order the methods are called does not matter, but for
  one method; and the type of an error, which is not read the same twice. A document for examples is a list
  of elements, each below an earlier one.
\<close>

section \<open>A document\<close>

record xml_element =
  el_parent :: nat
  el_name :: string
  el_text :: string
  el_attrs :: "(string, string) gomap"

type_synonym xml_document = "xml_element list"

fun climbs :: "nat \<Rightarrow> xml_document \<Rightarrow> nat \<Rightarrow> nat \<Rightarrow> bool" where
  "climbs 0 doc n k \<longleftrightarrow> False"
| "climbs (Suc fuel) doc n k \<longleftrightarrow> el_parent (doc ! k) = n \<or> climbs fuel doc n (el_parent (doc ! k))"

definition element_matches :: "xml_document \<Rightarrow> nat \<Rightarrow> string \<Rightarrow> nat \<Rightarrow> bool" where
  "element_matches doc n path k \<longleftrightarrow>
     0 < k \<and> ((path = ''.//'' @ local_name (el_name (doc ! k)) \<and> climbs k doc n k) \<or>
      (path = ''./'' @ local_name (el_name (doc ! k)) \<and> el_parent (doc ! k) = n))"

definition document_gokogiri :: "xml_document \<Rightarrow> nat gokogiri" where
  "document_gokogiri doc =
     \<lparr>gk_Search = (\<lambda>n path. Some (filter (element_matches doc n path) [0..<length doc])),
      gk_Content = (\<lambda>n. el_text (doc ! n)), gk_Attr = (\<lambda>n a. mget_or '''' (el_attrs (doc ! n)) a),
      gk_Parent = (\<lambda>n. el_parent (doc ! n)), gk_Name = (\<lambda>n. el_name (doc ! n))\<rparr>"

abbreviation element :: "nat \<Rightarrow> string \<Rightarrow> string \<Rightarrow> xml_element" where
  "element parent name txt \<equiv> \<lparr>el_parent = parent, el_name = name, el_text = txt, el_attrs = []\<rparr>"

section \<open>The texts of a stop visit\<close>

definition stop_visit_readers :: "('n, string) reader list" where
  "stop_visit_readers =
     [XMLMonitoredStopVisit_ItemIdentifier, XMLMonitoredStopVisit_MonitoringRef,
      XMLMonitoredStopVisit_StopPointRef, XMLMonitoredStopVisit_StopPointName,
      XMLMonitoredStopVisit_DatedVehicleJourneyRef, XMLMonitoredStopVisit_DataFrameRef,
      XMLMonitoredStopVisit_LineRef, XMLMonitoredStopVisit_PublishedLineName,
      XMLMonitoredStopVisit_DepartureStatus, XMLMonitoredStopVisit_ArrivalStatus,
      XMLMonitoredStopVisit_Delay, XMLMonitoredStopVisit_ActualQuayName,
      XMLMonitoredStopVisit_AimedHeadwayInterval, XMLMonitoredStopVisit_ArrivalPlatformName,
      XMLMonitoredStopVisit_ArrivalProximyTest, XMLMonitoredStopVisit_DepartureBoardingActivity,
      XMLMonitoredStopVisit_DeparturePlatformName, XMLMonitoredStopVisit_DestinationDisplay,
      XMLMonitoredStopVisit_DistanceFromStop, XMLMonitoredStopVisit_ExpectedHeadwayInterval,
      XMLMonitoredStopVisit_NumberOfStopsAway, XMLMonitoredStopVisit_PlatformTraversal,
      XMLMonitoredStopVisit_DirectionName, XMLMonitoredStopVisit_DestinationName,
      XMLMonitoredStopVisit_DirectionRef, XMLMonitoredStopVisit_Bearing, XMLMonitoredStopVisit_InPanic,
      XMLMonitoredStopVisit_SituationRef, XMLMonitoredStopVisit_HeadwayService,
      XMLMonitoredStopVisit_FirstOrLastJourney, XMLMonitoredStopVisit_JourneyNote,
      XMLMonitoredStopVisit_JourneyPatternName, XMLMonitoredStopVisit_MonitoringError,
      XMLMonitoredStopVisit_Occupancy, XMLMonitoredStopVisit_OriginAimedDepartureTime,
      XMLMonitoredStopVisit_DestinationAimedArrivalTime, XMLMonitoredStopVisit_OriginName,
      XMLMonitoredStopVisit_ProductCategoryRef, XMLMonitoredStopVisit_ServiceFeatureRef,
      XMLMonitoredStopVisit_TrainNumberRef, XMLMonitoredStopVisit_VehicleFeature,
      XMLMonitoredStopVisit_VehicleJourneyName, XMLMonitoredStopVisit_VehicleMode,
      XMLMonitoredStopVisit_ViaPlaceName, XMLMonitoredStopVisit_OriginRef, XMLMonitoredStopVisit_PlaceRef,
      XMLMonitoredStopVisit_DestinationRef, XMLMonitoredStopVisit_JourneyPatternRef,
      XMLMonitoredStopVisit_RouteRef, XMLMonitoredStopVisit_OperatorRef]"

definition stop_visit_fields :: "(string \<times> string) list" where
  "stop_visit_fields =
     [(''itemIdentifier'', ''ItemIdentifier''), (''monitoringRef'', ''MonitoringRef''),
      (''stopPointRef'', ''StopPointRef''), (''stopPointName'', ''StopPointName''),
      (''datedVehicleJourneyRef'', ''DatedVehicleJourneyRef''), (''dataFrameRef'', ''DataFrameRef''),
      (''lineRef'', ''LineRef''), (''publishedLineName'', ''PublishedLineName''),
      (''departureStatus'', ''DepartureStatus''), (''arrivalStatus'', ''ArrivalStatus''),
      (''delay'', ''Delay''), (''actualQuayName'', ''ActualQuayName''),
      (''aimedHeadwayInterval'', ''AimedHeadwayInterval''),
      (''arrivalPlatformName'', ''ArrivalPlatformName''), (''arrivalProximyTest'', ''ArrivalProximyTest''),
      (''departureBoardingActivity'', ''DepartureBoardingActivity''),
      (''departurePlatformName'', ''DeparturePlatformName''),
      (''destinationDisplay'', ''DestinationDisplay''), (''distanceFromStop'', ''DistanceFromStop''),
      (''expectedHeadwayInterval'', ''ExpectedHeadwayInterval''),
      (''numberOfStopsAway'', ''NumberOfStopsAway''), (''platformTraversal'', ''PlatformTraversal''),
      (''directionName'', ''DirectionName''), (''destinationName'', ''DestinationName''),
      (''directionRef'', ''DirectionRef''), (''bearing'', ''Bearing''), (''inPanic'', ''InPanic''),
      (''situationRef'', ''SituationRef''), (''headwayService'', ''HeadwayService''),
      (''firstOrLastJourney'', ''FirstOrLastJourney''), (''journeyNote'', ''JourneyNote''),
      (''journeyPatternName'', ''JourneyPatternName''), (''monitoringError'', ''MonitoringError''),
      (''occupancy'', ''Occupancy''), (''originAimedDepartureTime'', ''OriginAimedDepartureTime''),
      (''destinationAimedArrivalTime'', ''DestinationAimedArrivalTime''), (''originName'', ''OriginName''),
      (''productCategoryRef'', ''ProductCategoryRef''), (''serviceFeatureRef'', ''ServiceFeatureRef''),
      (''trainNumberRef'', ''TrainNumberRef''), (''vehicleFeature'', ''VehicleFeature''),
      (''vehicleJourneyName'', ''VehicleJourneyName''), (''vehicleMode'', ''VehicleMode''),
      (''viaPlaceName'', ''PlaceName''), (''originRef'', ''OriginRef''), (''placeRef'', ''PlaceRef''),
      (''destinationRef'', ''DestinationRef''), (''journeyPatternRef'', ''JourneyPatternRef''),
      (''routeRef'', ''RouteRef''), (''operatorRef'', ''OperatorRef'')]"

lemma stop_visit_readers_fields:
  "stop_visit_readers = map (\<lambda>(field, localName). read_string field localName) stop_visit_fields"
  unfolding stop_visit_readers_def stop_visit_fields_def
    XMLMonitoredStopVisit_ItemIdentifier_def XMLMonitoredStopVisit_MonitoringRef_def
    XMLMonitoredStopVisit_StopPointRef_def XMLMonitoredStopVisit_StopPointName_def
    XMLMonitoredStopVisit_DatedVehicleJourneyRef_def XMLMonitoredStopVisit_DataFrameRef_def
    XMLMonitoredStopVisit_LineRef_def XMLMonitoredStopVisit_PublishedLineName_def
    XMLMonitoredStopVisit_DepartureStatus_def XMLMonitoredStopVisit_ArrivalStatus_def
    XMLMonitoredStopVisit_Delay_def XMLMonitoredStopVisit_ActualQuayName_def
    XMLMonitoredStopVisit_AimedHeadwayInterval_def XMLMonitoredStopVisit_ArrivalPlatformName_def
    XMLMonitoredStopVisit_ArrivalProximyTest_def XMLMonitoredStopVisit_DepartureBoardingActivity_def
    XMLMonitoredStopVisit_DeparturePlatformName_def XMLMonitoredStopVisit_DestinationDisplay_def
    XMLMonitoredStopVisit_DistanceFromStop_def XMLMonitoredStopVisit_ExpectedHeadwayInterval_def
    XMLMonitoredStopVisit_NumberOfStopsAway_def XMLMonitoredStopVisit_PlatformTraversal_def
    XMLMonitoredStopVisit_DirectionName_def XMLMonitoredStopVisit_DestinationName_def
    XMLMonitoredStopVisit_DirectionRef_def XMLMonitoredStopVisit_Bearing_def
    XMLMonitoredStopVisit_InPanic_def XMLMonitoredStopVisit_SituationRef_def
    XMLMonitoredStopVisit_HeadwayService_def XMLMonitoredStopVisit_FirstOrLastJourney_def
    XMLMonitoredStopVisit_JourneyNote_def XMLMonitoredStopVisit_JourneyPatternName_def
    XMLMonitoredStopVisit_MonitoringError_def XMLMonitoredStopVisit_Occupancy_def
    XMLMonitoredStopVisit_OriginAimedDepartureTime_def
    XMLMonitoredStopVisit_DestinationAimedArrivalTime_def XMLMonitoredStopVisit_OriginName_def
    XMLMonitoredStopVisit_ProductCategoryRef_def XMLMonitoredStopVisit_ServiceFeatureRef_def
    XMLMonitoredStopVisit_TrainNumberRef_def XMLMonitoredStopVisit_VehicleFeature_def
    XMLMonitoredStopVisit_VehicleJourneyName_def XMLMonitoredStopVisit_VehicleMode_def
    XMLMonitoredStopVisit_ViaPlaceName_def XMLMonitoredStopVisit_OriginRef_def
    XMLMonitoredStopVisit_PlaceRef_def XMLMonitoredStopVisit_DestinationRef_def
    XMLMonitoredStopVisit_JourneyPatternRef_def XMLMonitoredStopVisit_RouteRef_def
    XMLMonitoredStopVisit_OperatorRef_def
  by simp

lemma stop_visit_fields_distinct: "distinct (map fst stop_visit_fields)"
  by code_simp

lemma in_stop_visit_fields:
  "(''inPanic'', ''InPanic'') \<in> set stop_visit_fields" "''inCongestion'' \<notin> fst ` set stop_visit_fields"
  by (simp_all add: stop_visit_fields_def)

text \<open>A field is empty or holds what a search gives.\<close>

definition field_ok :: "'n gokogiri \<Rightarrow> 'n \<Rightarrow> 'n XMLStructure \<Rightarrow> string \<times> string \<Rightarrow> bool" where
  "field_ok gk node x p \<longleftrightarrow>
     mget_or '''' (xml_strings x) (fst p) \<in> {'''', XMLStructure_findStringChildContent gk node (snd p)}"

definition visit_ok :: "'n gokogiri \<Rightarrow> 'n \<Rightarrow> bool \<Rightarrow> 'n XMLStructure \<Rightarrow> bool" where
  "visit_ok gk node panic x \<longleftrightarrow> xml_node x = node \<and> (\<forall>p \<in> set stop_visit_fields. field_ok gk node x p) \<and>
     mget_or '''' (xml_strings x) ''inPanic'' =
       (if panic then XMLStructure_findStringChildContent gk node ''InPanic'' else '''')"

lemma mget_or_mput: "mget_or z (mput k v m) j = (if j = k then v else mget_or z m j)"
  by (simp add: mget_or_def gomap_simps)

lemma read_string_fields:
  "fst (read_string f n gk x) = (if mget_or '''' (xml_strings x) f = '''' then XMLStructure_findStringChildContent gk (xml_node x) n
     else mget_or '''' (xml_strings x) f)"
  "xml_node (snd (read_string f n gk x)) = xml_node x"
  "mget_or '''' (xml_strings (snd (read_string f n gk x))) j =
     (if j = f then fst (read_string f n gk x) else mget_or '''' (xml_strings x) j)"
  by (simp_all add: read_string_def Let_def mget_or_mput)

lemma field_value:
  assumes "visit_ok gk node panic x" and "p \<in> set stop_visit_fields"
  shows "fst (read_string (fst p) (snd p) gk x) = XMLStructure_findStringChildContent gk node (snd p)"
  using assms by (auto simp: visit_ok_def field_ok_def read_string_fields)

lemma visit_ok_new: "visit_ok gk node False (new_structure node)"
  by (simp add: visit_ok_def field_ok_def new_structure_def mget_or_def)

lemma visit_ok_read:
  assumes ok: "visit_ok gk node panic x" and p: "p \<in> set stop_visit_fields"
  shows "visit_ok gk node (panic \<or> fst p = ''inPanic'') (snd (read_string (fst p) (snd p) gk x))"
proof -
  have same: "snd q = snd p" if "q \<in> set stop_visit_fields" "fst q = fst p" for q
    using that p stop_visit_fields_distinct by (metis eq_key_imp_eq_value prod.collapse)
  have panic: "fst p = ''inPanic'' \<longleftrightarrow> p = (''inPanic'', ''InPanic'')"
    using same [OF in_stop_visit_fields(1)] by (cases p) auto
  show ?thesis
    using ok field_value [OF ok p] same panic
    by (auto simp: visit_ok_def field_ok_def read_string_fields(2,3))
qed

lemma InCongestion_parts:
  "fst (XMLMonitoredStopVisit_InCongestion gk x) =
     mget_or '''' (xml_strings (snd (read_string ''inCongestion'' ''InCongestion'' gk x))) ''inPanic''"
  "snd (XMLMonitoredStopVisit_InCongestion gk x) = snd (read_string ''inCongestion'' ''InCongestion'' gk x)"
  by (simp_all add: XMLMonitoredStopVisit_InCongestion_def split_beta)

lemma visit_ok_congestion:
  assumes ok: "visit_ok gk node panic x"
  shows "visit_ok gk node panic (snd (XMLMonitoredStopVisit_InCongestion gk x))"
    and "fst (XMLMonitoredStopVisit_InCongestion gk x) =
      (if panic then XMLStructure_findStringChildContent gk node ''InPanic'' else '''')"
proof -
  have other: "fst p \<noteq> ''inCongestion''" if "p \<in> set stop_visit_fields" for p
    using that in_stop_visit_fields(2) by force
  show "visit_ok gk node panic (snd (XMLMonitoredStopVisit_InCongestion gk x))"
    using ok other by (simp add: InCongestion_parts visit_ok_def field_ok_def read_string_fields(2,3))
  show "fst (XMLMonitoredStopVisit_InCongestion gk x) =
      (if panic then XMLStructure_findStringChildContent gk node ''InPanic'' else '''')"
    using ok by (simp add: InCongestion_parts visit_ok_def read_string_fields(3))
qed

lemma read_string_inj: "read_string f n = (read_string g m :: ('n, string) reader) \<Longrightarrow> f = g"
proof -
  assume eq: "read_string f n = (read_string g m :: ('n, string) reader)"
  have "xml_strings (snd (read_string f n gk (new_structure node))) =
      [(f, XMLStructure_findStringChildContent gk node n)]" for f n gk and node :: 'n
    by (simp add: read_string_def new_structure_def mget_or_def Let_def)
  from this [of f n] this [of g m] eq show "f = g" by simp
qed

lemma InPanic_field: "XMLMonitoredStopVisit_InPanic = read_string ''inPanic'' ''InPanic''"
  by (rule XMLMonitoredStopVisit_InPanic_def)

lemma visit_ok_reads:
  fixes reads :: "('n, string) reader list"
  assumes "set reads \<subseteq> insert XMLMonitoredStopVisit_InCongestion (set stop_visit_readers)"
    and "visit_ok gk node panic x"
  shows "visit_ok gk node (panic \<or> XMLMonitoredStopVisit_InPanic \<in> set reads) (fold (\<lambda>r x. snd (r gk x)) reads x)"
  using assms
proof (induction reads arbitrary: panic x)
  case (Cons r reads)
  show ?case
  proof (cases "r = XMLMonitoredStopVisit_InCongestion")
    case True
    have "XMLMonitoredStopVisit_InPanic \<noteq> (r :: ('n, string) reader)"
    proof
      assume "XMLMonitoredStopVisit_InPanic = r"
      then have "snd (read_string ''inPanic'' ''InPanic'' gk x) = snd (read_string ''inCongestion'' ''InCongestion'' gk x)"
        for gk and x :: "'n XMLStructure"
        using True InCongestion_parts(2) [of gk x] by (simp add: InPanic_field)
      from this [of _ "new_structure (undefined :: 'n)"] show False
        by (simp add: read_string_def new_structure_def mget_or_def Let_def)
    qed
    with True Cons.IH [OF _ visit_ok_congestion(1) [OF Cons.prems(2)]] Cons.prems(1) show ?thesis by simp
  next
    case False
    with Cons.prems(1) obtain p where p: "p \<in> set stop_visit_fields" "r = read_string (fst p) (snd p)"
      by (auto simp: stop_visit_readers_fields)
    have "fst p = ''inPanic'' \<longleftrightarrow> XMLMonitoredStopVisit_InPanic = r"
    proof
      assume "fst p = ''inPanic''"
      then have "p = (''inPanic'', ''InPanic'')"
        using p(1) in_stop_visit_fields(1) stop_visit_fields_distinct by (metis eq_key_imp_eq_value prod.collapse)
      then show "XMLMonitoredStopVisit_InPanic = r" using p(2) by (simp add: InPanic_field)
    next
      assume "XMLMonitoredStopVisit_InPanic = r"
      then show "fst p = ''inPanic''" unfolding p(2) InPanic_field by (rule read_string_inj [symmetric])
    qed
    with Cons.IH [OF _ visit_ok_read [OF Cons.prems(2) p(1)]] Cons.prems(1) p(2) show ?thesis by (simp add: disj_assoc)
  qed
qed simp

text \<open>C27. The methods that read the texts of a stop visit can be called in any order and any number of times: each
  gives what it gives on a fresh document. The exception is the method for \<^verbatim>\<open>InCongestion\<close>, which answers
  from the field of \<^verbatim>\<open>InPanic\<close>: the value of that element when it was read before, and nothing otherwise.\<close>

theorem stop_visit_texts:
  fixes reads :: "('n, string) reader list"
  assumes "set reads \<subseteq> insert XMLMonitoredStopVisit_InCongestion (set stop_visit_readers)"
  shows "let x = fold (\<lambda>r x. snd (r gk x)) reads (new_structure node)
    in (\<forall>r \<in> set stop_visit_readers. fst (r gk x) = fst (r gk (new_structure node))) \<and>
       fst (XMLMonitoredStopVisit_InCongestion gk x) =
         (if XMLMonitoredStopVisit_InPanic \<in> set reads
          then fst (XMLMonitoredStopVisit_InPanic gk (new_structure node)) else '''')"
proof -
  have read: "fst (r gk y) = fst (r gk (new_structure node))" if "visit_ok gk node panic y" "r \<in> set stop_visit_readers"
    for y panic and r :: "('n, string) reader"
    using that field_value [OF that(1)] field_value [OF visit_ok_new, of _ gk node] by (auto simp: stop_visit_readers_fields)
  have panic: "fst (XMLMonitoredStopVisit_InPanic gk (new_structure node)) =
      XMLStructure_findStringChildContent gk node ''InPanic''"
    using field_value [OF visit_ok_new in_stop_visit_fields(1)] by (simp add: InPanic_field)
  note ok = visit_ok_reads [OF assms visit_ok_new, of gk node]
  show ?thesis unfolding Let_def using read [OF ok] visit_ok_congestion(2) [OF ok] panic by simp
qed

definition example_visit_document :: xml_document where
  "example_visit_document =
     [element 0 ''MonitoredStopVisit'' '''', element 0 ''InPanic'' '' no '', element 0 ''InCongestion'' ''true'']"

theorem stop_visit_texts_witness:
  "let gk = document_gokogiri example_visit_document;
       x = fold (\<lambda>r x. snd (r gk x)) [XMLMonitoredStopVisit_InPanic] (new_structure 0)
   in fst (XMLMonitoredStopVisit_InCongestion gk x) = ''no''"
proof -
  let ?gk = "document_gokogiri example_visit_document"
  have mem: "set [XMLMonitoredStopVisit_InPanic] \<subseteq>
      insert XMLMonitoredStopVisit_InCongestion (set (stop_visit_readers :: (nat, string) reader list))"
    by (simp add: stop_visit_readers_def)
  have "fst (XMLMonitoredStopVisit_InPanic ?gk (new_structure 0)) = ''no''" by code_simp
  with stop_visit_texts [OF mem, of ?gk 0] show ?thesis by (simp add: Let_def)
qed

section \<open>The type of an error\<close>

text \<open>An error of the type \<^verbatim>\<open>OtherError\<close> without a number is read twice differently: first it has no type, and
  then it has.\<close>

theorem error_type_read_twice:
  assumes "\<not> fst (XMLStatus_Status gk (new_structure node))"
    and "XMLStructure_findNode gk node ''ErrorText'' = Some n" and "gk_Name gk (gk_Parent gk n) = ''OtherError''"
    and "\<not> snd (Atoi (gk_Attr gk (gk_Parent gk n) ''number''))"
  shows "let (t1, x1) = XMLStatus_ErrorType gk (new_structure node); (t2, _) = XMLStatus_ErrorType gk x1
    in t1 = '''' \<and> t2 = ''OtherError''"
proof -
  have status: "XMLStatus_Status gk (new_structure node) =
      (False, (new_structure node)\<lparr>xml_bools := [(''status'', False)]\<rparr>)"
    using assms(1) by (simp add: XMLStatus_Status_def read_set_bool_def read_bool_def new_structure_def)
  define x1 where "x1 = (new_structure node)\<lparr>xml_bools := [(''status'', False)],
      xml_strings := [(''errorType'', ''OtherError''), (''errorText'', TrimSpace (gk_Content gk n))]\<rparr>"
  have "XMLStatus_ErrorType gk (new_structure node) = ('''', x1)"
    using assms(2-4) unfolding XMLStatus_ErrorType_def status
    by (simp add: new_structure_def mget_or_def x1_def Let_def split_beta)
  moreover have "XMLStatus_Status gk x1 = (False, x1)"
    by (simp add: XMLStatus_Status_def read_set_bool_def read_bool_def x1_def)
  then have "fst (XMLStatus_ErrorType gk x1) = ''OtherError''"
    by (simp add: XMLStatus_ErrorType_def mget_or_def x1_def Let_def)
  ultimately show ?thesis by (simp add: split_beta)
qed

definition example_error_document :: xml_document where
  "example_error_document =
     [element 0 ''StopMonitoringDelivery'' '''', element 0 ''Status'' ''false'', element 0 ''ErrorCondition'' '''',
      element 2 ''OtherError'' '''', element 3 ''ErrorText'' ''no data'']"

theorem error_type_read_twice_witness:
  "let gk = document_gokogiri example_error_document;
       (t1, x1) = XMLStatus_ErrorType gk (new_structure 0); (t2, _) = XMLStatus_ErrorType gk x1
    in t1 = '''' \<and> t2 = ''OtherError''"
proof -
  let ?gk = "document_gokogiri example_error_document"
  have "\<not> fst (XMLStatus_Status ?gk (new_structure 0))" "XMLStructure_findNode ?gk 0 ''ErrorText'' = Some 4"
    "gk_Name ?gk (gk_Parent ?gk 4) = ''OtherError''" "\<not> snd (Atoi (gk_Attr ?gk (gk_Parent ?gk 4) ''number''))"
    by code_simp+
  from error_type_read_twice [OF this] show ?thesis by (simp add: Let_def)
qed

end
