(* ===== verification/ReferentialApi.thy ===== *)
theory ReferentialApi
  imports Referentials PartnerApi
begin

text \<open>
  What holds of referentials: when the next reload comes, and what any history of their API and that of
  their partners keeps.
\<close>

section \<open>The next reload\<close>

lemma time_of_day_range: "0 \<le> time_of_day zone t" "time_of_day zone t < hours 24"
  by (simp_all add: time_of_day_def)

lemma clock_parts:
  obtains s where "time_of_day zone t = hours (Time_Hour zone t) + minutes (Time_Minute zone t) + s"
    "0 \<le> s" "s < minutes 1" "0 \<le> Time_Hour zone t" "Time_Hour zone t < 24" "0 \<le> Time_Minute zone t"
    "Time_Minute zone t < 60"
proof -
  define d where "d = time_of_day zone t"
  have d: "0 \<le> d" "d < hours 24" using time_of_day_range unfolding d_def by auto
  have h: "0 \<le> d div hours 1" "d div hours 1 < 24" using d by (simp_all add: div_less_iff_less_mult pos_imp_zdiv_nonneg_iff)
  have m: "0 \<le> d mod hours 1 div minutes 1" "d mod hours 1 div minutes 1 < 60"
    using pos_mod_bound [of "hours 1" d] pos_mod_sign [of "hours 1" d]
    by (simp_all add: div_less_iff_less_mult pos_imp_zdiv_nonneg_iff)
  have "d = hours (d div hours 1) + d mod hours 1" by simp
  also have "d mod hours 1 = minutes (d mod hours 1 div minutes 1) + d mod hours 1 mod minutes 1" by simp
  finally have "d = hours (d div hours 1) + minutes (d mod hours 1 div minutes 1) + d mod hours 1 mod minutes 1"
    by (simp only: add.assoc)
  then show thesis
    using that [of "d mod hours 1 mod minutes 1"] h m unfolding Time_Hour_def Time_Minute_def d_def [symmetric] by simp
qed

abbreviation reload_setting :: "Referential \<Rightarrow> int \<times> int" where
  "reload_setting r \<equiv> reload_clock (Referential_Setting r REFERENTIAL_SETTING_MODEL_RELOAD_AT)"

lemma nextReloadAt_eq:
  "rf_nextReloadAt (Referential_setNextReloadAt env r) =
     (let (h, m) = reload_setting r; now = now_of env; zone = zone_of env
      in Time_Date zone now (if Time_Hour zone now > h \<or> (Time_Hour zone now = h \<and> Time_Minute zone now \<ge> m)
                             then 1 else 0) h m)"
  by (simp add: Referential_setNextReloadAt_def Let_def split: prod.split)

text \<open>The date is what the wall clock shows, less an offset that the zone has at some instant.\<close>

lemma Time_Date_offset:
  obtains u where "Time_Date zone t d h m =
    wall_clock zone t - time_of_day zone t + hours 24 * d + hours h + minutes m - seconds (fst (zone u))"
proof -
  define unix where "unix = wall_clock zone t - time_of_day zone t + hours 24 * d + hours h + minutes m"
  obtain offset since until where z: "zone unix = (offset, since, until)" by (rule prod_cases3)
  have date: "Time_Date zone t d h m = (if offset = 0 then unix
      else unix - seconds (if unix - seconds offset < since then fst (zone (since - seconds 1))
                           else if until \<le> unix - seconds offset then fst (zone until) else offset))"
    by (simp only: Time_Date_def Let_def unix_def [symmetric] z prod.case)
  have "\<exists>u. Time_Date zone t d h m = unix - seconds (fst (zone u))"
  proof (cases "offset = 0")
    case True
    with z show ?thesis unfolding date by (intro exI [of _ unix]) simp
  next
    case False
    then show ?thesis
      using z unfolding date by (cases "unix - seconds offset < since"; cases "until \<le> unix - seconds offset") (auto intro: exI [of _ unix])
  qed
  with that show thesis unfolding unix_def by blast
qed

text \<open>A zone that has kept its offset for two days and keeps it for two more.\<close>

definition steady :: "zone \<Rightarrow> gotime \<Rightarrow> bool" where
  "steady zone t \<longleftrightarrow> (case zone t of (offset, since, until) \<Rightarrow>
     \<bar>seconds offset\<bar> < hours 24 \<and> since + hours 48 \<le> t \<and> t + hours 48 \<le> until \<and>
     (\<forall>u. since \<le> u \<longrightarrow> u < until \<longrightarrow> zone u = (offset, since, until)))"

lemma Time_Date_steady:
  assumes "steady zone t" and "utc = t - time_of_day zone t + hours 24 * d + hours h + minutes m"
    and "t - hours 24 \<le> utc" "utc \<le> t + hours 24"
  shows "Time_Date zone t d h m = utc \<and> fst (zone utc) = fst (zone t)"
proof -
  obtain offset since until where z: "zone t = (offset, since, until)" by (rule prod_cases3)
  have s: "\<bar>seconds offset\<bar> < hours 24" "since + hours 48 \<le> t" "t + hours 48 \<le> until"
    and same: "\<And>u. since \<le> u \<Longrightarrow> u < until \<Longrightarrow> zone u = (offset, since, until)"
    using assms(1) unfolding steady_def z by auto
  let ?unix = "utc + seconds offset"
  have unix: "?unix = wall_clock zone t - time_of_day zone t + hours 24 * d + hours h + minutes m"
    by (simp add: wall_clock_def z assms(2))
  have u: "zone utc = (offset, since, until)" using same s assms(3,4) by simp
  have "zone ?unix = (offset, since, until)" by (rule same) (use s assms(3,4) in linarith)+
  then show ?thesis using u s assms(3,4) unfolding Time_Date_def unix [symmetric] by (simp add: z Let_def)
qed

text \<open>C26. When the setting says hours and minutes, the next reload is planned later than now and within a day,
  and the clock will show them, provided that the zone has kept its offset for two days and keeps it for two more; a
  setting that is not of five characters means four o'clock. Around a change of the offset both bounds move by the
  difference of the offsets at most: in a zone with offsets between \<open>lo\<close> and \<open>hi\<close> seconds the reload is planned
  within a day and that difference, and not further in the past than it.\<close>

theorem next_reload:
  assumes "reload_setting r = (h, m)" and "0 \<le> h" "h < 24" and "0 \<le> m" "m < 60"
    and "\<And>t. lo \<le> fst (zone_of env t) \<and> fst (zone_of env t) \<le> hi"
  defines "planned \<equiv> rf_nextReloadAt (Referential_setNextReloadAt env r)"
  shows "now_of env - seconds (hi - lo) < planned \<and> planned \<le> now_of env + hours 24 + seconds (hi - lo) \<and>
    (steady (zone_of env) (now_of env) \<longrightarrow>
       now_of env < planned \<and> planned \<le> now_of env + hours 24 \<and>
       time_of_day (zone_of env) planned = hours h + minutes m)"
proof -
  define zone t where "zone = zone_of env" and "t = now_of env"
  define H M where "H = Time_Hour zone t" and "M = Time_Minute zone t"
  obtain s where s: "time_of_day zone t = hours H + minutes M + s" "0 \<le> s" "s < minutes 1"
    and HM: "0 \<le> H" "H < 24" "0 \<le> M" "M < 60"
    unfolding H_def M_def using clock_parts by blast
  define d where "d = (if H > h \<or> (H = h \<and> M \<ge> m) then 1 else 0 :: int)"
  have planned: "planned = Time_Date zone t d h m"
    by (simp add: planned_def nextReloadAt_eq assms(1) zone_def t_def H_def M_def d_def Let_def)
  define ahead where "ahead = hours 24 * d + hours h + minutes m - time_of_day zone t"
  have ahead: "0 < ahead" "ahead \<le> hours 24"
    using assms(2-5) s HM unfolding ahead_def d_def by (simp_all, linarith+)
  obtain u where u: "planned = wall_clock zone t - time_of_day zone t + hours 24 * d + hours h + minutes m - seconds (fst (zone u))"
    using Time_Date_offset [of zone t d h m] unfolding planned by blast
  have "planned = t + ahead + seconds (fst (zone t) - fst (zone u))"
    unfolding u by (simp add: wall_clock_def ahead_def algebra_simps)
  moreover have "lo - hi \<le> fst (zone t) - fst (zone u)" "fst (zone t) - fst (zone u) \<le> hi - lo"
    using assms(6) [of t] assms(6) [of u] unfolding zone_def by linarith+
  ultimately have bounds: "t - seconds (hi - lo) < planned" "planned \<le> t + hours 24 + seconds (hi - lo)"
    using ahead by (simp_all add: left_diff_distrib)
  have "t < planned \<and> planned \<le> t + hours 24 \<and> time_of_day zone planned = hours h + minutes m" if steady: "steady zone t"
  proof -
    have at: "planned = t + ahead" "fst (zone planned) = fst (zone t)"
      using Time_Date_steady [OF steady, of "t + ahead" d h m] ahead unfolding planned by (simp_all add: ahead_def)
    have "wall_clock zone planned = wall_clock zone t + ahead"
      unfolding wall_clock_def at(2) by (simp add: at(1))
    then have "wall_clock zone planned = (wall_clock zone t div hours 24 + d) * hours 24 + (hours h + minutes m)"
      by (simp add: ahead_def time_of_day_def minus_mod_eq_div_mult)
    moreover have "(hours h + minutes m) mod hours 24 = hours h + minutes m"
      using assms(2-5) by (intro mod_pos_pos_trivial) simp_all
    ultimately have "time_of_day zone planned = hours h + minutes m"
      unfolding time_of_day_def by (simp only: mod_mult_self3)
    with at ahead show ?thesis by simp
  qed
  with bounds show ?thesis by (simp add: zone_def t_def)
qed

text \<open>UTC, and a zone that goes from two hours ahead of it to one.\<close>

definition UTC_zone :: zone where
  "UTC_zone t = (0, seconds (- (2 ^ 63)), seconds (2 ^ 63 - 1))"

definition autumn_zone :: "gotime \<Rightarrow> zone" where
  "autumn_zone change t =
     (if t < change then (7200, seconds (- (2 ^ 63)), change) else (3600, change, seconds (2 ^ 63 - 1)))"

definition example_env :: "gotime \<Rightarrow> surroundings" where
  "example_env now =
     \<lparr>now_of = now, zone_of = UTC_zone, parse_duration_of = (\<lambda>_. 0), loadStopAreas_of = (\<lambda>_ m. m), loadLines_of = (\<lambda>_ m. m),
      loadOperators_of = (\<lambda>_ m. m), loadVehicleJourneys_of = (\<lambda>_ m. m)\<rparr>"

definition reloaded_at :: "string \<Rightarrow> Referential" where
  "reloaded_at clock =
     (MemoryReferentials_New (example_env 0) ''r'')\<lparr>rf_Settings := [(REFERENTIAL_SETTING_MODEL_RELOAD_AT, clock)]\<rparr>"

theorem next_reload_witness:
  "hours 5 < rf_nextReloadAt (Referential_setNextReloadAt (example_env (hours 5)) (reloaded_at ''04:30'')) \<and>
   (let planned = rf_nextReloadAt (Referential_setNextReloadAt
          ((example_env (hours 2))\<lparr>zone_of := autumn_zone (hours 25)\<rparr>) (reloaded_at ''04:00''))
    in planned \<le> hours 2 + hours 25 \<and> planned = hours 27)"
proof -
  let ?autumn = "(example_env (hours 2))\<lparr>zone_of := autumn_zone (hours 25)\<rparr>"
  have settings: "reload_setting (reloaded_at ''04:30'') = (4, 30)" "reload_setting (reloaded_at ''04:00'') = (4, 0)" by code_simp+
  have planned: "rf_nextReloadAt (Referential_setNextReloadAt ?autumn (reloaded_at ''04:00'')) = hours 27" by code_simp
  have zones: "0 \<le> fst (zone_of (example_env (hours 5)) t) \<and> fst (zone_of (example_env (hours 5)) t) \<le> 0"
    "3600 \<le> fst (zone_of ?autumn t) \<and> fst (zone_of ?autumn t) \<le> 7200" for t
    by (simp_all add: example_env_def UTC_zone_def autumn_zone_def)
  from next_reload [OF settings(1), of 0 "example_env (hours 5)" 0] next_reload [OF settings(2), of 3600 ?autumn 7200] planned
  show ?thesis using zones by (simp add: example_env_def)
qed

section \<open>Reloading\<close>

definition rf_running :: "Referential \<Rightarrow> bool" where
  "rf_running r \<longleftrightarrow> rf_partnersGuardian r = OpenStop \<and> rf_modelGuardian r = OpenStop \<and>
     bm_stop (rf_broacasterManager r) = OpenStop"

lemma setNextReloadAt_sel [simp]:
  "rf_id (Referential_setNextReloadAt env r) = rf_id r"
  "rf_slug (Referential_setNextReloadAt env r) = rf_slug r"
  "rf_Settings (Referential_setNextReloadAt env r) = rf_Settings r"
  "rf_partners (Referential_setNextReloadAt env r) = rf_partners r"
  "rf_Tokens (Referential_setNextReloadAt env r) = rf_Tokens r"
  "rf_collectManager (Referential_setNextReloadAt env r) = rf_collectManager r"
  "rf_partnersGuardian (Referential_setNextReloadAt env r) = rf_partnersGuardian r"
  "rf_modelGuardian (Referential_setNextReloadAt env r) = rf_modelGuardian r"
  "rf_broacasterManager (Referential_setNextReloadAt env r) = rf_broacasterManager r"
  by (simp_all add: Referential_setNextReloadAt_def Let_def split: prod.split)

lemma Start_sel [simp]:
  "rf_running (Referential_Start env r)"
  "rf_id (Referential_Start env r) = rf_id r"
  "rf_slug (Referential_Start env r) = rf_slug r"
  "rf_Settings (Referential_Start env r) = rf_Settings r"
  "rf_Tokens (Referential_Start env r) = rf_Tokens r"
  "rf_nextReloadAt (Referential_Start env r) = rf_nextReloadAt r"
  "rf_collectManager (Referential_Start env r) = rf_collectManager r"
  "rf_partners (Referential_Start env r) =
     PartnerManager_Start (parse_duration_of env) (now_of env) (rf_partners r)"
  by (simp_all add: Referential_Start_def rf_running_def BroadcastManager_Start_def Let_def)

lemma Stop_running:
  assumes "rf_running r"
  obtains r' where "Referential_Stop r = Some r'" "rf_id r' = rf_id r" "rf_slug r' = rf_slug r"
    "rf_Settings r' = rf_Settings r" "rf_Tokens r' = rf_Tokens r" "rf_nextReloadAt r' = rf_nextReloadAt r"
    "rf_collectManager r' = rf_collectManager r" "rf_partners r' = PartnerManager_Stop (rf_partners r)"
  using assms that by (simp add: rf_running_def Referential_Stop_def BroadcastManager_Stop_def close_stop_def)

text \<open>A planned reload depends on the settings only.\<close>

lemma nextReloadAt_cong:
  "rf_Settings r' = rf_Settings r \<Longrightarrow>
     rf_nextReloadAt (Referential_setNextReloadAt env r') = rf_nextReloadAt (Referential_setNextReloadAt env r)"
  by (simp add: nextReloadAt_eq Referential_Setting_def)

lemma ReloadModel_running:
  assumes "rf_running r"
  obtains r' where "Referential_ReloadModel env r = Some r'" "rf_running r'" "rf_id r' = rf_id r" "rf_slug r' = rf_slug r"
    "rf_Settings r' = rf_Settings r" "rf_collectManager r' = rf_collectManager r"
    "rf_nextReloadAt r' = rf_nextReloadAt (Referential_setNextReloadAt env r)"
    "rf_partners r' = PartnerManager_Start (parse_duration_of env) (now_of env) (PartnerManager_Stop (rf_partners r))"
proof -
  from Stop_running [OF assms] obtain s where s: "Referential_Stop r = Some s" "rf_id s = rf_id r" "rf_slug s = rf_slug r"
    "rf_Settings s = rf_Settings r" "rf_collectManager s = rf_collectManager r"
    "rf_partners s = PartnerManager_Stop (rf_partners r)" by metis
  define q where "q = s\<lparr>rf_model := MemoryModel_Reload (now_of env) (loadStopAreas_of env) (loadLines_of env)
           (loadOperators_of env) (loadVehicleJourneys_of env) (rf_slug s) (rf_model s)\<rparr>"
  have "rf_nextReloadAt (Referential_setNextReloadAt env q) = rf_nextReloadAt (Referential_setNextReloadAt env r)"
    by (rule nextReloadAt_cong) (simp add: q_def s)
  then show thesis
  proof (intro that)
    show "Referential_ReloadModel env r = Some (Referential_Start env (Referential_setNextReloadAt env q))"
      by (simp add: Referential_ReloadModel_def s(1) q_def)
  qed (simp_all add: q_def s)
qed

text \<open>The clock has passed the hour that is meant, and the zone does not change.\<close>

definition past_hour :: "int \<Rightarrow> int \<Rightarrow> surroundings \<Rightarrow> bool" where
  "past_hour h m env \<longleftrightarrow> steady (zone_of env) (now_of env) \<and> 0 \<le> hours (24 + h) + minutes m \<and>
     hours (24 + h) + minutes m < time_of_day (zone_of env) (now_of env)"

lemma negative_hour:
  assumes "reload_setting r = (h, m)" and "h < 0" and "past_hour h m env"
  shows "rf_nextReloadAt (Referential_setNextReloadAt env r) < now_of env"
proof -
  let ?t = "now_of env" and ?zone = "zone_of env"
  have "h < Time_Hour ?zone ?t" using assms(2) clock_parts [of ?zone ?t] by (metis less_le_trans)
  then have "rf_nextReloadAt (Referential_setNextReloadAt env r) = Time_Date ?zone ?t 1 h m"
    by (simp add: nextReloadAt_eq assms(1) Let_def)
  also have "\<dots> = ?t - time_of_day ?zone ?t + hours 24 * 1 + hours h + minutes m"
    by (rule Time_Date_steady [THEN conjunct1, OF _ refl])
      (use assms(3) time_of_day_range [of ?zone ?t] in \<open>simp_all add: past_hour_def\<close>)
  finally show ?thesis using assms(3) by (simp add: past_hour_def)
qed

text \<open>The visits of the guardian, one surroundings each: did it reload the model.\<close>

fun guardian_visits :: "surroundings list \<Rightarrow> Referential \<Rightarrow> (bool list \<times> Referential) option" where
  "guardian_visits [] r = Some ([], r)"
| "guardian_visits (env # envs) r = do {
     (reloaded, r1) \<leftarrow> ModelGuardian_checkReloadModel env r;
     (rest, r2) \<leftarrow> guardian_visits envs r1;
     Some (reloaded # rest, r2) }"

text \<open>C25. A setting like \<^verbatim>\<open>-1:00\<close> has the right length and is read as the hour minus one. Take visits of the
  guardian, in the order of time, to a running referential: at each the clock is past that hour before midnight
  (23:00 here), in a zone that does not change its offset within two days, and the first comes after the reload that
  was planned. Each of them reloads the model, and plans the next reload in the past: from that hour to midnight what
  was collected is lost every ten seconds.\<close>

theorem reload_every_visit:
  assumes "rf_running r" and "reload_setting r = (h, m)" and "h < 0"
    and "\<And>env. env \<in> set envs \<Longrightarrow> past_hour h m env"
    and "sorted_wrt (\<lambda>e e'. now_of e \<le> now_of e') envs"
    and "\<And>env. env \<in> set envs \<Longrightarrow> rf_nextReloadAt r < now_of env"
  shows "\<exists>r'. guardian_visits envs r = Some (replicate (length envs) True, r') \<and>
    (envs \<noteq> [] \<longrightarrow> rf_nextReloadAt r' < now_of (last envs))"
  using assms
proof (induction envs arbitrary: r)
  case (Cons env envs)
  from ReloadModel_running [OF Cons.prems(1), of env] obtain r1 where r1: "Referential_ReloadModel env r = Some r1"
    "rf_running r1" "rf_Settings r1 = rf_Settings r"
    "rf_nextReloadAt r1 = rf_nextReloadAt (Referential_setNextReloadAt env r)" by metis
  have past: "rf_nextReloadAt r1 < now_of env"
    using negative_hour [OF Cons.prems(2,3), of env] Cons.prems(4) r1(4) by simp
  have "\<exists>r'. guardian_visits envs r1 = Some (replicate (length envs) True, r') \<and>
      (envs \<noteq> [] \<longrightarrow> rf_nextReloadAt r' < now_of (last envs))"
  proof (rule Cons.IH)
    show "rf_running r1" by (rule r1(2))
    show "reload_setting r1 = (h, m)" using Cons.prems(2) r1(3) by (simp add: Referential_Setting_def)
    show "h < 0" by (rule Cons.prems(3))
    show "sorted_wrt (\<lambda>e e'. now_of e \<le> now_of e') envs" using Cons.prems(5) by simp
    fix e assume e: "e \<in> set envs"
    show "past_hour h m e" using e Cons.prems(4) by simp
    show "rf_nextReloadAt r1 < now_of e" using e past Cons.prems(5) by auto
  qed
  then obtain r' where r': "guardian_visits envs r1 = Some (replicate (length envs) True, r')"
    "envs \<noteq> [] \<longrightarrow> rf_nextReloadAt r' < now_of (last envs)" by blast
  have "envs = [] \<Longrightarrow> r' = r1" using r'(1) by auto
  then have "rf_nextReloadAt r' < now_of (last (env # envs))" using r'(2) past by auto
  moreover have "guardian_visits (env # envs) r = Some (replicate (length (env # envs)) True, r')"
    using Cons.prems(6) [of env] r1(1) r'(1) by (simp add: ModelGuardian_checkReloadModel_def)
  ultimately show ?case by blast
qed simp

theorem reload_every_visit_witness:
  "\<exists>r'. guardian_visits (map example_env [hours 23 + 1, hours 23 + seconds 10, hours 23 + seconds 20])
     (Referential_Start (example_env 0) (reloaded_at ''-1:00'')) = Some ([True, True, True], r')"
proof -
  let ?r = "Referential_Start (example_env 0) (reloaded_at ''-1:00'')"
  let ?times = "[hours 23 + 1, hours 23 + seconds 10, hours 23 + seconds 20]"
  have setting: "reload_setting ?r = (-1, 0)" and planned: "rf_nextReloadAt ?r = hours 4" by code_simp+
  have times: "past_hour (-1) 0 env" "rf_nextReloadAt ?r < now_of env" if "env \<in> set (map example_env ?times)" for env
    using that unfolding planned
    by (auto simp: example_env_def past_hour_def steady_def time_of_day_def wall_clock_def UTC_zone_def)
  have later: "sorted_wrt (\<lambda>e e'. now_of e \<le> now_of e') (map example_env ?times)" by (simp add: example_env_def)
  have "replicate (length (map example_env ?times)) True = [True, True, True]" by (simp add: numeral_eq_Suc)
  then show ?thesis
    using reload_every_visit [OF Start_sel(1) setting _ times(1) later times(2)] by auto
qed

section \<open>Histories of the API\<close>

definition referential_inv :: "Referential \<Rightarrow> bool" where
  "referential_inv r \<longleftrightarrow> rf_running r \<and> manager_inv (rf_partners r) \<and> slugRegexp (rf_slug r) \<and> rf_id r \<noteq> ''''"

definition referentials_inv :: "MemoryReferentials \<Rightarrow> bool" where
  "referentials_inv ms \<longleftrightarrow> mwf ms \<and>
     (\<forall>i r. mget ms i = Some r \<longrightarrow> rf_id r = i \<and> referential_inv r) \<and>
     (\<forall>i j r s. mget ms i = Some r \<and> mget ms j = Some s \<and> rf_slug r = rf_slug s \<longrightarrow> i = j)"

lemma referentials_invD:
  assumes "referentials_inv ms" and "mget ms i = Some r"
  shows "rf_id r = i" "referential_inv r" "mget ms j = Some s \<Longrightarrow> j \<noteq> i \<Longrightarrow> rf_slug s \<noteq> rf_slug r"
  using assms unfolding referentials_inv_def by blast+

lemma referentials_inv_put:
  assumes inv: "referentials_inv ms" and r: "rf_id r = i" "referential_inv r"
    and unique: "\<And>j s. mget ms j = Some s \<Longrightarrow> j \<noteq> i \<Longrightarrow> rf_slug s \<noteq> rf_slug r"
  shows "referentials_inv (mput i r ms)"
  unfolding referentials_inv_def
proof (intro conjI allI impI)
  show "mwf (mput i r ms)" using inv by (simp add: referentials_inv_def)
next
  fix j s
  assume "mget (mput i r ms) j = Some s"
  then show "rf_id s = j" "referential_inv s"
    using r referentials_invD(1,2) [OF inv, of j s] by (simp_all add: gomap_simps split: if_splits)
next
  fix j k s t
  assume a: "mget (mput i r ms) j = Some s \<and> mget (mput i r ms) k = Some t \<and> rf_slug s = rf_slug t"
  show "j = k"
  proof (cases "j = i \<or> k = i")
    case True
    then show ?thesis using a unique [of j s] unique [of k t] by (auto simp: gomap_simps split: if_splits)
  next
    case False
    then show ?thesis using a inv unfolding referentials_inv_def by (simp add: gomap_simps)
  qed
qed

lemma on_referential_inv:
  assumes "referentials_inv ms"
    and "\<And>r. mget ms i = Some r \<Longrightarrow> referential_inv (f r) \<and> rf_id (f r) = rf_id r \<and> rf_slug (f r) = rf_slug r"
  shows "referentials_inv (on_referential i f ms)"
proof (cases "mget ms i")
  case (Some r)
  with assms(2) [OF Some] referentials_invD [OF assms(1) Some] show ?thesis
    by (simp add: on_referential_def referentials_inv_put [OF assms(1)])
qed (simp add: on_referential_def assms(1))

lemma referential_inv_tokens [simp]:
  "referential_inv (tokens_shared body r) \<longleftrightarrow> referential_inv r"
  "rf_id (tokens_shared body r) = rf_id r" "rf_slug (tokens_shared body r) = rf_slug r"
  "rf_running (tokens_shared body r) \<longleftrightarrow> rf_running r" "rf_partners (tokens_shared body r) = rf_partners r"
  "rf_collectManager (tokens_shared body r) = rf_collectManager r"
  by (simp_all add: referential_inv_def tokens_shared_def rf_running_def)

lemma fold_on_partner_inv:
  assumes "manager_inv m" and "\<And>p. same_definition p (f p)"
  shows "manager_inv (fold (\<lambda>i. on_partner i f) is m)"
  using assms(1) by (induction "is" arbitrary: m) (simp_all add: on_partner_inv assms(2))

lemma partners_life [simp]:
  "manager_inv m \<Longrightarrow> manager_inv (PartnerManager_Start parse_duration now m)"
  "manager_inv m \<Longrightarrow> manager_inv (PartnerManager_Stop m)"
  unfolding PartnerManager_Start_def PartnerManager_Stop_def by (rule fold_on_partner_inv, simp_all)+

text \<open>A valid definition has a slug of the right form that no other referential has.\<close>

lemma checked_others:
  "fold check_other_referential rs api = api\<lparr>ar_Errors := ar_Errors (fold check_other_referential rs api)\<rparr> \<and>
   (ar_Errors (fold check_other_referential rs api) = [] \<longrightarrow> ar_Errors api = [] \<and>
      (\<forall>r \<in> set rs. rf_id r \<noteq> ar_id api \<longrightarrow> rf_slug r \<noteq> ar_Slug api))"
proof (induction rs arbitrary: api)
  case (Cons r rs)
  let ?api = "check_other_referential r api"
  have step: "?api = api\<lparr>ar_Errors := ar_Errors ?api\<rparr>" "ar_id ?api = ar_id api" "ar_Slug ?api = ar_Slug api"
    by (simp_all add: check_other_referential_def)
  have first: "ar_Errors ?api = [] \<Longrightarrow> ar_Errors api = [] \<and> (rf_id r \<noteq> ar_id api \<longrightarrow> rf_slug r \<noteq> ar_Slug api)"
    using Add_never_empty by (auto simp: check_other_referential_def split: if_splits)
  from Cons [of ?api] show ?case using first step by (metis (no_types, lifting) APIReferential.surjective
      APIReferential.update_convs(5) fold_simps(2) set_ConsD)
qed simp

lemma Validate_referential:
  assumes "APIReferential_Validate ms api = (True, api1)"
  shows "ar_Slug api1 = ar_Slug api" "ar_id api1 = ar_id api" "slugRegexp (ar_Slug api)"
    "r \<in> set (mvals ms) \<Longrightarrow> rf_id r \<noteq> ar_id api \<Longrightarrow> rf_slug r \<noteq> ar_Slug api"
proof -
  let ?api = "check_referential_slug (api\<lparr>ar_Errors := NewErrors\<rparr>)"
  have checked: "api1 = fold check_other_referential (mvals ms) ?api" "ar_Errors api1 = []"
    using assms by (auto simp: APIReferential_Validate_def MemoryReferentials_FindAll_def Let_def)
  have same: "ar_Slug ?api = ar_Slug api" "ar_id ?api = ar_id api"
    by (simp_all add: check_referential_slug_def)
  from checked_others [of "mvals ms" ?api] have others: "api1 = ?api\<lparr>ar_Errors := ar_Errors api1\<rparr>"
    "ar_Errors ?api = []" "\<forall>r \<in> set (mvals ms). rf_id r \<noteq> ar_id api \<longrightarrow> rf_slug r \<noteq> ar_Slug api"
    using checked(2) unfolding checked(1) [symmetric] same by (blast, blast, blast)
  show "ar_Slug api1 = ar_Slug api" "ar_id api1 = ar_id api"
    using same by (subst others(1), simp)+
  show "slugRegexp (ar_Slug api)"
    using others(2) Add_never_empty by (auto simp: check_referential_slug_def slugRegexp_def split: if_splits)
  show "r \<in> set (mvals ms) \<Longrightarrow> rf_id r \<noteq> ar_id api \<Longrightarrow> rf_slug r \<noteq> ar_Slug api" using others(3) by blast
qed

lemma referential_defined [simp]:
  "rf_id (Referential_SetDefinition env api r) = rf_id r"
  "rf_slug (Referential_SetDefinition env api r) = ar_Slug api"
  "rf_partners (Referential_SetDefinition env api r) = rf_partners r"
  "rf_collectManager (Referential_SetDefinition env api r) = rf_collectManager r"
  by (simp_all add: Referential_SetDefinition_def Let_def)

lemma Referential_new_sel [simp]:
  "rf_id (MemoryReferentials_New env slug) = ''''"
  "rf_partners (MemoryReferentials_New env slug) = NewPartnerManager"
  "rf_collectManager (MemoryReferentials_New env slug) = NewCollectManager"
  by (simp_all add: MemoryReferentials_New_def Let_def)

lemma save_and_start_inv:
  assumes inv: "referentials_inv ms" and r: "manager_inv (rf_partners r)" "slugRegexp (rf_slug r)"
    and u: "\<And>n. ug_uuid g n \<noteq> ''''"
    and unique: "\<And>j s. mget ms j = Some s \<Longrightarrow> j \<noteq> rf_id r \<Longrightarrow> rf_slug s \<noteq> rf_slug r"
    and saved: "save_and_start env r g ms = (res, g', ms')"
  shows "referentials_inv ms' \<and> ug_uuid g' = ug_uuid g"
proof -
  define i where "i = (if rf_id r = '''' then fst (NewUUID g) else rf_id r)"
  define s where "s = r\<lparr>rf_id := i, rf_model := MemoryModel_SetReferential (rf_slug r) (rf_model r),
    rf_collectManager := CollectManager_HandleUpdateEvent UpdateManager_Update
      (CollectManager_HandleSituationUpdateEvent SituationUpdateManager_UpdateSituation (rf_collectManager r))\<rparr>"
  have i: "i \<noteq> ''''" using u by (simp add: i_def NewUUID_def)
  have none: "mget ms '''' = None"
  proof (cases "mget ms ''''")
    case (Some q)
    with referentials_invD(1,2) [OF inv Some] show ?thesis by (simp add: referential_inv_def)
  qed
  have "save_and_start env r g ms = (ReferentialDone (Referential_Start env s),
      if rf_id r = '''' then snd (NewUUID g) else g, mput i (Referential_Start env s) (mput i s ms))"
    by (simp add: save_and_start_def MemoryReferentials_Save_def s_def i_def Let_def split: prod.split)
  then have eqs: "ms' = mput i (Referential_Start env s) (mput i s ms)"
    "g' = (if rf_id r = '''' then snd (NewUUID g) else g)" using saved by simp_all
  have "mput i (Referential_Start env s) (mput i s ms) = mput i (Referential_Start env s) ms"
    by (induction ms) auto
  moreover have "referentials_inv (mput i (Referential_Start env s) ms)"
  proof (rule referentials_inv_put [OF inv])
    show "rf_id (Referential_Start env s) = i" by (simp add: s_def)
    show "referential_inv (Referential_Start env s)" using r i by (simp add: referential_inv_def s_def)
    show "rf_slug q \<noteq> rf_slug (Referential_Start env s)" if "mget ms j = Some q" "j \<noteq> i" for j q
    proof -
      have "j \<noteq> rf_id r"
        using that none by (cases "rf_id r = ''''") (auto simp: i_def)
      from unique [OF that(1) this] show ?thesis by (simp add: s_def)
    qed
  qed
  moreover have "ug_uuid g' = ug_uuid g" by (simp add: eqs(2) NewUUID_def)
  ultimately show ?thesis using eqs(1) by simp
qed

lemma findReferential_stored:
  assumes "referentials_inv ms" and "ReferentialController_findReferential ms key = Some r"
  shows "mget ms (rf_id r) = Some r"
proof -
  have "\<exists>i. mget ms i = Some r"
  proof (cases "MemoryReferentials_FindBySlug ms key")
    case None
    with assms(2) show ?thesis by (auto simp: ReferentialController_findReferential_def MemoryReferentials_Find_def)
  next
    case (Some s)
    with assms(2) have "r \<in> set (mvals ms)"
      using first_some_Some unfolding ReferentialController_findReferential_def MemoryReferentials_FindBySlug_def by fastforce
    with assms(1) mvals_iff show ?thesis unfolding referentials_inv_def by metis
  qed
  then show ?thesis using referentials_invD(1) [OF assms(1)] by auto
qed

lemma referential_found:
  assumes inv: "referentials_inv ms" and r: "r \<in> set (MemoryReferentials_FindAll ms)"
  shows "MemoryReferentials_Find ms (rf_id r) = Some r" "MemoryReferentials_FindBySlug ms (rf_slug r) = Some r"
proof -
  have at: "mget ms (rf_id q) = Some q" if q: "q \<in> set (mvals ms)" for q
  proof -
    have "mwf ms" using inv by (simp add: referentials_inv_def)
    with q obtain i where i: "mget ms i = Some q" using mvals_iff [of ms q] by blast
    with referentials_invD(1) [OF inv i] show ?thesis by simp
  qed
  have r: "r \<in> set (mvals ms)" using r by (simp add: MemoryReferentials_FindAll_def)
  show "MemoryReferentials_Find ms (rf_id r) = Some r" using at [OF r] by (simp add: MemoryReferentials_Find_def)
  show "MemoryReferentials_FindBySlug ms (rf_slug r) = Some r"
    unfolding MemoryReferentials_FindBySlug_def
  proof (rule first_some_unique [OF r refl])
    fix q assume q: "q \<in> set (mvals ms)" "rf_slug q = rf_slug r"
    have "rf_id q = rf_id r" using referentials_invD(3) [OF inv at [OF r] at [OF q(1)]] q(2) by blast
    from at [OF q(1)] have "mget ms (rf_id r) = Some q" unfolding \<open>rf_id q = rf_id r\<close> .
    with at [OF r] show "q = r" by simp
  qed
qed

lemma Referential_Update_inv:
  assumes inv: "referentials_inv ms" and u: "\<And>n. ug_uuid g n \<noteq> ''''"
  shows "\<exists>res g' ms'. ReferentialController_Update env key json g ms = Some (res, g', ms') \<and>
    referentials_inv ms' \<and> ug_uuid g' = ug_uuid g"
proof (cases "ReferentialController_findReferential ms key")
  case None
  with inv show ?thesis by (simp add: ReferentialController_Update_def)
next
  case (Some r)
  note at = findReferential_stored [OF inv Some]
  note r = referentials_invD [OF inv at]
  have shared: "referentials_inv (on_referential (rf_id r) (tokens_shared body) ms)" for body
    by (rule on_referential_inv [OF inv]) (use at r(2) in simp)
  show ?thesis
  proof (cases json)
    case MalformedJson
    with inv Some show ?thesis by (simp add: ReferentialController_Update_def)
  next
    case (MistypedJson body)
    with shared Some show ?thesis by (simp add: ReferentialController_Update_def)
  next
    case (ReferentialJson body)
    define api where "api = APIReferential_Unmarshal body (Referential_Definition r)"
    define ms1 where "ms1 = on_referential (rf_id r) (tokens_shared body) ms"
    have inv1: "referentials_inv ms1" unfolding ms1_def by (rule shared)
    have at1: "mget ms1 (rf_id r) = Some (tokens_shared body r)"
      by (simp add: ms1_def on_referential_def at gomap_simps)
    obtain valid api1 where v: "APIReferential_Validate ms1 api = (valid, api1)" by (cases "APIReferential_Validate ms1 api")
    have id: "ar_id api = rf_id r" by (simp add: api_def APIReferential_Unmarshal_def Referential_Definition_def)
    show ?thesis
    proof (cases valid)
      case False
      with Some ReferentialJson v inv1 show ?thesis
        by (simp add: ReferentialController_Update_def Let_def api_def [symmetric] ms1_def [symmetric])
    next
      case True
      have "APIReferential_Validate ms1 api = (True, api1)" using v True by simp
      note valid = Validate_referential [OF this]
      have "rf_running (tokens_shared body r)" using r(2) by (simp add: referential_inv_def)
      from Stop_running [OF this] obtain s where s: "Referential_Stop (tokens_shared body r) = Some s" "rf_id s = rf_id r"
        "rf_partners s = PartnerManager_Stop (rf_partners r)"
        by (metis referential_inv_tokens(2,5))
      define d where "d = Referential_SetDefinition env api1 s"
      obtain res g' ms' where saved: "save_and_start env d g ms1 = (res, g', ms')" by (cases "save_and_start env d g ms1")
      have "referentials_inv ms' \<and> ug_uuid g' = ug_uuid g"
      proof (rule save_and_start_inv [OF inv1 _ _ u _ saved])
        show "manager_inv (rf_partners d)" using r(2) by (simp add: d_def s(3) referential_inv_def)
        show "slugRegexp (rf_slug d)" using valid(1,3) by (simp add: d_def)
        show "rf_slug q \<noteq> rf_slug d" if "mget ms1 j = Some q" "j \<noteq> rf_id d" for j q
          using valid(1,4) mget_some_vals [OF that(1)] referentials_invD(1) [OF inv1 that(1)] that(2) id
          by (simp add: d_def s(2))
      qed
      then show ?thesis using Some ReferentialJson v True s(1) saved
        by (simp add: ReferentialController_Update_def Let_def api_def [symmetric] ms1_def [symmetric] d_def)
    qed
  qed
qed

lemma Referential_Create_inv:
  assumes inv: "referentials_inv ms" and u: "\<And>n. ug_uuid g n \<noteq> ''''"
    and created: "ReferentialController_Create env json g ms = (res, g', ms')"
  shows "referentials_inv ms' \<and> ug_uuid g' = ug_uuid g"
proof (cases json)
  case (ReferentialJson body)
  define r where "r = MemoryReferentials_New env ''''"
  define api where "api = APIReferential_Unmarshal body (Referential_Definition r)"
  obtain valid api1 where v: "APIReferential_Validate ms api = (valid, api1)" by (cases "APIReferential_Validate ms api")
  have id: "ar_id api = ''''" by (simp add: api_def r_def APIReferential_Unmarshal_def Referential_Definition_def)
  show ?thesis
  proof (cases valid)
    case False
    with ReferentialJson v inv created show ?thesis
      by (simp add: ReferentialController_Create_def Let_def api_def [symmetric] r_def [symmetric])
  next
    case True
    have "APIReferential_Validate ms api = (True, api1)" using v True by simp
    note valid = Validate_referential [OF this]
    define d where "d = Referential_SetDefinition env api1 r"
    have saved: "save_and_start env d g ms = (res, g', ms')"
      using ReferentialJson v True created
      by (simp add: ReferentialController_Create_def Let_def api_def [symmetric] r_def [symmetric] d_def)
    show ?thesis
    proof (rule save_and_start_inv [OF inv _ _ u _ saved])
      show "manager_inv (rf_partners d)" by (simp add: d_def r_def manager_inv_new)
      show "slugRegexp (rf_slug d)" using valid(1,3) by (simp add: d_def)
      show "rf_slug q \<noteq> rf_slug d" if "mget ms j = Some q" "j \<noteq> rf_id d" for j q
        using valid(1,4) mget_some_vals [OF that(1)] referentials_invD(1) [OF inv that(1)] that(2) id
        by (simp add: d_def r_def)
    qed
  qed
qed (use inv created in \<open>simp_all add: ReferentialController_Create_def\<close>)

lemma Referential_Delete_inv:
  assumes inv: "referentials_inv ms"
  shows "\<exists>res ms'. ReferentialController_Delete key ms = Some (res, ms') \<and> referentials_inv ms'"
proof (cases "ReferentialController_findReferential ms key")
  case (Some r)
  have "rf_running r" using referentials_invD(2) [OF inv findReferential_stored [OF inv Some]] by (simp add: referential_inv_def)
  from Stop_running [OF this] obtain s where "Referential_Stop r = Some s" by metis
  moreover have "referentials_inv (mdel i ms)" for i using inv by (auto simp: referentials_inv_def gomap_simps)
  ultimately show ?thesis using Some by (simp add: ReferentialController_Delete_def MemoryReferentials_Delete_def)
qed (use inv in \<open>simp add: ReferentialController_Delete_def\<close>)

lemma Referential_reload_inv:
  assumes inv: "referentials_inv ms"
  shows "\<exists>res ms'. ReferentialController_reload env key ms = Some (res, ms') \<and> referentials_inv ms'"
proof (cases "ReferentialController_findReferential ms key")
  case (Some r)
  note at = findReferential_stored [OF inv Some]
  note r = referentials_invD [OF inv at]
  have "rf_running r" using r(2) by (simp add: referential_inv_def)
  from ReloadModel_running [OF this, of env] obtain s where s: "Referential_ReloadModel env r = Some s" "rf_running s"
    "rf_id s = rf_id r" "rf_slug s = rf_slug r"
    "rf_partners s = PartnerManager_Start (parse_duration_of env) (now_of env) (PartnerManager_Stop (rf_partners r))" by metis
  have "referential_inv s" using r(2) s by (simp add: referential_inv_def)
  then have "referentials_inv (on_referential (rf_id r) (\<lambda>_. s) ms)"
    by (intro on_referential_inv [OF inv]) (use at s in simp)
  with Some s(1) show ?thesis by (simp add: ReferentialController_reload_def)
qed (use inv in \<open>simp add: ReferentialController_reload_def\<close>)

datatype referential_op =
    CreateReferential surroundings referential_json
  | UpdateReferential surroundings string referential_json
  | DeleteReferential string
  | ReloadReferential surroundings string
  | OnPartners "string \<Rightarrow> int" string api_op

fun referential_op_ok :: "referential_op \<Rightarrow> bool" where
  "referential_op_ok (OnPartners parse_duration slug x) = api_op_ok x"
| "referential_op_ok _ = True"

text \<open>A request on the partners is served by the referential whose slug the path of the request has.\<close>

fun referential_step ::
  "referential_op \<Rightarrow> uuid_gen \<times> MemoryReferentials \<Rightarrow> (uuid_gen \<times> MemoryReferentials) option" where
  "referential_step (CreateReferential env json) (g, ms) = Some (snd (ReferentialController_Create env json g ms))"
| "referential_step (UpdateReferential env key json) (g, ms) =
     map_option snd (ReferentialController_Update env key json g ms)"
| "referential_step (DeleteReferential key) (g, ms) =
     map_option (\<lambda>(_, ms'). (g, ms')) (ReferentialController_Delete key ms)"
| "referential_step (ReloadReferential env key) (g, ms) =
     map_option (\<lambda>(_, ms'). (g, ms')) (ReferentialController_reload env key ms)"
| "referential_step (OnPartners parse_duration slug x) (g, ms) =
     (case MemoryReferentials_FindBySlug ms slug of
        None \<Rightarrow> Some (g, ms)
      | Some r \<Rightarrow> do {
          (g1, partners) \<leftarrow> api_step parse_duration x (g, rf_partners r);
          Some (g1, on_referential (rf_id r) (\<lambda>r. r\<lparr>rf_partners := partners\<rparr>) ms) })"

fun referential_run ::
  "referential_op list \<Rightarrow> uuid_gen \<times> MemoryReferentials \<Rightarrow> (uuid_gen \<times> MemoryReferentials) option" where
  "referential_run [] s = Some s"
| "referential_run (x # xs) s = Option.bind (referential_step x s) (referential_run xs)"

lemma referential_step_inv:
  assumes inv: "referentials_inv ms" and u: "\<And>n. ug_uuid g n \<noteq> ''''" and ok: "referential_op_ok x"
  shows "\<exists>g' ms'. referential_step x (g, ms) = Some (g', ms') \<and> referentials_inv ms' \<and> ug_uuid g' = ug_uuid g"
proof (cases x)
  case (CreateReferential env json)
  obtain res g' ms' where c: "ReferentialController_Create env json g ms = (res, g', ms')"
    by (cases "ReferentialController_Create env json g ms")
  with Referential_Create_inv [OF inv u c] CreateReferential show ?thesis by simp
next
  case (UpdateReferential env key json)
  with Referential_Update_inv [OF inv u, of env key json] show ?thesis by auto
next
  case (DeleteReferential key)
  with Referential_Delete_inv [OF inv, of key] show ?thesis by auto
next
  case (ReloadReferential env key)
  with Referential_reload_inv [OF inv, of env key] show ?thesis by auto
next
  case (OnPartners parse_duration slug y)
  show ?thesis
  proof (cases "MemoryReferentials_FindBySlug ms slug")
    case None
    with inv OnPartners show ?thesis by simp
  next
    case (Some r)
    have "ReferentialController_findReferential ms slug = Some r"
      by (simp add: ReferentialController_findReferential_def Some)
    note r = referentials_invD [OF inv findReferential_stored [OF inv this]]
    have "manager_inv (rf_partners r)" using r(2) by (simp add: referential_inv_def)
    from api_step_inv [OF this _ u, of y parse_duration] obtain g' m where
      m: "api_step parse_duration y (g, rf_partners r) = Some (g', m)" "manager_inv m" "ug_uuid g' = ug_uuid g"
      using ok OnPartners by auto
    have "referentials_inv (on_referential (rf_id r) (\<lambda>r. r\<lparr>rf_partners := m\<rparr>) ms)"
    proof (rule on_referential_inv [OF inv])
      fix q assume "mget ms (rf_id r) = Some q"
      with referentials_invD(2) [OF inv] have "referential_inv q" .
      then show "referential_inv (q\<lparr>rf_partners := m\<rparr>) \<and> rf_id (q\<lparr>rf_partners := m\<rparr>) = rf_id q \<and>
          rf_slug (q\<lparr>rf_partners := m\<rparr>) = rf_slug q"
        using m(2) by (simp add: referential_inv_def rf_running_def)
    qed
    with OnPartners Some m show ?thesis by simp
  qed
qed

lemma referential_run_inv:
  "referentials_inv ms \<Longrightarrow> (\<And>n. ug_uuid g n \<noteq> '''') \<Longrightarrow> list_all referential_op_ok ops \<Longrightarrow>
     \<exists>g' ms'. referential_run ops (g, ms) = Some (g', ms') \<and> referentials_inv ms'"
proof (induction ops arbitrary: g ms)
  case (Cons x ops)
  then obtain g1 ms1 where s: "referential_step x (g, ms) = Some (g1, ms1)" "referentials_inv ms1" "ug_uuid g1 = ug_uuid g"
    using referential_step_inv [of ms g x] by auto
  with Cons.IH [of ms1 g1] Cons.prems show ?case by simp
qed simp

lemma referentials_inv_new: "referentials_inv NewMemoryReferentials"
  by (simp add: referentials_inv_def NewMemoryReferentials_def)

text \<open>C6. Whatever referentials are created, updated, reloaded and deleted through the API, and partners in
  them, it never panics: no guardian and no broadcaster is stopped twice. Every referential is found by
  its identifier and its slug, whose form is right, its guardians and its broadcaster run, and in each a
  credential finds exactly the partner that holds it.\<close>

theorem referentials_api:
  assumes "list_all referential_op_ok ops" and "\<And>n. ug_uuid g n \<noteq> ''''"
  shows "\<exists>g' ms. referential_run ops (g, NewMemoryReferentials) = Some (g', ms) \<and>
    (\<forall>r \<in> set (MemoryReferentials_FindAll ms).
       MemoryReferentials_Find ms (rf_id r) = Some r \<and> MemoryReferentials_FindBySlug ms (rf_slug r) = Some r \<and>
       slugRegexp (rf_slug r) \<and>
       rf_partnersGuardian r = OpenStop \<and> rf_modelGuardian r = OpenStop \<and> bm_stop (rf_broacasterManager r) = OpenStop \<and>
       (\<forall>c p. c \<noteq> '''' \<longrightarrow> (PartnerManager_FindByCredential (rf_partners r) c = Some p \<longleftrightarrow>
          p \<in> set (PartnerManager_FindAll (rf_partners r)) \<and>
          c \<in> set (splitCredentials (PartnerSettings_Credentials (prt_settings p))))))"
proof -
  obtain g' ms where run: "referential_run ops (g, NewMemoryReferentials) = Some (g', ms)" and inv: "referentials_inv ms"
    using referential_run_inv [OF referentials_inv_new assms(2,1)] by auto
  have "referential_inv r" if "r \<in> set (MemoryReferentials_FindAll ms)" for r
    using referentials_invD(2) [OF inv] referential_found(1) [OF inv that] by (simp add: MemoryReferentials_Find_def)
  then have parts: "rf_running r" "manager_inv (rf_partners r)" "slugRegexp (rf_slug r)"
    if "r \<in> set (MemoryReferentials_FindAll ms)" for r
    using that unfolding referential_inv_def by blast+
  show ?thesis
    using run referential_found [OF inv] parts(3) parts(1) [unfolded rf_running_def] found_by_credential [OF parts(2)]
    by (intro exI conjI ballI allI impI) blast+
qed

definition example_referential_ops :: "referential_op list" where
  "example_referential_ops =
     [CreateReferential (example_env 1) (ReferentialJson \<lparr>rb_OrganisationId = None, rb_Slug = Some ''r'', rb_Name = None,
        rb_Settings = None, rb_Tokens = Some [''t'']\<rparr>),
      OnPartners (\<lambda>_. 0) ''r'' (CreatePartner 2 (Parsed (example_body ''a'' [(LOCAL_CREDENTIAL, ''x''),
        (REMOTE_OBJECTID_KIND, ''k'')] [GTFS_RT_TRIP_UPDATES_BROADCASTER]))),
      ReloadReferential (example_env 3) ''r'',
      UpdateReferential (example_env 4) ''r'' (ReferentialJson \<lparr>rb_OrganisationId = None, rb_Slug = Some ''s'',
        rb_Name = None, rb_Settings = None, rb_Tokens = None\<rparr>)]"

theorem referentials_api_witness:
  "\<exists>g' ms r. referential_run example_referential_ops (numbered, NewMemoryReferentials) = Some (g', ms) \<and>
     MemoryReferentials_FindBySlug ms ''s'' = Some r \<and> rf_modelGuardian r = OpenStop"
proof -
  have ok: "list_all referential_op_ok example_referential_ops"
    by (simp add: example_referential_ops_def example_body_def body_ok_def mwf_def LOCAL_CREDENTIAL_def
        REMOTE_OBJECTID_KIND_def)
  have ids: "ug_uuid numbered n \<noteq> ''''" for n by (simp add: numbered_def)
  obtain g' ms where run: "referential_run example_referential_ops (numbered, NewMemoryReferentials) = Some (g', ms)"
    and all: "\<forall>r \<in> set (MemoryReferentials_FindAll ms). rf_modelGuardian r = OpenStop"
    using referentials_api [OF ok ids] by blast
  have "(case referential_run example_referential_ops (numbered, NewMemoryReferentials) of None \<Rightarrow> False
      | Some (g', ms) \<Rightarrow> map_option rf_id (MemoryReferentials_FindBySlug ms ''s'') = Some (ug_uuid numbered 0))" by code_simp
  then obtain r where r: "MemoryReferentials_FindBySlug ms ''s'' = Some r" by (auto simp: run)
  then have "r \<in> set (MemoryReferentials_FindAll ms)"
    unfolding MemoryReferentials_FindBySlug_def MemoryReferentials_FindAll_def by (rule conjunct1 [OF first_some_Some])
  with run all r show ?thesis by blast
qed

end
