(* ===== verification/CollectProps.thy ===== *)
theory CollectProps
  imports Notifications VisitUpdates SiriReads ReferentialApi
begin

text \<open>
  What collecting does: who is asked for a stop area, and which visits a response makes not collected.
\<close>

section \<open>Broadcasting changes the model only\<close>

definition same_but_model :: "world \<Rightarrow> world \<Rightarrow> bool" where
  "same_but_model s s' \<longleftrightarrow> (\<exists>model. snd s' = (snd s)\<lparr>rf_model := model\<rparr>)"

lemma same_but_model_refl [simp, intro]: "same_but_model s s"
  unfolding same_but_model_def by (rule exI [of _ "rf_model (snd s)"]) simp

lemma same_but_model_trans: "same_but_model s1 s2 \<Longrightarrow> same_but_model s2 s3 \<Longrightarrow> same_but_model s1 s3"
  by (auto simp: same_but_model_def)

lemma same_but_model_partners:
  assumes "same_but_model s s'"
  shows "rf_partners (snd s') = rf_partners (snd s)" "rf_collectManager (snd s') = rf_collectManager (snd s)"
  using assms by (auto simp: same_but_model_def)

lemma fold_option_None [simp]: "fold (\<lambda>x acc. Option.bind acc (f x)) xs None = None"
  by (induction xs) simp_all

text \<open>A fold of steps that may crash keeps what each step keeps.\<close>

lemma fold_option_induct:
  assumes "fold (\<lambda>x acc. Option.bind acc (f x)) xs (Some s) = Some s'" and "P s"
    and "\<And>x t t'. x \<in> set xs \<Longrightarrow> P t \<Longrightarrow> f x t = Some t' \<Longrightarrow> P t'"
  shows "P s'"
  using assms
proof (induction xs arbitrary: s)
  case (Cons x xs)
  then show ?case by (cases "f x s") auto
qed simp

lemma BroadcastUpdateEvent_alt:
  "CollectManager_BroadcastUpdateEvent rm event s =
     fold (\<lambda>subscriber acc. Option.bind acc (\<lambda>(g, r). do {
         (g1, model) \<leftarrow> Update (rm_now rm) (rm_sha1_hex rm) event g (rf_model r); Some (g1, r\<lparr>rf_model := model\<rparr>) }))
       (cm_UpdateSubscribers (rf_collectManager (snd s))) (Some s)"
  by (simp add: CollectManager_BroadcastUpdateEvent_def)

lemma BroadcastUpdateEvent_keeps:
  assumes "CollectManager_BroadcastUpdateEvent rm event s = Some s'"
  shows "same_but_model s s'"
  by (rule fold_option_induct [OF assms [unfolded BroadcastUpdateEvent_alt]])
    (auto simp: same_but_model_def bind_eq_Some_conv)

lemma broadcastUpdateEvents_keeps:
  assumes "broadcastUpdateEvents rm events s = Some s'"
  shows "same_but_model s s'"
  by (rule fold_option_induct [OF assms [unfolded broadcastUpdateEvents_def]])
    (auto intro: same_but_model_trans BroadcastUpdateEvent_keeps)

lemma broadcastUpdateEvents_Nil [simp]: "broadcastUpdateEvents rm [] s = Some s"
  by (simp add: broadcastUpdateEvents_def)

lemma broadcastUpdateEvents_append:
  "broadcastUpdateEvents rm (es @ fs) s = Option.bind (broadcastUpdateEvents rm es s) (broadcastUpdateEvents rm fs)"
  by (cases "broadcastUpdateEvents rm es s") (simp_all add: broadcastUpdateEvents_def)

section \<open>Who is asked for a stop area\<close>

lemma partner_at_change_other: "j \<noteq> i \<Longrightarrow> partner_at (change_partner i f r) j = partner_at r j"
  by (simp add: partner_at_def change_partner_def on_partner_def mget_mput split: option.split)

lemma change_partner_model [simp]: "rf_model (change_partner i f r) = rf_model r"
  by (simp add: change_partner_def)

lemma partner_at_model [simp]: "partner_at (r\<lparr>rf_model := model\<rparr>) j = partner_at r j"
  by (simp add: partner_at_def)

text \<open>What an operation for a partner leaves alone: the other partners.\<close>

definition others_kept :: "PartnerId \<Rightarrow> world \<Rightarrow> world \<Rightarrow> bool" where
  "others_kept i s s' \<longleftrightarrow> (\<forall>j. j \<noteq> i \<longrightarrow> partner_at (snd s') j = partner_at (snd s) j)"

lemma others_kept_refl [simp, intro]: "others_kept i s s"
  by (simp add: others_kept_def)

lemma others_kept_trans: "others_kept i s1 s2 \<Longrightarrow> others_kept i s2 s3 \<Longrightarrow> others_kept i s1 s3"
  by (simp add: others_kept_def)

lemma others_kept_same: "same_but_model s s' \<Longrightarrow> others_kept i s s'"
  by (auto simp: others_kept_def same_but_model_def)

lemma others_kept_identifier: "new_message_identifier partner s = (m, s') \<Longrightarrow> others_kept (prt_id partner) s s'"
  by (auto simp: new_message_identifier_def others_kept_def partner_at_change_other split: prod.splits)

lemma others_kept_subscriptions: "with_subscriptions partner f s = Some s' \<Longrightarrow> others_kept (prt_id partner) s s'"
  by (auto simp: with_subscriptions_def others_kept_def partner_at_change_other bind_eq_Some_conv split: prod.splits)

lemma not_collected_step:
  assumes "not_collected rm kind slug ((ref, events) # rest) monitored s = Some s'"
  obtains "not_collected rm kind slug rest monitored s = Some s'"
  | monitored1 s1 where "broadcastNotCollectedEvents rm events monitored1 s = Some s1"
      and "not_collected rm kind slug rest monitored1 s1 = Some s'"
  using assms by (auto simp: Let_def bind_eq_Some_conv split: option.splits)

lemma not_collected_keeps:
  "not_collected rm kind slug refs monitored s = Some s' \<Longrightarrow> same_but_model s s'"
proof (induction refs arbitrary: monitored s)
  case (Cons x rest)
  obtain ref events where x: "x = (ref, events)" by (rule prod.exhaust)
  from Cons.prems [unfolded x] show ?case
    by (cases rule: not_collected_step)
      (auto intro: Cons.IH same_but_model_trans [OF broadcastUpdateEvents_keeps] simp: broadcastNotCollectedEvents_def)
qed simp

lemma request_stop_area_keeps:
  assumes "SIRIStopMonitoringRequestCollector_RequestStopAreaUpdate rm partner i s = Some s'"
  shows "others_kept (prt_id partner) s s'"
proof -
  note asked = others_kept_identifier [of partner s]
  note later = others_kept_trans [OF others_kept_same [OF broadcastUpdateEvents_keeps] others_kept_same [OF not_collected_keeps]]
  from assms show ?thesis
    unfolding SIRIStopMonitoringRequestCollector_RequestStopAreaUpdate_def Let_def
    by (auto split: option.splits prod.splits simp: bind_eq_Some_conv
        intro: asked others_kept_trans [OF asked later])
qed

lemma RequestStopAreaUpdate_keeps:
  "RequestStopAreaUpdate rm partner connectorType i s = Some s' \<Longrightarrow> others_kept (prt_id partner) s s'"
  by (auto simp: RequestStopAreaUpdate_def split: if_splits
      intro: others_kept_subscriptions request_stop_area_keeps)

text \<open>The first of a list sorted by decreasing priority.\<close>

lemma first_some_sorted:
  "first_some P (sort_key k xs) = Some x \<Longrightarrow> x \<in> set xs \<and> P x \<and> (\<forall>y \<in> set xs. P y \<longrightarrow> k x \<le> k y)"
proof -
  have "first_some P ys = Some x \<Longrightarrow> sorted (map k ys) \<Longrightarrow> x \<in> set ys \<and> P x \<and> (\<forall>y \<in> set ys. P y \<longrightarrow> k x \<le> k y)" for ys
    by (induction ys) (auto split: if_splits)
  from this [of "sort_key k xs"]
  show "first_some P (sort_key k xs) = Some x \<Longrightarrow> x \<in> set xs \<and> P x \<and> (\<forall>y \<in> set xs. P y \<longrightarrow> k x \<le> k y)" by simp
qed

text \<open>The collector that is asked: the one that subscribes where there is one.\<close>

definition stop_area_collector :: "Partner \<Rightarrow> string" where
  "stop_area_collector partner =
     (case Partner_StopMonitoringSubscriptionCollector partner of
        Some c \<Rightarrow> c
      | None \<Rightarrow> the (Partner_StopMonitoringRequestCollector partner))"

text \<open>C11. A stop area is asked to one partner at most: of those that can update it one with the greatest
  priority, through its subscription collector where it has one. No other partner is changed, and when none can
  update it, or the stop area is unknown, nothing happens at all.\<close>

theorem stop_area_partner:
  fixes rm :: "'n remote"
  shows "let candidates = {p \<in> set (PartnerManager_FindAll (rf_partners (snd s))).
        \<exists>sa. MemoryStopAreas_Find (mm_stopAreas (rf_model (snd s))) i = Some sa \<and>
             can_update_stop_area (rf_model (snd s)) sa p}
    in if candidates = {} then CollectManager_UpdateStopArea rm i s = Some s
       else \<exists>p \<in> candidates.
         (\<forall>q \<in> candidates. PartnerSettings_CollectPriority (prt_settings q) \<le> PartnerSettings_CollectPriority (prt_settings p)) \<and>
         CollectManager_UpdateStopArea rm i s = RequestStopAreaUpdate rm p (stop_area_collector p) i s \<and>
         (\<forall>s'. CollectManager_UpdateStopArea rm i s = Some s' \<longrightarrow>
           (\<forall>j. j \<noteq> prt_id p \<longrightarrow> partner_at (snd s') j = partner_at (snd s) j))"
proof (cases "MemoryStopAreas_Find (mm_stopAreas (rf_model (snd s))) i")
  case None
  then show ?thesis by (simp add: CollectManager_UpdateStopArea_def)
next
  case (Some sa)
  let ?can = "can_update_stop_area (rf_model (snd s)) sa"
  let ?all = "PartnerManager_FindAll (rf_partners (snd s))"
  show ?thesis
  proof (cases "first_some ?can (PartnerManager_FindAllByCollectPriority (rf_partners (snd s)))")
    case None
    then have "\<forall>p \<in> set ?all. \<not> ?can p" by (simp add: PartnerManager_FindAllByCollectPriority_def)
    then have none: "{p \<in> set ?all. \<exists>sa. MemoryStopAreas_Find (mm_stopAreas (rf_model (snd s))) i = Some sa \<and>
        can_update_stop_area (rf_model (snd s)) sa p} = {}"
      using Some by auto
    have "CollectManager_UpdateStopArea rm i s = Some s"
      unfolding CollectManager_UpdateStopArea_def Let_def Some option.case None ..
    then show ?thesis unfolding Let_def none by simp
  next
    case (Some p)
    from first_some_sorted [OF Some [unfolded PartnerManager_FindAllByCollectPriority_def]]
    have p: "p \<in> set ?all" "?can p" "\<forall>q \<in> set ?all. ?can q \<longrightarrow>
        PartnerSettings_CollectPriority (prt_settings q) \<le> PartnerSettings_CollectPriority (prt_settings p)"
      by simp_all
    from p(2) have "Partner_StopMonitoringSubscriptionCollector p \<noteq> None \<or> Partner_StopMonitoringRequestCollector p \<noteq> None"
      by (auto simp: can_update_stop_area_def Let_def split: if_splits)
    then have asked: "CollectManager_UpdateStopArea rm i s = RequestStopAreaUpdate rm p (stop_area_collector p) i s"
      using Some \<open>MemoryStopAreas_Find _ i = _\<close>
      by (auto simp: CollectManager_UpdateStopArea_def stop_area_collector_def split: option.splits)
    moreover have "\<forall>j. j \<noteq> prt_id p \<longrightarrow> partner_at (snd s') j = partner_at (snd s) j"
      if "CollectManager_UpdateStopArea rm i s = Some s'" for s'
      using RequestStopAreaUpdate_keeps that unfolding asked others_kept_def by blast
    ultimately show ?thesis using p \<open>MemoryStopAreas_Find _ i = _\<close> by auto
  qed
qed

definition collect_visit :: StopVisit where
  "collect_visit = StopVisit_SetObjectID (NewObjectID ''k'' ''v'')
     ((NewStopVisit TheModel)\<lparr>sv_id := ''v'', sv_StopAreaId := ''a'', sv_collected := True, sv_Origin := ''p''\<rparr>)"

definition collect_model :: MemoryModel where
  "collect_model = example_cycle_model\<lparr>mm_stopVisits := snd (snd (MemoryStopVisits_Save (fake_gen True) collect_visit
     (mm_stopVisits example_cycle_model)))\<rparr>"

definition collect_partner :: "string \<Rightarrow> string \<Rightarrow> string list \<Rightarrow> Partner" where
  "collect_partner i priority connectors =
     (PartnerManager_New i)\<lparr>prt_id := i, prt_connectors := connectors,
       prt_PartnerStatus := \<lparr>pst_OperationnalStatus = OPERATIONNAL_STATUS_UP, pst_ServiceStartedAt = zero_stamp\<rparr>,
       prt_settings := PartnerSettings_setCollectSettings (NewPartnerSettings\<lparr>ps_s :=
         [(REMOTE_OBJECTID_KIND, ''k''), (COLLECT_PRIORITY, priority)]\<rparr>)\<rparr>"

definition collect_world :: world where
  "collect_world =
     (fake_gen True, (MemoryReferentials_New (example_env 0) ''r'')\<lparr>rf_model := collect_model,
        rf_collectManager := CollectManager_HandleUpdateEvent UpdateManager_Update
          (CollectManager_HandleSituationUpdateEvent SituationUpdateManager_UpdateSituation NewCollectManager),
        rf_partners := NewPartnerManager\<lparr>pm_byId :=
          [(''q'', collect_partner ''q'' ''1'' [SIRI_STOP_MONITORING_REQUEST_COLLECTOR]),
           (''p'', collect_partner ''p'' ''2'' [SIRI_STOP_MONITORING_SUBSCRIPTION_COLLECTOR, SIRI_GENERAL_MESSAGE_SUBSCRIPTION_COLLECTOR])]\<rparr>\<rparr>)"

definition silent_remote :: "nat remote" where
  "silent_remote = \<lparr>rm_now = 5, rm_zone = (\<lambda>_. (0, 0, 0)), rm_sha1_hex = (\<lambda>x. x), rm_gk = document_gokogiri [], rm_StopMonitoring = (\<lambda>_ _. None),
     rm_SituationMonitoring = (\<lambda>_ _. None)\<rparr>"

lemma collect_visit:
  "stop_visit_wf collect_visit" "sv_id collect_visit = ''v''" "sv_objectids collect_visit = [(''k'', NewObjectID ''k'' ''v'')]"
  "sv_collected collect_visit" "sv_StopAreaId collect_visit = ''a''" "sv_Origin collect_visit = ''p''"
  "collect_visit\<lparr>sv_model := TheModel\<rparr> = collect_visit"
  by (simp add: collect_visit_def stop_visit_wf_def StopVisit_SetObjectID_def, simp add: NewStopVisit_def NewAttributes_def
      NewReferences_def NewStopVisitSchedules_def)
    (simp_all add: collect_visit_def StopVisit_SetObjectID_def Consumer_SetObjectID_def NewStopVisit_def NewObjectID_def)

lemma collect_model:
  "mm_inv collect_model" "mm_stopAreas collect_model = mm_stopAreas example_cycle_model"
  "msv_byIdentifier (mm_stopVisits collect_model) = [(''v'', collect_visit)]"
proof -
  have model: "msv_model (mm_stopVisits example_cycle_model) = TheModel"
    "msv_byIdentifier (mm_stopVisits example_cycle_model) = []"
    by (simp_all add: example_cycle_model_def NewMemoryModel_def NewMemoryStopVisits_def)
  obtain g v s where save: "MemoryStopVisits_Save (fake_gen True) collect_visit (mm_stopVisits example_cycle_model) = (g, v, s)"
    by (rule prod_cases3)
  have m: "collect_model = example_cycle_model\<lparr>mm_stopVisits := s\<rparr>" by (simp add: collect_model_def save)
  from mem_stopvisits.inv_save [OF mm_invD(2) [OF example_cycle_model(1)] collect_visit(1) ug_ok_fake save]
  show "mm_inv collect_model" using example_cycle_model(1) by (simp add: m mm_inv_def)
  show "mm_stopAreas collect_model = mm_stopAreas example_cycle_model" by (simp add: m)
  show "msv_byIdentifier (mm_stopVisits collect_model) = [(''v'', collect_visit)]"
    using mem_stopvisits.save_eq [OF save] by (simp add: m model collect_visit)
qed

lemma collect_area:
  "MemoryStopAreas_Find (mm_stopAreas collect_model) ''a'' = Some example_area_a"
  using mem_stopareas.find_mget [OF mm_invD(1) [OF collect_model(1)], of "''a''"]
  by (simp add: collect_model example_cycle_model)

lemma collect_world:
  "rf_model (snd collect_world) = collect_model" "fst collect_world = fake_gen True"
  "PartnerManager_FindAll (rf_partners (snd collect_world)) =
     [collect_partner ''q'' ''1'' [SIRI_STOP_MONITORING_REQUEST_COLLECTOR],
      collect_partner ''p'' ''2'' [SIRI_STOP_MONITORING_SUBSCRIPTION_COLLECTOR, SIRI_GENERAL_MESSAGE_SUBSCRIPTION_COLLECTOR]]"
  by (simp_all add: collect_world_def PartnerManager_FindAll_def)

lemma collect_partner_can:
  assumes "connectors \<in> {[SIRI_STOP_MONITORING_REQUEST_COLLECTOR],
      [SIRI_STOP_MONITORING_SUBSCRIPTION_COLLECTOR, SIRI_GENERAL_MESSAGE_SUBSCRIPTION_COLLECTOR]}"
  shows "can_update_stop_area collect_model example_area_a (collect_partner i n connectors)"
proof -
  have "Partner_Setting (collect_partner i n connectors) REMOTE_OBJECTID_KIND = ''k''"
    "\<And>x ls. Partner_CanCollect (collect_partner i n connectors) x ls"
    by code_simp+
  moreover have "Consumer_ObjectID (sa_objectids example_area_a) ''k'' = Some (NewObjectID ''k'' ''a'')"
    by (simp add: example_area_ab Consumer_ObjectID_def)
  moreover have "Partner_StopMonitoringSubscriptionCollector (collect_partner i n connectors) \<noteq> None \<or>
      Partner_StopMonitoringRequestCollector (collect_partner i n connectors) \<noteq> None"
    using assms by (elim insertE emptyE; hypsubst) (code_simp+)
  ultimately show ?thesis
    by (auto simp: can_update_stop_area_def Let_def collect_partner_def)
qed

theorem stop_area_partner_witness:
  "CollectManager_UpdateStopArea silent_remote ''a'' collect_world =
     RequestStopAreaUpdate silent_remote (collect_partner ''p'' ''2'' [SIRI_STOP_MONITORING_SUBSCRIPTION_COLLECTOR,
         SIRI_GENERAL_MESSAGE_SUBSCRIPTION_COLLECTOR])
       SIRI_STOP_MONITORING_SUBSCRIPTION_COLLECTOR ''a'' collect_world"
proof -
  let ?p = "collect_partner ''p'' ''2'' [SIRI_STOP_MONITORING_SUBSCRIPTION_COLLECTOR, SIRI_GENERAL_MESSAGE_SUBSCRIPTION_COLLECTOR]"
  let ?q = "collect_partner ''q'' ''1'' [SIRI_STOP_MONITORING_REQUEST_COLLECTOR]"
  have greater: "\<not> PartnerSettings_CollectPriority (prt_settings ?p) \<le> PartnerSettings_CollectPriority (prt_settings ?q)"
    by code_simp
  have collector: "stop_area_collector ?p = SIRI_STOP_MONITORING_SUBSCRIPTION_COLLECTOR" by code_simp
  have candidates: "{p \<in> set [?q, ?p]. \<exists>sa. Some example_area_a = Some sa \<and> can_update_stop_area collect_model sa p} = {?q, ?p}"
    using collect_partner_can by auto
  show ?thesis
    using stop_area_partner [of "collect_world" "''a''" silent_remote] greater collector
    unfolding collect_world collect_area candidates Let_def by auto
qed

section \<open>Visits that a response makes not collected\<close>

lemma find_area_oid_log [simp]:
  "MemoryStopAreas_FindByObjectId (s\<lparr>msa_broadcastEvent := b\<rparr>) = MemoryStopAreas_FindByObjectId s"
  by (simp add: fun_eq_iff MemoryStopAreas_FindByObjectId_def cong: option.case_cong)

lemma find_visit_oid_log [simp]:
  "MemoryStopVisits_FindByObjectId (s\<lparr>msv_broadcastEvent := b\<rparr>) = MemoryStopVisits_FindByObjectId s"
  by (simp add: fun_eq_iff MemoryStopVisits_FindByObjectId_def cong: option.case_cong)

text \<open>What a model has at least after some visits are no longer collected.\<close>

definition fewer_collected :: "MemoryModel \<Rightarrow> MemoryModel \<Rightarrow> bool" where
  "fewer_collected m m' \<longleftrightarrow> mm_inv m' \<and>
     MemoryStopAreas_FindByObjectId (mm_stopAreas m') = MemoryStopAreas_FindByObjectId (mm_stopAreas m) \<and>
     (\<forall>x v. MemoryStopVisits_FindByObjectId (mm_stopVisits m') x = Some (Some v) \<longrightarrow>
        \<not> sv_collected v \<or> MemoryStopVisits_FindByObjectId (mm_stopVisits m) x = Some (Some v))"

definition no_collected_visit :: "MemoryModel \<Rightarrow> ObjectID \<Rightarrow> bool" where
  "no_collected_visit m x \<longleftrightarrow>
     (\<forall>v. MemoryStopVisits_FindByObjectId (mm_stopVisits m) x = Some (Some v) \<longrightarrow> \<not> sv_collected v)"

lemma fewer_collected_refl: "mm_inv m \<Longrightarrow> fewer_collected m m"
  by (simp add: fewer_collected_def)

lemma fewer_collected_trans: "fewer_collected m1 m2 \<Longrightarrow> fewer_collected m2 m3 \<Longrightarrow> fewer_collected m1 m3"
  unfolding fewer_collected_def by metis

lemma no_collected_visit_later: "fewer_collected m m' \<Longrightarrow> no_collected_visit m x \<Longrightarrow> no_collected_visit m' x"
  unfolding fewer_collected_def no_collected_visit_def by blast

lemma updateNotCollected_effect:
  assumes "mm_inv m" and "ug_ok g"
  obtains m' where "updateNotCollected ev g m = Some (g, m')" and "fewer_collected m m'"
    and "no_collected_visit m' (ncu_ObjectId ev)"
proof (rule mem_stopvisits.find_oid_cases [OF mm_invD(2) [OF assms(1)], of "ncu_ObjectId ev"])
  assume "MemoryStopVisits_FindByObjectId (mm_stopVisits m) (ncu_ObjectId ev) = Some None"
  then show thesis
    using that [of m] fewer_collected_refl [OF assms(1)]
    by (simp add: updateNotCollected_eq [OF assms(2)] no_collected_visit_def)
next
  fix old
  note inv = mm_invD(2) [OF assms(1)]
  assume found: "MemoryStopVisits_FindByObjectId (mm_stopVisits m) (ncu_ObjectId ev) = Some (Some old)"
    and old: "stop_visit_wf old" "sv_id old \<noteq> []" "ncu_ObjectId ev \<in> set (mvals (sv_objectids old))"
  let ?e = "StopVisit_NotCollected old"
  from old have e: "stop_visit_wf ?e" "ncu_ObjectId ev \<in> set (mvals (sv_objectids ?e))" "\<not> sv_collected ?e" "sv_id ?e \<noteq> []"
    by simp (use old in \<open>simp_all add: StopVisit_NotCollected_def\<close>)
  obtain g' sv s where save: "MemoryStopVisits_Save g ?e (mm_stopVisits m) = (g', sv, s)"
    by (rule prod_cases3)
  have sv: "g' = g" "\<not> sv_collected sv"
    using mem_stopvisits.save_eq [OF save] e(3,4) by simp_all
  let ?m = "MemoryModel_deliver (m\<lparr>mm_stopVisits := s\<rparr>)"
  have step: "updateNotCollected ev g m = Some (g, ?m)"
    using found by (simp add: updateNotCollected_eq [OF assms(2)] save sv(1))
  have found_after: "MemoryStopVisits_FindByObjectId (mm_stopVisits ?m) = MemoryStopVisits_FindByObjectId s"
    by simp
  have "mm_inv ?m"
    using assms(1) mem_stopvisits.inv_save [OF inv e(1) assms(2) save] by (simp add: mm_inv_def)
  moreover have "\<not> sv_collected v \<or> MemoryStopVisits_FindByObjectId (mm_stopVisits m) x = Some (Some v)"
    if "MemoryStopVisits_FindByObjectId s x = Some (Some v)" for x v
    using mem_stopvisits.find_oid_after_save [OF inv e(1) assms(2) save that] sv(2) by blast
  ultimately have "fewer_collected m ?m"
    unfolding fewer_collected_def found_after by simp
  moreover have "no_collected_visit ?m (ncu_ObjectId ev)"
    using mem_stopvisits.find_oid_save [OF inv e(1) assms(2) save e(2)] sv(2)
    unfolding no_collected_visit_def found_after by simp
  ultimately show thesis by (rule that [OF step])
qed

text \<open>The same for the world a handler works on.\<close>

definition world_ok :: "world \<Rightarrow> bool" where
  "world_ok s \<longleftrightarrow> ug_ok (fst s) \<and> mm_inv (rf_model (snd s))"

definition fewer_in :: "world \<Rightarrow> world \<Rightarrow> bool" where
  "fewer_in s s' \<longleftrightarrow> world_ok s' \<and> same_but_model s s' \<and> fewer_collected (rf_model (snd s)) (rf_model (snd s'))"

lemma fewer_in_refl: "world_ok s \<Longrightarrow> fewer_in s s"
  by (simp add: fewer_in_def world_ok_def fewer_collected_refl)

lemma fewer_in_trans: "fewer_in s1 s2 \<Longrightarrow> fewer_in s2 s3 \<Longrightarrow> fewer_in s1 s3"
  unfolding fewer_in_def by (blast intro: same_but_model_trans fewer_collected_trans)

lemma not_collected_event_step:
  assumes "world_ok s"
  obtains s' where "(case s of (g, r) \<Rightarrow> do {
      (g1, model) \<leftarrow> Update (rm_now rm) (rm_sha1_hex rm) (NOT_COLLECTED_EVENT ev) g (rf_model r);
      Some (g1, r\<lparr>rf_model := model\<rparr>) }) = Some s'"
    and "fewer_in s s'" and "no_collected_visit (rf_model (snd s')) (ncu_ObjectId ev)"
proof -
  obtain g r where s: "s = (g, r)" by (rule prod.exhaust)
  with assms have ok: "mm_inv (rf_model r)" "ug_ok g" by (simp_all add: world_ok_def)
  show thesis
  proof (rule updateNotCollected_effect [OF ok, of ev])
    fix m'
    assume m': "updateNotCollected ev g (rf_model r) = Some (g, m')" "fewer_collected (rf_model r) m'"
      "no_collected_visit m' (ncu_ObjectId ev)"
    show thesis
      by (rule that [of "(g, r\<lparr>rf_model := m'\<rparr>)"])
        (use ok m' in \<open>auto simp: s fewer_in_def world_ok_def same_but_model_def fewer_collected_def\<close>)
  qed
qed

lemma not_collected_broadcast:
  assumes "world_ok s"
  obtains s' where "CollectManager_BroadcastUpdateEvent rm (NOT_COLLECTED_EVENT ev) s = Some s'" and "fewer_in s s'"
    and "cm_UpdateSubscribers (rf_collectManager (snd s)) \<noteq> [] \<Longrightarrow>
      no_collected_visit (rf_model (snd s')) (ncu_ObjectId ev)"
proof -
  let ?f = "\<lambda>(subscriber :: UpdateSubscriber) (g, r :: Referential). do {
      (g1, model) \<leftarrow> Update (rm_now rm) (rm_sha1_hex rm) (NOT_COLLECTED_EVENT ev) g (rf_model r);
      Some (g1, r\<lparr>rf_model := model\<rparr>) }"
  have "\<exists>s'. fold (\<lambda>x acc. Option.bind acc (?f x)) xs (Some s) = Some s' \<and> fewer_in s s' \<and>
      (xs \<noteq> [] \<or> no_collected_visit (rf_model (snd s)) (ncu_ObjectId ev) \<longrightarrow>
        no_collected_visit (rf_model (snd s')) (ncu_ObjectId ev))" for xs
    using assms
  proof (induction xs arbitrary: s)
    case Nil
    then show ?case by (simp add: fewer_in_refl)
  next
    case (Cons x xs)
    show ?case
    proof (rule not_collected_event_step [OF Cons.prems, of rm ev])
      fix s1
      assume s1: "(case s of (g, r) \<Rightarrow> do {
          (g1, model) \<leftarrow> Update (rm_now rm) (rm_sha1_hex rm) (NOT_COLLECTED_EVENT ev) g (rf_model r);
          Some (g1, r\<lparr>rf_model := model\<rparr>) }) = Some s1"
        "fewer_in s s1" "no_collected_visit (rf_model (snd s1)) (ncu_ObjectId ev)"
      from s1(2) have "world_ok s1" by (simp add: fewer_in_def)
      from Cons.IH [OF this] s1 show ?case by (auto intro: fewer_in_trans)
    qed
  qed
  from this [of "cm_UpdateSubscribers (rf_collectManager (snd s))"] show thesis
    using that unfolding BroadcastUpdateEvent_alt by blast
qed

lemma broadcastNotCollectedEvents_effect:
  assumes "world_ok s"
  obtains s' where "broadcastNotCollectedEvents rm events objs s = Some s'" and "fewer_in s s'"
    and "cm_UpdateSubscribers (rf_collectManager (snd s)) \<noteq> [] \<Longrightarrow>
      \<forall>obj \<in> set objs. \<not> mhas events (oid_value obj) \<longrightarrow> no_collected_visit (rf_model (snd s')) obj"
proof -
  have "\<exists>s'. broadcastUpdateEvents rm (map (\<lambda>obj. NOT_COLLECTED_EVENT \<lparr>ncu_ObjectId = obj\<rparr>) xs) s = Some s' \<and>
      fewer_in s s' \<and> (cm_UpdateSubscribers (rf_collectManager (snd s)) \<noteq> [] \<longrightarrow>
        (\<forall>obj \<in> set xs. no_collected_visit (rf_model (snd s')) obj))" for xs
    using assms
  proof (induction xs arbitrary: s)
    case Nil
    then show ?case by (simp add: fewer_in_refl)
  next
    case (Cons x xs)
    show ?case
    proof (rule not_collected_broadcast [OF Cons.prems, of rm "\<lparr>ncu_ObjectId = x\<rparr>"])
      fix s1
      assume s1: "CollectManager_BroadcastUpdateEvent rm (NOT_COLLECTED_EVENT \<lparr>ncu_ObjectId = x\<rparr>) s = Some s1" "fewer_in s s1"
        "cm_UpdateSubscribers (rf_collectManager (snd s)) \<noteq> [] \<Longrightarrow>
           no_collected_visit (rf_model (snd s1)) (ncu_ObjectId \<lparr>ncu_ObjectId = x\<rparr>)"
      from s1(2) have ok: "world_ok s1" and cm: "rf_collectManager (snd s1) = rf_collectManager (snd s)"
        by (simp_all add: fewer_in_def same_but_model_partners)
      from Cons.IH [OF ok] obtain s2 where
        s2: "broadcastUpdateEvents rm (map (\<lambda>obj. NOT_COLLECTED_EVENT \<lparr>ncu_ObjectId = obj\<rparr>) xs) s1 = Some s2"
          "fewer_in s1 s2" "cm_UpdateSubscribers (rf_collectManager (snd s)) \<noteq> [] \<longrightarrow>
            (\<forall>obj \<in> set xs. no_collected_visit (rf_model (snd s2)) obj)"
        unfolding cm by blast
      have "broadcastUpdateEvents rm (map (\<lambda>obj. NOT_COLLECTED_EVENT \<lparr>ncu_ObjectId = obj\<rparr>) (x # xs)) s = Some s2"
        using s1(1) s2(1) by (simp add: broadcastUpdateEvents_def)
      moreover from s2(2) have "fewer_collected (rf_model (snd s1)) (rf_model (snd s2))" by (simp add: fewer_in_def)
      ultimately show ?case
        using s1(3) s2(3) fewer_in_trans [OF s1(2) s2(2)] no_collected_visit_later by auto
    qed
  qed
  from this [of "filter (\<lambda>obj. \<not> mhas events (oid_value obj)) objs"] show thesis
    using that unfolding broadcastNotCollectedEvents_def by auto
qed

definition known_stop_point :: "string \<Rightarrow> string \<Rightarrow> world \<Rightarrow> bool" where
  "known_stop_point kind ref s \<longleftrightarrow>
     (\<exists>sa. MemoryStopAreas_FindByObjectId (mm_stopAreas (rf_model (snd s))) (NewObjectID kind ref) = Some (Some sa))"

lemma known_stop_point_later: "fewer_in s s' \<Longrightarrow> known_stop_point kind ref s' = known_stop_point kind ref s"
  by (simp add: known_stop_point_def fewer_in_def fewer_collected_def)

lemma new_tx_parts [simp]:
  "tm_stopAreas (NewTransactionalModel m) = NewTransactionalStopAreas TheModel"
  "tm_stopVisits (NewTransactionalModel m) = NewTransactionalStopVisits TheModel"
  by (simp_all add: NewTransactionalModel_def)

text \<open>The visits that have been seen at a stop point are looked for in the events of the stop points that
  follow.\<close>

lemma not_collected_effect:
  assumes "world_ok s"
  obtains s' where "not_collected rm kind slug refs monitored s = Some s'" and "fewer_in s s'"
    and "\<And>obj ref events. cm_UpdateSubscribers (rf_collectManager (snd s)) \<noteq> [] \<Longrightarrow> obj \<in> set monitored \<Longrightarrow>
      (ref, events) \<in> set refs \<Longrightarrow> known_stop_point kind ref s \<Longrightarrow> \<not> mhas events (oid_value obj) \<Longrightarrow>
      no_collected_visit (rf_model (snd s')) obj"
proof -
  have "\<exists>s'. not_collected rm kind slug refs monitored s = Some s' \<and> fewer_in s s' \<and>
     (cm_UpdateSubscribers (rf_collectManager (snd s)) \<noteq> [] \<longrightarrow> (\<forall>obj \<in> set monitored. \<forall>(ref, events) \<in> set refs.
        known_stop_point kind ref s \<longrightarrow> \<not> mhas events (oid_value obj) \<longrightarrow> no_collected_visit (rf_model (snd s')) obj))"
    using assms
  proof (induction refs arbitrary: monitored s)
    case Nil
    then show ?case by (simp add: fewer_in_refl)
  next
    case (Cons x rest)
    obtain ref events where x: "x = (ref, events)" by (rule prod.exhaust)
    from Cons.prems have "stopareas_inv (mm_stopAreas (rf_model (snd s)))" by (auto simp: world_ok_def mm_inv_def)
    then obtain found where found:
      "MemoryStopAreas_FindByObjectId (mm_stopAreas (rf_model (snd s))) (NewObjectID kind ref) = Some found"
      using mem_stopareas.find_oid_no_crash [of "mm_stopAreas (rf_model (snd s))"] by blast
    show ?case
    proof (cases found)
      case None
      then have "\<not> known_stop_point kind ref s"
        "not_collected rm kind slug (x # rest) monitored s = not_collected rm kind slug rest monitored s"
        using found by (simp_all add: x known_stop_point_def)
      then show ?thesis using Cons.IH [OF Cons.prems, of monitored] by (auto simp: x)
    next
      case (Some sa)
      define monitored1 where "monitored1 = monitored @ List.map_filter (\<lambda>sv. Consumer_ObjectID (sv_objectids sv) kind)
        (MemoryStopVisits_FindMonitoredByOriginByStopAreaId (mm_stopVisits (rf_model (snd s))) (sa_id sa) slug)"
      show ?thesis
      proof (rule broadcastNotCollectedEvents_effect [OF Cons.prems, of rm events monitored1])
        fix s1
        assume s1: "broadcastNotCollectedEvents rm events monitored1 s = Some s1" "fewer_in s s1"
          "cm_UpdateSubscribers (rf_collectManager (snd s)) \<noteq> [] \<Longrightarrow>
             \<forall>obj \<in> set monitored1. \<not> mhas events (oid_value obj) \<longrightarrow> no_collected_visit (rf_model (snd s1)) obj"
        from s1(2) have ok: "world_ok s1" and cm: "rf_collectManager (snd s1) = rf_collectManager (snd s)"
          by (simp_all add: fewer_in_def same_but_model_partners)
        have step: "not_collected rm kind slug (x # rest) monitored s = not_collected rm kind slug rest monitored1 s1"
          using found Some s1(1)
          by (simp add: x monitored1_def TransactionalStopVisits_FindMonitoredByOriginByStopAreaId_def)
        from Cons.IH [OF ok, of monitored1] obtain s2 where s2: "not_collected rm kind slug rest monitored1 s1 = Some s2"
            "fewer_in s1 s2" and later: "cm_UpdateSubscribers (rf_collectManager (snd s)) \<noteq> [] \<longrightarrow>
              (\<forall>obj \<in> set monitored1. \<forall>(ref, events) \<in> set rest. known_stop_point kind ref s \<longrightarrow>
                \<not> mhas events (oid_value obj) \<longrightarrow> no_collected_visit (rf_model (snd s2)) obj)"
          unfolding cm known_stop_point_later [OF s1(2)] by blast
        from s2(2) have "fewer_collected (rf_model (snd s1)) (rf_model (snd s2))" by (simp add: fewer_in_def)
        then have "no_collected_visit (rf_model (snd s2)) obj"
          if "cm_UpdateSubscribers (rf_collectManager (snd s)) \<noteq> []" "obj \<in> set monitored1" "\<not> mhas events (oid_value obj)" for obj
          using s1(3) that no_collected_visit_later by blast
        moreover have "set monitored \<subseteq> set monitored1" by (simp add: monitored1_def)
        ultimately show ?thesis
          unfolding step using s2(1) fewer_in_trans [OF s1(2) s2(2)] later by (auto simp: x subset_iff)
      qed
    qed
  qed
  then show thesis using that by blast
qed

text \<open>C10. The visits that a response has for a stop point are made not collected by the stop points that come
  after it in the response. The list of the visits to look for is not emptied between two stop points, and a visit
  of the first is not among the events of the next: whatever the events of its own stop point are, no collected
  visit is left under its identifier.\<close>

theorem collected_visits_dropped:
  fixes rm :: "'n remote"
  assumes "world_ok s" and "cm_UpdateSubscribers (rf_collectManager (snd s)) \<noteq> []"
    and "MemoryStopAreas_FindByObjectId (mm_stopAreas (rf_model (snd s))) (NewObjectID kind ref) = Some (Some sa)"
    and "v \<in> set (MemoryStopVisits_FindMonitoredByOriginByStopAreaId (mm_stopVisits (rf_model (snd s))) (sa_id sa) slug)"
    and "Consumer_ObjectID (sv_objectids v) kind = Some obj"
    and "(ref', events') \<in> set rest" and "known_stop_point kind ref' s" and "\<not> mhas events' (oid_value obj)"
  shows "\<exists>s'. not_collected rm kind slug ((ref, events) # rest) [] s = Some s' \<and>
    (\<forall>w. MemoryStopVisits_FindByObjectId (mm_stopVisits (rf_model (snd s'))) obj = Some (Some w) \<longrightarrow> \<not> sv_collected w)"
proof -
  define monitored where "monitored = List.map_filter (\<lambda>sv. Consumer_ObjectID (sv_objectids sv) kind)
    (MemoryStopVisits_FindMonitoredByOriginByStopAreaId (mm_stopVisits (rf_model (snd s))) (sa_id sa) slug)"
  have obj: "obj \<in> set monitored"
    using assms(4,5) by (force simp: monitored_def List.map_filter_def)
  show ?thesis
  proof (rule broadcastNotCollectedEvents_effect [OF assms(1), of rm events monitored])
    fix s1
    assume s1: "broadcastNotCollectedEvents rm events monitored s = Some s1" "fewer_in s s1"
    from s1(2) have ok: "world_ok s1" and cm: "rf_collectManager (snd s1) = rf_collectManager (snd s)"
      by (simp_all add: fewer_in_def same_but_model_partners)
    have step: "not_collected rm kind slug ((ref, events) # rest) [] s = not_collected rm kind slug rest monitored s1"
      using assms(3) s1(1) by (simp add: monitored_def TransactionalStopVisits_FindMonitoredByOriginByStopAreaId_def)
    show ?thesis
    proof (rule not_collected_effect [OF ok, of rm kind slug rest monitored])
      fix s2
      assume s2: "not_collected rm kind slug rest monitored s1 = Some s2"
        "\<And>obj ref events. cm_UpdateSubscribers (rf_collectManager (snd s1)) \<noteq> [] \<Longrightarrow> obj \<in> set monitored \<Longrightarrow>
           (ref, events) \<in> set rest \<Longrightarrow> known_stop_point kind ref s1 \<Longrightarrow> \<not> mhas events (oid_value obj) \<Longrightarrow>
           no_collected_visit (rf_model (snd s2)) obj"
      have "no_collected_visit (rf_model (snd s2)) obj"
        by (rule s2(2) [OF _ obj assms(6) _ assms(8)])
          (use assms(2,7) cm known_stop_point_later [OF s1(2)] in simp_all)
      then show ?thesis unfolding step using s2(1) by (auto simp: no_collected_visit_def)
    qed
  qed
qed

lemma collect_world_ok:
  "world_ok collect_world" "cm_UpdateSubscribers (rf_collectManager (snd collect_world)) \<noteq> []"
  "known_stop_point ''k'' ''b'' collect_world"
  "MemoryStopAreas_FindByObjectId (mm_stopAreas (rf_model (snd collect_world))) (NewObjectID ''k'' ''a'') =
     Some (Some example_area_a)"
  by (simp_all add: world_ok_def collect_world collect_model example_cycle_model known_stop_point_def ug_ok_fake)
    (simp add: collect_world_def CollectManager_HandleUpdateEvent_def CollectManager_HandleSituationUpdateEvent_def)

theorem collected_visits_dropped_witness:
  "\<exists>s'. not_collected silent_remote ''k'' ''p'' [(''a'', [(''v'', example_visit_event)]), (''b'', [])] [] collect_world = Some s' \<and>
    (\<forall>w. MemoryStopVisits_FindByObjectId (mm_stopVisits (rf_model (snd s'))) (NewObjectID ''k'' ''v'') = Some (Some w) \<longrightarrow>
      \<not> sv_collected w)"
proof (rule collected_visits_dropped [OF collect_world_ok(1,2,4), where ref' = "''b''" and events' = "[]"])
  show "collect_visit \<in> set (MemoryStopVisits_FindMonitoredByOriginByStopAreaId
      (mm_stopVisits (rf_model (snd collect_world))) (sa_id example_area_a) ''p'')"
    by (simp add: MemoryStopVisits_FindMonitoredByOriginByStopAreaId_def collect_world collect_model collect_visit
        example_area_ab)
  show "Consumer_ObjectID (sv_objectids collect_visit) ''k'' = Some (NewObjectID ''k'' ''v'')"
    by (simp add: collect_visit Consumer_ObjectID_def)
qed (use collect_world_ok(3) in \<open>simp_all add: mhas_def\<close>)

end
