(* ===== verification/NotifyProps.thy ===== *)
theory NotifyProps
  imports CollectProps
begin

text \<open>
  What becomes of the messages of a notification: the loop over the events ends at the first that is known, and a
  notification sends the events of its earlier deliveries again with those of each further one.
\<close>

definition known_event :: "SituationUpdateEvent \<Rightarrow> MemoryModel \<Rightarrow> bool" where
  "known_event e m \<longleftrightarrow>
     (\<exists>st. MemorySituations_FindByObjectId (mm_situations m) (siu_SituationObjectID e) = Some st \<and>
           st_RecordedAt st = siu_RecordedAt e)"

lemma commit_fresh: "TransactionalModel_Commit g (NewTransactionalModel m) m' = (g, MemoryModel_deliver m')"
  by (simp add: fresh_commit_defs save_all_def)

lemma find_situation_oid_log [simp]:
  "MemorySituations_FindByObjectId (s\<lparr>mst_broadcastEvent := b\<rparr>) = MemorySituations_FindByObjectId s"
  "MemorySituations_FindAll (s\<lparr>mst_broadcastEvent := b\<rparr>) = MemorySituations_FindAll s"
  by (simp_all add: fun_eq_iff MemorySituations_FindByObjectId_def MemorySituations_FindAll_def)

lemma known_event_deliver [simp]: "known_event e (MemoryModel_deliver m) \<longleftrightarrow> known_event e m"
  by (simp add: known_event_def)

lemma update_known:
  assumes "known_event e m"
  shows "UpdateSituation h (e # es) g m = (g, MemoryModel_deliver m)"
proof -
  from assms have "SituationUpdater_Update h (NewTransactionalModel m) (e # es) g m = (g, m)"
    by (auto simp: known_event_def NewTransactionalModel_def)
  then show ?thesis by (simp add: UpdateSituation_def commit_fresh del: SituationUpdater_Update.simps)
qed

text \<open>The first object of a table that matches, after one that matches has been put.\<close>

lemma first_some_mput:
  assumes "P v" and "case first_some P (mvals m) of None \<Rightarrow> True | Some x \<Rightarrow> f x = k" and "keyed f m"
  shows "first_some P (mvals (mput k v m)) = Some v"
  using assms by (induction m) (auto simp: keyed_def split: if_splits option.splits)

lemma updatedSituation_recorded [simp]: "st_RecordedAt (updatedSituation h e found new) = siu_RecordedAt e"
  by (simp add: updatedSituation_def Let_def)

lemma updatedSituation_found: "st_id (updatedSituation h e (Some st) new) = st_id st \<and> st_objectids (updatedSituation h e (Some st) new) = st_objectids st"
  by (simp add: updatedSituation_def Let_def)

lemma updatedSituation_new:
  assumes "oid_kind (siu_SituationObjectID e) \<noteq> ''_default''"
  shows "Consumer_ObjectID_or_zero (st_objectids (updatedSituation h e None new)) (oid_kind (siu_SituationObjectID e)) =
    siu_SituationObjectID e"
  using assms by (simp add: updatedSituation_def Let_def Situation_SetObjectID_def Consumer_SetObjectID_def
      Consumer_ObjectID_or_zero_def Consumer_ObjectID_def NewObjectID_def mget_mput)

lemma saved_known:
  assumes "situations_inv s" and "oid_kind (siu_SituationObjectID e) \<noteq> ''_default''"
    and save: "MemorySituations_Save g (updatedSituation h e (MemorySituations_FindByObjectId s (siu_SituationObjectID e)) new) s = (g', st, s')"
  shows "\<exists>st. MemorySituations_FindByObjectId s' (siu_SituationObjectID e) = Some st \<and> st_RecordedAt st = siu_RecordedAt e"
proof -
  let ?found = "MemorySituations_FindByObjectId s (siu_SituationObjectID e)"
  let ?P = "\<lambda>situation. oid_value (Consumer_ObjectID_or_zero (st_objectids situation) (oid_kind (siu_SituationObjectID e))) =
      oid_value (siu_SituationObjectID e)"
  let ?t = "mst_byIdentifier s"
  from assms(1) have keyed: "keyed st_id ?t" and ids: "vals_ok (\<lambda>e. situation_wf e \<and> st_id e \<noteq> []) ?t"
    by (simp_all add: situations_inv_def)
  have st: "mst_byIdentifier s' = mput (st_id st) st ?t" "st_RecordedAt st = siu_RecordedAt e"
    using save by (auto simp: MemorySituations_Save_eq Let_def split: if_splits)
  have "?P st \<and> (case first_some ?P (mvals ?t) of None \<Rightarrow> True | Some x \<Rightarrow> st_id x = st_id st)"
  proof (cases ?found)
    case None
    have "st_objectids st = st_objectids (updatedSituation h e None new)"
      using save unfolding None by (auto simp: MemorySituations_Save_eq Let_def split: if_splits)
    with None updatedSituation_new [OF assms(2), of h new] show ?thesis
      by (simp add: MemorySituations_FindByObjectId_def del: first_some_None)
  next
    case (Some old)
    then have old: "first_some ?P (mvals ?t) = Some old" by (simp add: MemorySituations_FindByObjectId_def)
    from first_some_Some [OF this] have "old \<in> set (mvals ?t)" "?P old" by simp_all
    with ids have "st_id old \<noteq> []" by (auto simp: vals_ok_def list_all_iff)
    with save updatedSituation_found [of h e old new] have "st_id st = st_id old" "st_objectids st = st_objectids old"
      unfolding Some by (auto simp: MemorySituations_Save_eq Let_def split: if_splits)
    with old \<open>?P old\<close> show ?thesis by simp
  qed
  then have "first_some ?P (mvals (mput (st_id st) st ?t)) = Some st"
    using first_some_mput [where P = ?P and f = st_id, OF _ _ keyed] by blast
  then show ?thesis using st by (simp add: MemorySituations_FindByObjectId_def)
qed

lemma update_one_known:
  assumes "mm_inv m" and "oid_kind (siu_SituationObjectID e) \<noteq> ''_default''"
    and "UpdateSituation h [e] g m = (g', m')"
  shows "known_event e m'"
proof (cases "known_event e m")
  case True
  with assms(3) show ?thesis by (auto simp: update_known)
next
  case False
  let ?new = "TransactionalSituations_New (NewTransactionalSituations TheModel)"
  let ?found = "MemorySituations_FindByObjectId (mm_situations m) (siu_SituationObjectID e)"
  obtain g1 st s where save: "MemorySituations_Save g (updatedSituation h e ?found ?new) (mm_situations m) = (g1, st, s)"
    by (rule prod_cases3)
  have "\<not> (case ?found of Some situation \<Rightarrow> st_RecordedAt situation = siu_RecordedAt e | None \<Rightarrow> False)"
    using False by (auto simp: known_event_def split: option.splits)
  then have "SituationUpdater_Update h (NewTransactionalModel m) [e] g m = (g1, MemoryModel_deliver (m\<lparr>mm_situations := s\<rparr>))"
    using save by (simp add: NewTransactionalModel_def)
  with assms(3) have m': "m' = MemoryModel_deliver (MemoryModel_deliver (m\<lparr>mm_situations := s\<rparr>))"
    by (auto simp: UpdateSituation_def commit_fresh simp del: SituationUpdater_Update.simps)
  from assms(1) have "situations_inv (mm_situations m)" by (simp add: mm_inv_def)
  from saved_known [OF this assms(2) save] show ?thesis unfolding m' known_event_deliver by (simp add: known_event_def)
qed

section \<open>Deliveries after the first\<close>

text \<open>Sending events of which the first is known changes neither the situations nor what is known.\<close>

definition send_situations :: "(string \<Rightarrow> string) \<Rightarrow> SituationUpdateEvent list \<Rightarrow> SituationUpdateSubscriber \<Rightarrow> world \<Rightarrow> world" where
  "send_situations h events subscriber s =
     (case s of (g, r) \<Rightarrow> (let (g1, model) = UpdateSituation h events g (rf_model r) in (g1, r\<lparr>rf_model := model\<rparr>)))"

lemma broadcast_situations_alt:
  "CollectManager_BroadcastSituationUpdateEvent rm events s =
     fold (send_situations (rm_sha1_hex rm) events) (cm_SituationUpdateSubscribers (rf_collectManager (snd s))) s"
proof -
  have "(\<lambda>subscriber (g, r). (let (g1, model) = UpdateSituation (rm_sha1_hex rm) events g (rf_model r)
      in (g1, r\<lparr>rf_model := model\<rparr>))) = send_situations (rm_sha1_hex rm) events"
    by (intro ext) (simp add: send_situations_def)
  then show ?thesis by (simp add: CollectManager_BroadcastSituationUpdateEvent_def)
qed

lemma fold_known:
  assumes "known_event e (rf_model (snd s))"
  shows "\<exists>model. fold (send_situations h (e # es)) xs s = (fst s, (snd s)\<lparr>rf_model := model\<rparr>) \<and> known_event e model \<and>
    MemorySituations_FindAll (mm_situations model) = MemorySituations_FindAll (mm_situations (rf_model (snd s)))"
  using assms
proof (induction xs arbitrary: s)
  case Nil
  then show ?case by (intro exI [of _ "rf_model (snd s)"]) simp
next
  case (Cons x xs)
  obtain g r where s: "s = (g, r)" by (rule prod.exhaust)
  let ?s = "(g, r\<lparr>rf_model := MemoryModel_deliver (rf_model r)\<rparr>)"
  have step: "send_situations h (e # es) x s = ?s" using Cons.prems by (simp add: s update_known send_situations_def)
  have "known_event e (rf_model (snd ?s))" using Cons.prems by (simp add: s)
  from Cons.IH [OF this] show ?case unfolding fold_Cons comp_def step by (simp add: s)
qed

lemma no_cancellation:
  "XMLGeneralMessageDelivery_XMLGeneralMessagesCancellations gk d = [] \<Longrightarrow> cancelGeneralMessage gk partner d s = s"
  by (simp add: cancelGeneralMessage_def split: prod.split)

lemma build_messages_append:
  "build_messages slug kind now loc gk pr xs (g, events) = Some (g', events') \<Longrightarrow> \<exists>more. events' = events @ more"
proof (induction xs arbitrary: g events)
  case (Cons x xs)
  obtain r where r: "buildGeneralMessageUpdateEvent slug kind now loc gk pr x (g, events) = Some r"
    using Cons.prems by (cases "buildGeneralMessageUpdateEvent slug kind now loc gk pr x (g, events)") (simp_all add: build_messages_def)
  obtain g1 events1 where r': "r = (g1, events1)" by (rule prod.exhaust)
  from r [unfolded r'] obtain e where "events1 = events @ [e]"
    by (auto simp: buildGeneralMessageUpdateEvent_def bind_eq_Some_conv split: prod.splits)
  moreover from Cons.prems r r' have "build_messages slug kind now loc gk pr xs (g1, events1) = Some (g', events')"
    by (simp add: build_messages_def)
  ultimately show ?case using Cons.IH by fastforce
qed (simp add: build_messages_def)

lemma build_one_message:
  assumes "build_messages slug kind now loc gk pr [x] (g, []) = Some (g', events)"
  shows "\<exists>e. events = [e] \<and> oid_kind (siu_SituationObjectID e) = kind"
  using assms by (auto simp: build_messages_def buildGeneralMessageUpdateEvent_def bind_eq_Some_conv NewObjectID_def
      split: prod.splits)

lemma notify_known:
  assumes "known_event e (rf_model (snd s))"
    and "\<forall>d \<in> set ds. XMLGeneralMessageDelivery_XMLGeneralMessagesCancellations (rm_gk rm) d = []"
    and "notify_general_message rm partner pr ds (e # es) subs s = Some (subs', s')"
  shows "MemorySituations_FindAll (mm_situations (rf_model (snd s'))) = MemorySituations_FindAll (mm_situations (rf_model (snd s)))"
  using assms
proof (induction ds arbitrary: es subs s)
  case (Cons d ds)
  show ?case
  proof (cases "delivery_subscription (rm_gk rm) GeneralMessageCollect partner d")
    case (Inl i)
    with Cons.prems show ?thesis by (auto intro: Cons.IH)
  next
    case (Inr subscription)
    show ?thesis
    proof (cases subscription)
      case None
      with Inr Cons.prems show ?thesis by (auto intro: Cons.IH)
    next
      case (Some sub)
      obtain g r where s: "s = (g, r)" by (rule prod.exhaust)
      obtain g1 events1 where built: "SetGeneralMessageDeliveryUpdateEvents (prt_slug partner)
            (Partner_Setting partner REMOTE_OBJECTID_KIND) (rm_now rm) (rm_zone rm) (rm_gk rm) pr d (g, e # es) = Some (g1, events1)"
        and rest: "notify_general_message rm partner pr ds events1 subs
            (CollectManager_BroadcastSituationUpdateEvent rm events1 (g1, r)) = Some (subs', s')"
        using Cons.prems(2,3) Inr Some by (auto simp: s no_cancellation bind_eq_Some_conv)
      from build_messages_append [OF built [unfolded SetGeneralMessageDeliveryUpdateEvents_def]] obtain more
        where events1: "events1 = e # (es @ more)" by auto
      have known: "known_event e (rf_model (snd (g1, r)))" using Cons.prems(1) by (simp add: s)
      from fold_known [OF known, of "rm_sha1_hex rm" "es @ more"] obtain model where
        m: "CollectManager_BroadcastSituationUpdateEvent rm events1 (g1, r) = (g1, r\<lparr>rf_model := model\<rparr>)"
          "known_event e model" "MemorySituations_FindAll (mm_situations model) = MemorySituations_FindAll (mm_situations (rf_model r))"
        unfolding events1 broadcast_situations_alt by auto
      have "known_event e (rf_model (snd (g1, r\<lparr>rf_model := model\<rparr>)))" using m(2) by simp
      from Cons.IH [OF this _ rest [unfolded m(1), unfolded events1]] Cons.prems(2) m(3) show ?thesis by (simp add: s)
    qed
  qed
qed simp

text \<open>C15. Take a notification whose first delivery holds one message and is for a subscription of the partner of
  the kind \<^verbatim>\<open>GeneralMessageCollect\<close>, and none of whose deliveries holds a cancellation; the events go to a
  subscriber, and the kind of the identifiers is not \<^verbatim>\<open>_default\<close>. Then the messages of all further deliveries
  are lost: each broadcast starts with the event of the first message again, which is known by then, and the updater
  returns at the first event it knows. When the handling returns, the situations are those after the first
  delivery alone.\<close>

theorem later_deliveries_lost:
  fixes rm :: "'n remote"
  assumes "world_ok s" and "cm_SituationUpdateSubscribers (rf_collectManager (snd s)) \<noteq> []"
    and "Partner_Setting partner REMOTE_OBJECTID_KIND \<noteq> ''_default''"
    and "XMLGeneralMessageDelivery_XMLGeneralMessages (rm_gk rm) d = [x]"
    and "\<forall>d' \<in> set (d # ds). XMLGeneralMessageDelivery_XMLGeneralMessagesCancellations (rm_gk rm) d' = []"
    and "delivery_subscription (rm_gk rm) GeneralMessageCollect partner d = Inr (Some subscription)"
    and "notify_general_message rm partner pr [d] [] [] s = Some (subs1, s1)"
    and "notify_general_message rm partner pr (d # ds) [] [] s = Some (subs2, s2)"
  shows "MemorySituations_FindAll (mm_situations (rf_model (snd s2))) = MemorySituations_FindAll (mm_situations (rf_model (snd s1)))"
proof -
  obtain g r where s: "s = (g, r)" by (rule prod.exhaust)
  obtain g1 events where built: "build_messages (prt_slug partner) (Partner_Setting partner REMOTE_OBJECTID_KIND)
        (rm_now rm) (rm_zone rm) (rm_gk rm) pr [x] (g, []) = Some (g1, events)"
    and s1: "s1 = CollectManager_BroadcastSituationUpdateEvent rm events (g1, r)"
    and rest: "notify_general_message rm partner pr ds events [] s1 = Some (subs2, s2)"
    using assms(4-8) by (auto simp: s no_cancellation bind_eq_Some_conv SetGeneralMessageDeliveryUpdateEvents_def)
  obtain e where e: "events = [e]" "oid_kind (siu_SituationObjectID e) \<noteq> ''_default''"
    using build_one_message [OF built] assms(3) by auto
  obtain subscriber more where subscribers: "cm_SituationUpdateSubscribers (rf_collectManager r) = subscriber # more"
    using assms(2) by (cases "cm_SituationUpdateSubscribers (rf_collectManager r)") (simp_all add: s)
  obtain g2 m2 where m2: "UpdateSituation (rm_sha1_hex rm) [e] g1 (rf_model r) = (g2, m2)" by (rule prod.exhaust)
  have "mm_inv (rf_model r)" using assms(1) by (simp add: s world_ok_def)
  from update_one_known [OF this e(2) m2] have known: "known_event e (rf_model (snd (g2, r\<lparr>rf_model := m2\<rparr>)))" by simp
  have "s1 = fold (send_situations (rm_sha1_hex rm) [e]) more (g2, r\<lparr>rf_model := m2\<rparr>)"
    unfolding s1 broadcast_situations_alt by (simp add: subscribers e m2 send_situations_def)
  with fold_known [OF known, of "rm_sha1_hex rm" "[]" more] have "known_event e (rf_model (snd s1))" by auto
  from notify_known [OF this _ rest [unfolded e(1)]] assms(5) show ?thesis by simp
qed

text \<open>A notification whose messages have a content is handled to its end.\<close>

definition readable_messages :: "'n gokogiri \<Rightarrow> 'n XMLStructure \<Rightarrow> bool" where
  "readable_messages gk d \<longleftrightarrow> (\<forall>x \<in> set (XMLGeneralMessageDelivery_XMLGeneralMessages gk d).
     case XMLGeneralMessage_Content gk x of None \<Rightarrow> False | Some c \<Rightarrow> IDFGeneralMessageStructure_LineSections gk c = [])"

lemma build_messages_readable:
  assumes "\<forall>x \<in> set xs. case XMLGeneralMessage_Content gk x of None \<Rightarrow> False
      | Some c \<Rightarrow> IDFGeneralMessageStructure_LineSections gk c = []"
  shows "\<exists>st'. build_messages slug kind now loc gk pr xs st = Some st'"
  using assms
proof (induction xs arbitrary: st)
  case (Cons x xs)
  then have "\<exists>st1. buildGeneralMessageUpdateEvent slug kind now loc gk pr x st = Some st1"
    by (cases "XMLGeneralMessage_Content gk x")
      (auto simp: buildGeneralMessageUpdateEvent_def setReferences_def Let_def split: prod.splits)
  then show ?case using Cons by (auto simp: build_messages_def)
qed (simp add: build_messages_def)

lemma notify_returns:
  assumes "\<forall>d \<in> set ds. readable_messages (rm_gk rm) d"
  shows "\<exists>subs' s'. notify_general_message rm partner pr ds events subs s = Some (subs', s')"
  using assms
proof (induction ds arbitrary: events subs s)
  case (Cons d ds)
  have readable: "\<forall>d \<in> set ds. readable_messages (rm_gk rm) d" using Cons.prems by simp
  obtain g r where cancelled: "cancelGeneralMessage (rm_gk rm) partner d s = (g, r)" by (rule prod.exhaust)
  have "\<exists>st'. SetGeneralMessageDeliveryUpdateEvents (prt_slug partner) (Partner_Setting partner REMOTE_OBJECTID_KIND)
      (rm_now rm) (rm_zone rm) (rm_gk rm) pr d (g, events) = Some st'"
    unfolding SetGeneralMessageDeliveryUpdateEvents_def
    by (rule build_messages_readable) (use Cons.prems in \<open>simp add: readable_messages_def\<close>)
  then obtain g1 events1 where built: "SetGeneralMessageDeliveryUpdateEvents (prt_slug partner)
      (Partner_Setting partner REMOTE_OBJECTID_KIND) (rm_now rm) (rm_zone rm) (rm_gk rm) pr d (g, events) = Some (g1, events1)" by auto
  show ?case
  proof (cases "delivery_subscription (rm_gk rm) GeneralMessageCollect partner d")
    case (Inl i)
    then show ?thesis using Cons.IH [OF readable] by simp
  next
    case (Inr subscription)
    then show ?thesis using Cons.IH [OF readable] cancelled built by (cases subscription) simp_all
  qed
qed simp

definition example_notification :: xml_document where
  "example_notification =
     [element 0 ''NotifyGeneralMessage'' '''', element 0 ''GeneralMessageDelivery'' '''',
      element 1 ''SubscriptionRef'' ''s'', element 1 ''GeneralMessage'' '''', element 3 ''RecordedAtTime'' ''2017-03-01T03:30:06+01:00'',
      element 3 ''InfoMessageIdentifier'' ''first'', element 3 ''Content'' '''',
      element 0 ''GeneralMessageDelivery'' '''', element 7 ''SubscriptionRef'' ''s'', element 7 ''GeneralMessage'' '''',
      element 9 ''RecordedAtTime'' ''2017-03-01T04:30:06+01:00'', element 9 ''InfoMessageIdentifier'' ''second'',
      element 9 ''Content'' '''']"

definition notifying_partner :: Partner where
  "notifying_partner = (collect_partner ''p'' ''2'' [SIRI_GENERAL_MESSAGE_SUBSCRIPTION_COLLECTOR])
     \<lparr>prt_subscriptions := [(''s'', (example_subscription ''s'' '''')\<lparr>sub_kind := GeneralMessageCollect\<rparr>)]\<rparr>"

definition reading_remote :: "nat remote" where
  "reading_remote = silent_remote\<lparr>rm_gk := document_gokogiri example_notification\<rparr>"

theorem later_deliveries_lost_witness:
  "\<exists>subs1 s1 subs2 s2.
     notify_general_message reading_remote notifying_partner '''' [new_structure 1] [] [] collect_world = Some (subs1, s1) \<and>
     notify_general_message reading_remote notifying_partner '''' [new_structure 1, new_structure 7] [] [] collect_world =
       Some (subs2, s2) \<and>
     MemorySituations_FindAll (mm_situations (rf_model (snd s2))) = MemorySituations_FindAll (mm_situations (rf_model (snd s1)))"
proof -
  let ?ds = "[new_structure 1, new_structure 7] :: nat XMLStructure list"
  let ?gk = "rm_gk reading_remote"
  have gk: "?gk = document_gokogiri example_notification" by (simp add: reading_remote_def)
  have kind: "Partner_Setting notifying_partner REMOTE_OBJECTID_KIND \<noteq> ''_default''" by code_simp
  have one: "XMLGeneralMessageDelivery_XMLGeneralMessages ?gk (new_structure 1) = [new_structure 3]"
    unfolding gk by code_simp
  have none: "\<forall>d \<in> set ?ds. XMLGeneralMessageDelivery_XMLGeneralMessagesCancellations ?gk d = []"
    unfolding gk by code_simp
  have readable: "\<forall>d \<in> set ?ds. readable_messages ?gk d"
    unfolding gk readable_messages_def by code_simp
  have "read_of LightSubscriptionDeliveryXMLStructure_SubscriptionRef ?gk (new_structure 1) = ''s''"
    unfolding gk by code_simp
  then have subscription: "delivery_subscription ?gk GeneralMessageCollect notifying_partner (new_structure 1) =
      Inr (Some ((example_subscription ''s'' '''')\<lparr>sub_kind := GeneralMessageCollect\<rparr>))"
    by (simp add: delivery_subscription_def notifying_partner_def MemorySubscriptions_Find_def)
  from readable have "\<forall>d \<in> set [new_structure 1]. readable_messages ?gk d" by simp
  from notify_returns [OF this] obtain subs1 s1 where
    1: "notify_general_message reading_remote notifying_partner '''' [new_structure 1] [] [] collect_world = Some (subs1, s1)"
    by blast
  from notify_returns [OF readable] obtain subs2 s2 where
    2: "notify_general_message reading_remote notifying_partner '''' ?ds [] [] collect_world = Some (subs2, s2)"
    by blast
  have "cm_SituationUpdateSubscribers (rf_collectManager (snd collect_world)) \<noteq> []"
    by (simp add: collect_world_def CollectManager_HandleUpdateEvent_def CollectManager_HandleSituationUpdateEvent_def)
  from later_deliveries_lost [OF collect_world_ok(1) this kind one none subscription 1 2] 1 2 show ?thesis by blast
qed

end
