(* ===== verification/GuardianProps.thy ===== *)
theory GuardianProps
  imports Guardians NotifyProps
begin

text \<open>
  What the guardians do to a referential: the simulation of the visits that are not collected, and what the status
  of a partner does to its subscriptions.
\<close>

section \<open>One visit\<close>

lemmas simulator_defs = simulator_ArrivalTime_def simulator_DepartureTime_def Schedules_ArrivalTimeFromKind_def
  Schedules_DepartureTimeFromKind_def

lemma first_entry_mput: "kind \<notin> set kinds \<Longrightarrow> first_entry (mput kind x m) kinds = first_entry m kinds"
  by (induction kinds) (auto simp: mget_mput split: option.split)

lemma set_actual_keeps_times [simp]:
  "simulator_ArrivalTime (sv\<lparr>sv_Schedules := Schedules_SetArrivalTime STOP_VISIT_SCHEDULE_ACTUAL t (sv_Schedules sv)\<rparr>) = simulator_ArrivalTime sv"
  "simulator_DepartureTime (sv\<lparr>sv_Schedules := Schedules_SetArrivalTime STOP_VISIT_SCHEDULE_ACTUAL t (sv_Schedules sv)\<rparr>) = simulator_DepartureTime sv"
  "simulator_ArrivalTime (sv\<lparr>sv_Schedules := Schedules_SetDepartureTime STOP_VISIT_SCHEDULE_ACTUAL t (sv_Schedules sv)\<rparr>) = simulator_ArrivalTime sv"
  "simulator_DepartureTime (sv\<lparr>sv_Schedules := Schedules_SetDepartureTime STOP_VISIT_SCHEDULE_ACTUAL t (sv_Schedules sv)\<rparr>) = simulator_DepartureTime sv"
  by (simp_all add: simulator_defs Schedules_SetArrivalTime_def Schedules_SetDepartureTime_def first_entry_mput
      schedule_kind_defs del: first_entry.simps)

lemma simulator_other_fields [simp]:
  "simulator_ArrivalTime (sv\<lparr>sv_ArrivalStatus := a\<rparr>) = simulator_ArrivalTime sv"
  "simulator_ArrivalTime (sv\<lparr>sv_DepartureStatus := d\<rparr>) = simulator_ArrivalTime sv"
  "simulator_ArrivalTime (sv\<lparr>sv_VehicleAtStop := b\<rparr>) = simulator_ArrivalTime sv"
  "simulator_DepartureTime (sv\<lparr>sv_ArrivalStatus := a\<rparr>) = simulator_DepartureTime sv"
  "simulator_DepartureTime (sv\<lparr>sv_DepartureStatus := d\<rparr>) = simulator_DepartureTime sv"
  "simulator_DepartureTime (sv\<lparr>sv_VehicleAtStop := b\<rparr>) = simulator_DepartureTime sv"
  by (simp_all add: simulator_defs)

lemma arrived_keeps_departure [simp]:
  "simulator_DepartureTime (sv\<lparr>sv_ArrivalStatus := a,
     sv_Schedules := Schedules_SetArrivalTime STOP_VISIT_SCHEDULE_ACTUAL t (sv_Schedules sv)\<rparr>) = simulator_DepartureTime sv"
  using set_actual_keeps_times(2) [where sv = "sv\<lparr>sv_ArrivalStatus := a\<rparr>"] by simp

lemmas visit_status_defs = CanArrive_def CanDepart_def STOP_VISIT_ARRIVAL_CANCELLED_def STOP_VISIT_DEPARTURE_CANCELLED_def
  STOP_VISIT_ARRIVAL_ONTIME_def STOP_VISIT_ARRIVAL_EARLY_def STOP_VISIT_ARRIVAL_DELAYED_def
  STOP_VISIT_DEPARTURE_ONTIME_def STOP_VISIT_DEPARTURE_EARLY_def STOP_VISIT_DEPARTURE_DELAYED_def

lemma Simulate_cases:
  obtains (same) "ActualAttributesSimulator_Simulate now sv = (False, sv)"
      "sv_collected sv \<or> \<not> (now > simulator_ArrivalTime sv \<and> CanArrive sv) \<and> \<not> (now > simulator_DepartureTime sv \<and> CanDepart sv)"
  | (arrival) arrived where "ActualAttributesSimulator_Simulate now sv = (True, arrived)" "\<not> sv_collected sv"
      "now > simulator_ArrivalTime sv" "CanArrive sv"
      "arrived = (let a = sv\<lparr>sv_ArrivalStatus := STOP_VISIT_ARRIVAL_CANCELLED,
         sv_Schedules := Schedules_SetArrivalTime STOP_VISIT_SCHEDULE_ACTUAL (simulator_ArrivalTime sv) (sv_Schedules sv)\<rparr>
       in if now > simulator_DepartureTime sv then a else a\<lparr>sv_VehicleAtStop := True\<rparr>)"
  | (departure) departed where "ActualAttributesSimulator_Simulate now sv = (True, departed)" "\<not> sv_collected sv"
      "\<not> (now > simulator_ArrivalTime sv \<and> CanArrive sv)" "now > simulator_DepartureTime sv" "CanDepart sv"
      "departed = sv\<lparr>sv_DepartureStatus := STOP_VISIT_DEPARTURE_CANCELLED,
         sv_Schedules := Schedules_SetDepartureTime STOP_VISIT_SCHEDULE_ACTUAL (simulator_DepartureTime sv) (sv_Schedules sv),
         sv_VehicleAtStop := False\<rparr>"
proof (cases "sv_collected sv")
  case True
  then show ?thesis by (intro same) (simp_all add: ActualAttributesSimulator_Simulate_def)
next
  case False
  note eq = ActualAttributesSimulator_Simulate_def simulateArrival_def simulateDeparture_def Let_def
  show ?thesis
  proof (cases "now > simulator_ArrivalTime sv \<and> CanArrive sv")
    case True
    with False show ?thesis by (intro arrival [OF _ False]) (simp_all add: eq)
  next
    case no: False
    show ?thesis
    proof (cases "now > simulator_DepartureTime sv \<and> CanDepart sv")
      case True
      with False no show ?thesis by (intro departure [OF _ False no]) (auto simp: eq)
    next
      case nothing: False
      with False no show ?thesis by (intro same) (auto simp: eq)
    qed
  qed
qed

text \<open>What the simulation never touches, and what it needs to be saved.\<close>

lemma Simulate_keeps:
  "sv_id (snd (ActualAttributesSimulator_Simulate now sv)) = sv_id sv"
  "sv_model (snd (ActualAttributesSimulator_Simulate now sv)) = sv_model sv"
  "stop_visit_wf sv \<Longrightarrow> stop_visit_wf (snd (ActualAttributesSimulator_Simulate now sv))"
  "sv_collected (snd (ActualAttributesSimulator_Simulate now sv)) = sv_collected sv"
  "sv_collected sv \<Longrightarrow> ActualAttributesSimulator_Simulate now sv = (False, sv)"
  by (simp_all add: ActualAttributesSimulator_Simulate_def simulateArrival_def simulateDeparture_def Let_def
      stop_visit_wf_def Schedules_SetArrivalTime_def Schedules_SetDepartureTime_def)

lemma Simulate_unchanged: "fst (ActualAttributesSimulator_Simulate now sv) \<or> snd (ActualAttributesSimulator_Simulate now sv) = sv"
  by (cases rule: Simulate_cases [of now sv]) simp_all

text \<open>The number of changes over a sequence of visits of the guardian.\<close>

definition simulate_all :: "gotime list \<Rightarrow> StopVisit \<Rightarrow> nat \<times> StopVisit" where
  "simulate_all nows stopVisit = fold (\<lambda>now (n, sv).
     (let (changed, sv1) = ActualAttributesSimulator_Simulate now sv in (n + of_bool changed, sv1))) nows (0, stopVisit)"

definition to_come :: "StopVisit \<Rightarrow> nat" where
  "to_come stopVisit = of_bool (CanArrive stopVisit) + of_bool (CanDepart stopVisit)"

lemma to_come_step:
  "to_come sv = of_bool (fst (ActualAttributesSimulator_Simulate now sv)) + to_come (snd (ActualAttributesSimulator_Simulate now sv))"
  by (cases rule: Simulate_cases [of now sv])
    (simp_all add: to_come_def visit_status_defs Let_def)

lemma simulate_all_simps [simp]:
  "simulate_all [] sv = (0, sv)"
  "simulate_all (nows @ [now]) sv = (let (n, v) = simulate_all nows sv; (changed, v1) = ActualAttributesSimulator_Simulate now v
     in (n + of_bool changed, v1))"
  by (simp_all add: simulate_all_def split: prod.split)

lemma simulate_all_count: "fst (simulate_all nows sv) + to_come (snd (simulate_all nows sv)) = to_come sv"
proof (induction nows rule: rev_induct)
  case (snoc now nows)
  then show ?case
    using to_come_step [of "snd (simulate_all nows sv)" now] by (simp add: split_beta Let_def)
qed simp

lemma simulate_all_keeps:
  "sv_collected (snd (simulate_all nows sv)) = sv_collected sv \<and>
   (sv_collected sv \<longrightarrow> simulate_all nows sv = (0, sv)) \<and>
   simulator_ArrivalTime (snd (simulate_all nows sv)) = simulator_ArrivalTime sv \<and>
   simulator_DepartureTime (snd (simulate_all nows sv)) = simulator_DepartureTime sv"
proof (induction nows rule: rev_induct)
  case (snoc now nows)
  have "simulator_ArrivalTime (snd (ActualAttributesSimulator_Simulate now v)) = simulator_ArrivalTime v \<and>
      simulator_DepartureTime (snd (ActualAttributesSimulator_Simulate now v)) = simulator_DepartureTime v" for v
    by (cases rule: Simulate_cases [of now v]) (simp_all add: Let_def simulator_defs Schedules_SetArrivalTime_def
        Schedules_SetDepartureTime_def first_entry_mput schedule_kind_defs del: first_entry.simps)
  with snoc show ?case by (simp add: split_beta Let_def Simulate_keeps)
qed simp

text \<open>A visit of the guardian after both times changes a visit that is still to come.\<close>

definition times_passed :: "StopVisit \<Rightarrow> gotime \<Rightarrow> bool" where
  "times_passed stopVisit now \<longleftrightarrow> now > simulator_ArrivalTime stopVisit \<and> now > simulator_DepartureTime stopVisit"

lemma Simulate_due:
  assumes "\<not> sv_collected sv" and "times_passed sv now" and "to_come sv > 0"
  shows "fst (ActualAttributesSimulator_Simulate now sv)"
  using assms by (cases rule: Simulate_cases [of now sv]) (auto simp: times_passed_def to_come_def)

lemma to_come_bound: "to_come sv \<le> 2"
  by (simp add: to_come_def)

lemma simulate_all_due:
  assumes "\<not> sv_collected sv"
  shows "to_come (snd (simulate_all nows sv)) \<le> 2 - length (filter (times_passed sv) nows)"
proof (induction nows rule: rev_induct)
  case (snoc now nows)
  let ?v = "snd (simulate_all nows sv)"
  have "\<not> sv_collected ?v" "times_passed ?v = times_passed sv"
    using simulate_all_keeps [of nows sv] assms by (simp_all add: times_passed_def fun_eq_iff)
  with snoc Simulate_due [of ?v now] to_come_step [of ?v now] show ?case
    by (cases "to_come ?v = 0") (auto simp: split_beta Let_def)
qed (simp add: to_come_bound)

text \<open>C17. The simulation of a visit settles: over any sequence of visits of the guardian each of the arrival and the
  departure that were to come is simulated at most once, a visit that is collected is never changed, and for one that
  is not two visits after both its times are enough for everything to be simulated.\<close>

theorem simulation_settles:
  assumes "length (filter (times_passed sv) nows) \<ge> 2" and "simulate_all nows sv = (n, v)"
  shows "n \<le> 2 \<and> n + to_come v = to_come sv \<and>
    (if sv_collected sv then n = 0 \<and> v = sv else to_come v = 0 \<and> n = to_come sv)"
proof -
  from assms(2) have nv: "n = fst (simulate_all nows sv)" "v = snd (simulate_all nows sv)" by simp_all
  note count = simulate_all_count [of nows sv]
  show ?thesis
  proof (cases "sv_collected sv")
    case True
    then show ?thesis using simulate_all_keeps [of nows sv] by (simp add: nv)
  next
    case False
    with simulate_all_due [OF False, of nows] count assms(1) to_come_bound [of sv] show ?thesis by (simp add: nv)
  qed
qed

definition late_visit :: StopVisit where
  "late_visit = (NewStopVisit TheModel)\<lparr>sv_id := ''v'', sv_ArrivalStatus := ''onTime'', sv_DepartureStatus := ''delayed'',
     sv_Schedules := Schedules_SetSchedule ''aimed'' 120 60 []\<rparr>"

theorem simulation_settles_witness:
  "simulate_all [100, 130, 140, 150] late_visit =
     (2, late_visit\<lparr>sv_ArrivalStatus := ''cancelled'', sv_DepartureStatus := ''cancelled'',
       sv_Schedules := [(''aimed'', \<lparr>svs_kind = ''aimed'', svs_departureTime = 120, svs_arrivalTime = 60\<rparr>),
         (''actual'', \<lparr>svs_kind = ''actual'', svs_departureTime = 120, svs_arrivalTime = 60\<rparr>)]\<rparr>) \<and>
   to_come (snd (simulate_all [100, 130, 140, 150] late_visit)) = 0"
proof -
  have 1: "simulate_all [100, 130, 140, 150] late_visit =
     (2, late_visit\<lparr>sv_ArrivalStatus := ''cancelled'', sv_DepartureStatus := ''cancelled'',
       sv_Schedules := [(''aimed'', \<lparr>svs_kind = ''aimed'', svs_departureTime = 120, svs_arrivalTime = 60\<rparr>),
         (''actual'', \<lparr>svs_kind = ''actual'', svs_departureTime = 120, svs_arrivalTime = 60\<rparr>)]\<rparr>)"
    by code_simp
  have 2: "length (filter (times_passed late_visit) [100, 130, 140, 150]) \<ge> 2" by code_simp
  have 3: "\<not> sv_collected late_visit" by code_simp
  from simulation_settles [OF 2 1] 3 show ?thesis unfolding 1 by simp
qed

section \<open>All visits of a referential\<close>

text \<open>Every visit points to the model, as it does once it has been saved in the manager of the model.\<close>

definition visits_sealed :: "MemoryModel \<Rightarrow> bool" where
  "visits_sealed m \<longleftrightarrow> msv_model (mm_stopVisits m) = TheModel \<and>
     (\<forall>v \<in> set (MemoryStopVisits_FindAll (mm_stopVisits m)). sv_model v = TheModel)"

lemma visits_sealed_find:
  assumes "visits_sealed m" and "mm_inv m" and "MemoryStopVisits_Find (mm_stopVisits m) i = Some v"
  shows "sv_model v = TheModel"
  using assms mem_stopvisits.find_all_iff [of "mm_stopVisits m" v] mem_stopvisits.find_eid [of "mm_stopVisits m" i v]
  by (auto simp: visits_sealed_def mm_inv_def)

lemma visits_sealed_iff:
  assumes "mm_inv m"
  shows "visits_sealed m \<longleftrightarrow> msv_model (mm_stopVisits m) = TheModel \<and>
    (\<forall>i v. MemoryStopVisits_Find (mm_stopVisits m) i = Some v \<longrightarrow> sv_model v = TheModel)"
  using visits_sealed_find [OF _ assms] mem_stopvisits.find_all_iff [OF mm_invD(2) [OF assms]]
  by (auto simp: visits_sealed_def)

lemma fresh_find_visit:
  "TransactionalStopVisits_Find (NewTransactionalStopVisits TheModel) s i = MemoryStopVisits_Find s i"
  by (simp add: TransactionalStopVisits_Find_def NewTransactionalModel_def NewTransactionalStopVisits_def)

lemma fresh_all_visits:
  "TransactionalStopVisits_FindAll (NewTransactionalStopVisits TheModel) s = MemoryStopVisits_FindAll s"
  by (simp add: TransactionalStopVisits_FindAll_def NewTransactionalModel_def NewTransactionalStopVisits_def mhas_def)

text \<open>What one turn of the loop does: the visit is replaced by its simulation.\<close>

definition simulated :: "gotime \<Rightarrow> string set \<Rightarrow> MemoryModel \<Rightarrow> MemoryModel \<Rightarrow> bool" where
  "simulated now ids m m' \<longleftrightarrow> mm_inv m' \<and> visits_sealed m' \<and>
     (\<forall>i. MemoryStopVisits_Find (mm_stopVisits m') i =
        map_option (\<lambda>v. if i \<in> ids then snd (ActualAttributesSimulator_Simulate now v) else v)
          (MemoryStopVisits_Find (mm_stopVisits m) i)) \<and>
     MemoryStopAreas_Find (mm_stopAreas m') = MemoryStopAreas_Find (mm_stopAreas m) \<and>
     mm_lines m' = mm_lines m \<and> mm_vehicleJourneys m' = mm_vehicleJourneys m \<and>
     mm_vehicles m' = mm_vehicles m \<and> mm_operators m' = mm_operators m"

lemma simulate_visit_step:
  assumes m: "mm_inv m" "visits_sealed m" and "ug_ok g" and found: "MemoryStopVisits_Find (mm_stopVisits m) (sv_id sv) = Some sv"
  shows "\<exists>m'. simulate_visit now sv (g, m) = Some (g, m') \<and> simulated now {sv_id sv} m m'"
proof -
  let ?sim = "ActualAttributesSimulator_Simulate now sv"
  note inv = mm_invD(2) [OF m(1)]
  have sv: "stop_visit_wf sv" "sv_id sv \<noteq> []" "sv_model sv = TheModel"
    using mem_stopvisits.find_ewf [OF inv found] mem_stopvisits.find_eid [OF inv found] visits_sealed_find [OF m(2,1) found]
    by simp_all
  have same: "simulated now {sv_id sv} m m" if "\<not> fst ?sim"
    using m found that Simulate_unchanged [of now sv]
    by (auto simp: simulated_def intro!: option.map_ident_strong [symmetric])
  show ?thesis
  proof (cases "fst ?sim")
    case False
    with same found show ?thesis
      by (cases ?sim) (auto simp: simulate_visit_def fresh_find_visit Let_def intro: exI [of _ m])
  next
    case True
    then have "\<not> sv_collected sv" using Simulate_keeps(5) [of sv now] by auto
    let ?v = "snd ?sim"
    obtain g' e s where save: "MemoryStopVisits_Save g ?v (mm_stopVisits m) = (g', e, s)" by (rule prod_cases3)
    have v: "stop_visit_wf ?v" "sv_id ?v = sv_id sv" "sv_model ?v = TheModel" using sv by (simp_all add: Simulate_keeps)
    have "?v\<lparr>sv_model := TheModel\<rparr> = ?v" by (rule StopVisit.equality) (simp_all add: v)
    with save sv(2) v m(2) have e: "g' = g" "e = ?v" "msv_model s = TheModel"
      by (auto simp: visits_sealed_def MemoryStopVisits_Save_eq Let_def)
    have find_s: "MemoryStopVisits_Find s i = (if i = sv_id sv then Some ?v else MemoryStopVisits_Find (mm_stopVisits m) i)" for i
      using mem_stopvisits.find_save [OF inv v(1) assms(3) save, of i] e v by simp
    let ?m = "MemoryModel_deliver (MemoryModel_deliver (m\<lparr>mm_stopVisits := s\<rparr>))"
    have inv': "mm_inv ?m" using m(1) mem_stopvisits.inv_save [OF inv v(1) assms(3) save] by (simp add: mm_inv_def)
    have "simulate_visit now sv (g, m) = Some (g, ?m)"
      using True v \<open>\<not> sv_collected sv\<close> found save e
      by (cases ?sim) (simp add: simulate_visit_def fresh_find_visit Let_def commit_fresh)
    moreover have "simulated now {sv_id sv} m ?m"
      unfolding simulated_def visits_sealed_iff [OF inv']
      using inv' m e found v by (auto simp: find_s visits_sealed_iff [OF m(1)] fun_eq_iff find_log_eq
          intro!: option.map_ident_strong [symmetric])
    ultimately show ?thesis by blast
  qed
qed

lemma simulated_refl: "mm_inv m \<Longrightarrow> visits_sealed m \<Longrightarrow> simulated now {} m m"
  by (simp add: simulated_def option.map_ident)

lemma simulated_trans:
  assumes "simulated now A m1 m2" and "simulated now B m2 m3" and "A \<inter> B = {}"
  shows "simulated now (A \<union> B) m1 m3"
  using assms by (auto simp: simulated_def option.map_comp comp_def intro!: option.map_cong0)

lemma simulate_visits_fold:
  assumes "mm_inv m" and "visits_sealed m" and "ug_ok g" and "distinct (map sv_id svs)"
    and "\<And>sv. sv \<in> set svs \<Longrightarrow> MemoryStopVisits_Find (mm_stopVisits m) (sv_id sv) = Some sv"
  shows "\<exists>m'. fold (\<lambda>stopVisit acc. Option.bind acc (simulate_visit now stopVisit)) svs (Some (g, m)) = Some (g, m') \<and>
    simulated now (sv_id ` set svs) m m'"
  using assms
proof (induction svs arbitrary: m)
  case Nil
  then show ?case by (auto intro: simulated_refl)
next
  case (Cons sv svs)
  from Cons.prems obtain m1 where
    m1: "simulate_visit now sv (g, m) = Some (g, m1)" "simulated now {sv_id sv} m m1"
    using simulate_visit_step [of m g sv now] by auto
  have "MemoryStopVisits_Find (mm_stopVisits m1) (sv_id x) = Some x" if "x \<in> set svs" for x
  proof -
    from that Cons.prems(4) have "sv_id x \<noteq> sv_id sv" by (force simp: image_iff)
    with that Cons.prems(5) [of x] m1(2) show ?thesis by (simp add: simulated_def)
  qed
  with Cons.IH [of m1] Cons.prems m1(2) obtain m' where
    "fold (\<lambda>stopVisit acc. Option.bind acc (simulate_visit now stopVisit)) svs (Some (g, m1)) = Some (g, m')"
    "simulated now (sv_id ` set svs) m1 m'" by (auto simp: simulated_def)
  with m1 Cons.prems(4) simulated_trans [OF m1(2), of "sv_id ` set svs" m'] show ?case by auto
qed

text \<open>C14. The simulation of a referential does not fail, and replaces every stop visit by its simulation, once
  (the simulation leaves a collected visit as it was); the stop areas that are found, the lines and the journeys stay as
  they were, and no new identifier is needed.\<close>

theorem simulation_of_all_visits:
  assumes "mm_inv (rf_model r)" and "visits_sealed (rf_model r)" and "ug_ok g"
  shows "\<exists>m'. simulateActualAttributes now (g, r) = Some (g, r\<lparr>rf_model := m'\<rparr>) \<and> mm_inv m' \<and> visits_sealed m' \<and>
    (\<forall>i. MemoryStopVisits_Find (mm_stopVisits m') i =
       map_option (\<lambda>v. snd (ActualAttributesSimulator_Simulate now v)) (MemoryStopVisits_Find (mm_stopVisits (rf_model r)) i)) \<and>
    MemoryStopAreas_Find (mm_stopAreas m') = MemoryStopAreas_Find (mm_stopAreas (rf_model r)) \<and>
    mm_lines m' = mm_lines (rf_model r) \<and> mm_vehicleJourneys m' = mm_vehicleJourneys (rf_model r)"
proof -
  let ?m = "rf_model r"
  note inv = mm_invD(2) [OF assms(1)]
  obtain m' where
    m': "fold (\<lambda>stopVisit acc. Option.bind acc (simulate_visit now stopVisit)) (MemoryStopVisits_FindAll (mm_stopVisits ?m))
        (Some (g, ?m)) = Some (g, m')"
      "simulated now (sv_id ` set (MemoryStopVisits_FindAll (mm_stopVisits ?m))) ?m m'"
    using simulate_visits_fold [OF assms mem_stopvisits.find_all_distinct [OF inv], of now]
      mem_stopvisits.find_all_iff [OF inv] by blast
  have "MemoryStopVisits_Find (mm_stopVisits ?m) i = Some v \<Longrightarrow>
      i \<in> sv_id ` set (MemoryStopVisits_FindAll (mm_stopVisits ?m))" for i v
    using mem_stopvisits.find_all_iff [OF inv, of v] mem_stopvisits.find_eid [OF inv, of i v] by force
  then have "map_option (\<lambda>v. if i \<in> sv_id ` set (MemoryStopVisits_FindAll (mm_stopVisits ?m))
        then snd (ActualAttributesSimulator_Simulate now v) else v) (MemoryStopVisits_Find (mm_stopVisits ?m) i) =
      map_option (\<lambda>v. snd (ActualAttributesSimulator_Simulate now v)) (MemoryStopVisits_Find (mm_stopVisits ?m) i)" for i
    by (cases "MemoryStopVisits_Find (mm_stopVisits ?m) i") auto
  with m' show ?thesis
    by (intro exI [of _ m']) (simp add: simulateActualAttributes_def fresh_all_visits simulated_def)
qed

definition late_model :: MemoryModel where
  "late_model = example_cycle_model\<lparr>mm_stopVisits := snd (snd (MemoryStopVisits_Save (fake_gen True) late_visit
     (mm_stopVisits example_cycle_model)))\<rparr>"

lemma late_visit: "stop_visit_wf late_visit" "sv_id late_visit = ''v''" "late_visit\<lparr>sv_model := TheModel\<rparr> = late_visit"
  by (simp add: late_visit_def stop_visit_wf_def NewStopVisit_def NewAttributes_def NewReferences_def Schedules_SetSchedule_def mwf_def)
    (simp_all add: late_visit_def NewStopVisit_def)

lemma late_model:
  "mm_inv late_model" "msv_byIdentifier (mm_stopVisits late_model) = [(''v'', late_visit)]" "visits_sealed late_model"
proof -
  have model: "msv_model (mm_stopVisits example_cycle_model) = TheModel" "msv_byIdentifier (mm_stopVisits example_cycle_model) = []"
    by (simp_all add: example_cycle_model_def NewMemoryModel_def NewMemoryStopVisits_def)
  obtain g v s where save: "MemoryStopVisits_Save (fake_gen True) late_visit (mm_stopVisits example_cycle_model) = (g, v, s)"
    by (rule prod_cases3)
  have m: "late_model = example_cycle_model\<lparr>mm_stopVisits := s\<rparr>" by (simp add: late_model_def save)
  have "msv_model s = TheModel"
    using save by (auto simp: MemoryStopVisits_Save_eq Let_def model)
  from mem_stopvisits.inv_save [OF mm_invD(2) [OF example_cycle_model(1)] late_visit(1) ug_ok_fake save]
  show inv: "mm_inv late_model" using example_cycle_model(1) by (simp add: m mm_inv_def)
  show visits: "msv_byIdentifier (mm_stopVisits late_model) = [(''v'', late_visit)]"
    using mem_stopvisits.save_eq [OF save] by (simp add: m model late_visit)
  show "visits_sealed late_model"
    unfolding visits_sealed_iff [OF inv]
    using \<open>msv_model s = TheModel\<close> mem_stopvisits.find_mget [OF mm_invD(2) [OF inv]] visits
    by (auto simp: m late_visit_def NewStopVisit_def split: if_splits)
qed

theorem simulation_of_all_visits_witness:
  "\<exists>m' v. simulateActualAttributes 200 (fake_gen True, (snd collect_world)\<lparr>rf_model := late_model\<rparr>) =
      Some (fake_gen True, (snd collect_world)\<lparr>rf_model := m'\<rparr>) \<and>
    MemoryStopVisits_Find (mm_stopVisits m') ''v'' = Some v \<and> sv_ArrivalStatus v = ''cancelled''"
proof -
  have "MemoryStopVisits_Find (mm_stopVisits late_model) ''v'' = Some late_visit"
    using mem_stopvisits.find_mget [OF mm_invD(2) [OF late_model(1)], of "''v''"] by (simp add: late_model(2))
  moreover have "sv_ArrivalStatus (snd (ActualAttributesSimulator_Simulate 200 late_visit)) = ''cancelled''" by code_simp
  ultimately show ?thesis
    using simulation_of_all_visits [of "(snd collect_world)\<lparr>rf_model := late_model\<rparr>" "fake_gen True" 200]
      late_model(1,3) ug_ok_fake [of True] by auto
qed

section \<open>The status of a partner\<close>

text \<open>Whether a subscription survives a check of the status that gave this answer.\<close>

definition survives :: "PartnerStatus \<Rightarrow> Partner \<Rightarrow> Subscription \<Rightarrow> bool" where
  "survives status partner s \<longleftrightarrow>
     (if pst_OperationnalStatus status = OPERATIONNAL_STATUS_UP
      then pst_ServiceStartedAt status = pst_ServiceStartedAt (prt_PartnerStatus partner)
      else pst_OperationnalStatus status \<notin> {OPERATIONNAL_STATUS_UNKNOWN, OPERATIONNAL_STATUS_DOWN} \<or>
        ParseBool (Partner_Setting partner
          (if sub_externalId s = '''' then COLLECT_SUBSCRIPTIONS_PERSISTENT else BROADCAST_SUBSCRIPTIONS_PERSISTENT)))"

lemma status_differ: "OPERATIONNAL_STATUS_UNKNOWN \<noteq> OPERATIONNAL_STATUS_UP" "OPERATIONNAL_STATUS_DOWN \<noteq> OPERATIONNAL_STATUS_UP"
  by (simp_all add: OPERATIONNAL_STATUS_UNKNOWN_def OPERATIONNAL_STATUS_DOWN_def OPERATIONNAL_STATUS_UP_def)

lemma find_no_subscription: "MemorySubscriptions_Find [] i = None"
  by (simp add: MemorySubscriptions_Find_def)

lemma find_cancelled:
  assumes "mwf m"
  shows "MemorySubscriptions_Find (MemorySubscriptions_CancelCollectSubscriptions m) i = Some s \<longleftrightarrow>
      MemorySubscriptions_Find m i = Some s \<and> sub_externalId s \<noteq> ''''"
    "MemorySubscriptions_Find (MemorySubscriptions_CancelBroadcastSubscriptions m) i = Some s \<longleftrightarrow>
      MemorySubscriptions_Find m i = Some s \<and> sub_externalId s = ''''"
    "mwf (MemorySubscriptions_CancelCollectSubscriptions m)"
  by (auto simp: cancel_defs MemorySubscriptions_Find_def mget_cancel [OF assms] mwf_fold_cancel assms split: option.splits if_splits)

lemma take_status_subscriptions:
  assumes "subs_inv (prt_subscriptions p)"
  shows "MemorySubscriptions_Find (prt_subscriptions (snd (take_status status p))) i = Some s \<longleftrightarrow>
    MemorySubscriptions_Find (prt_subscriptions p) i = Some s \<and> survives status p s"
proof -
  have m: "mwf (prt_subscriptions p)" using assms by (simp add: subs_inv_def)
  show ?thesis
    unfolding take_status_def survives_def Let_def
    using status_differ by (auto simp: find_cancelled [OF m] find_cancelled(2) [OF find_cancelled(3) [OF m]] find_no_subscription)
qed

lemma partner_at_change [simp]: "partner_at (change_partner i f r) i = map_option f (partner_at r i)"
  by (simp add: partner_at_def change_partner_def on_partner_def mget_mput split: option.split)

text \<open>Asking for the status takes a message identifier at most.\<close>

lemma CheckStatus_effect:
  assumes "partner_at (snd s) i = Some p" and "prt_id p = i" and "Partner_CheckStatus rm an p s = (status, s1)"
  obtains settings where "partner_at (snd s1) i = Some (p\<lparr>prt_settings := settings\<rparr>)"
    "ps_s settings = ps_s (prt_settings p)" "others_kept i s s1" "rf_model (snd s1) = rf_model (snd s)"
proof (cases "s1 = s")
  case True
  with assms that [of "prt_settings p"] show thesis by simp
next
  case False
  obtain g r where s: "s = (g, r)" by (rule prod.exhaust)
  obtain m settings g1 where new: "NewMessageIdentifier (prt_settings p) g = (m, settings, g1)" by (rule prod_cases3)
  have "Partner_CheckStatus rm an p s = SIRICheckStatusClient_Status rm an p s"
    using False assms(3) by (auto simp: Partner_CheckStatus_def split: option.splits if_splits)
  with assms(3) have "s1 = (g1, change_partner i (\<lambda>p. p\<lparr>prt_settings := settings\<rparr>) r)"
    using assms(2) new by (auto simp: s SIRICheckStatusClient_Status_def new_message_identifier_def Let_def split: option.splits)
  with that [of settings] NewMessageIdentifier_settings [OF new] assms(1) show thesis
    by (simp add: s others_kept_def partner_at_change_other)
qed

lemma take_status_settings:
  assumes "ps_s settings = ps_s (prt_settings p)"
  shows "fst (take_status status (p\<lparr>prt_settings := settings\<rparr>)) = fst (take_status status p)"
    "prt_subscriptions (snd (take_status status (p\<lparr>prt_settings := settings\<rparr>))) = prt_subscriptions (snd (take_status status p))"
    "prt_PartnerStatus (snd (take_status status (p\<lparr>prt_settings := settings\<rparr>))) = prt_PartnerStatus (snd (take_status status p))"
    "prt_lastDiscovery (snd (take_status status (p\<lparr>prt_settings := settings\<rparr>))) = prt_lastDiscovery (snd (take_status status p))"
  using assms by (simp_all add: take_status_def Partner_Setting_def PartnerSettings_Setting_def Let_def)

text \<open>C12. A check of the status gives the partner the status that was found, and of its subscriptions exactly those
  that survive are left. When it is up these are all, if the time its service started is the one the partner holds
  for the operator \<^verbatim>\<open>!=\<close> (the same instant with the same location), and none otherwise, even where the settings
  make them persistent. When it is down or unknown these are those of the persistent kinds. The answer for the
  guardian is whether any may be left. No other partner changes, and the model changes only when the status
  does.\<close>

theorem partner_status:
  assumes "partner_at (snd s) i = Some p" and "prt_id p = i" and "subs_inv (prt_subscriptions p)"
    and "Partner_CheckStatus rm an p s = (status, s1)" and "checkPartnerStatus rm an i s = Some (goes_on, s')"
  shows "\<exists>p'. partner_at (snd s') i = Some p' \<and>
    pst_OperationnalStatus (prt_PartnerStatus p') = pst_OperationnalStatus status \<and>
    (\<forall>j sub. MemorySubscriptions_Find (prt_subscriptions p') j = Some sub \<longleftrightarrow>
       MemorySubscriptions_Find (prt_subscriptions p) j = Some sub \<and> survives status p sub) \<and>
    (goes_on \<longleftrightarrow> (\<exists>sub. survives status p sub)) \<and>
    (prt_lastDiscovery p' = (if pst_OperationnalStatus status \<in> {OPERATIONNAL_STATUS_UNKNOWN, OPERATIONNAL_STATUS_DOWN} \<or> \<not> goes_on
       then 0 else prt_lastDiscovery p)) \<and>
    (\<forall>j. j \<noteq> i \<longrightarrow> partner_at (snd s') j = partner_at (snd s) j) \<and>
    (pst_OperationnalStatus status = pst_OperationnalStatus (prt_PartnerStatus p) \<longrightarrow> rf_model (snd s') = rf_model (snd s))"
proof -
  obtain settings where s1: "partner_at (snd s1) i = Some (p\<lparr>prt_settings := settings\<rparr>)"
    "ps_s settings = ps_s (prt_settings p)" "others_kept i s s1" "rf_model (snd s1) = rf_model (snd s)"
    by (rule CheckStatus_effect [OF assms(1,2,4)])
  let ?same = "pst_OperationnalStatus status = pst_OperationnalStatus (prt_PartnerStatus p)"
  let ?p = "snd (take_status status (p\<lparr>prt_settings := settings\<rparr>))"
  let ?up = "pst_OperationnalStatus status = OPERATIONNAL_STATUS_UP"
  obtain s2 where told: "(if \<not> ?same then CollectManager_HandlePartnerStatusChange rm (prt_slug p) ?up s1 else Some s1) = Some s2"
    and goes_on: "goes_on \<longleftrightarrow> fst (take_status status p)"
    and s': "s' = (fst s2, change_partner i (\<lambda>p. snd (take_status status p)) (snd s2))"
    using assms(5) unfolding checkPartnerStatus_def assms(1,4) option.case Let_def prod.case bind_eq_Some_conv by blast
  then have s2: "same_but_model s1 s2" "?same \<Longrightarrow> s2 = s1"
    by (auto simp: CollectManager_HandlePartnerStatusChange_def broadcastUpdateEvents_keeps split: if_splits)
  have p': "partner_at (snd s') i = Some ?p"
    using s1(1) same_but_model_partners(1) [OF s2(1)] by (simp add: s' partner_at_def [of "snd s2"]) (simp add: partner_at_def)
  note settings = take_status_settings [OF s1(2), of status]
  have survivors: "fst (take_status status p) \<longleftrightarrow> (\<exists>sub. survives status p sub)"
  proof -
    have "\<exists>sub :: Subscription. sub_externalId sub = ''''" "\<exists>sub :: Subscription. sub_externalId sub \<noteq> ''''"
      by (rule exI [of _ "undefined\<lparr>sub_externalId := ''''\<rparr>"], simp)
        (rule exI [of _ "undefined\<lparr>sub_externalId := ''x''\<rparr>"], simp)
    then show ?thesis
      using status_differ by (auto simp: take_status_def survives_def Let_def)
  qed
  have others: "\<forall>j. j \<noteq> i \<longrightarrow> partner_at (snd s') j = partner_at (snd s) j"
    using s1(3) same_but_model_partners(1) [OF s2(1)]
    by (auto simp: s' others_kept_def partner_at_change_other) (simp add: partner_at_def)
  have model: "?same \<longrightarrow> rf_model (snd s') = rf_model (snd s)"
    using s1(4) s2(2) by (simp add: s')
  have last: "prt_lastDiscovery (snd (take_status status p)) =
      (if pst_OperationnalStatus status \<in> {OPERATIONNAL_STATUS_UNKNOWN, OPERATIONNAL_STATUS_DOWN} \<or> \<not> fst (take_status status p)
       then 0 else prt_lastDiscovery p)" and
    new: "pst_OperationnalStatus (prt_PartnerStatus (snd (take_status status p))) = pst_OperationnalStatus status"
    by (auto simp: take_status_def Let_def)
  show ?thesis
    by (intro exI [of _ ?p] conjI allI take_status_subscriptions [OF assms(3), of status, folded settings(2)])
      (use p' others model survivors goes_on last new in \<open>simp_all add: settings\<close>)
qed

definition status_subscription :: "string \<Rightarrow> string \<Rightarrow> Subscription" where
  "status_subscription i external = \<lparr>sub_id = i, sub_kind = ''StopMonitoringCollect'', sub_externalId = external,
     sub_resourcesByObjectID = [], sub_subscriptionOptions = []\<rparr>"

definition status_partner :: Partner where
  "status_partner = (PartnerManager_New ''p'')\<lparr>prt_id := ''p'',
     prt_settings := NewPartnerSettings\<lparr>ps_s := [(COLLECT_SUBSCRIPTIONS_PERSISTENT, ''true'')]\<rparr>,
     prt_PartnerStatus := \<lparr>pst_OperationnalStatus = OPERATIONNAL_STATUS_UNKNOWN, pst_ServiceStartedAt = zero_stamp\<rparr>,
     prt_subscriptions := [(''c'', status_subscription ''c'' ''''), (''b'', status_subscription ''b'' ''x'')]\<rparr>"

definition status_world :: world where
  "status_world = (fst collect_world, (snd collect_world)\<lparr>rf_partners := NewPartnerManager\<lparr>pm_byId := [(''p'', status_partner)]\<rparr>\<rparr>)"

definition no_answers :: "nat answers" where
  "no_answers = \<lparr>an_CheckStatus = (\<lambda>_ _. None), an_StopDiscovery = (\<lambda>_ _. None),
     an_test_status = (\<lambda>_. \<lparr>pst_OperationnalStatus = ''up'', pst_ServiceStartedAt = zero_stamp\<rparr>)\<rparr>"

lemma status_partner:
  "Partner_CheckStatus rm an status_partner s = (\<lparr>pst_OperationnalStatus = ''unknown'', pst_ServiceStartedAt = zero_stamp\<rparr>, s)"
  "subs_inv (prt_subscriptions status_partner)"
  "pst_OperationnalStatus (prt_PartnerStatus status_partner) = ''unknown''"
proof -
  have "prt_connectors status_partner = []" by code_simp
  then show "Partner_CheckStatus rm an status_partner s = (\<lparr>pst_OperationnalStatus = ''unknown'', pst_ServiceStartedAt = zero_stamp\<rparr>, s)"
    by (simp add: Partner_CheckStatus_def Partner_CheckStatusClient_def Partner_hasPushCollector_def has_connector_def
        OPERATIONNAL_STATUS_UNKNOWN_def)
  show "pst_OperationnalStatus (prt_PartnerStatus status_partner) = ''unknown''" by code_simp
  show "subs_inv (prt_subscriptions status_partner)"
    by (simp add: status_partner_def subs_inv_def mwf_def keyed_def vals_ok_def status_subscription_def)
qed

theorem partner_status_witness:
  "\<exists>s' p'. checkPartnerStatus silent_remote no_answers ''p'' status_world = Some (True, s') \<and>
    partner_at (snd s') ''p'' = Some p' \<and>
    MemorySubscriptions_Find (prt_subscriptions p') ''c'' \<noteq> None \<and> MemorySubscriptions_Find (prt_subscriptions p') ''b'' = None"
proof -
  let ?status = "\<lparr>pst_OperationnalStatus = ''unknown'', pst_ServiceStartedAt = zero_stamp\<rparr>"
  have p: "partner_at (snd status_world) ''p'' = Some status_partner" by (simp add: status_world_def partner_at_def)
  have checked: "checkPartnerStatus silent_remote no_answers ''p'' status_world =
      Some (fst (take_status ?status status_partner), fst status_world,
        change_partner ''p'' (\<lambda>p. snd (take_status ?status p)) (snd status_world))"
    by (simp add: checkPartnerStatus_def p status_partner)
  have "prt_id status_partner = ''p''" by code_simp
  from partner_status [OF p this status_partner(2,1) checked] obtain p' where
    p': "partner_at (change_partner ''p'' (\<lambda>p. snd (take_status ?status p)) (snd status_world)) ''p'' = Some p'"
    "\<And>j sub. MemorySubscriptions_Find (prt_subscriptions p') j = Some sub \<longleftrightarrow>
       MemorySubscriptions_Find (prt_subscriptions status_partner) j = Some sub \<and> survives ?status status_partner sub"
    by auto
  obtain c b where
    c: "MemorySubscriptions_Find (prt_subscriptions status_partner) ''c'' = Some c" "sub_externalId c = ''''" and
    b: "MemorySubscriptions_Find (prt_subscriptions status_partner) ''b'' = Some b" "sub_externalId b = ''x''"
    by (simp add: status_partner_def MemorySubscriptions_Find_def status_subscription_def)
  have settings: "ParseBool (Partner_Setting status_partner COLLECT_SUBSCRIPTIONS_PERSISTENT)"
    "\<not> ParseBool (Partner_Setting status_partner BROADCAST_SUBSCRIPTIONS_PERSISTENT)"
    by code_simp+
  have "survives ?status status_partner c" "\<not> survives ?status status_partner b"
    using settings c(2) b(2) by (simp_all add: survives_def OPERATIONNAL_STATUS_UNKNOWN_def OPERATIONNAL_STATUS_UP_def)
  moreover have "fst (take_status ?status status_partner)"
    using settings by (simp add: take_status_def OPERATIONNAL_STATUS_UNKNOWN_def OPERATIONNAL_STATUS_UP_def)
  ultimately have "MemorySubscriptions_Find (prt_subscriptions p') ''c'' = Some c"
      "\<And>sub. MemorySubscriptions_Find (prt_subscriptions p') ''b'' \<noteq> Some sub"
    using p'(2) c b by auto
  then show ?thesis using checked p'(1) \<open>fst _\<close> by auto
qed

section \<open>A service that tells the time with an offset\<close>

text \<open>A status that is up since a time with an offset, which is not that of the zone of the server at that time.\<close>

definition up_with_foreign_offset :: "zone \<Rightarrow> 'n gokogiri \<Rightarrow> 'n \<Rightarrow> bool" where
  "up_with_foreign_offset zone gk document \<longleftrightarrow>
     read_of XMLStatus_Status gk (new_structure document) \<and>
     (case XMLStructure_findNode gk document ''ServiceStartedTime'' of
        None \<Rightarrow> False
      | Some n \<Rightarrow> (case ParseZoned (TrimSpace (gk_Content gk n)) of
                     Some (t, Some offset) \<Rightarrow> fst (zone t) \<noteq> offset
                   | _ \<Rightarrow> False))"

lemma foreign_offset_location:
  assumes "up_with_foreign_offset zone gk document"
  shows "\<exists>offset. stamp_location (read_of (XMLCheckStatusResponse_ServiceStartedTime zone a) gk (new_structure document)) =
    FixedZone a offset"
proof -
  from assms obtain n t offset where "XMLStructure_findNode gk document ''ServiceStartedTime'' = Some n"
    "ParseZoned (TrimSpace (gk_Content gk n)) = Some (t, Some offset)" "fst (zone t) \<noteq> offset"
    by (auto simp: up_with_foreign_offset_def split: option.splits)
  then show ?thesis
    by (simp add: XMLCheckStatusResponse_ServiceStartedTime_def read_stamp_def new_structure_def mget_or_def
        XMLStructure_findStampChildContent_def ParseStamp_def parsed_location_def Let_def)
qed

lemma free_address_free: "FixedZone (free_address held) offset \<noteq> stamp_location held"
  by (simp add: free_address_def split: location.split)

lemma foreign_offset_status:
  assumes "Partner_CheckStatusClient p = Some SIRI_CHECK_STATUS_CLIENT_TYPE"
    and "\<And>request. \<exists>document. an_CheckStatus an (prt_id p) request = Some document \<and>
      up_with_foreign_offset (rm_zone rm) (rm_gk rm) document"
  obtains status s1 where "Partner_CheckStatus rm an p s = (status, s1)"
    "pst_OperationnalStatus status = OPERATIONNAL_STATUS_UP"
    "pst_ServiceStartedAt status \<noteq> pst_ServiceStartedAt (prt_PartnerStatus p)"
proof -
  obtain m s1 where m: "new_message_identifier p s = (m, s1)" by (rule prod.exhaust)
  let ?request = "\<lparr>csr_MessageIdentifier = m, csr_RequestorRef = PartnerSettings_ProducerRef (prt_settings p),
    csr_RequestTimestamp = rm_now rm\<rparr>"
  from assms(2) [of ?request] obtain document where
    d: "an_CheckStatus an (prt_id p) ?request = Some document" "up_with_foreign_offset (rm_zone rm) (rm_gk rm) document" by blast
  let ?held = "pst_ServiceStartedAt (prt_PartnerStatus p)"
  from foreign_offset_location [OF d(2), of "free_address ?held"] free_address_free [of ?held]
  have "read_of (XMLCheckStatusResponse_ServiceStartedTime (rm_zone rm) (free_address ?held)) (rm_gk rm) (new_structure document)
      \<noteq> ?held" by metis
  with d m assms(1) that show thesis
    by (simp add: Partner_CheckStatus_def SIRICheckStatusClient_Status_def up_with_foreign_offset_def)
qed

text \<open>C24. Let a partner with the SIRI client for checks of the status answer each check as up, with the time its
  service started written with an offset that the zone of the server does not have at that time, be it the same time at
  every check. Then each check that returns takes the service for restarted: the parsed time has a location of its own,
  which no time compared with it has. All subscriptions of the partner are cancelled, whatever the settings say, and the
  guardian is told that none is left.\<close>

theorem foreign_offset_cancels:
  assumes "partner_at (snd s) i = Some p" and "prt_id p = i"
    and "Partner_CheckStatusClient p = Some SIRI_CHECK_STATUS_CLIENT_TYPE"
    and "\<And>request. \<exists>document. an_CheckStatus an i request = Some document \<and>
      up_with_foreign_offset (rm_zone rm) (rm_gk rm) document"
    and "checkPartnerStatus rm an i s = Some (goes_on, s')"
  shows "\<not> goes_on \<and> (\<exists>p'. partner_at (snd s') i = Some p' \<and> prt_subscriptions p' = [] \<and>
    pst_OperationnalStatus (prt_PartnerStatus p') = OPERATIONNAL_STATUS_UP)"
proof -
  obtain status s1 where checked: "Partner_CheckStatus rm an p s = (status, s1)"
    and up: "pst_OperationnalStatus status = OPERATIONNAL_STATUS_UP"
      "pst_ServiceStartedAt status \<noteq> pst_ServiceStartedAt (prt_PartnerStatus p)"
    using foreign_offset_status [OF assms(3), of an rm s] assms(4) unfolding assms(2) by metis
  obtain settings where s1: "partner_at (snd s1) i = Some (p\<lparr>prt_settings := settings\<rparr>)"
    by (rule CheckStatus_effect [OF assms(1,2) checked])
  let ?same = "pst_OperationnalStatus status = pst_OperationnalStatus (prt_PartnerStatus p)"
  obtain s2 where told: "(if \<not> ?same then CollectManager_HandlePartnerStatusChange rm (prt_slug p)
        (pst_OperationnalStatus status = OPERATIONNAL_STATUS_UP) s1 else Some s1) = Some s2"
    and goes_on: "goes_on \<longleftrightarrow> fst (take_status status p)"
    and s': "s' = (fst s2, change_partner i (\<lambda>p. snd (take_status status p)) (snd s2))"
    using assms(5) unfolding checkPartnerStatus_def assms(1) checked option.case Let_def prod.case bind_eq_Some_conv by blast
  then have s2: "same_but_model s1 s2"
    by (auto simp: CollectManager_HandlePartnerStatusChange_def broadcastUpdateEvents_keeps split: if_splits)
  have "partner_at (snd s2) i = Some (p\<lparr>prt_settings := settings\<rparr>)"
    using s1 same_but_model_partners(1) [OF s2] by (simp add: partner_at_def)
  then have "partner_at (snd s') i = Some (snd (take_status status (p\<lparr>prt_settings := settings\<rparr>)))" by (simp add: s')
  with goes_on up show ?thesis by (simp add: take_status_def)
qed

definition offset_answer :: xml_document where
  "offset_answer = [element 0 ''CheckStatusResponse'' '''', element 0 ''Status'' ''true'',
     element 0 ''ServiceStartedTime'' ''2017-01-01T12:00:00+02:00'']"

definition offset_remote :: "nat remote" where
  "offset_remote = silent_remote\<lparr>rm_gk := document_gokogiri offset_answer\<rparr>"

definition offset_answers :: "nat answers" where
  "offset_answers = no_answers\<lparr>an_CheckStatus := (\<lambda>_ _. Some 0)\<rparr>"

text \<open>The partner holds the time of the same answer.\<close>

definition offset_partner :: Partner where
  "offset_partner = status_partner\<lparr>prt_connectors := [SIRI_CHECK_STATUS_CLIENT_TYPE],
     prt_PartnerStatus := \<lparr>pst_OperationnalStatus = OPERATIONNAL_STATUS_UP,
       pst_ServiceStartedAt = read_of (XMLCheckStatusResponse_ServiceStartedTime (rm_zone offset_remote) 0)
         (rm_gk offset_remote) (new_structure 0)\<rparr>\<rparr>"

definition offset_world :: world where
  "offset_world = (fst collect_world, (snd collect_world)\<lparr>rf_partners := NewPartnerManager\<lparr>pm_byId := [(''p'', offset_partner)]\<rparr>\<rparr>)"

theorem foreign_offset_cancels_witness:
  "\<exists>s' p'. checkPartnerStatus offset_remote offset_answers ''p'' offset_world = Some (False, s') \<and>
    length (prt_subscriptions offset_partner) = 2 \<and> partner_at (snd s') ''p'' = Some p' \<and> prt_subscriptions p' = []"
proof -
  have p: "partner_at (snd offset_world) ''p'' = Some offset_partner" by (simp add: offset_world_def partner_at_def)
  have i: "prt_id offset_partner = ''p''" by (simp add: offset_partner_def status_partner_def)
  have client: "Partner_CheckStatusClient offset_partner = Some SIRI_CHECK_STATUS_CLIENT_TYPE"
    by (simp add: offset_partner_def Partner_CheckStatusClient_def has_connector_def)
  have foreign: "up_with_foreign_offset (rm_zone offset_remote) (rm_gk offset_remote) 0" by code_simp
  then have answers: "\<exists>document. an_CheckStatus offset_answers ''p'' request = Some document \<and>
      up_with_foreign_offset (rm_zone offset_remote) (rm_gk offset_remote) document" for request
    by (simp add: offset_answers_def)
  obtain status s1 where checked: "Partner_CheckStatus offset_remote offset_answers offset_partner offset_world = (status, s1)"
    "pst_OperationnalStatus status = OPERATIONNAL_STATUS_UP"
    using foreign_offset_status [OF client, of offset_answers offset_remote offset_world] answers unfolding i by metis
  then have "checkPartnerStatus offset_remote offset_answers ''p'' offset_world =
      Some (fst (take_status status offset_partner), fst s1, change_partner ''p'' (\<lambda>p. snd (take_status status p)) (snd s1))"
    by (simp add: checkPartnerStatus_def p) (simp add: offset_partner_def)
  then obtain goes_on s' where c: "checkPartnerStatus offset_remote offset_answers ''p'' offset_world = Some (goes_on, s')" by blast
  have "length (prt_subscriptions offset_partner) = 2" by (simp add: offset_partner_def status_partner_def)
  with foreign_offset_cancels [OF p i client answers c] c show ?thesis by auto
qed

end
