(* ===== verification/DispatchProps.thy ===== *)
theory DispatchProps
  imports TimetableProps GuardianProps
begin

text \<open>
  Properties of the dispatcher and of the manager of the broadcasts: how a request for subscriptions is answered, what
  cancelling leaves, and what events leave alone.
\<close>

section \<open>The answer to a request for subscriptions\<close>

lemma fold_option_answers:
  assumes "fold (\<lambda>x acc. do { (resps, st1) \<leftarrow> acc; (r, st2) \<leftarrow> h x st1; Some (resps @ [r], st2) }) xs (Some (rs, st)) = Some (rs1, st1)"
    and "\<And>x s r t. h x s = Some (r, t) \<Longrightarrow> f r = e x"
  shows "map f rs1 = map f rs @ map e xs"
  using assms(1)
proof (induction xs arbitrary: rs st)
  case (Cons x xs)
  have none: "fold (\<lambda>x acc. do { (resps, st1) \<leftarrow> acc; (r, st2) \<leftarrow> h x st1; Some (resps @ [r], st2) }) ys None = None" for ys
    by (induction ys) simp_all
  obtain r t where one: "h x st = Some (r, t)" using Cons.prems none by (cases "h x st") auto
  from Cons.IH [of "rs @ [r]" t] Cons.prems one assms(2) [OF one] show ?case by simp
qed simp

lemma sm_answers:
  assumes "SIRIStopMonitoringSubscriptionBroadcaster_HandleSubscriptionRequest now gk partner model request st = Some (rs, st1)"
  shows "map rst_SubscriptionRef rs = map (read_of XMLStopMonitoringSubscriptionRequestEntry_SubscriptionIdentifier gk)
    (XMLSubscriptionRequest_XMLSubscriptionSMEntries gk request)"
proof -
  have "rst_SubscriptionRef r = read_of XMLStopMonitoringSubscriptionRequestEntry_SubscriptionIdentifier gk sm"
    if "handle_sm_entry now gk partner model request sm s = Some (r, t)" for sm s r t
    using that by (auto simp: handle_sm_entry_def Let_def bind_Some_iff split_beta split: option.splits)
  from fold_option_answers [OF assms [unfolded SIRIStopMonitoringSubscriptionBroadcaster_HandleSubscriptionRequest_def],
    of rst_SubscriptionRef, OF this] show ?thesis by simp
qed

lemma ett_answers:
  assumes "SIRIEstimatedTimeTableSubscriptionBroadcaster_HandleSubscriptionRequest now gk partner model request st = Some (rs, st1)"
  shows "map rst_SubscriptionRef rs = map (read_of XMLEstimatedTimetableSubscriptionRequestEntry_SubscriptionIdentifier gk)
    (XMLSubscriptionRequest_XMLSubscriptionETTEntries gk request)"
proof -
  have "rst_SubscriptionRef r = read_of XMLEstimatedTimetableSubscriptionRequestEntry_SubscriptionIdentifier gk ett"
    if "handle_ett_entry now gk partner model request ett s = Some (r, t)" for ett s r t
    using that by (auto simp: handle_ett_entry_def Let_def bind_Some_iff split_beta split: option.splits if_splits)
  from fold_option_answers [OF assms [unfolded SIRIEstimatedTimeTableSubscriptionBroadcaster_HandleSubscriptionRequest_def],
    of rst_SubscriptionRef, OF this] show ?thesis by simp
qed

lemma gm_answers:
  "map rst_SubscriptionRef (fst (SIRIGeneralMessageSubscriptionBroadcaster_HandleSubscriptionRequest now gk model request st)) =
    map (read_of XMLGeneralMessageSubscriptionRequestEntry_SubscriptionIdentifier gk)
      (XMLSubscriptionRequest_XMLSubscriptionGMEntries gk request)"
proof -
  have one: "rst_SubscriptionRef (fst (handle_gm_entry now gk model gm s)) =
      read_of XMLGeneralMessageSubscriptionRequestEntry_SubscriptionIdentifier gk gm" for gm s
    by (cases s) (simp add: handle_gm_entry_def Let_def split: prod.splits)
  have "map rst_SubscriptionRef (fst (fold (\<lambda>gm (resps, st1). (let (rs, st2) = handle_gm_entry now gk model gm st1
      in (resps @ [rs], st2))) gms (rs, st))) =
    map rst_SubscriptionRef rs @ map (read_of XMLGeneralMessageSubscriptionRequestEntry_SubscriptionIdentifier gk) gms" for gms rs st
  proof (induction gms arbitrary: rs st)
    case (Cons gm gms)
    obtain r t where "handle_gm_entry now gk model gm st = (r, t)" by (rule prod.exhaust)
    with Cons [of "rs @ [r]" t] one [of gm st] show ?case by simp
  qed simp
  from this [of _ "[]"] show ?thesis by (simp add: SIRIGeneralMessageSubscriptionBroadcaster_HandleSubscriptionRequest_def)
qed

text \<open>The identifiers of the entries of the first kind that a request has, and the connector they need.\<close>

definition first_entries :: "'n gokogiri \<Rightarrow> 'n XMLStructure \<Rightarrow> (string \<times> string list) option" where
  "first_entries gk request =
     (if XMLSubscriptionRequest_XMLSubscriptionGMEntries gk request \<noteq> []
      then Some (SIRI_GENERAL_MESSAGE_SUBSCRIPTION_BROADCASTER,
        map (read_of XMLGeneralMessageSubscriptionRequestEntry_SubscriptionIdentifier gk)
          (XMLSubscriptionRequest_XMLSubscriptionGMEntries gk request))
      else if XMLSubscriptionRequest_XMLSubscriptionSMEntries gk request \<noteq> []
      then Some (SIRI_STOP_MONITORING_SUBSCRIPTION_BROADCASTER,
        map (read_of XMLStopMonitoringSubscriptionRequestEntry_SubscriptionIdentifier gk)
          (XMLSubscriptionRequest_XMLSubscriptionSMEntries gk request))
      else if XMLSubscriptionRequest_XMLSubscriptionETTEntries gk request \<noteq> []
      then Some (SIRI_ESTIMATED_TIMETABLE_SUBSCRIPTION_BROADCASTER,
        map (read_of XMLEstimatedTimetableSubscriptionRequestEntry_SubscriptionIdentifier gk)
          (XMLSubscriptionRequest_XMLSubscriptionETTEntries gk request))
      else None)"

text \<open>A request for subscriptions whose handling does not crash is answered with one status for each entry of the first
  kind that it has (general messages, then stop monitoring, then estimated timetables), in order and with the entry's
  subscription, and the queues of the other two broadcasters do not change; without the connector of that kind, or
  without entries, the answer is an error and nothing changes.\<close>

theorem dispatch_answers_first_kind:
  assumes "SIRISubscriptionRequestDispatcher_Dispatch now gk startedAt model request (b, g) = Some (answer, b1, g1)"
  shows "case first_entries gk request of
      None \<Rightarrow> answer = Inl ''subscription not supported'' \<and> b1 = b \<and> g1 = g
    | Some (connector, refs) \<Rightarrow>
        if Partner_Connector (bp_partner b) connector
        then (\<exists>response. answer = Inr response \<and> map rst_SubscriptionRef (ssr_ResponseStatus response) = refs \<and>
          ssr_RequestMessageRef response = read_of LightRequestXMLStructure_MessageIdentifier gk request) \<and>
          (connector \<noteq> SIRI_STOP_MONITORING_SUBSCRIPTION_BROADCASTER \<longrightarrow> bp_sm b1 = bp_sm b) \<and>
          (connector \<noteq> SIRI_ESTIMATED_TIMETABLE_SUBSCRIPTION_BROADCASTER \<longrightarrow> bp_ett b1 = bp_ett b) \<and>
          (connector \<noteq> SIRI_GENERAL_MESSAGE_SUBSCRIPTION_BROADCASTER \<longrightarrow> bp_gm b1 = bp_gm b)
        else (\<exists>e. answer = Inl e) \<and> b1 = b \<and> g1 = g"
proof -
  have names: "SIRI_GENERAL_MESSAGE_SUBSCRIPTION_BROADCASTER \<noteq> SIRI_STOP_MONITORING_SUBSCRIPTION_BROADCASTER"
    "SIRI_GENERAL_MESSAGE_SUBSCRIPTION_BROADCASTER \<noteq> SIRI_ESTIMATED_TIMETABLE_SUBSCRIPTION_BROADCASTER"
    "SIRI_STOP_MONITORING_SUBSCRIPTION_BROADCASTER \<noteq> SIRI_ESTIMATED_TIMETABLE_SUBSCRIPTION_BROADCASTER"
    by code_simp+
  note dispatch = assms [unfolded SIRISubscriptionRequestDispatcher_Dispatch_def Let_def prod.case]
  consider (gm) "XMLSubscriptionRequest_XMLSubscriptionGMEntries gk request \<noteq> []"
    | (sm) "XMLSubscriptionRequest_XMLSubscriptionGMEntries gk request = []" "XMLSubscriptionRequest_XMLSubscriptionSMEntries gk request \<noteq> []"
    | (ett) "XMLSubscriptionRequest_XMLSubscriptionGMEntries gk request = []" "XMLSubscriptionRequest_XMLSubscriptionSMEntries gk request = []"
      "XMLSubscriptionRequest_XMLSubscriptionETTEntries gk request \<noteq> []"
    | (none) "XMLSubscriptionRequest_XMLSubscriptionGMEntries gk request = []" "XMLSubscriptionRequest_XMLSubscriptionSMEntries gk request = []"
      "XMLSubscriptionRequest_XMLSubscriptionETTEntries gk request = []" by blast
  then show ?thesis
  proof cases
    case gm
    obtain rs s g2 subs c where r: "SIRIGeneralMessageSubscriptionBroadcaster_HandleSubscriptionRequest now gk model request
        ((prt_settings (bp_partner b), g), bp_subs b, bp_gm b) = (rs, (s, g2), subs, c)" by (metis prod.exhaust)
    from gm_answers [of now gk model request "((prt_settings (bp_partner b), g), bp_subs b, bp_gm b)"] r dispatch gm names
    show ?thesis by (auto simp: first_entries_def keep_subs_def keep_settings_def split: if_splits)
  next
    case sm
    with dispatch names sm_answers show ?thesis
      by (auto simp: first_entries_def keep_subs_def keep_settings_def bind_Some_iff split: if_splits)
  next
    case ett
    with dispatch names ett_answers show ?thesis
      by (auto simp: first_entries_def keep_subs_def keep_settings_def bind_Some_iff split: if_splits)
  next
    case none
    with dispatch show ?thesis by (simp add: first_entries_def)
  qed
qed

definition bc_request :: xml_document where
  "bc_request = [element 0 ''SubscriptionRequest'' '''', element 0 ''GeneralMessageSubscriptionRequest'' '''',
     element 1 ''SubscriptionIdentifier'' ''x1'', element 0 ''StopMonitoringSubscriptionRequest'' '''',
     element 3 ''SubscriptionIdentifier'' ''x2'']"

definition bc_broadcasting :: "string list \<Rightarrow> MemorySubscriptions \<Rightarrow> broadcasting" where
  "bc_broadcasting connectors subs =
     \<lparr>bp_partner = bc_partner\<lparr>prt_connectors := connectors, prt_subscriptions := subs\<rparr>,
      bp_sm = newSIRIStopMonitoringSubscriptionBroadcaster, bp_ett = newSIRIEstimatedTimeTableSubscriptionBroadcaster,
      bp_gm = newSIRIGeneralMessageSubscriptionBroadcaster, bp_smEvents = [], bp_ettEvents = [], bp_gmEvents = []\<rparr>"

lemma bc_entries: "first_entries (document_gokogiri bc_request) (new_structure 0) = Some (SIRI_GENERAL_MESSAGE_SUBSCRIPTION_BROADCASTER, [''x1''])"
  by code_simp

theorem dispatch_answers_first_kind_witness:
  "\<exists>response b1 g1. SIRISubscriptionRequestDispatcher_Dispatch 5 (document_gokogiri bc_request) 1 (bc_model []) (new_structure 0)
     (bc_broadcasting [SIRI_GENERAL_MESSAGE_SUBSCRIPTION_BROADCASTER] [], fake_gen True) = Some (Inr response, b1, g1) \<and>
     map rst_SubscriptionRef (ssr_ResponseStatus response) = [''x1''] \<and> bp_sm b1 = newSIRIStopMonitoringSubscriptionBroadcaster"
proof -
  let ?gk = "document_gokogiri bc_request" and ?b = "bc_broadcasting [SIRI_GENERAL_MESSAGE_SUBSCRIPTION_BROADCASTER] []"
  have some: "XMLSubscriptionRequest_XMLSubscriptionGMEntries ?gk (new_structure 0) \<noteq> []" by code_simp
  have connector: "Partner_Connector (bp_partner ?b) SIRI_GENERAL_MESSAGE_SUBSCRIPTION_BROADCASTER"
    by (simp add: Partner_Connector_def has_connector_def bc_broadcasting_def)
  obtain answer b1 g1 where run: "SIRISubscriptionRequestDispatcher_Dispatch 5 ?gk 1 (bc_model []) (new_structure 0)
      (?b, fake_gen True) = Some (answer, b1, g1)"
    using some connector by (auto simp: SIRISubscriptionRequestDispatcher_Dispatch_def Let_def split_beta)
  have "SIRI_GENERAL_MESSAGE_SUBSCRIPTION_BROADCASTER \<noteq> SIRI_STOP_MONITORING_SUBSCRIPTION_BROADCASTER" by code_simp
  with dispatch_answers_first_kind [OF run] connector obtain response where
    "answer = Inr response" "map rst_SubscriptionRef (ssr_ResponseStatus response) = [''x1'']" "bp_sm b1 = bp_sm ?b"
    unfolding bc_entries by auto
  with run show ?thesis by (auto simp: bc_broadcasting_def)
qed

section \<open>What cancelling leaves\<close>

lemma FindByExternalId_in: "MemorySubscriptions_FindByExternalId subs x = Some s \<Longrightarrow> s \<in> set (mvals subs) \<and> sub_externalId s = x"
  unfolding MemorySubscriptions_FindByExternalId_def by (drule first_some_Some) simp

text \<open>C37. Cancelling all subscriptions deletes exactly those with an external identifier, but answers that all broadcast
  subscriptions are terminated: one without an external identifier is answered to be terminated and is still there.\<close>

theorem cancel_all:
  assumes "subs_inv (prt_subscriptions partner)" and "read_of XMLDeleteSubscriptionRequest_CancelAll gk r"
    and "SIRISubscriptionRequestDispatcher_CancelSubscription now gk r partner = (response, partner1)"
  shows "(\<forall>i s. MemorySubscriptions_Find (prt_subscriptions partner1) i = Some s \<longleftrightarrow>
      MemorySubscriptions_Find (prt_subscriptions partner) i = Some s \<and> sub_externalId s = '''') \<and>
    list_all trs_Status (dsr_ResponseStatus response) \<and>
    (\<forall>i s. MemorySubscriptions_Find (prt_subscriptions partner) i = Some s \<longrightarrow> HasSuffix (sub_kind s) ''Broadcast'' \<longrightarrow>
      sub_externalId s \<in> trs_SubscriptionRef ` set (dsr_ResponseStatus response)) \<and>
    (\<forall>i s. MemorySubscriptions_Find (prt_subscriptions partner) i = Some s \<longrightarrow> HasSuffix (sub_kind s) ''Broadcast'' \<longrightarrow>
      sub_externalId s = '''' \<longrightarrow> MemorySubscriptions_Find (prt_subscriptions partner1) i = Some s)"
proof -
  let ?subs = "prt_subscriptions partner"
  have wf: "mwf ?subs" using assms(1) by (simp add: subs_inv_def)
  have p1: "prt_subscriptions partner1 = MemorySubscriptions_CancelBroadcastSubscriptions ?subs"
    and answered: "list_all trs_Status (dsr_ResponseStatus response)"
    "trs_SubscriptionRef ` set (dsr_ResponseStatus response) = sub_externalId ` set (MemorySubscriptions_FindBroadcastSubscriptions ?subs)"
    using assms(2,3) by (auto simp: SIRISubscriptionRequestDispatcher_CancelSubscription_def Let_def list_all_iff image_image)
  have left: "MemorySubscriptions_Find (prt_subscriptions partner1) i = Some s \<longleftrightarrow>
      MemorySubscriptions_Find ?subs i = Some s \<and> sub_externalId s = ''''" for i s
    unfolding p1 by (rule find_cancelled(2) [OF wf])
  have "s \<in> set (MemorySubscriptions_FindBroadcastSubscriptions ?subs)"
    if "MemorySubscriptions_Find ?subs i = Some s" "HasSuffix (sub_kind s) ''Broadcast''" for i s
    using that mget_some_vals [of ?subs i s]
    by (simp add: MemorySubscriptions_Find_def MemorySubscriptions_FindBroadcastSubscriptions_def)
  with left answered show ?thesis by blast
qed

definition bc_nameless :: Subscription where
  "bc_nameless = (bc_sub ''s'' StopMonitoringBroadcast ''a'')\<lparr>sub_externalId := ''''\<rparr>"

definition bc_cancel :: xml_document where
  "bc_cancel = [element 0 ''DeleteSubscriptionRequest'' '''', element 0 ''All'' '''']"

theorem cancel_all_witness:
  "\<exists>response partner1. SIRISubscriptionRequestDispatcher_CancelSubscription 5 (document_gokogiri bc_cancel) (new_structure 0)
      (bc_partner\<lparr>prt_subscriptions := [(''s'', bc_nameless)]\<rparr>) = (response, partner1) \<and>
    '''' \<in> trs_SubscriptionRef ` set (dsr_ResponseStatus response) \<and>
    MemorySubscriptions_Find (prt_subscriptions partner1) ''s'' = Some bc_nameless"
proof -
  let ?p = "bc_partner\<lparr>prt_subscriptions := [(''s'', bc_nameless)]\<rparr>"
  obtain response partner1 where run: "SIRISubscriptionRequestDispatcher_CancelSubscription 5 (document_gokogiri bc_cancel)
      (new_structure 0) ?p = (response, partner1)" by (rule prod.exhaust)
  have inv: "subs_inv (prt_subscriptions ?p)" by (simp add: subs_inv_def mwf_def bc_nameless_def bc_sub_def)
  have all: "read_of XMLDeleteSubscriptionRequest_CancelAll (document_gokogiri bc_cancel) (new_structure 0)" by code_simp
  have sub: "MemorySubscriptions_Find (prt_subscriptions ?p) ''s'' = Some bc_nameless" "sub_externalId bc_nameless = ''''"
    by (simp_all add: MemorySubscriptions_Find_def bc_nameless_def)
  have suffix: "HasSuffix (sub_kind bc_nameless) ''Broadcast''" by code_simp
  note spec = cancel_all [OF inv all run]
  have "sub_externalId bc_nameless \<in> trs_SubscriptionRef ` set (dsr_ResponseStatus response)" using spec sub(1) suffix by blast
  moreover have "MemorySubscriptions_Find (prt_subscriptions partner1) ''s'' = Some bc_nameless" using spec sub suffix by blast
  ultimately show ?thesis using run sub(2) by simp
qed

section \<open>What events leave alone\<close>

text \<open>Of a subscription: all but the states that its resources keep.\<close>

definition essence :: "Subscription \<Rightarrow> string \<times> string \<times> string \<times> (string, string) gomap \<times> string list" where
  "essence s = (sub_id s, sub_kind s, sub_externalId s, sub_subscriptionOptions s, mkeys (sub_resourcesByObjectID s))"

definition subs_kept :: "MemorySubscriptions \<Rightarrow> MemorySubscriptions \<Rightarrow> bool" where
  "subs_kept subs subs1 \<longleftrightarrow> mkeys subs1 = mkeys subs \<and> (\<forall>i. map_option essence (mget subs1 i) = map_option essence (mget subs i)) \<and>
     (subs_inv subs \<longrightarrow> subs_inv subs1)"

lemma subs_kept_refl [simp]: "subs_kept s s"
  by (simp add: subs_kept_def)

lemma subs_kept_trans: "subs_kept a b \<Longrightarrow> subs_kept b c \<Longrightarrow> subs_kept a c"
  by (simp add: subs_kept_def)

lemma essence_state: "essence (on_resource k (SubscribedResource_SetLastState key l) s) = essence s"
  by (auto simp: essence_def on_resource_def intro: mkeys_mput split: option.split)

lemma subs_kept_state [simp]: "subs_kept subs (set_last_state i obj key l subs)"
proof -
  have "map_option essence (mget (set_last_state i obj key l subs) j) = map_option essence (mget subs j)" for j
    by (cases "mget subs j"; cases "j = i") (simp_all add: set_last_state_def mget_on essence_state)
  then show ?thesis by (simp add: subs_kept_def set_last_state_def mkeys_on subs_inv_state [unfolded set_last_state_def])
qed

lemma fold_option_kept:
  assumes "fold (\<lambda>x acc. Option.bind acc (f x)) xs (Some st) = Some st1"
    and "\<And>x s t. f x s = Some t \<Longrightarrow> subs_kept (fst s) (fst t)"
  shows "subs_kept (fst st) (fst st1)"
  by (rule fold_option_inv [OF assms(1), where P = "\<lambda>s. subs_kept (fst st) (fst s)"])
    (use assms(2) subs_kept_trans in auto)

lemma check_subscription_kept:
  "check_subscription now model sv obj i s = Some t \<Longrightarrow> subs_kept (fst s) (fst t)"
  by (cases s) (auto simp: check_subscription_def bind_Some_iff split: option.splits if_splits lastState.splits)

lemma check_identifier_kept: "check_identifier now model sv obj s = Some t \<Longrightarrow> subs_kept (fst s) (fst t)"
  unfolding check_identifier_def by (erule fold_option_kept) (rule check_subscription_kept)

lemma handle_visit_kept:
  assumes "handle_visit now partner model sv s = Some t"
  shows "subs_kept (fst s) (fst t)"
proof -
  obtain subs c where s: "s = (subs, c)" by (rule prod.exhaust)
  from assms obtain subs1 ids where
    check: "SIRIStopMonitoringSubscriptionBroadcaster_checkEvent now partner model sv subs = Some (subs1, ids)" and "fst t = subs1"
    by (auto simp: s handle_visit_def bind_Some_iff)
  have "subs_kept subs subs1"
  proof (cases "sv_Origin sv = prt_slug partner")
    case True
    with check show ?thesis by (simp add: SIRIStopMonitoringSubscriptionBroadcaster_checkEvent_def)
  next
    case False
    with check obtain objs where
      "fold (\<lambda>obj acc. Option.bind acc (check_identifier now model sv obj)) objs (Some (subs, [])) = Some (subs1, ids)"
      by (auto simp: SIRIStopMonitoringSubscriptionBroadcaster_checkEvent_def bind_Some_iff)
    from fold_option_kept [OF this check_identifier_kept] show ?thesis by simp
  qed
  with \<open>fst t = subs1\<close> s show ?thesis by simp
qed

lemma check_area_kept: "check_area_subscription now partner sa obj i s = Some t \<Longrightarrow> subs_kept (fst s) (fst t)"
  by (cases s) (auto simp: check_area_subscription_def Let_def split_beta split: option.splits if_splits lastState.splits)

lemma check_timetable_area_kept: "check_timetable_area now sa obj i s = Some t \<Longrightarrow> subs_kept (fst s) (fst t)"
  by (cases s) (auto simp: check_timetable_area_def bind_Some_iff Let_def split_beta split: option.splits if_splits lastState.splits)

lemma check_timetable_kept: "check_timetable_subscription now sv obj i s = Some t \<Longrightarrow> subs_kept (fst s) (fst t)"
  by (cases s) (auto simp: check_timetable_subscription_def split: option.splits if_splits lastState.splits)

lemma check_situation_kept: "check_situation now situation i s = Some t \<Longrightarrow> subs_kept (fst s) (fst t)"
  by (cases s) (auto simp: check_situation_def split: option.splits if_splits lastState.splits)

lemma sm_event_kept:
  assumes "SIRIStopMonitoringSubscriptionBroadcaster_HandleStopMonitoringBroadcastEvent now partner model event s = Some t"
  shows "subs_kept (fst s) (fst t)"
proof -
  have visits: "subs_kept (fst s) (fst t)"
    if "fold (\<lambda>sv acc. Option.bind acc (handle_visit now partner model sv)) svs (Some s) = Some t" for svs
    using that by (elim fold_option_kept) (rule handle_visit_kept)
  have areas: "subs_kept (fst s) (fst t)"
    if "fold (\<lambda>i acc. Option.bind acc (check_area_subscription now partner sa obj i)) is (Some s) = Some t" for sa obj "is"
    using that by (elim fold_option_kept) (rule check_area_kept)
  show ?thesis
    using assms handle_visit_kept visits areas
    by (auto simp: SIRIStopMonitoringSubscriptionBroadcaster_HandleStopMonitoringBroadcastEvent_def
        SIRIStopMonitoringSubscriptionBroadcaster_checkStopAreaEvent_def bind_Some_iff split: if_splits option.splits)
qed

lemma ett_event_kept:
  assumes "SIRIEstimatedTimeTableSubscriptionBroadcaster_HandleBroadcastEvent now partner model event s = Some t"
  shows "subs_kept (fst s) (fst t)"
proof -
  have visits: "subs_kept (fst s) (fst t)"
    if "fold (\<lambda>i acc. Option.bind acc (check_timetable_subscription now sv obj i)) is (Some s) = Some t" for sv obj "is"
    using that by (elim fold_option_kept) (rule check_timetable_kept)
  have areas: "subs_kept (fst s) (fst t)"
    if "fold (\<lambda>i acc. Option.bind acc (check_timetable_area now sa obj i)) is (Some s) = Some t" for sa obj "is"
    using that by (elim fold_option_kept) (rule check_timetable_area_kept)
  show ?thesis
    using assms visits areas
    by (auto simp: SIRIEstimatedTimeTableSubscriptionBroadcaster_HandleBroadcastEvent_def
        SIRIEstimatedTimeTableSubscriptionBroadcaster_checkEvent_def SIRIEstimatedTimeTableSubscriptionBroadcaster_checkStopAreaEvent_def
        split: if_splits option.splits)
qed

lemma gm_event_kept:
  assumes "SIRIGeneralMessageSubscriptionBroadcaster_HandleGeneralMessageBroadcastEvent now partner model event s = Some t"
  shows "subs_kept (fst s) (fst t)"
proof -
  have "subs_kept (fst s) (fst t)"
    if "fold (\<lambda>i acc. Option.bind acc (check_situation now situation i)) is (Some s) = Some t" for situation "is"
    using that by (elim fold_option_kept) (rule check_situation_kept)
  then show ?thesis
    using assms by (auto simp: SIRIGeneralMessageSubscriptionBroadcaster_HandleGeneralMessageBroadcastEvent_def
        SIRIGeneralMessageSubscriptionBroadcaster_checkEvent_def split: if_splits option.splits)
qed

text \<open>An event leaves of a partner all but the states that its subscriptions keep.\<close>

definition untouched :: "broadcasting \<Rightarrow> broadcasting \<Rightarrow> bool" where
  "untouched b b1 \<longleftrightarrow> (\<exists>subs. bp_partner b1 = (bp_partner b)\<lparr>prt_subscriptions := subs\<rparr> \<and> subs_kept (bp_subs b) subs)"

lemma untouched_refl: "untouched b b"
  unfolding untouched_def by (rule exI [of _ "bp_subs b"]) simp

lemma untouched_trans:
  assumes "untouched a b" and "untouched b c"
  shows "untouched a c"
proof -
  from assms(1) obtain s where "bp_partner b = (bp_partner a)\<lparr>prt_subscriptions := s\<rparr>" "subs_kept (bp_subs a) s"
    by (auto simp: untouched_def)
  moreover from assms(2) obtain t where "bp_partner c = (bp_partner b)\<lparr>prt_subscriptions := t\<rparr>" "subs_kept (bp_subs b) t"
    by (auto simp: untouched_def)
  ultimately have "bp_partner c = (bp_partner a)\<lparr>prt_subscriptions := t\<rparr> \<and> subs_kept (bp_subs a) t"
    using subs_kept_trans [of "bp_subs a" s t] by simp
  then show ?thesis unfolding untouched_def by blast
qed

lemma untouched_by: "subs_kept (bp_subs b) subs \<Longrightarrow> bp_partner b1 = bp_partner (keep_subs subs b) \<Longrightarrow> untouched b b1"
  by (auto simp: untouched_def keep_subs_def)

lemma untouched_record: "bp_partner b1 = bp_partner b \<Longrightarrow> untouched b b1"
  using untouched_refl [of b] by (simp add: untouched_def)

lemma event_untouched:
  "smsb_event now model e b = Some b1 \<Longrightarrow> untouched b b1"
  "ettsb_event now model e b = Some b1 \<Longrightarrow> untouched b b1"
  "gmsb_event now model m b = Some b1 \<Longrightarrow> untouched b b1"
  by (auto simp: smsb_event_def ettsb_event_def gmsb_event_def bind_Some_iff split: if_splits
      dest!: sm_event_kept ett_event_kept gm_event_kept intro: untouched_by untouched_record)

lemma those_untouched:
  assumes "those (map f bs) = Some bs1" and "\<And>b b1. f b = Some b1 \<Longrightarrow> untouched b b1"
  shows "list_all2 untouched bs bs1"
  using assms(1)
proof (induction bs arbitrary: bs1)
  case (Cons b bs)
  then show ?case using assms(2) by (auto split: option.splits)
qed simp

lemma handler_untouched:
  "BroadcastManager_smsbEvent_handler now model e bs = Some bs1 \<Longrightarrow> list_all2 untouched bs bs1"
  "BroadcastManager_ettsbEvent_handler now model e bs = Some bs1 \<Longrightarrow> list_all2 untouched bs bs1"
  "BroadcastManager_gmsbEvent_handler now model m bs = Some bs1 \<Longrightarrow> list_all2 untouched bs bs1"
  unfolding BroadcastManager_smsbEvent_handler_def BroadcastManager_ettsbEvent_handler_def BroadcastManager_gmsbEvent_handler_def
  by (erule those_untouched, use event_untouched untouched_refl in \<open>auto split: if_splits\<close>)+

lemma list_untouched_trans: "list_all2 untouched as bs \<Longrightarrow> list_all2 untouched bs cs \<Longrightarrow> list_all2 untouched as cs"
  by (rule list_all2_trans) (rule untouched_trans)

text \<open>A history of the manager: events are sent into the channels, which lose them when they are full, and the routine takes them, at any instants
  and with any models.\<close>

inductive manager_history :: "BroadcastManager \<times> broadcasting list \<Rightarrow> BroadcastManager \<times> broadcasting list \<Rightarrow> bool" where
  history_start: "manager_history st st"
| history_event: "manager_history st (m, bs) \<Longrightarrow>
    manager_history st (m\<lparr>bm_smbEventChan := chan_send e (bm_smbEventChan m)\<rparr>, bs)"
| history_message: "manager_history st (m, bs) \<Longrightarrow>
    manager_history st (m\<lparr>bm_gmbEventChan := chan_send g (bm_gmbEventChan m)\<rparr>, bs)"
| history_takes: "manager_history st st1 \<Longrightarrow> BroadcastManager_run now model st1 st2 \<Longrightarrow> manager_history st st2"

lemma run_untouched: "BroadcastManager_run now model st st1 \<Longrightarrow> list_all2 untouched (snd st) (snd st1)"
  by (erule BroadcastManager_runE) (auto dest!: handler_untouched intro: list_untouched_trans)

text \<open>Whatever events the manager hands out, no partner gets or loses a subscription, and of those there are only the
  states kept by their resources change: their identifiers, kinds, options and resources are the same, and so are
  the settings and connectors of the partners.\<close>

theorem events_keep_subscriptions:
  assumes "manager_history st st1"
  shows "list_all2 (\<lambda>b b1. \<exists>subs. bp_partner b1 = (bp_partner b)\<lparr>prt_subscriptions := subs\<rparr> \<and>
      subs_kept (prt_subscriptions (bp_partner b)) subs) (snd st) (snd st1)"
proof -
  have "list_all2 untouched (snd st) (snd st1)"
    using assms
  proof induction
    case (history_takes st st1 now model st2)
    from history_takes.IH run_untouched [OF history_takes.hyps(2)] show ?case by (rule list_untouched_trans)
  qed (auto intro: list_all2_refl untouched_refl)
  then show ?thesis unfolding untouched_def [abs_def] .
qed

lemma bc_run:
  "\<exists>b1. BroadcastManager_run 5 (bc_model []) (NewBroadcastManager\<lparr>bm_smbEventChan := Some (2000, [about_visit ''v''])\<rparr>,
      [bc_broadcasting [SIRI_STOP_MONITORING_SUBSCRIPTION_BROADCASTER] bc_subs])
    (NewBroadcastManager, [b1]) \<and> smsb_toBroadcast (bp_sm b1) = [(''s'', [''v''])]"
proof -
  let ?p = "bc_partner\<lparr>prt_connectors := [SIRI_STOP_MONITORING_SUBSCRIPTION_BROADCASTER], prt_subscriptions := bc_subs\<rparr>"
  let ?b = "bc_broadcasting [SIRI_STOP_MONITORING_SUBSCRIPTION_BROADCASTER] bc_subs"
  have kind: "remote_kind ?p = ''k''" "prt_slug ?p = ''p''" using bc_partner by (simp_all add: remote_kind_def)
  have up: "read_ascendants (bc_model []) (sv_StopAreaId (bc_visit ''v'' ''j'')) (remote_kind ?p) = Some [NewObjectID ''k'' ''a'']"
    by (simp add: bc_parts kind bc_ascendants)
  have ok: "checkable (bc_model []) (bc_visit ''v'' ''j'') bc_subs"
    by (rule keeps_checkable [OF bc_subs(2)]) (simp add: bc_subs(3))
  have "queued_for 5 (bc_model []) (bc_visit ''v'' ''j'') bc_subs [NewObjectID ''k'' ''a''] = [''s'']"
    using bc_subs(3) [of "bc_sub ''s'' StopMonitoringBroadcast ''a''" "bc_model []"]
    by (simp add: queued_for_def broadcast_to_def MemorySubscriptions_FindByResourceId_def wanting_def wants_def on_line_def
        Subscription_Resource_def bc_sub_def bc_resource_def SubscribedResource_LastState_def mhas_def)
  then obtain subs1 where
    check: "SIRIStopMonitoringSubscriptionBroadcaster_checkEvent 5 ?p (bc_model []) (bc_visit ''v'' ''j'') bc_subs = Some (subs1, [''s''])"
    using checkEvent_queues [OF bc_subs(1) ok up, of 5] by (auto simp: bc_parts kind)
  have visit: "read_visit (bc_model []) ''v'' = Some (bc_visit ''v'' ''j'')" using bc_ids(2) by (simp add: bc_reads)
  let ?b1 = "(keep_subs subs1 ?b)\<lparr>bp_sm := SIRIStopMonitoringSubscriptionBroadcaster_addStopVisit [''s''] ''v'' (bp_sm ?b)\<rparr>"
  have connector: "Partner_Connector ?p SIRI_STOP_MONITORING_SUBSCRIPTION_BROADCASTER"
    "\<not> Partner_Connector ?p SIRI_ESTIMATED_TIMETABLE_SUBSCRIPTION_BROADCASTER"
    "\<not> Partner_Connector ?p TEST_ESTIMATED_TIMETABLE_SUBSCRIPTION_BROADCASTER"
    by code_simp+
  have "smsb_event 5 (bc_model []) (about_visit ''v'') ?b = Some ?b1"
    using connector check handle_visit_event [OF visit, of 5 ?p]
    by (simp add: smsb_event_def bc_broadcasting_def handle_visit_def bc_parts)
  then have sm: "BroadcastManager_smsbEvent_handler 5 (bc_model []) (about_visit ''v'') [?b] = Some [?b1]"
    using connector by (simp add: BroadcastManager_smsbEvent_handler_def has_one_of_def bc_broadcasting_def)
  have "\<not> has_one_of [SIRI_ESTIMATED_TIMETABLE_SUBSCRIPTION_BROADCASTER, TEST_ESTIMATED_TIMETABLE_SUBSCRIPTION_BROADCASTER] ?b1"
    using connector by (simp add: has_one_of_def keep_subs_def bc_broadcasting_def Partner_Connector_def has_connector_def)
  then have ett: "BroadcastManager_ettsbEvent_handler 5 (bc_model []) (about_visit ''v'') [?b1] = Some [?b1]"
    by (simp add: BroadcastManager_ettsbEvent_handler_def)
  have "smsb_toBroadcast (bp_sm ?b1) = [(''s'', [''v''])]"
    by (simp add: SIRIStopMonitoringSubscriptionBroadcaster_addStopVisit_def bc_broadcasting_def mget_or_def
        newSIRIStopMonitoringSubscriptionBroadcaster_def)
  with stop_monitoring [OF _ sm ett, of "NewBroadcastManager\<lparr>bm_smbEventChan := Some (2000, [about_visit ''v''])\<rparr>" 2000 "[]"]
  show ?thesis by (auto simp: NewBroadcastManager_def)
qed

theorem events_keep_subscriptions_witness:
  "\<exists>b1 subs. manager_history (NewBroadcastManager\<lparr>bm_smbEventChan := chan_send (about_visit ''v'') (bm_smbEventChan NewBroadcastManager)\<rparr>,
      [bc_broadcasting [SIRI_STOP_MONITORING_SUBSCRIPTION_BROADCASTER] bc_subs]) (NewBroadcastManager, [b1]) \<and>
    smsb_toBroadcast (bp_sm b1) = [(''s'', [''v''])] \<and> prt_subscriptions (bp_partner b1) = subs \<and> subs_kept bc_subs subs"
proof -
  from bc_run obtain b1 where
    run: "BroadcastManager_run 5 (bc_model []) (NewBroadcastManager\<lparr>bm_smbEventChan := Some (2000, [about_visit ''v''])\<rparr>,
      [bc_broadcasting [SIRI_STOP_MONITORING_SUBSCRIPTION_BROADCASTER] bc_subs]) (NewBroadcastManager, [b1])" and
    queue: "smsb_toBroadcast (bp_sm b1) = [(''s'', [''v''])]" by blast
  have "chan_send (about_visit ''v'') (bm_smbEventChan NewBroadcastManager) = Some (2000, [about_visit ''v''])"
    by (simp add: chan_send_def NewBroadcastManager_def)
  with history_takes [OF history_start run] have history: "manager_history
      (NewBroadcastManager\<lparr>bm_smbEventChan := chan_send (about_visit ''v'') (bm_smbEventChan NewBroadcastManager)\<rparr>,
       [bc_broadcasting [SIRI_STOP_MONITORING_SUBSCRIPTION_BROADCASTER] bc_subs]) (NewBroadcastManager, [b1])" by simp
  from events_keep_subscriptions [OF history] have "subs_kept bc_subs (prt_subscriptions (bp_partner b1))"
    by (auto simp: bc_broadcasting_def)
  with history queue show ?thesis by blast
qed

end
