(* ===== verification/Spec2Isabelle.thy ===== *)
theory Spec2Isabelle
  imports VisitUpdates Collectors PartnerApi DispatchProps
begin

text \<open>
  A model of Ara, a server that exchanges real-time public transport data (SIRI) between partners,
  written in Go, and the theorems about it. Ara collects updates from its partners, applies them to
  an in-memory model of stop areas, lines, vehicle journeys, stop visits, vehicles, situations and
  operators, and broadcasts the changes to the partners that subscribed.

  The data and the model:

  \<^item> \<open>Prelude\<close>: Go maps, time stamps, locations, crashes. \<open>Uuid\<close>: \<^verbatim>\<open>uuid/uuid_interface.go\<close>.
    \<open>GoStrings\<close>, \<open>GoTime\<close>: the functions of Go's \<^verbatim>\<open>strings\<close>, \<^verbatim>\<open>strconv\<close> and \<^verbatim>\<open>time\<close> that the code uses.
  \<^item> \<open>ObjectIds\<close>, \<open>Indexes\<close>: external identifiers (\<^verbatim>\<open>model/objectid.go\<close>) and the two index
    structures (\<^verbatim>\<open>objectid_index.go\<close>, \<^verbatim>\<open>index.go\<close>), each refined against what it should map.
  \<^item> \<open>Values\<close>, \<open>Schedules\<close>: attributes, references, origins, schedules.
  \<^item> \<open>Stores\<close>: the contract of the in-memory managers and of their transactional overlays as
    locales; \<open>Lines\<close>, \<open>StopAreas\<close>, \<open>VehicleJourneys\<close>, \<open>StopVisits\<close>, \<open>Situations\<close>,
    \<open>Operators\<close>, \<open>Vehicles\<close>: the objects, the managers \<^verbatim>\<open>Memory*\<close> and \<^verbatim>\<open>Transactional*\<close>, and
    the interpretation of the locales on them (\<open>mem_lines\<close>, \<open>tx_lines\<close>, ...). \<open>Walks\<close>: the
    recursive searches of the stop area hierarchy.
  \<^item> \<open>Model\<close>: the memory model, the transactional model, transactions and the broadcast channels.
  \<^item> \<open>Updates\<close>: the update manager and the situation updater; \<open>UpdateProps\<close>, \<open>VisitUpdates\<close>:
    what each handler does to the model.

  Partners and referentials:

  \<^item> \<open>Errors\<close>: the errors of a definition (\<^verbatim>\<open>core/errors.go\<close>). \<open>Credentials\<close>:
    \<^verbatim>\<open>core/local_credentials_index.go\<close>. \<open>Settings\<close>: the settings of a partner with their two caches, what it
    collects, and the generators of identifiers. \<open>Cache\<close>: the cached items and tables of \<^verbatim>\<open>cache/\<close> and the feed
    that \<^verbatim>\<open>api/gtfs_handler.go\<close> keeps in them; a timer is the time at which it fires.
  \<^item> \<open>Partners\<close>: partners and their connectors (\<^verbatim>\<open>core/partner.go\<close>, \<^verbatim>\<open>connector.go\<close>); \<open>PartnerManagers\<close>:
    their definitions, the validation, the manager and the operations of \<^verbatim>\<open>api/partner_controller.go\<close>;
    \<open>PartnerProps\<close>, \<open>PartnerApi\<close>: the invariant of the manager and the histories of the API.
  \<^item> \<open>Referentials\<close>: referentials, their manager (\<^verbatim>\<open>core/referential.go\<close>) and
    \<^verbatim>\<open>api/referential_controller.go\<close>; \<open>ReferentialApi\<close>: the histories of the API, and when a model is reloaded.

  Collecting:

  \<^item> \<open>SiriXml\<close>, \<open>SiriMessages\<close>: reading SIRI documents (\<^verbatim>\<open>siri/\<close>); \<open>SiriReads\<close>: the order of reading does not
    matter, but for two methods. \<open>Builders\<close>: from documents to update events.
  \<^item> \<open>Subscriptions\<close>: \<^verbatim>\<open>core/subscription.go\<close>. \<open>Collectors\<close>: how subscriptions are asked for, answered,
    retried and ended (\<^verbatim>\<open>siri_*_subscription_collector.go\<close>, \<^verbatim>\<open>siri_*_subscriber.go\<close>, \<^verbatim>\<open>partner_guardian.go\<close>), as
    a step relation.
  \<^item> \<open>Collecting\<close>, \<open>Notifications\<close>: \<^verbatim>\<open>core/collect_manager.go\<close>, the connectors that ask, and what is done
    with a notification; \<open>CollectProps\<close>, \<open>NotifyProps\<close>: who is asked, and what becomes of what is answered.
  \<^item> \<open>Guardians\<close>, \<open>GuardianProps\<close>: the guardians of the model and of the partners.

  Broadcasting:

  \<^item> \<open>LastStates\<close>: when a visit, a stop area or a situation has changed enough to be broadcast again
    (\<^verbatim>\<open>core/last_states.go\<close>), with durations as 64-bit words.
  \<^item> \<open>BroadcastBuilders\<close>: what is sent of a stop visit. \<open>Broadcasters\<close>, \<open>MessageBroadcasts\<close>,
    \<open>EstimatedTimetables\<close>: for each of the three kinds the connector, which takes events and requests for
    subscriptions, and the tick of the routine that makes the notifications (\<^verbatim>\<open>core/siri_*_subscription_broadcaster.go\<close>
    and \<^verbatim>\<open>core/*_broadcaster.go\<close>). \<open>Dispatching\<close>: how events and requests reach them.
  \<^item> \<open>BroadcastProps\<close>, \<open>BroadcastTicks\<close>: which visits an event queues, what a tick sends of a queue, and
    what becomes of a visit that cannot be built; \<open>TimetableProps\<close>: the deliveries of estimated timetables;
    \<open>DispatchProps\<close>: answers to requests, cancellation, and what events leave of the subscriptions.

  How the model reads the code:

  \<^item> A struct is a record with the fields in order, a pointer that is stored is the value stored:
    the managers hand out copies, which the model checks to be faithful (\<open>StopArea_copy_id\<close>, ...).
    Subscriptions and resources are pointers: they are changed where they are stored. The slices that a definition
    shares with a partner or a referential, into which the decoder of JSON writes, are modelled in
    \<open>PartnerManagers\<close> and \<open>Referentials\<close>. What else copies share (the identifier table) is not mutated through them
    by the modelled code, and the sharing is not modelled.
  \<^item> A Go map is an association list with distinct keys whose order stands for the unspecified order
    of \<^verbatim>\<open>range\<close>; every statement holds for all orders.
  \<^item> \<^const>\<open>None\<close> as the result of an operation that returns otherwise is a crash: a nil
    dereference, a failed assertion of a type, an unlock of an unlocked mutex, a channel closed twice, or a recursion
    without end. The searches of the hierarchy recurse with fuel one more than the number of stored areas; \<open>Walks\<close>
    shows that this is enough exactly when no cycle is reachable, and that no fuel is enough otherwise.
  \<^item> A time is its instant, as an unbounded number of nanoseconds. Where the operators \<^verbatim>\<open>==\<close> and \<^verbatim>\<open>!=\<close> are
    applied to times, the time has its location too: a parsed offset that the server's zone does not have then makes a
    location with an address of its own, so that no two such times are equal.
  \<^item> Operations are single steps; locks are modelled only where their misuse is the point. What a goroutine does
    is a step of its own (a tick, a visit of a guardian, an event taken from a channel), and what the program sends is a
    value that is returned or a log kept by the managers; channels are bounded.
  \<^item> Parameters: the clock (an argument), identifier generators and random numbers, the hash, the parser of durations,
    the text of a calendar day, time zones (the offset in force at an instant, since when and until when), the database
    loaders, the XML library, and the answers of the SOAP client.

  Not modelled: loading from SQL and CSV, the JSON form of objects (but for identifiers), the messages to BigQuery, the templates of SIRI
  messages, SOAP envelopes and the HTTP client and servers, the connectors that answer requests with messages built
  from the model (SIRI requests, SIRI Lite, GTFS-RT), the push collector, and configuration, logging, monitoring and
  auditing.
\<close>

end
